(* ===== verification/Prelude.thy ===== *)
theory Prelude
  imports Main "HOL-Library.AList" "HOL-Library.Sublist"
begin

text \<open>
  What every component shares: JavaScript values that survive JSON (\<open>json\<close>), objects as
  association lists in \<open>Object.entries\<close> order, the few string operations of the language
  that the code uses, errors as values, and effectful code as functions from a state to a
  result and a state.  \<open>undefined\<close> is \<open>None\<close> of \<open>json option\<close>.  Strings are lists of code units
  below 256.  A number is kept as the text that \<open>String(n)\<close> gives, so that \<open>===\<close> on finite
  numbers is equality of the texts.
\<close>

named_theorems frame_intros \<open>rules that lift a frame condition through the effect combinators\<close>
named_theorems act_simps \<open>evaluation of the effect combinators\<close>

section \<open>Errors and results\<close>

record js_error =
  err_name :: string
  err_message :: string
  err_codeName :: "string option"

type_synonym 'a res = "js_error + 'a"

definition mk_error :: "string \<Rightarrow> string \<Rightarrow> js_error" where
  "mk_error n m = \<lparr>err_name = n, err_message = m, err_codeName = None\<rparr>"

definition TypeError :: "string \<Rightarrow> js_error" where
  "TypeError m = mk_error ''TypeError'' m"

definition InvariantError :: "string \<Rightarrow> js_error" where
  "InvariantError m = mk_error ''Invariant Violation'' m"

definition res_bind :: "'a res \<Rightarrow> ('a \<Rightarrow> 'b res) \<Rightarrow> 'b res" where
  "res_bind r f = (case r of Inl e \<Rightarrow> Inl e | Inr x \<Rightarrow> f x)"

lemma res_bind_simps [simp]:
  "res_bind (Inl e) f = Inl e"
  "res_bind (Inr x) f = f x"
  by (simp_all add: res_bind_def)

lemma res_bind_eq_Inr [simp]: "res_bind r f = Inr y \<longleftrightarrow> (\<exists>x. r = Inr x \<and> f x = Inr y)"
  by (cases r) auto

lemma res_bind_cong [fundef_cong]:
  "r = r' \<Longrightarrow> (\<And>x. r' = Inr x \<Longrightarrow> f x = g x) \<Longrightarrow> res_bind r f = res_bind r' g"
  by (cases r') simp_all

fun res_map :: "('a \<Rightarrow> 'b res) \<Rightarrow> 'a list \<Rightarrow> 'b list res" where
  "res_map f [] = Inr []"
| "res_map f (x # xs) = res_bind (f x) (\<lambda>y. res_bind (res_map f xs) (\<lambda>ys. Inr (y # ys)))"

lemma res_map_cong [fundef_cong]:
  "xs = ys \<Longrightarrow> (\<And>x. x \<in> set ys \<Longrightarrow> f x = g x) \<Longrightarrow> res_map f xs = res_map g ys"
  by (induction ys arbitrary: xs) auto

lemma res_map_Inr_iff: "res_map f xs = Inr ys \<longleftrightarrow> list_all2 (\<lambda>x y. f x = Inr y) xs ys"
  by (induction xs arbitrary: ys) (auto simp: list_all2_Cons1)

lemma res_map_total: "(\<And>x. x \<in> set xs \<Longrightarrow> f x = Inr (g x)) \<Longrightarrow> res_map f xs = Inr (map g xs)"
  by (induction xs) auto

lemma res_map_exists: "(\<And>x. x \<in> set xs \<Longrightarrow> \<exists>y. f x = Inr y) \<Longrightarrow> \<exists>ys. res_map f xs = Inr ys"
  by (induction xs) auto

lemma res_map_length: "res_map f xs = Inr ys \<Longrightarrow> length ys = length xs"
  by (auto simp: res_map_Inr_iff dest: list_all2_lengthD)

lemma res_map_nth: "res_map f xs = Inr ys \<Longrightarrow> i < length xs \<Longrightarrow> f (xs ! i) = Inr (ys ! i)"
  by (auto simp: res_map_Inr_iff list_all2_conv_all_nth)

lemma res_map_member:
  "res_map f xs = Inr ys \<Longrightarrow> y \<in> set ys \<Longrightarrow> \<exists>x \<in> set xs. f x = Inr y"
  by (induction xs arbitrary: ys) auto

lemma res_map_source: "res_map f xs = Inr ys \<Longrightarrow> x \<in> set xs \<Longrightarrow> \<exists>y \<in> set ys. f x = Inr y"
  by (induction xs arbitrary: ys) auto

section \<open>Effects: state passing with errors\<close>

type_synonym ('a, 's) act = "'s \<Rightarrow> 'a res \<times> 's"

definition ret :: "'a \<Rightarrow> ('a, 's) act" where
  "ret x = (\<lambda>s. (Inr x, s))"

definition throw :: "js_error \<Rightarrow> ('a, 's) act" where
  "throw e = (\<lambda>s. (Inl e, s))"

definition lift :: "'a res \<Rightarrow> ('a, 's) act" where
  "lift r = (\<lambda>s. (r, s))"

definition bnd :: "('a, 's) act \<Rightarrow> ('a \<Rightarrow> ('b, 's) act) \<Rightarrow> ('b, 's) act" where
  "bnd m f = (\<lambda>s. case m s of (Inl e, s') \<Rightarrow> (Inl e, s') | (Inr x, s') \<Rightarrow> f x s')"

definition try_catch :: "('a, 's) act \<Rightarrow> (js_error \<Rightarrow> ('a, 's) act) \<Rightarrow> ('a, 's) act" where
  "try_catch m h = (\<lambda>s. case m s of (Inl e, s') \<Rightarrow> h e s' | (Inr x, s') \<Rightarrow> (Inr x, s'))"

fun mapM :: "('a \<Rightarrow> ('b, 's) act) \<Rightarrow> 'a list \<Rightarrow> ('b list, 's) act" where
  "mapM f [] = ret []"
| "mapM f (x # xs) = bnd (f x) (\<lambda>y. bnd (mapM f xs) (\<lambda>ys. ret (y # ys)))"

lemma act_eval [act_simps]:
  "ret x s = (Inr x, s)"
  "throw e s = (Inl e, s)"
  "lift r s = (r, s)"
  "bnd m f s = (case m s of (Inl e, s') \<Rightarrow> (Inl e, s') | (Inr y, s') \<Rightarrow> f y s')"
  "try_catch m h s = (case m s of (Inl e, s') \<Rightarrow> h e s' | (Inr y, s') \<Rightarrow> (Inr y, s'))"
  by (simp_all add: ret_def throw_def lift_def bnd_def try_catch_def)

lemma bnd_ret [simp]: "bnd (ret x) f = f x"
  by (rule ext) (simp add: act_simps)

lemma bnd_throw [simp]: "bnd (throw e) f = throw e"
  by (rule ext) (simp add: act_simps)

lemma lift_Inr [simp]: "lift (Inr x) = ret x"
  by (rule ext) (simp add: act_simps)

lemma lift_Inl [simp]: "lift (Inl e) = throw e"
  by (rule ext) (simp add: act_simps)

lemma try_catch_ret [simp]: "try_catch (ret x) h = ret x"
  by (rule ext) (simp add: act_simps)

lemma try_catch_throw [simp]: "try_catch (throw e) h = h e"
  by (rule ext) (simp add: act_simps)

lemma bnd_assoc: "bnd (bnd m f) g = bnd m (\<lambda>x. bnd (f x) g)"
  by (rule ext) (simp add: act_simps split: prod.splits sum.splits)

lemma bnd_InrE:
  assumes "bnd m f s = (Inr y, s')"
  obtains x s1 where "m s = (Inr x, s1)" "f x s1 = (Inr y, s')"
  using assms by (auto simp: act_simps split: prod.splits sum.splits)

lemma fst_bnd_InrE:
  assumes "fst (bnd m f s) = Inr y"
  obtains x s1 where "m s = (Inr x, s1)" "fst (f x s1) = Inr y"
  using assms by (auto simp: act_simps split: prod.splits sum.splits)

text \<open>\<open>preserves v m\<close>: running \<open>m\<close> leaves the view \<open>v\<close> of the state as it was.\<close>

definition preserves :: "('s \<Rightarrow> 'v) \<Rightarrow> ('a, 's) act \<Rightarrow> bool" where
  "preserves v m \<longleftrightarrow> (\<forall>s. v (snd (m s)) = v s)"

lemma preservesI: "(\<And>s. v (snd (m s)) = v s) \<Longrightarrow> preserves v m"
  by (simp add: preserves_def)

lemma preservesD: "preserves v m \<Longrightarrow> v (snd (m s)) = v s"
  by (simp add: preserves_def)

lemma preserves_run: "preserves v m \<Longrightarrow> m s = (r, s') \<Longrightarrow> v s' = v s"
  by (metis preservesD snd_conv)

lemma preserves_ret [frame_intros]: "preserves v (ret x)"
  by (simp add: preserves_def act_simps)

lemma preserves_throw [frame_intros]: "preserves v (throw e)"
  by (simp add: preserves_def act_simps)

lemma preserves_lift [frame_intros]: "preserves v (lift r)"
  by (simp add: preserves_def act_simps)

lemma preserves_bnd [frame_intros]:
  assumes "preserves v m" "\<And>x. preserves v (f x)"
  shows "preserves v (bnd m f)"
proof (rule preservesI)
  fix s
  show "v (snd (bnd m f s)) = v s"
    using assms preserves_run [OF assms(1)] preservesD [OF assms(2)]
    by (cases "m s") (auto simp: act_simps split: sum.splits)
qed

lemma preserves_try_catch [frame_intros]:
  assumes "preserves v m" "\<And>e. preserves v (h e)"
  shows "preserves v (try_catch m h)"
proof (rule preservesI)
  fix s
  show "v (snd (try_catch m h s)) = v s"
    using preserves_run [OF assms(1)] preservesD [OF assms(2)]
    by (cases "m s") (auto simp: act_simps split: sum.splits)
qed

lemma preserves_if [frame_intros]:
  "(b \<Longrightarrow> preserves v m) \<Longrightarrow> (\<not> b \<Longrightarrow> preserves v n) \<Longrightarrow> preserves v (if b then m else n)"
  by simp

lemma preserves_option [frame_intros]:
  "(x = None \<Longrightarrow> preserves v m) \<Longrightarrow> (\<And>y. x = Some y \<Longrightarrow> preserves v (f y)) \<Longrightarrow>
   preserves v (case x of None \<Rightarrow> m | Some y \<Rightarrow> f y)"
  by (simp split: option.split)

lemma preserves_mapM [frame_intros]: "(\<And>x. preserves v (f x)) \<Longrightarrow> preserves v (mapM f xs)"
  by (induction xs) (auto intro!: frame_intros)

text \<open>\<open>triple I m Q\<close>: from a state with the invariant \<open>I\<close>, running \<open>m\<close> ends in a state with \<open>I\<close>,
  and a result that is not an error satisfies \<open>Q\<close>.\<close>

definition triple :: "('s \<Rightarrow> bool) \<Rightarrow> ('a, 's) act \<Rightarrow> ('a \<Rightarrow> bool) \<Rightarrow> bool" where
  "triple I m Q \<longleftrightarrow> (\<forall>s. I s \<longrightarrow> I (snd (m s)) \<and> (\<forall>x. fst (m s) = Inr x \<longrightarrow> Q x))"

named_theorems triple_intros \<open>rules that lift an invariant through the effect combinators\<close>

lemma tripleI:
  "(\<And>s r s'. I s \<Longrightarrow> m s = (r, s') \<Longrightarrow> I s' \<and> (\<forall>x. r = Inr x \<longrightarrow> Q x)) \<Longrightarrow> triple I m Q"
  unfolding triple_def by (metis prod.collapse)

lemma tripleD: "triple I m Q \<Longrightarrow> I s \<Longrightarrow> m s = (r, s') \<Longrightarrow> I s' \<and> (\<forall>x. r = Inr x \<longrightarrow> Q x)"
  unfolding triple_def by (metis fst_conv snd_conv)

lemma triple_ret [triple_intros]: "Q x \<Longrightarrow> triple I (ret x) Q"
  by (simp add: triple_def act_simps)

lemma triple_throw [triple_intros]: "triple I (throw e) Q"
  by (simp add: triple_def act_simps)

lemma triple_lift [triple_intros]: "(\<And>x. r = Inr x \<Longrightarrow> Q x) \<Longrightarrow> triple I (lift r) Q"
  by (simp add: triple_def act_simps)

lemma triple_bnd [triple_intros]:
  assumes "triple I m P" "\<And>x. P x \<Longrightarrow> triple I (f x) Q"
  shows "triple I (bnd m f) Q"
proof (rule tripleI)
  fix s r s'
  assume "I s" "bnd m f s = (r, s')"
  then show "I s' \<and> (\<forall>x. r = Inr x \<longrightarrow> Q x)"
    using tripleD [OF assms(1) \<open>I s\<close>] tripleD [OF assms(2)]
    by (cases "m s") (auto simp: act_simps split: sum.splits)
qed

lemma triple_try_catch [triple_intros]:
  assumes "triple I m Q" "\<And>e. triple I (h e) Q"
  shows "triple I (try_catch m h) Q"
proof (rule tripleI)
  fix s r s'
  assume "I s" "try_catch m h s = (r, s')"
  then show "I s' \<and> (\<forall>x. r = Inr x \<longrightarrow> Q x)"
    using tripleD [OF assms(1) \<open>I s\<close>] tripleD [OF assms(2)]
    by (cases "m s") (auto simp: act_simps split: sum.splits)
qed

lemma triple_if [triple_intros]:
  "(b \<Longrightarrow> triple I m Q) \<Longrightarrow> (\<not> b \<Longrightarrow> triple I n Q) \<Longrightarrow> triple I (if b then m else n) Q"
  by simp

lemma triple_option [triple_intros]:
  "(x = None \<Longrightarrow> triple I m Q) \<Longrightarrow> (\<And>y. x = Some y \<Longrightarrow> triple I (f y) Q) \<Longrightarrow>
   triple I (case x of None \<Rightarrow> m | Some y \<Rightarrow> f y) Q"
  by (simp split: option.split)

lemma triple_sum [triple_intros]:
  "(\<And>y. x = Inl y \<Longrightarrow> triple I (f y) Q) \<Longrightarrow> (\<And>y. x = Inr y \<Longrightarrow> triple I (g y) Q) \<Longrightarrow>
   triple I (case x of Inl y \<Rightarrow> f y | Inr y \<Rightarrow> g y) Q"
  by (simp split: sum.split)

lemma triple_conseq: "triple I m P \<Longrightarrow> (\<And>x. P x \<Longrightarrow> Q x) \<Longrightarrow> triple I m Q"
  by (simp add: triple_def)

lemma triple_state: "(\<And>t. triple I (f t) Q) \<Longrightarrow> triple I (\<lambda>s. f s s) Q"
  by (simp add: triple_def)

text \<open>\<open>hoare P m Q\<close>: a run of \<open>m\<close> from a state with \<open>P\<close> that does not throw ends in a result and a
  state with \<open>Q\<close>.\<close>

definition hoare :: "('s \<Rightarrow> bool) \<Rightarrow> ('a, 's) act \<Rightarrow> ('a \<Rightarrow> 's \<Rightarrow> bool) \<Rightarrow> bool" where
  "hoare P m Q \<longleftrightarrow> (\<forall>s x s'. P s \<longrightarrow> m s = (Inr x, s') \<longrightarrow> Q x s')"

named_theorems hoare_intros \<open>rules of partial correctness for the effect combinators\<close>

lemma hoareI: "(\<And>s x s'. P s \<Longrightarrow> m s = (Inr x, s') \<Longrightarrow> Q x s') \<Longrightarrow> hoare P m Q"
  by (simp add: hoare_def)

lemma hoareD: "hoare P m Q \<Longrightarrow> P s \<Longrightarrow> m s = (Inr x, s') \<Longrightarrow> Q x s'"
  by (simp add: hoare_def)

lemma hoare_ret [hoare_intros]: "(\<And>s. P s \<Longrightarrow> Q x s) \<Longrightarrow> hoare P (ret x) Q"
  by (auto simp: hoare_def act_simps)

lemma hoare_throw [hoare_intros]: "hoare P (throw e) Q"
  by (simp add: hoare_def act_simps)

lemma hoare_lift [hoare_intros]: "(\<And>s x. P s \<Longrightarrow> r = Inr x \<Longrightarrow> Q x s) \<Longrightarrow> hoare P (lift r) Q"
  by (auto simp: hoare_def act_simps)

lemma hoare_bnd [hoare_intros]: "hoare P m R \<Longrightarrow> (\<And>x. hoare (R x) (f x) Q) \<Longrightarrow> hoare P (bnd m f) Q"
  by (auto simp: hoare_def elim!: bnd_InrE)

lemma hoare_if [hoare_intros]:
  "(b \<Longrightarrow> hoare P m Q) \<Longrightarrow> (\<not> b \<Longrightarrow> hoare P n Q) \<Longrightarrow> hoare P (if b then m else n) Q"
  by simp

lemma hoare_option [hoare_intros]:
  "(x = None \<Longrightarrow> hoare P m Q) \<Longrightarrow> (\<And>y. x = Some y \<Longrightarrow> hoare P (f y) Q) \<Longrightarrow>
   hoare P (case x of None \<Rightarrow> m | Some y \<Rightarrow> f y) Q"
  by (simp split: option.split)

lemma hoare_conseq: "hoare P m Q \<Longrightarrow> (\<And>s. P' s \<Longrightarrow> P s) \<Longrightarrow> (\<And>x s. Q x s \<Longrightarrow> Q' x s) \<Longrightarrow> hoare P' m Q'"
  unfolding hoare_def by blast

text \<open>\<open>try m finally fin\<close>: an error of \<open>fin\<close> replaces the result of \<open>m\<close>.\<close>

definition finally_do :: "('a, 's) act \<Rightarrow> (unit, 's) act \<Rightarrow> ('a, 's) act" where
  "finally_do m fin = (\<lambda>s. case m s of (r, s1) \<Rightarrow>
     (case fin s1 of (Inl e, s2) \<Rightarrow> (Inl e, s2) | (Inr _, s2) \<Rightarrow> (r, s2)))"

section \<open>JSON values and objects\<close>

datatype json =
    JNull
  | JBool bool
  | JNum string
  | JStr string
  | JArr "json list"
  | JObj "(string \<times> json) list"

type_synonym js_object = "(string \<times> json) list"

fun js_join :: "string \<Rightarrow> string list \<Rightarrow> string" where
  "js_join sep [] = ''''"
| "js_join sep [x] = x"
| "js_join sep (x # y # xs) = x @ sep @ js_join sep (y # xs)"

text \<open>The text of a value in a template literal, \<open>String(v)\<close>.\<close>

fun js_to_string :: "json \<Rightarrow> string" where
  "js_to_string JNull = ''null''"
| "js_to_string (JBool b) = (if b then ''true'' else ''false'')"
| "js_to_string (JNum n) = n"
| "js_to_string (JStr s) = s"
| "js_to_string (JArr xs) =
     js_join '','' (map (\<lambda>x. if x = JNull then '''' else js_to_string x) xs)"
| "js_to_string (JObj kvs) = ''[object Object]''"

definition js_opt_to_string :: "json option \<Rightarrow> string" where
  "js_opt_to_string v = (case v of None \<Rightarrow> ''undefined'' | Some j \<Rightarrow> js_to_string j)"

definition hex_digit :: "nat \<Rightarrow> char" where
  "hex_digit n = ''0123456789abcdef'' ! n"

definition json_escape_char :: "char \<Rightarrow> string" where
  "json_escape_char c =
     (if c = CHR 0x22 then [CHR 0x5C, CHR 0x22]
      else if c = CHR 0x5C then [CHR 0x5C, CHR 0x5C]
      else if c = CHR 0x08 then [CHR 0x5C, CHR ''b'']
      else if c = CHR 0x09 then [CHR 0x5C, CHR ''t'']
      else if c = CHR 0x0A then [CHR 0x5C, CHR ''n'']
      else if c = CHR 0x0C then [CHR 0x5C, CHR ''f'']
      else if c = CHR 0x0D then [CHR 0x5C, CHR ''r'']
      else if (of_char c :: nat) < 32 then
        [CHR 0x5C] @ ''u00'' @ [hex_digit (of_char c div 16), hex_digit (of_char c mod 16)]
      else [c])"

definition json_quote :: "string \<Rightarrow> string" where
  "json_quote s = [CHR 0x22] @ concat (map json_escape_char s) @ [CHR 0x22]"

text \<open>\<open>JSON.stringify\<close> without indentation.\<close>

fun json_stringify :: "json \<Rightarrow> string" where
  "json_stringify JNull = ''null''"
| "json_stringify (JBool b) = (if b then ''true'' else ''false'')"
| "json_stringify (JNum n) = n"
| "json_stringify (JStr s) = json_quote s"
| "json_stringify (JArr xs) = ''['' @ js_join '','' (map json_stringify xs) @ '']''"
| "json_stringify (JObj kvs) =
     ''{'' @ js_join '','' (map (\<lambda>kv. json_quote (fst kv) @ '':'' @ json_stringify (snd kv)) kvs) @ ''}''"

text \<open>Reading and writing a property.  Assigning keeps the place of a key that is there and
  appends a new one, as \<open>Object.entries\<close> lists string keys.\<close>

definition js_get :: "string \<Rightarrow> js_object \<Rightarrow> json option" where
  "js_get k kvs = map_of kvs k"

definition js_assign :: "(string \<times> 'v) list \<Rightarrow> (string \<times> 'v) list \<Rightarrow> (string \<times> 'v) list" where
  "js_assign target source = fold (\<lambda>(k, v). AList.update k v) source target"

lemma js_assign_Nil [simp]: "js_assign t [] = t"
  by (simp add: js_assign_def)

lemma map_of_js_assign:
  "distinct (map fst source) \<Longrightarrow> map_of (js_assign target source) = map_of target ++ map_of source"
proof (induction source arbitrary: target)
  case Nil
  then show ?case by simp
next
  case (Cons kv source)
  obtain k v where kv: "kv = (k, v)" by (cases kv)
  have "map_of (js_assign target (kv # source)) = map_of (AList.update k v target) ++ map_of source"
    using Cons by (simp add: js_assign_def kv)
  moreover have "k \<notin> dom (map_of source)" using Cons.prems kv by (auto simp: dom_map_of_conv_image_fst)
  ultimately show ?case
    by (auto simp: kv update_conv' map_add_def fun_eq_iff split: option.splits)
qed

text \<open>\<open>x == null\<close> holds for \<open>null\<close> and for \<open>undefined\<close>.\<close>

definition is_nullish :: "json option \<Rightarrow> bool" where
  "is_nullish v \<longleftrightarrow> v = None \<or> v = Some JNull"

section \<open>Strings\<close>

definition lower_char :: "char \<Rightarrow> char" where
  "lower_char c =
     (let n = of_char c :: nat in
      if 65 \<le> n \<and> n \<le> 90 \<or> 192 \<le> n \<and> n \<le> 222 \<and> n \<noteq> 215 then char_of (n + 32) else c)"

definition js_toLowerCase :: "string \<Rightarrow> string" where
  "js_toLowerCase s = map lower_char s"

lemma lower_char_idem [simp]: "lower_char (lower_char c) = lower_char c"
  by (auto simp: lower_char_def Let_def of_char_of)

lemma js_toLowerCase_idem [simp]: "js_toLowerCase (js_toLowerCase s) = js_toLowerCase s"
  by (simp add: js_toLowerCase_def)

lemma length_js_toLowerCase [simp]: "length (js_toLowerCase s) = length s"
  by (simp add: js_toLowerCase_def)

text \<open>\<open>s.split(c)\<close> for a one-character separator.\<close>

fun split_on :: "char \<Rightarrow> string \<Rightarrow> string list" where
  "split_on c [] = [[]]"
| "split_on c (x # xs) =
     (if x = c then [] # split_on c xs
      else (case split_on c xs of [] \<Rightarrow> [[x]] | y # ys \<Rightarrow> (x # y) # ys))"

lemma split_on_neq_Nil [simp]: "split_on c s \<noteq> []"
  by (induction s) (auto split: list.splits)

lemma js_join_split_on [simp]: "js_join [c] (split_on c s) = s"
proof (induction s)
  case (Cons x xs)
  then show ?case
    by (cases "split_on c xs"; cases "tl (split_on c xs)") (auto split: list.splits)
qed simp

lemma split_on_no_sep: "c \<notin> set s \<Longrightarrow> split_on c s = [s]"
  by (induction s) auto

lemma split_on_append_sep:
  "c \<notin> set s \<Longrightarrow> split_on c (s @ c # t) = s # split_on c t"
  by (induction s) (auto split: list.splits)

lemma split_on_part_no_sep: "p \<in> set (split_on c s) \<Longrightarrow> c \<notin> set p"
proof (induction s arbitrary: p)
  case (Cons x xs)
  then show ?case by (cases "split_on c xs") (auto split: if_splits)
qed simp

lemma split_on_js_join:
  "\<forall>p \<in> set ps. c \<notin> set p \<Longrightarrow> ps \<noteq> [] \<Longrightarrow> split_on c (js_join [c] ps) = ps"
  by (induction "[c]" ps rule: js_join.induct) (auto simp: split_on_no_sep split_on_append_sep)

lemma js_join_inj:
  assumes "\<forall>p \<in> set ps. c \<notin> set p" "\<forall>p \<in> set qs. c \<notin> set p"
    and "js_join [c] ps = js_join [c] qs" "ps \<noteq> []" "qs \<noteq> []"
  shows "ps = qs"
proof -
  have "ps = split_on c (js_join [c] ps)" by (rule split_on_js_join [OF assms(1,4), symmetric])
  also have "\<dots> = split_on c (js_join [c] qs)" by (simp only: assms(3))
  also have "\<dots> = qs" by (rule split_on_js_join [OF assms(2,5)])
  finally show ?thesis .
qed

definition js_startsWith :: "string \<Rightarrow> string \<Rightarrow> bool" where
  "js_startsWith s p \<longleftrightarrow> take (length p) s = p"

lemma js_startsWith_prefix: "js_startsWith s p \<longleftrightarrow> prefix p s"
  unfolding js_startsWith_def by (metis append_eq_conv_conj append_take_drop_id prefix_def)

definition js_endsWith :: "string \<Rightarrow> string \<Rightarrow> bool" where
  "js_endsWith s p \<longleftrightarrow> js_startsWith (rev s) (rev p)"

text \<open>Finite decimal numbers as text.\<close>

fun nat_to_string :: "nat \<Rightarrow> string" where
  "nat_to_string n =
     (if n < 10 then [char_of (48 + n)] else nat_to_string (n div 10) @ [char_of (48 + n mod 10)])"

declare nat_to_string.simps [simp del]

end
