(* ===== verification/Identity.thy ===== *)
theory Identity
  imports Prelude "HOL-Library.Word"
begin

text \<open>
  Identities (\<open>meadowlark-core/src/model\<close>): resource information, document identities, document
  references, superclass information, document information, and the \<open>meadowlarkId\<close> computed from
  them.  A \<open>DocumentIdentityElement\<close> is a JavaScript object; a key may hold \<open>undefined\<close>.  The
  SHAKE256 digest of OpenSSL is the parameter \<open>shake256 :: nat \<Rightarrow> string \<Rightarrow> 8 word list\<close> (output
  length in bytes, text); base64 is defined here, as Node encodes a digest.
\<close>

section \<open>The data of an identity\<close>

type_synonym DocumentIdentityElement = "(string \<times> json option) list"

type_synonym DocumentIdentity = "DocumentIdentityElement list"

type_synonym DocumentUuid = string
type_synonym MeadowlarkId = string
type_synonym TraceId = string
type_synonym DocumentObjectKey = string

record BaseResourceInfo =
  bri_projectName :: string
  bri_resourceName :: string
  bri_isDescriptor :: bool

record ResourceInfo = BaseResourceInfo +
  ri_resourceVersion :: string
  ri_allowIdentityUpdates :: bool

definition newResourceInfo :: ResourceInfo where
  "newResourceInfo = \<lparr>bri_projectName = '''', bri_resourceName = '''', bri_isDescriptor = False,
     ri_resourceVersion = '''', ri_allowIdentityUpdates = False\<rparr>"

definition NoResourceInfo :: ResourceInfo where
  "NoResourceInfo = \<lparr>bri_projectName = ''NoProjectName'', bri_resourceName = ''NoResourceName'',
     bri_isDescriptor = False, ri_resourceVersion = ''0.0.0'', ri_allowIdentityUpdates = False\<rparr>"

record DocumentReference =
  dr_projectName :: string
  dr_resourceName :: string
  dr_isDescriptor :: bool
  dr_documentIdentity :: DocumentIdentity

record SuperclassInfo =
  si_documentIdentity :: DocumentIdentity
  si_projectName :: string
  si_resourceName :: string

definition newSuperclassInfo :: SuperclassInfo where
  "newSuperclassInfo = \<lparr>si_documentIdentity = [], si_projectName = '''', si_resourceName = ''''\<rparr>"

record DocumentInfo =
  di_documentIdentity :: DocumentIdentity
  di_documentReferences :: "DocumentReference list"
  di_descriptorReferences :: "DocumentReference list"
  di_superclassInfo :: "SuperclassInfo option"
  di_requestTimestamp :: int

definition newDocumentInfo :: DocumentInfo where
  "newDocumentInfo = \<lparr>di_documentIdentity = [], di_documentReferences = [],
     di_descriptorReferences = [], di_superclassInfo = None, di_requestTimestamp = 0\<rparr>"

definition NoDocumentInfo :: DocumentInfo where
  "NoDocumentInfo = newDocumentInfo"

section \<open>Digest of a text\<close>

definition base64_alphabet :: string where
  "base64_alphabet = ''ABCDEFGHIJKLMNOPQRSTUVWXYZabcdefghijklmnopqrstuvwxyz0123456789+/''"

definition base64url_alphabet :: string where
  "base64url_alphabet = ''ABCDEFGHIJKLMNOPQRSTUVWXYZabcdefghijklmnopqrstuvwxyz0123456789-_''"

definition base64_char :: "nat \<Rightarrow> char" where
  "base64_char n = base64_alphabet ! n"

fun base64 :: "8 word list \<Rightarrow> string" where
  "base64 [] = ''''"
| "base64 [a] =
     [base64_char (unat a div 4), base64_char (unat a mod 4 * 16), CHR ''='', CHR ''='']"
| "base64 [a, b] =
     [base64_char (unat a div 4), base64_char (unat a mod 4 * 16 + unat b div 16),
      base64_char (unat b mod 16 * 4), CHR ''='']"
| "base64 (a # b # c # bs) =
     [base64_char (unat a div 4), base64_char (unat a mod 4 * 16 + unat b div 16),
      base64_char (unat b mod 16 * 4 + unat c div 64), base64_char (unat c mod 64)] @ base64 bs"

text \<open>\<open>replace(/=+$/, '')\<close> drops the trailing run of \<open>=\<close>.\<close>

definition toBase64Url :: "string \<Rightarrow> string" where
  "toBase64Url b =
     rev (dropWhile (\<lambda>c. c = CHR ''='')
       (rev (map (\<lambda>c. if c = CHR ''/'' then CHR ''_'' else c)
               (map (\<lambda>c. if c = CHR ''+'' then CHR ''-'' else c) b))))"

definition toHash :: "(nat \<Rightarrow> string \<Rightarrow> 8 word list) \<Rightarrow> string \<Rightarrow> nat \<Rightarrow> string" where
  "toHash shake256 data lengthInBytes = toBase64Url (base64 (shake256 lengthInBytes data))"

section \<open>The meadowlarkId\<close>

definition resourceInfoHashFrom ::
  "(nat \<Rightarrow> string \<Rightarrow> 8 word list) \<Rightarrow> 'a BaseResourceInfo_scheme \<Rightarrow> string" where
  "resourceInfoHashFrom shake256 r =
     toHash shake256 (bri_projectName r @ ''#'' @ bri_resourceName r) 12"

text \<open>\<open>JSON.stringify\<close> of an identity leaves out the keys that hold \<open>undefined\<close>.\<close>

definition identity_to_json :: "DocumentIdentity \<Rightarrow> json" where
  "identity_to_json di =
     JArr (map (\<lambda>el. JObj (concat (map (\<lambda>(k, v). case v of None \<Rightarrow> [] | Some j \<Rightarrow> [(k, j)]) el))) di)"

definition element_string ::
  "DocumentIdentity \<Rightarrow> DocumentIdentityElement \<Rightarrow> string res" where
  "element_string di el =
     (case el of
        [(k, v)] \<Rightarrow> Inr (k @ ''='' @ js_opt_to_string v)
      | _ \<Rightarrow> Inl (InvariantError (''DocumentIdentityElement for '' @ json_stringify (identity_to_json di) @
                 '' is invalid, must only have a single entry'')))"

definition documentIdentityString :: "DocumentIdentity \<Rightarrow> string res" where
  "documentIdentityString di =
     res_bind (res_map (element_string di) di) (\<lambda>parts. Inr (js_join ''#'' parts))"

definition documentIdentityHashFrom ::
  "(nat \<Rightarrow> string \<Rightarrow> 8 word list) \<Rightarrow> DocumentIdentity \<Rightarrow> string res" where
  "documentIdentityHashFrom shake256 di =
     res_bind (documentIdentityString di) (\<lambda>s. Inr (toHash shake256 s 16))"

definition meadowlarkIdForDocumentIdentity ::
  "(nat \<Rightarrow> string \<Rightarrow> 8 word list) \<Rightarrow> 'a BaseResourceInfo_scheme \<Rightarrow> DocumentIdentity \<Rightarrow> MeadowlarkId res" where
  "meadowlarkIdForDocumentIdentity shake256 r di =
     res_bind (documentIdentityHashFrom shake256 di)
       (\<lambda>h. Inr (resourceInfoHashFrom shake256 r @ h))"

definition getMeadowlarkIdForDocumentReference ::
  "(nat \<Rightarrow> string \<Rightarrow> 8 word list) \<Rightarrow> DocumentReference \<Rightarrow> MeadowlarkId res" where
  "getMeadowlarkIdForDocumentReference shake256 d =
     meadowlarkIdForDocumentIdentity shake256
       \<lparr>bri_projectName = dr_projectName d, bri_resourceName = dr_resourceName d,
        bri_isDescriptor = dr_isDescriptor d\<rparr>
       (dr_documentIdentity d)"

definition getMeadowlarkIdForSuperclassInfo ::
  "(nat \<Rightarrow> string \<Rightarrow> 8 word list) \<Rightarrow> SuperclassInfo \<Rightarrow> MeadowlarkId res" where
  "getMeadowlarkIdForSuperclassInfo shake256 si =
     meadowlarkIdForDocumentIdentity shake256
       \<lparr>bri_projectName = si_projectName si, bri_resourceName = si_resourceName si,
        bri_isDescriptor = False\<rparr>
       (si_documentIdentity si)"

section \<open>Document uuids\<close>

definition is_hex_lower :: "char \<Rightarrow> bool" where
  "is_hex_lower c \<longleftrightarrow> c \<in> set ''0123456789abcdef''"

text \<open>The regular expression of a version 4 uuid, position by position.\<close>

definition uuid4Regex_test :: "string \<Rightarrow> bool" where
  "uuid4Regex_test s \<longleftrightarrow>
     length s = 36 \<and>
     list_all (\<lambda>(i, c).
       if i \<in> {8, 13, 18, 23} then c = CHR ''-''
       else if i = 14 then c = CHR ''4''
       else if i = 19 then c \<in> set ''89ab''
       else is_hex_lower c) (enumerate 0 s)"

definition isDocumentUuidWellFormed :: "DocumentUuid \<Rightarrow> bool" where
  "isDocumentUuidWellFormed u = uuid4Regex_test (js_toLowerCase u)"

section \<open>Identities of descriptors and school years\<close>

text \<open>Reading a property of a parsed body: \<open>null\<close> throws, a value that is not an object has
  no property of its own that the code asks for.\<close>

definition js_prop :: "json \<Rightarrow> string \<Rightarrow> json option res" where
  "js_prop v k =
     (case v of
        JNull \<Rightarrow> Inl (TypeError (''Cannot read properties of null (reading '' @ k @ '')''))
      | JObj kvs \<Rightarrow> Inr (js_get k kvs)
      | _ \<Rightarrow> Inr None)"

definition descriptorDocumentIdentityFrom :: "json \<Rightarrow> DocumentIdentity res" where
  "descriptorDocumentIdentityFrom doc =
     res_bind (js_prop doc ''namespace'') (\<lambda>ns.
     res_bind (js_prop doc ''codeValue'') (\<lambda>cv.
     Inr [[(''descriptor'', Some (JStr (js_opt_to_string ns @ ''#'' @ js_opt_to_string cv)))]]))"

definition js_toString_call :: "json option \<Rightarrow> string res" where
  "js_toString_call v =
     (case v of
        None \<Rightarrow> Inl (TypeError ''Cannot read properties of undefined (reading toString)'')
      | Some JNull \<Rightarrow> Inl (TypeError ''Cannot read properties of null (reading toString)'')
      | Some j \<Rightarrow> Inr (js_to_string j))"

definition schoolYearEnumerationDocumentIdentityFrom :: "json \<Rightarrow> DocumentIdentity res" where
  "schoolYearEnumerationDocumentIdentityFrom doc =
     res_bind (js_prop doc ''schoolYear'') (\<lambda>y.
     res_bind (js_toString_call y) (\<lambda>t.
     Inr [[(''schoolYear'', Some (JStr t))]]))"

definition descriptorDocumentInfoFrom :: "json \<Rightarrow> DocumentInfo res" where
  "descriptorDocumentInfoFrom doc =
     res_bind (descriptorDocumentIdentityFrom doc)
       (\<lambda>di. Inr (newDocumentInfo\<lparr>di_documentIdentity := di\<rparr>))"

definition schoolYearEnumerationDocumentInfoFrom :: "json \<Rightarrow> DocumentInfo res" where
  "schoolYearEnumerationDocumentInfoFrom doc =
     res_bind (schoolYearEnumerationDocumentIdentityFrom doc)
       (\<lambda>di. Inr (newDocumentInfo\<lparr>di_documentIdentity := di\<rparr>))"

section \<open>Lemmas: base64\<close>

lemma unat_byte [simp]: "unat (b :: 8 word) < 256"
  using unsigned_less [of b] by simp

lemma length_alphabet [simp]: "length base64_alphabet = 64"
  by (simp add: base64_alphabet_def)

lemma distinct_alphabet: "distinct base64_alphabet"
  by (simp add: base64_alphabet_def)

lemma base64_char_in [simp]: "n < 64 \<Longrightarrow> base64_char n \<in> set base64_alphabet"
  by (simp add: base64_char_def)

lemma base64_char_inj: "m < 64 \<Longrightarrow> n < 64 \<Longrightarrow> base64_char m = base64_char n \<longleftrightarrow> m = n"
  by (simp add: base64_char_def nth_eq_iff_index_eq distinct_alphabet)

lemma pad_not_in_alphabet: "CHR ''='' \<notin> set base64_alphabet"
  by (simp add: base64_alphabet_def)

lemma base64_char_neq_pad: "n < 64 \<Longrightarrow> base64_char n \<noteq> CHR ''=''"
  using base64_char_in pad_not_in_alphabet by metis

lemma sextet1: "unat (a :: 8 word) div 4 < 64"
  using unat_byte [of a] by linarith

lemma sextet2: "unat (a :: 8 word) mod 4 * 16 + unat (b :: 8 word) div 16 < 64"
  using unat_byte [of b] mod_less_divisor [of 4 "unat a"] by linarith

lemma sextet3: "unat (b :: 8 word) mod 16 * 4 + unat (c :: 8 word) div 64 < 64"
  using unat_byte [of c] mod_less_divisor [of 16 "unat b"] by linarith

lemma sextet4: "unat (c :: 8 word) mod 64 < 64"
  by simp

lemma sextet2_pad: "unat (a :: 8 word) mod 4 * 16 < 64"
  using mod_less_divisor [of 4 "unat a"] by linarith

lemma sextet3_pad: "unat (b :: 8 word) mod 16 * 4 < 64"
  using mod_less_divisor [of 16 "unat b"] by linarith

lemmas sextets = sextet1 sextet2 sextet3 sextet4 sextet2_pad sextet3_pad

text \<open>The characters of the output before the padding, and the padding.\<close>

lemma base64_shape:
  "\<exists>body. base64 bs = body @ replicate ((3 - length bs mod 3) mod 3) (CHR ''='') \<and>
     set body \<subseteq> set base64_alphabet \<and> length body = (length bs * 8 + 5) div 6"
proof (induction bs rule: base64.induct)
  case 1
  show ?case by simp
next
  case (2 a)
  show ?case
    by (rule exI [of _ "[base64_char (unat a div 4), base64_char (unat a mod 4 * 16)]"])
      (simp add: sextets numeral_2_eq_2)
next
  case (3 a b)
  show ?case
    by (rule exI [of _ "[base64_char (unat a div 4), base64_char (unat a mod 4 * 16 + unat b div 16),
          base64_char (unat b mod 16 * 4)]"]) (simp add: sextets)
next
  case (4 a b c bs)
  then obtain body where body: "base64 bs = body @ replicate ((3 - length bs mod 3) mod 3) (CHR ''='')"
    "set body \<subseteq> set base64_alphabet" "length body = (length bs * 8 + 5) div 6"
    by blast
  have mod3: "length (a # b # c # bs) mod 3 = length bs mod 3"
    by simp
  have len: "(length (a # b # c # bs) * 8 + 5) div 6 = 4 + (length bs * 8 + 5) div 6"
    by simp
  show ?case
    unfolding mod3 len
    by (rule exI [of _ "[base64_char (unat a div 4), base64_char (unat a mod 4 * 16 + unat b div 16),
          base64_char (unat b mod 16 * 4 + unat c div 64), base64_char (unat c mod 64)] @ body"])
      (use body in \<open>simp add: sextets\<close>)
qed

lemma div_mod_eqI: "m div k = n div k \<Longrightarrow> m mod k = n mod k \<Longrightarrow> m = (n :: nat)"
  by (metis div_mult_mod_eq)

lemma radix_eqD:
  fixes x y :: nat
  assumes "x * k + y = x' * k + y'" "y < k" "y' < k"
  shows "x = x'" and "y = y'"
proof -
  have "x = (x * k + y) div k" "x' = (x' * k + y') div k"
    "y = (x * k + y) mod k" "y' = (x' * k + y') mod k"
    using assms(2,3) by simp_all
  then show "x = x'" "y = y'" using assms(1) by metis+
qed

lemma base64_inj:
  "length as = length bs \<Longrightarrow> base64 as = base64 bs \<Longrightarrow> as = bs"
proof (induction as arbitrary: bs rule: base64.induct)
  case 1
  then show ?case by simp
next
  case (2 a)
  then obtain b where bs: "bs = [b]" by (cases bs) auto
  have "unat a div 4 = unat b div 4" "unat a mod 4 * 16 = unat b mod 4 * 16"
    using 2 by (simp_all add: bs base64_char_inj sextets)
  then have "unat a div 4 = unat b div 4 \<and> unat a mod 4 = unat b mod 4" by linarith
  then have "unat a = unat b" by (metis div_mod_eqI)
  then show ?case by (simp add: bs word_unat_eq_iff)
next
  case (3 a b)
  then obtain c d where bs: "bs = [c, d]" by (cases bs; cases "tl bs") auto
  have "unat a div 4 = unat c div 4" "unat a mod 4 * 16 + unat b div 16 = unat c mod 4 * 16 + unat d div 16"
    "unat b mod 16 * 4 = unat d mod 16 * 4"
    using 3 by (simp_all add: bs base64_char_inj sextets)
  moreover have "unat b div 16 < 16" "unat d div 16 < 16"
    using unat_byte [of b] unat_byte [of d] by linarith+
  ultimately have "unat a mod 4 = unat c mod 4" "unat b div 16 = unat d div 16"
    "unat b mod 16 = unat d mod 16"
    using radix_eqD [of "unat a mod 4" 16 "unat b div 16"] by auto
  then have "unat a = unat c \<and> unat b = unat d"
    using \<open>unat a div 4 = unat c div 4\<close> by (metis div_mod_eqI)
  then show ?case by (simp add: bs word_unat_eq_iff)
next
  case (4 a b c as)
  then obtain a' b' c' bs' where bs: "bs = a' # b' # c' # bs'" "length as = length bs'"
    by (cases bs; cases "tl bs"; cases "tl (tl bs)") auto
  have heads: "unat a div 4 = unat a' div 4"
    "unat a mod 4 * 16 + unat b div 16 = unat a' mod 4 * 16 + unat b' div 16"
    "unat b mod 16 * 4 + unat c div 64 = unat b' mod 16 * 4 + unat c' div 64"
    "unat c mod 64 = unat c' mod 64"
    and tails: "base64 as = base64 bs'"
    using 4 by (simp_all add: bs base64_char_inj sextets)
  have "unat b div 16 < 16" "unat b' div 16 < 16" "unat c div 64 < 4" "unat c' div 64 < 4"
    using unat_byte [of b] unat_byte [of b'] unat_byte [of c] unat_byte [of c'] by linarith+
  note lt = this
  have "unat a mod 4 = unat a' mod 4" "unat b div 16 = unat b' div 16"
    by (rule radix_eqD [OF heads(2) lt(1,2)])+
  moreover have "unat b mod 16 = unat b' mod 16" "unat c div 64 = unat c' div 64"
    by (rule radix_eqD [OF heads(3) lt(3,4)])+
  ultimately have "unat a = unat a'" "unat b = unat b'" "unat c = unat c'"
    using heads(1,4) by (metis div_mod_eqI)+
  then show ?case using 4 bs tails by (simp add: word_unat_eq_iff)
qed

section \<open>Lemmas: the URL-safe text and the identifier\<close>

definition url_char :: "char \<Rightarrow> char" where
  "url_char c = (if c = CHR ''+'' then CHR ''-'' else if c = CHR ''/'' then CHR ''_'' else c)"

lemma url_char_inj_on: "inj_on url_char (set base64_alphabet)"
proof (rule inj_onI)
  fix c d
  assume "c \<in> set base64_alphabet" "d \<in> set base64_alphabet" "url_char c = url_char d"
  moreover have "CHR ''-'' \<notin> set base64_alphabet" "CHR ''_'' \<notin> set base64_alphabet"
    by (simp_all add: base64_alphabet_def)
  ultimately show "c = d" by (auto simp: url_char_def split: if_splits)
qed

lemma url_char_alphabet: "url_char ` set base64_alphabet = set base64url_alphabet"
  by (simp add: base64_alphabet_def base64url_alphabet_def url_char_def insert_commute)

lemma dropWhile_replicate_append:
  "\<forall>c \<in> set xs. c \<noteq> p \<Longrightarrow> dropWhile (\<lambda>c. c = p) (replicate k p @ xs) = xs"
  by (induction k) (cases xs; simp)+

lemma toBase64Url_padded:
  assumes "set body \<subseteq> set base64_alphabet"
  shows "toBase64Url (body @ replicate k (CHR ''='')) = map url_char body"
proof -
  have "\<forall>c \<in> set (rev (map url_char body)). c \<noteq> CHR ''=''"
    using assms pad_not_in_alphabet by (auto simp: url_char_def)
  moreover have "map (\<lambda>c. if c = CHR ''/'' then CHR ''_'' else c)
      (map (\<lambda>c. if c = CHR ''+'' then CHR ''-'' else c) (body @ replicate k (CHR ''='')))
    = map url_char body @ replicate k (CHR ''='')"
    by (simp add: url_char_def)
  ultimately show ?thesis
    by (simp add: toBase64Url_def dropWhile_replicate_append)
qed

text \<open>What the code relies on: the digest has the length it was asked for.\<close>

definition digest_law :: "(nat \<Rightarrow> string \<Rightarrow> 8 word list) \<Rightarrow> bool" where
  "digest_law shake256 \<longleftrightarrow> (\<forall>n s. length (shake256 n s) = n)"

lemma toHash_shape:
  assumes "digest_law shake256"
  shows "length (toHash shake256 s n) = (n * 8 + 5) div 6"
    and "set (toHash shake256 s n) \<subseteq> set base64url_alphabet"
proof -
  obtain body where body: "base64 (shake256 n s) = body @ replicate ((3 - n mod 3) mod 3) (CHR ''='')"
    "set body \<subseteq> set base64_alphabet" "length body = (n * 8 + 5) div 6"
    using base64_shape [of "shake256 n s"] assms by (auto simp: digest_law_def)
  have "toHash shake256 s n = map url_char body"
    by (simp add: toHash_def body toBase64Url_padded)
  then show "length (toHash shake256 s n) = (n * 8 + 5) div 6"
    "set (toHash shake256 s n) \<subseteq> set base64url_alphabet"
    using body url_char_alphabet by auto
qed

lemma toHash_eq_iff:
  assumes "digest_law shake256"
  shows "toHash shake256 s n = toHash shake256 t n \<longleftrightarrow> shake256 n s = shake256 n t"
proof
  assume eq: "toHash shake256 s n = toHash shake256 t n"
  have len: "length (shake256 n s) = n" "length (shake256 n t) = n"
    using assms by (auto simp: digest_law_def)
  obtain b where b: "base64 (shake256 n s) = b @ replicate ((3 - n mod 3) mod 3) (CHR ''='')"
    "set b \<subseteq> set base64_alphabet"
    using base64_shape [of "shake256 n s"] len by auto
  obtain c where c: "base64 (shake256 n t) = c @ replicate ((3 - n mod 3) mod 3) (CHR ''='')"
    "set c \<subseteq> set base64_alphabet"
    using base64_shape [of "shake256 n t"] len by auto
  have "map url_char b = map url_char c"
    using eq by (simp add: toHash_def b c toBase64Url_padded)
  then have "b = c"
    by (rule map_inj_on [OF _ inj_on_subset [OF url_char_inj_on]]) (use b c in simp)
  then show "shake256 n s = shake256 n t"
    by (intro base64_inj) (simp_all add: b c len)
qed (simp add: toHash_def)

lemma meadowlarkId_split:
  assumes "meadowlarkIdForDocumentIdentity shake256 r di = Inr i"
  obtains t where "documentIdentityString di = Inr t"
    "i = toHash shake256 (bri_projectName r @ ''#'' @ bri_resourceName r) 12 @ toHash shake256 t 16"
  using assms by (auto simp: meadowlarkIdForDocumentIdentity_def documentIdentityHashFrom_def
      resourceInfoHashFrom_def)

text \<open>Names without \<open>#\<close>: the text that is hashed determines the project and the resource.\<close>

lemma resource_text_inj:
  assumes "CHR ''#'' \<notin> set p" "CHR ''#'' \<notin> set p'"
  shows "p @ ''#'' @ r = p' @ ''#'' @ r' \<longleftrightarrow> p = p' \<and> r = r'"
proof
  assume "p @ ''#'' @ r = p' @ ''#'' @ r'"
  then have "split_on (CHR ''#'') (p @ CHR ''#'' # r) = split_on (CHR ''#'') (p' @ CHR ''#'' # r')"
    by simp
  then have "p = p'" using assms by (simp add: split_on_append_sep)
  then show "p = p' \<and> r = r'" using \<open>p @ ''#'' @ r = p' @ ''#'' @ r'\<close> by simp
qed simp

text \<open>A well-formed identity: each element has one key.\<close>

definition identity_wf :: "DocumentIdentity \<Rightarrow> bool" where
  "identity_wf di \<longleftrightarrow> list_all (\<lambda>el. length el = 1) di"

definition element_text :: "DocumentIdentityElement \<Rightarrow> string" where
  "element_text el = fst (hd el) @ ''='' @ js_opt_to_string (snd (hd el))"

lemma documentIdentityString_wf:
  assumes "identity_wf di"
  shows "documentIdentityString di = Inr (js_join ''#'' (map element_text di))"
proof -
  have "res_map (element_string di) xs = Inr (map element_text xs)" if "list_all (\<lambda>el. length el = 1) xs" for xs
    using that
    by (induction xs) (auto simp: element_string_def element_text_def length_Suc_conv
        split: list.splits prod.splits)
  then show ?thesis using assms by (simp add: documentIdentityString_def identity_wf_def)
qed

lemma documentIdentityString_Inr_wf: "documentIdentityString di = Inr t \<Longrightarrow> identity_wf di"
proof -
  assume "documentIdentityString di = Inr t"
  then obtain ps where "res_map (element_string di) di = Inr ps"
    by (auto simp: documentIdentityString_def)
  then have one: "\<exists>p. element_string di el = Inr p" if "el \<in> set di" for el
    using that by (auto simp: res_map_Inr_iff list_all2_conv_all_nth in_set_conv_nth)
  have "length el = 1" if "el \<in> set di" for el
    using one [OF that]
    by (cases el; cases "tl el") (auto simp: element_string_def)
  then show ?thesis by (simp add: identity_wf_def list_all_iff)
qed

lemma identity_string_inj:
  assumes "identity_wf di" "identity_wf di'"
    and "\<forall>el \<in> set di. CHR ''#'' \<notin> set (element_text el)"
    and "\<forall>el \<in> set di'. CHR ''#'' \<notin> set (element_text el)"
    and "di \<noteq> []" "di' \<noteq> []"
    and "documentIdentityString di = documentIdentityString di'"
  shows "map element_text di = map element_text di'"
  by (rule js_join_inj [where c = "CHR ''#''"])
    (use assms in \<open>simp_all add: documentIdentityString_wf\<close>)

lemma element_text_inj:
  assumes "length el = 1" "length el' = 1"
    and "CHR ''='' \<notin> set (fst (hd el))" "CHR ''='' \<notin> set (fst (hd el'))"
    and "element_text el = element_text el'"
  shows "fst (hd el) = fst (hd el')"
    and "js_opt_to_string (snd (hd el)) = js_opt_to_string (snd (hd el'))"
proof -
  have "split_on (CHR ''='') (element_text el) = fst (hd el) # split_on (CHR ''='') (js_opt_to_string (snd (hd el)))"
    "split_on (CHR ''='') (element_text el') = fst (hd el') # split_on (CHR ''='') (js_opt_to_string (snd (hd el')))"
    using assms(3,4) by (simp_all add: element_text_def split_on_append_sep)
  then show key: "fst (hd el) = fst (hd el')" using assms(5) by simp
  then show "js_opt_to_string (snd (hd el)) = js_opt_to_string (snd (hd el'))"
    using assms(5) by (simp add: element_text_def)
qed

section \<open>Properties\<close>

text \<open>A concrete digest for the witnesses: the text, cut or filled to the length.\<close>

definition prefix_digest :: "nat \<Rightarrow> string \<Rightarrow> 8 word list" where
  "prefix_digest n s = take n (map of_char s @ replicate n 0)"

lemma prefix_digest_law: "digest_law prefix_digest"
  by (auto simp: digest_law_def prefix_digest_def min_def)

text \<open>For an identity whose elements have one key each, the meadowlarkId is computed without an
  error; it has 38 characters, all of the URL-safe base64 alphabet.  For any other identity the
  invariant of the code throws.\<close>

theorem meadowlarkId_total:
  assumes "digest_law shake256"
  shows "if identity_wf di
         then \<exists>i. meadowlarkIdForDocumentIdentity shake256 r di = Inr i \<and> length i = 38 \<and>
                set i \<subseteq> set base64url_alphabet
         else \<exists>e. meadowlarkIdForDocumentIdentity shake256 r di = Inl e"
proof (cases "identity_wf di")
  case True
  then show ?thesis
    using toHash_shape [OF assms]
    by (simp add: meadowlarkIdForDocumentIdentity_def documentIdentityHashFrom_def
        resourceInfoHashFrom_def documentIdentityString_wf)
next
  case False
  then show ?thesis
    using documentIdentityString_Inr_wf
    by (cases "documentIdentityString di")
      (auto simp: meadowlarkIdForDocumentIdentity_def documentIdentityHashFrom_def)
qed

theorem meadowlarkId_total_witness:
  "if identity_wf [[(''schoolId'', Some (JNum ''123''))]]
   then \<exists>i. meadowlarkIdForDocumentIdentity prefix_digest newResourceInfo [[(''schoolId'', Some (JNum ''123''))]] = Inr i \<and>
          length i = 38 \<and> set i \<subseteq> set base64url_alphabet
   else \<exists>e. meadowlarkIdForDocumentIdentity prefix_digest newResourceInfo [[(''schoolId'', Some (JNum ''123''))]] = Inl e"
  by (rule meadowlarkId_total [OF prefix_digest_law])

lemma meadowlarkId_digests_eq:
  assumes "digest_law shake256"
    and "meadowlarkIdForDocumentIdentity shake256 r di = Inr i"
    and "meadowlarkIdForDocumentIdentity shake256 r' di' = Inr i'"
  shows "i = i' \<longleftrightarrow>
    shake256 12 (bri_projectName r @ ''#'' @ bri_resourceName r) =
      shake256 12 (bri_projectName r' @ ''#'' @ bri_resourceName r') \<and>
    shake256 16 (js_join ''#'' (map element_text di)) = shake256 16 (js_join ''#'' (map element_text di'))"
proof -
  obtain t where t: "documentIdentityString di = Inr t"
    "i = toHash shake256 (bri_projectName r @ ''#'' @ bri_resourceName r) 12 @ toHash shake256 t 16"
    using meadowlarkId_split [OF assms(2)] by blast
  obtain t' where t': "documentIdentityString di' = Inr t'"
    "i' = toHash shake256 (bri_projectName r' @ ''#'' @ bri_resourceName r') 12 @ toHash shake256 t' 16"
    using meadowlarkId_split [OF assms(3)] by blast
  have "t = js_join ''#'' (map element_text di)" "t' = js_join ''#'' (map element_text di')"
    using t(1) t'(1) documentIdentityString_wf [OF documentIdentityString_Inr_wf] by fastforce+
  moreover have "length (toHash shake256 x 12) = length (toHash shake256 y 12)" for x y
    using toHash_shape(1) [OF assms(1)] by simp
  ultimately show ?thesis
    using toHash_eq_iff [OF assms(1)] by (simp add: t(2) t'(2))
qed

text \<open>C35: The encoding of the two digests loses nothing: two meadowlarkIds are the same exactly when
  the digests of the resource texts and the digests of the identity texts are the same.\<close>

theorem meadowlarkId_eq_iff:
  assumes "digest_law shake256"
    and "meadowlarkIdForDocumentIdentity shake256 r di = Inr i"
    and "meadowlarkIdForDocumentIdentity shake256 r' di' = Inr i'"
  shows "i = i' \<longleftrightarrow>
    shake256 12 (bri_projectName r @ ''#'' @ bri_resourceName r) =
      shake256 12 (bri_projectName r' @ ''#'' @ bri_resourceName r') \<and>
    shake256 16 (js_join ''#'' (map element_text di)) = shake256 16 (js_join ''#'' (map element_text di'))"
  by (rule meadowlarkId_digests_eq [OF assms])

definition example_resource :: BaseResourceInfo where
  "example_resource = \<lparr>bri_projectName = ''ABC'', bri_resourceName = ''X'', bri_isDescriptor = False\<rparr>"

lemma example_ids:
  "meadowlarkIdForDocumentIdentity prefix_digest example_resource [[(''a'', Some (JNum ''1''))]] =
     Inr ''QUJDI1gAAAAAAAAAYT0xAAAAAAAAAAAAAAAAAA''"
  "meadowlarkIdForDocumentIdentity prefix_digest example_resource [[(''a'', Some (JNum ''2''))]] =
     Inr ''QUJDI1gAAAAAAAAAYT0yAAAAAAAAAAAAAAAAAA''"
  by code_simp+

theorem meadowlarkId_eq_iff_witness:
  "(''QUJDI1gAAAAAAAAAYT0xAAAAAAAAAAAAAAAAAA'' = ''QUJDI1gAAAAAAAAAYT0yAAAAAAAAAAAAAAAAAA'') \<longleftrightarrow>
    prefix_digest 12 (bri_projectName example_resource @ ''#'' @ bri_resourceName example_resource) =
      prefix_digest 12 (bri_projectName example_resource @ ''#'' @ bri_resourceName example_resource) \<and>
    prefix_digest 16 (js_join ''#'' (map element_text [[(''a'', Some (JNum ''1''))]])) =
      prefix_digest 16 (js_join ''#'' (map element_text [[(''a'', Some (JNum ''2''))]]))"
  by (rule meadowlarkId_eq_iff [OF prefix_digest_law example_ids])

text \<open>The separators of the identity text do their work as long as the values do not contain them:
  when neither the names nor the texts of the two identities contain \<open>#\<close>, no key contains \<open>=\<close> and the
  digest does not collide on the texts involved, equal meadowlarkIds come from the same project and
  resource, the same keys in the same order and values with the same texts.\<close>

theorem meadowlarkId_injective:
  assumes "digest_law shake256"
    and "meadowlarkIdForDocumentIdentity shake256 r di = Inr i"
    and "meadowlarkIdForDocumentIdentity shake256 r' di' = Inr i"
    and "\<And>p. p \<in> {bri_projectName r, bri_projectName r'} \<Longrightarrow> CHR ''#'' \<notin> set p"
    and "\<And>el. el \<in> set di \<union> set di' \<Longrightarrow>
           CHR ''#'' \<notin> set (element_text el) \<and> CHR ''='' \<notin> set (fst (hd el))"
    and "di \<noteq> []" "di' \<noteq> []"
    and "inj_on (shake256 12) {bri_projectName r @ ''#'' @ bri_resourceName r,
           bri_projectName r' @ ''#'' @ bri_resourceName r'}"
    and "inj_on (shake256 16) {js_join ''#'' (map element_text di), js_join ''#'' (map element_text di')}"
  shows "bri_projectName r = bri_projectName r' \<and> bri_resourceName r = bri_resourceName r' \<and>
    map (\<lambda>el. (fst (hd el), js_opt_to_string (snd (hd el)))) di =
    map (\<lambda>el. (fst (hd el), js_opt_to_string (snd (hd el)))) di'"
proof -
  have eqs: "bri_projectName r @ ''#'' @ bri_resourceName r = bri_projectName r' @ ''#'' @ bri_resourceName r'"
    "js_join ''#'' (map element_text di) = js_join ''#'' (map element_text di')"
    using meadowlarkId_digests_eq [OF assms(1-3)] assms(8,9) by (auto dest: inj_onD)
  have wf: "identity_wf di" "identity_wf di'"
    using assms(2,3) meadowlarkId_split documentIdentityString_Inr_wf by metis+
  have "map element_text di = map element_text di'"
    by (rule js_join_inj [of _ "CHR ''#''"]) (use assms eqs in auto)
  then have "length di = length di'"
    "\<And>n. n < length di \<Longrightarrow> element_text (di ! n) = element_text (di' ! n)"
    by (metis length_map, metis length_map nth_map)
  then have "map (\<lambda>el. (fst (hd el), js_opt_to_string (snd (hd el)))) di =
    map (\<lambda>el. (fst (hd el), js_opt_to_string (snd (hd el)))) di'"
    using wf assms(5)
    by (intro nth_equalityI) (auto simp: identity_wf_def list_all_length intro!: element_text_inj)
  then show ?thesis
    using eqs(1) assms(4) by (auto simp: resource_text_inj [simplified])
qed

lemma example_id_string_value:
  "meadowlarkIdForDocumentIdentity prefix_digest example_resource [[(''a'', Some (JStr ''1''))]] =
     Inr ''QUJDI1gAAAAAAAAAYT0xAAAAAAAAAAAAAAAAAA''"
  by code_simp

theorem meadowlarkId_injective_witness:
  "bri_projectName example_resource = bri_projectName example_resource \<and>
   bri_resourceName example_resource = bri_resourceName example_resource \<and>
   map (\<lambda>el. (fst (hd el), js_opt_to_string (snd (hd el)))) [[(''a'', Some (JNum ''1''))]] =
   map (\<lambda>el. (fst (hd el), js_opt_to_string (snd (hd el)))) [[(''a'', Some (JStr ''1''))]]"
  by (rule meadowlarkId_injective [OF prefix_digest_law example_ids(1) example_id_string_value])
    (auto simp: example_resource_def element_text_def js_opt_to_string_def)

text \<open>The identity text is not injective on identities whose values contain the separators: two
  different identities over the same two keys have the same meadowlarkId, whatever the digest is.\<close>

theorem meadowlarkId_separator_collision:
  "meadowlarkIdForDocumentIdentity shake256 r [[(''a'', Some (JStr ''x#b=y''))], [(''b'', Some (JStr ''z''))]] =
   meadowlarkIdForDocumentIdentity shake256 r [[(''a'', Some (JStr ''x''))], [(''b'', Some (JStr ''y#b=z''))]] \<and>
   (\<exists>i. meadowlarkIdForDocumentIdentity shake256 r
      [[(''a'', Some (JStr ''x''))], [(''b'', Some (JStr ''y#b=z''))]] = Inr i)"
  by (simp add: meadowlarkIdForDocumentIdentity_def documentIdentityHashFrom_def documentIdentityString_def
      element_string_def js_opt_to_string_def)

end
