(* ===== verification/Schema.thy ===== *)
theory Schema
  imports Identity
begin

text \<open>
  The API schema (\<open>model/api-schema\<close>, \<open>api-schema\<close>): projects, resources, document paths, the
  finders that look a resource up by its URL components, and the loader with its cache.  The
  schema is data of the running service, read from a JSON file; here it is a value of the types
  the code gives it.  \<open>core_state\<close> is the mutable module state of meadowlark-core.
\<close>

section \<open>Data\<close>

datatype DocumentPaths =
    ReferencePaths (dp_paths: "(DocumentObjectKey \<times> string) list") (dp_pathOrder: "DocumentObjectKey list")
      (dp_projectName: string) (dp_resourceName: string) (dp_isDescriptor: bool)
  | ScalarPath (dp_paths: "(DocumentObjectKey \<times> string) list") (dp_pathOrder: "DocumentObjectKey list")

record EqualityConstraint =
  ec_sourceJsonPath :: string
  ec_targetJsonPath :: string

text \<open>The three alternatives of the union \<open>ResourceSchema\<close>.\<close>

datatype Subclass =
    NotSubclass
  | AssociationSubclass (sub_superclassProjectName: string) (sub_superclassResourceName: string)
  | DomainEntitySubclass (sub_superclassProjectName: string) (sub_superclassResourceName: string)
      (sub_superclassIdentityDocumentKey: DocumentObjectKey)
      (sub_subclassIdentityDocumentKey: DocumentObjectKey)

record ResourceSchema =
  rs_resourceName :: string
  rs_isDescriptor :: bool
  rs_isSchoolYearEnumeration :: bool
  rs_allowIdentityUpdates :: bool
  rs_jsonSchemaForInsert :: json
  rs_jsonSchemaForUpdate :: json
  rs_jsonSchemaForQuery :: json
  rs_equalityConstraints :: "EqualityConstraint list"
  rs_identityFullnames :: "string list"
  rs_identityPathOrder :: "DocumentObjectKey list"
  rs_documentPathsMapping :: "(string \<times> DocumentPaths) list"
  rs_subclass :: Subclass

definition NoSchemaRoot :: json where
  "NoSchemaRoot = JObj [(''type'', JStr ''object''), (''properties'', JObj []),
     (''additionalProperties'', JBool False), ([CHR 0x24] @ ''schema'', JStr ''''),
     (''title'', JStr ''NoSchemaRoot'')]"

definition newResourceSchema :: ResourceSchema where
  "newResourceSchema = \<lparr>rs_resourceName = '''', rs_isDescriptor = False,
     rs_isSchoolYearEnumeration = False, rs_allowIdentityUpdates = False,
     rs_jsonSchemaForInsert = NoSchemaRoot, rs_jsonSchemaForUpdate = NoSchemaRoot,
     rs_jsonSchemaForQuery = NoSchemaRoot, rs_equalityConstraints = [],
     rs_identityFullnames = [], rs_identityPathOrder = [], rs_documentPathsMapping = [],
     rs_subclass = NotSubclass\<rparr>"

definition NoResourceSchema :: ResourceSchema where
  "NoResourceSchema = newResourceSchema\<lparr>rs_resourceName := ''NoResourceSchema''\<rparr>"

record AbstractResourceInfo =
  ari_identityPathOrder :: "DocumentObjectKey list"

record ProjectSchema =
  ps_projectName :: string
  ps_projectVersion :: string
  ps_isExtensionProject :: bool
  ps_description :: string
  ps_resourceSchemas :: "(string \<times> ResourceSchema) list"
  ps_resourceNameMapping :: "(string \<times> string) list"
  ps_schoolYearEnumeration :: "ResourceSchema option"
  ps_abstractResources :: "(string \<times> AbstractResourceInfo) list"

definition NoProjectSchema :: ProjectSchema where
  "NoProjectSchema = \<lparr>ps_projectName = ''NoProjectName'', ps_projectVersion = ''0.0.0'',
     ps_isExtensionProject = False, ps_description = ''NoProjectSchema'', ps_resourceSchemas = [],
     ps_resourceNameMapping = [], ps_schoolYearEnumeration = None, ps_abstractResources = []\<rparr>"

record ApiSchema =
  as_projectSchemas :: "(string \<times> ProjectSchema) list"
  as_projectNameMapping :: "(string \<times> string) list"

definition newApiSchema :: ApiSchema where
  "newApiSchema = \<lparr>as_projectSchemas = [], as_projectNameMapping = []\<rparr>"

definition NoApiSchema :: ApiSchema where
  "NoApiSchema = newApiSchema"

record PathComponents =
  pc_projectShortVersion :: string
  pc_projectNamespace :: string
  pc_endpointName :: string
  pc_documentUuid :: "DocumentUuid option"

definition newPathComponents :: PathComponents where
  "newPathComponents = \<lparr>pc_projectShortVersion = '''', pc_projectNamespace = '''',
     pc_endpointName = '''', pc_documentUuid = None\<rparr>"

definition NoPathComponents :: PathComponents where
  "NoPathComponents = newPathComponents"

section \<open>Third-party evaluators\<close>

text \<open>JSONPath-Plus: with \<open>flatten: true\<close> it returns an array, with \<open>wrap: false\<close> a value or
  \<open>undefined\<close>; without a usable path it throws.  The path may be \<open>undefined\<close>.\<close>

record jsonpath_plus =
  jp_flatten :: "string option \<Rightarrow> json \<Rightarrow> json list res"
  jp_unwrapped :: "string option \<Rightarrow> json \<Rightarrow> json option res"

text \<open>An Ajv error and a compiled validator: whether the value is valid, the errors, and the
  value after the removals and coercions that the options allow Ajv to make in place.\<close>

record ErrorObject =
  eo_instancePath :: string
  eo_keyword :: string
  eo_message :: string
  eo_additionalProperty :: string

type_synonym ValidateFunction = "json \<Rightarrow> bool \<times> ErrorObject list option \<times> json"

record ResourceSchemaValidators =
  insertValidator :: ValidateFunction
  queryValidator :: ValidateFunction
  updateValidator :: ValidateFunction

section \<open>Module state and the schema loader\<close>

record core_state =
  cs_apiSchemaCache :: "ApiSchema option"
  cs_validatorCache :: "(ResourceSchema \<times> ResourceSchemaValidators) list"
  cs_queryValidatorCache :: "(ResourceSchema \<times> ResourceSchemaValidators) list"
  cs_cachedOwnAccessTokenForClientAuth :: "json option"

definition loadApiSchemaFromFile :: "ApiSchema res \<Rightarrow> (ApiSchema, 'm core_state_scheme) act" where
  "loadApiSchemaFromFile file =
     bnd (lift file) (\<lambda>apiSchema s. (Inr apiSchema, s\<lparr>cs_apiSchemaCache := Some apiSchema\<rparr>))"

text \<open>\<open>file\<close> is what \<open>fs.readJson\<close> gives for the data standard file.\<close>

definition findApiSchema :: "ApiSchema res \<Rightarrow> (ApiSchema, 'm core_state_scheme) act" where
  "findApiSchema file = (\<lambda>s.
     case cs_apiSchemaCache s of
       Some apiSchema \<Rightarrow> ret apiSchema s
     | None \<Rightarrow> try_catch (loadApiSchemaFromFile file) (\<lambda>_. ret NoApiSchema) s)"

section \<open>Finders\<close>

definition findProjectSchema :: "ApiSchema \<Rightarrow> string \<Rightarrow> ProjectSchema" where
  "findProjectSchema apiSchema projectNamespace =
     (case map_of (as_projectSchemas apiSchema) projectNamespace of
        None \<Rightarrow> NoProjectSchema
      | Some projectSchema \<Rightarrow> projectSchema)"

definition findResourceSchema :: "ApiSchema \<Rightarrow> PathComponents \<Rightarrow> ResourceSchema option" where
  "findResourceSchema apiSchema pathComponents =
     map_of (ps_resourceSchemas (findProjectSchema apiSchema (pc_projectNamespace pathComponents)))
       (pc_endpointName pathComponents)"

section \<open>Lemmas\<close>

text \<open>Once a schema is cached the file is never read again, and a failed read leaves no cache.\<close>

lemma findApiSchema_never_throws: "\<exists>a. fst (findApiSchema file s) = Inr a"
  by (simp add: findApiSchema_def loadApiSchemaFromFile_def act_simps split: option.split sum.split)

lemma findApiSchema_cached:
  "cs_apiSchemaCache s = Some a \<Longrightarrow> findApiSchema file s = (Inr a, s)"
  by (simp add: findApiSchema_def act_simps)

lemma findApiSchema_loads:
  "cs_apiSchemaCache s = None \<Longrightarrow>
   findApiSchema (Inr a) s = (Inr a, s\<lparr>cs_apiSchemaCache := Some a\<rparr>)"
  by (simp add: findApiSchema_def loadApiSchemaFromFile_def act_simps)

lemma findApiSchema_fails:
  "cs_apiSchemaCache s = None \<Longrightarrow> findApiSchema (Inl e) s = (Inr NoApiSchema, s)"
  by (simp add: findApiSchema_def loadApiSchemaFromFile_def act_simps)

lemma findApiSchema_validators:
  "cs_validatorCache (snd (findApiSchema file s)) = cs_validatorCache s"
  "cs_queryValidatorCache (snd (findApiSchema file s)) = cs_queryValidatorCache s"
  by (simp_all add: findApiSchema_def loadApiSchemaFromFile_def act_simps split: option.split sum.split)

lemma findResourceSchema_unknown_project:
  "map_of (as_projectSchemas a) (pc_projectNamespace p) = None \<Longrightarrow> findResourceSchema a p = None"
  by (simp add: findResourceSchema_def findProjectSchema_def NoProjectSchema_def)

lemma findResourceSchema_Some:
  assumes "findResourceSchema a p = Some r"
  obtains ps where "map_of (as_projectSchemas a) (pc_projectNamespace p) = Some ps"
    "map_of (ps_resourceSchemas ps) (pc_endpointName p) = Some r"
    "findProjectSchema a (pc_projectNamespace p) = ps"
proof (cases "map_of (as_projectSchemas a) (pc_projectNamespace p)")
  case None
  then show ?thesis using assms findResourceSchema_unknown_project by simp
next
  case (Some ps)
  then show ?thesis
    using assms by (intro that [of ps]) (simp_all add: findResourceSchema_def findProjectSchema_def)
qed

end
