(* ===== verification/Requests.thy ===== *)
theory Requests
  imports Schema
begin

text \<open>
  The requests and responses of a frontend (\<open>handler/FrontendRequest\<close>, \<open>handler/FrontendResponse\<close>),
  security (\<open>security\<close>), the middleware model, and the messages between the handlers and the
  plugins (\<open>message\<close>).  The request's \<open>security\<close> is \<open>None\<close> for the frozen object
  \<open>UndefinedSecurity\<close>, which the code compares by reference.
\<close>

section \<open>Security and actions\<close>

datatype AuthorizationStrategy = UNDEFINED_STRATEGY | OWNERSHIP_BASED | FULL_ACCESS

text \<open>The strategies ordered by what they allow.\<close>

fun strategy_rank :: "AuthorizationStrategy \<Rightarrow> nat" where
  "strategy_rank UNDEFINED_STRATEGY = 0"
| "strategy_rank OWNERSHIP_BASED = 1"
| "strategy_rank FULL_ACCESS = 2"

instantiation AuthorizationStrategy :: linorder
begin

definition less_eq_AuthorizationStrategy :: "AuthorizationStrategy \<Rightarrow> AuthorizationStrategy \<Rightarrow> bool" where
  "less_eq_AuthorizationStrategy a b \<longleftrightarrow> strategy_rank a \<le> strategy_rank b"

definition less_AuthorizationStrategy :: "AuthorizationStrategy \<Rightarrow> AuthorizationStrategy \<Rightarrow> bool" where
  "less_AuthorizationStrategy a b \<longleftrightarrow> strategy_rank a < strategy_rank b"

instance
proof
  fix a b :: AuthorizationStrategy
  assume "a \<le> b" "b \<le> a"
  then show "a = b"
    by (cases a; cases b) (simp_all add: less_eq_AuthorizationStrategy_def)
qed (auto simp: less_eq_AuthorizationStrategy_def less_AuthorizationStrategy_def)

end

record Security =
  sec_authorizationStrategy :: AuthorizationStrategy
  sec_clientId :: string

definition newSecurity :: Security where
  "newSecurity = \<lparr>sec_authorizationStrategy = UNDEFINED_STRATEGY, sec_clientId = ''UNKNOWN''\<rparr>"

definition securityOf :: "Security option \<Rightarrow> Security" where
  "securityOf s = (case s of None \<Rightarrow> newSecurity | Some sec \<Rightarrow> sec)"

datatype Action = UNKNOWN | getById | query | upsert | updateById | deleteById

section \<open>Frontend requests and responses\<close>

type_synonym Headers = "(string \<times> string) list"

record FrontendRequestMiddleware =
  mw_security :: "Security option"
  mw_pathComponents :: PathComponents
  mw_parsedBody :: json
  mw_resourceInfo :: ResourceInfo
  mw_apiSchema :: ApiSchema
  mw_resourceSchema :: ResourceSchema
  mw_documentInfo :: DocumentInfo
  mw_headerMetadata :: "Headers option"
  mw_validateResources :: bool
  mw_timestamp :: int

record FrontendRequest =
  fr_action :: Action
  fr_path :: string
  fr_traceId :: TraceId
  fr_body :: "string option"
  fr_headers :: Headers
  fr_queryParameters :: js_object
  fr_stage :: string
  fr_middleware :: FrontendRequestMiddleware

definition newFrontendRequestMiddleware :: FrontendRequestMiddleware where
  "newFrontendRequestMiddleware = \<lparr>mw_security = None, mw_pathComponents = NoPathComponents,
     mw_parsedBody = JObj [], mw_resourceInfo = NoResourceInfo, mw_apiSchema = NoApiSchema,
     mw_resourceSchema = NoResourceSchema, mw_documentInfo = NoDocumentInfo,
     mw_headerMetadata = Some [], mw_validateResources = True, mw_timestamp = 0\<rparr>"

definition newFrontendRequest :: FrontendRequest where
  "newFrontendRequest = \<lparr>fr_action = UNKNOWN, fr_path = '''', fr_traceId = '''', fr_body = None,
     fr_headers = [], fr_queryParameters = [], fr_stage = '''',
     fr_middleware = newFrontendRequestMiddleware\<rparr>"

definition upd_middleware ::
  "(FrontendRequestMiddleware \<Rightarrow> FrontendRequestMiddleware) \<Rightarrow> FrontendRequest \<Rightarrow> FrontendRequest" where
  "upd_middleware f r = r\<lparr>fr_middleware := f (fr_middleware r)\<rparr>"

record FrontendResponse =
  resp_statusCode :: int
  resp_headers :: "Headers option"
  resp_body :: "json option"

definition newFrontendResponse :: FrontendResponse where
  "newFrontendResponse = \<lparr>resp_statusCode = 0, resp_headers = Some [], resp_body = Some (JObj [])\<rparr>"

definition newFrontendResponseSuccess :: FrontendResponse where
  "newFrontendResponseSuccess = \<lparr>resp_statusCode = 200, resp_headers = Some [], resp_body = Some (JObj [])\<rparr>"

definition status_only :: "int \<Rightarrow> FrontendResponse" where
  "status_only n = \<lparr>resp_statusCode = n, resp_headers = None, resp_body = None\<rparr>"

text \<open>\<open>MiddlewareModel\<close>: the request and the response, when one is posted.\<close>

type_synonym MiddlewareModel = "FrontendRequest \<times> FrontendResponse option"

type_synonym 's middleware = "MiddlewareModel \<Rightarrow> (MiddlewareModel, 's) act"

section \<open>Messages\<close>

record ReferringDocumentInfo =
  rdi_projectName :: string
  rdi_resourceVersion :: string
  rdi_resourceName :: string
  rdi_documentUuid :: DocumentUuid
  rdi_meadowlarkId :: MeadowlarkId

record UpsertRequest =
  ur_meadowlarkId :: MeadowlarkId
  ur_resourceInfo :: ResourceInfo
  ur_documentInfo :: DocumentInfo
  ur_edfiDoc :: json
  ur_validateDocumentReferencesExist :: bool
  ur_security :: Security
  ur_traceId :: TraceId

record UpdateRequest = UpsertRequest +
  upd_documentUuid :: DocumentUuid

record DeleteRequest =
  del_documentUuid :: DocumentUuid
  del_resourceInfo :: ResourceInfo
  del_validateNoReferencesToDocument :: bool
  del_security :: Security
  del_traceId :: TraceId

record GetRequest =
  get_documentUuid :: DocumentUuid
  get_resourceInfo :: ResourceInfo
  get_security :: Security
  get_traceId :: TraceId

record QueryRequest =
  qy_resourceInfo :: ResourceInfo
  qy_queryParameters :: js_object
  qy_paginationParameters :: js_object
  qy_traceId :: TraceId
  qy_security :: Security

datatype UpsertResult =
    INSERT_FAILURE_REFERENCE (usr_failureMessage: "json option") (usr_referringDocumentInfo: "ReferringDocumentInfo list")
  | INSERT_FAILURE_CONFLICT (usr_failureMessage: "json option") (usr_referringDocumentInfo: "ReferringDocumentInfo list")
  | UPDATE_FAILURE_REFERENCE (usr_failureMessage: "json option") (usr_referringDocumentInfo: "ReferringDocumentInfo list")
  | INSERT_SUCCESS (usr_failureMessage: "json option") (usr_newDocumentUuid: DocumentUuid)
  | UPDATE_SUCCESS (usr_failureMessage: "json option") (usr_existingDocumentUuid: DocumentUuid)
  | UPSERT_FAILURE_WRITE_CONFLICT (usr_failureMessage: "json option")
  | UNKNOWN_FAILURE (usr_failureMessage: "json option")

datatype UpdateResult =
    UPDATE_FAILURE_REFERENCE (upr_failureMessage: "json option") (upr_referringDocumentInfo: "ReferringDocumentInfo list")
  | UPDATE_FAILURE_CONFLICT (upr_failureMessage: "json option") (upr_referringDocumentInfo: "ReferringDocumentInfo list")
  | UPDATE_SUCCESS (upr_failureMessage: "json option")
  | UPDATE_FAILURE_NOT_EXISTS (upr_failureMessage: "json option")
  | UPDATE_FAILURE_WRITE_CONFLICT (upr_failureMessage: "json option")
  | UPDATE_FAILURE_IMMUTABLE_IDENTITY (upr_failureMessage: "json option")
  | UPDATE_CASCADE_REQUIRED
  | UNKNOWN_FAILURE (upr_failureMessage: "json option")

datatype DeleteResult =
    DELETE_FAILURE_REFERENCE "ReferringDocumentInfo list"
  | DELETE_SUCCESS
  | DELETE_FAILURE_NOT_EXISTS
  | DELETE_FAILURE_WRITE_CONFLICT string
  | UNKNOWN_FAILURE string

datatype GetResponse = GET_SUCCESS | GET_FAILURE_NOT_EXISTS | GET_FAILURE_AUTHORIZATION | UNKNOWN_FAILURE

record GetResult =
  gr_response :: GetResponse
  gr_documentUuid :: DocumentUuid
  gr_edfiDoc :: json
  gr_lastModifiedDate :: int
  gr_failureMessage :: "string option"

datatype QueryResponse =
    QUERY_SUCCESS
  | QUERY_FAILURE_INVALID_QUERY
  | QUERY_FAILURE_AUTHORIZATION
  | UNKNOWN_FAILURE
  | QUERY_FAILURE_INDEX_NOT_FOUND
  | QUERY_FAILURE_CONNECTION_ERROR

record QueryResult =
  qr_response :: QueryResponse
  qr_documents :: "json list"
  qr_failureMessage :: "json option"
  qr_totalCount :: "json option"

datatype SecurityResult =
    ACCESS_APPROVED
  | ACCESS_DENIED
  | NOT_APPLICABLE
  | UNKNOWN_FAILURE

end
