(* ===== verification/DocumentExtraction.thy ===== *)
theory DocumentExtraction
  imports Schema
begin

text \<open>
  Extraction of the document information from a body (\<open>meadowlark-core/src/extraction\<close>):
  \<open>DocumentIdentityExtractor\<close>, \<open>DocumentReferenceExtractor\<close>, \<open>DescriptorValueExtractor\<close>,
  \<open>SuperclassInfoExtractor\<close> and \<open>BuildDocumentInfo\<close>.  JSONPath-Plus is the parameter \<open>jp\<close>.
\<close>

section \<open>DocumentIdentityExtractor\<close>

text \<open>\<open>undefined\<close> has no property: an identity name that the mapping does not have throws.\<close>

definition identityPathsOf ::
  "ResourceSchema \<Rightarrow> string \<Rightarrow> (DocumentObjectKey \<times> string) list res" where
  "identityPathsOf rs identityFullName =
     (case map_of (rs_documentPathsMapping rs) identityFullName of
        None \<Rightarrow> Inl (TypeError ''Cannot read properties of undefined (reading paths)'')
      | Some dp \<Rightarrow> Inr (dp_paths dp))"

definition identityDocumentPaths :: "ResourceSchema \<Rightarrow> (DocumentObjectKey \<times> string) list res" where
  "identityDocumentPaths rs =
     res_bind (res_map (identityPathsOf rs) (rs_identityFullnames rs))
       (\<lambda>pss. Inr (fold (\<lambda>ps acc. js_assign acc ps) pss []))"

definition opt_text :: "string option \<Rightarrow> string" where
  "opt_text v = (case v of None \<Rightarrow> ''undefined'' | Some s \<Rightarrow> s)"

definition extractIdentityElement ::
  "jsonpath_plus \<Rightarrow> (DocumentObjectKey \<times> string) list \<Rightarrow> json \<Rightarrow> DocumentObjectKey \<Rightarrow>
   DocumentIdentityElement res" where
  "extractIdentityElement jp paths documentBody documentKey =
     (let documentJsonPath = map_of paths documentKey in
      res_bind (jp_unwrapped jp documentJsonPath documentBody) (\<lambda>documentValue.
        (case documentValue of
           Some (JArr xs) \<Rightarrow> Inl (InvariantError (''Identity for path '' @ opt_text documentJsonPath @
             '' should not be multiple values but was '' @ js_to_string (JArr xs)))
         | _ \<Rightarrow>
             (if is_nullish documentValue
              then Inl (InvariantError (''Identity for path '' @ opt_text documentJsonPath @
                     '' was not found in the document''))
              else Inr [(documentKey, documentValue)]))))"

definition extractDocumentIdentity ::
  "jsonpath_plus \<Rightarrow> ResourceSchema \<Rightarrow> json \<Rightarrow> DocumentIdentity res" where
  "extractDocumentIdentity jp rs documentBody =
     (if rs_isDescriptor rs then descriptorDocumentIdentityFrom documentBody
      else if rs_isSchoolYearEnumeration rs then schoolYearEnumerationDocumentIdentityFrom documentBody
      else
        res_bind (identityDocumentPaths rs) (\<lambda>paths.
        res_bind (res_map (extractIdentityElement jp paths documentBody) (rs_identityPathOrder rs))
          (\<lambda>documentIdentity.
             if documentIdentity = []
             then Inl (InvariantError (''DocumentIdentityExtractor: Document identity is empty for '' @
                    rs_resourceName rs))
             else Inr documentIdentity)))"

section \<open>DocumentReferenceExtractor\<close>

definition identityPathOrderForReference ::
  "ApiSchema \<Rightarrow> string \<Rightarrow> string \<Rightarrow> DocumentObjectKey list res" where
  "identityPathOrderForReference apiSchema projectName resourceName =
     (case List.find (\<lambda>ps. ps_projectName ps = projectName) (map snd (as_projectSchemas apiSchema)) of
        None \<Rightarrow> Inl (InvariantError (''Project schema with projectName '' @ projectName @ '' was not found''))
      | Some projectSchema \<Rightarrow>
          (case List.find (\<lambda>rs. rs_resourceName rs = resourceName) (map snd (ps_resourceSchemas projectSchema)) of
             Some resourceSchema \<Rightarrow> Inr (rs_identityPathOrder resourceSchema)
           | None \<Rightarrow>
               (case map_of (ps_abstractResources projectSchema) resourceName of
                  None \<Rightarrow> Inl (InvariantError (''Resource schema with resourceName '' @ resourceName @
                            '' was not found''))
                | Some abstractResourceInfo \<Rightarrow> Inr (ari_identityPathOrder abstractResourceInfo))))"

text \<open>The slices of the paths that have values.  Paths without a value are skipped.\<close>

fun referenceSlices ::
  "jsonpath_plus \<Rightarrow> json \<Rightarrow> (DocumentObjectKey \<times> string) list \<Rightarrow> (DocumentObjectKey \<times> json list) list \<Rightarrow>
   (DocumentObjectKey \<times> json list) list res" where
  "referenceSlices jp documentBody [] acc = Inr acc"
| "referenceSlices jp documentBody ((documentKey, documentJsonPath) # paths) acc =
     res_bind (jp_flatten jp (Some documentJsonPath) documentBody) (\<lambda>documentValuesSlice.
       if documentValuesSlice = [] then referenceSlices jp documentBody paths acc
       else referenceSlices jp documentBody paths (AList.update documentKey documentValuesSlice acc))"

text \<open>The value at \<open>index\<close> of the slice of a key; the slice of a key without values is
  \<open>undefined\<close>, and indexing it throws.\<close>

definition sliceValue ::
  "(DocumentObjectKey \<times> json list) list \<Rightarrow> nat \<Rightarrow> DocumentObjectKey \<Rightarrow>
   (DocumentObjectKey \<times> json option) res" where
  "sliceValue slices index documentKey =
     (case map_of slices documentKey of
        None \<Rightarrow> Inl (TypeError ''Cannot read properties of undefined (reading index)'')
      | Some vs \<Rightarrow> Inr (documentKey, if index < length vs then Some (vs ! index) else None))"

definition orderedIdentity ::
  "DocumentObjectKey list \<Rightarrow> (DocumentObjectKey \<times> json option) list \<Rightarrow> DocumentIdentity" where
  "orderedIdentity identityPathOrder unsorted =
     map (\<lambda>documentKey. [(documentKey, case map_of unsorted documentKey of None \<Rightarrow> None | Some v \<Rightarrow> v)])
       identityPathOrder"

definition referenceAt ::
  "DocumentPaths \<Rightarrow> DocumentObjectKey list \<Rightarrow> (DocumentObjectKey \<times> json list) list \<Rightarrow> nat \<Rightarrow>
   DocumentReference res" where
  "referenceAt documentPaths identityPathOrder slices index =
     res_bind (res_map (sliceValue slices index) (dp_pathOrder documentPaths)) (\<lambda>unsorted.
       Inr \<lparr>dr_projectName = dp_projectName documentPaths,
            dr_resourceName = dp_resourceName documentPaths,
            dr_isDescriptor = dp_isDescriptor documentPaths,
            dr_documentIdentity = orderedIdentity identityPathOrder (js_assign [] unsorted)\<rparr>)"

definition referencesOfPaths ::
  "ApiSchema \<Rightarrow> jsonpath_plus \<Rightarrow> json \<Rightarrow> DocumentPaths \<Rightarrow> DocumentReference list res" where
  "referencesOfPaths apiSchema jp documentBody documentPaths =
     (case documentPaths of
        ScalarPath _ _ \<Rightarrow> Inr []
      | ReferencePaths paths pathOrder projectName resourceName isDescriptor \<Rightarrow>
          if isDescriptor then Inr []
          else
            res_bind (referenceSlices jp documentBody paths []) (\<lambda>slices.
              (case slices of
                 [] \<Rightarrow> Inr []
               | (k0, slice0) # rest \<Rightarrow>
                   if \<not> list_all (\<lambda>kv. length (snd kv) = length slice0) slices
                   then Inl (InvariantError ''Invariant Violation'')
                   else
                     res_bind (identityPathOrderForReference apiSchema projectName resourceName)
                       (\<lambda>identityPathOrder.
                          res_map (referenceAt documentPaths identityPathOrder slices) [0..<length slice0]))))"

definition extractDocumentReferences ::
  "ApiSchema \<Rightarrow> jsonpath_plus \<Rightarrow> ResourceSchema \<Rightarrow> json \<Rightarrow> DocumentReference list res" where
  "extractDocumentReferences apiSchema jp rs documentBody =
     res_bind (res_map (referencesOfPaths apiSchema jp documentBody) (map snd (rs_documentPathsMapping rs)))
       (\<lambda>rss. Inr (concat rss))"

section \<open>DescriptorValueExtractor\<close>

definition descriptorReferencesOfPaths ::
  "jsonpath_plus \<Rightarrow> json \<Rightarrow> DocumentPaths \<Rightarrow> DocumentReference list res" where
  "descriptorReferencesOfPaths jp documentBody documentPaths =
     (case documentPaths of
        ScalarPath _ _ \<Rightarrow> Inr []
      | ReferencePaths paths pathOrder projectName resourceName isDescriptor \<Rightarrow>
          if \<not> isDescriptor then Inr []
          else if length pathOrder \<noteq> 1
          then Inl (InvariantError (''DescriptorValueExtractor: Descriptor reference for '' @ resourceName @
                 '' must have a single path key''))
          else
            res_bind (jp_flatten jp (map_of paths (hd pathOrder)) documentBody) (\<lambda>descriptorValues.
              if descriptorValues = [] then Inr []
              else Inr [\<lparr>dr_projectName = projectName, dr_resourceName = resourceName,
                         dr_isDescriptor = isDescriptor,
                         dr_documentIdentity = map (\<lambda>v. [(''descriptor'', Some v)]) descriptorValues\<rparr>]))"

definition extractDescriptorValues ::
  "jsonpath_plus \<Rightarrow> ResourceSchema \<Rightarrow> json \<Rightarrow> DocumentReference list res" where
  "extractDescriptorValues jp rs documentBody =
     res_bind (res_map (descriptorReferencesOfPaths jp documentBody) (map snd (rs_documentPathsMapping rs)))
       (\<lambda>rss. Inr (concat rss))"

section \<open>SuperclassInfoExtractor\<close>

definition elementValue :: "DocumentIdentityElement \<Rightarrow> DocumentObjectKey \<Rightarrow> json option" where
  "elementValue el k = (case map_of el k of None \<Rightarrow> None | Some v \<Rightarrow> v)"

fun findIndex :: "('a \<Rightarrow> bool) \<Rightarrow> 'a list \<Rightarrow> nat option" where
  "findIndex P [] = None"
| "findIndex P (x # xs) = (if P x then Some 0 else map_option Suc (findIndex P xs))"

definition deriveSuperclassInfoFrom ::
  "ResourceSchema \<Rightarrow> DocumentIdentity \<Rightarrow> SuperclassInfo option res" where
  "deriveSuperclassInfoFrom rs documentIdentity =
     (case rs_subclass rs of
        NotSubclass \<Rightarrow> Inr None
      | AssociationSubclass project resource \<Rightarrow>
          Inr (Some \<lparr>si_documentIdentity = documentIdentity, si_projectName = project,
                     si_resourceName = resource\<rparr>)
      | DomainEntitySubclass project resource superclassKey subclassKey \<Rightarrow>
          (case findIndex (\<lambda>el. \<not> is_nullish (elementValue el subclassKey)) documentIdentity of
             None \<Rightarrow> Inl (InvariantError
               (''deriveSuperclassInfoFrom found no identity element with name '' @ subclassKey))
           | Some indexForRename \<Rightarrow>
               (let valueForRename = elementValue (documentIdentity ! indexForRename) subclassKey in
                if is_nullish valueForRename
                then Inl (InvariantError (''deriveSuperclassInfoFrom found no value for '' @ subclassKey))
                else Inr (Some \<lparr>si_documentIdentity =
                         documentIdentity[indexForRename := [(superclassKey, valueForRename)]],
                       si_projectName = project, si_resourceName = resource\<rparr>))))"

section \<open>BuildDocumentInfo\<close>

definition buildDocumentInfo ::
  "ApiSchema \<Rightarrow> jsonpath_plus \<Rightarrow> ResourceSchema \<Rightarrow> json \<Rightarrow> int \<Rightarrow> DocumentInfo res" where
  "buildDocumentInfo apiSchema jp rs body requestTimestamp =
     res_bind (extractDocumentIdentity jp rs body) (\<lambda>documentIdentity.
     res_bind (if \<not> rs_isDescriptor rs then deriveSuperclassInfoFrom rs documentIdentity else Inr None)
       (\<lambda>superclassInfo.
     res_bind (extractDocumentReferences apiSchema jp rs body) (\<lambda>documentReferences.
     res_bind (extractDescriptorValues jp rs body) (\<lambda>descriptorReferences.
     Inr \<lparr>di_documentIdentity = documentIdentity, di_documentReferences = documentReferences,
          di_descriptorReferences = descriptorReferences, di_superclassInfo = superclassInfo,
          di_requestTimestamp = requestTimestamp\<rparr>))))"

section \<open>Lemmas: identity\<close>

lemma extractIdentityElement_Inr:
  assumes "extractIdentityElement jp paths b k = Inr el"
  obtains v where "el = [(k, Some v)]" "jp_unwrapped jp (map_of paths k) b = Inr (Some v)"
    "v \<noteq> JNull" "\<nexists>xs. v = JArr xs"
proof -
  obtain dv where dv: "jp_unwrapped jp (map_of paths k) b = Inr dv"
    using assms by (auto simp: extractIdentityElement_def Let_def)
  show thesis
  proof (cases dv)
    case None
    then show ?thesis using assms dv by (simp add: extractIdentityElement_def is_nullish_def)
  next
    case (Some v)
    then show ?thesis
      using assms dv by (intro that [of v]) (cases v; simp add: extractIdentityElement_def is_nullish_def)+
  qed
qed

lemma extractDocumentIdentity_elements:
  assumes "\<not> rs_isDescriptor rs" "\<not> rs_isSchoolYearEnumeration rs"
    and "extractDocumentIdentity jp rs b = Inr di"
  obtains paths where "identityDocumentPaths rs = Inr paths"
    "res_map (extractIdentityElement jp paths b) (rs_identityPathOrder rs) = Inr di" "di \<noteq> []"
  using assms by (auto simp: extractDocumentIdentity_def split: if_splits)

lemma extractDocumentIdentity_nonempty:
  "extractDocumentIdentity jp rs b = Inr di \<Longrightarrow> di \<noteq> []"
  by (auto simp: extractDocumentIdentity_def descriptorDocumentIdentityFrom_def
      schoolYearEnumerationDocumentIdentityFrom_def split: if_splits)

lemma extractDocumentIdentity_wf:
  assumes "extractDocumentIdentity jp rs b = Inr di"
  shows "identity_wf di"
proof (cases "rs_isDescriptor rs \<or> rs_isSchoolYearEnumeration rs")
  case True
  then show ?thesis
    using assms by (auto simp: extractDocumentIdentity_def descriptorDocumentIdentityFrom_def
        schoolYearEnumerationDocumentIdentityFrom_def identity_wf_def split: if_splits)
next
  case False
  then obtain paths where "res_map (extractIdentityElement jp paths b) (rs_identityPathOrder rs) = Inr di"
    using extractDocumentIdentity_elements assms by blast
  then have "\<forall>i < length di. length (di ! i) = 1"
    by (auto simp: res_map_Inr_iff list_all2_conv_all_nth elim!: extractIdentityElement_Inr)
  then show ?thesis by (simp add: identity_wf_def list_all_length)
qed

section \<open>Lemmas: references\<close>

lemma single_keys_wf: "map (map fst) di = map (\<lambda>k. [k]) ks \<Longrightarrow> identity_wf di"
  by (induction di arbitrary: ks) (auto simp: identity_wf_def Cons_eq_map_conv)


lemma referenceAt_Inr:
  "referenceAt dp order slices i = Inr r \<Longrightarrow>
   dr_projectName r = dp_projectName dp \<and> dr_resourceName r = dp_resourceName dp \<and>
   dr_isDescriptor r = dp_isDescriptor dp \<and> map (map fst) (dr_documentIdentity r) = map (\<lambda>k. [k]) order"
  by (auto simp: referenceAt_def orderedIdentity_def)

lemma referencesOfPaths_member:
  assumes "referencesOfPaths a jp b dp = Inr rs" "r \<in> set rs"
  obtains paths pathOrder project resource slices order i where
    "dp = ReferencePaths paths pathOrder project resource False"
    "referenceSlices jp b paths [] = Inr slices"
    "identityPathOrderForReference a project resource = Inr order"
    "referenceAt dp order slices i = Inr r"
proof (cases dp)
  case (ScalarPath paths pathOrder)
  then show ?thesis using assms by (simp add: referencesOfPaths_def)
next
  case (ReferencePaths paths pathOrder project resource isDescriptor)
  then have nd: "\<not> isDescriptor" using assms by (cases isDescriptor) (simp_all add: referencesOfPaths_def)
  then obtain slices where slices: "referenceSlices jp b paths [] = Inr slices"
    using assms(1) ReferencePaths by (cases "referenceSlices jp b paths []") (simp_all add: referencesOfPaths_def)
  then obtain k0 slice0 rest where sl: "slices = (k0, slice0) # rest"
    using assms ReferencePaths nd by (cases slices) (auto simp: referencesOfPaths_def)
  then obtain order where order: "identityPathOrderForReference a project resource = Inr order"
    and rm: "res_map (referenceAt dp order slices) [0..<length slice0] = Inr rs"
    using assms ReferencePaths nd slices by (auto simp: referencesOfPaths_def split: if_splits)
  then obtain i where "referenceAt dp order slices i = Inr r"
    using res_map_member [OF rm assms(2)] by blast
  then show ?thesis using ReferencePaths nd slices order by (intro that) simp_all
qed

lemma referencesOfPaths_sound:
  assumes "referencesOfPaths a jp b dp = Inr rs" "r \<in> set rs"
  shows "\<not> dr_isDescriptor r"
    and "\<exists>order. identityPathOrderForReference a (dr_projectName r) (dr_resourceName r) = Inr order \<and>
             map (map fst) (dr_documentIdentity r) = map (\<lambda>k. [k]) order"
  using assms by (auto elim!: referencesOfPaths_member dest!: referenceAt_Inr)

lemma extractDocumentReferences_member:
  assumes "extractDocumentReferences a jp rs b = Inr refs" "r \<in> set refs"
  obtains dp part where "dp \<in> set (map snd (rs_documentPathsMapping rs))"
    "referencesOfPaths a jp b dp = Inr part" "r \<in> set part"
proof -
  obtain rss where rss: "res_map (referencesOfPaths a jp b) (map snd (rs_documentPathsMapping rs)) = Inr rss"
    "refs = concat rss"
    using assms(1) by (auto simp: extractDocumentReferences_def)
  then obtain part where "part \<in> set rss" "r \<in> set part" using assms(2) by auto
  then show thesis using res_map_member [OF rss(1)] that by blast
qed

lemma extractDescriptorValues_member:
  assumes "extractDescriptorValues jp rs b = Inr refs" "r \<in> set refs"
  obtains dp part where "dp \<in> set (map snd (rs_documentPathsMapping rs))"
    "descriptorReferencesOfPaths jp b dp = Inr part" "r \<in> set part"
proof -
  obtain rss where rss: "res_map (descriptorReferencesOfPaths jp b) (map snd (rs_documentPathsMapping rs)) = Inr rss"
    "refs = concat rss"
    using assms(1) by (auto simp: extractDescriptorValues_def)
  then obtain part where "part \<in> set rss" "r \<in> set part" using assms(2) by auto
  then show thesis using res_map_member [OF rss(1)] that by blast
qed

text \<open>When every path has a slice, the slices are the updates in path order.\<close>

lemma referenceSlices_total:
  assumes "\<And>k p. (k, p) \<in> set paths \<Longrightarrow> jp_flatten jp (Some p) b = Inr (vals k) \<and> vals k \<noteq> []"
  shows "referenceSlices jp b paths acc = Inr (js_assign acc (map (\<lambda>kp. (fst kp, vals (fst kp))) paths))"
  using assms
proof (induction jp b paths acc rule: referenceSlices.induct)
  case (1 jp b acc)
  then show ?case by simp
next
  case (2 jp b k p paths acc)
  have head: "jp_flatten jp (Some p) b = Inr (vals k)" "vals k \<noteq> []" using 2(3) by auto
  have "referenceSlices jp b ((k, p) # paths) acc = referenceSlices jp b paths (AList.update k (vals k) acc)"
    by (simp add: head)
  also have "\<dots> = Inr (js_assign (AList.update k (vals k) acc) (map (\<lambda>kp. (fst kp, vals (fst kp))) paths))"
    by (rule 2(2) [OF head]) (rule 2(3), simp)
  finally show ?case by (simp add: js_assign_def)
qed

lemma keys_js_assign_Nil:
  "distinct (map fst kvs) \<Longrightarrow> js_assign [] kvs = (kvs :: (string \<times> 'v) list)"
proof -
  have "fold (\<lambda>(k, v). AList.update k v) kvs acc = acc @ kvs"
    if "distinct (map fst (acc @ kvs))" for acc :: "(string \<times> 'v) list"
    using that
  proof (induction kvs arbitrary: acc)
    case (Cons kv kvs)
    have "AList.update (fst kv) (snd kv) acc = acc @ [kv]"
      using Cons.prems by (induction acc) auto
    with Cons.IH [of "acc @ [kv]"] Cons.prems show ?case by (cases kv) simp
  qed simp
  from this [of "[]"] show "distinct (map fst kvs) \<Longrightarrow> js_assign [] kvs = kvs"
    by (simp add: js_assign_def)
qed

section \<open>Lemmas: superclass\<close>

lemma findIndex_Some:
  "findIndex P xs = Some i \<Longrightarrow> i < length xs \<and> P (xs ! i) \<and> (\<forall>j < i. \<not> P (xs ! j))"
  by (induction xs arbitrary: i) (auto simp: nth_Cons split: if_splits nat.splits)

lemma findIndex_None: "findIndex P xs = None \<longleftrightarrow> (\<forall>x \<in> set xs. \<not> P x)"
  by (induction xs) auto

lemma buildDocumentInfo_Inr:
  assumes "buildDocumentInfo a jp rs b t = Inr info"
  obtains sup where "extractDocumentIdentity jp rs b = Inr (di_documentIdentity info)"
    "extractDocumentReferences a jp rs b = Inr (di_documentReferences info)"
    "extractDescriptorValues jp rs b = Inr (di_descriptorReferences info)"
    "di_superclassInfo info = sup" "di_requestTimestamp info = t"
    "(if \<not> rs_isDescriptor rs then deriveSuperclassInfoFrom rs (di_documentIdentity info) else Inr None) = Inr sup"
  using assms by (auto simp: buildDocumentInfo_def split: if_splits)

section \<open>Properties\<close>

text \<open>The identity of an ordinary resource lists the keys of \<open>identityPathOrder\<close> in their order,
  one key per element, each with the value found in the body, which is neither null nor an array;
  it is never empty.\<close>

theorem extractDocumentIdentity_ordered:
  assumes "\<not> rs_isDescriptor rs" "\<not> rs_isSchoolYearEnumeration rs"
    and "extractDocumentIdentity jp rs b = Inr di"
  shows "di \<noteq> [] \<and> map (map fst) di = map (\<lambda>k. [k]) (rs_identityPathOrder rs) \<and>
    (\<exists>paths. identityDocumentPaths rs = Inr paths \<and>
      list_all (\<lambda>el. \<exists>k v. el = [(k, Some v)] \<and> v \<noteq> JNull \<and> (\<nexists>xs. v = JArr xs) \<and>
         jp_unwrapped jp (map_of paths k) b = Inr (Some v)) di)"
proof -
  obtain paths where paths: "identityDocumentPaths rs = Inr paths"
    "res_map (extractIdentityElement jp paths b) (rs_identityPathOrder rs) = Inr di" "di \<noteq> []"
    using extractDocumentIdentity_elements [OF assms] by blast
  have "map fst el = [k]" if "extractIdentityElement jp paths b k = Inr el" for k el
    using that by (elim extractIdentityElement_Inr) simp
  then have "map (map fst) di = map (\<lambda>k. [k]) (rs_identityPathOrder rs)"
    using paths(2) by (auto simp: res_map_Inr_iff list_all2_conv_all_nth intro: nth_equalityI)
  moreover have "list_all (\<lambda>el. \<exists>k v. el = [(k, Some v)] \<and> v \<noteq> JNull \<and> (\<nexists>xs. v = JArr xs) \<and>
         jp_unwrapped jp (map_of paths k) b = Inr (Some v)) di"
    unfolding list_all_iff using res_map_member [OF paths(2)] by (metis extractIdentityElement_Inr)
  ultimately show ?thesis using paths by blast
qed

text \<open>A concrete evaluator for the witnesses: a path is the name of a property of the body.\<close>

definition property_of :: "string option \<Rightarrow> json \<Rightarrow> json option" where
  "property_of p b = (case p of None \<Rightarrow> None | Some k \<Rightarrow> (case b of JObj kvs \<Rightarrow> js_get k kvs | _ \<Rightarrow> None))"

definition property_jsonpath :: jsonpath_plus where
  "property_jsonpath = \<lparr>
     jp_flatten = (\<lambda>p b. Inr (case property_of p b of None \<Rightarrow> [] | Some (JArr xs) \<Rightarrow> xs | Some v \<Rightarrow> [v])),
     jp_unwrapped = (\<lambda>p b. Inr (property_of p b))\<rparr>"

definition example_schema :: ResourceSchema where
  "example_schema = newResourceSchema\<lparr>rs_resourceName := ''School'', rs_identityFullnames := [''SchoolId''],
     rs_identityPathOrder := [''schoolId''],
     rs_documentPathsMapping := [(''SchoolId'', ScalarPath [(''schoolId'', ''schoolId'')] [''schoolId'']),
       (''Lea'', ReferencePaths [(''leaId'', ''leaId'')] [''leaId''] ''Ed-Fi'' ''Lea'' False),
       (''Grade'', ReferencePaths [(''grade'', ''grades'')] [''grade''] ''Ed-Fi'' ''GradeDescriptor'' True)],
     rs_subclass := DomainEntitySubclass ''Ed-Fi'' ''EducationOrganization'' ''educationOrganizationId'' ''schoolId''\<rparr>"

definition example_lea_schema :: ResourceSchema where
  "example_lea_schema = newResourceSchema\<lparr>rs_resourceName := ''Lea'', rs_identityPathOrder := [''leaId'']\<rparr>"

definition example_api_schema :: ApiSchema where
  "example_api_schema = \<lparr>as_projectSchemas = [(''ed-fi'', NoProjectSchema\<lparr>ps_projectName := ''Ed-Fi'',
     ps_projectVersion := ''3.3.1'',
     ps_resourceSchemas := [(''schools'', example_schema), (''leas'', example_lea_schema)]\<rparr>)],
     as_projectNameMapping = []\<rparr>"

definition example_body :: json where
  "example_body = JObj [(''schoolId'', JNum ''123''), (''leaId'', JArr [JNum ''7'', JNum ''8'']),
     (''grades'', JArr [JStr ''g#1'', JStr ''g#2''])]"

definition referenceTo :: "string \<Rightarrow> DocumentReference" where
  "referenceTo n = \<lparr>dr_projectName = ''Ed-Fi'', dr_resourceName = ''Lea'', dr_isDescriptor = False,
     dr_documentIdentity = [[(''leaId'', Some (JNum n))]]\<rparr>"

lemma example_info:
  "\<exists>info. buildDocumentInfo example_api_schema property_jsonpath example_schema example_body t = Inr info"
proof -
  have "extractDocumentIdentity property_jsonpath example_schema example_body = Inr [[(''schoolId'', Some (JNum ''123''))]]"
    "extractDocumentReferences example_api_schema property_jsonpath example_schema example_body =
       Inr [referenceTo ''7'', referenceTo ''8'']"
    "\<exists>ds. extractDescriptorValues property_jsonpath example_schema example_body = Inr ds"
    "\<exists>si. deriveSuperclassInfoFrom example_schema [[(''schoolId'', Some (JNum ''123''))]] = Inr si"
    by (code_simp, code_simp, simp_all add: extractDescriptorValues_def deriveSuperclassInfoFrom_def
      example_schema_def descriptorReferencesOfPaths_def property_jsonpath_def elementValue_def is_nullish_def)
  then show ?thesis by (auto simp: buildDocumentInfo_def)
qed

theorem extractDocumentIdentity_ordered_witness:
  "[[(''schoolId'', Some (JNum ''123''))]] \<noteq> ([] :: DocumentIdentity) \<and>
   map (map fst) [[(''schoolId'', Some (JNum ''123''))]] = map (\<lambda>k. [k]) (rs_identityPathOrder example_schema) \<and>
    (\<exists>paths. identityDocumentPaths example_schema = Inr paths \<and>
      list_all (\<lambda>el. \<exists>k v. el = [(k, Some v)] \<and> v \<noteq> JNull \<and> (\<nexists>xs. v = JArr xs) \<and>
         jp_unwrapped property_jsonpath (map_of paths k) example_body = Inr (Some v))
       [[(''schoolId'', Some (JNum ''123''))]])"
proof (rule extractDocumentIdentity_ordered)
  show "extractDocumentIdentity property_jsonpath example_schema example_body = Inr [[(''schoolId'', Some (JNum ''123''))]]"
    by code_simp
qed (simp_all add: example_schema_def newResourceSchema_def)

text \<open>References of one path of the schema, when every JsonPath of it has \<open>n > 0\<close> values in the body:
  the result is exactly \<open>n\<close> references to the resource, and the identity of the \<open>i\<close>-th lists the keys in
  the order of the referenced resource, each with the \<open>i\<close>-th value of its own path.\<close>

theorem referencesOfPaths_transposes:
  assumes dp: "dp = ReferencePaths paths pathOrder project resource False"
    and "distinct (map fst paths)" "paths \<noteq> []" "0 < n"
    and vals: "\<And>k p. (k, p) \<in> set paths \<Longrightarrow> jp_flatten jp (Some p) b = Inr (vals k) \<and> length (vals k) = n"
    and "distinct pathOrder" "set pathOrder \<subseteq> fst ` set paths"
    and order: "identityPathOrderForReference a project resource = Inr order"
    and "set order \<subseteq> set pathOrder"
  shows "referencesOfPaths a jp b dp =
    Inr (map (\<lambda>i. \<lparr>dr_projectName = project, dr_resourceName = resource, dr_isDescriptor = False,
                  dr_documentIdentity = map (\<lambda>k. [(k, Some (vals k ! i))]) order\<rparr>) [0..<n])"
proof -
  let ?slices = "map (\<lambda>kp. (fst kp, vals (fst kp))) paths"
  have "referenceSlices jp b paths [] = Inr (js_assign [] ?slices)"
    by (rule referenceSlices_total) (use vals \<open>0 < n\<close> in force)
  moreover have "js_assign [] ?slices = ?slices"
    by (rule keys_js_assign_Nil) (simp add: assms(2) comp_def)
  ultimately have slices: "referenceSlices jp b paths [] = Inr ?slices" by simp
  obtain k0 p0 rest where paths: "paths = (k0, p0) # rest" using \<open>paths \<noteq> []\<close> by (cases paths) auto
  have lens: "list_all (\<lambda>kv. length (snd kv) = length (vals k0)) ?slices" "length (vals k0) = n"
  proof -
    have "\<forall>kp \<in> set paths. length (vals (fst kp)) = n" using vals by force
    then show "list_all (\<lambda>kv. length (snd kv) = length (vals k0)) ?slices" "length (vals k0) = n"
      by (auto simp: list_all_iff paths)
  qed
  have look: "map_of ?slices k = Some (vals k)" if "k \<in> set pathOrder" for k
    using that assms(2,7) by (force simp: comp_def intro: map_of_is_SomeI)
  have row: "referenceAt dp order ?slices i = Inr \<lparr>dr_projectName = project, dr_resourceName = resource,
      dr_isDescriptor = False, dr_documentIdentity = map (\<lambda>k. [(k, Some (vals k ! i))]) order\<rparr>"
    if "i < n" for i
  proof -
    have "sliceValue ?slices i k = Inr (k, Some (vals k ! i))" if "k \<in> set pathOrder" for k
      using that \<open>i < n\<close> look assms(7) vals by (force simp: sliceValue_def)
    then have "res_map (sliceValue ?slices i) pathOrder = Inr (map (\<lambda>k. (k, Some (vals k ! i))) pathOrder)"
      by (rule res_map_total)
    moreover have "js_assign [] (map (\<lambda>k. (k, Some (vals k ! i))) pathOrder) = map (\<lambda>k. (k, Some (vals k ! i))) pathOrder"
      by (rule keys_js_assign_Nil) (simp add: assms(6) comp_def)
    moreover have "map_of (map (\<lambda>k. (k, Some (vals k ! i))) pathOrder) k = Some (Some (vals k ! i))"
      if "k \<in> set order" for k
      using that assms(9) by (simp add: map_of_map_restrict subset_iff)
    ultimately show ?thesis
      by (simp add: referenceAt_def dp orderedIdentity_def)
  qed
  have "res_map (referenceAt dp order ?slices) [0..<n] =
    Inr (map (\<lambda>i. \<lparr>dr_projectName = project, dr_resourceName = resource, dr_isDescriptor = False,
                  dr_documentIdentity = map (\<lambda>k. [(k, Some (vals k ! i))]) order\<rparr>) [0..<n])"
    by (rule res_map_total) (simp add: row)
  then have rows: "res_map (referenceAt dp order ?slices) [0..<length (vals k0)] =
    Inr (map (\<lambda>i. \<lparr>dr_projectName = project, dr_resourceName = resource, dr_isDescriptor = False,
                  dr_documentIdentity = map (\<lambda>k. [(k, Some (vals k ! i))]) order\<rparr>) [0..<n])"
    using lens(2) by simp
  define S where "S = ?slices"
  obtain rest' where S: "S = (k0, vals k0) # rest'" by (simp add: S_def paths)
  show ?thesis
    using slices order rows lens(1) unfolding S_def [symmetric]
    by (simp add: referencesOfPaths_def dp S)
qed

theorem referencesOfPaths_transposes_witness:
  "referencesOfPaths example_api_schema property_jsonpath example_body
     (ReferencePaths [(''leaId'', ''leaId'')] [''leaId''] ''Ed-Fi'' ''Lea'' False) =
    Inr (map (\<lambda>i. \<lparr>dr_projectName = ''Ed-Fi'', dr_resourceName = ''Lea'', dr_isDescriptor = False,
      dr_documentIdentity = map (\<lambda>k. [(k, Some ((\<lambda>_. [JNum ''7'', JNum ''8'']) k ! i))]) [''leaId'']\<rparr>) [0..<2])"
proof (rule referencesOfPaths_transposes)
  show "identityPathOrderForReference example_api_schema ''Ed-Fi'' ''Lea'' = Inr [''leaId'']"
    by code_simp
qed (auto simp: property_jsonpath_def property_of_def example_body_def js_get_def)

text \<open>Every document reference that is extracted is a non-descriptor reference whose identity has the
  keys of the identity of the referenced resource (concrete or abstract), one per element, in their order.\<close>

lemma extractDocumentReferences_sound:
  assumes "extractDocumentReferences a jp rs b = Inr refs" "r \<in> set refs"
  shows "\<not> dr_isDescriptor r \<and> identity_wf (dr_documentIdentity r) \<and>
    (\<exists>order. identityPathOrderForReference a (dr_projectName r) (dr_resourceName r) = Inr order \<and>
       map (map fst) (dr_documentIdentity r) = map (\<lambda>k. [k]) order)"
proof -
  obtain dp part where "referencesOfPaths a jp b dp = Inr part" "r \<in> set part"
    using extractDocumentReferences_member [OF assms] by blast
  note sound = referencesOfPaths_sound [OF this]
  then obtain order where "map (map fst) (dr_documentIdentity r) = map (\<lambda>k. [k]) order" by blast
  then have "identity_wf (dr_documentIdentity r)" by (rule single_keys_wf)
  then show ?thesis using sound by blast
qed

lemma extractDocumentReferences_sound_example:
  "\<not> dr_isDescriptor (referenceTo ''7'') \<and> identity_wf (dr_documentIdentity (referenceTo ''7'')) \<and>
    (\<exists>order. identityPathOrderForReference example_api_schema (dr_projectName (referenceTo ''7''))
         (dr_resourceName (referenceTo ''7'')) = Inr order \<and>
       map (map fst) (dr_documentIdentity (referenceTo ''7'')) = map (\<lambda>k. [k]) order)"
  by (rule extractDocumentReferences_sound [of _ property_jsonpath example_schema example_body
        "[referenceTo ''7'', referenceTo ''8'']"]) (code_simp, simp)

lemma deriveSuperclassInfo_renames_one_aux:
  assumes "rs_subclass rs = DomainEntitySubclass project resource superclassKey subclassKey"
    and "deriveSuperclassInfoFrom rs di = Inr si"
  shows "\<exists>i v. i < length di \<and> elementValue (di ! i) subclassKey = Some v \<and> v \<noteq> JNull \<and>
    list_all (\<lambda>el. is_nullish (elementValue el subclassKey)) (take i di) \<and>
    si = Some \<lparr>si_documentIdentity = take i di @ [(superclassKey, Some v)] # drop (Suc i) di,
              si_projectName = project, si_resourceName = resource\<rparr>"
proof -
  obtain i where i: "findIndex (\<lambda>el. \<not> is_nullish (elementValue el subclassKey)) di = Some i"
    using assms by (auto simp: deriveSuperclassInfoFrom_def split: option.splits)
  note found = findIndex_Some [OF i]
  then obtain v where v: "elementValue (di ! i) subclassKey = Some v" "v \<noteq> JNull"
    by (auto simp: is_nullish_def)
  have "list_all (\<lambda>el. is_nullish (elementValue el subclassKey)) (take i di)"
    using found by (auto simp: list_all_length)
  moreover have "si = Some \<lparr>si_documentIdentity = di[i := [(superclassKey, Some v)]],
      si_projectName = project, si_resourceName = resource\<rparr>"
    using assms i v by (simp add: deriveSuperclassInfoFrom_def is_nullish_def)
  ultimately show ?thesis
    using found v by (auto simp: upd_conv_take_nth_drop)
qed

text \<open>The identity of the superclass of a domain entity differs from the identity of the document in
  one element only: the first one that has a value for the subclass key now has the superclass key,
  with the same value; the length and all other elements are kept.\<close>

theorem deriveSuperclassInfo_renames_one:
  assumes "rs_subclass rs = DomainEntitySubclass project resource superclassKey subclassKey"
    and "deriveSuperclassInfoFrom rs di = Inr si"
  shows "\<exists>i v. i < length di \<and> elementValue (di ! i) subclassKey = Some v \<and> v \<noteq> JNull \<and>
    list_all (\<lambda>el. is_nullish (elementValue el subclassKey)) (take i di) \<and>
    si = Some \<lparr>si_documentIdentity = take i di @ [(superclassKey, Some v)] # drop (Suc i) di,
              si_projectName = project, si_resourceName = resource\<rparr>"
  by (rule deriveSuperclassInfo_renames_one_aux [OF assms])

theorem deriveSuperclassInfo_renames_one_witness:
  "\<exists>i v. i < length [[(''schoolId'', Some (JNum ''123''))]] \<and>
    elementValue ([[(''schoolId'', Some (JNum ''123''))]] ! i) ''schoolId'' = Some v \<and> v \<noteq> JNull \<and>
    list_all (\<lambda>el. is_nullish (elementValue el ''schoolId'')) (take i [[(''schoolId'', Some (JNum ''123''))]]) \<and>
    Some \<lparr>si_documentIdentity = [[(''educationOrganizationId'', Some (JNum ''123''))]],
          si_projectName = ''Ed-Fi'', si_resourceName = ''EducationOrganization''\<rparr> =
    Some \<lparr>si_documentIdentity = take i [[(''schoolId'', Some (JNum ''123''))]] @
            [(''educationOrganizationId'', Some v)] # drop (Suc i) [[(''schoolId'', Some (JNum ''123''))]],
          si_projectName = ''Ed-Fi'', si_resourceName = ''EducationOrganization''\<rparr>"
  by (rule deriveSuperclassInfo_renames_one [of example_schema]) (simp add: example_schema_def, code_simp)

lemma descriptorReferencesOfPaths_wf:
  "descriptorReferencesOfPaths jp b dp = Inr part \<Longrightarrow> r \<in> set part \<Longrightarrow>
   dr_isDescriptor r \<and> identity_wf (dr_documentIdentity r) \<and> dr_documentIdentity r \<noteq> []"
  by (auto simp: descriptorReferencesOfPaths_def identity_wf_def list_all_iff
      split: DocumentPaths.splits if_splits)

lemma deriveSuperclassInfo_wf:
  assumes "identity_wf di" "deriveSuperclassInfoFrom rs di = Inr (Some si)"
  shows "identity_wf (si_documentIdentity si)"
proof (cases "rs_subclass rs")
  case (DomainEntitySubclass project resource superclassKey subclassKey)
  obtain i v where "Some si = Some \<lparr>si_documentIdentity = take i di @ [(superclassKey, Some v)] # drop (Suc i) di,
              si_projectName = project, si_resourceName = resource\<rparr>"
    using deriveSuperclassInfo_renames_one_aux [OF DomainEntitySubclass assms(2)] by blast
  then show ?thesis
    using assms(1) by (auto simp: identity_wf_def list_all_iff dest: in_set_takeD in_set_dropD)
qed (use assms in \<open>auto simp: deriveSuperclassInfoFrom_def\<close>)

text \<open>C36: Whatever body a document information is built from, the backend can compute every identifier
  it needs: the identity of the document, of each document and descriptor reference and of the
  superclass give a meadowlarkId without an error.  The document identity is not empty, so the
  result is never \<open>NoDocumentInfo\<close>.\<close>

theorem buildDocumentInfo_ids:
  assumes "digest_law shake256"
    and "buildDocumentInfo a jp rs b t = Inr info"
  shows "info \<noteq> NoDocumentInfo \<and> di_requestTimestamp info = t \<and>
    (\<exists>i. meadowlarkIdForDocumentIdentity shake256 r (di_documentIdentity info) = Inr i) \<and>
    (\<exists>is. res_map (getMeadowlarkIdForDocumentReference shake256) (di_documentReferences info) = Inr is) \<and>
    (\<exists>is. res_map (getMeadowlarkIdForDocumentReference shake256) (di_descriptorReferences info) = Inr is) \<and>
    (case di_superclassInfo info of None \<Rightarrow> True
       | Some si \<Rightarrow> \<exists>i. getMeadowlarkIdForSuperclassInfo shake256 si = Inr i)"
proof -
  obtain sup where info: "extractDocumentIdentity jp rs b = Inr (di_documentIdentity info)"
    "extractDocumentReferences a jp rs b = Inr (di_documentReferences info)"
    "extractDescriptorValues jp rs b = Inr (di_descriptorReferences info)"
    "di_superclassInfo info = sup" "di_requestTimestamp info = t"
    "(if \<not> rs_isDescriptor rs then deriveSuperclassInfoFrom rs (di_documentIdentity info) else Inr None) = Inr sup"
    using buildDocumentInfo_Inr [OF assms(2)] by blast
  have idOf: "\<exists>i. meadowlarkIdForDocumentIdentity shake256 q di = Inr i" if "identity_wf di" for q :: "'b BaseResourceInfo_scheme" and di
    using that by (simp add: meadowlarkIdForDocumentIdentity_def documentIdentityHashFrom_def documentIdentityString_wf)
  have refId: "\<exists>i. getMeadowlarkIdForDocumentReference shake256 d = Inr i" if "identity_wf (dr_documentIdentity d)" for d
    using that by (simp add: getMeadowlarkIdForDocumentReference_def meadowlarkIdForDocumentIdentity_def
        documentIdentityHashFrom_def documentIdentityString_wf)
  have wf: "identity_wf (di_documentIdentity info)" by (rule extractDocumentIdentity_wf [OF info(1)])
  have refs: "identity_wf (dr_documentIdentity d)" if "d \<in> set (di_documentReferences info)" for d
    using extractDocumentReferences_member [OF info(2) that] referencesOfPaths_sound(2) single_keys_wf by metis
  have descs: "identity_wf (dr_documentIdentity d)" if "d \<in> set (di_descriptorReferences info)" for d
    using extractDescriptorValues_member [OF info(3) that] descriptorReferencesOfPaths_wf by metis
  have "case sup of None \<Rightarrow> True | Some si \<Rightarrow> \<exists>i. getMeadowlarkIdForSuperclassInfo shake256 si = Inr i"
    using info(6) deriveSuperclassInfo_wf [OF wf]
    by (auto simp: getMeadowlarkIdForSuperclassInfo_def meadowlarkIdForDocumentIdentity_def
        documentIdentityHashFrom_def documentIdentityString_wf split: option.split if_splits)
  moreover have "info \<noteq> NoDocumentInfo"
    using extractDocumentIdentity_nonempty [OF info(1)] by (auto simp: NoDocumentInfo_def newDocumentInfo_def)
  moreover have "\<exists>is. res_map (getMeadowlarkIdForDocumentReference shake256) ds = Inr is"
    if "\<And>d. d \<in> set ds \<Longrightarrow> identity_wf (dr_documentIdentity d)" for ds
    by (rule res_map_exists) (use refId that in blast)
  ultimately show ?thesis using idOf [OF wf] refs descs info(4,5) by simp
qed

theorem buildDocumentInfo_ids_witness:
  "\<exists>info. buildDocumentInfo example_api_schema property_jsonpath example_schema example_body 5 = Inr info \<and>
    info \<noteq> NoDocumentInfo \<and> di_requestTimestamp info = 5 \<and>
    (\<exists>i. meadowlarkIdForDocumentIdentity prefix_digest newResourceInfo (di_documentIdentity info) = Inr i) \<and>
    (\<exists>is. res_map (getMeadowlarkIdForDocumentReference prefix_digest) (di_documentReferences info) = Inr is) \<and>
    (\<exists>is. res_map (getMeadowlarkIdForDocumentReference prefix_digest) (di_descriptorReferences info) = Inr is) \<and>
    (case di_superclassInfo info of None \<Rightarrow> True
       | Some si \<Rightarrow> \<exists>i. getMeadowlarkIdForSuperclassInfo prefix_digest si = Inr i)"
proof -
  obtain info where "buildDocumentInfo example_api_schema property_jsonpath example_schema example_body 5 = Inr info"
    using example_info by blast
  then show ?thesis using buildDocumentInfo_ids [OF prefix_digest_law] by blast
qed

text \<open>A descriptor path that has several values in the body gives one single reference whose
  identity has one element per value.  Its identity text joins all the values, so for values without
  the separators it is the identity text of none of the descriptors it names.\<close>

theorem descriptor_collection_one_reference:
  assumes "jp_flatten jp (map_of paths k) b = Inr [JStr v, JStr w]"
  shows "descriptorReferencesOfPaths jp b (ReferencePaths paths [k] project resource True) =
      Inr [\<lparr>dr_projectName = project, dr_resourceName = resource, dr_isDescriptor = True,
            dr_documentIdentity = [[(''descriptor'', Some (JStr v))], [(''descriptor'', Some (JStr w))]]\<rparr>] \<and>
    documentIdentityString [[(''descriptor'', Some (JStr v))], [(''descriptor'', Some (JStr w))]] =
      Inr (''descriptor='' @ v @ ''#descriptor='' @ w) \<and>
    documentIdentityString [[(''descriptor'', Some (JStr v))]] \<noteq>
      documentIdentityString [[(''descriptor'', Some (JStr v))], [(''descriptor'', Some (JStr w))]]"
  using assms
  by (simp add: descriptorReferencesOfPaths_def documentIdentityString_def element_string_def js_opt_to_string_def)

theorem descriptor_collection_one_reference_witness:
  "descriptorReferencesOfPaths property_jsonpath example_body
      (ReferencePaths [(''grade'', ''grades'')] [''grade''] ''Ed-Fi'' ''GradeDescriptor'' True) =
      Inr [\<lparr>dr_projectName = ''Ed-Fi'', dr_resourceName = ''GradeDescriptor'', dr_isDescriptor = True,
            dr_documentIdentity = [[(''descriptor'', Some (JStr ''g#1''))], [(''descriptor'', Some (JStr ''g#2''))]]\<rparr>] \<and>
    documentIdentityString [[(''descriptor'', Some (JStr ''g#1''))], [(''descriptor'', Some (JStr ''g#2''))]] =
      Inr (''descriptor='' @ ''g#1'' @ ''#descriptor='' @ ''g#2'') \<and>
    documentIdentityString [[(''descriptor'', Some (JStr ''g#1''))]] \<noteq>
      documentIdentityString [[(''descriptor'', Some (JStr ''g#1''))], [(''descriptor'', Some (JStr ''g#2''))]]"
  by (rule descriptor_collection_one_reference) code_simp

end
