(* ===== verification/Validation.thy ===== *)
theory Validation
  imports Schema
begin

text \<open>
  The validators of \<open>meadowlark-core/src/validation\<close> and the helpers of \<open>Utility.ts\<close>: equality
  constraints, pagination parameters (with the language's \<open>Number\<close> and \<open>parseInt\<close> on text), the
  endpoint, the query string and the document.  Ajv, better-ajv-errors and didyoumean are
  fields of \<open>core_env\<close>, together with JSONPath-Plus and the two environment flags.
\<close>

section \<open>The environment of meadowlark-core\<close>

datatype Suggestion = NoSuggestion | OneSuggestion string | SuggestionList "string list"

record ajv_options =
  ao_coerceTypes :: bool
  ao_removeAdditional :: bool

record core_env =
  ce_jsonPath :: jsonpath_plus
  ce_ajvCompile :: "ajv_options \<Rightarrow> json \<Rightarrow> ValidateFunction res"
  ce_betterAjvErrors :: "json \<Rightarrow> json \<Rightarrow> ErrorObject list option \<Rightarrow> json option"
  ce_didYouMean :: "string \<Rightarrow> string list \<Rightarrow> Suggestion"
  ce_numberText :: "string \<Rightarrow> string"
  ce_ALLOW_OVERPOSTING :: bool
  ce_ALLOW_TYPE_COERCION :: bool

section \<open>Utility\<close>

definition decapitalize :: "string \<Rightarrow> string" where
  "decapitalize str =
     (if length str = 0 then str
      else if length str = 1 then js_toLowerCase str
      else js_toLowerCase [hd str] @ tl str)"

definition omitEmptyArrays :: "json \<Rightarrow> json option" where
  "omitEmptyArrays value = (if value = JArr [] then None else Some value)"

definition createInvalidRequestResponse :: "json \<Rightarrow> json" where
  "createInvalidRequestResponse modelState =
     JObj [(''error'', JStr ''The request is invalid.''), (''modelState'', modelState)]"

section \<open>Compiled validators and their cache\<close>

definition initializeAjv :: "core_env \<Rightarrow> bool \<Rightarrow> ajv_options" where
  "initializeAjv env isQueryParameterValidator =
     \<lparr>ao_coerceTypes = ce_ALLOW_TYPE_COERCION env,
      ao_removeAdditional = (if isQueryParameterValidator then False else ce_ALLOW_OVERPOSTING env)\<rparr>"

definition compileValidators :: "core_env \<Rightarrow> ajv_options \<Rightarrow> ResourceSchema \<Rightarrow> ResourceSchemaValidators res" where
  "compileValidators env ajv rs =
     res_bind (ce_ajvCompile env ajv (rs_jsonSchemaForInsert rs)) (\<lambda>i.
     res_bind (ce_ajvCompile env ajv (rs_jsonSchemaForQuery rs)) (\<lambda>q.
     res_bind (ce_ajvCompile env ajv (rs_jsonSchemaForUpdate rs)) (\<lambda>u.
     Inr \<lparr>insertValidator = i, queryValidator = q, updateValidator = u\<rparr>)))"

text \<open>The cache that is read depends on the kind of validator; the one that is written is always
  \<open>validatorCache\<close>.\<close>

definition getSchemaValidatorsFor ::
  "core_env \<Rightarrow> ResourceSchema \<Rightarrow> bool \<Rightarrow> (ResourceSchemaValidators, 'm core_state_scheme) act" where
  "getSchemaValidatorsFor env rs isQueryParameterValidator = (\<lambda>s.
     case map_of (if isQueryParameterValidator then cs_queryValidatorCache s else cs_validatorCache s) rs of
       Some cachedValidators \<Rightarrow> ret cachedValidators s
     | None \<Rightarrow>
         bnd (lift (compileValidators env (initializeAjv env isQueryParameterValidator) rs))
           (\<lambda>resourceValidators s'.
              (Inr resourceValidators,
               s'\<lparr>cs_validatorCache := AList.update rs resourceValidators (cs_validatorCache s')\<rparr>)) s)"

definition clearAllValidatorCache :: "(unit, 'm core_state_scheme) act" where
  "clearAllValidatorCache = (\<lambda>s. (Inr (), s\<lparr>cs_validatorCache := [], cs_queryValidatorCache := []\<rparr>))"

section \<open>DocumentValidator\<close>

text \<open>The result, and the body after the removals and coercions of Ajv.\<close>

definition validateDocument ::
  "core_env \<Rightarrow> ResourceSchema \<Rightarrow> json \<Rightarrow> bool \<Rightarrow> (json option \<times> json, 'm core_state_scheme) act" where
  "validateDocument env rs body isUpdate =
     bnd (getSchemaValidatorsFor env rs False) (\<lambda>resourceValidators.
       (let validator = (if isUpdate then updateValidator resourceValidators
                         else insertValidator resourceValidators);
            (isValid, errors, body') = validator body
        in if isValid then ret (None, body')
           else
             (case ce_betterAjvErrors env body'
                     (if isUpdate then rs_jsonSchemaForUpdate rs else rs_jsonSchemaForInsert rs) errors of
                None \<Rightarrow> ret (None, body')
              | Some validationErrors \<Rightarrow> ret (Some (JObj [(''error'', validationErrors)]), body'))))"

section \<open>EqualityConstraintValidator\<close>

text \<open>The paths of the constraints lead to texts, numbers and booleans, for which \<open>===\<close> is equality of \<open>json\<close>; numbers
  are compared as their literals.  Objects and arrays would be compared by reference.\<close>

definition allEqual :: "json list \<Rightarrow> bool" where
  "allEqual array = (if length array = 0 then True else list_all (\<lambda>element. element = hd array) array)"

definition equalityConstraintFailure :: "EqualityConstraint \<Rightarrow> string" where
  "equalityConstraintFailure ec =
     ''Constraint failure: document paths '' @ ec_sourceJsonPath ec @ '' and '' @ ec_targetJsonPath ec @
     '' must have the same values''"

definition checkEqualityConstraint ::
  "jsonpath_plus \<Rightarrow> json \<Rightarrow> EqualityConstraint \<Rightarrow> string list res" where
  "checkEqualityConstraint jp parsedBody ec =
     res_bind (jp_flatten jp (Some (ec_sourceJsonPath ec)) parsedBody) (\<lambda>sourceValues.
     res_bind (jp_flatten jp (Some (ec_targetJsonPath ec)) parsedBody) (\<lambda>targetValues.
     Inr (if \<not> allEqual (sourceValues @ targetValues) then [equalityConstraintFailure ec] else [])))"

definition validateEqualityConstraints ::
  "jsonpath_plus \<Rightarrow> ResourceSchema \<Rightarrow> json \<Rightarrow> string list res" where
  "validateEqualityConstraints jp rs parsedBody =
     res_bind (res_map (checkEqualityConstraint jp parsedBody) (rs_equalityConstraints rs))
       (\<lambda>failures. Inr (concat failures))"

section \<open>Numbers as text\<close>

definition is_digit :: "char \<Rightarrow> bool" where
  "is_digit c \<longleftrightarrow> 48 \<le> (of_char c :: nat) \<and> (of_char c :: nat) \<le> 57"

definition is_js_space :: "char \<Rightarrow> bool" where
  "is_js_space c \<longleftrightarrow> (of_char c :: nat) \<in> {9, 10, 11, 12, 13, 32, 160}"

definition js_trimStart :: "string \<Rightarrow> string" where
  "js_trimStart s = dropWhile is_js_space s"

definition js_trim :: "string \<Rightarrow> string" where
  "js_trim s = rev (dropWhile is_js_space (rev (js_trimStart s)))"

definition digits1 :: "string \<Rightarrow> bool" where
  "digits1 s \<longleftrightarrow> s \<noteq> [] \<and> list_all is_digit s"

definition strip_sign :: "string \<Rightarrow> string" where
  "strip_sign s = (case s of [] \<Rightarrow> [] | c # cs \<Rightarrow> if c = CHR ''+'' \<or> c = CHR ''-'' then cs else s)"

text \<open>An unsigned decimal literal: digits with an optional fraction, or a fraction, and an optional
  exponent.\<close>

definition exponent_ok :: "string \<Rightarrow> bool" where
  "exponent_ok s \<longleftrightarrow>
     (case s of [] \<Rightarrow> True | c # cs \<Rightarrow> (c = CHR ''e'' \<or> c = CHR ''E'') \<and> digits1 (strip_sign cs))"

definition decimal_literal :: "string \<Rightarrow> bool" where
  "decimal_literal s \<longleftrightarrow>
     (let ip = takeWhile is_digit s; r = dropWhile is_digit s in
      case r of
        [] \<Rightarrow> ip \<noteq> []
      | c # r' \<Rightarrow>
          if c = CHR ''.''
          then (let fp = takeWhile is_digit r' in
                (ip \<noteq> [] \<or> fp \<noteq> []) \<and> exponent_ok (dropWhile is_digit r'))
          else ip \<noteq> [] \<and> exponent_ok r)"

definition radix_literal :: "string \<Rightarrow> bool" where
  "radix_literal s \<longleftrightarrow>
     (case s of
        z # x # ds \<Rightarrow>
          z = CHR ''0'' \<and> ds \<noteq> [] \<and>
          (if x \<in> {CHR ''x'', CHR ''X''} then list_all (\<lambda>c. c \<in> set ''0123456789abcdefABCDEF'') ds
           else if x \<in> {CHR ''o'', CHR ''O''} then list_all (\<lambda>c. c \<in> set ''01234567'') ds
           else if x \<in> {CHR ''b'', CHR ''B''} then list_all (\<lambda>c. c \<in> set ''01'') ds
           else False)
      | _ \<Rightarrow> False)"

text \<open>\<open>Number(s)\<close> is not NaN.\<close>

definition numeric_text :: "string \<Rightarrow> bool" where
  "numeric_text s \<longleftrightarrow>
     (let t = js_trim s in
      t = [] \<or> radix_literal t \<or> strip_sign t = ''Infinity'' \<or> decimal_literal (strip_sign t))"

fun Number_is_NaN :: "json \<Rightarrow> bool" where
  "Number_is_NaN (JStr s) = (\<not> numeric_text s)"
| "Number_is_NaN (JNum n) = (n = ''NaN'')"
| "Number_is_NaN (JBool b) = False"
| "Number_is_NaN JNull = False"
| "Number_is_NaN (JArr xs) = (\<not> numeric_text (js_to_string (JArr xs)))"
| "Number_is_NaN (JObj kvs) = True"

fun digits_value :: "nat \<Rightarrow> string \<Rightarrow> nat" where
  "digits_value acc [] = acc"
| "digits_value acc (c # cs) = digits_value (acc * 10 + (of_char c - 48)) cs"

text \<open>\<open>Number.parseInt(s, 10)\<close>; \<open>None\<close> is NaN.\<close>

definition js_parseInt :: "string \<Rightarrow> int option" where
  "js_parseInt s =
     (let t = js_trimStart s;
          ds = takeWhile is_digit (strip_sign t);
          n = int (digits_value 0 ds)
      in if ds = [] then None
         else Some (if t \<noteq> [] \<and> hd t = CHR ''-'' then - n else n))"

section \<open>PaginationValidator\<close>

text \<open>A number is negative when its canonical text starts with a minus sign.\<close>

definition isNotPositiveInteger :: "json \<Rightarrow> bool" where
  "isNotPositiveInteger value \<longleftrightarrow>
     Number_is_NaN value \<or>
     (case value of
        JNum n \<Rightarrow> js_startsWith n ''-''
      | _ \<Rightarrow> (case js_parseInt (js_to_string value) of None \<Rightarrow> False | Some i \<Rightarrow> i < 0))"

record PaginationParameters =
  pp_limit :: "json option"
  pp_offset :: "json option"

definition limitErrors :: "PaginationParameters \<Rightarrow> string list" where
  "limitErrors parameters =
     (case pp_limit parameters of
        None \<Rightarrow> []
      | Some v \<Rightarrow> if v \<noteq> JNull \<and> isNotPositiveInteger v then [''Must be set to a numeric value >= 0''] else []) @
     (if \<not> is_nullish (pp_offset parameters) \<and> is_nullish (pp_limit parameters)
      then [''Limit must be provided when using offset''] else [])"

definition offsetErrors :: "PaginationParameters \<Rightarrow> string list" where
  "offsetErrors parameters =
     (case pp_offset parameters of
        None \<Rightarrow> []
      | Some v \<Rightarrow> if v \<noteq> JNull \<and> isNotPositiveInteger v then [''Must be set to a numeric value >= 0''] else [])"

definition validatePaginationParameters :: "PaginationParameters \<Rightarrow> json option" where
  "validatePaginationParameters parameters =
     (if is_nullish (pp_limit parameters) \<and> is_nullish (pp_offset parameters) then None
      else if length (limitErrors parameters) > 0 \<or> length (offsetErrors parameters) > 0
      then Some (createInvalidRequestResponse
             (JObj [(''limit'', JArr (map JStr (limitErrors parameters))),
                    (''offset'', JArr (map JStr (offsetErrors parameters)))]))
      else None)"

section \<open>QueryStringValidator\<close>

type_synonym FrontendQueryParameters = js_object

text \<open>\<open>Number(v)\<close> as a JSON number, when it is not NaN; the text of a numeric literal is
  \<open>ce_numberText\<close>.\<close>

definition js_Number :: "core_env \<Rightarrow> json \<Rightarrow> json option" where
  "js_Number env v =
     (if Number_is_NaN v then None
      else Some (case v of
          JStr s \<Rightarrow> JNum (ce_numberText env (js_trim s))
        | JNum n \<Rightarrow> JNum n
        | JBool b \<Rightarrow> JNum (if b then ''1'' else ''0'')
        | JNull \<Rightarrow> JNum ''0''
        | _ \<Rightarrow> JNum (ce_numberText env (js_trim (js_to_string v)))))"

definition js_prop_opt :: "json option \<Rightarrow> string \<Rightarrow> json option res" where
  "js_prop_opt v k =
     (case v of
        None \<Rightarrow> Inl (TypeError (''Cannot read properties of undefined (reading '' @ k @ '')''))
      | Some j \<Rightarrow> js_prop j k)"

text \<open>The coercion of one parameter by the type its property has in the query schema.  A parameter
  \<open>'true'\<close> or \<open>'false'\<close> of a boolean property becomes \<open>Boolean(text)\<close>, which is \<open>true\<close> for both.\<close>

definition coerceParameter ::
  "core_env \<Rightarrow> json option \<Rightarrow> json \<Rightarrow> json" where
  "coerceParameter env propertyType v =
     (let v1 = (if propertyType = Some (JStr ''integer'') \<or> propertyType = Some (JStr ''number'')
                then (case js_Number env v of None \<Rightarrow> v | Some n \<Rightarrow> n) else v)
      in if propertyType = Some (JStr ''boolean'') \<and> (v1 = JStr ''true'' \<or> v1 = JStr ''false'')
         then JBool True else v1)"

definition queryProperty :: "ResourceSchema \<Rightarrow> string \<Rightarrow> json option res" where
  "queryProperty rs keyValue =
     res_bind (js_prop (rs_jsonSchemaForQuery rs) ''properties'') (\<lambda>properties.
     js_prop_opt properties keyValue)"

definition coerceEntry :: "core_env \<Rightarrow> ResourceSchema \<Rightarrow> string \<times> json \<Rightarrow> (string \<times> json) res" where
  "coerceEntry env rs kv =
     res_bind (queryProperty rs (fst kv)) (\<lambda>property.
       if is_nullish property then Inr kv
       else res_bind (js_prop_opt property ''type'') (\<lambda>propertyType.
         if is_nullish propertyType then Inr kv
         else Inr (fst kv, coerceParameter env propertyType (snd kv))))"

definition queryErrorText :: "ResourceSchema \<Rightarrow> ErrorObject \<Rightarrow> string" where
  "queryErrorText rs e =
     (if eo_instancePath e = '''' \<and> eo_keyword e = ''additionalProperties''
      then rs_resourceName rs @ '' does not include property '' @ [CHR 0x27] @ eo_additionalProperty e @ [CHR 0x27]
      else eo_instancePath e @ '' '' @ eo_message e)"

definition validateQueryParameters ::
  "core_env \<Rightarrow> ResourceSchema \<Rightarrow> FrontendQueryParameters \<Rightarrow> (string list, 'm core_state_scheme) act" where
  "validateQueryParameters env rs queryParameters =
     bnd (getSchemaValidatorsFor env rs True) (\<lambda>validators.
     bnd (lift (res_map (coerceEntry env rs) queryParameters)) (\<lambda>coerced.
       (let (isValid, errors, _) = queryValidator validators (JObj coerced)
        in if isValid then ret []
           else ret (case errors of None \<Rightarrow> [] | Some es \<Rightarrow> map (queryErrorText rs) es))))"

definition validateQueryString ::
  "core_env \<Rightarrow> FrontendQueryParameters \<Rightarrow> ResourceSchema \<Rightarrow> (json option, 'm core_state_scheme) act" where
  "validateQueryString env queryStrings rs =
     bnd (validateQueryParameters env rs queryStrings) (\<lambda>bodyValidation.
       if length bodyValidation > 0
       then ret (Some (createInvalidRequestResponse
              (JObj (js_assign [] (map (\<lambda>x. (x, JStr ''Invalid property'')) bodyValidation)))))
       else ret None)"

section \<open>EndpointValidator\<close>

record EndpointValidationResult =
  ev_headerMetadata :: "(string \<times> string) list option"
  ev_errorBody :: "json option"
  ev_resourceInfo :: ResourceInfo
  ev_resourceSchema :: ResourceSchema

record MatchResourceSchemaResult =
  mr_suggestedEndpointName :: "string option"
  mr_matchingResourceSchema :: "ResourceSchema option"

definition validEndpointNamesFor :: "ApiSchema \<Rightarrow> string \<Rightarrow> string list res" where
  "validEndpointNamesFor apiSchema projectNamespace =
     (case map_of (as_projectSchemas apiSchema) projectNamespace of
        None \<Rightarrow> Inl (TypeError ''Cannot read properties of undefined (reading resourceSchemas)'')
      | Some ps \<Rightarrow> Inr (map fst (ps_resourceSchemas ps)))"

definition matchResourceSchema ::
  "core_env \<Rightarrow> ApiSchema \<Rightarrow> PathComponents \<Rightarrow> MatchResourceSchemaResult res" where
  "matchResourceSchema env apiSchema pathComponents =
     (case findResourceSchema apiSchema pathComponents of
        Some rs \<Rightarrow> Inr \<lparr>mr_suggestedEndpointName = None, mr_matchingResourceSchema = Some rs\<rparr>
      | None \<Rightarrow>
          res_bind (validEndpointNamesFor apiSchema (pc_projectNamespace pathComponents)) (\<lambda>names.
            Inr \<lparr>mr_suggestedEndpointName =
                   (case ce_didYouMean env (pc_endpointName pathComponents) names of
                      NoSuggestion \<Rightarrow> None
                    | OneSuggestion n \<Rightarrow> Some n
                    | SuggestionList ns \<Rightarrow> (case ns of [] \<Rightarrow> None | n # _ \<Rightarrow> Some n)),
                 mr_matchingResourceSchema = None\<rparr>))"

definition quoted :: "string \<Rightarrow> string" where
  "quoted s = [CHR 0x27] @ s @ [CHR 0x27]"

definition endpointError :: "string \<Rightarrow> EndpointValidationResult" where
  "endpointError message = \<lparr>ev_headerMetadata = None,
     ev_errorBody = Some (JObj [(''error'', JStr message)]),
     ev_resourceInfo = NoResourceInfo, ev_resourceSchema = NoResourceSchema\<rparr>"

definition validateEndpoint ::
  "core_env \<Rightarrow> ApiSchema \<Rightarrow> PathComponents \<Rightarrow> EndpointValidationResult res" where
  "validateEndpoint env apiSchema pathComponents =
     res_bind (matchResourceSchema env apiSchema pathComponents) (\<lambda>matched.
       Inr (case mr_suggestedEndpointName matched of
          Some suggested \<Rightarrow>
            endpointError (''Invalid resource '' @ quoted (pc_endpointName pathComponents) @
              ''. The most similar resource is '' @ quoted suggested @ ''.'')
        | None \<Rightarrow>
            (case mr_matchingResourceSchema matched of
               None \<Rightarrow> endpointError (''Invalid resource '' @ quoted (pc_endpointName pathComponents) @ ''.'')
             | Some rs \<Rightarrow>
                 (let ps = findProjectSchema apiSchema (pc_projectNamespace pathComponents) in
                  \<lparr>ev_headerMetadata = Some [(''X-Project-Name'', ps_projectName ps),
                                          (''X-Project-Version'', ps_projectVersion ps)],
                   ev_errorBody = None,
                   ev_resourceInfo = \<lparr>bri_projectName = ps_projectName ps,
                      bri_resourceName = rs_resourceName rs, bri_isDescriptor = rs_isDescriptor rs,
                      ri_resourceVersion = ps_projectVersion ps,
                      ri_allowIdentityUpdates = rs_allowIdentityUpdates rs\<rparr>,
                   ev_resourceSchema = rs\<rparr>))))"

section \<open>Lemmas\<close>

lemma getSchemaValidatorsFor_queryCache:
  "cs_queryValidatorCache (snd (getSchemaValidatorsFor env rs q s)) = cs_queryValidatorCache s"
  by (auto simp: getSchemaValidatorsFor_def act_simps split: option.split sum.split)

lemma getSchemaValidatorsFor_schema:
  "cs_apiSchemaCache (snd (getSchemaValidatorsFor env rs q s)) = cs_apiSchemaCache s"
  by (auto simp: getSchemaValidatorsFor_def act_simps split: option.split sum.split)

lemma getSchemaValidatorsFor_fresh:
  "map_of (if q then cs_queryValidatorCache s else cs_validatorCache s) rs = None \<Longrightarrow>
   compileValidators env (initializeAjv env q) rs = Inr v \<Longrightarrow>
   getSchemaValidatorsFor env rs q s =
     (Inr v, s\<lparr>cs_validatorCache := AList.update rs v (cs_validatorCache s)\<rparr>)"
  by (simp add: getSchemaValidatorsFor_def act_simps)

lemma getSchemaValidatorsFor_cached:
  "map_of (if q then cs_queryValidatorCache s else cs_validatorCache s) rs = Some v \<Longrightarrow>
   getSchemaValidatorsFor env rs q s = (Inr v, s)"
  by (simp add: getSchemaValidatorsFor_def act_simps)

lemma allEqual_iff: "allEqual xs \<longleftrightarrow> (\<forall>x \<in> set xs. \<forall>y \<in> set xs. x = y)"
proof (cases xs)
  case (Cons a ys)
  then show ?thesis by (simp add: allEqual_def list_all_iff) metis
qed (simp add: allEqual_def)

lemma matchResourceSchema_not_both:
  "matchResourceSchema env a p = Inr m \<Longrightarrow>
   mr_suggestedEndpointName m = None \<or> mr_matchingResourceSchema m = None"
  by (auto simp: matchResourceSchema_def split: option.splits)

lemma digit_not_space: "is_digit c \<Longrightarrow> \<not> is_js_space c"
  by (auto simp: is_digit_def is_js_space_def)

lemma digit_not_sign: "is_digit c \<Longrightarrow> c \<noteq> CHR ''-'' \<and> c \<noteq> CHR ''+'' \<and> c \<noteq> CHR ''.''"
  by (auto simp: is_digit_def)

lemma trimStart_digits: "digits1 ds \<Longrightarrow> js_trimStart ds = ds"
  by (cases ds) (auto simp: js_trimStart_def digits1_def dest: digit_not_space)

lemma trimStart_minus: "js_trimStart (CHR ''-'' # ds) = CHR ''-'' # ds"
  by (simp add: js_trimStart_def is_js_space_def)

lemma last_digit: "digits1 ds \<Longrightarrow> \<not> is_js_space (last ds)"
  by (metis digits1_def last_in_set list_all_iff digit_not_space)

lemma dropWhile_rev_last: "xs \<noteq> [] \<Longrightarrow> \<not> P (last xs) \<Longrightarrow> rev (dropWhile P (rev xs)) = xs"
  by (cases xs rule: rev_cases) simp_all

lemma trim_digits: "digits1 ds \<Longrightarrow> js_trim ds = ds"
  unfolding js_trim_def
  by (subst dropWhile_rev_last) (simp_all add: trimStart_digits last_digit, simp add: digits1_def)

lemma trim_minus: "digits1 ds \<Longrightarrow> js_trim (CHR ''-'' # ds) = CHR ''-'' # ds"
  unfolding js_trim_def trimStart_minus
  by (rule dropWhile_rev_last) (auto simp: digits1_def last_digit split: if_splits dest: last_digit [unfolded digits1_def])

lemma strip_sign_digits: "digits1 ds \<Longrightarrow> strip_sign ds = ds"
  by (cases ds) (auto simp: strip_sign_def digits1_def dest: digit_not_sign)

lemma takeWhile_digits: "digits1 ds \<Longrightarrow> takeWhile is_digit ds = ds \<and> dropWhile is_digit ds = []"
  by (simp add: digits1_def list_all_iff)

lemma decimal_digits: "digits1 ds \<Longrightarrow> decimal_literal ds"
  by (simp add: decimal_literal_def takeWhile_digits) (simp add: digits1_def)

lemma numeric_digits: "digits1 ds \<Longrightarrow> numeric_text ds \<and> numeric_text (CHR ''-'' # ds)"
  by (simp add: numeric_text_def trim_digits trim_minus strip_sign_digits decimal_digits)
    (simp add: strip_sign_def decimal_digits)

lemma parseInt_digits: "digits1 ds \<Longrightarrow> js_parseInt ds = Some (int (digits_value 0 ds))"
proof -
  assume ds: "digits1 ds"
  then have "ds \<noteq> []" "hd ds \<noteq> CHR ''-''"
    by (auto simp: digits1_def list_all_iff dest: digit_not_sign hd_in_set)
  then show ?thesis
    by (simp add: js_parseInt_def trimStart_digits strip_sign_digits takeWhile_digits ds)
qed

lemma parseInt_minus: "digits1 ds \<Longrightarrow> js_parseInt (CHR ''-'' # ds) = Some (- int (digits_value 0 ds))"
  by (simp add: js_parseInt_def trimStart_minus) (simp add: strip_sign_def takeWhile_digits digits1_def)

lemma isNotPositive_digits: "digits1 ds \<Longrightarrow> \<not> isNotPositiveInteger (JStr ds)"
  by (simp add: isNotPositiveInteger_def numeric_digits parseInt_digits)

lemma isNotPositive_minus: "digits1 ds \<Longrightarrow> isNotPositiveInteger (JStr (CHR ''-'' # ds)) \<longleftrightarrow> 0 < digits_value 0 ds"
  by (simp add: isNotPositiveInteger_def numeric_digits parseInt_minus)

section \<open>Properties\<close>

text \<open>C37: The equality constraints are checked one by one and completely: the failures are the messages
  of exactly the constraints whose two paths lead to two different values, in the order of the schema.\<close>

theorem validateEqualityConstraints_exact:
  assumes "\<And>ec. ec \<in> set (rs_equalityConstraints rs) \<Longrightarrow>
      jp_flatten jp (Some (ec_sourceJsonPath ec)) b = Inr (vals (ec_sourceJsonPath ec)) \<and>
      jp_flatten jp (Some (ec_targetJsonPath ec)) b = Inr (vals (ec_targetJsonPath ec))"
  shows "validateEqualityConstraints jp rs b = Inr (map equalityConstraintFailure
    (filter (\<lambda>ec. \<exists>x \<in> set (vals (ec_sourceJsonPath ec)) \<union> set (vals (ec_targetJsonPath ec)).
                  \<exists>y \<in> set (vals (ec_sourceJsonPath ec)) \<union> set (vals (ec_targetJsonPath ec)). x \<noteq> y)
       (rs_equalityConstraints rs)))"
proof -
  let ?bad = "\<lambda>ec. \<exists>x \<in> set (vals (ec_sourceJsonPath ec)) \<union> set (vals (ec_targetJsonPath ec)).
                  \<exists>y \<in> set (vals (ec_sourceJsonPath ec)) \<union> set (vals (ec_targetJsonPath ec)). x \<noteq> y"
  have "checkEqualityConstraint jp b ec = Inr (if ?bad ec then [equalityConstraintFailure ec] else [])"
    if "ec \<in> set (rs_equalityConstraints rs)" for ec
    using assms [OF that] by (simp add: checkEqualityConstraint_def allEqual_iff)
  then have "res_map (checkEqualityConstraint jp b) (rs_equalityConstraints rs) =
      Inr (map (\<lambda>ec. if ?bad ec then [equalityConstraintFailure ec] else []) (rs_equalityConstraints rs))"
    by (rule res_map_total)
  moreover have "concat (map (\<lambda>ec. if ?bad ec then [equalityConstraintFailure ec] else []) ecs) =
      map equalityConstraintFailure (filter ?bad ecs)" for ecs
    by (induction ecs) simp_all
  ultimately show ?thesis by (simp add: validateEqualityConstraints_def)
qed

text \<open>Pagination parameters written as decimal integers are decided as the message says: a limit and
  an offset that are not negative are accepted, a negative value of either is refused, and an offset
  without a limit is refused with a message for the limit.\<close>

theorem pagination_decides_integers:
  assumes "digits1 l" "digits1 f"
  shows "validatePaginationParameters \<lparr>pp_limit = Some (JStr l), pp_offset = Some (JStr f)\<rparr> = None \<and>
    (validatePaginationParameters \<lparr>pp_limit = Some (JStr (CHR ''-'' # l)), pp_offset = Some (JStr f)\<rparr> = None
       \<longleftrightarrow> digits_value 0 l = 0) \<and>
    (validatePaginationParameters \<lparr>pp_limit = Some (JStr l), pp_offset = Some (JStr (CHR ''-'' # f))\<rparr> = None
       \<longleftrightarrow> digits_value 0 f = 0) \<and>
    validatePaginationParameters \<lparr>pp_limit = None, pp_offset = Some (JStr f)\<rparr> =
      Some (createInvalidRequestResponse
        (JObj [(''limit'', JArr [JStr ''Limit must be provided when using offset'']), (''offset'', JArr [])]))"
  using assms
  by (auto simp: validatePaginationParameters_def limitErrors_def offsetErrors_def is_nullish_def
      isNotPositive_digits isNotPositive_minus)

theorem pagination_decides_integers_witness:
  "validatePaginationParameters \<lparr>pp_limit = Some (JStr ''25''), pp_offset = Some (JStr ''0'')\<rparr> = None \<and>
    (validatePaginationParameters \<lparr>pp_limit = Some (JStr (CHR ''-'' # ''25'')), pp_offset = Some (JStr ''0'')\<rparr> = None
       \<longleftrightarrow> digits_value 0 ''25'' = 0) \<and>
    (validatePaginationParameters \<lparr>pp_limit = Some (JStr ''25''), pp_offset = Some (JStr (CHR ''-'' # ''0''))\<rparr> = None
       \<longleftrightarrow> digits_value 0 ''0'' = 0) \<and>
    validatePaginationParameters \<lparr>pp_limit = None, pp_offset = Some (JStr ''0'')\<rparr> =
      Some (createInvalidRequestResponse
        (JObj [(''limit'', JArr [JStr ''Limit must be provided when using offset'']), (''offset'', JArr [])]))"
  by (rule pagination_decides_integers) (simp_all add: digits1_def is_digit_def)

text \<open>Some texts that are not a numeric value of at least zero are accepted: the test looks at
  the sign of the integer part only, so a negative fraction, minus infinity and the empty text pass.\<close>

lemma pagination_accepts_non_integers:
  "list_all (\<lambda>t. validatePaginationParameters \<lparr>pp_limit = Some (JStr t), pp_offset = None\<rparr> = None)
     [''-0.5'', ''1.5'', ''-Infinity'', '''']"
  by code_simp

text \<open>The endpoint of a request is decided completely by the API schema.  A resource of a known
  project is found, with the information the schema has of it; an unknown resource of a known
  project gives an error body, never a resource; an unknown project throws.\<close>

theorem validateEndpoint_cases:
  "case map_of (as_projectSchemas a) (pc_projectNamespace p) of
     None \<Rightarrow> \<exists>m. validateEndpoint env a p = Inl (TypeError m)
   | Some ps \<Rightarrow>
       (case map_of (ps_resourceSchemas ps) (pc_endpointName p) of
          Some rs \<Rightarrow> validateEndpoint env a p = Inr
            \<lparr>ev_headerMetadata = Some [(''X-Project-Name'', ps_projectName ps),
                                       (''X-Project-Version'', ps_projectVersion ps)],
             ev_errorBody = None,
             ev_resourceInfo = \<lparr>bri_projectName = ps_projectName ps,
                bri_resourceName = rs_resourceName rs, bri_isDescriptor = rs_isDescriptor rs,
                ri_resourceVersion = ps_projectVersion ps,
                ri_allowIdentityUpdates = rs_allowIdentityUpdates rs\<rparr>,
             ev_resourceSchema = rs\<rparr>
        | None \<Rightarrow> \<exists>m. validateEndpoint env a p = Inr (endpointError m))"
proof (cases "map_of (as_projectSchemas a) (pc_projectNamespace p)")
  case None
  then show ?thesis
    by (simp add: validateEndpoint_def matchResourceSchema_def findResourceSchema_unknown_project
        validEndpointNamesFor_def) (rule exI, rule refl)
next
  case (Some ps)
  then show ?thesis
    by (auto simp: validateEndpoint_def matchResourceSchema_def findResourceSchema_def findProjectSchema_def
        validEndpointNamesFor_def Let_def split: option.split)
qed

text \<open>A query validation stores its own validators, which never remove additional properties, as the
  validators of the bodies of the resource: the next body validation uses them whatever the
  overposting flag says.  The query cache itself stays without an entry, so queries always recompile.\<close>

theorem query_validators_replace_body_validators:
  assumes "map_of (cs_queryValidatorCache s) rs = None"
    and "compileValidators env (initializeAjv env True) rs = Inr v"
  shows "\<exists>s'. getSchemaValidatorsFor env rs True s = (Inr v, s') \<and>
    getSchemaValidatorsFor env rs False s' = (Inr v, s') \<and>
    map_of (cs_queryValidatorCache s') rs = None \<and> \<not> ao_removeAdditional (initializeAjv env True)"
proof -
  have "getSchemaValidatorsFor env rs True s = (Inr v, s\<lparr>cs_validatorCache := AList.update rs v (cs_validatorCache s)\<rparr>)"
    by (rule getSchemaValidatorsFor_fresh) (simp_all add: assms)
  then show ?thesis
    using assms(1) by (simp add: getSchemaValidatorsFor_cached update_Some_unfold initializeAjv_def update_conv')
qed

text \<open>A concrete environment for the witnesses: a validator that accepts everything, no suggestions.\<close>

definition example_env :: core_env where
  "example_env = \<lparr>ce_jsonPath = \<lparr>jp_flatten = (\<lambda>_ _. Inr []), jp_unwrapped = (\<lambda>_ _. Inr None)\<rparr>,
     ce_ajvCompile = (\<lambda>_ _. Inr (\<lambda>b. (True, None, b))),
     ce_betterAjvErrors = (\<lambda>_ _ _. None), ce_didYouMean = (\<lambda>_ _. NoSuggestion),
     ce_numberText = (\<lambda>s. s), ce_ALLOW_OVERPOSTING = True, ce_ALLOW_TYPE_COERCION = False\<rparr>"

definition initial_core_state :: core_state where
  "initial_core_state = \<lparr>cs_apiSchemaCache = None, cs_validatorCache = [], cs_queryValidatorCache = [],
     cs_cachedOwnAccessTokenForClientAuth = None\<rparr>"

theorem query_validators_replace_body_validators_witness:
  "\<exists>v. \<exists>s'. getSchemaValidatorsFor example_env newResourceSchema True initial_core_state = (Inr v, s') \<and>
    getSchemaValidatorsFor example_env newResourceSchema False s' = (Inr v, s') \<and>
    map_of (cs_queryValidatorCache s') newResourceSchema = None \<and>
    \<not> ao_removeAdditional (initializeAjv example_env True)"
proof (rule exI)
  show "\<exists>s'. getSchemaValidatorsFor example_env newResourceSchema True initial_core_state =
      (Inr \<lparr>insertValidator = (\<lambda>b. (True, None, b)), queryValidator = (\<lambda>b. (True, None, b)),
            updateValidator = (\<lambda>b. (True, None, b))\<rparr>, s') \<and>
    getSchemaValidatorsFor example_env newResourceSchema False s' =
      (Inr \<lparr>insertValidator = (\<lambda>b. (True, None, b)), queryValidator = (\<lambda>b. (True, None, b)),
            updateValidator = (\<lambda>b. (True, None, b))\<rparr>, s') \<and>
    map_of (cs_queryValidatorCache s') newResourceSchema = None \<and>
    \<not> ao_removeAdditional (initializeAjv example_env True)"
    by (rule query_validators_replace_body_validators)
      (simp_all add: initial_core_state_def compileValidators_def example_env_def)
qed

theorem validateEqualityConstraints_exact_witness:
  "validateEqualityConstraints
     \<lparr>jp_flatten = (\<lambda>p _. Inr (if p = Some ''a'' then [JNum ''1''] else [JNum ''2''])), jp_unwrapped = (\<lambda>_ _. Inr None)\<rparr>
     (newResourceSchema\<lparr>rs_equalityConstraints := [\<lparr>ec_sourceJsonPath = ''a'', ec_targetJsonPath = ''b''\<rparr>]\<rparr>) JNull =
   Inr (map equalityConstraintFailure
    (filter (\<lambda>ec. \<exists>x \<in> set ((\<lambda>p. if p = ''a'' then [JNum ''1''] else [JNum ''2'']) (ec_sourceJsonPath ec)) \<union>
                           set ((\<lambda>p. if p = ''a'' then [JNum ''1''] else [JNum ''2'']) (ec_targetJsonPath ec)).
                  \<exists>y \<in> set ((\<lambda>p. if p = ''a'' then [JNum ''1''] else [JNum ''2'']) (ec_sourceJsonPath ec)) \<union>
                           set ((\<lambda>p. if p = ''a'' then [JNum ''1''] else [JNum ''2'']) (ec_targetJsonPath ec)). x \<noteq> y)
      (rs_equalityConstraints
        (newResourceSchema\<lparr>rs_equalityConstraints := [\<lparr>ec_sourceJsonPath = ''a'', ec_targetJsonPath = ''b''\<rparr>]\<rparr>))))"
  by (rule validateEqualityConstraints_exact) simp_all

end
