(* ===== verification/Middleware.thy ===== *)
theory Middleware
  imports Requests DocumentExtraction Validation
begin

text \<open>
  The middlewares of \<open>meadowlark-core/src/middleware\<close> except authorization: path parsing, body
  parsing, timestamp, schema loading, the four validations, document information extraction, and
  what the logging middlewares do to the values they log.  A middleware maps the model (request and
  posted response) to a new model, over the module state; \<open>JSON.parse\<close> and \<open>Date.now\<close> are parameters.
\<close>

section \<open>ParsePathMiddleware\<close>

text \<open>The regular expression of \<open>pathComponentsFrom\<close> on the segments between slashes.  A match
  starts at a slash and needs three segments that are not empty.  In multiline mode \<open>$\<close> also holds
  before a line terminator.\<close>

definition is_line_end :: "char \<Rightarrow> bool" where
  "is_line_end c \<longleftrightarrow> c = CHR 0x0A \<or> c = CHR 0x0D"

text \<open>The longest prefix of a segment that ends just before a line terminator.\<close>

definition before_last_line_end :: "string \<Rightarrow> string option" where
  "before_last_line_end s =
     (case dropWhile (\<lambda>c. \<not> is_line_end c) (rev s) of
        [] \<Rightarrow> None
      | _ # r \<Rightarrow> Some (rev r))"

text \<open>The optional group for the uuid: the rest of the segments after the endpoint name.  A group that
  matches the empty text counts as not matched.\<close>

definition uuid_group :: "string list \<Rightarrow> DocumentUuid option" where
  "uuid_group rest =
     (case rest of
        [] \<Rightarrow> None
      | [s] \<Rightarrow> if s = [] then None else Some s
      | s # _ \<Rightarrow> (case before_last_line_end s of
           None \<Rightarrow> None
         | Some p \<Rightarrow> if p = [] then None else Some p))"

fun match_segments :: "string list \<Rightarrow> PathComponents option" where
  "match_segments (a # b # c # rest) =
     (if a \<noteq> [] \<and> b \<noteq> [] \<and> c \<noteq> []
      then Some \<lparr>pc_projectShortVersion = a, pc_projectNamespace = js_toLowerCase b,
                 pc_endpointName = decapitalize c, pc_documentUuid = uuid_group rest\<rparr>
      else match_segments (b # c # rest))"
| "match_segments _ = None"

definition pathComponentsFrom :: "string \<Rightarrow> PathComponents option" where
  "pathComponentsFrom path = match_segments (tl (split_on (CHR ''/'') path))"

definition parsePath :: "'s middleware" where
  "parsePath = (\<lambda>(frontendRequest, frontendResponse).
     if frontendResponse \<noteq> None then ret (frontendRequest, frontendResponse)
     else
       (case pathComponentsFrom (fr_path frontendRequest) of
          None \<Rightarrow> ret (frontendRequest, Some (status_only 404))
        | Some pathComponents \<Rightarrow>
            (case pc_documentUuid pathComponents of
               Some documentUuid \<Rightarrow>
                 if \<not> isDocumentUuidWellFormed documentUuid
                 then ret (frontendRequest, Some (status_only 404))
                 else ret (upd_middleware (\<lambda>m. m\<lparr>mw_pathComponents := pathComponents\<rparr>) frontendRequest, None)
             | None \<Rightarrow>
                 ret (upd_middleware (\<lambda>m. m\<lparr>mw_pathComponents := pathComponents\<rparr>) frontendRequest, None))))"

section \<open>ParseBodyMiddleware\<close>

definition error_body :: "string \<Rightarrow> json" where
  "error_body e = JObj [(''error'', JStr e)]"

definition parseBody :: "(string \<Rightarrow> json res) \<Rightarrow> 's middleware" where
  "parseBody json_parse = (\<lambda>(frontendRequest, frontendResponse).
     if frontendResponse \<noteq> None then ret (frontendRequest, frontendResponse)
     else
       (case fr_body frontendRequest of
          None \<Rightarrow> ret (frontendRequest, Some \<lparr>resp_statusCode = 400, resp_headers = None,
                        resp_body = Some (error_body ''Missing body'')\<rparr>)
        | Some text \<Rightarrow>
            (case json_parse text of
               Inl e \<Rightarrow> ret (frontendRequest, Some \<lparr>resp_statusCode = 400, resp_headers = None,
                          resp_body = Some (error_body (''Malformed body: '' @ err_message e))\<rparr>)
             | Inr body \<Rightarrow> ret (upd_middleware (\<lambda>m. m\<lparr>mw_parsedBody := body\<rparr>) frontendRequest, None))))"

section \<open>TimestampRequestMiddleware and ApiSchemaLoadingMiddleware\<close>

definition timestampRequest :: "('s \<Rightarrow> int) \<Rightarrow> 's middleware" where
  "timestampRequest date_now = (\<lambda>(frontendRequest, frontendResponse).
     if frontendResponse \<noteq> None then ret (frontendRequest, frontendResponse)
     else (\<lambda>s. ret (upd_middleware (\<lambda>m. m\<lparr>mw_timestamp := date_now s\<rparr>) frontendRequest, None) s))"

definition loadApiSchema :: "ApiSchema res \<Rightarrow> 'm core_state_scheme middleware" where
  "loadApiSchema file = (\<lambda>(frontendRequest, frontendResponse).
     if frontendResponse \<noteq> None then ret (frontendRequest, frontendResponse)
     else bnd (findApiSchema file) (\<lambda>apiSchema.
       ret (upd_middleware (\<lambda>m. m\<lparr>mw_apiSchema := apiSchema\<rparr>) frontendRequest, None)))"

section \<open>The validation middlewares\<close>

definition bad_request :: "FrontendRequest \<Rightarrow> json \<Rightarrow> FrontendResponse" where
  "bad_request frontendRequest body = \<lparr>resp_statusCode = 400,
     resp_headers = mw_headerMetadata (fr_middleware frontendRequest), resp_body = Some body\<rparr>"

text \<open>An error body always comes with the object \<open>NoResourceInfo\<close>, so the status is 404.\<close>

definition endpointValidation :: "core_env \<Rightarrow> 's middleware" where
  "endpointValidation env = (\<lambda>(frontendRequest, frontendResponse).
     if frontendResponse \<noteq> None then ret (frontendRequest, frontendResponse)
     else bnd (lift (validateEndpoint env (mw_apiSchema (fr_middleware frontendRequest))
                       (mw_pathComponents (fr_middleware frontendRequest)))) (\<lambda>ev.
       (case ev_errorBody ev of
          Some errorBody \<Rightarrow>
            ret (frontendRequest, Some
              \<lparr>resp_statusCode = (if ev_resourceInfo ev = NoResourceInfo then 404 else 400),
               resp_headers = ev_headerMetadata ev, resp_body = Some errorBody\<rparr>)
        | None \<Rightarrow>
            ret (upd_middleware (\<lambda>m. m\<lparr>mw_resourceSchema := ev_resourceSchema ev,
                   mw_resourceInfo := ev_resourceInfo ev, mw_headerMetadata := ev_headerMetadata ev\<rparr>)
                   frontendRequest, None))))"

definition documentValidation :: "core_env \<Rightarrow> 'm core_state_scheme middleware" where
  "documentValidation env = (\<lambda>(frontendRequest, frontendResponse).
     if frontendResponse \<noteq> None then ret (frontendRequest, frontendResponse)
     else bnd (validateDocument env (mw_resourceSchema (fr_middleware frontendRequest))
                 (mw_parsedBody (fr_middleware frontendRequest))
                 (fr_action frontendRequest = Action.updateById)) (\<lambda>(error, body').
       (let frontendRequest' = upd_middleware (\<lambda>m. m\<lparr>mw_parsedBody := body'\<rparr>) frontendRequest in
        (case error of
           Some e \<Rightarrow> ret (frontendRequest', Some (bad_request frontendRequest' e))
         | None \<Rightarrow> ret (frontendRequest', None)))))"

definition equalityConstraintValidation :: "core_env \<Rightarrow> 's middleware" where
  "equalityConstraintValidation env = (\<lambda>(frontendRequest, frontendResponse).
     if frontendResponse \<noteq> None then ret (frontendRequest, frontendResponse)
     else bnd (lift (validateEqualityConstraints (ce_jsonPath env)
                       (mw_resourceSchema (fr_middleware frontendRequest))
                       (mw_parsedBody (fr_middleware frontendRequest)))) (\<lambda>validationFailures.
       if length validationFailures > 0
       then ret (frontendRequest, Some (bad_request frontendRequest
              (JObj [(''error'', JArr (map JStr validationFailures))])))
       else ret (frontendRequest, None)))"

definition omit_keys :: "string list \<Rightarrow> js_object \<Rightarrow> js_object" where
  "omit_keys ks kvs = filter (\<lambda>kv. fst kv \<notin> set ks) kvs"

definition pick_keys :: "string list \<Rightarrow> js_object \<Rightarrow> js_object" where
  "pick_keys ks kvs = concat (map (\<lambda>k. case map_of kvs k of None \<Rightarrow> [] | Some v \<Rightarrow> [(k, v)]) ks)"

definition queryValidation :: "core_env \<Rightarrow> 'm core_state_scheme middleware" where
  "queryValidation env = (\<lambda>(frontendRequest, frontendResponse).
     if frontendResponse \<noteq> None then ret (frontendRequest, frontendResponse)
     else if fr_queryParameters frontendRequest = [] then ret (frontendRequest, None)
     else
       (case validatePaginationParameters
               \<lparr>pp_limit = js_get ''limit'' (fr_queryParameters frontendRequest),
                pp_offset = js_get ''offset'' (fr_queryParameters frontendRequest)\<rparr> of
          Some paginationError \<Rightarrow> ret (frontendRequest, Some (bad_request frontendRequest paginationError))
        | None \<Rightarrow>
            bnd (validateQueryString env
                   (omit_keys [''offset'', ''limit'', ''totalCount''] (fr_queryParameters frontendRequest))
                   (mw_resourceSchema (fr_middleware frontendRequest))) (\<lambda>errorBody.
              (case errorBody of
                 Some e \<Rightarrow> ret (frontendRequest, Some (bad_request frontendRequest e))
               | None \<Rightarrow> ret (frontendRequest, None)))))"

section \<open>ExtractDocumentInfoMiddleware\<close>

text \<open>\<open>buildDocumentInfo\<close> always makes a new object, so the comparison with \<open>NoDocumentInfo\<close> by
  reference never holds; by value it does not hold either, as the identity is never empty.\<close>

definition documentInfoExtraction :: "core_env \<Rightarrow> 's middleware" where
  "documentInfoExtraction env = (\<lambda>(frontendRequest, frontendResponse).
     if frontendResponse \<noteq> None then ret (frontendRequest, frontendResponse)
     else bnd (lift (buildDocumentInfo (mw_apiSchema (fr_middleware frontendRequest)) (ce_jsonPath env)
                       (mw_resourceSchema (fr_middleware frontendRequest))
                       (mw_parsedBody (fr_middleware frontendRequest))
                       (mw_timestamp (fr_middleware frontendRequest)))) (\<lambda>documentInfo.
       if documentInfo = NoDocumentInfo
       then ret (frontendRequest, Some \<lparr>resp_statusCode = 404,
              resp_headers = mw_headerMetadata (fr_middleware frontendRequest), resp_body = None\<rparr>)
       else ret (upd_middleware (\<lambda>m. m\<lparr>mw_documentInfo := documentInfo\<rparr>) frontendRequest, None)))"

section \<open>The logging middlewares\<close>

text \<open>What is logged of a request body: every value that is not an object is replaced by null, and an
  array becomes an object with its indices as keys.\<close>

fun anonymizeObject :: "json \<Rightarrow> json" where
  "anonymizeObject (JObj kvs) = JObj (map (\<lambda>kv. (fst kv, anonymizeObject (snd kv))) kvs)"
| "anonymizeObject (JArr xs) = JObj (zip (map nat_to_string [0..<length xs]) (map anonymizeObject xs))"
| "anonymizeObject _ = JNull"

definition logRequestBody :: "'s middleware" where
  "logRequestBody = (\<lambda>(frontendRequest, frontendResponse).
     if frontendResponse \<noteq> None then ret (frontendRequest, frontendResponse)
     else ret (frontendRequest, None))"

text \<open>What is logged of an error response: the identity values of the failures that are not about
  descriptors are replaced by \<open>'*'\<close>.\<close>

definition anonymizeIdentity :: "json \<Rightarrow> json" where
  "anonymizeIdentity i =
     (case i of
        JObj kvs \<Rightarrow> JObj (map (\<lambda>kv. (fst kv, JStr ''*'')) kvs)
      | JArr xs \<Rightarrow> JArr (map (\<lambda>_. JStr ''*'') xs)
      | v \<Rightarrow> v)"

definition anonymizeFailure :: "json \<Rightarrow> json" where
  "anonymizeFailure failure =
     (case failure of
        JObj kvs \<Rightarrow>
          (case (js_get ''resourceName'' kvs, js_get ''identity'' kvs) of
             (Some (JStr name), Some identity) \<Rightarrow>
               if js_endsWith name ''Descriptor'' then failure
               else JObj (AList.update ''identity'' (anonymizeIdentity identity) kvs)
           | _ \<Rightarrow> failure)
      | v \<Rightarrow> v)"

definition anonymizeResponseBody :: "json \<Rightarrow> json" where
  "anonymizeResponseBody body =
     (case body of
        JObj kvs \<Rightarrow>
          (case js_get ''error'' kvs of
             Some (JObj es) \<Rightarrow>
               (case js_get ''failures'' es of
                  Some (JArr failures) \<Rightarrow>
                    JObj (AList.update ''error''
                      (JObj (AList.update ''failures'' (JArr (map anonymizeFailure failures)) es)) kvs)
                | _ \<Rightarrow> body)
           | _ \<Rightarrow> body)
      | v \<Rightarrow> v)"

definition logTheResponse :: "'s middleware" where
  "logTheResponse = (\<lambda>(frontendRequest, frontendResponse). ret (frontendRequest, frontendResponse))"

definition doNothingMiddleware :: "'s middleware" where
  "doNothingMiddleware = (\<lambda>middlewareModel. ret middlewareModel)"

section \<open>Lemmas\<close>

definition segment :: "string \<Rightarrow> bool" where
  "segment s \<longleftrightarrow> s \<noteq> [] \<and> CHR ''/'' \<notin> set s"

lemma split_path:
  assumes "segment a" "segment b" "segment c"
  shows "split_on (CHR ''/'') (''/'' @ a @ ''/'' @ b @ ''/'' @ c) = [[], a, b, c]"
    and "split_on (CHR ''/'') (''/'' @ a @ ''/'' @ b @ ''/'' @ c @ ''/'' @ r) =
           [] # a # b # c # split_on (CHR ''/'') r"
  using assms split_on_append_sep [of "CHR ''/''" a] split_on_append_sep [of "CHR ''/''" b]
    split_on_append_sep [of "CHR ''/''" c r]
  by (simp_all add: segment_def split_on_no_sep)

lemma pathComponentsFrom_collection:
  assumes "segment v" "segment ns" "segment e"
  shows "pathComponentsFrom (''/'' @ v @ ''/'' @ ns @ ''/'' @ e) =
    Some \<lparr>pc_projectShortVersion = v, pc_projectNamespace = js_toLowerCase ns,
          pc_endpointName = decapitalize e, pc_documentUuid = None\<rparr>"
  using assms unfolding pathComponentsFrom_def split_path(1) [OF assms]
  by (simp add: segment_def uuid_group_def)

lemma pathComponentsFrom_rest:
  assumes "segment v" "segment ns" "segment e"
  shows "pathComponentsFrom (''/'' @ v @ ''/'' @ ns @ ''/'' @ e @ ''/'' @ r) =
    Some \<lparr>pc_projectShortVersion = v, pc_projectNamespace = js_toLowerCase ns,
          pc_endpointName = decapitalize e, pc_documentUuid = uuid_group (split_on (CHR ''/'') r)\<rparr>"
  using assms unfolding pathComponentsFrom_def split_path(2) [OF assms]
  by (simp add: segment_def)

lemma uuid4_chars:
  assumes "isDocumentUuidWellFormed u" "c \<in> set u"
  shows "lower_char c \<in> set ''0123456789abcdef-''"
proof -
  have len: "length u = 36"
    using assms(1) by (simp add: isDocumentUuidWellFormed_def uuid4Regex_test_def)
  obtain i where i: "i < 36" "u ! i = c" using assms(2) len by (auto simp: in_set_conv_nth)
  then have "(i, lower_char c) \<in> set (enumerate 0 (js_toLowerCase u))"
    using len by (auto simp: in_set_enumerate_eq js_toLowerCase_def)
  with assms(1) have "if i \<in> {8, 13, 18, 23} then lower_char c = CHR ''-''
     else if i = 14 then lower_char c = CHR ''4''
     else if i = 19 then lower_char c \<in> set ''89ab'' else is_hex_lower (lower_char c)"
    unfolding isDocumentUuidWellFormed_def uuid4Regex_test_def list_all_iff by blast
  then show ?thesis by (auto simp: is_hex_lower_def split: if_splits)
qed

lemma uuid4_segment: "isDocumentUuidWellFormed u \<Longrightarrow> segment u"
proof -
  assume wf: "isDocumentUuidWellFormed u"
  have "lower_char (CHR ''/'') = CHR ''/''" by code_simp
  then have "CHR ''/'' \<notin> set u" using uuid4_chars [OF wf, of "CHR ''/''"] by auto
  moreover have "u \<noteq> []" using wf by (auto simp: isDocumentUuidWellFormed_def uuid4Regex_test_def)
  ultimately show "segment u" by (simp add: segment_def)
qed

lemma uuid4_no_line_end: "isDocumentUuidWellFormed u \<Longrightarrow> list_all (\<lambda>c. \<not> is_line_end c) u"
proof -
  assume wf: "isDocumentUuidWellFormed u"
  have "lower_char (CHR 0x0A) = CHR 0x0A" "lower_char (CHR 0x0D) = CHR 0x0D" by code_simp+
  then show ?thesis
    using uuid4_chars [OF wf, of "CHR 0x0A"] uuid4_chars [OF wf, of "CHR 0x0D"]
    by (auto simp: list_all_iff is_line_end_def)
qed

lemma decapitalize_idem [simp]: "decapitalize (decapitalize s) = decapitalize s"
  by (cases s) (auto simp: decapitalize_def js_toLowerCase_def)

fun only_null_leaves :: "json \<Rightarrow> bool" where
  "only_null_leaves JNull = True"
| "only_null_leaves (JObj kvs) = list_all (\<lambda>kv. only_null_leaves (snd kv)) kvs"
| "only_null_leaves _ = False"

lemma anonymizeObject_leaves: "only_null_leaves (anonymizeObject j)"
proof (induction j rule: anonymizeObject.induct)
  case (1 kvs)
  then show ?case by (simp add: list_all_iff)
next
  case (2 xs)
  then show ?case by (auto simp: list_all_iff dest!: set_zip_rightD)
qed simp_all

section \<open>Properties\<close>

text \<open>No middleware touches a request that already has a response: the request, the response and the
  module state come out as they went in, whatever the environment is.\<close>

lemma posted_response_passes:
  "parsePath (r, Some resp) s = (Inr (r, Some resp), s) \<and>
   parseBody json_parse (r, Some resp) s = (Inr (r, Some resp), s) \<and>
   timestampRequest date_now (r, Some resp) s = (Inr (r, Some resp), s) \<and>
   loadApiSchema file (r, Some resp) s = (Inr (r, Some resp), s) \<and>
   endpointValidation env (r, Some resp) s = (Inr (r, Some resp), s) \<and>
   documentValidation env (r, Some resp) s = (Inr (r, Some resp), s) \<and>
   equalityConstraintValidation env (r, Some resp) s = (Inr (r, Some resp), s) \<and>
   queryValidation env (r, Some resp) s = (Inr (r, Some resp), s) \<and>
   documentInfoExtraction env (r, Some resp) s = (Inr (r, Some resp), s) \<and>
   logRequestBody (r, Some resp) s = (Inr (r, Some resp), s)"
  by (simp add: parsePath_def parseBody_def timestampRequest_def loadApiSchema_def endpointValidation_def
      documentValidation_def equalityConstraintValidation_def queryValidation_def
      documentInfoExtraction_def logRequestBody_def act_simps)

text \<open>A request body that is logged without its values has no value left: every leaf of the
  anonymized object is null.\<close>

lemma anonymizeObject_hides_values: "only_null_leaves (anonymizeObject j)"
  by (rule anonymizeObject_leaves)

text \<open>A resource path of three segments that end with a well-formed uuid is parsed into the parts it
  was made of, and \<open>parsePath\<close> accepts it.\<close>

theorem parsePath_document_path:
  assumes "segment v" "segment ns" "segment e" "isDocumentUuidWellFormed u"
    and "fr_path r = ''/'' @ v @ ''/'' @ ns @ ''/'' @ e @ ''/'' @ u"
  shows "parsePath (r, None) s = (Inr (upd_middleware (\<lambda>m. m\<lparr>mw_pathComponents :=
    \<lparr>pc_projectShortVersion = v, pc_projectNamespace = js_toLowerCase ns,
     pc_endpointName = decapitalize e, pc_documentUuid = Some u\<rparr>\<rparr>) r, None), s)"
proof -
  have u: "segment u" by (rule uuid4_segment [OF assms(4)])
  have "pathComponentsFrom (fr_path r) = Some \<lparr>pc_projectShortVersion = v,
      pc_projectNamespace = js_toLowerCase ns, pc_endpointName = decapitalize e, pc_documentUuid = Some u\<rparr>"
    unfolding assms(5) pathComponentsFrom_rest [OF assms(1-3)]
    using u by (simp add: split_on_no_sep segment_def uuid_group_def)
  then show ?thesis using assms(4) by (simp add: parsePath_def act_simps)
qed

theorem parsePath_document_path_witness:
  "parsePath (newFrontendRequest\<lparr>fr_path := ''/v3/ed-fi/Schools/6c5b3d2e-1f4a-4b7c-8d9e-0a1b2c3d4e5f''\<rparr>, None) () =
    (Inr (upd_middleware (\<lambda>m. m\<lparr>mw_pathComponents :=
      \<lparr>pc_projectShortVersion = ''v3'', pc_projectNamespace = js_toLowerCase ''ed-fi'',
       pc_endpointName = decapitalize ''Schools'',
       pc_documentUuid = Some ''6c5b3d2e-1f4a-4b7c-8d9e-0a1b2c3d4e5f''\<rparr>\<rparr>)
      (newFrontendRequest\<lparr>fr_path := ''/v3/ed-fi/Schools/6c5b3d2e-1f4a-4b7c-8d9e-0a1b2c3d4e5f''\<rparr>), None), ())"
proof (rule parsePath_document_path)
  show "isDocumentUuidWellFormed ''6c5b3d2e-1f4a-4b7c-8d9e-0a1b2c3d4e5f''" by code_simp
qed (simp_all add: segment_def)

text \<open>A path with segments after the uuid is not refused: the uuid is dropped and the path is taken as
  the path of the whole collection.\<close>

lemma parsePath_extra_segment_is_collection:
  assumes "segment v" "segment ns" "segment e" "isDocumentUuidWellFormed u"
  shows "pathComponentsFrom (''/'' @ v @ ''/'' @ ns @ ''/'' @ e @ ''/'' @ u @ ''/'' @ x) =
    pathComponentsFrom (''/'' @ v @ ''/'' @ ns @ ''/'' @ e)"
proof -
  have u: "segment u" by (rule uuid4_segment [OF assms(4)])
  have "list_all (\<lambda>c. \<not> is_line_end c) u"
    by (rule uuid4_no_line_end [OF assms(4)])
  then have "dropWhile (\<lambda>c. \<not> is_line_end c) (rev u) = []"
    by (simp add: list_all_iff)
  then have "before_last_line_end u = None"
    unfolding before_last_line_end_def by (simp only: list.case)
  moreover have "split_on (CHR ''/'') (u @ ''/'' @ x) = u # split_on (CHR ''/'') x"
    using u by (simp add: segment_def split_on_append_sep)
  ultimately show ?thesis
    using pathComponentsFrom_rest [OF assms(1-3), of "u @ ''/'' @ x"] pathComponentsFrom_collection [OF assms(1-3)]
    by (cases "split_on (CHR ''/'') x") (simp_all add: uuid_group_def)
qed

lemma parsePath_extra_segment_is_collection_example:
  "pathComponentsFrom (''/'' @ ''v3'' @ ''/'' @ ''ed-fi'' @ ''/'' @ ''schools'' @ ''/'' @
      ''6c5b3d2e-1f4a-4b7c-8d9e-0a1b2c3d4e5f'' @ ''/'' @ ''extra'') =
    pathComponentsFrom (''/'' @ ''v3'' @ ''/'' @ ''ed-fi'' @ ''/'' @ ''schools'')"
proof (rule parsePath_extra_segment_is_collection)
  show "isDocumentUuidWellFormed ''6c5b3d2e-1f4a-4b7c-8d9e-0a1b2c3d4e5f''" by code_simp
qed (simp_all add: segment_def)

end
