(* ===== verification/Configuration.thy ===== *)
theory Configuration
  imports Validation
begin

text \<open>
  Configuration (\<open>packages/meadowlark-utilities/src\<close>): the cached reader of environment variables
  (\<open>Environment.ts\<close>) and the configuration collection with its initialization (\<open>Config.ts\<close>).  The
  environment of the process is the parameter \<open>process_env\<close>; a Buffer is kept as the base64 text it is
  made from, a number as its text.
\<close>

section \<open>Environment\<close>

datatype ConfigValue = CString string | CBool bool | CNumber string | CBuffer string

record config_state =
  cfg_envCache :: "(string \<times> ConfigValue) list"
  cfg_collection :: "(string \<times> ConfigValue) list"

definition js_Error :: "string \<Rightarrow> js_error" where
  "js_Error m = mk_error ''Error'' m"

definition int_to_string :: "int \<Rightarrow> string" where
  "int_to_string i = (if i < 0 then CHR ''-'' # nat_to_string (nat (- i)) else nat_to_string (nat i))"

definition updateCache :: "string \<Rightarrow> ConfigValue \<Rightarrow> (unit, config_state) act" where
  "updateCache key v = (\<lambda>s. (Inr (), s\<lparr>cfg_envCache := AList.update key v (cfg_envCache s)\<rparr>))"

definition getFromCache :: "string \<Rightarrow> config_state \<Rightarrow> ConfigValue option" where
  "getFromCache key s = map_of (cfg_envCache s) key"

definition removeFromCache :: "string \<Rightarrow> (unit, config_state) act" where
  "removeFromCache key = (\<lambda>s. (Inr (), s\<lparr>cfg_envCache := AList.delete key (cfg_envCache s)\<rparr>))"

definition clearCache :: "(unit, config_state) act" where
  "clearCache = (\<lambda>s. (Inr (), s\<lparr>cfg_envCache := []\<rparr>))"

definition getValueFromEnvironment ::
  "(string \<Rightarrow> string option) \<Rightarrow> string \<Rightarrow> string \<Rightarrow> (string \<Rightarrow> ConfigValue res) \<Rightarrow> ConfigValue option \<Rightarrow>
   (ConfigValue, config_state) act" where
  "getValueFromEnvironment process_env key typeDescription parser defaultValue = (\<lambda>s.
     case getFromCache key s of
       Some cached \<Rightarrow> ret cached s
     | None \<Rightarrow>
         (case process_env key of
            None \<Rightarrow>
              (case defaultValue of
                 Some d \<Rightarrow> bnd (updateCache key d) (\<lambda>_. ret d) s
               | None \<Rightarrow> throw (js_Error (''Environment variable '' @ quoted key @ '' has not been setup properly.'')) s)
          | Some value \<Rightarrow>
              try_catch
                (bnd (lift (parser value)) (\<lambda>parsed. bnd (updateCache key parsed) (\<lambda>_. ret parsed)))
                (\<lambda>_. throw (js_Error (''Could not parse '' @ quoted value @ '' as '' @ typeDescription))) s))"

definition parse_string :: "string \<Rightarrow> ConfigValue res" where
  "parse_string v = Inr (CString v)"

definition parse_boolean :: "string \<Rightarrow> ConfigValue res" where
  "parse_boolean v = Inr (CBool (v = ''true'' \<or> v = ''1''))"

definition parse_integer :: "string \<Rightarrow> ConfigValue res" where
  "parse_integer v = Inr (CNumber (case js_parseInt v of None \<Rightarrow> ''NaN'' | Some i \<Rightarrow> int_to_string i))"

definition getStringFromEnvironment where
  "getStringFromEnvironment process_env key d =
     getValueFromEnvironment process_env key ''string'' parse_string (map_option CString d)"

definition getBooleanFromEnvironment where
  "getBooleanFromEnvironment process_env key d =
     getValueFromEnvironment process_env key ''boolean'' parse_boolean (map_option CBool d)"

definition getIntegerFromEnvironment where
  "getIntegerFromEnvironment process_env key d =
     getValueFromEnvironment process_env key ''integer'' parse_integer (map_option (\<lambda>i. CNumber (int_to_string i)) d)"

section \<open>Config\<close>

definition config_set :: "string \<Rightarrow> ConfigValue \<Rightarrow> (unit, config_state) act" where
  "config_set key v = (\<lambda>s. (Inr (), s\<lparr>cfg_collection := AList.update key v (cfg_collection s)\<rparr>))"

definition config_get :: "(string \<times> ConfigValue) list \<Rightarrow> string \<Rightarrow> ConfigValue res" where
  "config_get collection key =
     (case map_of collection key of
        Some v \<Rightarrow> Inr v
      | None \<Rightarrow> Inl (js_Error (''Config key '' @ quoted key @ '' is not available.'')))"

text \<open>One \<open>set(key, await provider.getX(key, default))\<close>; a default of \<open>None\<close> is \<open>ThrowIfNotFound\<close>.
  \<open>read\<close> is the provider's typed getter.\<close>

datatype config_read = ReadString "string option" | ReadBool "bool option" | ReadInt "int option"

fun read_config ::
  "(string \<Rightarrow> string option) \<Rightarrow> string \<Rightarrow> config_read \<Rightarrow> (ConfigValue, config_state) act" where
  "read_config process_env key (ReadString d) = getStringFromEnvironment process_env key d"
| "read_config process_env key (ReadBool d) = getBooleanFromEnvironment process_env key d"
| "read_config process_env key (ReadInt d) = getIntegerFromEnvironment process_env key d"

fun set_all ::
  "(string \<Rightarrow> string option) \<Rightarrow> (string \<times> config_read) list \<Rightarrow> (unit, config_state) act" where
  "set_all process_env [] = ret ()"
| "set_all process_env ((key, r) # rest) =
     bnd (read_config process_env key r) (\<lambda>v. bnd (config_set key v) (\<lambda>_. set_all process_env rest))"

definition general_settings :: "(string \<times> config_read) list" where
  "general_settings = [
    (''DISABLE_LOG_ANONYMIZATION'', ReadBool (Some False)),
    (''HTTP_PROTOCOL_AND_SERVER'', ReadString (Some ''http://localhost'')),
    (''FASTIFY_RATE_LIMIT'', ReadInt (Some 0)),
    (''MEADOWLARK_STAGE'', ReadString (Some ''local'')),
    (''LOG_PRETTY_PRINT'', ReadBool (Some False)),
    (''LOG_LEVEL'', ReadString (Some ''info'')),
    (''LOG_TO_FILE'', ReadBool (Some False)),
    (''LOG_FILE_LOCATION'', ReadString (Some ''/var/log/'')),
    (''OAUTH_CLIENT_PROVIDED_TOKEN_CACHE_TTL'', ReadInt (Some 300000)),
    (''OAUTH_CLIENT_PROVIDED_TOKEN_CACHE_MAX_ENTRIES'', ReadInt (Some 1000)),
    (''AUTHORIZATION_STORE_PLUGIN'', ReadString (Some ''@edfi/meadowlark-mongodb-backend'')),
    (''DOCUMENT_STORE_PLUGIN'', ReadString (Some ''@edfi/meadowlark-mongodb-backend'')),
    (''MONGO_URI'', ReadString (Some '''')),
    (''MONGO_WRITE_CONCERN'', ReadString (Some ''majority'')),
    (''MONGO_READ_CONCERN'', ReadString (Some ''majority'')),
    (''POSTGRES_HOST'', ReadString (Some ''localhost'')),
    (''POSTGRES_PORT'', ReadInt (Some 5432)),
    (''POSTGRES_USER'', ReadString (Some '''')),
    (''POSTGRES_PASSWORD'', ReadString (Some '''')),
    (''MEADOWLARK_DATABASE_NAME'', ReadString (Some ''meadowlark'')),
    (''LISTENER1_PLUGIN'', ReadString (Some '''')),
    (''LISTENER2_PLUGIN'', ReadString (Some '''')),
    (''QUERY_HANDLER_PLUGIN'', ReadString (Some ''''))]"

definition search_settings :: "string \<Rightarrow> (string \<times> config_read) list" where
  "search_settings engine = [
    (engine @ ''_ENDPOINT'', ReadString None),
    (engine @ ''_USERNAME'', ReadString (Some ''x'')),
    (engine @ ''_PASSWORD'', ReadString (Some ''y'')),
    (engine @ ''_REQUEST_TIMEOUT'', ReadInt (Some 30000))]"

definition remaining_settings :: "int \<Rightarrow> (string \<times> config_read) list" where
  "remaining_settings cpuCount = [
    (''ALLOW_TYPE_COERCION'', ReadBool (Some False)),
    (''ALLOW__EXT_PROPERTY'', ReadBool (Some False)),
    (''ALLOW_OVERPOSTING'', ReadBool (Some False)),
    (''FASTIFY_NUM_THREADS'', ReadInt (Some cpuCount)),
    (''FASTIFY_PORT'', ReadInt (Some 3000)),
    (''OAUTH_EXPIRATION_MINUTES'', ReadInt (Some 60)),
    (''OAUTH_TOKEN_ISSUER'', ReadString (Some ''edfi-meadowlark-issuer'')),
    (''OAUTH_TOKEN_AUDIENCE'', ReadString (Some ''edfi-meadowlark-audience'')),
    (''OAUTH_SERVER_ENDPOINT_FOR_OWN_TOKEN_REQUEST'', ReadString None),
    (''OAUTH_SERVER_ENDPOINT_FOR_TOKEN_VERIFICATION'', ReadString None),
    (''OWN_OAUTH_CLIENT_ID_FOR_CLIENT_AUTH'', ReadString None),
    (''OWN_OAUTH_CLIENT_SECRET_FOR_CLIENT_AUTH'', ReadString None),
    (''OAUTH_HARD_CODED_CREDENTIALS_ENABLED'', ReadBool (Some False)),
    (''BEGIN_ALLOWED_SCHOOL_YEAR'', ReadInt (Some 1900)),
    (''END_ALLOWED_SCHOOL_YEAR'', ReadInt (Some 2100)),
    (''MONGODB_MAX_NUMBER_OF_RETRIES'', ReadInt (Some 1))]"

definition plugin_selected :: "string \<Rightarrow> (bool, config_state) act" where
  "plugin_selected name =
     (\<lambda>s. bnd (lift (config_get (cfg_collection s) ''LISTENER1_PLUGIN'')) (\<lambda>l1.
       if l1 = CString name then ret True
       else bnd (lift (config_get (cfg_collection s) ''LISTENER2_PLUGIN'')) (\<lambda>l2.
         if l2 = CString name then ret True
         else bnd (lift (config_get (cfg_collection s) ''QUERY_HANDLER_PLUGIN'')) (\<lambda>q.
           ret (q = CString name)))) s)"

definition set_signing_key :: "(string \<Rightarrow> string option) \<Rightarrow> (unit, config_state) act" where
  "set_signing_key process_env =
     try_catch
       (bnd (getStringFromEnvironment process_env ''OAUTH_SIGNING_KEY'' None) (\<lambda>v.
          case v of
            CString encoded \<Rightarrow> config_set ''OAUTH_SIGNING_KEY'' (CBuffer encoded)
          | _ \<Rightarrow> throw (TypeError ''Buffer.from'')))
       (\<lambda>_. throw (js_Error ''Must have a base-64 encoded signing key. Try creating a new one with `npm run createKey`''))"

definition initializeConfig :: "(string \<Rightarrow> string option) \<Rightarrow> int \<Rightarrow> (unit, config_state) act" where
  "initializeConfig process_env cpuCount =
     bnd (set_signing_key process_env) (\<lambda>_.
     bnd (set_all process_env general_settings) (\<lambda>_.
     bnd (plugin_selected ''@edfi/meadowlark-opensearch-backend'') (\<lambda>opensearch.
     bnd (if opensearch then set_all process_env (search_settings ''OPENSEARCH'') else ret ()) (\<lambda>_.
     bnd (plugin_selected ''@edfi/meadowlark-elasticsearch-backend'') (\<lambda>elasticsearch.
     bnd (if elasticsearch then set_all process_env (search_settings ''ELASTICSEARCH'') else ret ()) (\<lambda>_.
     set_all process_env (remaining_settings cpuCount)))))))"

section \<open>Lemmas\<close>

text \<open>A variable is read from the process once: whatever the process environment is later, the cached
  value is returned.\<close>

lemma getValueFromEnvironment_cached:
  "getValueFromEnvironment process_env key d p dv s = (Inr v, s') \<Longrightarrow>
   getValueFromEnvironment other_env key d2 p2 dv2 s' = (Inr v, s')"
  by (auto simp: getValueFromEnvironment_def getFromCache_def updateCache_def act_simps update_conv'
      split: option.splits sum.splits)

lemma getValueFromEnvironment_collection:
  "cfg_collection (snd (getValueFromEnvironment process_env key d p dv s)) = cfg_collection s"
  by (auto simp: getValueFromEnvironment_def updateCache_def act_simps split: option.splits sum.splits)

definition available :: "string set \<Rightarrow> config_state \<Rightarrow> bool" where
  "available ks s \<longleftrightarrow> ks \<subseteq> dom (map_of (cfg_collection s))"

lemma read_config_collection: "cfg_collection (snd (read_config process_env key r s)) = cfg_collection s"
  by (cases r) (simp_all add: getStringFromEnvironment_def getBooleanFromEnvironment_def
      getIntegerFromEnvironment_def getValueFromEnvironment_collection)

lemma set_all_available:
  "set_all process_env settings s = (Inr (), s') \<Longrightarrow> available ks s \<Longrightarrow>
   available (ks \<union> fst ` set settings) s'"
proof (induction settings arbitrary: s ks)
  case Nil
  then show ?case by (simp add: act_simps)
next
  case (Cons kr settings)
  obtain key r where kr: "kr = (key, r)" by (cases kr)
  obtain v s1 where v: "read_config process_env key r s = (Inr v, s1)"
    and rest: "bnd (config_set key v) (\<lambda>_. set_all process_env settings) s1 = (Inr (), s')"
    using Cons.prems(1) by (auto simp: kr elim: bnd_InrE)
  have coll: "cfg_collection s1 = cfg_collection s"
    using read_config_collection [of process_env key r s] v by simp
  let ?s2 = "s1\<lparr>cfg_collection := AList.update key v (cfg_collection s1)\<rparr>"
  have run: "set_all process_env settings ?s2 = (Inr (), s')"
    using rest by (simp add: config_set_def act_simps)
  have avail: "available (insert key ks) ?s2"
    using Cons.prems(2) coll by (auto simp: available_def update_conv')
  show ?case
    using Cons.IH [OF run avail] by (simp add: kr)
qed

lemma config_get_available:
  "available ks s \<Longrightarrow> key \<in> ks \<Longrightarrow> \<exists>v. config_get (cfg_collection s) key = Inr v"
  by (auto simp: available_def config_get_def split: option.split)

lemma plugin_selected_state: "plugin_selected name s = (r, s') \<Longrightarrow> s' = s"
  by (auto simp: plugin_selected_def act_simps split: sum.splits if_splits)

section \<open>Properties\<close>

definition required_keys :: "string list" where
  "required_keys = ''OAUTH_SIGNING_KEY'' # map fst general_settings @ map fst (remaining_settings 0)"

lemma map_fst_remaining: "map fst (remaining_settings n) = map fst (remaining_settings 0)"
  by (simp add: remaining_settings_def)

lemma set_all_available_list:
  "set_all process_env settings s = (Inr u, s') \<Longrightarrow> available ks s \<Longrightarrow>
   available (ks \<union> fst ` set settings) s'"
  using set_all_available by simp

lemma available_mono: "available ks s \<Longrightarrow> ls \<subseteq> ks \<Longrightarrow> available ls s"
  by (auto simp: available_def)

lemma optional_available:
  assumes "available ks x" "(if b then set_all process_env st else ret ()) x = (Inr u, y)"
  shows "available ks y"
proof (cases b)
  case True
  then have "set_all process_env st x = (Inr u, y)" using assms(2) by simp
  then show ?thesis by (rule available_mono [OF set_all_available_list [OF _ assms(1)]]) blast
next
  case False
  then show ?thesis using assms by (simp add: act_simps)
qed

lemma set_signing_key_available:
  assumes "set_signing_key process_env s = (Inr u, s')"
  shows "available {''OAUTH_SIGNING_KEY''} s'"
proof -
  obtain v s1 where "getStringFromEnvironment process_env ''OAUTH_SIGNING_KEY'' None s = (Inr v, s1)"
    "(case v of CString encoded \<Rightarrow> config_set ''OAUTH_SIGNING_KEY'' (CBuffer encoded)
        | _ \<Rightarrow> throw (TypeError ''Buffer.from'')) s1 = (Inr u, s')"
    using assms by (auto simp: set_signing_key_def act_simps split: sum.splits prod.splits)
  then show ?thesis
    by (auto simp: config_set_def available_def act_simps update_conv' split: ConfigValue.splits)
qed

text \<open>When the initialization of the configuration ends without an error, every setting that is not
  tied to a search engine is available: no later \<open>Config.get\<close> of one of these keys throws.\<close>

theorem initializeConfig_provides_settings:
  assumes "initializeConfig process_env cpuCount s = (Inr (), s')"
  shows "list_all (\<lambda>key. \<exists>v. config_get (cfg_collection s') key = Inr v) required_keys"
proof -
  obtain u1 s1 where run1: "set_signing_key process_env s = (Inr u1, s1)"
    and r1: "bnd (set_all process_env general_settings) (\<lambda>_.
     bnd (plugin_selected ''@edfi/meadowlark-opensearch-backend'') (\<lambda>opensearch.
     bnd (if opensearch then set_all process_env (search_settings ''OPENSEARCH'') else ret ()) (\<lambda>_.
     bnd (plugin_selected ''@edfi/meadowlark-elasticsearch-backend'') (\<lambda>elasticsearch.
     bnd (if elasticsearch then set_all process_env (search_settings ''ELASTICSEARCH'') else ret ()) (\<lambda>_.
     set_all process_env (remaining_settings cpuCount)))))) s1 = (Inr (), s')"
    using assms unfolding initializeConfig_def by (rule bnd_InrE)
  obtain u2 s2 where run2: "set_all process_env general_settings s1 = (Inr u2, s2)"
    and r2: "bnd (plugin_selected ''@edfi/meadowlark-opensearch-backend'') (\<lambda>opensearch.
     bnd (if opensearch then set_all process_env (search_settings ''OPENSEARCH'') else ret ()) (\<lambda>_.
     bnd (plugin_selected ''@edfi/meadowlark-elasticsearch-backend'') (\<lambda>elasticsearch.
     bnd (if elasticsearch then set_all process_env (search_settings ''ELASTICSEARCH'') else ret ()) (\<lambda>_.
     set_all process_env (remaining_settings cpuCount))))) s2 = (Inr (), s')"
    using r1 by (rule bnd_InrE)
  obtain b1 s3 where run3: "plugin_selected ''@edfi/meadowlark-opensearch-backend'' s2 = (Inr b1, s3)"
    and r3: "bnd (if b1 then set_all process_env (search_settings ''OPENSEARCH'') else ret ()) (\<lambda>_.
     bnd (plugin_selected ''@edfi/meadowlark-elasticsearch-backend'') (\<lambda>elasticsearch.
     bnd (if elasticsearch then set_all process_env (search_settings ''ELASTICSEARCH'') else ret ()) (\<lambda>_.
     set_all process_env (remaining_settings cpuCount)))) s3 = (Inr (), s')"
    using r2 by (rule bnd_InrE)
  obtain u4 s4 where run4: "(if b1 then set_all process_env (search_settings ''OPENSEARCH'') else ret ()) s3 = (Inr u4, s4)"
    and r4: "bnd (plugin_selected ''@edfi/meadowlark-elasticsearch-backend'') (\<lambda>elasticsearch.
     bnd (if elasticsearch then set_all process_env (search_settings ''ELASTICSEARCH'') else ret ()) (\<lambda>_.
     set_all process_env (remaining_settings cpuCount))) s4 = (Inr (), s')"
    using r3 by (rule bnd_InrE)
  obtain b2 s5 where run5: "plugin_selected ''@edfi/meadowlark-elasticsearch-backend'' s4 = (Inr b2, s5)"
    and r5: "bnd (if b2 then set_all process_env (search_settings ''ELASTICSEARCH'') else ret ()) (\<lambda>_.
     set_all process_env (remaining_settings cpuCount)) s5 = (Inr (), s')"
    using r4 by (rule bnd_InrE)
  obtain u6 s6 where run6: "(if b2 then set_all process_env (search_settings ''ELASTICSEARCH'') else ret ()) s5 = (Inr u6, s6)"
    and run7: "set_all process_env (remaining_settings cpuCount) s6 = (Inr (), s')"
    using r5 by (rule bnd_InrE)
  let ?K = "{''OAUTH_SIGNING_KEY''} \<union> fst ` set general_settings"

  have "available ?K s2"
    by (rule set_all_available_list [OF run2 set_signing_key_available [OF run1]])
  then have "available ?K s4"
    using optional_available [OF _ run4] plugin_selected_state [OF run3] by simp
  then have "available ?K s6"
    using optional_available [OF _ run6] plugin_selected_state [OF run5] by simp
  then have "available (?K \<union> fst ` set (remaining_settings cpuCount)) s'"
    by (rule set_all_available_list [OF run7])
  moreover have "fst ` set (remaining_settings cpuCount) = set (map fst (remaining_settings 0))"
    by (metis map_fst_remaining list.set_map)
  then have "set required_keys = ?K \<union> fst ` set (remaining_settings cpuCount)"
    unfolding required_keys_def by (simp add: Un_assoc)
  ultimately have "available (set required_keys) s'" by (simp only:)
  then show ?thesis
    unfolding list_all_iff by (intro ballI config_get_available)
qed

lemma read_config_runs: "process_env key = Some x \<Longrightarrow> \<exists>v s'. read_config process_env key r s = (Inr v, s')"
  by (cases r) (auto simp: getStringFromEnvironment_def getBooleanFromEnvironment_def
      getIntegerFromEnvironment_def getValueFromEnvironment_def parse_string_def parse_boolean_def
      parse_integer_def updateCache_def act_simps split: option.splits)

lemma set_all_runs: "(\<And>key. process_env key \<noteq> None) \<Longrightarrow> \<exists>s'. set_all process_env settings s = (Inr (), s')"
proof (induction settings arbitrary: s)
  case Nil
  then show ?case by (simp add: act_simps)
next
  case (Cons kr settings)
  obtain key r where kr: "kr = (key, r)" by (cases kr)
  obtain x where "process_env key = Some x" using Cons.prems by blast
  then obtain v s1 where v: "read_config process_env key r s = (Inr v, s1)"
    using read_config_runs by blast
  obtain s' where "set_all process_env settings (s1\<lparr>cfg_collection := AList.update key v (cfg_collection s1)\<rparr>) = (Inr (), s')"
    using Cons.IH [OF Cons.prems] by blast
  then show ?case by (simp add: kr v act_simps config_set_def)
qed

definition empty_config :: config_state where
  "empty_config = \<lparr>cfg_envCache = [], cfg_collection = []\<rparr>"

lemma plugin_selected_runs:
  assumes "available {''LISTENER1_PLUGIN'', ''LISTENER2_PLUGIN'', ''QUERY_HANDLER_PLUGIN''} s"
  shows "\<exists>b. plugin_selected name s = (Inr b, s)"
proof -
  obtain v1 v2 v3 where "config_get (cfg_collection s) ''LISTENER1_PLUGIN'' = Inr v1"
    "config_get (cfg_collection s) ''LISTENER2_PLUGIN'' = Inr v2"
    "config_get (cfg_collection s) ''QUERY_HANDLER_PLUGIN'' = Inr v3"
    using config_get_available [OF assms, of "''LISTENER1_PLUGIN''"]
      config_get_available [OF assms, of "''LISTENER2_PLUGIN''"]
      config_get_available [OF assms, of "''QUERY_HANDLER_PLUGIN''"] by auto
  then show ?thesis by (simp add: plugin_selected_def act_simps ex_bool_eq)
qed

text \<open>With every variable set, the initialization succeeds.\<close>

lemma initializeConfig_runs: "\<exists>s'. initializeConfig (\<lambda>_. Some ''x'') 4 empty_config = (Inr (), s')"
proof -
  let ?env = "\<lambda>_ :: string. Some ''x''"
  obtain s1 where s1: "set_signing_key ?env empty_config = (Inr (), s1)"
    by (simp add: set_signing_key_def getStringFromEnvironment_def getValueFromEnvironment_def getFromCache_def
        empty_config_def updateCache_def config_set_def parse_string_def act_simps)
  obtain s2 where s2: "set_all ?env general_settings s1 = (Inr (), s2)"
    using set_all_runs [of ?env] by blast
  have "available ({''OAUTH_SIGNING_KEY''} \<union> fst ` set general_settings) s2"
    by (rule set_all_available_list [OF s2 set_signing_key_available [OF s1]])
  then have plug: "available {''LISTENER1_PLUGIN'', ''LISTENER2_PLUGIN'', ''QUERY_HANDLER_PLUGIN''} s2"
    by (rule available_mono) (simp add: general_settings_def)
  then obtain b1 where b1: "plugin_selected ''@edfi/meadowlark-opensearch-backend'' s2 = (Inr b1, s2)"
    using plugin_selected_runs by blast
  obtain s4 where s4: "(if b1 then set_all ?env (search_settings ''OPENSEARCH'') else ret ()) s2 = (Inr (), s4)"
    using set_all_runs [of ?env] by (cases b1) (auto simp: act_simps)
  have "available {''LISTENER1_PLUGIN'', ''LISTENER2_PLUGIN'', ''QUERY_HANDLER_PLUGIN''} s4"
    by (rule optional_available [OF plug s4])
  then obtain b2 where b2: "plugin_selected ''@edfi/meadowlark-elasticsearch-backend'' s4 = (Inr b2, s4)"
    using plugin_selected_runs by blast
  obtain s6 where s6: "(if b2 then set_all ?env (search_settings ''ELASTICSEARCH'') else ret ()) s4 = (Inr (), s6)"
    using set_all_runs [of ?env] by (cases b2) (auto simp: act_simps)
  obtain s7 where s7: "set_all ?env (remaining_settings 4) s6 = (Inr (), s7)"
    using set_all_runs [of ?env] by blast
  show ?thesis
    using s1 s2 b1 s4 b2 s6 s7 by (simp add: initializeConfig_def bnd_def)
qed

theorem initializeConfig_provides_settings_witness:
  "\<exists>s'. initializeConfig (\<lambda>_. Some ''x'') 4 empty_config = (Inr (), s') \<and>
    list_all (\<lambda>key. \<exists>v. config_get (cfg_collection s') key = Inr v) required_keys"
  using initializeConfig_runs initializeConfig_provides_settings by blast

end
