(* ===== verification/Authorization.thy ===== *)
theory Authorization
  imports Middleware Configuration
begin

text \<open>
  Authorization of a request (\<open>AuthorizationMiddleware.ts\<close>, \<open>ParseUserRole.ts\<close>, \<open>OAuthFetch.ts\<close>).  The
  OAuth server is reached through \<open>axios.post\<close> and the recent client tokens are kept in a TTL cache;
  both are fields of \<open>oauth_env\<close>.  Meadowlark's own token is module state.  The data of a response is
  JSON; it may be \<open>undefined\<close>.
\<close>

section \<open>ParseUserRole\<close>

text \<open>\<open>some\<close> stops at the first role that fits; a role that is no text and is reached throws.\<close>

fun some_role :: "(string \<Rightarrow> bool) \<Rightarrow> json list \<Rightarrow> bool res" where
  "some_role fits [] = Inr False"
| "some_role fits (JStr role # roles) = (if fits (js_toLowerCase role) then Inr True else some_role fits roles)"
| "some_role fits (_ # roles) = Inl (TypeError ''role.toLocaleLowerCase is not a function'')"

definition determineAuthStrategyFromRoles :: "json list \<Rightarrow> AuthorizationStrategy res" where
  "determineAuthStrategyFromRoles rolesList =
     res_bind (some_role (\<lambda>role. role = ''host'') rolesList) (\<lambda>host.
     if host then Inr FULL_ACCESS
     else res_bind (some_role (\<lambda>role. role = ''admin'') rolesList) (\<lambda>admin.
     if admin then Inr FULL_ACCESS
     else res_bind (some_role (\<lambda>role. role = ''vendor'' \<or> role = ''assessment'') rolesList) (\<lambda>owner.
     Inr (if owner then OWNERSHIP_BASED else UNDEFINED_STRATEGY))))"

section \<open>OAuthFetch\<close>

record AxiosResponse =
  ax_status :: int
  ax_data :: "json option"

record ClientTokenInfo =
  cti_security :: Security
  cti_validateResources :: bool

record 's oauth_env =
  oe_config :: "(string \<times> ConfigValue) list"
  oe_axios_post :: "ConfigValue \<Rightarrow> json \<Rightarrow> Headers \<Rightarrow> (int \<Rightarrow> bool) \<Rightarrow> (AxiosResponse, 's) act"
  oe_cache_get :: "string \<Rightarrow> (ClientTokenInfo option, 's) act"
  oe_cache_set :: "string \<Rightarrow> ClientTokenInfo \<Rightarrow> (unit, 's) act"

definition config_json :: "ConfigValue \<Rightarrow> json" where
  "config_json v = (case v of CString s \<Rightarrow> JStr s | CBool b \<Rightarrow> JBool b | CNumber n \<Rightarrow> JNum n | CBuffer b \<Rightarrow> JStr b)"

definition fetchOwnAccessToken :: "'s oauth_env \<Rightarrow> (AxiosResponse, 's) act" where
  "fetchOwnAccessToken env =
     bnd (lift (config_get (oe_config env) ''OAUTH_SERVER_ENDPOINT_FOR_OWN_TOKEN_REQUEST'')) (\<lambda>url.
     bnd (lift (config_get (oe_config env) ''OWN_OAUTH_CLIENT_ID_FOR_CLIENT_AUTH'')) (\<lambda>client_id.
     bnd (lift (config_get (oe_config env) ''OWN_OAUTH_CLIENT_SECRET_FOR_CLIENT_AUTH'')) (\<lambda>client_secret.
     oe_axios_post env url
       (JObj [(''grant_type'', JStr ''client_credentials''), (''client_id'', config_json client_id),
              (''client_secret'', config_json client_secret)])
       [(''content-type'', ''application/json'')] (\<lambda>_. True))))"

definition fetchClientTokenVerification ::
  "'s oauth_env \<Rightarrow> string \<Rightarrow> json option \<Rightarrow> (AxiosResponse, 's) act" where
  "fetchClientTokenVerification env clientBearerToken ownAccessToken =
     bnd (lift (config_get (oe_config env) ''OAUTH_SERVER_ENDPOINT_FOR_TOKEN_VERIFICATION'')) (\<lambda>url.
     oe_axios_post env url (JStr (''token='' @ clientBearerToken))
       [(''content-type'', ''application/x-www-form-urlencoded''),
        (''authorization'', ''bearer '' @ js_opt_to_string ownAccessToken)]
       (\<lambda>status. status < 500))"

section \<open>AuthorizationMiddleware\<close>

definition extractClientBearerTokenFrom :: "FrontendRequest \<Rightarrow> string option" where
  "extractClientBearerTokenFrom frontendRequest =
     (case (case map_of (fr_headers frontendRequest) ''authorization'' of
              Some h \<Rightarrow> Some h | None \<Rightarrow> map_of (fr_headers frontendRequest) ''Authorization'') of
        None \<Rightarrow> None
      | Some authorizationHeader \<Rightarrow>
          if \<not> js_startsWith (js_toLowerCase authorizationHeader) ''bearer '' then None
          else Some (drop 7 authorizationHeader))"

text \<open>\<open>Inr (Inr token)\<close> is success with a token that may be \<open>undefined\<close>, \<open>Inr (Inl response)\<close> is
  failure with the response to post.\<close>

definition requestOwnAccessToken ::
  "'s oauth_env \<Rightarrow> (FrontendResponse + json option, 's) act" where
  "requestOwnAccessToken env =
     try_catch
       (bnd (fetchOwnAccessToken env) (\<lambda>response.
          if ax_status response = 200
          then bnd (lift (js_prop_opt (ax_data response) ''access_token'')) (\<lambda>token. ret (Inr token))
          else if ax_status response = 401 \<or> ax_status response = 404
          then ret (Inl \<lparr>resp_statusCode = 500, resp_headers = None,
                  resp_body = Some (error_body ''Invalid Meadowlark to OAuth server configuration'')\<rparr>)
          else ret (Inl \<lparr>resp_statusCode = 502, resp_headers = None,
                  resp_body = Some (error_body ''Request from Meadowlark to OAuth server failed'')\<rparr>)))
       (\<lambda>_. ret (Inl \<lparr>resp_statusCode = 502, resp_headers = None,
              resp_body = Some (error_body ''Request from Meadowlark to OAuth server failed'')\<rparr>))"

definition js_truthy :: "json option \<Rightarrow> bool" where
  "js_truthy v =
     (case v of
        None \<Rightarrow> False
      | Some JNull \<Rightarrow> False
      | Some (JBool b) \<Rightarrow> b
      | Some (JNum n) \<Rightarrow> n \<noteq> ''0'' \<and> n \<noteq> ''NaN''
      | Some (JStr s) \<Rightarrow> s \<noteq> ''''
      | _ \<Rightarrow> True)"

text \<open>\<open>data?.k\<close>.\<close>

definition optional_prop :: "json option \<Rightarrow> string \<Rightarrow> json option" where
  "optional_prop v k = (case v of Some (JObj kvs) \<Rightarrow> js_get k kvs | _ \<Rightarrow> None)"

definition client_id_of :: "json option \<Rightarrow> string" where
  "client_id_of data =
     (let v = optional_prop data ''client_id'' in
      if is_nullish v then ''UNKNOWN'' else js_opt_to_string v)"

definition roles_of :: "json option \<Rightarrow> json list res" where
  "roles_of data =
     (let v = optional_prop data ''roles'' in
      if \<not> js_truthy v then Inr []
      else (case v of Some (JArr rs) \<Rightarrow> Inr rs
            | _ \<Rightarrow> Inl (TypeError ''rolesList.some is not a function'')))"

definition clientTokenInfoFrom :: "json option \<Rightarrow> ClientTokenInfo res" where
  "clientTokenInfoFrom data =
     res_bind (roles_of data) (\<lambda>roles.
     res_bind (determineAuthStrategyFromRoles roles) (\<lambda>strategy.
       Inr \<lparr>cti_security = \<lparr>sec_authorizationStrategy = strategy, sec_clientId = client_id_of data\<rparr>,
            cti_validateResources = (JStr ''assessment'' \<notin> set roles)\<rparr>))"

definition with_token_info :: "ClientTokenInfo \<Rightarrow> FrontendRequest \<Rightarrow> FrontendRequest" where
  "with_token_info info = upd_middleware (\<lambda>m. m\<lparr>mw_security := Some (cti_security info),
     mw_validateResources := cti_validateResources info\<rparr>)"

definition set_own_token :: "json option \<Rightarrow> (unit, 'm core_state_scheme) act" where
  "set_own_token token = (\<lambda>s. (Inr (), s\<lparr>cs_cachedOwnAccessTokenForClientAuth := token\<rparr>))"

text \<open>The answers to the status of the verification.\<close>

definition acceptVerification ::
  "'s oauth_env \<Rightarrow> FrontendRequest \<Rightarrow> string \<Rightarrow> AxiosResponse \<Rightarrow> (MiddlewareModel, 's) act" where
  "acceptVerification env frontendRequest clientBearerToken response =
     (if ax_status response = 400 then ret (frontendRequest, Some (status_only 401))
      else if ax_status response = 200
      then
        (if \<not> js_truthy (optional_prop (ax_data response) ''active'')
         then ret (frontendRequest, Some (status_only 401))
         else bnd (lift (clientTokenInfoFrom (ax_data response))) (\<lambda>clientTokenInfo.
              bnd (oe_cache_set env clientBearerToken clientTokenInfo) (\<lambda>_.
              ret (with_token_info clientTokenInfo frontendRequest, None))))
      else ret (frontendRequest, Some (status_only 502)))"

text \<open>The verification of a client token, with one more try after a status of 401.\<close>

definition verifyClientToken ::
  "'m core_state_scheme oauth_env \<Rightarrow> FrontendRequest \<Rightarrow> string \<Rightarrow> (MiddlewareModel, 'm core_state_scheme) act" where
  "verifyClientToken env frontendRequest clientBearerToken =
     try_catch
       (\<lambda>s. bnd (fetchClientTokenVerification env clientBearerToken (cs_cachedOwnAccessTokenForClientAuth s))
         (\<lambda>response.
            if ax_status response = 401
            then bnd (requestOwnAccessToken env) (\<lambda>result.
              (case result of
                 Inl errorResponse \<Rightarrow> ret (frontendRequest, Some errorResponse)
               | Inr token \<Rightarrow>
                   bnd (set_own_token token) (\<lambda>_.
                   bnd (fetchClientTokenVerification env clientBearerToken token)
                     (acceptVerification env frontendRequest clientBearerToken))))
            else acceptVerification env frontendRequest clientBearerToken response) s)
       (\<lambda>_. ret (frontendRequest, Some (status_only 500)))"

definition authorize :: "'m core_state_scheme oauth_env \<Rightarrow> 'm core_state_scheme middleware" where
  "authorize env = (\<lambda>(frontendRequest, frontendResponse).
     if frontendResponse \<noteq> None then ret (frontendRequest, frontendResponse)
     else if mw_security (fr_middleware frontendRequest) \<noteq> None then ret (frontendRequest, frontendResponse)
     else
       (case extractClientBearerTokenFrom frontendRequest of
          None \<Rightarrow> ret (frontendRequest, Some \<lparr>resp_statusCode = 400,
                   resp_headers = mw_headerMetadata (fr_middleware frontendRequest),
                   resp_body = Some (error_body ''Invalid authorization header'')\<rparr>)
        | Some clientBearerToken \<Rightarrow>
            bnd (oe_cache_get env clientBearerToken) (\<lambda>cached.
              (case cached of
                 Some info \<Rightarrow> ret (with_token_info info frontendRequest, None)
               | None \<Rightarrow> (\<lambda>s.
                   if is_nullish (cs_cachedOwnAccessTokenForClientAuth s)
                   then bnd (requestOwnAccessToken env) (\<lambda>result.
                     (case result of
                        Inl errorResponse \<Rightarrow> ret (frontendRequest, Some errorResponse)
                      | Inr token \<Rightarrow>
                          bnd (set_own_token token) (\<lambda>_.
                            verifyClientToken env frontendRequest clientBearerToken))) s
                   else verifyClientToken env frontendRequest clientBearerToken s)))))"

section \<open>What a token may stand for\<close>

text \<open>The OAuth server accepted the token: in some state it answered a verification of it with status
  200 and an active token, and \<open>info\<close> is what this answer says.\<close>

definition verified :: "'s oauth_env \<Rightarrow> string \<Rightarrow> ClientTokenInfo \<Rightarrow> bool" where
  "verified env token info \<longleftrightarrow>
     (\<exists>own s s' response. fetchClientTokenVerification env token own s = (Inr response, s') \<and>
        ax_status response = 200 \<and> js_truthy (optional_prop (ax_data response) ''active'') \<and>
        clientTokenInfoFrom (ax_data response) = Inr info)"

text \<open>What the code relies on of the TTL cache, with \<open>cache\<close> as the entries it may still return: a lookup
  returns an entry for its key, storing adds at most the entry stored, and entries may vanish at any
  time.  Requests to the OAuth server and the own token do not touch it.\<close>

definition token_cache_laws ::
  "'m core_state_scheme oauth_env \<Rightarrow> ('m core_state_scheme \<Rightarrow> (string \<times> ClientTokenInfo) set) \<Rightarrow> bool" where
  "token_cache_laws env cache \<longleftrightarrow>
     (\<forall>t s r s'. oe_cache_get env t s = (r, s') \<longrightarrow>
        cache s' \<subseteq> cache s \<and> (\<forall>i. r = Inr (Some i) \<longrightarrow> (t, i) \<in> cache s)) \<and>
     (\<forall>t i s r s'. oe_cache_set env t i s = (r, s') \<longrightarrow> cache s' \<subseteq> insert (t, i) (cache s)) \<and>
     (\<forall>u b h v s r s'. oe_axios_post env u b h v s = (r, s') \<longrightarrow> cache s' \<subseteq> cache s) \<and>
     (\<forall>s token. cache (s\<lparr>cs_cachedOwnAccessTokenForClientAuth := token\<rparr>) = cache s)"

definition cache_verified ::
  "'s oauth_env \<Rightarrow> ('s \<Rightarrow> (string \<times> ClientTokenInfo) set) \<Rightarrow> 's \<Rightarrow> bool" where
  "cache_verified env cache s \<longleftrightarrow> (\<forall>(t, i) \<in> cache s. verified env t i)"

section \<open>Lemmas\<close>

lemma triple_state_if:
  "triple I m Q \<Longrightarrow> triple I n Q \<Longrightarrow> triple I (\<lambda>s. if P s then m s else n s) Q"
  by (simp add: triple_def)

lemma cache_verified_mono: "cache_verified env cache s \<Longrightarrow> cache s' \<subseteq> cache s \<Longrightarrow> cache_verified env cache s'"
  by (auto simp: cache_verified_def)

lemma token_cache_get:
  "token_cache_laws env cache \<Longrightarrow> oe_cache_get env t s = (r, s') \<Longrightarrow>
   cache s' \<subseteq> cache s \<and> (\<forall>i. r = Inr (Some i) \<longrightarrow> (t, i) \<in> cache s)"
  unfolding token_cache_laws_def by metis

lemma token_cache_set:
  "token_cache_laws env cache \<Longrightarrow> oe_cache_set env t i s = (r, s') \<Longrightarrow> cache s' \<subseteq> insert (t, i) (cache s)"
  unfolding token_cache_laws_def by metis

lemma token_cache_post:
  "token_cache_laws env cache \<Longrightarrow> oe_axios_post env u b h v s = (r, s') \<Longrightarrow> cache s' \<subseteq> cache s"
  unfolding token_cache_laws_def by metis

lemma token_cache_own:
  "token_cache_laws env cache \<Longrightarrow> cache (s\<lparr>cs_cachedOwnAccessTokenForClientAuth := token\<rparr>) = cache s"
  unfolding token_cache_laws_def by metis

lemma triple_axios:
  "token_cache_laws env cache \<Longrightarrow> triple (cache_verified env cache) (oe_axios_post env u b h v) (\<lambda>_. True)"
  by (rule tripleI) (metis cache_verified_mono token_cache_post)

lemma triple_fetchOwn:
  "token_cache_laws env cache \<Longrightarrow> triple (cache_verified env cache) (fetchOwnAccessToken env) (\<lambda>_. True)"
  unfolding fetchOwnAccessToken_def
  by (intro triple_bnd [where P = "\<lambda>_. True"] triple_lift TrueI triple_axios)

lemma triple_requestOwn:
  "token_cache_laws env cache \<Longrightarrow> triple (cache_verified env cache) (requestOwnAccessToken env) (\<lambda>_. True)"
  unfolding requestOwnAccessToken_def
  by (intro triple_try_catch triple_bnd [where P = "\<lambda>_. True"] triple_if triple_ret triple_lift TrueI triple_fetchOwn)

lemma triple_set_own:
  "token_cache_laws env cache \<Longrightarrow> triple (cache_verified env cache) (set_own_token token) (\<lambda>_. True)"
  by (rule tripleI) (auto simp: cache_verified_def set_own_token_def token_cache_own)

lemma triple_fetchVerification:
  assumes "token_cache_laws env cache"
  shows "triple (cache_verified env cache) (fetchClientTokenVerification env token own)
    (\<lambda>response. \<exists>own s s'. fetchClientTokenVerification env token own s = (Inr response, s'))"
proof (rule tripleI)
  fix s r s'
  assume s: "cache_verified env cache s" "fetchClientTokenVerification env token own s = (r, s')"
  have "triple (cache_verified env cache) (fetchClientTokenVerification env token own) (\<lambda>_. True)"
    unfolding fetchClientTokenVerification_def
    by (intro triple_bnd [where P = "\<lambda>_. True"] triple_lift TrueI triple_axios assms)
  then show "cache_verified env cache s' \<and> (\<forall>x. r = Inr x \<longrightarrow>
      (\<exists>own s s'. fetchClientTokenVerification env token own s = (Inr x, s')))"
    by (metis s tripleD)
qed

definition passed ::
  "'s oauth_env \<Rightarrow> FrontendRequest \<Rightarrow> string \<Rightarrow> MiddlewareModel \<Rightarrow> bool" where
  "passed env r token m \<longleftrightarrow>
     snd m \<noteq> None \<or> (\<exists>info. verified env token info \<and> m = (with_token_info info r, None))"

lemma triple_stored:
  assumes "token_cache_laws env cache" "verified env token info"
  shows "triple (cache_verified env cache) (oe_cache_set env token info) (\<lambda>_. True)"
proof (rule tripleI)
  fix s r s'
  assume "cache_verified env cache s" "oe_cache_set env token info s = (r, s')"
  then have "cache s' \<subseteq> insert (token, info) (cache s)" "\<forall>(t, i) \<in> insert (token, info) (cache s). verified env t i"
    using token_cache_set [OF assms(1)] assms(2) by (auto simp: cache_verified_def)
  then show "cache_verified env cache s' \<and> (\<forall>x. r = Inr x \<longrightarrow> True)"
    by (auto simp: cache_verified_def)
qed

lemma triple_accept:
  assumes "token_cache_laws env cache"
    and "\<exists>own s s'. fetchClientTokenVerification env token own s = (Inr response, s')"
  shows "triple (cache_verified env cache) (acceptVerification env r token response) (passed env r token)"
proof -
  have posted: "passed env r token (r, Some resp)" for resp by (simp add: passed_def)
  have accept: "triple (cache_verified env cache)
      (bnd (lift (clientTokenInfoFrom (ax_data response))) (\<lambda>info.
        bnd (oe_cache_set env token info) (\<lambda>_. ret (with_token_info info r, None)))) (passed env r token)"
    if "ax_status response = 200" "js_truthy (optional_prop (ax_data response) ''active'')"
  proof (rule triple_bnd [where P = "verified env token"])
    show "triple (cache_verified env cache) (lift (clientTokenInfoFrom (ax_data response))) (verified env token)"
      by (rule triple_lift) (use that assms(2) in \<open>auto simp: verified_def\<close>)
  next
    fix info
    assume "verified env token info"
    then show "triple (cache_verified env cache)
        (bnd (oe_cache_set env token info) (\<lambda>_. ret (with_token_info info r, None))) (passed env r token)"
      by (intro triple_bnd [OF triple_stored [OF assms(1)]] triple_ret) (auto simp: passed_def)
  qed
  show ?thesis
    unfolding acceptVerification_def
    by (intro triple_if triple_ret posted accept) simp_all
qed

lemma triple_verifyClientToken:
  assumes "token_cache_laws env cache"
  shows "triple (cache_verified env cache) (verifyClientToken env r token) (passed env r token)"
proof -
  have posted: "passed env r token (r, Some resp)" for resp by (simp add: passed_def)
  have retry: "triple (cache_verified env cache) (bnd (requestOwnAccessToken env) (\<lambda>result.
      (case result of Inl errorResponse \<Rightarrow> ret (r, Some errorResponse)
       | Inr tok \<Rightarrow> bnd (set_own_token tok) (\<lambda>_. bnd (fetchClientTokenVerification env token tok)
            (acceptVerification env r token))))) (passed env r token)"
    by (rule triple_bnd [OF triple_requestOwn [OF assms]], rule triple_sum, rule triple_ret, rule posted,
        rule triple_bnd [OF triple_set_own [OF assms]], rule triple_bnd [OF triple_fetchVerification [OF assms]],
        rule triple_accept [OF assms])
  have try1: "triple (cache_verified env cache) (bnd (fetchClientTokenVerification env token own)
      (\<lambda>response. if ax_status response = 401 then
          bnd (requestOwnAccessToken env) (\<lambda>result.
      (case result of Inl errorResponse \<Rightarrow> ret (r, Some errorResponse)
       | Inr tok \<Rightarrow> bnd (set_own_token tok) (\<lambda>_. bnd (fetchClientTokenVerification env token tok)
            (acceptVerification env r token))))
        else acceptVerification env r token response)) (passed env r token)" for own
    by (rule triple_bnd [OF triple_fetchVerification [OF assms]], rule triple_if, rule retry,
        rule triple_accept [OF assms])
  show ?thesis
    unfolding verifyClientToken_def
    by (rule triple_try_catch, rule triple_state, rule try1, rule triple_ret, rule posted)
qed

lemma triple_authorize:
  assumes "token_cache_laws env cache" "mw_security (fr_middleware r) = None"
  shows "triple (cache_verified env cache) (authorize env (r, None))
    (\<lambda>m. snd m \<noteq> None \<or> (\<exists>token info. extractClientBearerTokenFrom r = Some token \<and>
        verified env token info \<and> m = (with_token_info info r, None)))"
proof (cases "extractClientBearerTokenFrom r")
  case None
  then show ?thesis using assms(2) by (simp add: authorize_def triple_ret)
next
  case (Some token)
  have got: "triple (cache_verified env cache) (oe_cache_get env token)
      (\<lambda>x. \<forall>i. x = Some i \<longrightarrow> verified env token i)"
  proof (rule tripleI)
    fix s x s'
    assume s: "cache_verified env cache s" "oe_cache_get env token s = (x, s')"
    note law = token_cache_get [OF assms(1) s(2)]
    have "\<forall>y. x = Inr y \<longrightarrow> (\<forall>i. y = Some i \<longrightarrow> verified env token i)"
      using law s(1) by (auto simp: cache_verified_def)
    then show "cache_verified env cache s' \<and> (\<forall>y. x = Inr y \<longrightarrow> (\<forall>i. y = Some i \<longrightarrow> verified env token i))"
      using cache_verified_mono [OF s(1)] law by blast
  qed
  have own: "triple (cache_verified env cache) (bnd (requestOwnAccessToken env) (\<lambda>result.
       (case result of Inl errorResponse \<Rightarrow> ret (r, Some errorResponse)
        | Inr tok \<Rightarrow> bnd (set_own_token tok) (\<lambda>_. verifyClientToken env r token)))) (passed env r token)"
    by (rule triple_bnd [OF triple_requestOwn [OF assms(1)]], rule triple_sum, rule triple_ret, simp add: passed_def,
        rule triple_bnd [OF triple_set_own [OF assms(1)]], rule triple_verifyClientToken [OF assms(1)])
  have "triple (cache_verified env cache) (bnd (oe_cache_get env token) (\<lambda>cached.
      (case cached of Some info \<Rightarrow> ret (with_token_info info r, None)
       | None \<Rightarrow> (\<lambda>s. if is_nullish (cs_cachedOwnAccessTokenForClientAuth s)
            then bnd (requestOwnAccessToken env) (\<lambda>result.
              (case result of Inl errorResponse \<Rightarrow> ret (r, Some errorResponse)
               | Inr tok \<Rightarrow> bnd (set_own_token tok) (\<lambda>_. verifyClientToken env r token))) s
            else verifyClientToken env r token s)))) (passed env r token)"
  proof (rule triple_bnd [OF got], rule triple_option)
    fix cached
    show "triple (cache_verified env cache) (\<lambda>s. if is_nullish (cs_cachedOwnAccessTokenForClientAuth s)
            then bnd (requestOwnAccessToken env) (\<lambda>result.
              (case result of Inl errorResponse \<Rightarrow> ret (r, Some errorResponse)
               | Inr tok \<Rightarrow> bnd (set_own_token tok) (\<lambda>_. verifyClientToken env r token))) s
            else verifyClientToken env r token s) (passed env r token)"
      by (rule triple_state_if [OF own triple_verifyClientToken [OF assms(1)]])
  next
    fix cached info
    assume "\<forall>i. cached = Some i \<longrightarrow> verified env token i" "cached = Some info"
    then show "triple (cache_verified env cache) (ret (with_token_info info r, None)) (passed env r token)"
      by (intro triple_ret) (auto simp: passed_def)
  qed
  then have "triple (cache_verified env cache) (authorize env (r, None)) (passed env r token)"
    using assms(2) Some by (simp add: authorize_def)
  then show ?thesis by (rule triple_conseq) (use Some in \<open>auto simp: passed_def\<close>)
qed

section \<open>Properties\<close>

text \<open>C34: A request that arrives without security information passes authorization only with the security
  of a token that the OAuth server accepted: the bearer token of the request is one for which some
  verification was answered with status 200 and an active token, and client id, strategy and
  resource validation are those of this answer.  Every entry of the token cache stays of this kind.\<close>

theorem authorize_only_verified:
  assumes "token_cache_laws env cache" "cache_verified env cache s"
    and "mw_security (fr_middleware r) = None"
    and "authorize env (r, None) s = (res, s')"
  shows "cache_verified env cache s' \<and>
    (\<forall>r'. res = Inr (r', None) \<longrightarrow>
      (\<exists>token info. extractClientBearerTokenFrom r = Some token \<and> verified env token info \<and>
         r' = with_token_info info r))"
  using tripleD [OF triple_authorize [OF assms(1,3)] assms(2,4)] by auto

text \<open>A state with a list of tokens and a server that accepts every token, for the witnesses.\<close>

record token_state = core_state +
  ts_tokens :: "(string \<times> ClientTokenInfo) list"

definition active_answer :: AxiosResponse where
  "active_answer = \<lparr>ax_status = 200, ax_data = Some (JObj [(''active'', JBool True),
     (''client_id'', JStr ''client1''), (''roles'', JArr [JStr ''Vendor'']), (''access_token'', JStr ''own'')])\<rparr>"

definition example_config :: "(string \<times> ConfigValue) list" where
  "example_config = [(''OAUTH_SERVER_ENDPOINT_FOR_OWN_TOKEN_REQUEST'', CString ''u''),
     (''OWN_OAUTH_CLIENT_ID_FOR_CLIENT_AUTH'', CString ''i''),
     (''OWN_OAUTH_CLIENT_SECRET_FOR_CLIENT_AUTH'', CString ''s''),
     (''OAUTH_SERVER_ENDPOINT_FOR_TOKEN_VERIFICATION'', CString ''v'')]"

definition example_oauth :: "token_state oauth_env" where
  "example_oauth = \<lparr>oe_config = example_config,
     oe_axios_post = (\<lambda>_ _ _ _. ret active_answer),
     oe_cache_get = (\<lambda>t s. (Inr (map_of (ts_tokens s) t), s)),
     oe_cache_set = (\<lambda>t i s. (Inr (), s\<lparr>ts_tokens := (t, i) # ts_tokens s\<rparr>))\<rparr>"

definition initial_token_state :: token_state where
  "initial_token_state = \<lparr>cs_apiSchemaCache = None, cs_validatorCache = [], cs_queryValidatorCache = [],
     cs_cachedOwnAccessTokenForClientAuth = None, ts_tokens = []\<rparr>"

definition vendor_info :: ClientTokenInfo where
  "vendor_info = \<lparr>cti_security = \<lparr>sec_authorizationStrategy = OWNERSHIP_BASED, sec_clientId = ''client1''\<rparr>,
     cti_validateResources = True\<rparr>"

definition bearer_request :: FrontendRequest where
  "bearer_request = newFrontendRequest\<lparr>fr_headers := [(''Authorization'', ''Bearer t1'')]\<rparr>"

lemma example_token_laws: "token_cache_laws example_oauth (\<lambda>s. set (ts_tokens s))"
  by (auto simp: token_cache_laws_def example_oauth_def act_simps dest: map_of_SomeD)

lemma example_authorize:
  "authorize example_oauth (bearer_request, None) initial_token_state =
     (Inr (with_token_info vendor_info bearer_request, None),
      initial_token_state\<lparr>cs_cachedOwnAccessTokenForClientAuth := Some (JStr ''own''),
        ts_tokens := [(''t1'', vendor_info)]\<rparr>)"
proof -
  have bearer: "extractClientBearerTokenFrom bearer_request = Some ''t1''"
    "mw_security (fr_middleware bearer_request) = None"
    by code_simp+
  have info: "clientTokenInfoFrom (ax_data active_answer) = Inr vendor_info"
    "js_truthy (optional_prop (ax_data active_answer) ''active'')"
    "js_prop_opt (ax_data active_answer) ''access_token'' = Inr (Some (JStr ''own''))"
    "ax_status active_answer = 200"
    by code_simp+
  have own: "requestOwnAccessToken example_oauth s = (Inr (Inr (Some (JStr ''own''))), s)" for s
    by (simp add: requestOwnAccessToken_def fetchOwnAccessToken_def example_oauth_def example_config_def
        config_get_def act_simps info)
  have verify: "fetchClientTokenVerification example_oauth t own s = (Inr active_answer, s)" for t own s
    by (simp add: fetchClientTokenVerification_def example_oauth_def example_config_def config_get_def act_simps)
  have cache: "oe_cache_get example_oauth t s = (Inr (map_of (ts_tokens s) t), s)"
    "oe_cache_set example_oauth t i s = (Inr (), s\<lparr>ts_tokens := (t, i) # ts_tokens s\<rparr>)" for t i s
    by (simp_all add: example_oauth_def)
  have start: "ts_tokens initial_token_state = []"
    "cs_cachedOwnAccessTokenForClientAuth initial_token_state = None"
    by (simp_all add: initial_token_state_def)
  show ?thesis
    by (simp add: authorize_def bearer verifyClientToken_def acceptVerification_def act_simps own verify info
        set_own_token_def is_nullish_def cache start)
qed

theorem authorize_only_verified_witness:
  "cache_verified example_oauth (\<lambda>s. set (ts_tokens s))
     (initial_token_state\<lparr>cs_cachedOwnAccessTokenForClientAuth := Some (JStr ''own''),
        ts_tokens := [(''t1'', vendor_info)]\<rparr>) \<and>
   (\<exists>token info. extractClientBearerTokenFrom bearer_request = Some token \<and> verified example_oauth token info \<and>
      with_token_info vendor_info bearer_request = with_token_info info bearer_request)"
proof -
  have start: "cache_verified example_oauth (\<lambda>s. set (ts_tokens s)) initial_token_state"
    by (simp add: cache_verified_def initial_token_state_def)
  have fresh: "mw_security (fr_middleware bearer_request) = None"
    by (simp add: bearer_request_def newFrontendRequest_def newFrontendRequestMiddleware_def)
  show ?thesis
    using authorize_only_verified [OF example_token_laws start fresh example_authorize] by blast
qed

lemma some_role_texts: "some_role fits (map JStr roles) = Inr (\<exists>role \<in> set roles. fits (js_toLowerCase role))"
  by (induction roles) auto

text \<open>The strategy follows from the roles without regard to case or order: full access exactly with a
  role \<open>host\<close> or \<open>admin\<close>, ownership exactly with \<open>vendor\<close> or \<open>assessment\<close> and neither of those, and more
  roles never allow less.\<close>

definition strategy_of_roles :: "string set \<Rightarrow> AuthorizationStrategy" where
  "strategy_of_roles roles =
     (if roles \<inter> {''host'', ''admin''} \<noteq> {} then FULL_ACCESS
      else if roles \<inter> {''vendor'', ''assessment''} \<noteq> {} then OWNERSHIP_BASED
      else UNDEFINED_STRATEGY)"

lemma strategy_of_roles_mono: "A \<subseteq> B \<Longrightarrow> strategy_of_roles A \<le> strategy_of_roles B"
  by (auto simp: strategy_of_roles_def less_eq_AuthorizationStrategy_def)

theorem determineAuthStrategy_by_roles:
  "determineAuthStrategyFromRoles (map JStr roles) = Inr (strategy_of_roles (js_toLowerCase ` set roles)) \<and>
   strategy_of_roles (js_toLowerCase ` set roles) \<le> strategy_of_roles (js_toLowerCase ` set (extra @ roles))"
proof
  have one: "(\<exists>role \<in> set roles. js_toLowerCase role = x) \<longleftrightarrow> x \<in> js_toLowerCase ` set roles" for x by blast
  have two: "(\<exists>role \<in> set roles. js_toLowerCase role = x \<or> js_toLowerCase role = y) \<longleftrightarrow>
      x \<in> js_toLowerCase ` set roles \<or> y \<in> js_toLowerCase ` set roles" for x y by blast
  show "determineAuthStrategyFromRoles (map JStr roles) = Inr (strategy_of_roles (js_toLowerCase ` set roles))"
    by (simp add: determineAuthStrategyFromRoles_def some_role_texts one two strategy_of_roles_def)
  show "strategy_of_roles (js_toLowerCase ` set roles) \<le> strategy_of_roles (js_toLowerCase ` set (extra @ roles))"
    by (rule strategy_of_roles_mono) auto
qed

text \<open>The roles of a token decide resource validation with regard to case: a role \<open>Assessment\<close> gets the
  ownership strategy of \<open>assessment\<close>, but its requests are still validated.\<close>

lemma assessment_role_is_case_sensitive:
  "clientTokenInfoFrom (Some (JObj [(''client_id'', JStr ''c''), (''roles'', JArr [JStr ''assessment''])])) =
     Inr \<lparr>cti_security = \<lparr>sec_authorizationStrategy = OWNERSHIP_BASED, sec_clientId = ''c''\<rparr>,
          cti_validateResources = False\<rparr> \<and>
   clientTokenInfoFrom (Some (JObj [(''client_id'', JStr ''c''), (''roles'', JArr [JStr ''Assessment''])])) =
     Inr \<lparr>cti_security = \<lparr>sec_authorizationStrategy = OWNERSHIP_BASED, sec_clientId = ''c''\<rparr>,
          cti_validateResources = True\<rparr>"
  by code_simp

end
