(* ===== verification/AuthzServer.thy ===== *)
theory AuthzServer
  imports Authorization
begin

text \<open>
  The OAuth server (\<open>packages/meadowlark-authz-server/src\<close>): its requests, messages and the interface of the
  authorization store, the JWT checks, body validation, and the handlers that issue and verify tokens
  and manage clients.  The state is that of the configuration, the loaded store and the world on which
  the store works.  nJwt, Ajv, didyoumean2, \<open>querystring\<close>, \<open>JSON.parse\<close>, the base64 decoder, the
  digest, random bytes and uuids are fields of \<open>authz_env\<close>.
\<close>

section \<open>Requests and responses\<close>

record AuthorizationRequest =
  rq_path :: string
  rq_traceId :: string
  rq_body :: "string option"
  rq_headers :: Headers
  rq_queryParameters :: js_object
  rq_stage :: string

definition newAuthorizationRequest :: AuthorizationRequest where
  "newAuthorizationRequest = \<lparr>rq_path = '''', rq_traceId = '''', rq_body = None, rq_headers = [],
     rq_queryParameters = [], rq_stage = ''''\<rparr>"

record AuthorizationResponse =
  ar_statusCode :: int
  ar_headers :: "Headers option"
  ar_body :: "json option"

definition newAuthorizationResponse :: AuthorizationResponse where
  "newAuthorizationResponse = \<lparr>ar_statusCode = 0, ar_headers = Some [], ar_body = None\<rparr>"

definition answer :: "int \<Rightarrow> AuthorizationResponse" where
  "answer n = \<lparr>ar_statusCode = n, ar_headers = None, ar_body = None\<rparr>"

definition answer_body :: "int \<Rightarrow> json \<Rightarrow> AuthorizationResponse" where
  "answer_body n body = \<lparr>ar_statusCode = n, ar_headers = None, ar_body = Some body\<rparr>"

definition extractAuthorizationHeader :: "AuthorizationRequest \<Rightarrow> string option" where
  "extractAuthorizationHeader authorizationRequest =
     (case map_of (rq_headers authorizationRequest) ''authorization'' of
        Some h \<Rightarrow> Some h | None \<Rightarrow> map_of (rq_headers authorizationRequest) ''Authorization'')"

section \<open>The authorization store\<close>

text \<open>A client id is \<open>None\<close> where the code has \<open>undefined\<close>.  Names, roles and the flag are what JSON has.\<close>

record CreateAuthorizationClientRequest =
  car_clientId :: string
  car_clientSecretHashed :: string
  car_clientName :: "json option"
  car_active :: json
  car_roles :: "json option"

record UpdateAuthorizationClientRequest =
  uar_clientId :: "string option"
  uar_clientName :: "json option"
  uar_active :: "json option"
  uar_roles :: "json option"

record ResetAuthorizationClientSecretRequest =
  rar_clientId :: "string option"
  rar_clientSecretHashed :: string

datatype CreateAuthorizationClientResult = CREATE_SUCCESS | UNKNOWN_FAILURE

datatype TryCreateBootstrapAuthorizationAdminResult =
  CREATE_SUCCESS | CREATE_FAILURE_ALREADY_EXISTS | UNKNOWN_FAILURE

datatype UpdateAuthorizationClientResult = UPDATE_SUCCESS | UPDATE_FAILED_NOT_EXISTS | UNKNOWN_FAILURE

datatype ResetAuthorizationClientSecretResult = RESET_SUCCESS | RESET_FAILED_NOT_EXISTS | UNKNOWN_FAILURE

datatype GetAuthorizationClientResult =
    GET_SUCCESS (gac_clientSecretHashed: string) (gac_clientName: json) (gac_active: json) (gac_roles: json)
  | GET_FAILURE_NOT_EXISTS
  | UNKNOWN_FAILURE

record GetClientBody =
  gcb_clientId :: string
  gcb_clientName :: json
  gcb_active :: json
  gcb_roles :: json

datatype GetAllAuthorizationClientsResult =
  GET_SUCCESS "GetClientBody list" | GET_FAILURE_NOT_EXISTS | UNKNOWN_FAILURE

record 's AuthorizationStorePlugin =
  asp_createAuthorizationClient :: "CreateAuthorizationClientRequest \<Rightarrow> (CreateAuthorizationClientResult, 's) act"
  asp_tryCreateBootstrapAuthorizationAdmin ::
    "CreateAuthorizationClientRequest \<Rightarrow> (TryCreateBootstrapAuthorizationAdminResult, 's) act"
  asp_getAllAuthorizationClients :: "(GetAllAuthorizationClientsResult, 's) act"
  asp_getAuthorizationClient :: "json option \<Rightarrow> (GetAuthorizationClientResult, 's) act"
  asp_updateAuthorizationClient :: "UpdateAuthorizationClientRequest \<Rightarrow> (UpdateAuthorizationClientResult, 's) act"
  asp_resetAuthorizationClientSecret ::
    "ResetAuthorizationClientSecretRequest \<Rightarrow> (ResetAuthorizationClientSecretResult, 's) act"

definition NoAuthorizationStorePlugin :: "'s AuthorizationStorePlugin" where
  "NoAuthorizationStorePlugin = \<lparr>
     asp_createAuthorizationClient = (\<lambda>_. ret CreateAuthorizationClientResult.UNKNOWN_FAILURE),
     asp_tryCreateBootstrapAuthorizationAdmin = (\<lambda>_. ret TryCreateBootstrapAuthorizationAdminResult.UNKNOWN_FAILURE),
     asp_getAllAuthorizationClients = ret GetAllAuthorizationClientsResult.UNKNOWN_FAILURE,
     asp_getAuthorizationClient = (\<lambda>_. ret GetAuthorizationClientResult.UNKNOWN_FAILURE),
     asp_updateAuthorizationClient = (\<lambda>_. ret UpdateAuthorizationClientResult.UNKNOWN_FAILURE),
     asp_resetAuthorizationClientSecret = (\<lambda>_. ret ResetAuthorizationClientSecretResult.UNKNOWN_FAILURE)\<rparr>"

section \<open>State and environment\<close>

record 's authz_state = config_state +
  az_store :: "'s AuthorizationStorePlugin option"
  az_pluginsLoaded :: bool
  az_world :: 's

text \<open>A verified token, or what nJwt throws: a message, and the body under \<open>body\<close> or \<open>parsedBody\<close>.\<close>

record Jwt =
  jwt_message :: "string option"
  jwt_body :: "json option"
  jwt_parsedBody :: "json option"

record 's authz_env =
  ae_process_env :: "string \<Rightarrow> string option"
  ae_import :: "string \<Rightarrow> 's AuthorizationStorePlugin res"
  ae_verify :: "json option \<Rightarrow> ConfigValue \<Rightarrow> 's \<Rightarrow> Jwt + Jwt option"
  ae_createJwt :: "js_object \<Rightarrow> ConfigValue \<Rightarrow> int option \<Rightarrow> (string \<times> json) res"
  ae_date_now :: "'s \<Rightarrow> int"
  ae_json_parse :: "string \<Rightarrow> json res"
  ae_querystring_parse :: "string \<Rightarrow> json res"
  ae_ajv :: "json \<Rightarrow> json \<Rightarrow> bool \<times> ErrorObject list option"
  ae_betterAjvErrors :: "json \<Rightarrow> json \<Rightarrow> ErrorObject list option \<Rightarrow> json"
  ae_didYouMean :: "string \<Rightarrow> string list \<Rightarrow> string option"
  ae_randomBytes :: "(8 word list, 's) act"
  ae_uuidv4 :: "(string, 's) act"
  ae_shake256 :: "8 word list \<Rightarrow> string"
  ae_base64_binary :: "string \<Rightarrow> string"

definition on_az_world :: "('a, 's) act \<Rightarrow> ('a, 's authz_state) act" where
  "on_az_world m = (\<lambda>s. case m (az_world s) of (r, w) \<Rightarrow> (r, s\<lparr>az_world := w\<rparr>))"

definition az_config :: "string \<Rightarrow> (ConfigValue, 's authz_state) act" where
  "az_config key = (\<lambda>s. (config_get (cfg_collection s) key, s))"

section \<open>AuthorizationPluginLoader\<close>

definition loadAuthorizationStore :: "'s authz_env \<Rightarrow> (unit, 's authz_state) act" where
  "loadAuthorizationStore env = (\<lambda>s.
     if az_store s \<noteq> None then ret () s
     else bnd (az_config ''AUTHORIZATION_STORE_PLUGIN'') (\<lambda>authStorePlugin.
          bnd (lift (ae_import env (js_to_string (config_json authStorePlugin)))) (\<lambda>plugin s'.
          (Inr (), s'\<lparr>az_store := Some plugin\<rparr>))) s)"


definition getAuthorizationStore :: "'s authz_state \<Rightarrow> 's AuthorizationStorePlugin" where
  "getAuthorizationStore s = (case az_store s of None \<Rightarrow> NoAuthorizationStorePlugin | Some p \<Rightarrow> p)"

definition az_loadAllPlugins :: "'s authz_env \<Rightarrow> (unit, 's authz_state) act" where
  "az_loadAllPlugins env = try_catch (loadAuthorizationStore env) (\<lambda>_. ret ())"

definition az_ensurePluginsLoaded :: "'s authz_env \<Rightarrow> (unit, 's authz_state) act" where
  "az_ensurePluginsLoaded env = (\<lambda>s.
     if az_pluginsLoaded s then ret () s else az_loadAllPlugins env (s\<lparr>az_pluginsLoaded := True\<rparr>))"

definition with_store :: "('s AuthorizationStorePlugin \<Rightarrow> ('a, 's) act) \<Rightarrow> ('a, 's authz_state) act" where
  "with_store f = (\<lambda>s. on_az_world (f (getAuthorizationStore s)) s)"

section \<open>JWT status\<close>

record JwtStatus =
  jst_isMissing :: bool
  jst_isValid :: bool
  jst_isExpired :: bool
  jst_issuer :: json
  jst_audience :: json
  jst_subject :: json
  jst_clientId :: json
  jst_issuedAt :: json
  jst_expiresAt :: json
  jst_roles :: json

definition newJwtStatus :: JwtStatus where
  "newJwtStatus = \<lparr>jst_isMissing = False, jst_isValid = False, jst_isExpired = False, jst_issuer = JStr '''',
     jst_audience = JStr '''', jst_subject = JNull, jst_clientId = JNull, jst_issuedAt = JNum ''0'',
     jst_expiresAt = JNum ''0'', jst_roles = JArr []\<rparr>"

text \<open>\<open>body?.key ?? dflt\<close>.\<close>

definition claim :: "json option \<Rightarrow> string \<Rightarrow> json \<Rightarrow> json" where
  "claim body key dflt =
     (let v = optional_prop body key in if is_nullish v then dflt else the v)"

definition toJwtStatus :: "Jwt option \<Rightarrow> JwtStatus" where
  "toJwtStatus jwt =
     (case jwt of
        None \<Rightarrow> newJwtStatus\<lparr>jst_isValid := False\<rparr>
      | Some j \<Rightarrow>
          \<lparr>jst_isMissing = False,
           jst_isValid = (jwt_message j \<notin> {Some ''Signature verification failed'', Some ''Jwt cannot be parsed''}),
           jst_isExpired = (jwt_message j = Some ''Jwt is expired''),
           jst_issuer = claim (jwt_body j) ''iss'' (JStr ''''), jst_audience = claim (jwt_body j) ''aud'' (JStr ''''),
           jst_subject = claim (jwt_body j) ''sub'' JNull, jst_clientId = claim (jwt_body j) ''client_id'' JNull,
           jst_issuedAt = claim (jwt_body j) ''iat'' (JNum ''0''), jst_expiresAt = claim (jwt_body j) ''exp'' (JNum ''0''),
           jst_roles = claim (jwt_body j) ''roles'' (JArr [])\<rparr>)"

text \<open>\<open>authorization.split(' ')[1]\<close>.\<close>

definition token_of :: "string \<Rightarrow> string" where
  "token_of authorization = split_on (CHR '' '') authorization ! 1"

text \<open>A missing signing key is thrown inside the \<open>try\<close>, so it ends in a status too.\<close>

definition thrown_jwt :: "js_error \<Rightarrow> Jwt" where
  "thrown_jwt e = \<lparr>jwt_message = Some (err_message e), jwt_body = None, jwt_parsedBody = None\<rparr>"

definition verifyJwt :: "'s authz_env \<Rightarrow> string option \<Rightarrow> 's authz_state \<Rightarrow> JwtStatus" where
  "verifyJwt env authorization s =
     (case authorization of
        None \<Rightarrow> newJwtStatus\<lparr>jst_isMissing := True, jst_isValid := False\<rparr>
      | Some a \<Rightarrow>
          if \<not> js_startsWith a ''Bearer '' \<and> \<not> js_startsWith a ''bearer ''
          then newJwtStatus\<lparr>jst_isMissing := True, jst_isValid := False\<rparr>
          else
            (case config_get (cfg_collection s) ''OAUTH_SIGNING_KEY'' of
               Inl e \<Rightarrow> toJwtStatus (Some (thrown_jwt e))
             | Inr signingKey \<Rightarrow>
                 (case ae_verify env (Some (JStr (token_of a))) signingKey (az_world s) of
                    Inr jwt \<Rightarrow> toJwtStatus jwt
                  | Inl err \<Rightarrow> toJwtStatus (Some err))))"

section \<open>TokenValidator\<close>

text \<open>\<open>roles.some(\<dots>)\<close>: the first role that holds ends the search; a role that is no text throws before it.\<close>

fun some_role :: "(string \<Rightarrow> bool) \<Rightarrow> json list \<Rightarrow> bool res" where
  "some_role p [] = Inr False"
| "some_role p (r # rs) =
     (case r of
        JStr s \<Rightarrow> if p (js_toLowerCase s) then Inr True else some_role p rs
      | _ \<Rightarrow> Inl (TypeError ''role.toLocaleLowerCase is not a function''))"

definition roles_some :: "(string \<Rightarrow> bool) \<Rightarrow> json \<Rightarrow> bool res" where
  "roles_some p roles = (case roles of JArr rs \<Rightarrow> some_role p rs | _ \<Rightarrow> Inl (TypeError ''roles.some is not a function''))"

definition hasAdminRole :: "json \<Rightarrow> bool res" where
  "hasAdminRole roles = roles_some (\<lambda>r. r = ''admin'') roles"

definition hasAdminOrVerifyOnlyRole :: "json \<Rightarrow> bool res" where
  "hasAdminOrVerifyOnlyRole roles = roles_some (\<lambda>r. r = ''verify-only'' \<or> r = ''admin'') roles"

datatype ValidateTokenResult =
  ValidToken (vt_roles: json) (vt_clientId: json) | InvalidToken (vt_errorResponse: AuthorizationResponse)

definition bearer_challenge :: "Headers option" where
  "bearer_challenge = Some [(''WWW-Authenticate'', ''Bearer'')]"

definition token_error :: "string \<Rightarrow> string \<Rightarrow> json" where
  "token_error error description = JObj [(''error'', JStr error), (''error_description'', JStr description)]"

definition token_refused :: "string \<Rightarrow> string \<Rightarrow> ValidateTokenResult" where
  "token_refused error description = InvalidToken
     \<lparr>ar_statusCode = 401, ar_headers = bearer_challenge, ar_body = Some (token_error error description)\<rparr>"

definition validateTokenForAccess :: "'s authz_env \<Rightarrow> string option \<Rightarrow> 's authz_state \<Rightarrow> ValidateTokenResult" where
  "validateTokenForAccess env authorizationHeader s =
     (let jwtStatus = verifyJwt env authorizationHeader s in
      if jst_isMissing jwtStatus then token_refused ''invalid_client'' ''Authorization token not provided''
      else if jst_isExpired jwtStatus then token_refused ''invalid_token'' ''Token is expired''
      else if jst_isValid jwtStatus
      then ValidToken (jst_roles jwtStatus)
             (if jst_clientId jwtStatus = JNull then JStr '''' else jst_clientId jwtStatus)
      else token_refused ''invalid_token'' ''Invalid authorization token'')"

definition validateAdminTokenForAccess ::
  "'s authz_env \<Rightarrow> string option \<Rightarrow> (AuthorizationResponse option, 's authz_state) act" where
  "validateAdminTokenForAccess env authorizationHeader = (\<lambda>s.
     case validateTokenForAccess env authorizationHeader s of
       InvalidToken errorResponse \<Rightarrow> (Inr (Some errorResponse), s)
     | ValidToken roles clientId \<Rightarrow>
         bnd (lift (hasAdminRole roles)) (\<lambda>admin.
           ret (if admin then None
                else Some \<lparr>ar_statusCode = 403, ar_headers = bearer_challenge, ar_body = None\<rparr>)) s)"


section \<open>Hard-coded credentials and hashing\<close>

record HardcodedCredential =
  hc_key :: string
  hc_secret :: string
  hc_vendor :: string
  hc_role :: "string list"

definition admin1 :: HardcodedCredential where
  "admin1 = \<lparr>hc_key = ''meadowlark_admin_key_1'', hc_secret = ''meadowlark_admin_secret_1'', hc_vendor = '''',
     hc_role = [''admin'']\<rparr>"

definition verifyOnly1 :: HardcodedCredential where
  "verifyOnly1 = \<lparr>hc_key = ''meadowlark_verify-only_key_1'', hc_secret = ''meadowlark_verify-only_secret_1'',
     hc_vendor = '''', hc_role = [''verify-only'']\<rparr>"

definition hex_value :: "char \<Rightarrow> nat option" where
  "hex_value c =
     (let n = of_char c :: nat in
      if 48 \<le> n \<and> n \<le> 57 then Some (n - 48)
      else if 97 \<le> n \<and> n \<le> 102 then Some (n - 87)
      else if 65 \<le> n \<and> n \<le> 70 then Some (n - 55) else None)"

text \<open>\<open>Buffer.from(s, 'hex')\<close> stops before the first pair that is not hexadecimal.\<close>

fun hex_decode :: "string \<Rightarrow> 8 word list" where
  "hex_decode (c # d # cs) =
     (case (hex_value c, hex_value d) of
        (Some h, Some l) \<Rightarrow> word_of_nat (16 * h + l) # hex_decode cs
      | _ \<Rightarrow> [])"
| "hex_decode _ = []"

definition hex_encode :: "8 word list \<Rightarrow> string" where
  "hex_encode bytes = concat (map (\<lambda>b. [hex_digit (unat b div 16), hex_digit (unat b mod 16)]) bytes)"

definition hashClientSecretBuffer :: "'s authz_env \<Rightarrow> 8 word list \<Rightarrow> string" where
  "hashClientSecretBuffer env clientSecretBytes = ae_shake256 env clientSecretBytes"

definition hashClientSecretHexString :: "'s authz_env \<Rightarrow> json option \<Rightarrow> string res" where
  "hashClientSecretHexString env clientSecretHexString =
     (case clientSecretHexString of
        Some (JStr s) \<Rightarrow> Inr (hashClientSecretBuffer env (hex_decode s))
      | _ \<Rightarrow> Inl (TypeError ''The first argument must be of type string''))"

section \<open>Introspection\<close>

text \<open>The flag for hard-coded credentials is read from the environment here, not from the configuration.\<close>

definition az_hardcoded :: "'s authz_env \<Rightarrow> (ConfigValue, 's authz_state) act" where
  "az_hardcoded env = (\<lambda>s.
     case getBooleanFromEnvironment (ae_process_env env) ''OAUTH_HARD_CODED_CREDENTIALS_ENABLED'' (Some False)
            (config_state.truncate s) of
       (r, c) \<Rightarrow> (r, s\<lparr>cfg_envCache := cfg_envCache c\<rparr>))"

definition isValidClientId :: "'s authz_env \<Rightarrow> json option \<Rightarrow> (bool, 's authz_state) act" where
  "isValidClientId env clientId =
     (if is_nullish clientId then ret False
      else
        bnd (az_hardcoded env) (\<lambda>enableHardCoded.
        if enableHardCoded = CBool True \<and> clientId \<in> {Some (JStr (hc_key admin1)), Some (JStr (hc_key verifyOnly1))}
        then ret True
        else
          bnd (with_store (\<lambda>store. asp_getAuthorizationClient store clientId)) (\<lambda>result.
          ret (case result of
                 GetAuthorizationClientResult.GET_SUCCESS _ _ active _ \<Rightarrow> js_truthy (Some active)
               | _ \<Rightarrow> False))))"

record IntrospectedToken =
  it_active :: bool
  it_client_id :: json
  it_sub :: json
  it_aud :: json
  it_iss :: json
  it_exp :: json
  it_iat :: json
  it_roles :: json

definition introspectedFrom :: "bool \<Rightarrow> json option \<Rightarrow> IntrospectedToken" where
  "introspectedFrom active body =
     \<lparr>it_active = active, it_client_id = claim body ''client_id'' (JStr ''''), it_sub = claim body ''sub'' (JStr ''''),
      it_aud = claim body ''aud'' (JStr ''''), it_iss = claim body ''iss'' (JStr ''''),
      it_exp = claim body ''exp'' (JNum ''0''), it_iat = claim body ''iat'' (JNum ''0''),
      it_roles = claim body ''roles'' (JArr [])\<rparr>"

text \<open>The introspection response: \<open>None\<close> is \<open>\{ isValid: false \}\<close>.  \<open>introspectVerified\<close> is the rest for a
  token whose signature is that of the service.\<close>

definition introspectVerified :: "'s authz_env \<Rightarrow> Jwt \<Rightarrow> (IntrospectedToken option, 's authz_state) act" where
  "introspectVerified env jwt =
     bnd (az_config ''OAUTH_TOKEN_ISSUER'') (\<lambda>issuer.
     if optional_prop (jwt_body jwt) ''iss'' \<noteq> Some (config_json issuer) then ret None
     else
       bnd (az_config ''OAUTH_TOKEN_AUDIENCE'') (\<lambda>audience.
       if optional_prop (jwt_body jwt) ''aud'' \<noteq> Some (config_json audience) then ret None
       else
         bnd (if jwt_message jwt \<noteq> Some ''Jwt is expired''
              then isValidClientId env (optional_prop (jwt_body jwt) ''client_id'') else ret False) (\<lambda>active.
         ret (Some (introspectedFrom active (jwt_body jwt))))))"

definition introspectBearerToken ::
  "'s authz_env \<Rightarrow> json option \<Rightarrow> (IntrospectedToken option, 's authz_state) act" where
  "introspectBearerToken env bearerToken = (\<lambda>s.
     case (case config_get (cfg_collection s) ''OAUTH_SIGNING_KEY'' of
             Inl e \<Rightarrow> Inl (thrown_jwt e)
           | Inr signingKey \<Rightarrow> ae_verify env bearerToken signingKey (az_world s)) of
       Inl err \<Rightarrow>
         (Inr (if jwt_message err \<noteq> Some ''Jwt is expired'' then None
               else Some (introspectedFrom False (jwt_parsedBody err))), s)
     | Inr None \<Rightarrow> (Inr None, s)
     | Inr (Some jwt) \<Rightarrow> introspectVerified env jwt s)"

section \<open>Body validation\<close>

definition schema_head :: "string \<Rightarrow> string \<Rightarrow> js_object" where
  "schema_head title description =
     [([CHR 0x24] @ ''schema'', JStr ''https://json-schema.org/draft/2020-12/schema''), (''title'', JStr title),
      (''description'', JStr description), (''type'', JStr ''object'')]"

definition string_property :: "string \<Rightarrow> json" where
  "string_property description = JObj [(''description'', JStr description), (''type'', JStr ''string'')]"

definition clientBodySchema :: json where
  "clientBodySchema = JObj (schema_head ''Create body'' ''The body of a POST to create a client'' @
     [(''properties'', JObj
        [(''clientName'', string_property ''Client name''),
         (''active'', JObj [(''description'', JStr ''Flag determining whether this client can be used to authenticate''),
            (''type'', JStr ''boolean'')]),
         (''roles'', JObj [(''type'', JStr ''array''),
            (''items'', JObj [(''description'', JStr ''List of roles''), (''type'', JStr ''string''),
               (''enum'', JArr (map JStr [''vendor'', ''host'', ''admin'', ''assessment'', ''verify-only'']))]),
            (''uniqueItems'', JBool True), (''minItems'', JNum ''1''), (''maxItems'', JNum ''2''),
            (''contains'', JObj [(''type'', JStr ''string''),
               (''enum'', JArr (map JStr [''vendor'', ''host'', ''admin'', ''verify-only'', ''assessment'']))])])]),
      (''required'', JArr [JStr ''clientName'', JStr ''roles'']), (''additionalProperties'', JBool False)])"

definition requestTokenBodySchema :: json where
  "requestTokenBodySchema = JObj (schema_head ''Request token body'' ''The body of a POST to request a Meadowlark OAuth token'' @
     [(''properties'', JObj
        [(''grant_type'', JObj [(''description'', JStr ''Grant type''), (''type'', JStr ''string''),
            (''enum'', JArr [JStr ''client_credentials''])]),
         (''client_id'', string_property ''Client id''), (''client_secret'', string_property ''Client secret'')]),
      (''required'', JArr [JStr ''grant_type'']),
      (''oneOf'', JArr
        [JObj [(''required'', JArr [JStr ''client_id'', JStr ''client_secret''])],
         JObj [(''allOf'', JArr
           [JObj [(''not'', JObj [(''required'', JArr [JStr ''client_id''])])],
            JObj [(''not'', JObj [(''required'', JArr [JStr ''client_secret''])])]])]]),
      (''additionalProperties'', JBool False)])"

definition verifyTokenBodySchema :: json where
  "verifyTokenBodySchema = JObj (schema_head ''Verify token body''
      ''The body of a POST to verify a Meadowlark OAuth token, as JSON'' @
     [(''properties'', JObj [(''token'', string_property ''The token to verify''),
        (''token_type_hint'', string_property ''Optional token_type_hint. Unused.'')]),
      (''required'', JArr [JStr ''token'']), (''additionalProperties'', JBool False)])"

record BodySuggestion =
  bs_current :: string
  bs_suggested :: string

datatype BodyValidation =
  ValidBody | InvalidBody (bv_failureMessage: json) (bv_suggestions: "BodySuggestion list")

definition schema_keys :: "json \<Rightarrow> string list" where
  "schema_keys schema =
     (case optional_prop (Some schema) ''properties'' of Some (JObj kvs) \<Rightarrow> map fst kvs | _ \<Rightarrow> [])"

definition validateBody :: "'s authz_env \<Rightarrow> json \<Rightarrow> json \<Rightarrow> BodyValidation" where
  "validateBody env body schema =
     (let (isValid, errors) = ae_ajv env schema body;
          additionalKeys = (case errors of None \<Rightarrow> []
            | Some es \<Rightarrow> map eo_additionalProperty (filter (\<lambda>key. eo_keyword key = ''additionalProperties'') es));
          suggestions = concat (map (\<lambda>current.
            case ae_didYouMean env current (schema_keys schema) of
              None \<Rightarrow> []
            | Some suggested \<Rightarrow>
                if suggested = '''' then [] else [\<lparr>bs_current = current, bs_suggested = suggested\<rparr>]) additionalKeys)
      in if isValid then ValidBody else InvalidBody (ae_betterAjvErrors env body schema errors) suggestions)"

text \<open>\<open>s.replace(current, suggested)\<close> with two texts: the first occurrence, wherever it is.\<close>

fun replace_first :: "string \<Rightarrow> string \<Rightarrow> string \<Rightarrow> string" where
  "replace_first current suggested s =
     (if js_startsWith s current then suggested @ drop (length current) s
      else (case s of [] \<Rightarrow> [] | c # cs \<Rightarrow> c # replace_first current suggested cs))"

declare replace_first.simps [simp del]

definition applySuggestions :: "'s authz_env \<Rightarrow> json \<Rightarrow> BodySuggestion list \<Rightarrow> json res" where
  "applySuggestions env body suggestions =
     ae_json_parse env (fold (\<lambda>sg text. replace_first (bs_current sg) (bs_suggested sg) text) suggestions (json_stringify body))"

text \<open>The four validators, and what all handlers do with them: a body that is refused is tried again with the
  suggestions, also when there are none.\<close>

definition validateCreateClientBody where "validateCreateClientBody env body = validateBody env body clientBodySchema"
definition validateRequestTokenBody where "validateRequestTokenBody env body = validateBody env body requestTokenBodySchema"
definition validateVerifyTokenBody where "validateVerifyTokenBody env body = validateBody env body verifyTokenBodySchema"
definition validateUpdateClientBody where "validateUpdateClientBody env body = validateBody env body clientBodySchema"

definition validateWithSuggestions ::
  "'s authz_env \<Rightarrow> (json \<Rightarrow> BodyValidation) \<Rightarrow> json \<Rightarrow> (json \<times> BodyValidation) res" where
  "validateWithSuggestions env validate body =
     (case validate body of
        ValidBody \<Rightarrow> Inr (body, ValidBody)
      | InvalidBody _ suggestions \<Rightarrow>
          res_bind (applySuggestions env body suggestions) (\<lambda>body'. Inr (body', validate body')))"

section \<open>RequestToken\<close>

definition config_number :: "ConfigValue \<Rightarrow> int option" where
  "config_number v = (case v of CNumber n \<Rightarrow> js_parseInt n | _ \<Rightarrow> None)"

definition createToken ::
  "'s authz_env \<Rightarrow> json \<Rightarrow> json \<Rightarrow> json \<Rightarrow> (string \<times> json, 's authz_state) act" where
  "createToken env clientId vendor roles =
     bnd (az_config ''OAUTH_TOKEN_ISSUER'') (\<lambda>iss.
     bnd (az_config ''OAUTH_TOKEN_AUDIENCE'') (\<lambda>aud.
     bnd (az_config ''OAUTH_SIGNING_KEY'') (\<lambda>signingKey.
     bnd (az_config ''OAUTH_EXPIRATION_MINUTES'') (\<lambda>expiresIn s.
     (ae_createJwt env [(''iss'', config_json iss), (''aud'', config_json aud), (''roles'', roles),
          (''client_id'', clientId), (''sub'', vendor)] signingKey
        (map_option (\<lambda>m. ae_date_now env (az_world s) + m * 60 * 1000) (config_number expiresIn)), s)))))"

definition tokenResponseFrom :: "string \<times> json \<Rightarrow> json" where
  "tokenResponseFrom = (\<lambda>(compact, exp). JObj [(''access_token'', JStr compact), (''token_type'', JStr ''bearer''),
     (''expires_in'', exp), (''refresh_token'', JStr ''not available'')])"

definition failure_message :: "string \<Rightarrow> json" where
  "failure_message m = JObj [(''message'', JStr m)]"

definition form_content :: "AuthorizationRequest \<Rightarrow> bool" where
  "form_content authorizationRequest =
     (case map_of (rq_headers authorizationRequest) ''content-type'' of
        None \<Rightarrow> False | Some c \<Rightarrow> js_startsWith c ''application/x-www-form-urlencoded'')"

text \<open>The body with the credentials of the header; \<open>Inl\<close> is the failure message.\<close>

definition with_credentials :: "json \<Rightarrow> string \<Rightarrow> string \<Rightarrow> json" where
  "with_credentials body clientId clientSecret =
     (case body of
        JObj kvs \<Rightarrow> JObj (AList.update ''client_secret'' (JStr clientSecret) (AList.update ''client_id'' (JStr clientId) kvs))
      | _ \<Rightarrow> body)"

definition headerCredentials :: "'s authz_env \<Rightarrow> AuthorizationRequest \<Rightarrow> json + string \<times> string" where
  "headerCredentials env authorizationRequest =
     (case extractAuthorizationHeader authorizationRequest of
        None \<Rightarrow> Inl (failure_message ''Missing authorization header'')
      | Some authorizationHeader \<Rightarrow>
          if \<not> js_startsWith authorizationHeader ''Basic '' then Inl (failure_message ''Invalid authorization header'')
          else
            (case split_on (CHR '':'') (ae_base64_binary env (drop 6 authorizationHeader)) of
               [clientId, clientSecret] \<Rightarrow> Inr (clientId, clientSecret)
             | _ \<Rightarrow> Inl (failure_message ''Invalid authorization header'')))"

definition parseRequestTokenBody :: "'s authz_env \<Rightarrow> AuthorizationRequest \<Rightarrow> (json + json) res" where
  "parseRequestTokenBody env authorizationRequest =
     (case rq_body authorizationRequest of
        None \<Rightarrow> Inr (Inl (failure_message ''Request body is empty''))
      | Some text \<Rightarrow>
          (case (if form_content authorizationRequest then ae_querystring_parse env text else ae_json_parse env text) of
             Inl error \<Rightarrow> Inr (Inl (failure_message (''Malformed body: '' @ err_message error)))
           | Inr parsedBody \<Rightarrow>
               res_bind (validateWithSuggestions env (validateRequestTokenBody env) parsedBody) (\<lambda>(body, validation).
               (case validation of
                  InvalidBody failureMessage _ \<Rightarrow> Inr (Inl failureMessage)
                | ValidBody \<Rightarrow>
                    res_bind (js_prop body ''client_id'') (\<lambda>clientId.
                    if \<not> is_nullish clientId then Inr (Inr body)
                    else
                      (case headerCredentials env authorizationRequest of
                         Inl failureMessage \<Rightarrow> Inr (Inl failureMessage)
                       | Inr (i, secret) \<Rightarrow> Inr (Inr (with_credentials body i secret))))))))"

definition issueToken ::
  "'s authz_env \<Rightarrow> json \<Rightarrow> json \<Rightarrow> json \<Rightarrow> (AuthorizationResponse, 's authz_state) act" where
  "issueToken env clientId vendor roles =
     bnd (createToken env clientId vendor roles) (\<lambda>token. ret (answer_body 200 (tokenResponseFrom token)))"

definition hardcoded_token :: "'s authz_env \<Rightarrow> HardcodedCredential \<Rightarrow> (AuthorizationResponse, 's authz_state) act" where
  "hardcoded_token env c = issueToken env (JStr (hc_key c)) (JStr (hc_vendor c)) (JArr (map JStr (hc_role c)))"

definition presents :: "json option \<Rightarrow> json option \<Rightarrow> HardcodedCredential \<Rightarrow> bool" where
  "presents clientId clientSecret c \<longleftrightarrow> clientId = Some (JStr (hc_key c)) \<and> clientSecret = Some (JStr (hc_secret c))"

text \<open>What is logged of the body when a client is refused: the last characters of the secret.\<close>

definition or_empty :: "json option \<Rightarrow> string" where
  "or_empty v = (if js_truthy v then js_opt_to_string v else '''')"

definition last_characters :: "'a list \<Rightarrow> 'a list" where
  "last_characters s = (if 4 \<le> length s then drop (length s - 4) s else drop (2 * length s - 4) s)"

definition maskClientSecret :: "json \<Rightarrow> string res" where
  "maskClientSecret body =
     res_bind (js_prop body ''client_secret'') (\<lambda>secret.
     res_bind (if is_nullish secret then Inr '''' else
       (case secret of
          Some (JStr s) \<Rightarrow> Inr (last_characters s)
        | Some (JArr xs) \<Rightarrow> Inr (js_to_string (JArr (last_characters xs)))
        | _ \<Rightarrow> Inl (TypeError ''body.client_secret.slice is not a function''))) (\<lambda>masked.
     res_bind (js_prop body ''grant_type'') (\<lambda>grantType.
     res_bind (js_prop body ''client_id'') (\<lambda>clientId.
     Inr (''grant_type: '' @ or_empty grantType @ '', client_id: '' @ or_empty clientId @ '', client_secret: ****'' @ masked)))))"

text \<open>The token for a client of the store.\<close>

definition clientToken ::
  "'s authz_env \<Rightarrow> json \<Rightarrow> json option \<Rightarrow> json option \<Rightarrow> GetAuthorizationClientResult \<Rightarrow>
   (AuthorizationResponse, 's authz_state) act" where
  "clientToken env body clientId clientSecret result =
     (let refuse = (\<lambda>n. bnd (lift (maskClientSecret body)) (\<lambda>_. ret (answer n))) in
      case result of
        GetAuthorizationClientResult.UNKNOWN_FAILURE \<Rightarrow> ret (answer 500)
      | GetAuthorizationClientResult.GET_FAILURE_NOT_EXISTS \<Rightarrow> refuse 401
      | GetAuthorizationClientResult.GET_SUCCESS clientSecretHashed clientName active roles \<Rightarrow>
          if \<not> js_truthy (Some active) then refuse 403
          else
            bnd (lift (hashClientSecretHexString env clientSecret)) (\<lambda>hash.
            if hash \<noteq> clientSecretHashed then refuse 401
            else issueToken env (case clientId of None \<Rightarrow> JNull | Some i \<Rightarrow> i) clientName roles))"

definition requestToken :: "'s authz_env \<Rightarrow> AuthorizationRequest \<Rightarrow> (AuthorizationResponse, 's authz_state) act" where
  "requestToken env authorizationRequest =
     try_catch
       (bnd (az_ensurePluginsLoaded env) (\<lambda>_.
        bnd (lift (parseRequestTokenBody env authorizationRequest)) (\<lambda>parsedRequest.
        case parsedRequest of
          Inl failureMessage \<Rightarrow> ret (answer_body 400 (JObj [(''error'', failureMessage)]))
        | Inr body \<Rightarrow>
            bnd (lift (js_prop body ''grant_type'')) (\<lambda>grantType.
            if grantType \<noteq> Some (JStr ''client_credentials'') then ret (answer 401)
            else
              bnd (lift (js_prop body ''client_id'')) (\<lambda>clientId.
              bnd (lift (js_prop body ''client_secret'')) (\<lambda>clientSecret.
              bnd (az_config ''OAUTH_HARD_CODED_CREDENTIALS_ENABLED'') (\<lambda>enableHardCoded.
              if \<not> js_truthy (Some (config_json enableHardCoded)) \<and>
                 clientId \<in> {Some (JStr (hc_key admin1)), Some (JStr (hc_key verifyOnly1))}
              then ret (answer 401)
              else if presents clientId clientSecret admin1 then hardcoded_token env admin1
              else if presents clientId clientSecret verifyOnly1 then hardcoded_token env verifyOnly1
              else
                bnd (with_store (\<lambda>store. asp_getAuthorizationClient store clientId))
                  (clientToken env body clientId clientSecret))))))))
       (\<lambda>_. ret (answer 500))"


section \<open>VerifyToken\<close>

definition parseVerifyTokenBody :: "'s authz_env \<Rightarrow> AuthorizationRequest \<Rightarrow> (json + json) res" where
  "parseVerifyTokenBody env authorizationRequest =
     (case rq_body authorizationRequest of
        None \<Rightarrow> Inr (Inl (JStr ''Request body is empty''))
      | Some text \<Rightarrow>
          if \<not> form_content authorizationRequest
          then Inr (Inl (JStr ''Requires application/x-www-form-urlencoded content type''))
          else
            (case ae_querystring_parse env text of
               Inl e \<Rightarrow> Inr (Inl (JObj [(''error'', JStr (''Malformed body: '' @ err_message e))]))
             | Inr parsedBody \<Rightarrow>
                 res_bind (validateWithSuggestions env (validateVerifyTokenBody env) parsedBody) (\<lambda>(body, validation).
                 Inr (case validation of
                        InvalidBody failureMessage _ \<Rightarrow> Inl failureMessage
                      | ValidBody \<Rightarrow> Inr body))))"

text \<open>\<open>===\<close>: objects and arrays are never the same object here.\<close>

definition strict_equal :: "json \<Rightarrow> json \<Rightarrow> bool" where
  "strict_equal a b \<longleftrightarrow> a = b \<and> (case a of JObj _ \<Rightarrow> False | JArr _ \<Rightarrow> False | _ \<Rightarrow> True)"

definition introspection_json :: "IntrospectedToken \<Rightarrow> json" where
  "introspection_json t = JObj [(''active'', JBool (it_active t)), (''client_id'', it_client_id t), (''sub'', it_sub t),
     (''aud'', it_aud t), (''iss'', it_iss t), (''exp'', it_exp t), (''iat'', it_iat t), (''roles'', it_roles t)]"


text \<open>The rest of the handler for a caller with a valid token.\<close>

definition verifyTokenFor ::
  "'s authz_env \<Rightarrow> AuthorizationRequest \<Rightarrow> json \<Rightarrow> json \<Rightarrow> (AuthorizationResponse, 's authz_state) act" where
  "verifyTokenFor env authorizationRequest roles clientId =
     bnd (lift (parseVerifyTokenBody env authorizationRequest)) (\<lambda>parsedRequest.
     case parsedRequest of
       Inl failureMessage \<Rightarrow> ret (answer_body 400 (JObj [(''error'', failureMessage)]))
     | Inr body \<Rightarrow>
         bnd (lift (js_prop body ''token'')) (\<lambda>token.
         bnd (introspectBearerToken env token) (\<lambda>introspectionResponse.
         case introspectionResponse of
           None \<Rightarrow> ret (answer_body 400 (error_body ''Invalid token provided for introspection''))
         | Some introspectedToken \<Rightarrow>
             bnd (if strict_equal clientId (it_client_id introspectedToken) then ret True
                  else lift (hasAdminOrVerifyOnlyRole roles)) (\<lambda>allowed.
             ret (if \<not> allowed then answer 401
                  else answer_body 200 (introspection_json introspectedToken))))))"

definition verifyToken :: "'s authz_env \<Rightarrow> AuthorizationRequest \<Rightarrow> (AuthorizationResponse, 's authz_state) act" where
  "verifyToken env authorizationRequest =
     try_catch
       (bnd (az_ensurePluginsLoaded env) (\<lambda>_ s.
        case validateTokenForAccess env (extractAuthorizationHeader authorizationRequest) s of
          InvalidToken errorResponse \<Rightarrow>
            (Inr \<lparr>ar_statusCode = 401, ar_headers = None, ar_body = ar_body errorResponse\<rparr>, s)
        | ValidToken roles clientId \<Rightarrow> verifyTokenFor env authorizationRequest roles clientId s))
       (\<lambda>_. ret (answer 500))"

section \<open>GetClient\<close>

text \<open>The client id of a path.  The expressions look for the first two segments that are not empty and are
  followed by a slash; \<open>None\<close> is no match.  Inside, \<open>None\<close> is a group that did not take part.\<close>

fun client_segments :: "string list \<Rightarrow> string list option" where
  "client_segments (a # b # c # rest) =
     (if a \<noteq> [] \<and> b \<noteq> [] then Some (c # rest) else client_segments (b # c # rest))"
| "client_segments _ = None"

fun reset_segments :: "string list \<Rightarrow> string option option" where
  "reset_segments (a # b # c # d # rest) =
     (if a \<noteq> [] \<and> b \<noteq> [] then Some (if c = [] then None else Some c) else reset_segments (b # c # d # rest))"
| "reset_segments _ = None"

definition clientIdFrom :: "string option option \<Rightarrow> string option" where
  "clientIdFrom match = (case match of None \<Rightarrow> Some '''' | Some clientId \<Rightarrow> clientId)"

definition client_path :: "string \<Rightarrow> string option" where
  "client_path path = clientIdFrom (map_option uuid_group (client_segments (tl (split_on (CHR ''/'') path))))"

definition reset_path :: "string \<Rightarrow> string option" where
  "reset_path path = clientIdFrom (reset_segments (tl (split_on (CHR ''/'') path)))"

definition missing_client_id :: AuthorizationResponse where
  "missing_client_id = answer_body 400 (error_body ''Missing client id'')"

text \<open>What the handlers for administrators share: the plugins, the check of the token, and the answer 500 for
  whatever throws.\<close>

definition as_admin ::
  "'s authz_env \<Rightarrow> AuthorizationRequest \<Rightarrow> (AuthorizationResponse, 's authz_state) act \<Rightarrow>
   (AuthorizationResponse, 's authz_state) act" where
  "as_admin env authorizationRequest handler =
     try_catch
       (bnd (az_ensurePluginsLoaded env) (\<lambda>_.
        bnd (validateAdminTokenForAccess env (extractAuthorizationHeader authorizationRequest)) (\<lambda>errorResponse.
        case errorResponse of Some e \<Rightarrow> ret e | None \<Rightarrow> handler)))
       (\<lambda>_. ret (answer 500))"

definition client_json :: "GetClientBody \<Rightarrow> json" where
  "client_json c = JObj [(''clientId'', JStr (gcb_clientId c)), (''clientName'', gcb_clientName c),
     (''active'', gcb_active c), (''roles'', gcb_roles c)]"

definition getClients :: "'s authz_env \<Rightarrow> AuthorizationRequest \<Rightarrow> (AuthorizationResponse, 's authz_state) act" where
  "getClients env authorizationRequest = as_admin env authorizationRequest
     (bnd (with_store asp_getAllAuthorizationClients) (\<lambda>fetchResult.
      ret (case fetchResult of
             GetAllAuthorizationClientsResult.GET_SUCCESS clients \<Rightarrow> answer_body 200 (JArr (map client_json clients))
           | GetAllAuthorizationClientsResult.GET_FAILURE_NOT_EXISTS \<Rightarrow> answer 404
           | GetAllAuthorizationClientsResult.UNKNOWN_FAILURE \<Rightarrow> answer 500)))"

definition text_id :: "string option \<Rightarrow> json option" where
  "text_id clientId = map_option JStr clientId"

definition getClientById :: "'s authz_env \<Rightarrow> AuthorizationRequest \<Rightarrow> (AuthorizationResponse, 's authz_state) act" where
  "getClientById env authorizationRequest = as_admin env authorizationRequest
     (let clientId = client_path (rq_path authorizationRequest) in
      if clientId = Some '''' then ret missing_client_id
      else
        bnd (with_store (\<lambda>store. asp_getAuthorizationClient store (text_id clientId))) (\<lambda>fetchResult.
        ret (case fetchResult of
               GetAuthorizationClientResult.GET_SUCCESS _ clientName active roles \<Rightarrow>
                 answer_body 200 (JObj ([(''active'', active)] @
                   (case clientId of None \<Rightarrow> [] | Some i \<Rightarrow> [(''clientId'', JStr i)]) @
                   [(''clientName'', clientName), (''roles'', roles)]))
             | GetAuthorizationClientResult.GET_FAILURE_NOT_EXISTS \<Rightarrow> answer 404
             | GetAuthorizationClientResult.UNKNOWN_FAILURE \<Rightarrow> answer 500)))"


section \<open>CreateClient\<close>

definition not_provided :: AuthorizationResponse where
  "not_provided = answer_body 401 (token_error ''invalid_client'' ''Authorization token not provided'')"

definition created_client :: "CreateAuthorizationClientRequest \<Rightarrow> string \<Rightarrow> string \<Rightarrow> AuthorizationResponse" where
  "created_client request clientSecretAsHex httpRequestPath =
     \<lparr>ar_statusCode = 201,
      ar_headers = Some [(''Location'', httpRequestPath @ ''/'' @ car_clientId request)],
      ar_body = Some (JObj ([(''client_id'', JStr (car_clientId request)), (''client_secret'', JStr clientSecretAsHex)] @
        (case car_clientName request of None \<Rightarrow> [] | Some n \<Rightarrow> [(''clientName'', n)]) @
        (case car_roles request of None \<Rightarrow> [] | Some r \<Rightarrow> [(''roles'', r)])))\<rparr>"

text \<open>\<open>request.roles.length !== 1 || request.roles[0] !== 'admin'\<close>.\<close>

definition admin_only :: "json option \<Rightarrow> bool res" where
  "admin_only roles =
     (if is_nullish roles then Inl (TypeError ''Cannot read properties of undefined (reading length)'')
      else Inr (roles = Some (JArr [JStr ''admin''])))"

definition tryCreateBootstrapAdmin ::
  "CreateAuthorizationClientRequest \<Rightarrow> string \<Rightarrow> string \<Rightarrow> (AuthorizationResponse, 's authz_state) act" where
  "tryCreateBootstrapAdmin request clientSecretAsHex httpRequestPath =
     try_catch
       (bnd (lift (admin_only (car_roles request))) (\<lambda>admin.
        if \<not> admin then ret not_provided
        else
          bnd (with_store (\<lambda>store. asp_tryCreateBootstrapAuthorizationAdmin store request)) (\<lambda>response.
          ret (case response of
                 TryCreateBootstrapAuthorizationAdminResult.CREATE_FAILURE_ALREADY_EXISTS \<Rightarrow> not_provided
               | TryCreateBootstrapAuthorizationAdminResult.CREATE_SUCCESS \<Rightarrow>
                   created_client request clientSecretAsHex httpRequestPath
               | TryCreateBootstrapAuthorizationAdminResult.UNKNOWN_FAILURE \<Rightarrow> answer 500))))
       (\<lambda>_. ret (answer 500))"

text \<open>The body of a create or update request: parsed, validated and, if need be, corrected.  \<open>Inl\<close> is the answer
  for a body that is refused.\<close>

definition clientBody ::
  "'s authz_env \<Rightarrow> (json \<Rightarrow> BodyValidation) \<Rightarrow> AuthorizationRequest \<Rightarrow> (AuthorizationResponse + json) res" where
  "clientBody env validate authorizationRequest =
     (case rq_body authorizationRequest of
        None \<Rightarrow> Inr (Inl (answer_body 400 (error_body ''Missing body'')))
      | Some text \<Rightarrow>
          (case ae_json_parse env text of
             Inl exception \<Rightarrow> Inr (Inl (answer_body 400 (error_body (''Malformed body: '' @ err_message exception))))
           | Inr parsedBody \<Rightarrow>
               res_bind (validateWithSuggestions env validate parsedBody) (\<lambda>(body, validation).
               Inr (case validation of
                      InvalidBody failureMessage _ \<Rightarrow> Inl (answer_body 400 (JObj [(''error'', failureMessage)]))
                    | ValidBody \<Rightarrow> Inr body))))"

text \<open>The properties that \<open>\{ ...body \}\<close> copies, of the three that matter.\<close>

definition object_entries :: "json \<Rightarrow> js_object" where
  "object_entries body = (case body of JObj kvs \<Rightarrow> kvs | _ \<Rightarrow> [])"

definition createRequestFrom :: "json \<Rightarrow> string \<Rightarrow> string \<Rightarrow> CreateAuthorizationClientRequest res" where
  "createRequestFrom body clientId clientSecretHashed =
     res_bind (js_prop body ''active'') (\<lambda>active.
     Inr \<lparr>car_clientId = clientId, car_clientSecretHashed = clientSecretHashed,
          car_clientName = map_of (object_entries body) ''clientName'',
          car_active = (if is_nullish active then JBool True else the active),
          car_roles = map_of (object_entries body) ''roles''\<rparr>)"

definition createClient :: "'s authz_env \<Rightarrow> AuthorizationRequest \<Rightarrow> (AuthorizationResponse, 's authz_state) act" where
  "createClient env authorizationRequest =
     (let authorizationHeader = extractAuthorizationHeader authorizationRequest;
          bootstrapAdminRequest = (authorizationHeader = None \<or> authorizationHeader = Some '''')
      in try_catch
       (bnd (az_ensurePluginsLoaded env) (\<lambda>_.
        bnd (if bootstrapAdminRequest then ret None else validateAdminTokenForAccess env authorizationHeader) (\<lambda>tokenError.
        case tokenError of Some e \<Rightarrow> ret e
        | None \<Rightarrow>
            bnd (lift (clientBody env (validateCreateClientBody env) authorizationRequest)) (\<lambda>parsed.
            case parsed of Inl refused \<Rightarrow> ret refused
            | Inr body \<Rightarrow>
                bnd (on_az_world (ae_uuidv4 env)) (\<lambda>clientId.
                bnd (on_az_world (ae_randomBytes env)) (\<lambda>clientSecretBuffer.
                bnd (lift (createRequestFrom body clientId (hashClientSecretBuffer env clientSecretBuffer))) (\<lambda>request.
                if bootstrapAdminRequest
                then tryCreateBootstrapAdmin request (hex_encode clientSecretBuffer) (rq_path authorizationRequest)
                else
                  bnd (with_store (\<lambda>store. asp_createAuthorizationClient store request)) (\<lambda>response.
                  ret (case response of
                         CreateAuthorizationClientResult.CREATE_SUCCESS \<Rightarrow>
                           created_client request (hex_encode clientSecretBuffer) (rq_path authorizationRequest)
                       | CreateAuthorizationClientResult.UNKNOWN_FAILURE \<Rightarrow> answer 500)))))))))
       (\<lambda>_. ret (answer 500)))"

section \<open>UpdateClient and ResetClientSecret\<close>

definition updateClient :: "'s authz_env \<Rightarrow> AuthorizationRequest \<Rightarrow> (AuthorizationResponse, 's authz_state) act" where
  "updateClient env authorizationRequest = as_admin env authorizationRequest
     (let clientId = client_path (rq_path authorizationRequest) in
      if clientId = Some '''' then ret missing_client_id
      else
        bnd (lift (clientBody env (validateUpdateClientBody env) authorizationRequest)) (\<lambda>parsed.
        case parsed of Inl refused \<Rightarrow> ret refused
        | Inr body \<Rightarrow>
            bnd (with_store (\<lambda>store. asp_updateAuthorizationClient store
                  \<lparr>uar_clientId = clientId, uar_clientName = map_of (object_entries body) ''clientName'',
                   uar_active = map_of (object_entries body) ''active'', uar_roles = map_of (object_entries body) ''roles''\<rparr>)) (\<lambda>response.
            ret (case response of
                   UpdateAuthorizationClientResult.UPDATE_SUCCESS \<Rightarrow> answer 204
                 | UpdateAuthorizationClientResult.UPDATE_FAILED_NOT_EXISTS \<Rightarrow> answer 404
                 | UpdateAuthorizationClientResult.UNKNOWN_FAILURE \<Rightarrow> answer 500))))"

definition reset_json :: "string option \<Rightarrow> 8 word list \<Rightarrow> json" where
  "reset_json clientId clientSecretBuffer = JObj
     ((case clientId of None \<Rightarrow> [] | Some i \<Rightarrow> [(''client_id'', JStr i)]) @
      [(''client_secret'', JStr (hex_encode clientSecretBuffer))])"

definition resetAuthorizationClientSecret ::
  "'s authz_env \<Rightarrow> AuthorizationRequest \<Rightarrow> (AuthorizationResponse, 's authz_state) act" where
  "resetAuthorizationClientSecret env authorizationRequest = as_admin env authorizationRequest
     (bnd (on_az_world (ae_randomBytes env)) (\<lambda>clientSecretBuffer.
      (let clientId = reset_path (rq_path authorizationRequest) in
       if clientId = Some '''' then ret missing_client_id
       else
         bnd (with_store (\<lambda>store. asp_resetAuthorizationClientSecret store
               \<lparr>rar_clientId = clientId, rar_clientSecretHashed = hashClientSecretBuffer env clientSecretBuffer\<rparr>)) (\<lambda>response.
         ret (case response of
                ResetAuthorizationClientSecretResult.RESET_SUCCESS \<Rightarrow> answer_body 201 (reset_json clientId clientSecretBuffer)
              | ResetAuthorizationClientSecretResult.RESET_FAILED_NOT_EXISTS \<Rightarrow> answer 404
              | ResetAuthorizationClientSecretResult.UNKNOWN_FAILURE \<Rightarrow> answer 500)))))"


section \<open>What an authorization store promises\<close>

text \<open>A registered client: the hash of its secret, its name, its active flag and its roles.\<close>

type_synonym registered_client = "string \<times> json \<times> json \<times> json"

definition requested_client :: "CreateAuthorizationClientRequest \<Rightarrow> registered_client \<Rightarrow> bool" where
  "requested_client request c \<longleftrightarrow> (\<exists>name active roles. c = (car_clientSecretHashed request, name, active, roles) \<and>
     (car_active request \<noteq> JNull \<longrightarrow> active = car_active request) \<and>
     (\<forall>n. car_clientName request = Some n \<longrightarrow> name = n) \<and> (\<forall>ro. car_roles request = Some ro \<longrightarrow> roles = ro))"

text \<open>\<open>ok\<close> is the invariant of the store, \<open>registered\<close> are the clients by their ids, \<open>admins\<close> the ids of bootstrap administrators.  An operation
  that fails or throws may have been carried out or not; it never does anything else.  A client id that is no
  text is a query of its own, of which nothing is said but that what it finds is registered.\<close>

locale authorization_store =
  fixes plugin :: "'s AuthorizationStorePlugin"
    and ok :: "'s \<Rightarrow> bool"
    and registered :: "'s \<Rightarrow> string \<Rightarrow> registered_client option"
    and admins :: "'s \<Rightarrow> string set"
  assumes get_law: "ok w \<Longrightarrow> asp_getAuthorizationClient plugin i w = (r, w') \<Longrightarrow>
      ok w' \<and> registered w' = registered w \<and> admins w' = admins w \<and>
      (\<forall>h n a ro. r = Inr (GetAuthorizationClientResult.GET_SUCCESS h n a ro) \<longrightarrow>
         (\<exists>c. (\<forall>j. i = Some (JStr j) \<longrightarrow> c = j) \<and> registered w c = Some (h, n, a, ro)))"
    and all_law: "ok w \<Longrightarrow> asp_getAllAuthorizationClients plugin w = (ra, w') \<Longrightarrow>
      ok w' \<and> registered w' = registered w \<and> admins w' = admins w"
    and create_law: "ok w \<Longrightarrow> asp_createAuthorizationClient plugin request w = (rc, w') \<Longrightarrow>
      ok w' \<and> admins w' \<subseteq> admins w \<and>
      (registered w' = registered w \<or>
       (\<exists>c. requested_client request c \<and> registered w' = (registered w)(car_clientId request \<mapsto> c)))"
    and bootstrap_law: "ok w \<Longrightarrow> asp_tryCreateBootstrapAuthorizationAdmin plugin request w = (rb, w') \<Longrightarrow>
      ok w' \<and> (registered w' = registered w \<and> admins w' = admins w \<or>
      admins w = {} \<and> admins w' = {car_clientId request} \<and>
      (\<exists>c. requested_client request c \<and> registered w' = (registered w)(car_clientId request \<mapsto> c)))"
    and update_law: "ok w \<Longrightarrow> asp_updateAuthorizationClient plugin urequest w = (ru, w') \<Longrightarrow>
      ok w' \<and> admins w' = admins w \<and>
      (registered w' = registered w \<or>
       (\<exists>c h n a ro n' a' ro'. uar_clientId urequest = Some c \<and> registered w c = Some (h, n, a, ro) \<and>
          registered w' = (registered w)(c \<mapsto> (h, n', a', ro'))))"
    and reset_law: "ok w \<Longrightarrow> asp_resetAuthorizationClientSecret plugin rrequest w = (rr, w') \<Longrightarrow>
      ok w' \<and> admins w' = admins w \<and>
      (registered w' = registered w \<or>
       (\<exists>c h n a ro. rar_clientId rrequest = Some c \<and> registered w c = Some (h, n, a, ro) \<and>
          registered w' = (registered w)(c \<mapsto> (rar_clientSecretHashed rrequest, n, a, ro))))"

interpretation no_authorization_store: authorization_store NoAuthorizationStorePlugin ok registered admins
  by unfold_locales (auto simp: NoAuthorizationStorePlugin_def act_simps)

end
