(* ===== verification/AuthzProperties.thy ===== *)
theory AuthzProperties
  imports AuthzServer
begin

text \<open>
  The handlers of the OAuth server over any store that keeps the contract \<open>authorization_store\<close>: the locale
  \<open>authz_service\<close> lifts invariants of the registered clients through each handler, and the properties
  say who gets a token, who may see one, who manages clients, and how the first administrator comes to be.
\<close>

section \<open>Lemmas: tokens\<close>

definition admin_token :: "'s authz_env \<Rightarrow> AuthorizationRequest \<Rightarrow> 's authz_state \<Rightarrow> bool" where
  "admin_token env r s \<longleftrightarrow>
     (\<exists>roles clientId. validateTokenForAccess env (extractAuthorizationHeader r) s = ValidToken roles clientId \<and>
        hasAdminRole roles = Inr True)"

lemma az_ensurePluginsLoaded_runs:
  obtains s' where "az_ensurePluginsLoaded env s = (Inr (), s')" "az_world s' = az_world s"
    "cfg_collection s' = cfg_collection s" "cfg_envCache s' = cfg_envCache s"
    "az_store s' = az_store s \<or> (\<exists>name p. ae_import env name = Inr p \<and> az_store s' = Some p)"
proof (cases "az_pluginsLoaded s")
  case True
  then show ?thesis using that by (simp add: az_ensurePluginsLoaded_def act_simps)
next
  case False
  let ?t = "s\<lparr>az_pluginsLoaded := True\<rparr>"
  obtain r s' where run: "loadAuthorizationStore env ?t = (r, s')" by (cases "loadAuthorizationStore env ?t")
  have "az_ensurePluginsLoaded env s = (Inr (), s')"
    using False run by (cases r) (simp_all add: az_ensurePluginsLoaded_def az_loadAllPlugins_def act_simps)
  moreover have "az_world s' = az_world s \<and> cfg_collection s' = cfg_collection s \<and> cfg_envCache s' = cfg_envCache s \<and>
      (az_store s' = az_store s \<or> (\<exists>name p. ae_import env name = Inr p \<and> az_store s' = Some p))"
    using run by (auto simp: loadAuthorizationStore_def az_config_def act_simps split: if_splits sum.splits)
  ultimately show ?thesis using that by blast
qed

lemma validateTokenForAccess_cong:
  "az_world s' = az_world s \<Longrightarrow> cfg_collection s' = cfg_collection s \<Longrightarrow>
   validateTokenForAccess env h s' = validateTokenForAccess env h s"
  by (simp add: validateTokenForAccess_def verifyJwt_def split: option.split sum.split)

lemma validateAdmin_cases:
  assumes "az_world s' = az_world s" "cfg_collection s' = cfg_collection s"
  shows "if admin_token env r s
    then validateAdminTokenForAccess env (extractAuthorizationHeader r) s' = (Inr None, s')
    else (\<exists>e. validateAdminTokenForAccess env (extractAuthorizationHeader r) s' = (Inl e, s')) \<or>
      (\<exists>resp. validateAdminTokenForAccess env (extractAuthorizationHeader r) s' = (Inr (Some resp), s') \<and>
         ar_statusCode resp \<in> {401, 403})"
proof (cases "validateTokenForAccess env (extractAuthorizationHeader r) s")
  case (InvalidToken e)
  then have "ar_statusCode e = 401"
    by (auto simp: validateTokenForAccess_def token_refused_def Let_def split: if_splits)
  then show ?thesis using InvalidToken validateTokenForAccess_cong [OF assms]
    by (simp add: validateAdminTokenForAccess_def admin_token_def)
next
  case (ValidToken roles clientId)
  then show ?thesis using validateTokenForAccess_cong [OF assms]
    by (cases "hasAdminRole roles") (simp_all add: validateAdminTokenForAccess_def admin_token_def act_simps)
qed

lemma as_admin_denied:
  assumes "\<not> admin_token env r s"
  shows "\<exists>resp s'. as_admin env r handler s = (Inr resp, s') \<and> ar_statusCode resp \<in> {401, 403, 500} \<and>
    az_world s' = az_world s"
proof -
  obtain s1 where s1: "az_ensurePluginsLoaded env s = (Inr (), s1)" "az_world s1 = az_world s"
    "cfg_collection s1 = cfg_collection s" by (rule az_ensurePluginsLoaded_runs [of env s])
  show ?thesis
    using validateAdmin_cases [OF s1(2,3), of env r] assms s1(1,2)
    by (auto simp: as_admin_def act_simps answer_def)
qed

section \<open>Invariants of the service\<close>

text \<open>A store that keeps the contract is loaded (or none), \<open>K\<close> holds of the registered clients and the bootstrap
  administrators, and the settings are \<open>C\<close>.\<close>

definition az_inv ::
  "('s \<Rightarrow> bool) \<Rightarrow> ('s \<Rightarrow> string \<Rightarrow> registered_client option) \<Rightarrow> ('s \<Rightarrow> string set) \<Rightarrow>
   ((string \<Rightarrow> registered_client option) \<Rightarrow> string set \<Rightarrow> bool) \<Rightarrow> (string \<times> ConfigValue) list \<Rightarrow>
   's authz_state \<Rightarrow> bool" where
  "az_inv ok registered admins K C s \<longleftrightarrow> ok (az_world s) \<and>
     authorization_store (getAuthorizationStore s) ok registered admins \<and>
     K (registered (az_world s)) (admins (az_world s)) \<and> cfg_collection s = C"

lemma hardcoded_frame:
  assumes "az_hardcoded env s = (r, s')"
  shows "az_world s' = az_world s" "az_store s' = az_store s" "cfg_collection s' = cfg_collection s"
  using assms by (auto simp: az_hardcoded_def split: prod.splits)

text \<open>What a client that was found has to do with the registered ones.\<close>

definition found_in where
  "found_in R i result \<longleftrightarrow> (\<forall>h n a ro. result = GetAuthorizationClientResult.GET_SUCCESS h n a ro \<longrightarrow>
     (\<exists>c. (\<forall>j. i = Some (JStr j) \<longrightarrow> c = j) \<and> R c = Some (h, n, a, ro)))"

locale authz_service =
  fixes env :: "'s authz_env"
    and ok :: "'s \<Rightarrow> bool"
    and registered :: "'s \<Rightarrow> string \<Rightarrow> registered_client option"
    and admins :: "'s \<Rightarrow> string set"
  assumes imported: "ae_import env name = Inr p \<Longrightarrow> authorization_store p ok registered admins"
    and uuid_frame: "preserves (\<lambda>w. (ok w, registered w, admins w)) (ae_uuidv4 env)"
    and random_frame: "preserves (\<lambda>w. (ok w, registered w, admins w)) (ae_randomBytes env)"
begin

abbreviation "holding \<equiv> az_inv ok registered admins"

lemma ensure [triple_intros]: "triple (holding K C) (az_ensurePluginsLoaded env) (\<lambda>_. True)"
proof (rule tripleI)
  fix s r s'
  assume s: "holding K C s" and run: "az_ensurePluginsLoaded env s = (r, s')"
  obtain t where t: "az_ensurePluginsLoaded env s = (Inr (), t)" "az_world t = az_world s"
    "cfg_collection t = cfg_collection s" "cfg_envCache t = cfg_envCache s"
    "az_store t = az_store s \<or> (\<exists>name p. ae_import env name = Inr p \<and> az_store t = Some p)"
    by (rule az_ensurePluginsLoaded_runs)
  have "authorization_store (getAuthorizationStore t) ok registered admins"
    using t(5) s imported by (auto simp: az_inv_def getAuthorizationStore_def)
  then show "holding K C s' \<and> (\<forall>x. r = Inr x \<longrightarrow> True)" using s t run by (auto simp: az_inv_def)
qed

lemma settings [triple_intros]: "triple (holding K C) (az_config key) (\<lambda>v. config_get C key = Inr v)"
  by (rule tripleI) (auto simp: az_config_def az_inv_def)

lemma hardcoded [triple_intros]: "triple (holding K C) (az_hardcoded env) (\<lambda>_. True)"
  by (rule tripleI) (auto simp: az_inv_def getAuthorizationStore_def dest: hardcoded_frame)

text \<open>An operation of the store, by what it does to the registered clients.\<close>

lemma store_rule:
  assumes "\<And>plugin w r w'. authorization_store plugin ok registered admins \<Longrightarrow> ok w \<Longrightarrow> K (registered w) (admins w) \<Longrightarrow>
      f plugin w = (r, w') \<Longrightarrow> ok w' \<and> K (registered w') (admins w') \<and> (\<forall>x. r = Inr x \<longrightarrow> Q x)"
  shows "triple (holding K C) (with_store f) Q"
proof (rule tripleI)
  fix s r s'
  assume s: "holding K C s" and run: "with_store f s = (r, s')"
  obtain w' where w': "f (getAuthorizationStore s) (az_world s) = (r, w')" "s' = s\<lparr>az_world := w'\<rparr>"
    using run by (auto simp: with_store_def on_az_world_def split: prod.splits)
  then show "holding K C s' \<and> (\<forall>x. r = Inr x \<longrightarrow> Q x)"
    using assms [OF _ _ _ w'(1)] s by (simp add: az_inv_def getAuthorizationStore_def)
qed

lemma world_rule:
  assumes "preserves (\<lambda>w. (ok w, registered w, admins w)) m"
  shows "triple (holding K C) (on_az_world m) (\<lambda>_. True)"
proof (rule tripleI)
  fix s r s'
  assume s: "holding K C s" and run: "on_az_world m s = (r, s')"
  then show "holding K C s' \<and> (\<forall>x. r = Inr x \<longrightarrow> True)"
    using preserves_run [OF assms] by (auto simp: az_inv_def on_az_world_def getAuthorizationStore_def split: prod.splits)
qed

lemmas uuid [triple_intros] = world_rule [OF uuid_frame]
lemmas random_bytes [triple_intros] = world_rule [OF random_frame]

lemma get_all [triple_intros]: "triple (holding K C) (with_store asp_getAllAuthorizationClients) (\<lambda>_. True)"
  by (rule store_rule) (auto dest: authorization_store.all_law)

lemma get_one:
  assumes "\<And>R' A'. K R' A' \<Longrightarrow> R' = R"
  shows "triple (holding K C) (with_store (\<lambda>store. asp_getAuthorizationClient store i)) (found_in R i)"
proof (rule store_rule)
  fix plugin w r w'
  assume a: "authorization_store plugin ok registered admins" "ok w" "K (registered w) (admins w)"
    "asp_getAuthorizationClient plugin i w = (r, w')"
  show "ok w' \<and> K (registered w') (admins w') \<and> (\<forall>x. r = Inr x \<longrightarrow> found_in R i x)"
    using authorization_store.get_law [OF a(1,2,4)] a(3) assms [OF a(3)] by (simp add: found_in_def)
qed

lemma get_any [triple_intros]: "triple (holding K C) (with_store (\<lambda>store. asp_getAuthorizationClient store i)) (\<lambda>_. True)"
  by (rule store_rule) (auto dest: authorization_store.get_law)

end

section \<open>Tokens\<close>

text \<open>A 200 answer with a token that is created for a client, a vendor and roles.\<close>

definition token_for :: "'s authz_env \<Rightarrow> json \<Rightarrow> json \<Rightarrow> json \<Rightarrow> AuthorizationResponse \<Rightarrow> bool" where
  "token_for env clientId vendor roles resp \<longleftrightarrow>
     (\<exists>iss aud key exp token. ae_createJwt env [(''iss'', iss), (''aud'', aud), (''roles'', roles),
          (''client_id'', clientId), (''sub'', vendor)] key exp = Inr token \<and>
        resp = answer_body 200 (tokenResponseFrom token))"

text \<open>The client of the request: one of the two hard-coded ones, when they are enabled, with its secret, or a
  registered one that is active and the hash of whose secret is that of the secret sent.\<close>

definition credentials_of :: "'s authz_env \<Rightarrow> (string \<times> ConfigValue) list \<Rightarrow>
    (string \<Rightarrow> registered_client option) \<Rightarrow> json option \<Rightarrow> json option \<Rightarrow> json \<Rightarrow> json \<Rightarrow> json \<Rightarrow> bool" where
  "credentials_of env C R clientId secret client vendor roles \<longleftrightarrow>
     (\<exists>c \<in> {admin1, verifyOnly1}. presents clientId secret c \<and> client = JStr (hc_key c) \<and> vendor = JStr (hc_vendor c) \<and>
        roles = JArr (map JStr (hc_role c)) \<and>
        (\<exists>v. config_get C ''OAUTH_HARD_CODED_CREDENTIALS_ENABLED'' = Inr v \<and> js_truthy (Some (config_json v)))) \<or>
     (\<exists>c h a. R c = Some (h, vendor, a, roles) \<and> js_truthy (Some a) \<and> hashClientSecretHexString env secret = Inr h \<and>
        (\<forall>j. clientId = Some (JStr j) \<longrightarrow> c = j) \<and> client = (case clientId of None \<Rightarrow> JNull | Some i \<Rightarrow> i))"

definition token_answer :: "'s authz_env \<Rightarrow> (string \<times> ConfigValue) list \<Rightarrow> (string \<Rightarrow> registered_client option) \<Rightarrow>
    AuthorizationRequest \<Rightarrow> AuthorizationResponse \<Rightarrow> bool" where
  "token_answer env C R r resp \<longleftrightarrow> (ar_statusCode resp = 200 \<longrightarrow>
     (\<exists>body clientId secret client vendor roles. parseRequestTokenBody env r = Inr (Inr body) \<and>
        js_prop body ''client_id'' = Inr clientId \<and> js_prop body ''client_secret'' = Inr secret \<and>
        credentials_of env C R clientId secret client vendor roles \<and> token_for env client vendor roles resp))"

lemma triple_bnd_lift: "(\<And>x. r = Inr x \<Longrightarrow> triple I (f x) Q) \<Longrightarrow> triple I (bnd (lift r) f) Q"
  by (cases r) (simp_all add: triple_throw)

lemma answer_simps [simp]:
  "ar_statusCode (answer n) = n" "ar_statusCode (answer_body n b) = n"
  by (simp_all add: answer_def answer_body_def)

lemma token_answer_other [simp]: "ar_statusCode resp \<noteq> 200 \<Longrightarrow> token_answer env C R r resp"
  by (simp add: token_answer_def)

context authz_service
begin

lemma issue: "triple (az_inv ok registered admins K C) (issueToken env client vendor roles) (token_for env client vendor roles)"
proof -
  have create: "triple (az_inv ok registered admins K C) (createToken env client vendor roles)
      (\<lambda>token. token_for env client vendor roles (answer_body 200 (tokenResponseFrom token)))"
    unfolding createToken_def
    by (intro triple_bnd [OF settings]) (rule tripleI, fastforce simp: token_for_def)
  show ?thesis unfolding issueToken_def by (rule triple_bnd [OF create]) (rule triple_ret)
qed

lemma requestToken_triple:
  assumes "\<And>R' A'. K R' A' \<Longrightarrow> R' = R"
  shows "triple (az_inv ok registered admins K C) (requestToken env r) (token_answer env C R r)"
proof -
  note get = get_one [OF assms]
  have client: "triple (az_inv ok registered admins K C) (clientToken env body clientId secret result) (token_answer env C R r)"
    if "found_in R clientId result" "parseRequestTokenBody env r = Inr (Inr body)"
      "js_prop body ''client_id'' = Inr clientId" "js_prop body ''client_secret'' = Inr secret"
    for body clientId secret result
  proof (cases result)
    case (GET_SUCCESS h n a ro)
    have issued: "triple (az_inv ok registered admins K C)
        (issueToken env (case clientId of None \<Rightarrow> JNull | Some i \<Rightarrow> i) n ro) (token_answer env C R r)"
      if "js_truthy (Some a)" "hashClientSecretHexString env secret = Inr h"
    proof -
      obtain c where "\<forall>j. clientId = Some (JStr j) \<longrightarrow> c = j" "R c = Some (h, n, a, ro)"
        using \<open>found_in R clientId result\<close> GET_SUCCESS by (auto simp: found_in_def)
      then have "credentials_of env C R clientId secret (case clientId of None \<Rightarrow> JNull | Some i \<Rightarrow> i) n ro"
        using that unfolding credentials_of_def by blast
      then show ?thesis
        using \<open>parseRequestTokenBody env r = _\<close> \<open>js_prop body ''client_id'' = _\<close> \<open>js_prop body ''client_secret'' = _\<close>
        by (intro triple_conseq [OF issue]) (auto simp: token_answer_def)
    qed
    show ?thesis unfolding clientToken_def Let_def GET_SUCCESS
      by (auto intro!: triple_if triple_bnd_lift triple_ret issued)
  qed (auto simp: clientToken_def intro!: triple_bnd_lift triple_ret)
  have hard: "triple (az_inv ok registered admins K C) (hardcoded_token env c) (token_answer env C R r)"
    if "c \<in> {admin1, verifyOnly1}" "presents clientId secret c" "parseRequestTokenBody env r = Inr (Inr body)"
      "js_prop body ''client_id'' = Inr clientId" "js_prop body ''client_secret'' = Inr secret"
      "config_get C ''OAUTH_HARD_CODED_CREDENTIALS_ENABLED'' = Inr v"
      "\<not> (\<not> js_truthy (Some (config_json v)) \<and>
          clientId \<in> {Some (JStr (hc_key admin1)), Some (JStr (hc_key verifyOnly1))})"
    for c body clientId secret v
  proof -
    have "credentials_of env C R clientId secret (JStr (hc_key c)) (JStr (hc_vendor c)) (JArr (map JStr (hc_role c)))"
      using that unfolding credentials_of_def presents_def by blast
    then show ?thesis unfolding hardcoded_token_def using that(3-5)
      by (intro triple_conseq [OF issue]) (auto simp: token_answer_def)
  qed
  show ?thesis
    unfolding requestToken_def
    by (intro triple_try_catch triple_bnd [OF ensure] triple_bnd_lift triple_sum triple_bnd [OF settings] triple_if
          triple_bnd [OF get] triple_ret token_answer_other)
      (auto intro: client hard)
qed

end

section \<open>Introspection\<close>

text \<open>A client that introspection accepts: one of the two hard-coded ones, when the flag that the introspection reads
  enables them, or a registered one that is active.\<close>

definition hardcoded_enabled :: "'s authz_env \<Rightarrow> 's authz_state \<Rightarrow> bool" where
  "hardcoded_enabled env s \<longleftrightarrow>
     fst (getBooleanFromEnvironment (ae_process_env env) ''OAUTH_HARD_CODED_CREDENTIALS_ENABLED'' (Some False)
       (config_state.truncate s)) = Inr (CBool True)"

definition usable_client :: "'s authz_env \<Rightarrow> (string \<Rightarrow> registered_client option) \<Rightarrow> 's authz_state \<Rightarrow> json option \<Rightarrow> bool" where
  "usable_client env R s clientId \<longleftrightarrow>
     clientId \<in> {Some (JStr (hc_key admin1)), Some (JStr (hc_key verifyOnly1))} \<and> hardcoded_enabled env s \<or>
     (\<exists>c h n a ro. R c = Some (h, n, a, ro) \<and> js_truthy (Some a) \<and> (\<forall>j. clientId = Some (JStr j) \<longrightarrow> c = j))"

lemma found_usable:
  "found_in R clientId (GetAuthorizationClientResult.GET_SUCCESS h n a ro) \<Longrightarrow> js_truthy (Some a) \<Longrightarrow>
   usable_client env R s clientId"
  unfolding found_in_def usable_client_def by blast

text \<open>What makes a token active in a state: it verifies under the signing key, is not expired, has the issuer and the
  audience of the settings, and its client is usable.\<close>

definition active_token :: "'s authz_env \<Rightarrow> (string \<Rightarrow> registered_client option) \<Rightarrow> 's authz_state \<Rightarrow>
    json option \<Rightarrow> bool" where
  "active_token env R s token \<longleftrightarrow>
     (\<exists>key jwt iss aud. config_get (cfg_collection s) ''OAUTH_SIGNING_KEY'' = Inr key \<and>
        ae_verify env token key (az_world s) = Inr (Some jwt) \<and> jwt_message jwt \<noteq> Some ''Jwt is expired'' \<and>
        config_get (cfg_collection s) ''OAUTH_TOKEN_ISSUER'' = Inr iss \<and>
        optional_prop (jwt_body jwt) ''iss'' = Some (config_json iss) \<and>
        config_get (cfg_collection s) ''OAUTH_TOKEN_AUDIENCE'' = Inr aud \<and>
        optional_prop (jwt_body jwt) ''aud'' = Some (config_json aud) \<and>
        usable_client env R s (optional_prop (jwt_body jwt) ''client_id''))"

lemma hardcoded_enabled_cong: "cfg_collection s' = cfg_collection s \<Longrightarrow> cfg_envCache s' = cfg_envCache s \<Longrightarrow>
   hardcoded_enabled env s' = hardcoded_enabled env s"
  by (simp add: hardcoded_enabled_def config_state.defs)

lemma active_token_cong: "cfg_collection s' = cfg_collection s \<Longrightarrow> cfg_envCache s' = cfg_envCache s \<Longrightarrow>
   az_world s' = az_world s \<Longrightarrow> active_token env R s' token = active_token env R s token"
  by (simp add: active_token_def usable_client_def hardcoded_enabled_cong [of s' s])

definition verified_answer :: "'s authz_env \<Rightarrow> (string \<Rightarrow> registered_client option) \<Rightarrow> 's authz_state \<Rightarrow>
    AuthorizationRequest \<Rightarrow> AuthorizationResponse \<Rightarrow> bool" where
  "verified_answer env R s r resp \<longleftrightarrow>
     (\<exists>roles clientId body token it.
        validateTokenForAccess env (extractAuthorizationHeader r) s = ValidToken roles clientId \<and>
        parseVerifyTokenBody env r = Inr (Inr body) \<and> js_prop body ''token'' = Inr token \<and>
        resp = answer_body 200 (introspection_json it) \<and>
        (strict_equal clientId (it_client_id it) \<or> hasAdminOrVerifyOnlyRole roles = Inr True) \<and>
        (it_active it \<longrightarrow> active_token env R s token))"

context authz_service
begin

lemma valid_client_triple: "triple (az_inv ok registered admins K C) (isValidClientId env clientId) (\<lambda>_. True)"
  unfolding isValidClientId_def
  by (intro triple_if triple_bnd [OF hardcoded] triple_bnd [OF get_any] triple_ret) simp_all

lemma validClient:
  assumes s: "az_inv ok registered admins (\<lambda>R' A. R' = R) C s" and run: "isValidClientId env clientId s = (Inr True, s')"
  shows "usable_client env R s clientId"
proof (cases "clientId \<in> {Some (JStr (hc_key admin1)), Some (JStr (hc_key verifyOnly1))} \<and> hardcoded_enabled env s")
  case True
  then show ?thesis by (simp add: usable_client_def)
next
  case False
  obtain b t where flag: "az_hardcoded env s = (b, t)" by (cases "az_hardcoded env s")
  have t: "az_inv ok registered admins (\<lambda>R' A. R' = R) C t" using tripleD [OF hardcoded s flag] by blast
  have b: "hardcoded_enabled env s \<longleftrightarrow> b = Inr (CBool True)"
    using flag by (auto simp: az_hardcoded_def hardcoded_enabled_def split: prod.splits)
  obtain h n a ro s2 where "with_store (\<lambda>store. asp_getAuthorizationClient store clientId) t =
      (Inr (GetAuthorizationClientResult.GET_SUCCESS h n a ro), s2)" "js_truthy (Some a)"
    using run False flag b
    by (auto simp: isValidClientId_def act_simps split: if_splits sum.splits prod.splits GetAuthorizationClientResult.splits)
  moreover from tripleD [OF get_one [of _ R] t this(1)]
  have "found_in R clientId (GetAuthorizationClientResult.GET_SUCCESS h n a ro)" by simp
  ultimately show ?thesis by (intro found_usable)
qed

lemma introspect_triple: "triple (az_inv ok registered admins K C) (introspectBearerToken env token) (\<lambda>_. True)"
proof -
  have "triple (az_inv ok registered admins K C) (introspectVerified env jwt) (\<lambda>_. True)" for jwt
    unfolding introspectVerified_def
    by (intro triple_bnd [OF settings] triple_if triple_bnd [where P = "\<lambda>_. True"] valid_client_triple triple_ret TrueI)
  then show ?thesis
    unfolding introspectBearerToken_def
    by (intro tripleI) (auto split: sum.splits option.splits dest: tripleD)
qed

lemma introspect:
  assumes s: "az_inv ok registered admins (\<lambda>R' A. R' = R) C s"
    and run: "introspectBearerToken env token s = (Inr (Some it), s')" "it_active it"
  shows "active_token env R s token"
proof -
  have C: "cfg_collection s = C" using s by (simp add: az_inv_def)
  obtain key jwt where v: "config_get C ''OAUTH_SIGNING_KEY'' = Inr key" "ae_verify env token key (az_world s) = Inr (Some jwt)"
    and "introspectVerified env jwt s = (Inr (Some it), s')"
    using run C by (auto simp: introspectBearerToken_def introspectedFrom_def split: sum.splits option.splits if_splits)
  then obtain iss aud t where "config_get C ''OAUTH_TOKEN_ISSUER'' = Inr iss" "config_get C ''OAUTH_TOKEN_AUDIENCE'' = Inr aud"
    "optional_prop (jwt_body jwt) ''iss'' = Some (config_json iss)" "optional_prop (jwt_body jwt) ''aud'' = Some (config_json aud)"
    "jwt_message jwt \<noteq> Some ''Jwt is expired''" "isValidClientId env (optional_prop (jwt_body jwt) ''client_id'') s = (Inr True, t)"
    using run(2) C
    by (auto simp: introspectVerified_def az_config_def act_simps introspectedFrom_def split: sum.splits prod.splits if_splits)
  moreover from validClient [OF s this(6)] have "usable_client env R s (optional_prop (jwt_body jwt) ''client_id'')" .
  ultimately show ?thesis using v C unfolding active_token_def by blast
qed

lemma verifyTokenFor_triple: "triple (az_inv ok registered admins K C) (verifyTokenFor env r roles clientId) (\<lambda>_. True)"
  unfolding verifyTokenFor_def
  by (intro triple_bnd_lift triple_sum triple_bnd [where P = "\<lambda>_. True"] introspect_triple triple_option triple_if
      triple_lift triple_ret TrueI)

lemma verifyToken_triple: "triple (az_inv ok registered admins K C) (verifyToken env r) (\<lambda>_. True)"
  unfolding verifyToken_def
  by (rule triple_try_catch, rule triple_bnd [OF ensure], rule tripleI)
    (auto split: ValidateTokenResult.splits dest: tripleD [OF verifyTokenFor_triple] intro: triple_ret)

lemma verifyTokenFor_answer:
  assumes s: "az_inv ok registered admins (\<lambda>R' A. R' = R) C s"
    and valid: "validateTokenForAccess env (extractAuthorizationHeader r) s = ValidToken roles clientId"
    and run: "verifyTokenFor env r roles clientId s = (Inr resp, s')" "ar_statusCode resp = 200"
  shows "verified_answer env R s r resp"
proof -
  obtain body token it t where "parseVerifyTokenBody env r = Inr (Inr body)" "js_prop body ''token'' = Inr token"
    "introspectBearerToken env token s = (Inr (Some it), t)" "resp = answer_body 200 (introspection_json it)"
    "strict_equal clientId (it_client_id it) \<or> hasAdminOrVerifyOnlyRole roles = Inr True"
    using run by (auto simp: verifyTokenFor_def act_simps split: sum.splits prod.splits option.splits if_splits)
  with introspect [OF s this(3)] valid show ?thesis unfolding verified_answer_def by blast
qed

lemma verifyToken_answer:
  assumes s: "az_inv ok registered admins (\<lambda>R' A. R' = R) C s"
    and run: "verifyToken env r s = (Inr resp, s')" "ar_statusCode resp = 200"
  shows "verified_answer env R s r resp"
proof -
  obtain t where ensured: "az_ensurePluginsLoaded env s = (Inr (), t)" and same: "az_world t = az_world s"
      "cfg_collection t = cfg_collection s" "cfg_envCache t = cfg_envCache s"
    by (rule az_ensurePluginsLoaded_runs)
  have t: "az_inv ok registered admins (\<lambda>R' A. R' = R) C t" using tripleD [OF ensure s ensured] by blast
  obtain roles clientId where valid: "validateTokenForAccess env (extractAuthorizationHeader r) t = ValidToken roles clientId"
    and "verifyTokenFor env r roles clientId t = (Inr resp, s')"
    using run ensured by (auto simp: verifyToken_def act_simps split: ValidateTokenResult.splits sum.splits prod.splits)
  from verifyTokenFor_answer [OF t this run(2)] show ?thesis
    by (simp add: verified_answer_def active_token_cong [OF same(2,3,1)] validateTokenForAccess_cong [OF same(1,2)])
qed

end

section \<open>Clients\<close>

context authz_service
begin

lemma admin_check [triple_intros]: "triple (az_inv ok registered admins K C) (validateAdminTokenForAccess env h) (\<lambda>_. True)"
  by (rule tripleI) (auto simp: validateAdminTokenForAccess_def act_simps split: ValidateTokenResult.splits sum.splits prod.splits)

lemma as_admin_triple:
  assumes "triple (az_inv ok registered admins K C) handler (\<lambda>_. True)"
  shows "triple (az_inv ok registered admins K C) (as_admin env r handler) (\<lambda>_. True)"
  unfolding as_admin_def
  by (intro triple_try_catch triple_bnd [OF ensure] triple_bnd [OF admin_check] triple_option triple_ret assms) simp_all

lemma getClients_triple: "triple (az_inv ok registered admins K C) (getClients env r) (\<lambda>_. True)"
  unfolding getClients_def by (intro as_admin_triple triple_bnd [OF get_all] triple_ret) simp

lemma getClientById_triple: "triple (az_inv ok registered admins K C) (getClientById env r) (\<lambda>_. True)"
  unfolding getClientById_def Let_def
  by (intro as_admin_triple triple_if triple_bnd [OF get_any] triple_ret) simp_all

lemma updateClient_triple:
  assumes "\<And>c h n a ro n' a' ro' R A. K R A \<Longrightarrow> R c = Some (h, n, a, ro) \<Longrightarrow> K (R(c \<mapsto> (h, n', a', ro'))) A"
  shows "triple (az_inv ok registered admins K C) (updateClient env r) (\<lambda>_. True)"
proof -
  have update: "triple (az_inv ok registered admins K C) (with_store (\<lambda>store. asp_updateAuthorizationClient store request)) (\<lambda>_. True)"
    for request
  proof (rule store_rule)
    fix plugin w x w'
    assume "authorization_store plugin ok registered admins" "ok w" "K (registered w) (admins w)"
      "asp_updateAuthorizationClient plugin request w = (x, w')"
    then show "ok w' \<and> K (registered w') (admins w') \<and> (\<forall>y. x = Inr y \<longrightarrow> True)"
      using authorization_store.update_law [of plugin ok registered admins w request x w'] assms by auto
  qed
  show ?thesis unfolding updateClient_def Let_def
    by (intro as_admin_triple triple_if triple_bnd_lift triple_sum triple_bnd [OF update] triple_ret) simp_all
qed

lemma reset_triple:
  assumes "\<And>c h n a ro h' R A. K R A \<Longrightarrow> R c = Some (h, n, a, ro) \<Longrightarrow> K (R(c \<mapsto> (h', n, a, ro))) A"
  shows "triple (az_inv ok registered admins K C) (resetAuthorizationClientSecret env r) (\<lambda>_. True)"
proof -
  have reset: "triple (az_inv ok registered admins K C) (with_store (\<lambda>store. asp_resetAuthorizationClientSecret store request)) (\<lambda>_. True)"
    for request
  proof (rule store_rule)
    fix plugin w x w'
    assume "authorization_store plugin ok registered admins" "ok w" "K (registered w) (admins w)"
      "asp_resetAuthorizationClientSecret plugin request w = (x, w')"
    then show "ok w' \<and> K (registered w') (admins w') \<and> (\<forall>y. x = Inr y \<longrightarrow> True)"
      using authorization_store.reset_law [of plugin ok registered admins w request x w'] assms by auto
  qed
  show ?thesis unfolding resetAuthorizationClientSecret_def Let_def
    by (intro as_admin_triple triple_bnd [OF random_bytes] triple_if triple_bnd [OF reset] triple_ret) simp_all
qed

text \<open>A bootstrap administrator is registered with the role admin, and only when there is none.\<close>

lemma bootstrap_triple:
  assumes "\<And>R i h n a. K R {} \<Longrightarrow> K (R(i \<mapsto> (h, n, a, JArr [JStr ''admin'']))) {i}"
  shows "triple (az_inv ok registered admins K C) (tryCreateBootstrapAdmin request secret path) (\<lambda>_. True)"
proof -
  have create: "triple (az_inv ok registered admins K C)
      (with_store (\<lambda>store. asp_tryCreateBootstrapAuthorizationAdmin store request)) (\<lambda>_. True)"
    if "admin_only (car_roles request) = Inr True"
  proof (rule store_rule)
    fix plugin w x w'
    assume a: "authorization_store plugin ok registered admins" "ok w" "K (registered w) (admins w)"
      "asp_tryCreateBootstrapAuthorizationAdmin plugin request w = (x, w')"
    have "car_roles request = Some (JArr [JStr ''admin''])" using that by (simp add: admin_only_def split: if_splits)
    then show "ok w' \<and> K (registered w') (admins w') \<and> (\<forall>y. x = Inr y \<longrightarrow> True)"
      using authorization_store.bootstrap_law [OF a(1,2,4)] a(3) assms by (auto simp: requested_client_def)
  qed
  show ?thesis unfolding tryCreateBootstrapAdmin_def
    by (intro triple_try_catch triple_bnd_lift triple_if triple_bnd [OF create] triple_ret) simp_all
qed

lemma createClient_triple:
  assumes "\<And>R i h n a. K R {} \<Longrightarrow> K (R(i \<mapsto> (h, n, a, JArr [JStr ''admin'']))) {i}"
    and "\<And>R A A' i c. K R A \<Longrightarrow> A' \<subseteq> A \<Longrightarrow> K R A' \<and> K (R(i \<mapsto> c)) A'"
  shows "triple (az_inv ok registered admins K C) (createClient env r) (\<lambda>_. True)"
proof -
  have create: "triple (az_inv ok registered admins K C) (with_store (\<lambda>store. asp_createAuthorizationClient store request)) (\<lambda>_. True)"
    for request
  proof (rule store_rule)
    fix plugin w x w'
    assume "authorization_store plugin ok registered admins" "ok w" "K (registered w) (admins w)"
      "asp_createAuthorizationClient plugin request w = (x, w')"
    then show "ok w' \<and> K (registered w') (admins w') \<and> (\<forall>y. x = Inr y \<longrightarrow> True)"
      using authorization_store.create_law [of plugin ok registered admins w request x w'] assms(2) by auto
  qed
  have check: "triple (az_inv ok registered admins K C)
      (if b then ret None else validateAdminTokenForAccess env h) (\<lambda>_. True)" for b h
    by (intro triple_if triple_ret admin_check) simp
  show ?thesis unfolding createClient_def Let_def
    by (intro triple_try_catch triple_bnd [OF ensure] triple_bnd [OF check] triple_option triple_bnd_lift triple_sum
        triple_bnd [OF uuid] triple_bnd [OF random_bytes] triple_if bootstrap_triple triple_bnd [OF create] triple_ret assms(1))
      simp_all
qed

text \<open>Without an authorization header no other operation of the store is reached than the bootstrap one.\<close>

lemma createClient_open_triple:
  assumes "\<And>R i h n a. K R {} \<Longrightarrow> K (R(i \<mapsto> (h, n, a, JArr [JStr ''admin'']))) {i}"
    and "extractAuthorizationHeader r \<in> {None, Some ''''}"
  shows "triple (az_inv ok registered admins K C) (createClient env r) (\<lambda>_. True)"
proof -
  have "extractAuthorizationHeader r = None \<or> extractAuthorizationHeader r = Some ''''" using assms(2) by blast
  then have b: "(extractAuthorizationHeader r = None \<or> extractAuthorizationHeader r = Some '''') = True" by simp
  show ?thesis unfolding createClient_def Let_def b if_True
    by (intro triple_try_catch triple_bnd [OF ensure] triple_bnd [OF triple_ret [of "\<lambda>_. True"]] triple_option triple_bnd_lift
        triple_sum triple_bnd [OF uuid] triple_bnd [OF random_bytes] bootstrap_triple triple_ret assms(1))
      simp_all
qed

end

section \<open>Runs of the service\<close>

definition az_handlers :: "'s authz_env \<Rightarrow> (AuthorizationRequest \<Rightarrow> (AuthorizationResponse, 's authz_state) act) set" where
  "az_handlers env = {requestToken env, verifyToken env, getClients env, getClientById env, createClient env,
     updateClient env, resetAuthorizationClientSecret env}"

text \<open>Requests are served one after the other; \<open>P\<close> restricts the requests that come.\<close>

inductive az_run :: "'s authz_env \<Rightarrow> (AuthorizationRequest \<Rightarrow> 's authz_state \<Rightarrow> bool) \<Rightarrow> 's authz_state \<Rightarrow> 's authz_state \<Rightarrow> bool"
  for env P s where
    az_start: "az_run env P s s"
  | az_serve: "az_run env P s t \<Longrightarrow> P r t \<Longrightarrow> f \<in> az_handlers env \<Longrightarrow> f r t = (resp, t') \<Longrightarrow> az_run env P s t'"

lemma az_run_invariant:
  assumes "az_run env P s t" "I s"
    and "\<And>f r t resp t'. I t \<Longrightarrow> P r t \<Longrightarrow> f \<in> az_handlers env \<Longrightarrow> f r t = (resp, t') \<Longrightarrow> I t'"
  shows "I t"
  using assms(1,2) by (induction rule: az_run.induct) (blast intro: assms(3))+

lemma handlers_without_admin:
  assumes "\<not> admin_token env r s"
    and "f \<in> {getClients env, getClientById env, updateClient env, resetAuthorizationClientSecret env} \<or>
         f = createClient env \<and> extractAuthorizationHeader r \<notin> {None, Some ''''}"
  shows "\<exists>resp s'. f r s = (Inr resp, s') \<and> ar_statusCode resp \<in> {401, 403, 500} \<and> az_world s' = az_world s"
proof (cases "f = createClient env \<and> extractAuthorizationHeader r \<notin> {None, Some ''''}")
  case True
  obtain s1 where s1: "az_ensurePluginsLoaded env s = (Inr (), s1)" "az_world s1 = az_world s"
    "cfg_collection s1 = cfg_collection s" by (rule az_ensurePluginsLoaded_runs [of env s])
  show ?thesis
    using True validateAdmin_cases [OF s1(2,3), of env r] assms(1) s1(1,2)
    by (auto simp: createClient_def Let_def act_simps answer_def)
next
  case False
  then have "\<exists>handler. f r = as_admin env r handler"
    using assms(2) by (auto simp: getClients_def getClientById_def updateClient_def resetAuthorizationClientSecret_def)
  then show ?thesis using as_admin_denied [OF assms(1)] by auto
qed

text \<open>Nobody is registered, or only the bootstrap administrator is, with the role admin.\<close>

definition only_bootstrap :: "(string \<Rightarrow> registered_client option) \<Rightarrow> string set \<Rightarrow> bool" where
  "only_bootstrap R A \<longleftrightarrow> R = Map.empty \<and> A = {} \<or>
     (\<exists>c h n a. R = [c \<mapsto> (h, n, a, JArr [JStr ''admin''])] \<and> A = {c})"

context authz_service
begin

lemma handler_keeps:
  assumes "f \<in> az_handlers env"
    and "\<And>R i h n a. K R {} \<Longrightarrow> K (R(i \<mapsto> (h, n, a, JArr [JStr ''admin'']))) {i}"
    and "\<And>R A A' i c. K R A \<Longrightarrow> A' \<subseteq> A \<Longrightarrow> K R A' \<and> K (R(i \<mapsto> c)) A'"
  shows "triple (az_inv ok registered admins K C) (f r) (\<lambda>_. True)"
proof -
  have pinned: "triple (az_inv ok registered admins K C) (g r) (\<lambda>_. True)"
    if "\<And>R. triple (az_inv ok registered admins (\<lambda>R' A'. K R' A' \<and> R' = R) C) (g r) (Q R)" for g Q
  proof (rule tripleI)
    fix s x s'
    assume "az_inv ok registered admins K C s" and run: "g r s = (x, s')"
    then have "az_inv ok registered admins (\<lambda>R' A'. K R' A' \<and> R' = registered (az_world s)) C s" by (simp add: az_inv_def)
    from tripleD [OF that this run] show "az_inv ok registered admins K C s' \<and> (\<forall>y. x = Inr y \<longrightarrow> True)"
      unfolding az_inv_def by blast
  qed
  have tokens: "triple (az_inv ok registered admins K C) (requestToken env r) (\<lambda>_. True)"
    "triple (az_inv ok registered admins K C) (verifyToken env r) (\<lambda>_. True)"
    by (rule pinned, rule requestToken_triple, simp) (rule verifyToken_triple)
  have writes: "triple (az_inv ok registered admins K C) (updateClient env r) (\<lambda>_. True)"
    "triple (az_inv ok registered admins K C) (resetAuthorizationClientSecret env r) (\<lambda>_. True)"
    by (rule updateClient_triple, use assms(3) in blast) (rule reset_triple, use assms(3) in blast)
  have create: "triple (az_inv ok registered admins K C) (createClient env r) (\<lambda>_. True)"
    by (rule createClient_triple [of K]) (use assms(2,3) in blast)+
  show ?thesis
    using assms(1) tokens writes create getClients_triple getClientById_triple unfolding az_handlers_def by blast
qed

lemma handler_without_admin_keeps:
  assumes "f \<in> az_handlers env" "\<not> admin_token env r s" "az_inv ok registered admins only_bootstrap C s" "f r s = (x, s')"
  shows "az_inv ok registered admins only_bootstrap C s'"
proof -
  let ?J = "az_inv ok registered admins only_bootstrap C"
  have keep: "az_inv ok registered admins (\<lambda>_ _. True) C s'"
    using tripleD [OF handler_keeps [OF assms(1)] _ assms(4), of "\<lambda>_ _. True" C] assms(3) by (simp add: az_inv_def)
  have boot: "only_bootstrap R {} \<Longrightarrow> only_bootstrap (R(i \<mapsto> (h, n, a, JArr [JStr ''admin'']))) {i}" for R i h n a
    by (auto simp: only_bootstrap_def)
  have pinned: "?J s'"
    if "triple (az_inv ok registered admins (\<lambda>R' A'. only_bootstrap R' A' \<and> R' = registered (az_world s)) C) (f r) Q" for Q
    using tripleD [OF that _ assms(4)] assms(3) unfolding az_inv_def by blast
  consider "f = requestToken env" | "f = verifyToken env"
    | "f = createClient env" "extractAuthorizationHeader r \<in> {None, Some ''''}"
    | "f \<in> {getClients env, getClientById env, updateClient env, resetAuthorizationClientSecret env} \<or>
       f = createClient env \<and> extractAuthorizationHeader r \<notin> {None, Some ''''}"
    using assms(1) unfolding az_handlers_def by blast
  then show ?thesis
  proof cases
    case 1
    show ?thesis by (rule pinned, unfold 1, rule requestToken_triple) simp
  next
    case 2
    show ?thesis by (rule pinned, unfold 2, rule verifyToken_triple)
  next
    case 3
    have "triple ?J (createClient env r) (\<lambda>_. True)" by (rule createClient_open_triple [OF _ 3(2)]) (rule boot)
    from tripleD [OF this assms(3) assms(4) [unfolded 3(1)]] show ?thesis by simp
  next
    case 4
    have "az_world s' = az_world s" using handlers_without_admin [OF assms(2) 4] assms(4) by auto
    then show ?thesis using keep assms(3) by (simp add: az_inv_def)
  qed
qed

end

end
