(* ===== verification/PluginInterface.thy ===== *)
theory PluginInterface
  imports Requests
begin

text \<open>
  The plugin interface (\<open>meadowlark-core/src/plugin\<close>): the document store and query handler
  interfaces with their null implementations, the listeners (\<open>Publish\<close>, \<open>Subscribe\<close>), and the
  loader.  The locale \<open>document_store\<close> states what a document store promises.  Emittery's
  \<open>emit\<close> runs every listener of an event and rejects when one of them does.  Dynamic \<open>import\<close> is a parameter.
\<close>

section \<open>Interfaces\<close>

record 's DocumentStorePlugin =
  dsp_upsertDocument :: "UpsertRequest \<Rightarrow> (UpsertResult, 's) act"
  dsp_getDocumentById :: "GetRequest \<Rightarrow> (GetResult, 's) act"
  dsp_updateDocumentById :: "UpdateRequest \<Rightarrow> (UpdateResult, 's) act"
  dsp_deleteDocumentById :: "DeleteRequest \<Rightarrow> (DeleteResult, 's) act"
  dsp_securityMiddleware :: "'s middleware"
  dsp_closeConnection :: "(unit, 's) act"

record 's QueryHandlerPlugin =
  qhp_queryDocuments :: "QueryRequest \<Rightarrow> (QueryResult, 's) act"
  qhp_closeConnection :: "(unit, 's) act"

definition NoDocumentStorePlugin :: "'s DocumentStorePlugin" where
  "NoDocumentStorePlugin = \<lparr>
     dsp_upsertDocument = (\<lambda>_. ret (UpsertResult.UNKNOWN_FAILURE None)),
     dsp_getDocumentById = (\<lambda>_. ret \<lparr>gr_response = GetResponse.UNKNOWN_FAILURE, gr_documentUuid = '''',
        gr_edfiDoc = JObj [], gr_lastModifiedDate = 0, gr_failureMessage = None\<rparr>),
     dsp_updateDocumentById = (\<lambda>_. ret (UpdateResult.UNKNOWN_FAILURE None)),
     dsp_deleteDocumentById = (\<lambda>_. ret (DeleteResult.UNKNOWN_FAILURE '''')),
     dsp_securityMiddleware = (\<lambda>middlewareModel. ret middlewareModel),
     dsp_closeConnection = ret ()\<rparr>"

definition NoQueryHandlerPlugin :: "'s QueryHandlerPlugin" where
  "NoQueryHandlerPlugin = \<lparr>
     qhp_queryDocuments = (\<lambda>_. ret \<lparr>qr_response = QueryResponse.UNKNOWN_FAILURE, qr_documents = [],
        qr_failureMessage = None, qr_totalCount = None\<rparr>),
     qhp_closeConnection = ret ()\<rparr>"

section \<open>Listeners\<close>

record 's emitter =
  on_beforeUpsertDocument :: "(UpsertRequest \<Rightarrow> (unit, 's) act) list"
  on_afterUpsertDocument :: "(UpsertRequest \<times> UpsertResult \<Rightarrow> (unit, 's) act) list"
  on_beforeGetDocumentById :: "(GetRequest \<Rightarrow> (unit, 's) act) list"
  on_afterGetDocumentById :: "(GetRequest \<times> GetResult \<Rightarrow> (unit, 's) act) list"
  on_beforeUpdateDocumentById :: "(UpdateRequest \<Rightarrow> (unit, 's) act) list"
  on_afterUpdateDocumentById :: "(UpdateRequest \<times> UpdateResult \<Rightarrow> (unit, 's) act) list"
  on_beforeDeleteDocumentById :: "(DeleteRequest \<Rightarrow> (unit, 's) act) list"
  on_afterDeleteDocumentById :: "(DeleteRequest \<times> DeleteResult \<Rightarrow> (unit, 's) act) list"
  on_beforeQueryDocuments :: "(QueryRequest \<Rightarrow> (unit, 's) act) list"
  on_afterQueryDocuments :: "(QueryRequest \<times> QueryResult \<Rightarrow> (unit, 's) act) list"

definition emptyEmitter :: "'s emitter" where
  "emptyEmitter = \<lparr>on_beforeUpsertDocument = [], on_afterUpsertDocument = [],
     on_beforeGetDocumentById = [], on_afterGetDocumentById = [],
     on_beforeUpdateDocumentById = [], on_afterUpdateDocumentById = [],
     on_beforeDeleteDocumentById = [], on_afterDeleteDocumentById = [],
     on_beforeQueryDocuments = [], on_afterQueryDocuments = []\<rparr>"

text \<open>Every listener runs; the first error is the result.\<close>

fun emit :: "('a \<Rightarrow> (unit, 's) act) list \<Rightarrow> 'a \<Rightarrow> (unit, 's) act" where
  "emit [] x = ret ()"
| "emit (hook # hooks) x = (\<lambda>s.
     case hook x s of
       (Inr _, s') \<Rightarrow> emit hooks x s'
     | (Inl e, s') \<Rightarrow> (Inl e, snd (emit hooks x s')))"

definition beforeUpsertDocument where "beforeUpsertDocument em request = emit (on_beforeUpsertDocument em) request"
definition afterUpsertDocument where "afterUpsertDocument em request result = emit (on_afterUpsertDocument em) (request, result)"
definition beforeGetDocumentById where "beforeGetDocumentById em request = emit (on_beforeGetDocumentById em) request"
definition afterGetDocumentById where "afterGetDocumentById em request result = emit (on_afterGetDocumentById em) (request, result)"
definition beforeUpdateDocumentById where "beforeUpdateDocumentById em request = emit (on_beforeUpdateDocumentById em) request"
definition afterUpdateDocumentById where "afterUpdateDocumentById em request result = emit (on_afterUpdateDocumentById em) (request, result)"
definition beforeDeleteDocumentById where "beforeDeleteDocumentById em request = emit (on_beforeDeleteDocumentById em) request"
definition afterDeleteDocumentById where "afterDeleteDocumentById em request result = emit (on_afterDeleteDocumentById em) (request, result)"
definition beforeQueryDocuments where "beforeQueryDocuments em request = emit (on_beforeQueryDocuments em) request"
definition afterQueryDocuments where "afterQueryDocuments em request result = emit (on_afterQueryDocuments em) (request, result)"

lemmas publish_defs = beforeUpsertDocument_def afterUpsertDocument_def beforeGetDocumentById_def
  afterGetDocumentById_def beforeUpdateDocumentById_def afterUpdateDocumentById_def
  beforeDeleteDocumentById_def afterDeleteDocumentById_def beforeQueryDocuments_def afterQueryDocuments_def

text \<open>\<open>Subscribe\<close>: a listener is added behind those there are.\<close>

definition subscribe_beforeUpsertDocument where
  "subscribe_beforeUpsertDocument hook em = em\<lparr>on_beforeUpsertDocument := on_beforeUpsertDocument em @ [hook]\<rparr>"
definition subscribe_afterUpsertDocument where
  "subscribe_afterUpsertDocument hook em =
     em\<lparr>on_afterUpsertDocument := on_afterUpsertDocument em @ [\<lambda>(request, result). hook request result]\<rparr>"
definition subscribe_beforeGetDocumentById where
  "subscribe_beforeGetDocumentById hook em = em\<lparr>on_beforeGetDocumentById := on_beforeGetDocumentById em @ [hook]\<rparr>"
definition subscribe_afterGetDocumentById where
  "subscribe_afterGetDocumentById hook em =
     em\<lparr>on_afterGetDocumentById := on_afterGetDocumentById em @ [\<lambda>(request, result). hook request result]\<rparr>"
definition subscribe_beforeUpdateDocumentById where
  "subscribe_beforeUpdateDocumentById hook em =
     em\<lparr>on_beforeUpdateDocumentById := on_beforeUpdateDocumentById em @ [hook]\<rparr>"
definition subscribe_afterUpdateDocumentById where
  "subscribe_afterUpdateDocumentById hook em =
     em\<lparr>on_afterUpdateDocumentById := on_afterUpdateDocumentById em @ [\<lambda>(request, result). hook request result]\<rparr>"
definition subscribe_beforeDeleteDocumentById where
  "subscribe_beforeDeleteDocumentById hook em =
     em\<lparr>on_beforeDeleteDocumentById := on_beforeDeleteDocumentById em @ [hook]\<rparr>"
definition subscribe_afterDeleteDocumentById where
  "subscribe_afterDeleteDocumentById hook em =
     em\<lparr>on_afterDeleteDocumentById := on_afterDeleteDocumentById em @ [\<lambda>(request, result). hook request result]\<rparr>"
definition subscribe_beforeQueryDocuments where
  "subscribe_beforeQueryDocuments hook em = em\<lparr>on_beforeQueryDocuments := on_beforeQueryDocuments em @ [hook]\<rparr>"
definition subscribe_afterQueryDocuments where
  "subscribe_afterQueryDocuments hook em =
     em\<lparr>on_afterQueryDocuments := on_afterQueryDocuments em @ [\<lambda>(request, result). hook request result]\<rparr>"

section \<open>PluginLoader\<close>

text \<open>\<open>None\<close> stands for the null plugin, which the loader compares by reference.\<close>

record 's loader_state =
  loadedDocumentStore :: "'s DocumentStorePlugin option"
  loadedQueryHandler :: "'s QueryHandlerPlugin option"
  listenersLoadAttempted :: bool
  loader_emitter :: "'s emitter"
  pluginsLoaded :: bool

record 's importer =
  import_documentStore :: "string \<Rightarrow> 's DocumentStorePlugin res"
  import_queryHandler :: "string \<Rightarrow> 's QueryHandlerPlugin res"
  import_listener :: "string \<Rightarrow> ('s emitter \<Rightarrow> 's emitter) res"
  cfg_DOCUMENT_STORE_PLUGIN :: string
  cfg_QUERY_HANDLER_PLUGIN :: string
  cfg_LISTENER1_PLUGIN :: string
  cfg_LISTENER2_PLUGIN :: string

definition loadDocumentStore :: "'s importer \<Rightarrow> (unit, 's loader_state) act" where
  "loadDocumentStore imp = (\<lambda>s.
     if loadedDocumentStore s \<noteq> None then ret () s
     else bnd (lift (import_documentStore imp (cfg_DOCUMENT_STORE_PLUGIN imp)))
            (\<lambda>plugin s'. (Inr (), s'\<lparr>loadedDocumentStore := Some plugin\<rparr>)) s)"

definition loadQueryHandler :: "'s importer \<Rightarrow> (unit, 's loader_state) act" where
  "loadQueryHandler imp = (\<lambda>s.
     if loadedQueryHandler s \<noteq> None then ret () s
     else bnd (lift (import_queryHandler imp (cfg_QUERY_HANDLER_PLUGIN imp)))
            (\<lambda>plugin s'. (Inr (), s'\<lparr>loadedQueryHandler := Some plugin\<rparr>)) s)"

definition loadListener :: "'s importer \<Rightarrow> string \<Rightarrow> (unit, 's loader_state) act" where
  "loadListener imp pluginNpmName =
     bnd (lift (import_listener imp pluginNpmName))
       (\<lambda>initializeListener s. (Inr (), s\<lparr>loader_emitter := initializeListener (loader_emitter s)\<rparr>))"

definition loadListeners :: "'s importer \<Rightarrow> (unit, 's loader_state) act" where
  "loadListeners imp = (\<lambda>s.
     if listenersLoadAttempted s then ret () s
     else
       bnd (if cfg_LISTENER1_PLUGIN imp \<noteq> '''' then loadListener imp (cfg_LISTENER1_PLUGIN imp) else ret ()) (\<lambda>_.
            if cfg_LISTENER2_PLUGIN imp \<noteq> '''' then loadListener imp (cfg_LISTENER2_PLUGIN imp) else ret ())
         (s\<lparr>listenersLoadAttempted := True\<rparr>))"

definition getDocumentStore :: "'s loader_state \<Rightarrow> 's DocumentStorePlugin" where
  "getDocumentStore s = (case loadedDocumentStore s of None \<Rightarrow> NoDocumentStorePlugin | Some p \<Rightarrow> p)"

definition getQueryHandler :: "'s loader_state \<Rightarrow> 's QueryHandlerPlugin" where
  "getQueryHandler s = (case loadedQueryHandler s of None \<Rightarrow> NoQueryHandlerPlugin | Some p \<Rightarrow> p)"

definition loadAllPlugins :: "'s importer \<Rightarrow> (unit, 's loader_state) act" where
  "loadAllPlugins imp =
     try_catch (bnd (loadDocumentStore imp) (\<lambda>_. bnd (loadQueryHandler imp) (\<lambda>_. loadListeners imp)))
       (\<lambda>_. ret ())"

definition ensurePluginsLoaded :: "'s importer \<Rightarrow> (unit, 's loader_state) act" where
  "ensurePluginsLoaded imp = (\<lambda>s.
     if pluginsLoaded s then ret () s else loadAllPlugins imp (s\<lparr>pluginsLoaded := True\<rparr>))"

section \<open>What a document store promises\<close>

text \<open>\<open>stored s\<close> are the documents of a state with their uuids, \<open>ok\<close> is the invariant of the store.  A
  response that is not a success leaves the documents as they were, also when the operation throws;
  a success has stored, found or removed the document of the request.\<close>

locale document_store =
  fixes plugin :: "'s DocumentStorePlugin"
    and ok :: "'s \<Rightarrow> bool"
    and stored :: "'s \<Rightarrow> (DocumentUuid \<times> json) set"
  assumes upsert_insert:
      "ok s \<Longrightarrow> dsp_upsertDocument plugin req s = (Inr (INSERT_SUCCESS m u), s') \<Longrightarrow>
       ok s' \<and> stored s' = insert (u, ur_edfiDoc req) (stored s)"
    and upsert_update:
      "ok s \<Longrightarrow> dsp_upsertDocument plugin req s = (Inr (UpsertResult.UPDATE_SUCCESS m u), s') \<Longrightarrow>
       ok s' \<and> (u, ur_edfiDoc req) \<in> stored s'"
    and upsert_failure:
      "ok s \<Longrightarrow> dsp_upsertDocument plugin req s = (r, s') \<Longrightarrow>
       (\<And>m u. r \<noteq> Inr (INSERT_SUCCESS m u)) \<Longrightarrow> (\<And>m u. r \<noteq> Inr (UpsertResult.UPDATE_SUCCESS m u)) \<Longrightarrow>
       ok s' \<and> stored s' = stored s"
    and update_success:
      "ok s \<Longrightarrow> dsp_updateDocumentById plugin req' s = (Inr (UpdateResult.UPDATE_SUCCESS m), s') \<Longrightarrow>
       ok s' \<and> (upd_documentUuid req', ur_edfiDoc req') \<in> stored s'"
    and update_failure:
      "ok s \<Longrightarrow> dsp_updateDocumentById plugin req' s = (r', s') \<Longrightarrow>
       (\<And>m. r' \<noteq> Inr (UpdateResult.UPDATE_SUCCESS m)) \<Longrightarrow> ok s' \<and> stored s' = stored s"
    and delete_success:
      "ok s \<Longrightarrow> dsp_deleteDocumentById plugin dreq s = (Inr DELETE_SUCCESS, s') \<Longrightarrow>
       ok s' \<and> stored s' = {(u, d) \<in> stored s. u \<noteq> del_documentUuid dreq}"
    and delete_failure:
      "ok s \<Longrightarrow> dsp_deleteDocumentById plugin dreq s = (dr, s') \<Longrightarrow> dr \<noteq> Inr DELETE_SUCCESS \<Longrightarrow>
       ok s' \<and> stored s' = stored s"
    and get_frame:
      "ok s \<Longrightarrow> dsp_getDocumentById plugin greq s = (gr, s') \<Longrightarrow> ok s' \<and> stored s' = stored s"
    and get_success:
      "ok s \<Longrightarrow> dsp_getDocumentById plugin greq s = (Inr g, s') \<Longrightarrow> gr_response g = GET_SUCCESS \<Longrightarrow>
       (get_documentUuid greq, gr_edfiDoc g) \<in> stored s \<and> gr_documentUuid g = get_documentUuid greq"
    and security_frame:
      "ok s \<Longrightarrow> dsp_securityMiddleware plugin model s = (mr, s') \<Longrightarrow> ok s' \<and> stored s' = stored s"

text \<open>The null store never succeeds, so it is a store without documents or with any it cannot see.\<close>

interpretation no_store: document_store NoDocumentStorePlugin "\<lambda>_. True" stored
  by unfold_locales (auto simp: NoDocumentStorePlugin_def act_simps)

section \<open>Lemmas\<close>

lemma emit_preserves: "(\<And>h. h \<in> set hooks \<Longrightarrow> preserves v (h x)) \<Longrightarrow> preserves v (emit hooks x)"
proof (induction hooks)
  case Nil
  then show ?case by (simp add: frame_intros)
next
  case (Cons h hooks)
  have h: "preserves v (h x)" and hs: "preserves v (emit hooks x)" using Cons by auto
  show ?case
    by (rule preservesI)
      (use preserves_run [OF h] preservesD [OF hs] in \<open>auto split: prod.splits sum.splits\<close>)
qed

lemma emit_ok:
  "(\<And>h s. h \<in> set hooks \<Longrightarrow> \<exists>u s'. h x s = (Inr u, s')) \<Longrightarrow> \<exists>s'. emit hooks x s = (Inr (), s')"
proof (induction hooks arbitrary: s)
  case Nil
  then show ?case by (simp add: act_simps)
next
  case (Cons h hooks)
  obtain u s1 where "h x s = (Inr u, s1)" using Cons.prems [of h s] by auto
  moreover obtain s' where "emit hooks x s1 = (Inr (), s')" using Cons by fastforce
  ultimately show ?case by simp
qed

lemma ensurePluginsLoaded_once:
  "pluginsLoaded s \<Longrightarrow> ensurePluginsLoaded imp s = (Inr (), s)"
  by (simp add: ensurePluginsLoaded_def act_simps)

lemma loadAllPlugins_never_throws: "\<exists>s'. loadAllPlugins imp s = (Inr (), s')"
  by (simp add: loadAllPlugins_def act_simps split: prod.split sum.split)

end
