(* ===== verification/MongoStore.thy ===== *)
theory MongoStore
  imports PluginInterface Configuration
begin

text \<open>
  The documents of the MongoDB backend (\<open>meadowlark-mongodb-backend/src/model\<close>) and what the
  repository code uses of the driver.  \<open>mongo_ops\<close> holds the operations of the document and
  concurrency collections and of a session; the locale \<open>mongo_store\<close> states their documented
  behaviour over the abstract content \<open>docs\<close> (a map by \<open>_id\<close>) and the content \<open>snap\<close> at the start of
  the running transaction.  \<open>mem\<close> is a collection in memory that keeps these laws.
\<close>

section \<open>Documents\<close>

record MeadowlarkDocument =
  md_id :: MeadowlarkId
  md_documentIdentity :: DocumentIdentity
  md_documentUuid :: DocumentUuid
  md_projectName :: string
  md_resourceName :: string
  md_resourceVersion :: string
  md_edfiDoc :: json
  md_outboundRefs :: "MeadowlarkId list"
  md_aliasMeadowlarkIds :: "MeadowlarkId list"
  md_validated :: bool
  md_isDescriptor :: bool
  md_createdBy :: string
  md_createdAt :: "int option"
  md_lastModifiedAt :: int

type_synonym doc_map = "MeadowlarkId \<Rightarrow> MeadowlarkDocument option"

definition referencedDocumentIdsFrom ::
  "(nat \<Rightarrow> string \<Rightarrow> 8 word list) \<Rightarrow> DocumentInfo \<Rightarrow> MeadowlarkId list res" where
  "referencedDocumentIdsFrom shake256 documentInfo =
     res_bind (res_map (getMeadowlarkIdForDocumentReference shake256) (di_documentReferences documentInfo)) (\<lambda>refs.
     res_bind (res_map (getMeadowlarkIdForDocumentReference shake256) (di_descriptorReferences documentInfo)) (\<lambda>descs.
     Inr (refs @ descs)))"

definition aliasMeadowlarkIdsFrom ::
  "(nat \<Rightarrow> string \<Rightarrow> 8 word list) \<Rightarrow> MeadowlarkId \<Rightarrow> SuperclassInfo option \<Rightarrow> MeadowlarkId list res" where
  "aliasMeadowlarkIdsFrom shake256 meadowlarkId superclassInfo =
     (case superclassInfo of
        None \<Rightarrow> Inr [meadowlarkId]
      | Some si \<Rightarrow> res_bind (getMeadowlarkIdForSuperclassInfo shake256 si) (\<lambda>a. Inr [meadowlarkId, a]))"

definition meadowlarkDocumentFrom ::
  "(nat \<Rightarrow> string \<Rightarrow> 8 word list) \<Rightarrow> ResourceInfo \<Rightarrow> DocumentInfo \<Rightarrow> DocumentUuid \<Rightarrow> MeadowlarkId \<Rightarrow> json \<Rightarrow>
   bool \<Rightarrow> string \<Rightarrow> int option \<Rightarrow> int \<Rightarrow> MeadowlarkDocument res" where
  "meadowlarkDocumentFrom shake256 resourceInfo documentInfo documentUuid meadowlarkId edfiDoc validate
     createdBy createdAt lastModifiedAt =
     res_bind (aliasMeadowlarkIdsFrom shake256 meadowlarkId (di_superclassInfo documentInfo)) (\<lambda>aliasMeadowlarkIds.
     res_bind (referencedDocumentIdsFrom shake256 documentInfo) (\<lambda>outboundRefs.
     Inr \<lparr>md_id = meadowlarkId, md_documentIdentity = di_documentIdentity documentInfo,
          md_documentUuid = documentUuid, md_projectName = bri_projectName resourceInfo,
          md_resourceName = bri_resourceName resourceInfo, md_resourceVersion = ri_resourceVersion resourceInfo,
          md_edfiDoc = edfiDoc, md_outboundRefs = outboundRefs, md_aliasMeadowlarkIds = aliasMeadowlarkIds,
          md_validated = validate, md_isDescriptor = bri_isDescriptor resourceInfo, md_createdBy = createdBy,
          md_createdAt = createdAt, md_lastModifiedAt = lastModifiedAt\<rparr>))"

section \<open>Filters, options and operations\<close>

datatype doc_filter =
    ById MeadowlarkId
  | ByUuid DocumentUuid
  | AliasIs MeadowlarkId
  | AliasIn "MeadowlarkId list"
  | OutboundIn "MeadowlarkId list"
  | IdUuidOlder MeadowlarkId DocumentUuid int

fun matches :: "doc_filter \<Rightarrow> MeadowlarkDocument \<Rightarrow> bool" where
  "matches (ById i) d = (md_id d = i)"
| "matches (ByUuid u) d = (md_documentUuid d = u)"
| "matches (AliasIs a) d = (a \<in> set (md_aliasMeadowlarkIds d))"
| "matches (AliasIn as) d = (set (md_aliasMeadowlarkIds d) \<inter> set as \<noteq> {})"
| "matches (OutboundIn as) d = (set (md_outboundRefs d) \<inter> set as \<noteq> {})"
| "matches (IdUuidOlder i u t) d = (md_id d = i \<and> md_documentUuid d = u \<and> md_lastModifiedAt d < t)"

text \<open>Projections, as far as the code depends on a field that is left out: the positional projection
  keeps the first alias that matched, the projection on \<open>_id\<close> keeps no alias.\<close>

datatype projection = AllFields | OnlyId | FirstMatchingAlias

record find_options =
  fo_projection :: projection
  fo_limit :: "nat option"
  fo_session :: bool

fun project :: "projection \<Rightarrow> doc_filter \<Rightarrow> MeadowlarkDocument \<Rightarrow> MeadowlarkDocument" where
  "project FirstMatchingAlias (AliasIn as) d =
     d\<lparr>md_aliasMeadowlarkIds := take 1 (filter (\<lambda>a. a \<in> set as) (md_aliasMeadowlarkIds d))\<rparr>"
| "project OnlyId f d = d\<lparr>md_aliasMeadowlarkIds := []\<rparr>"
| "project _ _ d = d"

definition with_session :: "projection \<Rightarrow> find_options" where
  "with_session p = \<lparr>fo_projection = p, fo_limit = None, fo_session = True\<rparr>"

definition no_session :: "projection \<Rightarrow> find_options" where
  "no_session p = \<lparr>fo_projection = p, fo_limit = None, fo_session = False\<rparr>"

text \<open>The find options of \<open>Db.ts\<close>.\<close>

definition onlyReturnId :: find_options where "onlyReturnId = with_session OnlyId"
definition onlyReturnTimestamps :: find_options where "onlyReturnTimestamps = with_session AllFields"
definition onlyReturnDocumentUuidAndTimestamps :: find_options where
  "onlyReturnDocumentUuidAndTimestamps = with_session AllFields"
definition onlyReturnAliasMeadowlarkId :: find_options where
  "onlyReturnAliasMeadowlarkId = with_session FirstMatchingAlias"
definition onlyReturnAliasIds :: find_options where "onlyReturnAliasIds = with_session AllFields"
definition limitFive :: find_options where
  "limitFive = \<lparr>fo_projection = AllFields, fo_limit = Some 5, fo_session = True\<rparr>"
definition onlyDocumentsReferencing :: "MeadowlarkId list \<Rightarrow> doc_filter" where
  "onlyDocumentsReferencing aliasMeadowlarkIds = OutboundIn aliasMeadowlarkIds"

lemmas find_option_defs = onlyReturnId_def onlyReturnTimestamps_def onlyReturnDocumentUuidAndTimestamps_def
  onlyReturnAliasMeadowlarkId_def onlyReturnAliasIds_def limitFive_def with_session_def no_session_def
  onlyDocumentsReferencing_def

record write_result =
  wr_acknowledged :: bool
  wr_upsertedCount :: nat
  wr_matchedCount :: nat
  wr_modifiedCount :: nat
  wr_deletedCount :: nat

text \<open>\<open>mg_transact_x n body\<close> is \<open>retry(() => session.withTransaction(body), \{ retries: n \})\<close> at the
  result type of operation \<open>x\<close>.  \<open>mg_config\<close> are the settings that \<open>Config.get\<close> reads, \<open>mg_shake256\<close> is the
  digest.\<close>

record 's mongo_ops =
  mg_find :: "find_options \<Rightarrow> doc_filter \<Rightarrow> (MeadowlarkDocument list, 's) act"
  mg_findOne :: "find_options \<Rightarrow> doc_filter \<Rightarrow> (MeadowlarkDocument option, 's) act"
  mg_replaceOne :: "doc_filter \<Rightarrow> MeadowlarkDocument \<Rightarrow> (write_result, 's) act"
  mg_updateOne :: "doc_filter \<Rightarrow> (MeadowlarkDocument \<Rightarrow> MeadowlarkDocument) \<Rightarrow> (write_result, 's) act"
  mg_deleteOne :: "doc_filter \<Rightarrow> (write_result, 's) act"
  mg_insertMany :: "DocumentUuid list \<Rightarrow> (unit, 's) act"
  mg_deleteMany :: "DocumentUuid list \<Rightarrow> (unit, 's) act"
  mg_startSession :: "(unit, 's) act"
  mg_abortTransaction :: "(unit, 's) act"
  mg_endSession :: "(unit, 's) act"
  mg_transact_upsert :: "ConfigValue \<Rightarrow> (UpsertResult, 's) act \<Rightarrow> (UpsertResult, 's) act"
  mg_transact_update :: "ConfigValue \<Rightarrow> (UpdateResult, 's) act \<Rightarrow> (UpdateResult, 's) act"
  mg_transact_delete :: "ConfigValue \<Rightarrow> (DeleteResult, 's) act \<Rightarrow> (DeleteResult, 's) act"
  mg_generateDocumentUuid :: "(DocumentUuid, 's) act"
  mg_connect :: "ConfigValue \<Rightarrow> ConfigValue \<Rightarrow> ConfigValue \<Rightarrow> (unit, 's) act"
  mg_createIndex :: "ConfigValue \<Rightarrow> string \<Rightarrow> string \<Rightarrow> (unit, 's) act"
  mg_close :: "(unit, 's) act"
  mg_config :: "(string \<times> ConfigValue) list"
  mg_shake256 :: "nat \<Rightarrow> string \<Rightarrow> 8 word list"

section \<open>The laws\<close>

definition committed :: "('s \<Rightarrow> doc_map) \<Rightarrow> ('s \<Rightarrow> doc_map option) \<Rightarrow> 's \<Rightarrow> doc_map" where
  "committed docs snap s = (case snap s of None \<Rightarrow> docs s | Some D \<Rightarrow> D)"

text \<open>A read with the session sees the transaction, a read without it sees what is committed.\<close>

definition view :: "('s \<Rightarrow> doc_map) \<Rightarrow> ('s \<Rightarrow> doc_map option) \<Rightarrow> find_options \<Rightarrow> 's \<Rightarrow> doc_map" where
  "view docs snap opts s = (if fo_session opts then docs s else committed docs snap s)"

definition same :: "('s \<Rightarrow> doc_map) \<Rightarrow> ('s \<Rightarrow> doc_map option) \<Rightarrow> 's \<Rightarrow> 's \<Rightarrow> bool" where
  "same docs snap s s' \<longleftrightarrow> docs s' = docs s \<and> snap s' = snap s"

text \<open>The documents of a map that match a filter.\<close>

definition found :: "doc_map \<Rightarrow> doc_filter \<Rightarrow> MeadowlarkDocument set" where
  "found D f = {d. \<exists>i. D i = Some d \<and> matches f d}"

text \<open>A transaction with retries: a result is the result of one run of the body on the documents there
  were, and what this run left is committed; an error leaves the documents as they were (a commit whose result is
  unknown is left out).\<close>

definition txn_law ::
  "('s \<Rightarrow> doc_map) \<Rightarrow> ('s \<Rightarrow> doc_map option) \<Rightarrow> (ConfigValue \<Rightarrow> ('r, 's) act \<Rightarrow> ('r, 's) act) \<Rightarrow> bool" where
  "txn_law docs snap transact \<longleftrightarrow>
     (\<forall>n body s r s'. transact n body s = (r, s') \<longrightarrow> snap s = None \<longrightarrow>
        snap s' = None \<and>
        (case r of
           Inl e \<Rightarrow> docs s' = docs s
         | Inr x \<Rightarrow> (\<exists>s0 s1. docs s0 = docs s \<and> snap s0 = Some (docs s) \<and> body s0 = (Inr x, s1) \<and>
                      docs s' = docs s1)))"

locale mongo_store =
  fixes mg :: "'s mongo_ops"
    and docs :: "'s \<Rightarrow> doc_map"
    and snap :: "'s \<Rightarrow> doc_map option"
  assumes keyed: "docs s i = Some d \<Longrightarrow> md_id d = i"
    and snap_keyed: "snap s = Some D \<Longrightarrow> D i = Some d \<Longrightarrow> md_id d = i"
    and find_law: "mg_find mg opts f s = (Inr ds, s') \<Longrightarrow>
      same docs snap s s' \<and>
      (\<exists>full. distinct full \<and> set full \<subseteq> found (view docs snap opts s) f \<and>
         (fo_limit opts = None \<longrightarrow> set full = found (view docs snap opts s) f) \<and>
         ds = map (project (fo_projection opts) f) full)"
    and findOne_law: "mg_findOne mg opts f s = (Inr x, s') \<Longrightarrow>
      same docs snap s s' \<and>
      (case x of
         None \<Rightarrow> found (view docs snap opts s) f = {}
       | Some d \<Rightarrow> \<exists>d' \<in> found (view docs snap opts s) f. d = project (fo_projection opts) f d')"
    and read_error: "snap s = None \<Longrightarrow> mg_findOne mg opts f s = (Inl e, s') \<Longrightarrow> same docs snap s s'"
    and replaceOne_law: "mg_replaceOne mg (ById i) d s = (Inr wr, s') \<Longrightarrow> md_id d = i \<Longrightarrow>
      snap s' = snap s \<and>
      (wr_acknowledged wr \<longrightarrow>
         docs s' = (docs s)(i \<mapsto> d) \<and> wr_upsertedCount wr = (if docs s i = None then 1 else 0) \<and>
         wr_modifiedCount wr = (if docs s i = None \<or> docs s i = Some d then 0 else 1))"
    and updateOne_law: "mg_updateOne mg f upd s = (Inr wr, s') \<Longrightarrow> (\<And>d. md_id (upd d) = md_id d) \<Longrightarrow>
      snap s' = snap s \<and>
      (wr_acknowledged wr \<longrightarrow>
         (if found (docs s) f = {} then docs s' = docs s \<and> wr_matchedCount wr = 0
          else \<exists>d \<in> found (docs s) f. docs s' = (docs s)(md_id d \<mapsto> upd d) \<and> wr_matchedCount wr = 1))"
    and deleteOne_law: "mg_deleteOne mg f s = (Inr wr, s') \<Longrightarrow>
      snap s' = snap s \<and>
      (wr_acknowledged wr \<longrightarrow>
         (if found (docs s) f = {} then docs s' = docs s \<and> wr_deletedCount wr = 0
          else \<exists>d \<in> found (docs s) f. docs s' = (docs s)(md_id d := None) \<and> wr_deletedCount wr = 1))"
    and insertMany_law: "mg_insertMany mg us s = (Inr v, s') \<Longrightarrow> same docs snap s s' \<and> distinct us"
    and deleteMany_law: "mg_deleteMany mg us s = (Inr v, s') \<Longrightarrow> same docs snap s s'"
    and session_law: "mg_startSession mg s = (q, s') \<Longrightarrow> same docs snap s s'"
    and abort_law: "mg_abortTransaction mg s = (q, s') \<Longrightarrow>
      (case snap s of
         None \<Rightarrow> same docs snap s s'
       | Some D \<Rightarrow> q = Inr () \<longrightarrow> docs s' = D \<and> snap s' = Some D)"
    and connect_law: "mg_connect mg url w rc s = (q, s') \<Longrightarrow> same docs snap s s'"
    and createIndex_law: "mg_createIndex mg db collection field s = (q, s') \<Longrightarrow> same docs snap s s'"
    and endSession_law: "mg_endSession mg s = (q, s') \<Longrightarrow> q = Inr () \<and> same docs snap s s'"
    and transact_upsert: "txn_law docs snap (mg_transact_upsert mg)"
    and transact_update: "txn_law docs snap (mg_transact_update mg)"
    and transact_delete: "txn_law docs snap (mg_transact_delete mg)"
    and uuid_law: "mg_generateDocumentUuid mg s = (Inr u, s') \<Longrightarrow>
      same docs snap s s' \<and> (\<forall>i d. docs s i = Some d \<longrightarrow> md_documentUuid d \<noteq> u) \<and>
      (\<forall>i d. committed docs snap s i = Some d \<longrightarrow> md_documentUuid d \<noteq> u)"

section \<open>A collection in memory\<close>

record mem =
  mem_docs :: "MeadowlarkDocument list"
  mem_snap :: "MeadowlarkDocument list option"
  mem_next :: nat

definition lookup :: "MeadowlarkDocument list \<Rightarrow> doc_map" where
  "lookup ds i = List.find (\<lambda>d. md_id d = i) ds"

definition contents :: "MeadowlarkDocument list \<Rightarrow> MeadowlarkDocument list" where
  "contents ds = map (\<lambda>i. the (lookup ds i)) (remdups (map md_id ds))"

definition put :: "MeadowlarkDocument \<Rightarrow> MeadowlarkDocument list \<Rightarrow> MeadowlarkDocument list" where
  "put d ds = d # filter (\<lambda>x. md_id x \<noteq> md_id d) ds"

definition mem_map :: "mem \<Rightarrow> doc_map" where
  "mem_map s = lookup (mem_docs s)"

definition mem_snap_map :: "mem \<Rightarrow> doc_map option" where
  "mem_snap_map s = map_option lookup (mem_snap s)"

definition mem_view :: "find_options \<Rightarrow> mem \<Rightarrow> MeadowlarkDocument list" where
  "mem_view opts s =
     (if fo_session opts then mem_docs s else case mem_snap s of None \<Rightarrow> mem_docs s | Some ds \<Rightarrow> ds)"

definition hits :: "doc_filter \<Rightarrow> MeadowlarkDocument list \<Rightarrow> MeadowlarkDocument list" where
  "hits f ds = filter (matches f) (contents ds)"

definition write_counts :: "nat \<Rightarrow> nat \<Rightarrow> nat \<Rightarrow> nat \<Rightarrow> write_result" where
  "write_counts up ma mo de = \<lparr>wr_acknowledged = True, wr_upsertedCount = up, wr_matchedCount = ma,
     wr_modifiedCount = mo, wr_deletedCount = de\<rparr>"

fun attempts :: "nat \<Rightarrow> ('r, mem) act \<Rightarrow> ('r, mem) act" where
  "attempts n body s =
     (case body (s\<lparr>mem_snap := Some (mem_docs s)\<rparr>) of
        (Inr x, s1) \<Rightarrow> (Inr x, s1\<lparr>mem_snap := None\<rparr>)
      | (Inl e, s1) \<Rightarrow>
          (let s2 = s1\<lparr>mem_docs := mem_docs s, mem_snap := None\<rparr> in
           case n of 0 \<Rightarrow> (Inl e, s2) | Suc m \<Rightarrow> attempts m body s2))"

declare attempts.simps [simp del]

definition retries_of :: "ConfigValue \<Rightarrow> nat" where
  "retries_of v = (case v of CNumber t \<Rightarrow> (case js_parseInt t of Some i \<Rightarrow> nat i | None \<Rightarrow> 0) | _ \<Rightarrow> 0)"

definition numbered_uuid :: "nat \<Rightarrow> DocumentUuid" where
  "numbered_uuid n =
     (let t = nat_to_string n in
      ''00000000-0000-4000-8000-'' @ replicate (12 - length t) (CHR ''0'') @ t)"

definition mem_ops ::
  "(nat \<Rightarrow> string \<Rightarrow> 8 word list) \<Rightarrow> (string \<times> ConfigValue) list \<Rightarrow> mem mongo_ops" where
  "mem_ops shake256 config = \<lparr>
     mg_find = (\<lambda>opts f s. (Inr (map (project (fo_projection opts) f)
        (case fo_limit opts of None \<Rightarrow> hits f (mem_view opts s) | Some n \<Rightarrow> take n (hits f (mem_view opts s)))), s)),
     mg_findOne = (\<lambda>opts f s. (Inr (case hits f (mem_view opts s) of [] \<Rightarrow> None
        | d # _ \<Rightarrow> Some (project (fo_projection opts) f d)), s)),
     mg_replaceOne = (\<lambda>f d s. (Inr (case hits f (mem_docs s) of
          [] \<Rightarrow> write_counts 1 0 0 0
        | d0 # _ \<Rightarrow> write_counts 0 1 (if d0 = d then 0 else 1) 0), s\<lparr>mem_docs := put d (mem_docs s)\<rparr>)),
     mg_updateOne = (\<lambda>f upd s. (case hits f (mem_docs s) of
          [] \<Rightarrow> (Inr (write_counts 0 0 0 0), s)
        | d0 # _ \<Rightarrow> (Inr (write_counts 0 1 (if upd d0 = d0 then 0 else 1) 0),
                      s\<lparr>mem_docs := put (upd d0) (mem_docs s)\<rparr>))),
     mg_deleteOne = (\<lambda>f s. (case hits f (mem_docs s) of
          [] \<Rightarrow> (Inr (write_counts 0 0 0 0), s)
        | d0 # _ \<Rightarrow> (Inr (write_counts 0 0 0 1),
                      s\<lparr>mem_docs := filter (\<lambda>x. md_id x \<noteq> md_id d0) (mem_docs s)\<rparr>))),
     mg_insertMany = (\<lambda>us s. if distinct us then (Inr (), s)
        else (Inl (mk_error ''MongoBulkWriteError'' ''E11000 duplicate key error''), s)),
     mg_deleteMany = (\<lambda>_. ret ()),
     mg_startSession = ret (),
     mg_abortTransaction = (\<lambda>s. case mem_snap s of
          None \<Rightarrow> (Inl (mk_error ''MongoTransactionError'' ''No transaction started''), s)
        | Some ds \<Rightarrow> (Inr (), s\<lparr>mem_docs := ds\<rparr>)),
     mg_endSession = ret (),
     mg_transact_upsert = (\<lambda>n. attempts (retries_of n)),
     mg_transact_update = (\<lambda>n. attempts (retries_of n)),
     mg_transact_delete = (\<lambda>n. attempts (retries_of n)),
     mg_generateDocumentUuid = (\<lambda>s.
        let u = numbered_uuid (mem_next s); s' = s\<lparr>mem_next := Suc (mem_next s)\<rparr> in
        if u \<in> md_documentUuid ` set (mem_docs s @ (case mem_snap s of None \<Rightarrow> [] | Some ds \<Rightarrow> ds))
        then (Inl (mk_error ''Error'' ''uuid in use''), s') else (Inr u, s')),
     mg_connect = (\<lambda>url w r. ret ()),
     mg_createIndex = (\<lambda>db collection field. ret ()),
     mg_close = ret (),
     mg_config = config,
     mg_shake256 = shake256\<rparr>"

lemma lookup_Some: "lookup ds i = Some d \<Longrightarrow> d \<in> set ds \<and> md_id d = i"
  by (auto simp: lookup_def find_Some_iff)

lemma lookup_member: "d \<in> set ds \<Longrightarrow> \<exists>d'. lookup ds (md_id d) = Some d'"
  by (induction ds) (auto simp: lookup_def)

lemma lookup_put: "lookup (put d ds) = (lookup ds)(md_id d \<mapsto> d)"
proof
  fix i
  show "lookup (put d ds) i = ((lookup ds)(md_id d \<mapsto> d)) i"
    by (induction ds) (auto simp: lookup_def put_def)
qed

lemma lookup_remove: "lookup (filter (\<lambda>x. md_id x \<noteq> j) ds) = (lookup ds)(j := None)"
proof
  fix i
  show "lookup (filter (\<lambda>x. md_id x \<noteq> j) ds) i = ((lookup ds)(j := None)) i"
    by (induction ds) (auto simp: lookup_def)
qed

lemma set_contents: "set (contents ds) = {d. \<exists>i. lookup ds i = Some d}"
proof (intro set_eqI iffI)
  fix d assume "d \<in> set (contents ds)"
  then obtain e where "e \<in> set ds" "d = the (lookup ds (md_id e))" by (auto simp: contents_def)
  then show "d \<in> {d. \<exists>i. lookup ds i = Some d}" using lookup_member [of e ds] by auto
next
  fix d assume "d \<in> {d. \<exists>i. lookup ds i = Some d}"
  then obtain i where i: "lookup ds i = Some d" by blast
  then have "d \<in> set ds" "md_id d = i" using lookup_Some by blast+
  then show "d \<in> set (contents ds)" using i by (force simp: contents_def)
qed

lemma distinct_contents: "distinct (contents ds)"
proof -
  have "inj_on (\<lambda>i. the (lookup ds i)) (set (map md_id ds))"
  proof (rule inj_onI)
    fix i j assume ij: "i \<in> set (map md_id ds)" "j \<in> set (map md_id ds)" "the (lookup ds i) = the (lookup ds j)"
    then obtain d e where "lookup ds i = Some d" "lookup ds j = Some e"
      using lookup_member by (metis (no_types) image_iff image_set)
    then show "i = j" using ij(3) lookup_Some by (metis option.sel)
  qed
  then show ?thesis by (simp add: contents_def distinct_map)
qed

lemma set_hits: "set (hits f ds) = found (lookup ds) f"
  by (auto simp: hits_def found_def set_contents)

lemma hits_Nil: "hits f ds = [] \<longleftrightarrow> found (lookup ds) f = {}"
  by (metis set_empty set_hits)

lemma hits_ById: "hits (ById i) ds = (case lookup ds i of None \<Rightarrow> [] | Some d \<Rightarrow> [d])"
proof -
  have "set (hits (ById i) ds) = (case lookup ds i of None \<Rightarrow> {} | Some d \<Rightarrow> {d})"
  proof (cases "lookup ds i")
    case None
    then have "found (lookup ds) (ById i) = {}" using lookup_Some by (fastforce simp: found_def)
    then show ?thesis by (simp add: set_hits None)
  next
    case (Some d)
    then have "found (lookup ds) (ById i) = {d}"
      by (auto simp: found_def) (metis lookup_Some option.inject)+
    then show ?thesis by (simp add: set_hits Some)
  qed
  moreover have "distinct (hits (ById i) ds)" by (simp add: hits_def distinct_contents)
  ultimately show ?thesis
    by (cases "lookup ds i"; cases "hits (ById i) ds") (auto dest: subset_singletonD)
qed

lemma mem_view_view: "lookup (mem_view opts s) = view mem_map mem_snap_map opts s"
  by (simp add: mem_view_def view_def committed_def mem_map_def mem_snap_map_def split: option.split)

lemma attempts_result:
  "attempts n body s = (r, s') \<Longrightarrow> mem_snap s = None \<Longrightarrow>
   mem_snap s' = None \<and>
   (case r of
      Inl e \<Rightarrow> mem_docs s' = mem_docs s
    | Inr x \<Rightarrow> \<exists>s0 s1. mem_docs s0 = mem_docs s \<and> mem_snap s0 = Some (mem_docs s) \<and> body s0 = (Inr x, s1) \<and>
                 mem_docs s' = mem_docs s1)"
proof (induction n arbitrary: s)
  case 0
  let ?s0 = "s\<lparr>mem_snap := Some (mem_docs s)\<rparr>"
  obtain q s1 where run: "body ?s0 = (q, s1)" by (cases "body ?s0")
  show ?case
  proof (cases q)
    case (Inr x)
    then have "r = Inr x" "s' = s1\<lparr>mem_snap := None\<rparr>"
      using 0 run by (simp_all add: attempts.simps [of 0])
    then show ?thesis using run Inr
      by (simp, intro exI [of _ ?s0]) simp
  next
    case (Inl e)
    then show ?thesis using 0 run by (auto simp: attempts.simps [of 0])
  qed
next
  case (Suc n)
  let ?s0 = "s\<lparr>mem_snap := Some (mem_docs s)\<rparr>"
  obtain q s1 where run: "body ?s0 = (q, s1)" by (cases "body ?s0")
  show ?case
  proof (cases q)
    case (Inr x)
    then have "r = Inr x" "s' = s1\<lparr>mem_snap := None\<rparr>"
      using Suc.prems(1) run by (simp_all add: attempts.simps [of "Suc n"])
    then show ?thesis using run Inr
      by (simp, intro exI [of _ ?s0]) simp
  next
    case (Inl e)
    let ?s2 = "s1\<lparr>mem_docs := mem_docs s, mem_snap := None\<rparr>"
    have "attempts n body ?s2 = (r, s')"
      using Suc.prems(1) run Inl by (simp add: attempts.simps [of "Suc n"])
    from Suc.IH [OF this] show ?thesis by (cases r) simp_all
  qed
qed


lemma attempts_txn: "txn_law mem_map mem_snap_map (\<lambda>n. attempts (retries_of n))"
  unfolding txn_law_def
proof (intro allI impI)
  fix n and body :: "('r, mem) act" and s r s'
  assume run: "attempts (retries_of n) body s = (r, s')" "mem_snap_map s = None"
  then have res: "mem_snap s' = None \<and>
   (case r of
      Inl e \<Rightarrow> mem_docs s' = mem_docs s
    | Inr x \<Rightarrow> \<exists>s0 s1. mem_docs s0 = mem_docs s \<and> mem_snap s0 = Some (mem_docs s) \<and> body s0 = (Inr x, s1) \<and>
                 mem_docs s' = mem_docs s1)"
    by (intro attempts_result) (simp_all add: mem_snap_map_def)
  show "mem_snap_map s' = None \<and>
     (case r of Inl e \<Rightarrow> mem_map s' = mem_map s
      | Inr x \<Rightarrow> \<exists>s0 s1. mem_map s0 = mem_map s \<and> mem_snap_map s0 = Some (mem_map s) \<and>
                 body s0 = (Inr x, s1) \<and> mem_map s' = mem_map s1)"
  proof (cases r)
    case (Inl e)
    then show ?thesis using res by (simp add: mem_map_def mem_snap_map_def)
  next
    case (Inr x)
    then obtain s0 s1 where "mem_docs s0 = mem_docs s" "mem_snap s0 = Some (mem_docs s)" "body s0 = (Inr x, s1)"
      "mem_docs s' = mem_docs s1" using res by auto
    then show ?thesis using res Inr
      by (simp add: mem_map_def mem_snap_map_def) metis
  qed
qed

interpretation mem: mongo_store "mem_ops shake256 config" mem_map mem_snap_map
proof unfold_locales
  fix s i d
  show "mem_map s i = Some d \<Longrightarrow> md_id d = i" by (simp add: mem_map_def lookup_Some)
next
  fix s D i d
  show "mem_snap_map s = Some D \<Longrightarrow> D i = Some d \<Longrightarrow> md_id d = i"
    by (auto simp: mem_snap_map_def lookup_Some)
next
  fix opts f s ds s'
  assume run: "mg_find (mem_ops shake256 config) opts f s = (Inr ds, s')"
  define full where "full = (case fo_limit opts of None \<Rightarrow> hits f (mem_view opts s) | Some n \<Rightarrow> take n (hits f (mem_view opts s)))"
  have "s' = s" "ds = map (project (fo_projection opts) f) full"
    using run by (simp_all add: mem_ops_def full_def)
  moreover have "distinct full"
    by (simp add: full_def hits_def distinct_contents split: option.split)
  moreover have "set full \<subseteq> found (view mem_map mem_snap_map opts s) f"
    by (auto simp: full_def simp flip: set_hits mem_view_view split: option.splits dest: in_set_takeD)
  moreover have "fo_limit opts = None \<longrightarrow> set full = found (view mem_map mem_snap_map opts s) f"
    by (simp add: full_def set_hits mem_view_view)
  ultimately show "same mem_map mem_snap_map s s' \<and>
      (\<exists>full. distinct full \<and> set full \<subseteq> found (view mem_map mem_snap_map opts s) f \<and>
         (fo_limit opts = None \<longrightarrow> set full = found (view mem_map mem_snap_map opts s) f) \<and>
         ds = map (project (fo_projection opts) f) full)"
    by (auto simp: same_def)
next
  fix opts f s x s'
  assume run: "mg_findOne (mem_ops shake256 config) opts f s = (Inr x, s')"
  then have "s' = s" by (simp add: mem_ops_def)
  moreover have "case x of None \<Rightarrow> found (view mem_map mem_snap_map opts s) f = {}
       | Some d \<Rightarrow> \<exists>d' \<in> found (view mem_map mem_snap_map opts s) f. d = project (fo_projection opts) f d'"
  proof (cases "hits f (mem_view opts s)")
    case Nil
    then show ?thesis using run hits_Nil [of f "mem_view opts s"] by (auto simp: mem_ops_def mem_view_view)
  next
    case (Cons d ds)
    then have "d \<in> found (view mem_map mem_snap_map opts s) f" by (simp flip: set_hits mem_view_view)
    then show ?thesis using run Cons by (auto simp: mem_ops_def)
  qed
  ultimately show "same mem_map mem_snap_map s s' \<and>
      (case x of None \<Rightarrow> found (view mem_map mem_snap_map opts s) f = {}
       | Some d \<Rightarrow> \<exists>d' \<in> found (view mem_map mem_snap_map opts s) f. d = project (fo_projection opts) f d')"
    by (simp add: same_def)
next
  fix s opts f e s'
  show "mem_snap_map s = None \<Longrightarrow> mg_findOne (mem_ops shake256 config) opts f s = (Inl e, s') \<Longrightarrow>
    same mem_map mem_snap_map s s'" by (simp add: mem_ops_def)
next
  fix i d s wr s'
  assume "mg_replaceOne (mem_ops shake256 config) (ById i) d s = (Inr wr, s')" "md_id d = i"
  then show "mem_snap_map s' = mem_snap_map s \<and>
      (wr_acknowledged wr \<longrightarrow>
         mem_map s' = (mem_map s)(i \<mapsto> d) \<and> wr_upsertedCount wr = (if mem_map s i = None then 1 else 0) \<and>
         wr_modifiedCount wr = (if mem_map s i = None \<or> mem_map s i = Some d then 0 else 1))"
    by (auto simp: mem_ops_def mem_map_def mem_snap_map_def hits_ById lookup_put write_counts_def
        split: option.splits)
next
  fix f upd s wr s'
  assume run: "mg_updateOne (mem_ops shake256 config) f upd s = (Inr wr, s')" and
    keep: "\<And>d. md_id (upd d :: MeadowlarkDocument) = md_id d"
  show "mem_snap_map s' = mem_snap_map s \<and>
      (wr_acknowledged wr \<longrightarrow>
         (if found (mem_map s) f = {} then mem_map s' = mem_map s \<and> wr_matchedCount wr = 0
          else \<exists>d \<in> found (mem_map s) f. mem_map s' = (mem_map s)(md_id d \<mapsto> upd d) \<and> wr_matchedCount wr = 1))"
    using run hits_Nil [of f "mem_docs s"] set_hits [of f "mem_docs s"]
    by (cases "hits f (mem_docs s)")
      (auto simp: mem_ops_def mem_map_def mem_snap_map_def lookup_put write_counts_def keep)
next
  fix f s wr s'
  assume run: "mg_deleteOne (mem_ops shake256 config) f s = (Inr wr, s')"
  show "mem_snap_map s' = mem_snap_map s \<and>
      (wr_acknowledged wr \<longrightarrow>
         (if found (mem_map s) f = {} then mem_map s' = mem_map s \<and> wr_deletedCount wr = 0
          else \<exists>d \<in> found (mem_map s) f. mem_map s' = (mem_map s)(md_id d := None) \<and> wr_deletedCount wr = 1))"
    using run hits_Nil [of f "mem_docs s"] set_hits [of f "mem_docs s"]
    by (cases "hits f (mem_docs s)")
      (auto simp: mem_ops_def mem_map_def mem_snap_map_def lookup_remove write_counts_def)
next
  fix s q s'
  assume "mg_abortTransaction (mem_ops shake256 config) s = (q, s')"
  then show "case mem_snap_map s of None \<Rightarrow> same mem_map mem_snap_map s s'
    | Some D \<Rightarrow> q = Inr () \<longrightarrow> mem_map s' = D \<and> mem_snap_map s' = Some D"
    by (auto simp: mem_ops_def mem_map_def mem_snap_map_def same_def split: option.splits)
next
  fix s u s'
  assume "mg_generateDocumentUuid (mem_ops shake256 config) s = (Inr u, s')"
  then have new: "u \<notin> md_documentUuid ` set (mem_docs s @ (case mem_snap s of None \<Rightarrow> [] | Some ds \<Rightarrow> ds))"
    and s': "s' = s\<lparr>mem_next := Suc (mem_next s)\<rparr>"
    by (simp_all add: mem_ops_def Let_def split: if_splits)
  then show "same mem_map mem_snap_map s s' \<and> (\<forall>i d. mem_map s i = Some d \<longrightarrow> md_documentUuid d \<noteq> u) \<and>
      (\<forall>i d. committed mem_map mem_snap_map s i = Some d \<longrightarrow> md_documentUuid d \<noteq> u)"
    by (auto simp: same_def mem_map_def mem_snap_map_def committed_def dest!: lookup_Some split: option.splits)
qed (auto simp: mem_ops_def same_def act_simps attempts_txn split: if_splits)

end
