(* ===== verification/MongoRepository.thy ===== *)
theory MongoRepository
  imports MongoStore
begin

text \<open>
  The repository of the MongoDB backend (\<open>meadowlark-mongodb-backend/src/repository\<close>): reference
  validation, locking, the transactions of upsert, update and delete with their sessions, get by
  uuid, ownership security and the shared client.  \<open>mg\<close> is the driver (\<open>MongoStore\<close>).
\<close>

section \<open>ReferenceValidation\<close>

record MissingIdentity =
  mi_resourceName :: string
  mi_identity :: DocumentIdentity

definition identity_json :: "DocumentIdentity \<Rightarrow> json" where
  "identity_json identity =
     JArr (map (\<lambda>element. JObj (concat (map (\<lambda>(k, v). case v of None \<Rightarrow> [] | Some j \<Rightarrow> [(k, j)]) element))) identity)"

definition missing_json :: "MissingIdentity list \<Rightarrow> json" where
  "missing_json failures =
     JArr (map (\<lambda>m. JObj [(''resourceName'', JStr (mi_resourceName m)), (''identity'', identity_json (mi_identity m))])
             failures)"

definition findReferencedMeadowlarkIdsByMeadowlarkId ::
  "'s mongo_ops \<Rightarrow> MeadowlarkId list \<Rightarrow> find_options \<Rightarrow> (MeadowlarkDocument list, 's) act" where
  "findReferencedMeadowlarkIdsByMeadowlarkId mg referenceMeadowlarkIds findOptions =
     mg_find mg findOptions (AliasIn referenceMeadowlarkIds)"

text \<open>\<open>R.difference\<close>: the elements of the first list that are not in the second, each once.\<close>

definition R_difference :: "'a list \<Rightarrow> 'a list \<Rightarrow> 'a list" where
  "R_difference xs ys = rev (remdups (rev (filter (\<lambda>x. x \<notin> set ys) xs)))"

fun index_of :: "'a \<Rightarrow> 'a list \<Rightarrow> nat" where
  "index_of x [] = 0"
| "index_of x (y # ys) = (if x = y then 0 else Suc (index_of x ys))"

definition alias_or_id :: "MeadowlarkDocument \<Rightarrow> MeadowlarkId" where
  "alias_or_id outRef =
     (case md_aliasMeadowlarkIds outRef of [] \<Rightarrow> md_id outRef | a # _ \<Rightarrow> a)"

definition findMissingReferences ::
  "MeadowlarkDocument list \<Rightarrow> MeadowlarkId list \<Rightarrow> DocumentReference list \<Rightarrow> MissingIdentity list res" where
  "findMissingReferences refsInDb documentOutboundRefs documentReferences =
     (let meadowlarkIdsOfRefsInDb = map alias_or_id refsInDb;
          outRefMeadowlarkIdsNotInDb = R_difference documentOutboundRefs meadowlarkIdsOfRefsInDb;
          arrayIndexesOfMissing = map (\<lambda>i. index_of i documentOutboundRefs) outRefMeadowlarkIdsNotInDb
      in res_map (\<lambda>n.
           if n < length documentReferences
           then Inr \<lparr>mi_resourceName = dr_resourceName (documentReferences ! n),
                     mi_identity = dr_documentIdentity (documentReferences ! n)\<rparr>
           else Inl (TypeError ''Cannot read properties of undefined (reading resourceName)'')) arrayIndexesOfMissing)"

definition missingOf ::
  "'s mongo_ops \<Rightarrow> find_options \<Rightarrow> DocumentReference list \<Rightarrow> (MissingIdentity list, 's) act" where
  "missingOf mg findOptions references =
     bnd (lift (res_map (getMeadowlarkIdForDocumentReference (mg_shake256 mg)) references)) (\<lambda>meadowlarkIds.
     bnd (findReferencedMeadowlarkIdsByMeadowlarkId mg meadowlarkIds findOptions) (\<lambda>inDb.
     lift (if length meadowlarkIds \<noteq> length inDb then findMissingReferences inDb meadowlarkIds references
           else Inr [])))"

definition validateReferences ::
  "'s mongo_ops \<Rightarrow> DocumentReference list \<Rightarrow> DocumentReference list \<Rightarrow> (MissingIdentity list, 's) act" where
  "validateReferences mg documentReferences descriptorReferences =
     bnd (missingOf mg onlyReturnAliasMeadowlarkId documentReferences) (\<lambda>missing.
     bnd (missingOf mg onlyReturnId descriptorReferences) (\<lambda>missingDescriptors.
     ret (missing @ missingDescriptors)))"

section \<open>Locking and blocking documents\<close>

definition lockDocuments :: "'s mongo_ops \<Rightarrow> DocumentUuid list \<Rightarrow> (unit, 's) act" where
  "lockDocuments mg concurrencyDocuments =
     bnd (mg_insertMany mg concurrencyDocuments) (\<lambda>_. mg_deleteMany mg concurrencyDocuments)"

text \<open>The documents a document refers to are read without the session.\<close>

definition lockWithReferenced ::
  "'s mongo_ops \<Rightarrow> MeadowlarkId list \<Rightarrow> DocumentUuid \<Rightarrow> (unit, 's) act" where
  "lockWithReferenced mg outboundRefs documentUuid =
     bnd (mg_find mg (no_session AllFields) (AliasIn outboundRefs)) (\<lambda>referringDocumentUuids.
     lockDocuments mg (map md_documentUuid referringDocumentUuids @ [documentUuid]))"

definition referringInfo :: "MeadowlarkDocument \<Rightarrow> ReferringDocumentInfo" where
  "referringInfo d = \<lparr>rdi_projectName = md_projectName d, rdi_resourceVersion = md_resourceVersion d,
     rdi_resourceName = md_resourceName d, rdi_documentUuid = md_documentUuid d, rdi_meadowlarkId = md_id d\<rparr>"

definition referringInfos ::
  "'s mongo_ops \<Rightarrow> MeadowlarkId list \<Rightarrow> (ReferringDocumentInfo list, 's) act" where
  "referringInfos mg aliasMeadowlarkIds =
     bnd (mg_find mg limitFive (onlyDocumentsReferencing aliasMeadowlarkIds)) (\<lambda>ds. ret (map referringInfo ds))"

section \<open>Upsert\<close>

definition subclass_conflict ::
  "'s mongo_ops \<Rightarrow> UpsertRequest \<Rightarrow> SuperclassInfo \<Rightarrow> (UpsertResult option, 's) act" where
  "subclass_conflict mg request superclassInfo =
     bnd (lift (getMeadowlarkIdForSuperclassInfo (mg_shake256 mg) superclassInfo)) (\<lambda>superclassAlias.
     bnd (mg_findOne mg (with_session AllFields) (AliasIs superclassAlias)) (\<lambda>inUse.
     ret (case inUse of
            None \<Rightarrow> None
          | Some d \<Rightarrow> Some (INSERT_FAILURE_CONFLICT
              (Some (JStr (''Insert failed: the identity is in use by '' @
                 quoted (bri_resourceName (ur_resourceInfo request)) @ '' which is also a(n) '' @
                 quoted (si_resourceName superclassInfo)))) [referringInfo d]))))"

definition upsert_reference_failure ::
  "'s mongo_ops \<Rightarrow> UpsertRequest \<Rightarrow> bool \<Rightarrow> (UpsertResult option, 's) act" where
  "upsert_reference_failure mg request isInsert =
     bnd (validateReferences mg (di_documentReferences (ur_documentInfo request))
            (di_descriptorReferences (ur_documentInfo request))) (\<lambda>failures.
     if failures = [] then ret None
     else
       bnd (referringInfos mg [ur_meadowlarkId request]) (\<lambda>info.
         (let m = Some (JObj [(''error'', JObj [(''message'', JStr ''Reference validation failed''),
                                               (''failures'', missing_json failures)])])
          in ret (Some (if isInsert then INSERT_FAILURE_REFERENCE m info
                        else UpsertResult.UPDATE_FAILURE_REFERENCE m info)))))"

definition upsertDocumentOf ::
  "'s mongo_ops \<Rightarrow> UpsertRequest \<Rightarrow> MeadowlarkDocument option \<Rightarrow> DocumentUuid \<Rightarrow> MeadowlarkDocument res" where
  "upsertDocumentOf mg request existingDocument documentUuid =
     (let timestamp = di_requestTimestamp (ur_documentInfo request);
          createdAt = (case existingDocument of None \<Rightarrow> timestamp
                       | Some d \<Rightarrow> (case md_createdAt d of None \<Rightarrow> timestamp | Some t \<Rightarrow> t))
      in meadowlarkDocumentFrom (mg_shake256 mg) (ur_resourceInfo request) (ur_documentInfo request) documentUuid
           (ur_meadowlarkId request) (ur_edfiDoc request) (ur_validateDocumentReferencesExist request)
           (sec_clientId (ur_security request)) (Some createdAt) timestamp)"

definition write_upsert ::
  "'s mongo_ops \<Rightarrow> UpsertRequest \<Rightarrow> MeadowlarkDocument option \<Rightarrow> MeadowlarkDocument option \<Rightarrow> DocumentUuid \<Rightarrow>
   (UpsertResult, 's) act" where
  "write_upsert mg request documentFromUpdate existingDocument documentUuid =
     bnd (case documentFromUpdate of
            Some d \<Rightarrow> ret d
          | None \<Rightarrow> lift (upsertDocumentOf mg request existingDocument documentUuid)) (\<lambda>document.
     bnd (lockWithReferenced mg (md_outboundRefs document) documentUuid) (\<lambda>_.
     bnd (mg_replaceOne mg (ById (ur_meadowlarkId request)) document) (\<lambda>result.
     ret (if \<not> wr_acknowledged result then UpsertResult.UNKNOWN_FAILURE None
          else if 0 < wr_upsertedCount result then INSERT_SUCCESS None documentUuid
          else if wr_modifiedCount result = 0 then UpsertResult.UNKNOWN_FAILURE None
          else UpsertResult.UPDATE_SUCCESS None documentUuid))))"

definition upsertDocumentTransaction ::
  "'s mongo_ops \<Rightarrow> UpsertRequest \<Rightarrow> MeadowlarkDocument option \<Rightarrow> (UpsertResult, 's) act" where
  "upsertDocumentTransaction mg request documentFromUpdate =
     bnd (mg_findOne mg onlyReturnDocumentUuidAndTimestamps (ById (ur_meadowlarkId request))) (\<lambda>existingDocument.
     if (case existingDocument of None \<Rightarrow> False
         | Some d \<Rightarrow> di_requestTimestamp (ur_documentInfo request) \<le> md_lastModifiedAt d)
     then ret (UPSERT_FAILURE_WRITE_CONFLICT None)
     else
       bnd (case existingDocument of Some d \<Rightarrow> ret (md_documentUuid d) | None \<Rightarrow> mg_generateDocumentUuid mg) (\<lambda>documentUuid.
       bnd (if existingDocument = None
            then (case di_superclassInfo (ur_documentInfo request) of
                    None \<Rightarrow> ret None | Some si \<Rightarrow> subclass_conflict mg request si)
            else ret None) (\<lambda>conflict.
       case conflict of Some failure \<Rightarrow> ret failure
       | None \<Rightarrow>
           bnd (if ur_validateDocumentReferencesExist request
                then upsert_reference_failure mg request (existingDocument = None) else ret None) (\<lambda>invalid.
           case invalid of Some failure \<Rightarrow> ret failure
           | None \<Rightarrow> write_upsert mg request documentFromUpdate existingDocument documentUuid))))"

definition upsert_succeeded :: "UpsertResult \<Rightarrow> bool" where
  "upsert_succeeded r =
     (case r of INSERT_SUCCESS _ _ \<Rightarrow> True | UpsertResult.UPDATE_SUCCESS _ _ \<Rightarrow> True | _ \<Rightarrow> False)"

text \<open>What the three operations share: the session, the transaction with retries that is aborted on a
  failure, and the result of a caught error.\<close>

definition in_session ::
  "'s mongo_ops \<Rightarrow> (ConfigValue \<Rightarrow> ('r, 's) act \<Rightarrow> ('r, 's) act) \<Rightarrow> ('r \<Rightarrow> bool) \<Rightarrow> (js_error \<Rightarrow> 'r) \<Rightarrow>
   ('r, 's) act \<Rightarrow> ('r, 's) act" where
  "in_session mg transact succeeded caught transaction =
     bnd (mg_startSession mg) (\<lambda>_.
     finally_do
       (try_catch
         (bnd (lift (config_get (mg_config mg) ''MONGODB_MAX_NUMBER_OF_RETRIES'')) (\<lambda>numberOfRetries.
          transact numberOfRetries
            (bnd transaction (\<lambda>result.
             if succeeded result then ret result else bnd (mg_abortTransaction mg) (\<lambda>_. ret result)))))
         (\<lambda>e. bnd (mg_abortTransaction mg) (\<lambda>_. ret (caught e))))
       (mg_endSession mg))"

definition write_conflict_message :: string where
  "write_conflict_message = ''Write conflict due to concurrent access to this or related resources''"

definition upsertDocument :: "'s mongo_ops \<Rightarrow> UpsertRequest \<Rightarrow> (UpsertResult, 's) act" where
  "upsertDocument mg upsertRequest =
     in_session mg (mg_transact_upsert mg) upsert_succeeded
       (\<lambda>e. if err_codeName e = Some ''WriteConflict''
            then UPSERT_FAILURE_WRITE_CONFLICT (Some (JStr write_conflict_message))
            else UpsertResult.UNKNOWN_FAILURE (Some (JStr (err_message e))))
       (upsertDocumentTransaction mg upsertRequest None)"

section \<open>Delete\<close>

definition checkForReferencesToDocument ::
  "'s mongo_ops \<Rightarrow> DocumentUuid \<Rightarrow> (DeleteResult option, 's) act" where
  "checkForReferencesToDocument mg documentUuid =
     bnd (mg_findOne mg onlyReturnAliasIds (ByUuid documentUuid)) (\<lambda>deleteCandidate.
     case deleteCandidate of
       None \<Rightarrow> ret (Some DELETE_FAILURE_NOT_EXISTS)
     | Some candidate \<Rightarrow>
         bnd (mg_findOne mg onlyReturnId (onlyDocumentsReferencing (md_aliasMeadowlarkIds candidate))) (\<lambda>anyReferences.
         case anyReferences of
           None \<Rightarrow> ret None
         | Some _ \<Rightarrow>
             bnd (referringInfos mg (md_aliasMeadowlarkIds candidate)) (\<lambda>info.
             ret (Some (DELETE_FAILURE_REFERENCE info)))))"

definition deleteDocumentByMeadowlarkIdTransaction ::
  "'s mongo_ops \<Rightarrow> DeleteRequest \<Rightarrow> (DeleteResult, 's) act" where
  "deleteDocumentByMeadowlarkIdTransaction mg request =
     bnd (if del_validateNoReferencesToDocument request
          then checkForReferencesToDocument mg (del_documentUuid request) else ret None) (\<lambda>blocked.
     case blocked of Some failure \<Rightarrow> ret failure
     | None \<Rightarrow>
         bnd (lockDocuments mg [del_documentUuid request]) (\<lambda>_.
         bnd (mg_deleteOne mg (ByUuid (del_documentUuid request))) (\<lambda>result.
         ret (if \<not> wr_acknowledged result then DeleteResult.UNKNOWN_FAILURE ''''
              else if wr_deletedCount result = 0 then DELETE_FAILURE_NOT_EXISTS
              else DELETE_SUCCESS))))"

definition deleteDocumentByDocumentUuid :: "'s mongo_ops \<Rightarrow> DeleteRequest \<Rightarrow> (DeleteResult, 's) act" where
  "deleteDocumentByDocumentUuid mg deleteRequest =
     in_session mg (mg_transact_delete mg) (\<lambda>r. r = DELETE_SUCCESS)
       (\<lambda>e. if err_codeName e = Some ''WriteConflict''
            then DELETE_FAILURE_WRITE_CONFLICT write_conflict_message
            else DeleteResult.UNKNOWN_FAILURE (err_message e))
       (deleteDocumentByMeadowlarkIdTransaction mg deleteRequest)"

section \<open>Update\<close>

text \<open>The fields that \<open>$set\<close> writes; the id, the uuid, the creator and the creation time stay.\<close>

definition set_fields :: "MeadowlarkDocument \<Rightarrow> MeadowlarkDocument \<Rightarrow> MeadowlarkDocument" where
  "set_fields document old = old\<lparr>md_documentIdentity := md_documentIdentity document,
     md_projectName := md_projectName document, md_resourceName := md_resourceName document,
     md_resourceVersion := md_resourceVersion document, md_isDescriptor := md_isDescriptor document,
     md_edfiDoc := md_edfiDoc document, md_aliasMeadowlarkIds := md_aliasMeadowlarkIds document,
     md_outboundRefs := md_outboundRefs document, md_validated := md_validated document,
     md_lastModifiedAt := md_lastModifiedAt document\<rparr>"

definition insertUpdatedDocument ::
  "'s mongo_ops \<Rightarrow> UpdateRequest \<Rightarrow> MeadowlarkDocument \<Rightarrow> (UpdateResult, 's) act" where
  "insertUpdatedDocument mg updateRequest document =
     bnd (upsertDocumentTransaction mg
            \<lparr>ur_meadowlarkId = ur_meadowlarkId updateRequest, ur_resourceInfo = ur_resourceInfo updateRequest,
             ur_documentInfo = ur_documentInfo updateRequest, ur_edfiDoc = ur_edfiDoc updateRequest,
             ur_validateDocumentReferencesExist = False, ur_security = ur_security updateRequest,
             ur_traceId = ur_traceId updateRequest\<rparr> (Some document)) (\<lambda>upsertResult.
     ret (case upsertResult of
            INSERT_SUCCESS _ _ \<Rightarrow> UpdateResult.UPDATE_SUCCESS None
          | UpsertResult.UPDATE_SUCCESS _ _ \<Rightarrow> UpdateResult.UPDATE_SUCCESS None
          | INSERT_FAILURE_REFERENCE _ info \<Rightarrow> UpdateResult.UPDATE_FAILURE_REFERENCE None info
          | UpsertResult.UPDATE_FAILURE_REFERENCE _ info \<Rightarrow> UpdateResult.UPDATE_FAILURE_REFERENCE None info
          | INSERT_FAILURE_CONFLICT _ info \<Rightarrow> UPDATE_FAILURE_CONFLICT None info
          | UPSERT_FAILURE_WRITE_CONFLICT m \<Rightarrow> UpdateResult.UNKNOWN_FAILURE m
          | UpsertResult.UNKNOWN_FAILURE m \<Rightarrow> UpdateResult.UNKNOWN_FAILURE m))"

definition tryUpdateByReplacement ::
  "'s mongo_ops \<Rightarrow> MeadowlarkDocument \<Rightarrow> UpdateRequest \<Rightarrow> (UpdateResult option, 's) act" where
  "tryUpdateByReplacement mg document updateRequest =
     bnd (mg_updateOne mg
            (IdUuidOlder (ur_meadowlarkId updateRequest) (upd_documentUuid updateRequest) (md_lastModifiedAt document))
            (set_fields document)) (\<lambda>result.
     ret (if \<not> wr_acknowledged result then Some (UpdateResult.UNKNOWN_FAILURE None)
          else if 0 < wr_matchedCount result then Some (UpdateResult.UPDATE_SUCCESS None)
          else None))"

text \<open>The lock, the try of a replacement, and the reasons why it did not match; \<open>otherwise\<close> goes on
  with the document that has the uuid.\<close>

definition replace_or ::
  "'s mongo_ops \<Rightarrow> MeadowlarkDocument \<Rightarrow> UpdateRequest \<Rightarrow> (MeadowlarkDocument \<Rightarrow> (UpdateResult, 's) act) \<Rightarrow>
   (UpdateResult, 's) act" where
  "replace_or mg document updateRequest otherwise =
     bnd (lockWithReferenced mg (md_outboundRefs document) (upd_documentUuid updateRequest)) (\<lambda>_.
     bnd (tryUpdateByReplacement mg document updateRequest) (\<lambda>replaced.
     case replaced of Some result \<Rightarrow> ret result
     | None \<Rightarrow>
         bnd (mg_findOne mg onlyReturnTimestamps (ByUuid (upd_documentUuid updateRequest))) (\<lambda>documentByUuid.
         case documentByUuid of
           None \<Rightarrow> ret (UPDATE_FAILURE_NOT_EXISTS None)
         | Some d \<Rightarrow>
             if md_lastModifiedAt document \<le> md_lastModifiedAt d then ret (UPDATE_FAILURE_WRITE_CONFLICT None)
             else otherwise d)))"

definition updateAllowingIdentityChange ::
  "'s mongo_ops \<Rightarrow> MeadowlarkDocument \<Rightarrow> UpdateRequest \<Rightarrow> (UpdateResult, 's) act" where
  "updateAllowingIdentityChange mg document updateRequest =
     replace_or mg document updateRequest (\<lambda>documentByUuid.
       bnd (deleteDocumentByMeadowlarkIdTransaction mg
              \<lparr>del_documentUuid = upd_documentUuid updateRequest, del_resourceInfo = ur_resourceInfo updateRequest,
               del_validateNoReferencesToDocument = True, del_security = ur_security updateRequest,
               del_traceId = ur_traceId updateRequest\<rparr>) (\<lambda>deleteResult.
       case deleteResult of
         DELETE_SUCCESS \<Rightarrow>
           insertUpdatedDocument mg updateRequest (document\<lparr>md_createdAt := md_createdAt documentByUuid\<rparr>)
       | DELETE_FAILURE_NOT_EXISTS \<Rightarrow>
           ret (UpdateResult.UNKNOWN_FAILURE (Some (JStr (''Document uuid '' @ upd_documentUuid updateRequest @
             '' should have been found but was not''))))
       | DELETE_FAILURE_REFERENCE _ \<Rightarrow> ret UPDATE_CASCADE_REQUIRED
       | DELETE_FAILURE_WRITE_CONFLICT m \<Rightarrow> ret (UpdateResult.UNKNOWN_FAILURE (Some (JStr m)))
       | DeleteResult.UNKNOWN_FAILURE m \<Rightarrow> ret (UpdateResult.UNKNOWN_FAILURE (Some (JStr m)))))"

definition updateDisallowingIdentityChange ::
  "'s mongo_ops \<Rightarrow> MeadowlarkDocument \<Rightarrow> UpdateRequest \<Rightarrow> (UpdateResult, 's) act" where
  "updateDisallowingIdentityChange mg document updateRequest =
     replace_or mg document updateRequest (\<lambda>_. ret (UPDATE_FAILURE_IMMUTABLE_IDENTITY None))"

definition checkForInvalidReferences ::
  "'s mongo_ops \<Rightarrow> UpdateRequest \<Rightarrow> (UpdateResult option, 's) act" where
  "checkForInvalidReferences mg updateRequest =
     bnd (validateReferences mg (di_documentReferences (ur_documentInfo updateRequest))
            (di_descriptorReferences (ur_documentInfo updateRequest))) (\<lambda>failures.
     if failures = [] then ret None
     else
       bnd (referringInfos mg [ur_meadowlarkId updateRequest]) (\<lambda>info.
       ret (Some (UpdateResult.UPDATE_FAILURE_REFERENCE
         (Some (JObj [(''message'', JStr ''Reference validation failed''), (''failures'', missing_json failures)]))
         info))))"

definition updateDocumentByDocumentUuidTransaction ::
  "'s mongo_ops \<Rightarrow> UpdateRequest \<Rightarrow> (UpdateResult, 's) act" where
  "updateDocumentByDocumentUuidTransaction mg updateRequest =
     bnd (if ur_validateDocumentReferencesExist updateRequest
          then checkForInvalidReferences mg updateRequest else ret None) (\<lambda>invalid.
     case invalid of Some failure \<Rightarrow> ret failure
     | None \<Rightarrow>
         bnd (lift (meadowlarkDocumentFrom (mg_shake256 mg) (ur_resourceInfo updateRequest) (ur_documentInfo updateRequest)
                (upd_documentUuid updateRequest) (ur_meadowlarkId updateRequest) (ur_edfiDoc updateRequest)
                (ur_validateDocumentReferencesExist updateRequest) (sec_clientId (ur_security updateRequest)) None
                (di_requestTimestamp (ur_documentInfo updateRequest)))) (\<lambda>document.
         if ri_allowIdentityUpdates (ur_resourceInfo updateRequest)
         then updateAllowingIdentityChange mg document updateRequest
         else updateDisallowingIdentityChange mg document updateRequest))"

definition update_succeeded :: "UpdateResult \<Rightarrow> bool" where
  "update_succeeded r = (case r of UpdateResult.UPDATE_SUCCESS _ \<Rightarrow> True | _ \<Rightarrow> False)"

definition updateDocumentByDocumentUuid :: "'s mongo_ops \<Rightarrow> UpdateRequest \<Rightarrow> (UpdateResult, 's) act" where
  "updateDocumentByDocumentUuid mg updateRequest =
     in_session mg (mg_transact_update mg) update_succeeded
       (\<lambda>e. if err_codeName e = Some ''WriteConflict''
            then UPDATE_FAILURE_WRITE_CONFLICT (Some (JStr (write_conflict_message @ ''.'')))
            else UpdateResult.UNKNOWN_FAILURE (Some (JStr (err_message e))))
       (updateDocumentByDocumentUuidTransaction mg updateRequest)"

section \<open>Get\<close>

definition getDocumentByDocumentUuid :: "'s mongo_ops \<Rightarrow> GetRequest \<Rightarrow> (GetResult, 's) act" where
  "getDocumentByDocumentUuid mg request =
     (let failed = (\<lambda>r. ret \<lparr>gr_response = r, gr_documentUuid = get_documentUuid request, gr_edfiDoc = JObj [],
                              gr_lastModifiedDate = 0, gr_failureMessage = None\<rparr>)
      in try_catch
           (bnd (mg_findOne mg (no_session AllFields) (ByUuid (get_documentUuid request))) (\<lambda>result.
            case result of
              None \<Rightarrow> failed GET_FAILURE_NOT_EXISTS
            | Some d \<Rightarrow> ret \<lparr>gr_response = GET_SUCCESS, gr_documentUuid = get_documentUuid request,
                gr_edfiDoc = md_edfiDoc d, gr_lastModifiedDate = md_lastModifiedAt d, gr_failureMessage = None\<rparr>))
           (\<lambda>_. failed GetResponse.UNKNOWN_FAILURE))"

section \<open>OwnershipSecurity and SecurityMiddleware\<close>

definition extractMeadowlarkIdIfUpsert :: "'s mongo_ops \<Rightarrow> FrontendRequest \<Rightarrow> MeadowlarkId option res" where
  "extractMeadowlarkIdIfUpsert mg frontendRequest =
     (if fr_action frontendRequest \<noteq> upsert then Inr None
      else res_bind (meadowlarkIdForDocumentIdentity (mg_shake256 mg) (mw_resourceInfo (fr_middleware frontendRequest))
             (di_documentIdentity (mw_documentInfo (fr_middleware frontendRequest)))) (\<lambda>i. Inr (Some i)))"

definition rejectByOwnershipSecurity ::
  "'s mongo_ops \<Rightarrow> FrontendRequest \<Rightarrow> (SecurityResult, 's) act" where
  "rejectByOwnershipSecurity mg frontendRequest =
     (let m = fr_middleware frontendRequest;
          decide = (\<lambda>result. case result of
              None \<Rightarrow> NOT_APPLICABLE
            | Some d \<Rightarrow> if md_createdBy d = sec_clientId (securityOf (mw_security m)) then ACCESS_APPROVED
                        else ACCESS_DENIED)
      in if bri_isDescriptor (mw_resourceInfo m) \<and>
            (fr_action frontendRequest = getById \<or> fr_action frontendRequest = query)
         then ret NOT_APPLICABLE
         else
           try_catch
             (case pc_documentUuid (mw_pathComponents m) of
                Some documentUuid \<Rightarrow>
                  bnd (mg_findOne mg (no_session AllFields) (ByUuid documentUuid)) (\<lambda>result. ret (decide result))
              | None \<Rightarrow>
                  bnd (lift (extractMeadowlarkIdIfUpsert mg frontendRequest)) (\<lambda>meadowlarkId.
                  case meadowlarkId of
                    None \<Rightarrow> ret NOT_APPLICABLE
                  | Some i \<Rightarrow>
                      bnd (mg_findOne mg (no_session AllFields) (ById i)) (\<lambda>result. ret (decide result))))
             (\<lambda>_. ret SecurityResult.UNKNOWN_FAILURE))"

definition securityMiddleware :: "'s mongo_ops \<Rightarrow> 's middleware" where
  "securityMiddleware mg = (\<lambda>(frontendRequest, frontendResponse).
     if frontendResponse \<noteq> None then ret (frontendRequest, frontendResponse)
     else if sec_authorizationStrategy (securityOf (mw_security (fr_middleware frontendRequest))) \<noteq> OWNERSHIP_BASED
     then ret (frontendRequest, None)
     else
       bnd (rejectByOwnershipSecurity mg frontendRequest) (\<lambda>securityResult.
       let denied = (\<lambda>n. \<lparr>resp_statusCode = n, resp_headers = Some [], resp_body = Some (JStr '''')\<rparr>) in
       ret (frontendRequest,
         (case securityResult of
            ACCESS_APPROVED \<Rightarrow> None
          | NOT_APPLICABLE \<Rightarrow> None
          | SecurityResult.UNKNOWN_FAILURE \<Rightarrow> Some (denied 500)
          | ACCESS_DENIED \<Rightarrow> Some (denied 403)))))"

section \<open>Db and BackendFacade\<close>

text \<open>The state of the plugin: whether the shared client is there, and the state of the driver.\<close>

type_synonym 's client_state = "bool \<times> 's"

definition getNewClient :: "'s mongo_ops \<Rightarrow> (unit, 's) act" where
  "getNewClient mg =
     (let get = (\<lambda>k. lift (config_get (mg_config mg) k)) in
      bnd (get ''MONGO_URI'') (\<lambda>mongoUrl.
      bnd (get ''MEADOWLARK_DATABASE_NAME'') (\<lambda>databaseName.
      bnd (get ''MONGO_WRITE_CONCERN'') (\<lambda>writeConcern.
      bnd (get ''MONGO_READ_CONCERN'') (\<lambda>readConcern.
      bnd (mg_connect mg mongoUrl writeConcern readConcern) (\<lambda>_.
      bnd (mg_createIndex mg databaseName ''documents'' ''documentUuid'') (\<lambda>_.
      bnd (mg_createIndex mg databaseName ''documents'' ''outboundRefs'') (\<lambda>_.
      bnd (mg_createIndex mg databaseName ''documents'' ''aliasMeadowlarkIds'') (\<lambda>_.
      bnd (mg_createIndex mg databaseName ''authorizations'' ''clientName'') (\<lambda>_.
      mg_createIndex mg databaseName ''concurrency'' ''_id''))))))))))"

definition on_client :: "('a, 's) act \<Rightarrow> ('a, 's client_state) act" where
  "on_client m = (\<lambda>(c, s). case m s of (r, s') \<Rightarrow> (r, (c, s')))"

definition getSharedClient :: "'s mongo_ops \<Rightarrow> (unit, 's client_state) act" where
  "getSharedClient mg = (\<lambda>(c, s).
     if c then (Inr (), (c, s))
     else case getNewClient mg s of
            (Inl e, s') \<Rightarrow> (Inl e, (c, s'))
          | (Inr _, s') \<Rightarrow> (Inr (), (True, s')))"

definition closeSharedConnection :: "'s mongo_ops \<Rightarrow> (unit, 's client_state) act" where
  "closeSharedConnection mg = (\<lambda>(c, s).
     if \<not> c then (Inr (), (False, s))
     else case mg_close mg s of
            (Inl e, s') \<Rightarrow> (Inl e, (c, s'))
          | (Inr _, s') \<Rightarrow> (Inr (), (False, s')))"

definition with_client :: "'s mongo_ops \<Rightarrow> ('a, 's) act \<Rightarrow> ('a, 's client_state) act" where
  "with_client mg m = bnd (getSharedClient mg) (\<lambda>_. on_client m)"

definition initializeDocumentStore :: "'s mongo_ops \<Rightarrow> 's client_state DocumentStorePlugin" where
  "initializeDocumentStore mg = \<lparr>
     dsp_upsertDocument = (\<lambda>request. with_client mg (upsertDocument mg request)),
     dsp_getDocumentById = (\<lambda>request. with_client mg (getDocumentByDocumentUuid mg request)),
     dsp_updateDocumentById = (\<lambda>request. with_client mg (updateDocumentByDocumentUuid mg request)),
     dsp_deleteDocumentById = (\<lambda>request. with_client mg (deleteDocumentByDocumentUuid mg request)),
     dsp_securityMiddleware = (\<lambda>model. with_client mg (securityMiddleware mg model)),
     dsp_closeConnection = closeSharedConnection mg\<rparr>"

end
