(* ===== verification/MongoAuthorization.thy ===== *)
theory MongoAuthorization
  imports AuthzServer MongoRepository
begin

text \<open>
  The authorization clients of the MongoDB backend (\<open>repository/authorization\<close>,
  \<open>model/AuthorizationDocument.ts\<close>).  \<open>auth_ops\<close> is what the code uses of the driver; the locale
  \<open>mongo_authorizations\<close> states its documented behaviour over the map \<open>clients\<close> of the collection.
  A transaction function assigns the response to a variable outside of it, so a transaction gives the
  responses assigned by its runs besides the error it may throw.
\<close>

section \<open>Documents\<close>

record AuthorizationDocument =
  ad_id :: string
  ad_clientSecretHashed :: string
  ad_clientName :: json
  ad_roles :: json
  ad_isBootstrapAdmin :: bool
  ad_active :: json

text \<open>The driver stores \<open>undefined\<close> as null.\<close>

definition bson :: "json option \<Rightarrow> json" where
  "bson v = (case v of None \<Rightarrow> JNull | Some j \<Rightarrow> j)"

definition authorizationDocumentFromCreate :: "CreateAuthorizationClientRequest \<Rightarrow> bool \<Rightarrow> AuthorizationDocument" where
  "authorizationDocumentFromCreate request isBootstrapAdmin =
     \<lparr>ad_id = car_clientId request, ad_clientSecretHashed = car_clientSecretHashed request,
      ad_clientName = bson (car_clientName request), ad_roles = bson (car_roles request),
      ad_isBootstrapAdmin = isBootstrapAdmin, ad_active = car_active request\<rparr>"

definition bootstrapAdminDocumentFromCreate :: "CreateAuthorizationClientRequest \<Rightarrow> AuthorizationDocument" where
  "bootstrapAdminDocumentFromCreate request = authorizationDocumentFromCreate request True"

section \<open>The driver\<close>

type_synonym client_map = "string \<Rightarrow> AuthorizationDocument option"

text \<open>\<open>am_withTransaction body\<close>: the error it throws, if any, and the responses its runs assigned, in order.\<close>

record 's auth_ops =
  am_findOne :: "json option \<Rightarrow> (AuthorizationDocument option, 's) act"
  am_findAll :: "(AuthorizationDocument list, 's) act"
  am_replaceOne :: "string \<Rightarrow> AuthorizationDocument \<Rightarrow> (write_result, 's) act"
  am_updateOne :: "string option \<Rightarrow> (AuthorizationDocument \<Rightarrow> AuthorizationDocument) \<Rightarrow> (write_result, 's) act"
  am_insertUnlessBootstrapped :: "AuthorizationDocument \<Rightarrow> (write_result, 's) act"
  am_startSession :: "(unit, 's) act"
  am_withTransaction :: "(string option, 's) act \<Rightarrow> 's \<Rightarrow> (js_error option \<times> string list) \<times> 's"
  am_endSession :: "(unit, 's) act"

section \<open>Operations\<close>

text \<open>What the writing operations share: the variable starts with \<open>UNKNOWN_FAILURE\<close>, errors are caught, the
  session is ended, and the last assigned value is the result.\<close>

definition in_auth_session :: "'s auth_ops \<Rightarrow> (string option, 's) act \<Rightarrow> (string, 's) act" where
  "in_auth_session am body = (\<lambda>s.
     case am_startSession am s of
       (Inl e, s1) \<Rightarrow> (Inr ''UNKNOWN_FAILURE'', s1)
     | (Inr _, s1) \<Rightarrow>
         (case am_withTransaction am body s1 of
            ((_, assigned), s2) \<Rightarrow>
              (case am_endSession am s2 of
                 (Inl e, s3) \<Rightarrow> (Inl e, s3)
               | (Inr _, s3) \<Rightarrow> (Inr (last (''UNKNOWN_FAILURE'' # assigned)), s3))))"

definition createAuthorizationClientDocument ::
  "'s auth_ops \<Rightarrow> CreateAuthorizationClientRequest \<Rightarrow> (CreateAuthorizationClientResult, 's) act" where
  "createAuthorizationClientDocument am request =
     bnd (in_auth_session am
       (bnd (am_replaceOne am (car_clientId request) (authorizationDocumentFromCreate request False)) (\<lambda>result.
        ret (if wr_acknowledged result then Some ''CREATE_SUCCESS'' else None)))) (\<lambda>response.
     ret (if response = ''CREATE_SUCCESS'' then CreateAuthorizationClientResult.CREATE_SUCCESS
          else CreateAuthorizationClientResult.UNKNOWN_FAILURE))"

definition tryCreateBootstrapAuthorizationAdminDocument ::
  "'s auth_ops \<Rightarrow> CreateAuthorizationClientRequest \<Rightarrow> (TryCreateBootstrapAuthorizationAdminResult, 's) act" where
  "tryCreateBootstrapAuthorizationAdminDocument am request =
     bnd (in_auth_session am
       (bnd (am_insertUnlessBootstrapped am (bootstrapAdminDocumentFromCreate request)) (\<lambda>result.
        ret (if \<not> wr_acknowledged result then None
             else if wr_upsertedCount result = 1 then Some ''CREATE_SUCCESS''
             else Some ''CREATE_FAILURE_ALREADY_EXISTS'')))) (\<lambda>response.
     ret (if response = ''CREATE_SUCCESS'' then TryCreateBootstrapAuthorizationAdminResult.CREATE_SUCCESS
          else if response = ''CREATE_FAILURE_ALREADY_EXISTS'' then CREATE_FAILURE_ALREADY_EXISTS
          else TryCreateBootstrapAuthorizationAdminResult.UNKNOWN_FAILURE))"

definition getAuthorizationClientDocument ::
  "'s auth_ops \<Rightarrow> json option \<Rightarrow> (GetAuthorizationClientResult, 's) act" where
  "getAuthorizationClientDocument am clientId =
     try_catch
       (bnd (am_findOne am clientId) (\<lambda>result.
        ret (case result of
               None \<Rightarrow> GetAuthorizationClientResult.GET_FAILURE_NOT_EXISTS
             | Some d \<Rightarrow> GetAuthorizationClientResult.GET_SUCCESS (ad_clientSecretHashed d) (ad_clientName d)
                 (ad_active d) (ad_roles d))))
       (\<lambda>_. ret GetAuthorizationClientResult.UNKNOWN_FAILURE)"

text \<open>\<open>toArray\<close> never gives null.\<close>

definition getAllAuthorizationClientDocuments ::
  "'s auth_ops \<Rightarrow> (GetAllAuthorizationClientsResult, 's) act" where
  "getAllAuthorizationClientDocuments am =
     try_catch
       (bnd (am_findAll am) (\<lambda>result.
        ret (GetAllAuthorizationClientsResult.GET_SUCCESS (map (\<lambda>x. \<lparr>gcb_clientId = ad_id x,
          gcb_clientName = ad_clientName x, gcb_active = ad_active x, gcb_roles = ad_roles x\<rparr>) result))))
       (\<lambda>_. ret GetAllAuthorizationClientsResult.UNKNOWN_FAILURE)"

definition update_client ::
  "UpdateAuthorizationClientRequest \<Rightarrow> AuthorizationDocument \<Rightarrow> AuthorizationDocument" where
  "update_client request d = d\<lparr>ad_clientName := bson (uar_clientName request), ad_roles := bson (uar_roles request),
     ad_active := bson (uar_active request)\<rparr>"

definition matched_response :: "string \<Rightarrow> string \<Rightarrow> write_result \<Rightarrow> string option" where
  "matched_response success notExists result =
     (if wr_acknowledged result \<and> wr_matchedCount result = 0 then Some notExists
      else if wr_acknowledged result then Some success else None)"

definition updateAuthorizationClientDocument ::
  "'s auth_ops \<Rightarrow> UpdateAuthorizationClientRequest \<Rightarrow> (UpdateAuthorizationClientResult, 's) act" where
  "updateAuthorizationClientDocument am request =
     bnd (in_auth_session am
       (bnd (am_updateOne am (uar_clientId request) (update_client request)) (\<lambda>result.
        ret (matched_response ''UPDATE_SUCCESS'' ''UPDATE_FAILED_NOT_EXISTS'' result)))) (\<lambda>response.
     ret (if response = ''UPDATE_SUCCESS'' then UpdateAuthorizationClientResult.UPDATE_SUCCESS
          else if response = ''UPDATE_FAILED_NOT_EXISTS'' then UPDATE_FAILED_NOT_EXISTS
          else UpdateAuthorizationClientResult.UNKNOWN_FAILURE))"

definition resetAuthorizationClientSecretDocument ::
  "'s auth_ops \<Rightarrow> ResetAuthorizationClientSecretRequest \<Rightarrow> (ResetAuthorizationClientSecretResult, 's) act" where
  "resetAuthorizationClientSecretDocument am request =
     bnd (in_auth_session am
       (bnd (am_updateOne am (rar_clientId request) (\<lambda>d. d\<lparr>ad_clientSecretHashed := rar_clientSecretHashed request\<rparr>))
         (\<lambda>result. ret (matched_response ''RESET_SUCCESS'' ''RESET_FAILED_NOT_EXISTS'' result)))) (\<lambda>response.
     ret (if response = ''RESET_SUCCESS'' then RESET_SUCCESS
          else if response = ''RESET_FAILED_NOT_EXISTS'' then RESET_FAILED_NOT_EXISTS
          else ResetAuthorizationClientSecretResult.UNKNOWN_FAILURE))"

definition initializeAuthorizationStore ::
  "'s mongo_ops \<Rightarrow> 's auth_ops \<Rightarrow> 's client_state AuthorizationStorePlugin" where
  "initializeAuthorizationStore mg am = \<lparr>
     asp_createAuthorizationClient = (\<lambda>request. with_client mg (createAuthorizationClientDocument am request)),
     asp_tryCreateBootstrapAuthorizationAdmin =
       (\<lambda>request. with_client mg (tryCreateBootstrapAuthorizationAdminDocument am request)),
     asp_getAllAuthorizationClients = with_client mg (getAllAuthorizationClientDocuments am),
     asp_getAuthorizationClient = (\<lambda>clientId. with_client mg (getAuthorizationClientDocument am clientId)),
     asp_updateAuthorizationClient = (\<lambda>request. with_client mg (updateAuthorizationClientDocument am request)),
     asp_resetAuthorizationClientSecret = (\<lambda>request. with_client mg (resetAuthorizationClientSecretDocument am request))\<rparr>"

section \<open>The laws\<close>

text \<open>A transaction that throws no error has committed one run of its body, and the value assigned last is that of
  this run.  One that throws is rolled back, or committed without the client having learned it.\<close>

definition auth_txn_outcome ::
  "('s \<Rightarrow> client_map) \<Rightarrow> (string option, 's) act \<Rightarrow> 's \<Rightarrow> js_error option \<Rightarrow> string list \<Rightarrow> 's \<Rightarrow> bool" where
  "auth_txn_outcome clients body s err assigned s' \<longleftrightarrow>
     (\<forall>x \<in> set assigned. \<exists>s0 s1. clients s0 = clients s \<and> body s0 = (Inr (Some x), s1)) \<and>
     (err \<noteq> None \<and> clients s' = clients s \<or>
      (\<exists>s0 s1 q. clients s0 = clients s \<and> body s0 = (Inr q, s1) \<and> clients s' = clients s1 \<and>
         (\<forall>x. err = None \<longrightarrow> q = Some x \<longrightarrow> assigned \<noteq> [] \<and> last assigned = x)))"

locale mongo_authorizations =
  fixes mg :: "'s mongo_ops" and am :: "'s auth_ops" and clients :: "'s \<Rightarrow> client_map"
  assumes keyed: "clients s c = Some d \<Longrightarrow> ad_id d = c"
    and connect_frame: "preserves clients (mg_connect mg url w rc)"
    and createIndex_frame: "preserves clients (mg_createIndex mg db collection field)"
    and session_frame: "preserves clients (am_startSession am)" "preserves clients (am_endSession am)"
    and findOne_law: "am_findOne am i s = (q, s') \<Longrightarrow> clients s' = clients s \<and>
      (\<forall>d. q = Inr (Some d) \<longrightarrow> (\<exists>c. (\<forall>j. i = Some (JStr j) \<longrightarrow> c = j) \<and> clients s c = Some d))"
    and findAll_law: "am_findAll am s = (qs, s') \<Longrightarrow> clients s' = clients s \<and>
      (\<forall>ds. qs = Inr ds \<longrightarrow> set ds = ran (clients s))"
    and replaceOne_law: "am_replaceOne am c d s = (Inr wr, s') \<Longrightarrow> ad_id d = c \<Longrightarrow>
      (wr_acknowledged wr \<longrightarrow> clients s' = (clients s)(c \<mapsto> d)) \<and>
      (clients s' = clients s \<or> clients s' = (clients s)(c \<mapsto> d))"
    and updateOne_law: "am_updateOne am ci upd s = (Inr wr, s') \<Longrightarrow> (\<And>e. ad_id (upd e) = ad_id e) \<Longrightarrow>
      (case Option.bind ci (clients s) of
         None \<Rightarrow> clients s' = clients s \<and> wr_matchedCount wr = 0
       | Some d \<Rightarrow> (wr_acknowledged wr \<longrightarrow> clients s' = (clients s)(the ci \<mapsto> upd d) \<and> wr_matchedCount wr = 1) \<and>
                   (clients s' = clients s \<or> clients s' = (clients s)(the ci \<mapsto> upd d)))"
    and insert_law: "am_insertUnlessBootstrapped am d s = (Inr wr, s') \<Longrightarrow>
      (if \<exists>c e. clients s c = Some e \<and> ad_isBootstrapAdmin e
       then clients s' = clients s \<and> wr_upsertedCount wr = 0
       else (wr_acknowledged wr \<longrightarrow> clients s' = (clients s)(ad_id d \<mapsto> d) \<and> wr_upsertedCount wr = 1) \<and>
            (clients s' = clients s \<or> clients s' = (clients s)(ad_id d \<mapsto> d)))"
    and transaction_law: "am_withTransaction am body s = ((err, assigned), s') \<Longrightarrow>
      auth_txn_outcome clients body s err assigned s'"

section \<open>The contract of an authorization store\<close>

definition registered_of :: "client_map \<Rightarrow> string \<Rightarrow> registered_client option" where
  "registered_of D c = map_option (\<lambda>d. (ad_clientSecretHashed d, ad_clientName d, ad_active d, ad_roles d)) (D c)"

definition admins_of :: "client_map \<Rightarrow> string set" where
  "admins_of D = {c. \<exists>d. D c = Some d \<and> ad_isBootstrapAdmin d}"

lemma registered_of_update:
  "registered_of (D(c \<mapsto> d)) =
   (registered_of D)(c \<mapsto> (ad_clientSecretHashed d, ad_clientName d, ad_active d, ad_roles d))"
  by (rule ext) (simp add: registered_of_def)

lemma admins_of_update:
  "admins_of (D(c \<mapsto> d)) = (if ad_isBootstrapAdmin d then insert c (admins_of D) else admins_of D - {c})"
  by (auto simp: admins_of_def)

lemma create_requested:
  "requested_client request (ad_clientSecretHashed d, ad_clientName d, ad_active d, ad_roles d)"
  if "d = authorizationDocumentFromCreate request b"
  using that by (simp add: requested_client_def authorizationDocumentFromCreate_def bson_def)

context mongo_authorizations
begin

lemma client_frame: "preserves clients (getNewClient mg)"
  unfolding getNewClient_def Let_def by (intro frame_intros connect_frame createIndex_frame)

lemma with_client_clients:
  assumes "with_client mg m t = (r, t')"
  obtains (failed) e where "r = Inl e" "clients (snd t') = clients (snd t)"
  | (ran) s where "clients s = clients (snd t)" "m s = (r, snd t')"
proof (cases "fst t")
  case True
  then show thesis using assms ran [of "snd t"]
    by (cases t) (auto simp: with_client_def getSharedClient_def on_client_def act_simps split: prod.splits)
next
  case False
  obtain q s1 where new: "getNewClient mg (snd t) = (q, s1)" by (cases "getNewClient mg (snd t)")
  have "clients s1 = clients (snd t)" using preserves_run [OF client_frame new] .
  then show thesis using assms False new failed ran [of s1]
    by (cases t; cases q) (auto simp: with_client_def getSharedClient_def on_client_def act_simps split: prod.splits)
qed

text \<open>What a writing operation does: nothing, or what one run of its write does.\<close>

lemma in_auth_session_run:
  assumes "in_auth_session am (bnd op (\<lambda>wr. ret (f wr))) s = (r, s')"
  obtains (none) "clients s' = clients s"
  | (wrote) s0 s1 wr where "clients s0 = clients s" "op s0 = (Inr wr, s1)" "clients s' = clients s1"
proof -
  obtain q s1 where start: "am_startSession am s = (q, s1)" by (cases "am_startSession am s")
  have c1: "clients s1 = clients s" using preserves_run [OF session_frame(1) start] .
  show thesis
  proof (cases q)
    case (Inl e)
    then show thesis using assms start c1 none by (simp add: in_auth_session_def)
  next
    case (Inr v)
    obtain err assigned s2 where txn: "am_withTransaction am (bnd op (\<lambda>wr. ret (f wr))) s1 = ((err, assigned), s2)"
      by (metis prod.collapse)
    have "clients s' = clients s2"
      using assms start Inr txn preserves_run [OF session_frame(2)]
      by (auto simp: in_auth_session_def split: prod.splits sum.splits)
    moreover have "clients s2 = clients s1 \<or> (\<exists>s0 s3 q. clients s0 = clients s1 \<and>
        bnd op (\<lambda>wr. ret (f wr)) s0 = (Inr q, s3) \<and> clients s2 = clients s3)"
      using transaction_law [OF txn] unfolding auth_txn_outcome_def by metis
    ultimately consider "clients s' = clients s"
      | s0 s3 q where "clients s0 = clients s" "bnd op (\<lambda>wr. ret (f wr)) s0 = (Inr q, s3)" "clients s' = clients s3"
      using c1 by auto
    then show thesis
    proof cases
      case (2 s0 s3 q)
      from 2(2) obtain wr s4 where "op s0 = (Inr wr, s4)" "ret (f wr) s4 = (Inr q, s3)" by (rule bnd_InrE)
      then show thesis using 2 wrote by (simp add: ret_def)
    qed (rule none)
  qed
qed

lemma write_run:
  assumes "with_client mg (bnd (in_auth_session am (bnd op (\<lambda>wr. ret (f wr)))) (\<lambda>x. ret (g x))) t = (r, t')"
  obtains (none) "clients (snd t') = clients (snd t)"
  | (wrote) s0 s1 wr where "clients s0 = clients (snd t)" "op s0 = (Inr wr, s1)" "clients (snd t') = clients s1"
  using assms
proof (cases rule: with_client_clients)
  case (failed e)
  then show thesis using none by blast
next
  case (ran s)
  then obtain x where "in_auth_session am (bnd op (\<lambda>wr. ret (f wr))) s = (x, snd t')"
    by (auto simp: act_simps split: prod.splits sum.splits)
  then show thesis using ran none wrote by (cases rule: in_auth_session_run) auto
qed

lemma found_client:
  "Option.bind ci (clients s) = Some d \<Longrightarrow> \<exists>c. ci = Some c \<and> clients s c = Some d"
  by (cases ci) auto

text \<open>A write of a known client.\<close>

lemma update_run:
  assumes "am_updateOne am ci upd s = (Inr wr, s')" "\<And>e. ad_id (upd e) = ad_id e"
  shows "clients s' = clients s \<or> (\<exists>c d. ci = Some c \<and> clients s c = Some d \<and> clients s' = (clients s)(c \<mapsto> upd d))"
  using updateOne_law [OF assms(1)] assms(2) found_client [of ci s] by (cases "Option.bind ci (clients s)") auto

lemma get_client:
  assumes "asp_getAuthorizationClient (initializeAuthorizationStore mg am) i t = (r, t')"
  shows "clients (snd t') = clients (snd t)"
    and "\<forall>h n a ro. r = Inr (GetAuthorizationClientResult.GET_SUCCESS h n a ro) \<longrightarrow>
      (\<exists>c. (\<forall>j. i = Some (JStr j) \<longrightarrow> c = j) \<and> registered_of (clients (snd t)) c = Some (h, n, a, ro))"
proof -
  have run: "with_client mg (getAuthorizationClientDocument am i) t = (r, t')"
    using assms by (simp add: initializeAuthorizationStore_def)
  show "clients (snd t') = clients (snd t)" using run
  proof (cases rule: with_client_clients)
    case (ran s)
    obtain q s1 where q: "am_findOne am i s = (q, s1)" by (cases "am_findOne am i s")
    then show ?thesis using ran findOne_law [OF q]
      by (cases q) (auto simp: getAuthorizationClientDocument_def act_simps)
  qed
  show "\<forall>h n a ro. r = Inr (GetAuthorizationClientResult.GET_SUCCESS h n a ro) \<longrightarrow>
      (\<exists>c. (\<forall>j. i = Some (JStr j) \<longrightarrow> c = j) \<and> registered_of (clients (snd t)) c = Some (h, n, a, ro))"
    using run
  proof (cases rule: with_client_clients)
    case (ran s)
    obtain q s1 where q: "am_findOne am i s = (q, s1)" by (cases "am_findOne am i s")
    then show ?thesis using ran findOne_law [OF q]
      by (cases q) (auto simp: getAuthorizationClientDocument_def act_simps registered_of_def split: option.splits)
  qed simp
qed

lemma create_run:
  assumes "asp_createAuthorizationClient (initializeAuthorizationStore mg am) request t = (r, t')"
  shows "clients (snd t') = clients (snd t) \<or>
    clients (snd t') = (clients (snd t))(car_clientId request \<mapsto> authorizationDocumentFromCreate request False)"
  using assms unfolding initializeAuthorizationStore_def createAuthorizationClientDocument_def AuthorizationStorePlugin.simps
  by (cases rule: write_run) (auto dest!: replaceOne_law simp: authorizationDocumentFromCreate_def)

lemma bootstrap_run:
  assumes "asp_tryCreateBootstrapAuthorizationAdmin (initializeAuthorizationStore mg am) request t = (r, t')"
  shows "clients (snd t') = clients (snd t) \<or> admins_of (clients (snd t)) = {} \<and>
    clients (snd t') = (clients (snd t))(car_clientId request \<mapsto> authorizationDocumentFromCreate request True)"
  using assms
  unfolding initializeAuthorizationStore_def tryCreateBootstrapAuthorizationAdminDocument_def AuthorizationStorePlugin.simps
proof (cases rule: write_run)
  case (wrote s0 s1 wr)
  then show ?thesis using insert_law [OF wrote(2)]
    by (auto simp: admins_of_def bootstrapAdminDocumentFromCreate_def authorizationDocumentFromCreate_def split: if_splits)
qed simp

lemma update_client_run:
  assumes "asp_updateAuthorizationClient (initializeAuthorizationStore mg am) request t = (r, t')"
  shows "clients (snd t') = clients (snd t) \<or> (\<exists>c d. uar_clientId request = Some c \<and> clients (snd t) c = Some d \<and>
    clients (snd t') = (clients (snd t))(c \<mapsto> update_client request d))"
  using assms unfolding initializeAuthorizationStore_def updateAuthorizationClientDocument_def AuthorizationStorePlugin.simps
  by (cases rule: write_run) (auto dest!: update_run simp: update_client_def)

lemma reset_client_run:
  assumes "asp_resetAuthorizationClientSecret (initializeAuthorizationStore mg am) request t = (r, t')"
  shows "clients (snd t') = clients (snd t) \<or> (\<exists>c d. rar_clientId request = Some c \<and> clients (snd t) c = Some d \<and>
    clients (snd t') = (clients (snd t))(c \<mapsto> d\<lparr>ad_clientSecretHashed := rar_clientSecretHashed request\<rparr>))"
  using assms unfolding initializeAuthorizationStore_def resetAuthorizationClientSecretDocument_def AuthorizationStorePlugin.simps
  by (cases rule: write_run) (auto dest!: update_run simp: update_client_def)

end

lemma admins_of_kept:
  "D c = Some d \<Longrightarrow> ad_isBootstrapAdmin e = ad_isBootstrapAdmin d \<Longrightarrow> admins_of (D(c \<mapsto> e)) = admins_of D"
  by (auto simp: admins_of_def)

sublocale mongo_authorizations <
  store: authorization_store "initializeAuthorizationStore mg am" "\<lambda>_. True" "\<lambda>t. registered_of (clients (snd t))"
    "\<lambda>t. admins_of (clients (snd t))"
proof (unfold_locales, goal_cases)
  case (1 w i r w')
  then show ?case using get_client [of i w r w'] by simp
next
  case (2 w ra w')
  have "clients (snd w') = clients (snd w)"
    using 2(2) unfolding initializeAuthorizationStore_def AuthorizationStorePlugin.simps
  proof (cases rule: with_client_clients)
    case (ran s)
    obtain q s1 where q: "am_findAll am s = (q, s1)" by (cases "am_findAll am s")
    then show ?thesis using ran findAll_law [OF q]
      by (cases q) (auto simp: getAllAuthorizationClientDocuments_def act_simps)
  qed
  then show ?case by simp
next
  case (3 w request rc w')
  let ?d = "authorizationDocumentFromCreate request False"
  let ?c = "(ad_clientSecretHashed ?d, ad_clientName ?d, ad_active ?d, ad_roles ?d)"
  have "requested_client request ?c" by (rule create_requested [OF refl])
  moreover have "\<not> ad_isBootstrapAdmin ?d" by (simp add: authorizationDocumentFromCreate_def)
  then have "admins_of (clients (snd w')) \<subseteq> admins_of (clients (snd w)) \<and>
      (registered_of (clients (snd w')) = registered_of (clients (snd w)) \<or>
       registered_of (clients (snd w')) = (registered_of (clients (snd w)))(car_clientId request \<mapsto> ?c))"
    using create_run [OF 3(2)] by (elim disjE) (simp_all add: registered_of_update admins_of_update)
  ultimately show ?case by blast
next
  case (4 w request rb w')
  let ?d = "authorizationDocumentFromCreate request True"
  let ?c = "(ad_clientSecretHashed ?d, ad_clientName ?d, ad_active ?d, ad_roles ?d)"
  have "requested_client request ?c" by (rule create_requested [OF refl])
  moreover have "ad_isBootstrapAdmin ?d" by (simp add: authorizationDocumentFromCreate_def)
  then have "registered_of (clients (snd w')) = registered_of (clients (snd w)) \<and>
      admins_of (clients (snd w')) = admins_of (clients (snd w)) \<or>
      admins_of (clients (snd w)) = {} \<and> admins_of (clients (snd w')) = {car_clientId request} \<and>
      registered_of (clients (snd w')) = (registered_of (clients (snd w)))(car_clientId request \<mapsto> ?c)"
    using bootstrap_run [OF 4(2)] by (elim disjE) (simp_all add: registered_of_update admins_of_update)
  ultimately show ?case by blast
next
  case (5 w urequest ru w')
  from update_client_run [OF 5(2)] show ?case
  proof (elim disjE exE conjE)
    fix c d
    assume d: "clients (snd w) c = Some d" "uar_clientId urequest = Some c"
      "clients (snd w') = (clients (snd w))(c \<mapsto> update_client urequest d)"
    then have "registered_of (clients (snd w)) c = Some (ad_clientSecretHashed d, ad_clientName d, ad_active d, ad_roles d)"
      by (simp add: registered_of_def)
    moreover have "registered_of (clients (snd w')) = (registered_of (clients (snd w)))(c \<mapsto>
        (ad_clientSecretHashed d, bson (uar_clientName urequest), bson (uar_active urequest), bson (uar_roles urequest)))"
      "admins_of (clients (snd w')) = admins_of (clients (snd w))"
      using d by (simp_all add: registered_of_update admins_of_kept update_client_def)
    ultimately show ?thesis using d(2) by blast
  qed simp
next
  case (6 w rrequest rr w')
  from reset_client_run [OF 6(2)] show ?case
  proof (elim disjE exE conjE)
    fix c d
    assume d: "clients (snd w) c = Some d" "rar_clientId rrequest = Some c"
      "clients (snd w') = (clients (snd w))(c \<mapsto> d\<lparr>ad_clientSecretHashed := rar_clientSecretHashed rrequest\<rparr>)"
    then have "registered_of (clients (snd w)) c = Some (ad_clientSecretHashed d, ad_clientName d, ad_active d, ad_roles d)"
      by (simp add: registered_of_def)
    then show ?thesis using d by (simp add: registered_of_update admins_of_kept)
  qed simp
qed

section \<open>A collection in memory\<close>

text \<open>The clients stand beside the documents; \<open>ac_commits\<close> says whether transactions commit.\<close>

record auth_mem =
  ac_docs :: "AuthorizationDocument list"
  ac_commits :: bool

type_synonym both_mem = "mem \<times> auth_mem"

definition on_mem :: "('a, mem) act \<Rightarrow> ('a, both_mem) act" where
  "on_mem m = (\<lambda>(a, b). case m a of (r, a') \<Rightarrow> (r, (a', b)))"

definition on_auth_mem :: "('a, auth_mem) act \<Rightarrow> ('a, both_mem) act" where
  "on_auth_mem m = (\<lambda>(a, b). case m b of (r, b') \<Rightarrow> (r, (a, b')))"

text \<open>A transaction on documents whose body sees both collections.\<close>

definition both_transact :: "ConfigValue \<Rightarrow> ('r, both_mem) act \<Rightarrow> ('r, both_mem) act" where
  "both_transact n body = (\<lambda>(a, b). on_mem (attempts (retries_of n) (\<lambda>a'. case body (a', b) of (r, (a'', _)) \<Rightarrow> (r, a''))) (a, b))"

definition both_ops :: "mem mongo_ops \<Rightarrow> both_mem mongo_ops" where
  "both_ops mg = \<lparr>
     mg_find = (\<lambda>opts f. on_mem (mg_find mg opts f)), mg_findOne = (\<lambda>opts f. on_mem (mg_findOne mg opts f)),
     mg_replaceOne = (\<lambda>f d. on_mem (mg_replaceOne mg f d)), mg_updateOne = (\<lambda>f upd. on_mem (mg_updateOne mg f upd)),
     mg_deleteOne = (\<lambda>f. on_mem (mg_deleteOne mg f)), mg_insertMany = (\<lambda>us. on_mem (mg_insertMany mg us)),
     mg_deleteMany = (\<lambda>us. on_mem (mg_deleteMany mg us)), mg_startSession = on_mem (mg_startSession mg),
     mg_abortTransaction = on_mem (mg_abortTransaction mg), mg_endSession = on_mem (mg_endSession mg),
     mg_transact_upsert = both_transact, mg_transact_update = both_transact, mg_transact_delete = both_transact,
     mg_generateDocumentUuid = on_mem (mg_generateDocumentUuid mg),
     mg_connect = (\<lambda>url w r. on_mem (mg_connect mg url w r)),
     mg_createIndex = (\<lambda>db collection field. on_mem (mg_createIndex mg db collection field)),
     mg_close = on_mem (mg_close mg), mg_config = mg_config mg, mg_shake256 = mg_shake256 mg\<rparr>"

definition ac_lookup :: "AuthorizationDocument list \<Rightarrow> client_map" where
  "ac_lookup ds i = List.find (\<lambda>d. ad_id d = i) ds"

definition ac_put :: "AuthorizationDocument \<Rightarrow> AuthorizationDocument list \<Rightarrow> AuthorizationDocument list" where
  "ac_put d ds = d # filter (\<lambda>x. ad_id x \<noteq> ad_id d) ds"

definition ac_map :: "both_mem \<Rightarrow> client_map" where
  "ac_map s = ac_lookup (ac_docs (snd s))"

text \<open>A body that returns is committed, or rolled back with an error when transactions do not commit.\<close>

definition ac_transaction ::
  "(string option, both_mem) act \<Rightarrow> both_mem \<Rightarrow> (js_error option \<times> string list) \<times> both_mem" where
  "ac_transaction body s =
     (case body s of
        (Inl e, _) \<Rightarrow> ((Some e, []), s)
      | (Inr q, s') \<Rightarrow>
          (let assigned = (case q of None \<Rightarrow> [] | Some x \<Rightarrow> [x]) in
           if ac_commits (snd s) then ((None, assigned), s')
           else ((Some (mk_error ''MongoServerError'' ''WriteConflict''), assigned), s)))"

definition auth_mem_ops :: "both_mem auth_ops" where
  "auth_mem_ops = \<lparr>
     am_findOne = (\<lambda>i. on_auth_mem (\<lambda>s. (Inr (case i of Some (JStr c) \<Rightarrow> ac_lookup (ac_docs s) c | _ \<Rightarrow> None), s))),
     am_findAll = on_auth_mem (\<lambda>s. (Inr (map (\<lambda>c. the (ac_lookup (ac_docs s) c)) (remdups (map ad_id (ac_docs s)))), s)),
     am_replaceOne = (\<lambda>c d. on_auth_mem (\<lambda>s.
        let d' = d\<lparr>ad_id := c\<rparr>; n = (if ac_lookup (ac_docs s) c = None then 0 else 1) in
        (Inr (write_counts (1 - n) n n 0), s\<lparr>ac_docs := ac_put d' (ac_docs s)\<rparr>))),
     am_updateOne = (\<lambda>c upd. on_auth_mem (\<lambda>s.
        case Option.bind c (ac_lookup (ac_docs s)) of
          None \<Rightarrow> (Inr (write_counts 0 0 0 0), s)
        | Some d \<Rightarrow> (Inr (write_counts 0 1 1 0), s\<lparr>ac_docs := ac_put ((upd d)\<lparr>ad_id := ad_id d\<rparr>) (ac_docs s)\<rparr>))),
     am_insertUnlessBootstrapped = (\<lambda>d. on_auth_mem (\<lambda>s.
        if list_ex (\<lambda>c. ad_isBootstrapAdmin (the (ac_lookup (ac_docs s) c))) (map ad_id (ac_docs s))
        then (Inr (write_counts 0 1 0 0), s)
        else if ac_lookup (ac_docs s) (ad_id d) \<noteq> None
        then (Inl (mk_error ''MongoServerError'' ''E11000 duplicate key error''), s)
        else (Inr (write_counts 1 0 0 0), s\<lparr>ac_docs := ac_put d (ac_docs s)\<rparr>))),
     am_startSession = ret (),
     am_withTransaction = ac_transaction,
     am_endSession = ret ()\<rparr>"

lemma ac_lookup_id: "ac_lookup ds c = Some d \<Longrightarrow> ad_id d = c \<and> d \<in> set ds"
  by (auto simp: ac_lookup_def find_Some_iff)

lemma ac_lookup_put: "ac_lookup (ac_put d ds) = (ac_lookup ds)(ad_id d \<mapsto> d)"
proof
  fix i
  show "ac_lookup (ac_put d ds) i = ((ac_lookup ds)(ad_id d \<mapsto> d)) i"
    by (induction ds) (auto simp: ac_lookup_def ac_put_def)
qed

lemma ac_lookup_member: "d \<in> set ds \<Longrightarrow> \<exists>d'. ac_lookup ds (ad_id d) = Some d'"
  by (induction ds) (auto simp: ac_lookup_def)

lemma ac_contents: "(\<lambda>c. the (ac_lookup ds c)) ` ad_id ` set ds = ran (ac_lookup ds)"
proof (intro set_eqI iffI)
  fix d assume "d \<in> (\<lambda>c. the (ac_lookup ds c)) ` ad_id ` set ds"
  then obtain e where "e \<in> set ds" "d = the (ac_lookup ds (ad_id e))" by blast
  then show "d \<in> ran (ac_lookup ds)" using ac_lookup_member [of e ds] by (auto simp: ran_def)
next
  fix d assume "d \<in> ran (ac_lookup ds)"
  then obtain c where c: "ac_lookup ds c = Some d" by (auto simp: ran_def)
  then have "d \<in> set ds" "ad_id d = c" using ac_lookup_id by blast+
  then show "d \<in> (\<lambda>c. the (ac_lookup ds c)) ` ad_id ` set ds" using c by force
qed

lemma ac_bootstrapped:
  "list_ex (\<lambda>c. ad_isBootstrapAdmin (the (ac_lookup ds c))) (map ad_id ds) \<longleftrightarrow>
   (\<exists>c e. ac_lookup ds c = Some e \<and> ad_isBootstrapAdmin e)"
  using ac_contents [of ds] by (force simp: list_ex_iff ran_def)

lemma on_mem_frame: "preserves ac_map (on_mem m)"
  by (rule preservesI) (auto simp: on_mem_def ac_map_def split: prod.split)

lemma ac_transaction_outcome:
  assumes "ac_transaction body s = ((err, assigned), s')"
  shows "auth_txn_outcome ac_map body s err assigned s'"
proof -
  obtain r s1 where Pair: "body s = (r, s1)" by (rule prod.exhaust)
  show ?thesis
  proof (cases r)
    case (Inl e)
    then show ?thesis using assms Pair by (auto simp: ac_transaction_def auth_txn_outcome_def)
  next
    case (Inr q)
    have "\<forall>x \<in> set assigned. q = Some x"
      using assms Pair Inr by (cases q) (auto simp: ac_transaction_def Let_def split: if_splits)
    then have runs: "\<forall>x \<in> set assigned. \<exists>s0 s1. ac_map s0 = ac_map s \<and> body s0 = (Inr (Some x), s1)"
      using Pair Inr by (intro ballI exI [of _ s] exI [of _ s1]) simp
    have "err \<noteq> None \<and> s' = s \<or> s' = s1 \<and> err = None \<and> (\<forall>x. q = Some x \<longrightarrow> assigned = [x])"
      using assms Pair Inr by (auto simp: ac_transaction_def Let_def split: if_splits)
    then have committed: "err \<noteq> None \<and> ac_map s' = ac_map s \<or> (\<exists>s0 s1 q. ac_map s0 = ac_map s \<and> body s0 = (Inr q, s1) \<and>
          ac_map s' = ac_map s1 \<and> (\<forall>x. err = None \<longrightarrow> q = Some x \<longrightarrow> assigned \<noteq> [] \<and> last assigned = x))"
    proof (elim disjE)
      assume "s' = s1 \<and> err = None \<and> (\<forall>x. q = Some x \<longrightarrow> assigned = [x])"
      then show "err \<noteq> None \<and> ac_map s' = ac_map s \<or> (\<exists>s0 s1 q. ac_map s0 = ac_map s \<and> body s0 = (Inr q, s1) \<and>
          ac_map s' = ac_map s1 \<and> (\<forall>x. err = None \<longrightarrow> q = Some x \<longrightarrow> assigned \<noteq> [] \<and> last assigned = x))"
        using Pair Inr by (intro disjI2 exI [of _ s] exI [of _ s1] exI [of _ q]) simp
    qed simp
    show ?thesis unfolding auth_txn_outcome_def by (rule conjI [OF runs committed])
  qed
qed

interpretation example_clients: mongo_authorizations "both_ops (mem_ops shake config)" auth_mem_ops ac_map
proof (unfold_locales, goal_cases)
  case (1 s c d)
  then show ?case using ac_lookup_id by (simp add: ac_map_def)
next
  case (2 url w rc)
  show ?case by (simp add: both_ops_def on_mem_frame)
next
  case (3 db collection field)
  show ?case by (simp add: both_ops_def on_mem_frame)
next
  case (6 i s q s')
  then show ?case
    by (auto simp: auth_mem_ops_def on_auth_mem_def ac_map_def split: prod.splits option.splits json.splits)
next
  case (7 s qs s')
  then show ?case using ac_contents [of "ac_docs (snd s)"]
    by (auto simp: auth_mem_ops_def on_auth_mem_def ac_map_def split: prod.splits)
next
  case (8 c d s wr s')
  then have "ac_map s' = (ac_map s)(c \<mapsto> d)"
    by (auto simp: auth_mem_ops_def on_auth_mem_def ac_map_def ac_lookup_put Let_def split: prod.splits)
  then show ?case by simp
next
  case (9 ci upd s wr s')
  show ?case
  proof (cases "Option.bind ci (ac_map s)")
    case None
    then show ?thesis using 9(1)
      by (auto simp: auth_mem_ops_def on_auth_mem_def ac_map_def write_counts_def split: prod.splits)
  next
    case (Some d)
    then obtain c where c: "ci = Some c" "ac_lookup (ac_docs (snd s)) c = Some d" by (cases ci) (auto simp: ac_map_def)
    then have "ad_id d = c" using ac_lookup_id by blast
    then show ?thesis using Some 9 c
      by (auto simp: auth_mem_ops_def on_auth_mem_def ac_map_def ac_lookup_put write_counts_def split: prod.splits)
  qed
next
  case (10 d s wr s')
  then show ?case using ac_bootstrapped [of "ac_docs (snd s)"]
    by (auto simp: auth_mem_ops_def on_auth_mem_def ac_map_def ac_lookup_put write_counts_def split: prod.splits if_splits)
next
  case (11 body s err assigned s')
  then show ?case using ac_transaction_outcome by (simp add: auth_mem_ops_def)
qed (simp_all add: auth_mem_ops_def preserves_ret)

end
