(* ===== verification/MongoTransactions.thy ===== *)
theory MongoTransactions
  imports MongoRepository
begin

text \<open>
  What the transactions of the MongoDB backend do to the documents, proved from the laws of
  \<open>mongo_store\<close>.  Inside a transaction \<open>D\<close> are the documents the session sees and \<open>E\<close> those that are
  committed.  \<open>upsert_effect\<close>, \<open>delete_effect\<close> and \<open>update_effect\<close> are the abstract operations; the lemmas
  \<open>..._run\<close> carry them to the operations with session, retries and abort.
\<close>

section \<open>Documents and aliases\<close>

definition resolves :: "doc_map \<Rightarrow> MeadowlarkId \<Rightarrow> bool" where
  "resolves D a \<longleftrightarrow> (\<exists>i d. D i = Some d \<and> a \<in> set (md_aliasMeadowlarkIds d))"

definition well_aliased :: "doc_map \<Rightarrow> bool" where
  "well_aliased D \<longleftrightarrow>
     (\<forall>i d. D i = Some d \<longrightarrow> md_id d = i \<and> i \<in> set (md_aliasMeadowlarkIds d)) \<and>
     (\<forall>i d j e a. D i = Some d \<longrightarrow> D j = Some e \<longrightarrow> a \<in> set (md_aliasMeadowlarkIds d) \<longrightarrow>
        a \<in> set (md_aliasMeadowlarkIds e) \<longrightarrow> i = j)"

definition uuids :: "doc_map \<Rightarrow> DocumentUuid set" where
  "uuids D = {md_documentUuid d |d. \<exists>i. D i = Some d}"

definition unique_uuids :: "doc_map \<Rightarrow> bool" where
  "unique_uuids D \<longleftrightarrow>
     (\<forall>i d j e. D i = Some d \<longrightarrow> D j = Some e \<longrightarrow> md_documentUuid d = md_documentUuid e \<longrightarrow> i = j)"

lemma resolves_found: "resolves D a \<longleftrightarrow> found D (AliasIs a) \<noteq> {}"
  by (auto simp: resolves_def found_def)

lemma project_AllFields [simp]: "project AllFields f = (\<lambda>d. d)"
proof
  show "project AllFields f d = d" for d by (cases f) simp_all
qed

lemma index_of_less: "x \<in> set xs \<Longrightarrow> index_of x xs < length xs"
  by (induction xs) auto

lemma nth_index_of: "x \<in> set xs \<Longrightarrow> xs ! index_of x xs = x"
  by (induction xs) auto

lemma set_R_difference [simp]: "set (R_difference xs ys) = set xs - set ys"
  by (auto simp: R_difference_def)

lemma distinct_R_difference [simp]: "distinct (R_difference xs ys)"
  by (simp add: R_difference_def)

text \<open>When no reference is reported missing, every id resolves: a count that is the length of the list
  means, as no alias belongs to two documents, that every id was found.\<close>

lemma none_missing_resolves:
  assumes aliased: "well_aliased D" and full: "distinct full" "set full = found D (AliasIn ids)"
    and inDb: "inDb = map (project p (AliasIn ids)) full" and p: "p \<noteq> AllFields"
    and none: "(if length ids \<noteq> length inDb then findMissingReferences inDb ids refs else Inr []) = Inr []"
    and a: "a \<in> set ids"
  shows "resolves D a"
proof (cases "length ids = length inDb")
  case True
  define h :: "MeadowlarkDocument \<Rightarrow> MeadowlarkId" where "h d = (SOME b. b \<in> set (md_aliasMeadowlarkIds d) \<and> b \<in> set ids)" for d
  have h: "h d \<in> set (md_aliasMeadowlarkIds d) \<and> h d \<in> set ids" if "d \<in> set full" for d
  proof -
    have "d \<in> found D (AliasIn ids)" using that by (simp only: full(2))
    then have "\<exists>b. b \<in> set (md_aliasMeadowlarkIds d) \<and> b \<in> set ids" by (auto simp: found_def)
    then show ?thesis unfolding h_def by (rule someI_ex)
  qed
  have "inj_on h (set full)"
  proof (rule inj_onI)
    fix d e assume de: "d \<in> set full" "e \<in> set full" "h d = h e"
    then obtain i j where "D i = Some d" "D j = Some e" using full(2) by (auto simp: found_def)
    moreover from this have "i = j" using aliased h [OF de(1)] h [OF de(2)] de(3) unfolding well_aliased_def by metis
    ultimately show "d = e" by simp
  qed
  then have "card (h ` set full) = length full" using full(1) by (simp add: card_image distinct_card)
  moreover have "h ` set full \<subseteq> set ids" using h by blast
  moreover have "card (set ids) \<le> length ids" by (rule card_length)
  moreover have "length ids = length full" using True unfolding inDb length_map .
  ultimately have "h ` set full = set ids"
    by (intro card_seteq [OF finite_set]) linarith+
  then have "a \<in> h ` set full" using a by simp
  then obtain d where d: "d \<in> set full" "h d = a" by (metis imageE)
  then have "d \<in> found D (AliasIn ids)" by (simp only: full(2))
  then obtain i where "D i = Some d" by (auto simp: found_def)
  moreover have "a \<in> set (md_aliasMeadowlarkIds d)" using h [OF d(1)] d(2) by simp
  ultimately show ?thesis unfolding resolves_def by blast
next
  case False
  then have "findMissingReferences inDb ids refs = Inr []" using none by simp
  then have "R_difference ids (map alias_or_id inDb) = []"
    by (auto simp: findMissingReferences_def Let_def dest: res_map_length)
  then have "a \<in> set (map alias_or_id inDb)"
    using a by (metis Diff_eq_empty_iff set_R_difference set_empty subsetD)
  then obtain d where d: "d \<in> found D (AliasIn ids)" "a = alias_or_id (project p (AliasIn ids) d)"
    using inDb full(2) by auto
  then obtain i where i: "D i = Some d" "set (md_aliasMeadowlarkIds d) \<inter> set ids \<noteq> {}" by (auto simp: found_def)
  have "a \<in> set (md_aliasMeadowlarkIds d)"
  proof (cases p)
    case OnlyId
    then show ?thesis using d(2) i(1) aliased by (simp add: alias_or_id_def well_aliased_def)
  next
    case FirstMatchingAlias
    have "filter (\<lambda>a. a \<in> set ids) (md_aliasMeadowlarkIds d) \<noteq> []"
      using i(2) by (auto simp: filter_empty_conv)
    then obtain b bs where b: "filter (\<lambda>a. a \<in> set ids) (md_aliasMeadowlarkIds d) = b # bs"
      by (cases "filter (\<lambda>a. a \<in> set ids) (md_aliasMeadowlarkIds d)") auto
    then have "b \<in> set (md_aliasMeadowlarkIds d)" by (metis filter_is_subset list.set_intros(1) subsetD)
    then show ?thesis using d(2) b FirstMatchingAlias by (simp add: alias_or_id_def)
  qed (use p in simp)
  then show ?thesis using i(1) by (auto simp: resolves_def)
qed

section \<open>The abstract operations\<close>

definition sound_refs :: "'s mongo_ops \<Rightarrow> doc_map \<Rightarrow> DocumentInfo \<Rightarrow> bool" where
  "sound_refs mg D documentInfo \<longleftrightarrow>
     (\<forall>outboundRefs. referencedDocumentIdsFrom (mg_shake256 mg) documentInfo = Inr outboundRefs \<longrightarrow>
        (\<forall>a \<in> set outboundRefs. resolves D a))"

text \<open>The superclass identity of a document that is inserted is in use nowhere.\<close>

definition superclass_free :: "'s mongo_ops \<Rightarrow> doc_map \<Rightarrow> DocumentInfo \<Rightarrow> bool" where
  "superclass_free mg D documentInfo \<longleftrightarrow>
     (\<forall>si a. di_superclassInfo documentInfo = Some si \<longrightarrow>
        getMeadowlarkIdForSuperclassInfo (mg_shake256 mg) si = Inr a \<longrightarrow> \<not> resolves D a)"

definition upsert_effect ::
  "'s mongo_ops \<Rightarrow> doc_map \<Rightarrow> doc_map \<Rightarrow> UpsertRequest \<Rightarrow> MeadowlarkDocument option \<Rightarrow> UpsertResult \<Rightarrow> doc_map \<Rightarrow> bool" where
  "upsert_effect mg D E request documentFromUpdate r D' \<longleftrightarrow>
     (let i = ur_meadowlarkId request;
          checked = (ur_validateDocumentReferencesExist request \<longrightarrow> well_aliased D \<longrightarrow>
                       sound_refs mg D (ur_documentInfo request));
          written = (\<lambda>old u. \<exists>d. (case documentFromUpdate of
                                Some d' \<Rightarrow> d = d'
                              | None \<Rightarrow> upsertDocumentOf mg request old u = Inr d) \<and> D' = D(i \<mapsto> d) \<and>
                              u \<notin> md_documentUuid ` found E (AliasIn (md_outboundRefs d)))
      in case r of
           INSERT_SUCCESS _ u \<Rightarrow> D i = None \<and> u \<notin> uuids D \<and> written None u \<and> checked \<and>
             superclass_free mg D (ur_documentInfo request)
         | UpsertResult.UPDATE_SUCCESS _ u \<Rightarrow> checked \<and>
             (\<exists>old. D i = Some old \<and> md_lastModifiedAt old < di_requestTimestamp (ur_documentInfo request) \<and>
                u = md_documentUuid old \<and> written (Some old) u)
         | _ \<Rightarrow> True)"

definition delete_effect :: "doc_map \<Rightarrow> DeleteRequest \<Rightarrow> DeleteResult \<Rightarrow> doc_map \<Rightarrow> bool" where
  "delete_effect D request r D' \<longleftrightarrow>
     (r = DELETE_SUCCESS \<longrightarrow>
        (\<exists>d. D (md_id d) = Some d \<and> md_documentUuid d = del_documentUuid request \<and> D' = D(md_id d := None)) \<and>
        (del_validateNoReferencesToDocument request \<longrightarrow>
           (\<exists>d. D (md_id d) = Some d \<and> md_documentUuid d = del_documentUuid request \<and>
              found D (OutboundIn (md_aliasMeadowlarkIds d)) = {})))"

definition update_effect :: "'s mongo_ops \<Rightarrow> doc_map \<Rightarrow> UpdateRequest \<Rightarrow> UpdateResult \<Rightarrow> doc_map \<Rightarrow> bool" where
  "update_effect mg D request r D' \<longleftrightarrow>
     (\<forall>m. r = UpdateResult.UPDATE_SUCCESS m \<longrightarrow>
        (\<exists>document old. D (md_id old) = Some old \<and> md_documentUuid old = upd_documentUuid request \<and>
           md_lastModifiedAt old < di_requestTimestamp (ur_documentInfo request) \<and>
           meadowlarkDocumentFrom (mg_shake256 mg) (ur_resourceInfo request) (ur_documentInfo request)
             (upd_documentUuid request) (ur_meadowlarkId request) (ur_edfiDoc request)
             (ur_validateDocumentReferencesExist request) (sec_clientId (ur_security request)) None
             (di_requestTimestamp (ur_documentInfo request)) = Inr document \<and>
           upd_documentUuid request \<notin> md_documentUuid ` found D (AliasIn (md_outboundRefs document)) \<and>
           (ur_validateDocumentReferencesExist request \<longrightarrow> well_aliased D \<longrightarrow>
              sound_refs mg D (ur_documentInfo request)) \<and>
           (if md_id old = ur_meadowlarkId request
            then D' = D(md_id old \<mapsto> set_fields document old)
            else ri_allowIdentityUpdates (ur_resourceInfo request) \<and>
                 D' = D(md_id old := None, ur_meadowlarkId request \<mapsto> document\<lparr>md_createdAt := md_createdAt old\<rparr>) \<and>
                 found D (OutboundIn (md_aliasMeadowlarkIds old)) = {} \<and>
                 (D (ur_meadowlarkId request) = None \<longrightarrow>
                    superclass_free mg (D(md_id old := None)) (ur_documentInfo request)))))"

lemma update_effectE:
  assumes "update_effect mg D request (UpdateResult.UPDATE_SUCCESS m) D'"
  obtains document old where "D (md_id old) = Some old" "md_documentUuid old = upd_documentUuid request"
    "md_lastModifiedAt old < di_requestTimestamp (ur_documentInfo request)"
    "meadowlarkDocumentFrom (mg_shake256 mg) (ur_resourceInfo request) (ur_documentInfo request)
       (upd_documentUuid request) (ur_meadowlarkId request) (ur_edfiDoc request)
       (ur_validateDocumentReferencesExist request) (sec_clientId (ur_security request)) None
       (di_requestTimestamp (ur_documentInfo request)) = Inr document"
    "upd_documentUuid request \<notin> md_documentUuid ` found D (AliasIn (md_outboundRefs document))"
    "ur_validateDocumentReferencesExist request \<longrightarrow> well_aliased D \<longrightarrow> sound_refs mg D (ur_documentInfo request)"
    "if md_id old = ur_meadowlarkId request
     then D' = D(md_id old \<mapsto> set_fields document old)
     else ri_allowIdentityUpdates (ur_resourceInfo request) \<and>
          D' = D(md_id old := None, ur_meadowlarkId request \<mapsto> document\<lparr>md_createdAt := md_createdAt old\<rparr>) \<and>
          found D (OutboundIn (md_aliasMeadowlarkIds old)) = {} \<and>
          (D (ur_meadowlarkId request) = None \<longrightarrow>
             superclass_free mg (D(md_id old := None)) (ur_documentInfo request))"
  using assms [unfolded update_effect_def, THEN spec, THEN mp, OF refl] by (elim exE conjE) (rule that)

lemma meadowlarkDocumentFrom_fields:
  assumes "meadowlarkDocumentFrom shake ri di u i doc v c ca lm = Inr d"
  shows "md_id d = i" "md_documentUuid d = u" "md_edfiDoc d = doc" "md_lastModifiedAt d = lm" "md_createdAt d = ca"
    "md_validated d = v" "md_createdBy d = c" "referencedDocumentIdsFrom shake di = Inr (md_outboundRefs d)"
    "aliasMeadowlarkIdsFrom shake i (di_superclassInfo di) = Inr (md_aliasMeadowlarkIds d)"
  using assms by (auto simp: meadowlarkDocumentFrom_def)

lemma upsertDocumentOf_fields:
  assumes "upsertDocumentOf mg request old u = Inr d"
  shows "md_id d = ur_meadowlarkId request" "md_documentUuid d = u" "md_edfiDoc d = ur_edfiDoc request"
    "md_lastModifiedAt d = di_requestTimestamp (ur_documentInfo request)"
    "referencedDocumentIdsFrom (mg_shake256 mg) (ur_documentInfo request) = Inr (md_outboundRefs d)"
    "aliasMeadowlarkIdsFrom (mg_shake256 mg) (ur_meadowlarkId request) (di_superclassInfo (ur_documentInfo request)) =
       Inr (md_aliasMeadowlarkIds d)"
  using meadowlarkDocumentFrom_fields [OF assms [unfolded upsertDocumentOf_def Let_def]] by simp_all

section \<open>The laws as rules\<close>

context mongo_store
begin

abbreviation at :: "doc_map \<Rightarrow> doc_map \<Rightarrow> 's \<Rightarrow> bool" where
  "at D E \<equiv> \<lambda>s. docs s = D \<and> snap s = Some E"

abbreviation seen :: "find_options \<Rightarrow> doc_map \<Rightarrow> doc_map \<Rightarrow> doc_map" where
  "seen opts D E \<equiv> (if fo_session opts then D else E)"

lemma at_view: "at D E s \<Longrightarrow> view docs snap opts s = seen opts D E"
  by (simp add: view_def committed_def)

lemma at_same: "same docs snap s s' \<Longrightarrow> at D E s \<Longrightarrow> at D E s'"
  by (simp add: same_def)

lemma find_run:
  "hoare (at D E) (mg_find mg opts f)
     (\<lambda>ds s. at D E s \<and> (\<exists>full. distinct full \<and> set full \<subseteq> found (seen opts D E) f \<and>
        (fo_limit opts = None \<longrightarrow> set full = found (seen opts D E) f) \<and>
        ds = map (project (fo_projection opts) f) full))"
proof (rule hoareI)
  fix s ds s'
  assume s: "at D E s" and run: "mg_find mg opts f s = (Inr ds, s')"
  show "at D E s' \<and> (\<exists>full. distinct full \<and> set full \<subseteq> found (seen opts D E) f \<and>
        (fo_limit opts = None \<longrightarrow> set full = found (seen opts D E) f) \<and>
        ds = map (project (fo_projection opts) f) full)"
    using find_law [OF run] at_same [OF _ s] unfolding at_view [OF s] by blast
qed

lemma findOne_run:
  "hoare (at D E) (mg_findOne mg opts f)
     (\<lambda>x s. at D E s \<and> (case x of
         None \<Rightarrow> found (seen opts D E) f = {}
       | Some d \<Rightarrow> \<exists>d' \<in> found (seen opts D E) f. d = project (fo_projection opts) f d'))"
proof (rule hoareI)
  fix s x s'
  assume s: "at D E s" and run: "mg_findOne mg opts f s = (Inr x, s')"
  show "at D E s' \<and> (case x of
         None \<Rightarrow> found (seen opts D E) f = {}
       | Some d \<Rightarrow> \<exists>d' \<in> found (seen opts D E) f. d = project (fo_projection opts) f d')"
    using findOne_law [OF run] at_same [OF _ s] unfolding at_view [OF s] by blast
qed

lemma found_ById:
  assumes "at D E s"
  shows "found D (ById i) = (case D i of None \<Rightarrow> {} | Some d \<Rightarrow> {d})"
proof -
  have "md_id d = j" if "D j = Some d" for j d using keyed [of s j d] that assms by simp
  then show ?thesis by (cases "D i") (auto simp: found_def)
qed

lemma found_key: "at D E s \<Longrightarrow> d \<in> found D f \<Longrightarrow> D (md_id d) = Some d \<and> matches f d"
  using keyed [of s] by (fastforce simp: found_def)

lemma findById_run:
  assumes "fo_session opts" "fo_projection opts = AllFields"
  shows "hoare (at D E) (mg_findOne mg opts (ById i)) (\<lambda>x s. at D E s \<and> x = D i)"
proof (rule hoareI)
  fix s x s'
  assume s: "at D E s" and run: "mg_findOne mg opts (ById i) s = (Inr x, s')"
  show "at D E s' \<and> x = D i"
    using hoareD [OF findOne_run s run] assms found_ById [OF s]
    by (cases x; cases "D i") auto
qed

lemma uuid_run: "hoare (at D E) (mg_generateDocumentUuid mg) (\<lambda>u s. at D E s \<and> u \<notin> uuids D)"
  using uuid_law by (fastforce simp: hoare_def same_def uuids_def)

lemma lock_run:
  "hoare (at D E) (lockWithReferenced mg refs u)
     (\<lambda>_ s. at D E s \<and> u \<notin> md_documentUuid ` found E (AliasIn refs))"
  unfolding lockWithReferenced_def lockDocuments_def
proof (rule hoare_bnd [OF find_run], rule hoare_bnd)
  fix ds
  let ?pre = "\<lambda>s. at D E s \<and> (\<exists>full. distinct full \<and> set full \<subseteq> found (seen (no_session AllFields) D E) (AliasIn refs) \<and>
        (fo_limit (no_session AllFields) = None \<longrightarrow> set full = found (seen (no_session AllFields) D E) (AliasIn refs)) \<and>
        ds = map (project (fo_projection (no_session AllFields)) (AliasIn refs)) full)"
  show "hoare ?pre (mg_insertMany mg (map md_documentUuid ds @ [u]))
      (\<lambda>_ s. at D E s \<and> u \<notin> md_documentUuid ` found E (AliasIn refs))"
  proof (rule hoareI)
    fix s x s'
    assume pre: "?pre s" and run: "mg_insertMany mg (map md_documentUuid ds @ [u]) s = (Inr x, s')"
    then obtain full where "set full = found E (AliasIn refs)" "ds = full"
      by (auto simp: no_session_def)
    then show "at D E s' \<and> u \<notin> md_documentUuid ` found E (AliasIn refs)"
      using insertMany_law [OF run] pre by (auto simp: same_def)
  qed
  show "hoare (\<lambda>s. at D E s \<and> u \<notin> md_documentUuid ` found E (AliasIn refs))
     (mg_deleteMany mg (map md_documentUuid ds @ [u]))
     (\<lambda>_ s. at D E s \<and> u \<notin> md_documentUuid ` found E (AliasIn refs))"
    by (rule hoareI) (use deleteMany_law in \<open>auto simp: same_def\<close>)
qed

lemma missing_run:
  assumes opts: "fo_session opts" "fo_limit opts = None" "fo_projection opts \<noteq> AllFields"
  shows "hoare (at D E) (missingOf mg opts refs)
     (\<lambda>missing s. at D E s \<and> (missing = [] \<longrightarrow> well_aliased D \<longrightarrow>
        (\<forall>ids. res_map (getMeadowlarkIdForDocumentReference (mg_shake256 mg)) refs = Inr ids \<longrightarrow>
           (\<forall>a \<in> set ids. resolves D a))))"
proof (rule hoareI)
  fix s missing s'
  assume s: "at D E s" and run: "missingOf mg opts refs s = (Inr missing, s')"
  obtain ids where ids: "res_map (getMeadowlarkIdForDocumentReference (mg_shake256 mg)) refs = Inr ids"
    and run1: "bnd (mg_find mg opts (AliasIn ids)) (\<lambda>inDb. lift (if length ids \<noteq> length inDb
        then findMissingReferences inDb ids refs else Inr [])) s = (Inr missing, s')"
    using run unfolding missingOf_def findReferencedMeadowlarkIdsByMeadowlarkId_def
    by (elim bnd_InrE) (auto simp: act_simps)
  obtain inDb where inDb: "mg_find mg opts (AliasIn ids) s = (Inr inDb, s')"
    and res: "(if length ids \<noteq> length inDb then findMissingReferences inDb ids refs else Inr []) = Inr missing"
    using run1 by (elim bnd_InrE) (auto simp: act_simps)
  obtain full where "at D E s'" "distinct full" "set full = found D (AliasIn ids)"
    "inDb = map (project (fo_projection opts) (AliasIn ids)) full"
    using hoareD [OF find_run s inDb] opts by auto
  moreover from this have "resolves D a" if "missing = []" "well_aliased D" "a \<in> set ids" for a
    using none_missing_resolves [OF that(2) _ _ _ opts(3) _ that(3)] res that(1) by blast
  ultimately show "at D E s' \<and> (missing = [] \<longrightarrow> well_aliased D \<longrightarrow>
        (\<forall>ids. res_map (getMeadowlarkIdForDocumentReference (mg_shake256 mg)) refs = Inr ids \<longrightarrow>
           (\<forall>a \<in> set ids. resolves D a)))"
    using ids by simp
qed

lemma validateReferences_run:
  "hoare (at D E) (validateReferences mg (di_documentReferences di) (di_descriptorReferences di))
     (\<lambda>failures s. at D E s \<and> (failures = [] \<longrightarrow> well_aliased D \<longrightarrow> sound_refs mg D di))"
proof (rule hoareI)
  fix s failures s'
  assume s: "at D E s"
    and run: "validateReferences mg (di_documentReferences di) (di_descriptorReferences di) s = (Inr failures, s')"
  obtain m1 s1 m2 where m1: "missingOf mg onlyReturnAliasMeadowlarkId (di_documentReferences di) s = (Inr m1, s1)"
    and m2: "missingOf mg onlyReturnId (di_descriptorReferences di) s1 = (Inr m2, s')" and f: "failures = m1 @ m2"
    using run unfolding validateReferences_def by (elim bnd_InrE) (simp add: act_simps)
  have opts: "fo_session onlyReturnAliasMeadowlarkId" "fo_limit onlyReturnAliasMeadowlarkId = None"
    "fo_projection onlyReturnAliasMeadowlarkId \<noteq> AllFields" "fo_session onlyReturnId" "fo_limit onlyReturnId = None"
    "fo_projection onlyReturnId \<noteq> AllFields" by (simp_all add: find_option_defs)
  note r1 = hoareD [OF missing_run [OF opts(1-3)] s m1]
  note r2 = hoareD [OF missing_run [OF opts(4-6)] conjunct1 [OF r1] m2]
  have "sound_refs mg D di" if "failures = []" "well_aliased D"
    unfolding sound_refs_def
  proof (intro allI impI ballI)
    fix out a
    assume "referencedDocumentIdsFrom (mg_shake256 mg) di = Inr out" "a \<in> set out"
    then show "resolves D a" using r1 r2 that f by (auto simp: referencedDocumentIdsFrom_def)
  qed
  then show "at D E s' \<and> (failures = [] \<longrightarrow> well_aliased D \<longrightarrow> sound_refs mg D di)"
    using r2 by blast
qed

lemma referringInfos_run: "hoare (at D E) (referringInfos mg as) (\<lambda>_. at D E)"
  unfolding referringInfos_def
  by (rule hoare_bnd [OF find_run], rule hoare_ret) blast

lemma failure_run:
  "hoare P (upsert_reference_failure mg request b) Q" if
  "hoare P (validateReferences mg (di_documentReferences (ur_documentInfo request))
            (di_descriptorReferences (ur_documentInfo request))) (\<lambda>f s. at D E s \<and> (f = [] \<longrightarrow> R))"
  "\<And>s. at D E s \<Longrightarrow> R \<Longrightarrow> Q None s" "\<And>s r. at D E s \<Longrightarrow> \<not> upsert_succeeded r \<Longrightarrow> Q (Some r) s"
  unfolding upsert_reference_failure_def
proof (rule hoare_bnd [OF that(1)])
  fix failures
  show "hoare (\<lambda>s. at D E s \<and> (failures = [] \<longrightarrow> R))
      (if failures = [] then ret None
       else bnd (referringInfos mg [ur_meadowlarkId request]) (\<lambda>info.
         (let m = Some (JObj [(''error'', JObj [(''message'', JStr ''Reference validation failed''),
                                               (''failures'', missing_json failures)])])
          in ret (Some (if b then INSERT_FAILURE_REFERENCE m info
                        else UpsertResult.UPDATE_FAILURE_REFERENCE m info))))) Q"
  proof (rule hoare_if)
    show "hoare (\<lambda>s. at D E s \<and> (failures = [] \<longrightarrow> R)) (ret None) Q" if "failures = []"
      using that \<open>\<And>s. at D E s \<Longrightarrow> R \<Longrightarrow> Q None s\<close> by (intro hoare_ret) blast
    show "hoare (\<lambda>s. at D E s \<and> (failures = [] \<longrightarrow> R))
       (bnd (referringInfos mg [ur_meadowlarkId request]) (\<lambda>info.
         (let m = Some (JObj [(''error'', JObj [(''message'', JStr ''Reference validation failed''),
                                               (''failures'', missing_json failures)])])
          in ret (Some (if b then INSERT_FAILURE_REFERENCE m info
                        else UpsertResult.UPDATE_FAILURE_REFERENCE m info))))) Q"
      unfolding Let_def
      by (rule hoare_bnd [where R = "\<lambda>_. at D E"], rule hoare_conseq [OF referringInfos_run])
        (auto intro!: hoare_ret that(3) simp: upsert_succeeded_def)
  qed
qed

section \<open>Upsert\<close>

lemma subclass_run:
  "hoare (at D E) (subclass_conflict mg request si)
     (\<lambda>c s. at D E s \<and> (case c of
         None \<Rightarrow> \<forall>a. getMeadowlarkIdForSuperclassInfo (mg_shake256 mg) si = Inr a \<longrightarrow> \<not> resolves D a
       | Some r \<Rightarrow> \<not> upsert_succeeded r))"
proof (rule hoareI)
  fix s c s'
  assume s: "at D E s" and run: "subclass_conflict mg request si s = (Inr c, s')"
  obtain a inUse where a: "getMeadowlarkIdForSuperclassInfo (mg_shake256 mg) si = Inr a"
    and find: "mg_findOne mg (with_session AllFields) (AliasIs a) s = (Inr inUse, s')"
    and c: "c = None \<longleftrightarrow> inUse = None" "\<And>r. c = Some r \<Longrightarrow> \<not> upsert_succeeded r"
    using run unfolding subclass_conflict_def
    by (elim bnd_InrE) (auto simp: act_simps upsert_succeeded_def split: option.splits)
  have "at D E s'" "inUse = None \<longrightarrow> \<not> resolves D a"
    using hoareD [OF findOne_run s find] by (auto simp: with_session_def resolves_found split: option.splits)
  then show "at D E s' \<and> (case c of
         None \<Rightarrow> \<forall>a. getMeadowlarkIdForSuperclassInfo (mg_shake256 mg) si = Inr a \<longrightarrow> \<not> resolves D a
       | Some r \<Rightarrow> \<not> upsert_succeeded r)"
    using a c by (cases c) auto
qed

lemma write_run:
  assumes fu: "\<And>d. fu = Some d \<Longrightarrow> md_id d = ur_meadowlarkId request"
  shows "hoare (at D E) (write_upsert mg request fu old u)
     (\<lambda>r s. snap s = Some E \<and> (upsert_succeeded r \<longrightarrow>
        r = (if D (ur_meadowlarkId request) = None then INSERT_SUCCESS None u else UpsertResult.UPDATE_SUCCESS None u) \<and>
        (\<exists>d. (case fu of Some d' \<Rightarrow> d = d' | None \<Rightarrow> upsertDocumentOf mg request old u = Inr d) \<and>
             docs s = D(ur_meadowlarkId request \<mapsto> d) \<and>
             u \<notin> md_documentUuid ` found E (AliasIn (md_outboundRefs d)))))"
proof (rule hoareI)
  fix s r s'
  assume s: "at D E s" and run: "write_upsert mg request fu old u s = (Inr r, s')"
  obtain d s1 result where d: "case fu of Some d' \<Rightarrow> d = d' | None \<Rightarrow> upsertDocumentOf mg request old u = Inr d"
    and lock: "lockWithReferenced mg (md_outboundRefs d) u s = (Inr (), s1)"
    and replace: "mg_replaceOne mg (ById (ur_meadowlarkId request)) d s1 = (Inr result, s')"
    and r: "r = (if \<not> wr_acknowledged result then UpsertResult.UNKNOWN_FAILURE None
          else if 0 < wr_upsertedCount result then INSERT_SUCCESS None u
          else if wr_modifiedCount result = 0 then UpsertResult.UNKNOWN_FAILURE None
          else UpsertResult.UPDATE_SUCCESS None u)"
    using run unfolding write_upsert_def
    by (elim bnd_InrE) (auto simp: act_simps split: option.splits)
  have "md_id d = ur_meadowlarkId request"
    using d fu upsertDocumentOf_fields(1) by (auto split: option.splits)
  note law = replaceOne_law [OF replace this]
  show "snap s' = Some E \<and> (upsert_succeeded r \<longrightarrow>
        r = (if D (ur_meadowlarkId request) = None then INSERT_SUCCESS None u else UpsertResult.UPDATE_SUCCESS None u) \<and>
        (\<exists>d. (case fu of Some d' \<Rightarrow> d = d' | None \<Rightarrow> upsertDocumentOf mg request old u = Inr d) \<and>
             docs s' = D(ur_meadowlarkId request \<mapsto> d) \<and>
             u \<notin> md_documentUuid ` found E (AliasIn (md_outboundRefs d))))"
    using hoareD [OF lock_run s lock] law r d
    by (auto simp: upsert_succeeded_def split: if_splits)
qed

lemma upsert_run:
  assumes fu: "\<And>d. fu = Some d \<Longrightarrow> md_id d = ur_meadowlarkId request"
  shows "hoare (at D E) (upsertDocumentTransaction mg request fu)
     (\<lambda>r s. snap s = Some E \<and> upsert_effect mg D E request fu r (docs s))"
proof (rule hoareI)
  fix s r s'
  let ?i = "ur_meadowlarkId request" and ?di = "ur_documentInfo request"
  assume s: "at D E s" and run: "upsertDocumentTransaction mg request fu s = (Inr r, s')"
  have fail: "upsert_effect mg D E request fu r D'" if "\<not> upsert_succeeded r" for r D'
    using that by (cases r) (simp_all add: upsert_effect_def upsert_succeeded_def)
  have opts: "fo_session onlyReturnDocumentUuidAndTimestamps" "fo_projection onlyReturnDocumentUuidAndTimestamps = AllFields"
    by (simp_all add: find_option_defs)
  obtain old s1 where find: "mg_findOne mg onlyReturnDocumentUuidAndTimestamps (ById ?i) s = (Inr old, s1)"
    using run unfolding upsertDocumentTransaction_def by (elim bnd_InrE) auto
  have old: "old = D ?i" and s1: "at D E s1" using hoareD [OF findById_run [OF opts] s find] by auto
  show "snap s' = Some E \<and> upsert_effect mg D E request fu r (docs s')"
  proof (cases "case old of None \<Rightarrow> False | Some d \<Rightarrow> di_requestTimestamp ?di \<le> md_lastModifiedAt d")
    case True
    then have "r = UPSERT_FAILURE_WRITE_CONFLICT None" "s' = s1"
      using run find by (simp_all add: upsertDocumentTransaction_def act_simps)
    then show ?thesis using s1 fail by (simp add: upsert_succeeded_def)
  next
    case fresh: False
    obtain u s2 conflict s3 where
      u: "(case old of Some d \<Rightarrow> ret (md_documentUuid d) | None \<Rightarrow> mg_generateDocumentUuid mg) s1 = (Inr u, s2)"
      and conflict: "(if old = None then (case di_superclassInfo ?di of None \<Rightarrow> ret None
                        | Some si \<Rightarrow> subclass_conflict mg request si) else ret None) s2 = (Inr conflict, s3)"
      and rest: "(case conflict of Some failure \<Rightarrow> ret failure
       | None \<Rightarrow> bnd (if ur_validateDocumentReferencesExist request
                then upsert_reference_failure mg request (old = None) else ret None) (\<lambda>invalid.
           case invalid of Some failure \<Rightarrow> ret failure
           | None \<Rightarrow> write_upsert mg request fu old u)) s3 = (Inr r, s')"
      using run unfolding upsertDocumentTransaction_def
      by (elim bnd_InrE, simp only: find prod.inject sum.inject, elim conjE, hypsubst,
          simp only: fresh if_False, elim bnd_InrE) blast
    have s2: "at D E s2" "old = None \<Longrightarrow> u \<notin> uuids D" "\<And>d. old = Some d \<Longrightarrow> u = md_documentUuid d"
      using u hoareD [OF uuid_run s1] s1 by (auto simp: act_simps split: option.splits)
    let ?free = "old = None \<longrightarrow> superclass_free mg D ?di"
    have s3: "at D E s3 \<and> (case conflict of None \<Rightarrow> ?free | Some r \<Rightarrow> \<not> upsert_succeeded r)"
    proof (cases "old = None \<and> di_superclassInfo ?di \<noteq> None")
      case True
      then obtain si where si: "di_superclassInfo ?di = Some si" "subclass_conflict mg request si s2 = (Inr conflict, s3)"
        using conflict by auto
      then show ?thesis using hoareD [OF subclass_run s2(1) si(2)]
        by (cases conflict) (simp_all add: superclass_free_def)
    next
      case False
      then have "conflict = None" "s3 = s2" using conflict by (auto simp: act_simps split: if_splits option.splits)
      then show ?thesis using False s2(1) by (auto simp: superclass_free_def)
    qed
    show ?thesis
    proof (cases conflict)
      case (Some f)
      then show ?thesis using rest s3 fail by (simp add: act_simps)
    next
      case None
      let ?sound = "ur_validateDocumentReferencesExist request \<longrightarrow> well_aliased D \<longrightarrow> sound_refs mg D ?di"
      obtain invalid s4 where
        invalid: "(if ur_validateDocumentReferencesExist request
                then upsert_reference_failure mg request (old = None) else ret None) s3 = (Inr invalid, s4)"
        and last: "(case invalid of Some failure \<Rightarrow> ret failure
           | None \<Rightarrow> write_upsert mg request fu old u) s4 = (Inr r, s')"
        using rest None by (simp only: option.case) (elim bnd_InrE)
      have checked: "hoare (at D E) (upsert_reference_failure mg request (old = None))
          (\<lambda>x s. at D E s \<and> (case x of None \<Rightarrow> well_aliased D \<longrightarrow> sound_refs mg D ?di | Some r \<Rightarrow> \<not> upsert_succeeded r))"
        by (rule failure_run [OF validateReferences_run]) simp_all
      have s4: "at D E s4 \<and> (case invalid of None \<Rightarrow> ?sound | Some r \<Rightarrow> \<not> upsert_succeeded r)"
      proof (cases "ur_validateDocumentReferencesExist request")
        case True
        then have "upsert_reference_failure mg request (old = None) s3 = (Inr invalid, s4)" using invalid by simp
        from hoareD [OF checked conjunct1 [OF s3] this] show ?thesis by (cases invalid) simp_all
      next
        case False
        then have "invalid = None" "s4 = s3" using invalid by (simp_all add: act_simps)
        then show ?thesis using False s3 by simp
      qed
      show ?thesis
      proof (cases invalid)
        case (Some f)
        then show ?thesis using last s4 fail by (simp add: act_simps)
      next
        case inv: None
        have w: "write_upsert mg request fu old u s4 = (Inr r, s')" using last inv by simp
        note res = hoareD [OF write_run [OF fu] conjunct1 [OF s4] w]
        show ?thesis
        proof (cases "upsert_succeeded r")
          case True
          then show ?thesis using res s4 s3 inv None s2 fresh old
            by (cases "D ?i") (auto simp: upsert_effect_def Let_def)
        qed (use res fail in blast)
      qed
    qed
  qed
qed

section \<open>Delete\<close>

lemma checkForReferences_run:
  "hoare (at D E) (checkForReferencesToDocument mg u)
     (\<lambda>c s. at D E s \<and> c \<noteq> Some DELETE_SUCCESS \<and> (c = None \<longrightarrow>
        (\<exists>d. D (md_id d) = Some d \<and> md_documentUuid d = u \<and> found D (OutboundIn (md_aliasMeadowlarkIds d)) = {})))"
proof (rule hoareI)
  fix s c s'
  assume s: "at D E s" and run: "checkForReferencesToDocument mg u s = (Inr c, s')"
  obtain x s1 where find: "mg_findOne mg onlyReturnAliasIds (ByUuid u) s = (Inr x, s1)"
    and rest: "(case x of None \<Rightarrow> ret (Some DELETE_FAILURE_NOT_EXISTS)
     | Some candidate \<Rightarrow>
         bnd (mg_findOne mg onlyReturnId (onlyDocumentsReferencing (md_aliasMeadowlarkIds candidate))) (\<lambda>anyReferences.
         case anyReferences of None \<Rightarrow> ret None
         | Some _ \<Rightarrow> bnd (referringInfos mg (md_aliasMeadowlarkIds candidate)) (\<lambda>info.
             ret (Some (DELETE_FAILURE_REFERENCE info))))) s1 = (Inr c, s')"
    using run unfolding checkForReferencesToDocument_def by (elim bnd_InrE)
  note f = hoareD [OF findOne_run s find]
  show "at D E s' \<and> c \<noteq> Some DELETE_SUCCESS \<and> (c = None \<longrightarrow>
        (\<exists>d. D (md_id d) = Some d \<and> md_documentUuid d = u \<and> found D (OutboundIn (md_aliasMeadowlarkIds d)) = {}))"
  proof (cases x)
    case None
    then show ?thesis using rest f by (auto simp: act_simps)
  next
    case (Some d)
    then have "d \<in> found D (ByUuid u)" using f by (auto simp: find_option_defs)
    then have d: "D (md_id d) = Some d" "md_documentUuid d = u" using found_key [OF s, of d "ByUuid u"] by auto
    obtain y s2 where any: "mg_findOne mg onlyReturnId (OutboundIn (md_aliasMeadowlarkIds d)) s1 = (Inr y, s2)"
      and last: "(case y of None \<Rightarrow> ret None
         | Some _ \<Rightarrow> bnd (referringInfos mg (md_aliasMeadowlarkIds d)) (\<lambda>info.
             ret (Some (DELETE_FAILURE_REFERENCE info)))) s2 = (Inr c, s')"
      using rest Some unfolding onlyDocumentsReferencing_def by (simp only: option.case) (elim bnd_InrE)
    note g = hoareD [OF findOne_run conjunct1 [OF f] any]
    show ?thesis
    proof (cases y)
      case None
      then show ?thesis using last g d by (auto simp: act_simps find_option_defs)
    next
      case (Some z)
      then have "bnd (referringInfos mg (md_aliasMeadowlarkIds d)) (\<lambda>info.
             ret (Some (DELETE_FAILURE_REFERENCE info))) s2 = (Inr c, s')" using last by simp
      then obtain info where "referringInfos mg (md_aliasMeadowlarkIds d) s2 = (Inr info, s')"
        "c = Some (DELETE_FAILURE_REFERENCE info)"
        by (elim bnd_InrE) (simp add: act_simps)
      then show ?thesis using hoareD [OF referringInfos_run conjunct1 [OF g]] by simp
    qed
  qed
qed

lemma delete_run:
  "hoare (at D E) (deleteDocumentByMeadowlarkIdTransaction mg request)
     (\<lambda>r s. snap s = Some E \<and> delete_effect D request r (docs s))"
proof (rule hoareI)
  fix s r s'
  let ?u = "del_documentUuid request"
  assume s: "at D E s" and run: "deleteDocumentByMeadowlarkIdTransaction mg request s = (Inr r, s')"
  obtain blocked s1 where check: "(if del_validateNoReferencesToDocument request
          then checkForReferencesToDocument mg ?u else ret None) s = (Inr blocked, s1)"
    and rest: "(case blocked of Some failure \<Rightarrow> ret failure
     | None \<Rightarrow> bnd (lockDocuments mg [?u]) (\<lambda>_. bnd (mg_deleteOne mg (ByUuid ?u)) (\<lambda>result.
         ret (if \<not> wr_acknowledged result then DeleteResult.UNKNOWN_FAILURE ''''
              else if wr_deletedCount result = 0 then DELETE_FAILURE_NOT_EXISTS else DELETE_SUCCESS)))) s1 = (Inr r, s')"
    using run unfolding deleteDocumentByMeadowlarkIdTransaction_def by (elim bnd_InrE)
  have s1: "at D E s1 \<and> blocked \<noteq> Some DELETE_SUCCESS \<and>
      (blocked = None \<longrightarrow> del_validateNoReferencesToDocument request \<longrightarrow>
        (\<exists>d. D (md_id d) = Some d \<and> md_documentUuid d = ?u \<and> found D (OutboundIn (md_aliasMeadowlarkIds d)) = {}))"
  proof (cases "del_validateNoReferencesToDocument request")
    case True
    then show ?thesis using hoareD [OF checkForReferences_run s] check by simp
  next
    case False
    then show ?thesis using s check by (simp add: act_simps)
  qed
  show "snap s' = Some E \<and> delete_effect D request r (docs s')"
  proof (cases blocked)
    case (Some f)
    then show ?thesis using rest s1 by (auto simp: act_simps delete_effect_def)
  next
    case None
    obtain s2 s3 result where locks: "mg_insertMany mg [?u] s1 = (Inr (), s2)" "mg_deleteMany mg [?u] s2 = (Inr (), s3)"
      and del: "mg_deleteOne mg (ByUuid ?u) s3 = (Inr result, s')"
      and r: "r = (if \<not> wr_acknowledged result then DeleteResult.UNKNOWN_FAILURE ''''
              else if wr_deletedCount result = 0 then DELETE_FAILURE_NOT_EXISTS else DELETE_SUCCESS)"
      using rest None unfolding lockDocuments_def by (simp only: option.case, elim bnd_InrE) (auto simp: act_simps)
    have s3: "at D E s3" using s1 insertMany_law [OF locks(1)] deleteMany_law [OF locks(2)] by (auto simp: same_def)
    note law = deleteOne_law [OF del]
    have "\<exists>d. D (md_id d) = Some d \<and> md_documentUuid d = ?u \<and> docs s' = D(md_id d := None)" if "r = DELETE_SUCCESS"
    proof -
      have "found D (ByUuid ?u) \<noteq> {}" "wr_acknowledged result" using that r law s3 by (auto split: if_splits)
      then obtain d where "d \<in> found D (ByUuid ?u)" "docs s' = D(md_id d := None)" using law s3 by auto
      then show ?thesis using found_key [OF s3, of d "ByUuid ?u"] by (intro exI [of _ d]) simp
    qed
    then show ?thesis using law s3 s1 None unfolding delete_effect_def by simp
  qed
qed

section \<open>Update\<close>

lemma set_fields_id [simp]: "md_id (set_fields document d) = md_id d"
  by (simp add: set_fields_def)

lemma checkForInvalidReferences_run:
  "hoare (at D E) (checkForInvalidReferences mg request)
     (\<lambda>c s. at D E s \<and> (\<forall>m. c \<noteq> Some (UpdateResult.UPDATE_SUCCESS m)) \<and>
        (c = None \<longrightarrow> well_aliased D \<longrightarrow> sound_refs mg D (ur_documentInfo request)))"
  unfolding checkForInvalidReferences_def
  by (rule hoare_bnd [OF validateReferences_run], rule hoare_if)
    (auto intro!: hoare_ret hoare_bnd [where R = "\<lambda>_. at D E"] intro: hoare_conseq [OF referringInfos_run])

text \<open>A replacement that succeeds has rewritten the document with the id, the uuid and an older time;
  when it does not match there is no such document.\<close>

lemma tryUpdate_run:
  "hoare (at D E) (tryUpdateByReplacement mg document request)
     (\<lambda>c s. snap s = Some E \<and>
        (let hit = (\<lambda>old. D (md_id old) = Some old \<and> md_id old = ur_meadowlarkId request \<and>
                      md_documentUuid old = upd_documentUuid request \<and>
                      md_lastModifiedAt old < md_lastModifiedAt document) in
         case c of None \<Rightarrow> docs s = D \<and> (\<forall>old. \<not> hit old)
         | Some r \<Rightarrow> (\<exists>m. r = UpdateResult.UPDATE_SUCCESS m) \<longrightarrow>
             (\<exists>old. hit old \<and> docs s = D(md_id old \<mapsto> set_fields document old))))"
proof (rule hoareI)
  fix s c s'
  let ?f = "IdUuidOlder (ur_meadowlarkId request) (upd_documentUuid request) (md_lastModifiedAt document)"
  assume s: "at D E s" and run: "tryUpdateByReplacement mg document request s = (Inr c, s')"
  obtain result where upd: "mg_updateOne mg ?f (set_fields document) s = (Inr result, s')"
    and c: "c = (if \<not> wr_acknowledged result then Some (UpdateResult.UNKNOWN_FAILURE None)
          else if 0 < wr_matchedCount result then Some (UpdateResult.UPDATE_SUCCESS None) else None)"
    using run unfolding tryUpdateByReplacement_def by (elim bnd_InrE) (auto simp: act_simps)
  note law = updateOne_law [OF upd set_fields_id]
  show "snap s' = Some E \<and>
        (let hit = (\<lambda>old. D (md_id old) = Some old \<and> md_id old = ur_meadowlarkId request \<and>
                      md_documentUuid old = upd_documentUuid request \<and>
                      md_lastModifiedAt old < md_lastModifiedAt document) in
         case c of None \<Rightarrow> docs s' = D \<and> (\<forall>old. \<not> hit old)
         | Some r \<Rightarrow> (\<exists>m. r = UpdateResult.UPDATE_SUCCESS m) \<longrightarrow>
             (\<exists>old. hit old \<and> docs s' = D(md_id old \<mapsto> set_fields document old)))"
  proof (cases "found D ?f = {}")
    case True
    then have "\<not> (D (md_id old) = Some old \<and> md_id old = ur_meadowlarkId request \<and>
        md_documentUuid old = upd_documentUuid request \<and> md_lastModifiedAt old < md_lastModifiedAt document)" for old
      by (auto simp: found_def)
    then show ?thesis using law True s c by (auto simp: Let_def)
  next
    case False
    show ?thesis
    proof (cases "wr_acknowledged result")
      case True
      then obtain old where "old \<in> found D ?f" "docs s' = D(md_id old \<mapsto> set_fields document old)"
        "wr_matchedCount result = 1" using law False s by auto
      moreover from this have "D (md_id old) = Some old" "matches ?f old" using found_key [OF s] by blast+
      ultimately show ?thesis using law s c True by (auto simp: Let_def intro!: exI [of _ old])
    next
      case False
      then show ?thesis using law s c by (simp add: Let_def)
    qed
  qed
qed

lemma replace_or_run:
  fixes document :: MeadowlarkDocument
  assumes "\<And>old. D (md_id old) = Some old \<Longrightarrow> md_id old = ur_meadowlarkId request \<Longrightarrow>
        md_documentUuid old = upd_documentUuid request \<Longrightarrow> md_lastModifiedAt old < md_lastModifiedAt document \<Longrightarrow>
        upd_documentUuid request \<notin> md_documentUuid ` found E (AliasIn (md_outboundRefs document)) \<Longrightarrow>
        R (D(md_id old \<mapsto> set_fields document old))"
    and "\<And>d. D (md_id d) = Some d \<Longrightarrow> md_documentUuid d = upd_documentUuid request \<Longrightarrow>
        md_lastModifiedAt d < md_lastModifiedAt document \<Longrightarrow> md_id d \<noteq> ur_meadowlarkId request \<Longrightarrow>
        upd_documentUuid request \<notin> md_documentUuid ` found E (AliasIn (md_outboundRefs document)) \<Longrightarrow>
        hoare (at D E) (otherwise d) (\<lambda>r s. snap s = Some E \<and> ((\<exists>m. r = UpdateResult.UPDATE_SUCCESS m) \<longrightarrow> R (docs s)))"
  shows "hoare (at D E) (replace_or mg document request otherwise)
     (\<lambda>r s. snap s = Some E \<and> ((\<exists>m. r = UpdateResult.UPDATE_SUCCESS m) \<longrightarrow> R (docs s)))"
proof (rule hoareI)
  fix s r s'
  let ?u = "upd_documentUuid request"
  assume s: "at D E s" and run: "replace_or mg document request otherwise s = (Inr r, s')"
  obtain s1 c s2 where lock: "lockWithReferenced mg (md_outboundRefs document) ?u s = (Inr (), s1)"
    and tried: "tryUpdateByReplacement mg document request s1 = (Inr c, s2)"
    and rest: "(case c of Some result \<Rightarrow> ret result
     | None \<Rightarrow> bnd (mg_findOne mg onlyReturnTimestamps (ByUuid ?u)) (\<lambda>documentByUuid.
         case documentByUuid of None \<Rightarrow> ret (UPDATE_FAILURE_NOT_EXISTS None)
         | Some d \<Rightarrow> if md_lastModifiedAt document \<le> md_lastModifiedAt d then ret (UPDATE_FAILURE_WRITE_CONFLICT None)
             else otherwise d)) s2 = (Inr r, s')"
    using run unfolding replace_or_def by (elim bnd_InrE) simp
  have s1: "at D E s1 \<and> ?u \<notin> md_documentUuid ` found E (AliasIn (md_outboundRefs document))"
    using hoareD [OF lock_run s lock] .
  note t = hoareD [OF tryUpdate_run conjunct1 [OF s1] tried, unfolded Let_def]
  show "snap s' = Some E \<and> ((\<exists>m. r = UpdateResult.UPDATE_SUCCESS m) \<longrightarrow> R (docs s'))"
  proof (cases c)
    case (Some q)
    then have "r = q" "s' = s2" using rest by (simp_all add: act_simps)
    then show ?thesis using t Some s1 assms(1) by auto
  next
    case None
    then have s2: "at D E s2" using t by simp
    obtain x s3 where find: "mg_findOne mg onlyReturnTimestamps (ByUuid ?u) s2 = (Inr x, s3)"
      and last: "(case x of None \<Rightarrow> ret (UPDATE_FAILURE_NOT_EXISTS None)
         | Some d \<Rightarrow> if md_lastModifiedAt document \<le> md_lastModifiedAt d then ret (UPDATE_FAILURE_WRITE_CONFLICT None)
             else otherwise d) s3 = (Inr r, s')"
      using rest None by (simp only: option.case) (elim bnd_InrE)
    note f = hoareD [OF findOne_run s2 find]
    show ?thesis
    proof (cases x)
      case None
      then show ?thesis using last f by (auto simp: act_simps)
    next
      case (Some d)
      then have "d \<in> found D (ByUuid ?u)" using f by (auto simp: find_option_defs)
      then have d: "D (md_id d) = Some d" "md_documentUuid d = ?u" using found_key [OF s, of d "ByUuid ?u"] by auto
      show ?thesis
      proof (cases "md_lastModifiedAt document \<le> md_lastModifiedAt d")
        case True
        then show ?thesis using last f Some by (auto simp: act_simps)
      next
        case False
        then have "md_id d \<noteq> ur_meadowlarkId request" using t d None by auto
        then have "hoare (at D E) (otherwise d)
            (\<lambda>r s. snap s = Some E \<and> ((\<exists>m. r = UpdateResult.UPDATE_SUCCESS m) \<longrightarrow> R (docs s)))"
          using assms(2) d False s1 by simp
        moreover have "otherwise d s3 = (Inr r, s')" using last Some False by simp
        ultimately show ?thesis using f hoareD by fastforce
      qed
    qed
  qed
qed

lemma insertUpdated_run:
  assumes "md_id document = ur_meadowlarkId request"
  shows "hoare (at D E) (insertUpdatedDocument mg request document)
     (\<lambda>r s. snap s = Some E \<and> ((\<exists>m. r = UpdateResult.UPDATE_SUCCESS m) \<longrightarrow>
        docs s = D(ur_meadowlarkId request \<mapsto> document) \<and>
        (D (ur_meadowlarkId request) = None \<longrightarrow> superclass_free mg D (ur_documentInfo request))))"
  unfolding insertUpdatedDocument_def
proof (rule hoare_bnd [OF upsert_run])
  fix r
  show "hoare (\<lambda>s. snap s = Some E \<and> upsert_effect mg D E
        \<lparr>ur_meadowlarkId = ur_meadowlarkId request, ur_resourceInfo = ur_resourceInfo request,
         ur_documentInfo = ur_documentInfo request, ur_edfiDoc = ur_edfiDoc request,
         ur_validateDocumentReferencesExist = False, ur_security = ur_security request,
         ur_traceId = ur_traceId request\<rparr> (Some document) r (docs s))
     (ret (case r of
            INSERT_SUCCESS _ _ \<Rightarrow> UpdateResult.UPDATE_SUCCESS None
          | UpsertResult.UPDATE_SUCCESS _ _ \<Rightarrow> UpdateResult.UPDATE_SUCCESS None
          | INSERT_FAILURE_REFERENCE _ info \<Rightarrow> UpdateResult.UPDATE_FAILURE_REFERENCE None info
          | UpsertResult.UPDATE_FAILURE_REFERENCE _ info \<Rightarrow> UpdateResult.UPDATE_FAILURE_REFERENCE None info
          | INSERT_FAILURE_CONFLICT _ info \<Rightarrow> UPDATE_FAILURE_CONFLICT None info
          | UPSERT_FAILURE_WRITE_CONFLICT m \<Rightarrow> UpdateResult.UNKNOWN_FAILURE m
          | UpsertResult.UNKNOWN_FAILURE m \<Rightarrow> UpdateResult.UNKNOWN_FAILURE m))
     (\<lambda>r s. snap s = Some E \<and> ((\<exists>m. r = UpdateResult.UPDATE_SUCCESS m) \<longrightarrow>
        docs s = D(ur_meadowlarkId request \<mapsto> document) \<and>
        (D (ur_meadowlarkId request) = None \<longrightarrow> superclass_free mg D (ur_documentInfo request))))"
    by (rule hoare_ret, cases r) (auto simp: upsert_effect_def Let_def)
qed (use assms in simp)

lemma update_run:
  assumes unique: "unique_uuids D"
  shows "hoare (at D D) (updateDocumentByDocumentUuidTransaction mg request)
     (\<lambda>r s. snap s = Some D \<and> update_effect mg D request r (docs s))"
proof (rule hoareI)
  fix s r s'
  let ?di = "ur_documentInfo request" and ?u = "upd_documentUuid request" and ?i = "ur_meadowlarkId request"
  assume s: "at D D s" and run: "updateDocumentByDocumentUuidTransaction mg request s = (Inr r, s')"
  let ?from = "meadowlarkDocumentFrom (mg_shake256 mg) (ur_resourceInfo request) ?di ?u ?i (ur_edfiDoc request)
     (ur_validateDocumentReferencesExist request) (sec_clientId (ur_security request)) None (di_requestTimestamp ?di)"
  let ?sound = "ur_validateDocumentReferencesExist request \<longrightarrow> well_aliased D \<longrightarrow> sound_refs mg D ?di"
  obtain invalid s1 where check: "(if ur_validateDocumentReferencesExist request
          then checkForInvalidReferences mg request else ret None) s = (Inr invalid, s1)"
    and rest: "(case invalid of Some failure \<Rightarrow> ret failure
     | None \<Rightarrow> bnd (lift ?from) (\<lambda>document.
         if ri_allowIdentityUpdates (ur_resourceInfo request)
         then updateAllowingIdentityChange mg document request
         else updateDisallowingIdentityChange mg document request)) s1 = (Inr r, s')"
    using run unfolding updateDocumentByDocumentUuidTransaction_def by (elim bnd_InrE)
  have s1: "at D D s1 \<and> (\<forall>m. invalid \<noteq> Some (UpdateResult.UPDATE_SUCCESS m)) \<and> (invalid = None \<longrightarrow> ?sound)"
  proof (cases "ur_validateDocumentReferencesExist request")
    case True
    then show ?thesis using hoareD [OF checkForInvalidReferences_run s] check by simp
  next
    case False
    then show ?thesis using s check by (simp add: act_simps)
  qed
  show "snap s' = Some D \<and> update_effect mg D request r (docs s')"
  proof (cases invalid)
    case (Some f)
    then show ?thesis using rest s1 by (auto simp: act_simps update_effect_def)
  next
    case None
    obtain document where doc: "?from = Inr document"
      and go: "(if ri_allowIdentityUpdates (ur_resourceInfo request)
         then updateAllowingIdentityChange mg document request
         else updateDisallowingIdentityChange mg document request) s1 = (Inr r, s')"
      using rest None by (simp only: option.case, elim bnd_InrE) (auto simp: act_simps)
    note fields = meadowlarkDocumentFrom_fields [OF doc]
    define R where "R D' \<longleftrightarrow> update_effect mg D request (UpdateResult.UPDATE_SUCCESS None) D'" for D'
    have R_R: "R D'" if "\<exists>old. D (md_id old) = Some old \<and> md_documentUuid old = ?u \<and>
        md_lastModifiedAt old < di_requestTimestamp ?di \<and>
        (if md_id old = ?i then D' = D(md_id old \<mapsto> set_fields document old)
         else ri_allowIdentityUpdates (ur_resourceInfo request) \<and>
              D' = D(md_id old := None, ?i \<mapsto> document\<lparr>md_createdAt := md_createdAt old\<rparr>) \<and>
              found D (OutboundIn (md_aliasMeadowlarkIds old)) = {} \<and>
              (D ?i = None \<longrightarrow> superclass_free mg (D(md_id old := None)) ?di))"
      "?u \<notin> md_documentUuid ` found D (AliasIn (md_outboundRefs document))" for D'
    proof -
      have ?sound using s1 None by blast
      then show ?thesis using that doc unfolding R_def update_effect_def by blast
    qed
    have replaced: "R (D(md_id old \<mapsto> set_fields document old))"
      if "D (md_id old) = Some old" "md_id old = ?i" "md_documentUuid old = ?u"
        "md_lastModifiedAt old < md_lastModifiedAt document"
        "?u \<notin> md_documentUuid ` found D (AliasIn (md_outboundRefs document))" for old
      using that fields(4) by (intro R_R exI [of _ old]) simp_all
    have disallow: "hoare (at D D) (updateDisallowingIdentityChange mg document request)
        (\<lambda>r s. snap s = Some D \<and> ((\<exists>m. r = UpdateResult.UPDATE_SUCCESS m) \<longrightarrow> R (docs s)))"
      unfolding updateDisallowingIdentityChange_def
      by (rule replace_or_run [where R = R], erule (4) replaced, rule hoare_ret) simp
    have allow: "hoare (at D D) (updateAllowingIdentityChange mg document request)
        (\<lambda>r s. snap s = Some D \<and> ((\<exists>m. r = UpdateResult.UPDATE_SUCCESS m) \<longrightarrow> R (docs s)))"
      if allowed: "ri_allowIdentityUpdates (ur_resourceInfo request)"
      unfolding updateAllowingIdentityChange_def
    proof (rule replace_or_run [where R = R], erule (4) replaced, rule hoareI)
      fix d t q t'
      let ?del = "\<lparr>del_documentUuid = ?u, del_resourceInfo = ur_resourceInfo request,
               del_validateNoReferencesToDocument = True, del_security = ur_security request,
               del_traceId = ur_traceId request\<rparr>"
      assume d: "D (md_id d) = Some d" "md_documentUuid d = ?u" "md_lastModifiedAt d < md_lastModifiedAt document"
          "md_id d \<noteq> ?i" "?u \<notin> md_documentUuid ` found D (AliasIn (md_outboundRefs document))"
        and t: "at D D t"
        and run: "bnd (deleteDocumentByMeadowlarkIdTransaction mg ?del) (\<lambda>deleteResult.
       case deleteResult of
         DELETE_SUCCESS \<Rightarrow>
           insertUpdatedDocument mg request (document\<lparr>md_createdAt := md_createdAt d\<rparr>)
       | DELETE_FAILURE_NOT_EXISTS \<Rightarrow>
           ret (UpdateResult.UNKNOWN_FAILURE (Some (JStr (''Document uuid '' @ ?u @
             '' should have been found but was not''))))
       | DELETE_FAILURE_REFERENCE _ \<Rightarrow> ret UPDATE_CASCADE_REQUIRED
       | DELETE_FAILURE_WRITE_CONFLICT m \<Rightarrow> ret (UpdateResult.UNKNOWN_FAILURE (Some (JStr m)))
       | DeleteResult.UNKNOWN_FAILURE m \<Rightarrow> ret (UpdateResult.UNKNOWN_FAILURE (Some (JStr m)))) t = (Inr q, t')"
      obtain dr t1 where del: "deleteDocumentByMeadowlarkIdTransaction mg ?del t = (Inr dr, t1)"
        and rest: "(case dr of
         DELETE_SUCCESS \<Rightarrow>
           insertUpdatedDocument mg request (document\<lparr>md_createdAt := md_createdAt d\<rparr>)
       | DELETE_FAILURE_NOT_EXISTS \<Rightarrow>
           ret (UpdateResult.UNKNOWN_FAILURE (Some (JStr (''Document uuid '' @ ?u @
             '' should have been found but was not''))))
       | DELETE_FAILURE_REFERENCE _ \<Rightarrow> ret UPDATE_CASCADE_REQUIRED
       | DELETE_FAILURE_WRITE_CONFLICT m \<Rightarrow> ret (UpdateResult.UNKNOWN_FAILURE (Some (JStr m)))
       | DeleteResult.UNKNOWN_FAILURE m \<Rightarrow> ret (UpdateResult.UNKNOWN_FAILURE (Some (JStr m)))) t1 = (Inr q, t')"
        using run by (elim bnd_InrE)
      note e = hoareD [OF delete_run t del]
      show "snap t' = Some D \<and> ((\<exists>m. q = UpdateResult.UPDATE_SUCCESS m) \<longrightarrow> R (docs t'))"
      proof (cases "dr = DELETE_SUCCESS")
        case True
        have same: "x = d" if "D (md_id x) = Some x" "md_documentUuid x = ?u" for x
          using unique that d(1,2) unfolding unique_uuids_def by (metis option.inject)
        have gone: "docs t1 = D(md_id d := None)" and free: "found D (OutboundIn (md_aliasMeadowlarkIds d)) = {}"
          using e True same unfolding delete_effect_def by auto
        have ins: "insertUpdatedDocument mg request (document\<lparr>md_createdAt := md_createdAt d\<rparr>) t1 = (Inr q, t')"
          using rest True by simp
        have older: "md_lastModifiedAt d < di_requestTimestamp ?di" using d(3) fields(4) by simp
        have "snap t' = Some D \<and> ((\<exists>m. q = UpdateResult.UPDATE_SUCCESS m) \<longrightarrow>
            docs t' = D(md_id d := None, ?i \<mapsto> document\<lparr>md_createdAt := md_createdAt d\<rparr>) \<and>
            (D ?i = None \<longrightarrow> superclass_free mg (D(md_id d := None)) ?di))"
          using hoareD [OF insertUpdated_run [of _ request "D(md_id d := None)" D] _ ins] fields(1) gone e d(4) by simp
        moreover have "R (D(md_id d := None, ?i \<mapsto> document\<lparr>md_createdAt := md_createdAt d\<rparr>))"
          if "D ?i = None \<longrightarrow> superclass_free mg (D(md_id d := None)) ?di"
          by (rule R_R [OF exI [of _ d] d(5)]) (use that in \<open>simp only: d(1,2,4) older allowed free if_False simp_thms\<close>)
        ultimately show ?thesis by metis
      next
        case False
        then show ?thesis using rest e by (cases dr) (auto simp: act_simps)
      qed
    qed
    have "snap s' = Some D \<and> ((\<exists>m. r = UpdateResult.UPDATE_SUCCESS m) \<longrightarrow> R (docs s'))"
    proof (cases "ri_allowIdentityUpdates (ur_resourceInfo request)")
      case True
      then have "updateAllowingIdentityChange mg document request s1 = (Inr r, s')" using go by simp
      then show ?thesis by (rule hoareD [OF allow [OF True] conjunct1 [OF s1]])
    next
      case False
      then have "updateDisallowingIdentityChange mg document request s1 = (Inr r, s')" using go by simp
      then show ?thesis by (rule hoareD [OF disallow conjunct1 [OF s1]])
    qed
    then show ?thesis by (auto simp: R_def update_effect_def)
  qed
qed

section \<open>Sessions\<close>

text \<open>An operation with session, retries and abort: a success is one run of the transaction on the
  documents there were, anything else leaves the documents as they were.\<close>

lemma in_session_run:
  assumes txn: "txn_law docs snap transact"
    and run: "in_session mg transact succeeded caught transaction s = (r, s')" and none: "snap s = None"
    and effect: "hoare (at (docs s) (docs s)) transaction (\<lambda>r t. snap t = Some (docs s) \<and> eff r (docs t))"
    and caught: "\<And>e. \<not> succeeded (caught e)"
  shows "snap s' = None \<and>
    (case r of Inr x \<Rightarrow> if succeeded x then eff x (docs s') else docs s' = docs s | Inl _ \<Rightarrow> docs s' = docs s)"
proof -
  let ?body = "bnd transaction (\<lambda>result.
             if succeeded result then ret result else bnd (mg_abortTransaction mg) (\<lambda>_. ret result))"
  let ?good = "\<lambda>r t. snap t = None \<and>
    (case r of Inr x \<Rightarrow> if succeeded x then eff x (docs t) else docs t = docs s | Inl _ \<Rightarrow> docs t = docs s)"
  have body: "if succeeded x then eff x (docs t') else docs t' = docs s"
    if t: "at (docs s) (docs s) t" and b: "?body t = (Inr x, t')" for x t t'
  proof -
    obtain y t1 where y: "transaction t = (Inr y, t1)"
      and k: "(if succeeded y then ret y else bnd (mg_abortTransaction mg) (\<lambda>_. ret y)) t1 = (Inr x, t')"
      using b by (elim bnd_InrE)
    have t1: "snap t1 = Some (docs s) \<and> eff y (docs t1)" using hoareD [OF effect t y] .
    show ?thesis
    proof (cases "succeeded y")
      case True
      then show ?thesis using k t1 by (simp add: act_simps)
    next
      case False
      then obtain v where "mg_abortTransaction mg t1 = (Inr v, t')" "x = y"
        using k by (simp, elim bnd_InrE) (simp add: act_simps)
      then show ?thesis using abort_law [of t1 "Inr v" t'] t1 False by simp
    qed
  qed

  obtain q s1 where start: "mg_startSession mg s = (q, s1)" by (cases "mg_startSession mg s")
  have s1: "docs s1 = docs s \<and> snap s1 = None" using session_law [OF start] none by (simp add: same_def)
  show ?thesis
  proof (cases q)
    case (Inl e)
    then show ?thesis using run start s1 by (auto simp: in_session_def act_simps)
  next
    case (Inr v)
    let ?attempt = "bnd (lift (config_get (mg_config mg) ''MONGODB_MAX_NUMBER_OF_RETRIES'')) (\<lambda>n. transact n ?body)"
    obtain p s2 where tried: "?attempt s1 = (p, s2)" by (cases "?attempt s1")
    have p: "?good p s2"
    proof (cases "config_get (mg_config mg) ''MONGODB_MAX_NUMBER_OF_RETRIES''")
      case (Inl e)
      then show ?thesis using tried s1 by (auto simp: act_simps)
    next
      case (Inr n)
      then have "transact n ?body s1 = (p, s2)" using tried by simp
      note law = txn [unfolded txn_law_def, rule_format, OF this conjunct2 [OF s1], unfolded conjunct1 [OF s1]]
      show ?thesis
      proof (cases p)
        case (Inl e)
        then show ?thesis using law by simp
      next
        case (Inr x)
        then obtain t t' where "docs t = docs s" "snap t = Some (docs s)" "?body t = (Inr x, t')" "docs s2 = docs t'"
          using law by (simp only: sum.case) (elim conjE exE)
        then show ?thesis using body [of t x t'] law Inr by simp
      qed
    qed
    obtain c s3 where final: "try_catch ?attempt (\<lambda>e. bnd (mg_abortTransaction mg) (\<lambda>_. ret (caught e))) s1 = (c, s3)"
      by (cases "try_catch ?attempt (\<lambda>e. bnd (mg_abortTransaction mg) (\<lambda>_. ret (caught e))) s1")
    have c: "?good c s3"
    proof (cases p)
      case (Inr x)
      have "c = Inr x" "s3 = s2" using final tried Inr by (simp_all add: try_catch_def)
      then show ?thesis using p Inr by simp
    next
      case (Inl e)
      obtain a s4 where ab: "mg_abortTransaction mg s2 = (a, s4)" by (cases "mg_abortTransaction mg s2")
      have "docs s4 = docs s \<and> snap s4 = None" using abort_law [OF ab] p Inl by (simp add: same_def)
      then show ?thesis using final tried Inl ab caught
        by (cases a) (auto simp: try_catch_def bnd_def ret_def)
    qed
    obtain z s4 where ends: "mg_endSession mg s3 = (z, s4)" by (cases "mg_endSession mg s3")
    have s4: "z = Inr ()" "docs s4 = docs s3 \<and> snap s4 = snap s3"
      using endSession_law [OF ends] by (simp_all add: same_def)
    have "in_session mg transact succeeded caught transaction s = (c, s4)"
      unfolding in_session_def bnd_def [of "mg_startSession mg"] finally_do_def
      by (simp add: start Inr final ends s4(1))
    then show ?thesis using run c s4(2) by (cases c) simp_all
  qed
qed

end

end
