(* ===== verification/MongoPlugin.thy ===== *)
theory MongoPlugin
  imports MongoTransactions
begin

text \<open>
  The MongoDB backend as a document store: the operations of \<open>MongoRepository\<close> over a driver that keeps
  the laws of \<open>mongo_store\<close> satisfy \<open>document_store\<close>, the contract the handlers rely on.  The invariant
  is that no transaction is open and that no uuid belongs to two documents.
\<close>

lemma same_refl [simp]: "same docs snap s s"
  by (simp add: same_def)

section \<open>The operations on committed documents\<close>

context mongo_store
begin

lemma upsertDocument_spec:
  assumes "snap s = None" "upsertDocument mg request s = (r, s')"
  shows "snap s' = None \<and>
    (case r of Inr x \<Rightarrow> if upsert_succeeded x then upsert_effect mg (docs s) (docs s) request None x (docs s')
                       else docs s' = docs s
     | Inl _ \<Rightarrow> docs s' = docs s)"
  by (rule in_session_run [OF transact_upsert assms(2) [unfolded upsertDocument_def] assms(1) upsert_run])
    (simp_all add: upsert_succeeded_def)

lemma deleteDocument_spec:
  assumes "snap s = None" "deleteDocumentByDocumentUuid mg request s = (r, s')"
  shows "snap s' = None \<and>
    (case r of Inr x \<Rightarrow> if x = DELETE_SUCCESS then delete_effect (docs s) request x (docs s') else docs s' = docs s
     | Inl _ \<Rightarrow> docs s' = docs s)"
  by (rule in_session_run [OF transact_delete assms(2) [unfolded deleteDocumentByDocumentUuid_def] assms(1) delete_run])
    simp

lemma updateDocument_spec:
  assumes "snap s = None" "unique_uuids (docs s)" "updateDocumentByDocumentUuid mg request s = (r, s')"
  shows "snap s' = None \<and>
    (case r of Inr x \<Rightarrow> if update_succeeded x then update_effect mg (docs s) request x (docs s') else docs s' = docs s
     | Inl _ \<Rightarrow> docs s' = docs s)"
  by (rule in_session_run [OF transact_update assms(3) [unfolded updateDocumentByDocumentUuid_def] assms(1) update_run [OF assms(2)]])
    (simp add: update_succeeded_def)

lemma committed_read:
  assumes "snap s = None" "mg_findOne mg (no_session AllFields) f s = (r, s')"
  shows "same docs snap s s' \<and>
    (\<forall>x. r = Inr x \<longrightarrow> (case x of None \<Rightarrow> found (docs s) f = {} | Some d \<Rightarrow> d \<in> found (docs s) f))"
proof (cases r)
  case (Inl e)
  then show ?thesis using read_error assms by blast
next
  case (Inr x)
  have "view docs snap (no_session AllFields) s = docs s"
    using assms(1) by (simp add: view_def committed_def no_session_def)
  then show ?thesis using findOne_law [of "no_session AllFields" f s x s'] assms(2) Inr
    by (simp add: no_session_def split: option.splits)
qed

lemma getDocument_spec:
  assumes "snap s = None" "getDocumentByDocumentUuid mg request s = (r, s')"
  shows "same docs snap s s' \<and> (\<exists>g. r = Inr g \<and> gr_documentUuid g = get_documentUuid request \<and>
    (gr_response g = GET_SUCCESS \<longrightarrow> (\<exists>d \<in> found (docs s) (ByUuid (get_documentUuid request)).
       gr_edfiDoc g = md_edfiDoc d \<and> gr_lastModifiedDate g = md_lastModifiedAt d)) \<and>
    (gr_response g = GET_FAILURE_NOT_EXISTS \<longrightarrow> found (docs s) (ByUuid (get_documentUuid request)) = {}))"
proof -
  obtain q s1 where q: "mg_findOne mg (no_session AllFields) (ByUuid (get_documentUuid request)) s = (q, s1)"
    by (cases "mg_findOne mg (no_session AllFields) (ByUuid (get_documentUuid request)) s")
  note f = committed_read [OF assms(1) q]
  have "s' = s1"
    using assms(2) q by (auto simp: getDocumentByDocumentUuid_def Let_def act_simps split: sum.splits option.splits)
  then show ?thesis
    using f assms(2) q
    by (auto simp: getDocumentByDocumentUuid_def Let_def act_simps split: sum.splits option.splits)
qed

lemma reject_run:
  assumes "snap s = None" "rejectByOwnershipSecurity mg request s = (r, s')"
  shows "same docs snap s s'"
proof -
  have keep: "same docs snap s s1" if "mg_findOne mg (no_session AllFields) f s = (q, s1)" for f q s1
    using committed_read [OF assms(1) that] by blast
  show ?thesis
    using assms(2)
    by (auto simp: rejectByOwnershipSecurity_def Let_def act_simps dest: keep
        split: if_splits option.splits sum.splits prod.splits)
qed

lemma security_run:
  assumes "snap s = None" "securityMiddleware mg model s = (r, s')"
  shows "same docs snap s s'"
  using assms reject_run [OF assms(1)]
  by (cases model) (auto simp: securityMiddleware_def Let_def act_simps
      split: if_splits prod.splits sum.splits)

lemma client_run:
  assumes "getSharedClient mg (c, s) = (r, (c', s'))"
  shows "same docs snap s s'"
proof -
  have keep: "preserves (\<lambda>s. (docs s, snap s)) (getNewClient mg)"
    unfolding getNewClient_def Let_def
    by (intro frame_intros preservesI)
      (metis connect_law createIndex_law same_def prod.collapse)+
  show ?thesis using assms preserves_run [OF keep]
    by (auto simp: getSharedClient_def same_def split: if_splits prod.splits sum.splits)
qed

end

section \<open>The document store\<close>

definition mongo_ok :: "('s \<Rightarrow> doc_map) \<Rightarrow> ('s \<Rightarrow> doc_map option) \<Rightarrow> 's client_state \<Rightarrow> bool" where
  "mongo_ok docs snap t \<longleftrightarrow> snap (snd t) = None \<and> unique_uuids (docs (snd t))"

definition mongo_stored :: "('s \<Rightarrow> doc_map) \<Rightarrow> 's client_state \<Rightarrow> (DocumentUuid \<times> json) set" where
  "mongo_stored docs t = {(md_documentUuid d, md_edfiDoc d) |d. \<exists>i. docs (snd t) i = Some d}"

lemma unique_uuidsD:
  assumes "unique_uuids D" "D i = Some d" "D j = Some e" "md_documentUuid d = md_documentUuid e"
  shows "i = j" "d = e"
proof -
  show "i = j" using assms unfolding unique_uuids_def by blast
  then show "d = e" using assms(2,3) by simp
qed

lemma unique_uuids_upd:
  assumes "unique_uuids D" "\<And>j e. D j = Some e \<Longrightarrow> md_documentUuid e = md_documentUuid d \<Longrightarrow> j = i"
  shows "unique_uuids (D(i \<mapsto> d))"
  using assms unfolding unique_uuids_def by (auto split: if_splits)

lemma unique_uuids_remove: "unique_uuids D \<Longrightarrow> unique_uuids (D(i := None))"
  by (auto simp: unique_uuids_def split: if_splits)

context mongo_store
begin

lemma with_client_cases:
  assumes "with_client mg m (c, s) = (r, t)"
  obtains (failed) e where "r = Inl e" "same docs snap s (snd t)"
  | (ran) s1 where "same docs snap s s1" "m s1 = (r, snd t)"
proof -
  obtain q c1 s1 where q: "getSharedClient mg (c, s) = (q, (c1, s1))" by (metis prod.collapse)
  show thesis
  proof (cases q)
    case (Inl e)
    then show thesis using assms q failed client_run [OF q] by (auto simp: with_client_def act_simps)
  next
    case (Inr v)
    then show thesis using assms q ran client_run [OF q]
      by (auto simp: with_client_def act_simps on_client_def split: prod.splits)
  qed
qed

lemma insert_unique:
  assumes "unique_uuids D" "upsert_effect mg D E request None (INSERT_SUCCESS m u) D'"
  shows "unique_uuids D'" "\<exists>d. D' = D(ur_meadowlarkId request \<mapsto> d) \<and> D (ur_meadowlarkId request) = None \<and>
    md_documentUuid d = u \<and> md_edfiDoc d = ur_edfiDoc request"
proof -
  obtain d where d: "D' = D(ur_meadowlarkId request \<mapsto> d)" "D (ur_meadowlarkId request) = None"
    "upsertDocumentOf mg request None u = Inr d" "u \<notin> uuids D"
    using assms(2) by (auto simp: upsert_effect_def Let_def)
  note f = upsertDocumentOf_fields [OF d(3)]
  show "unique_uuids D'" unfolding d(1)
    by (rule unique_uuids_upd [OF assms(1)]) (use d(4) f(2) in \<open>auto simp: uuids_def\<close>)
  show "\<exists>d. D' = D(ur_meadowlarkId request \<mapsto> d) \<and> D (ur_meadowlarkId request) = None \<and>
    md_documentUuid d = u \<and> md_edfiDoc d = ur_edfiDoc request"
    using d f by blast
qed

lemma upsert_unique:
  assumes "unique_uuids D" "upsert_effect mg D E request None (UpsertResult.UPDATE_SUCCESS m u) D'"
  shows "unique_uuids D'" "\<exists>d. D' = D(ur_meadowlarkId request \<mapsto> d) \<and> md_documentUuid d = u \<and>
    md_edfiDoc d = ur_edfiDoc request"
proof -
  obtain old d where d: "D' = D(ur_meadowlarkId request \<mapsto> d)" "D (ur_meadowlarkId request) = Some old"
    "upsertDocumentOf mg request (Some old) u = Inr d" "u = md_documentUuid old"
    using assms(2) by (auto simp: upsert_effect_def Let_def)
  note f = upsertDocumentOf_fields [OF d(3)]
  show "unique_uuids D'" unfolding d(1)
  proof (rule unique_uuids_upd [OF assms(1)])
    fix j e assume "D j = Some e" "md_documentUuid e = md_documentUuid d"
    then show "j = ur_meadowlarkId request"
      using assms(1) d(2,4) f(2) unfolding unique_uuids_def by metis
  qed
  show "\<exists>d. D' = D(ur_meadowlarkId request \<mapsto> d) \<and> md_documentUuid d = u \<and> md_edfiDoc d = ur_edfiDoc request"
    using d(1) f by blast
qed

lemma update_unique:
  assumes u: "unique_uuids D" "update_effect mg D request (UpdateResult.UPDATE_SUCCESS m) D'"
  shows "unique_uuids D'" "\<exists>d i. D' i = Some d \<and> md_documentUuid d = upd_documentUuid request \<and>
    md_edfiDoc d = ur_edfiDoc request"
proof -
  let ?i = "ur_meadowlarkId request" and ?u = "upd_documentUuid request"
  obtain document old where old: "D (md_id old) = Some old" "md_documentUuid old = ?u"
    and doc: "meadowlarkDocumentFrom (mg_shake256 mg) (ur_resourceInfo request) (ur_documentInfo request)
             ?u ?i (ur_edfiDoc request) (ur_validateDocumentReferencesExist request)
             (sec_clientId (ur_security request)) None (di_requestTimestamp (ur_documentInfo request)) = Inr document"
    and D': "if md_id old = ?i then D' = D(md_id old \<mapsto> set_fields document old)
            else D' = D(md_id old := None, ?i \<mapsto> document\<lparr>md_createdAt := md_createdAt old\<rparr>)"
    using u(2) by (rule update_effectE) (simp split: if_splits)
  note f = meadowlarkDocumentFrom_fields [OF doc]
  have only: "j = md_id old" if "D j = Some e" "md_documentUuid e = ?u" for j e
    using u(1) that old unfolding unique_uuids_def by metis
  have one: "unique_uuids (D(md_id old \<mapsto> d))" if "md_documentUuid d = ?u" for d
    by (rule unique_uuids_upd [OF u(1)]) (use only that in auto)
  have two: "unique_uuids (D(md_id old := None, ?i \<mapsto> d))" if "md_documentUuid d = ?u" for d
    by (rule unique_uuids_upd [OF unique_uuids_remove [OF u(1)]]) (use only that in \<open>auto split: if_splits\<close>)
  show "unique_uuids D'"
    using D' one [of "set_fields document old"] two [of "document\<lparr>md_createdAt := md_createdAt old\<rparr>"] old f
    by (simp add: set_fields_def split: if_splits)
  show "\<exists>d i. D' i = Some d \<and> md_documentUuid d = ?u \<and> md_edfiDoc d = ur_edfiDoc request"
  proof (cases "md_id old = ?i")
    case True
    then show ?thesis using D' old(2) f(3)
      by (intro exI [of _ "set_fields document old"] exI [of _ ?i]) (simp add: set_fields_def)
  next
    case False
    then show ?thesis using D' f(2,3)
      by (intro exI [of _ "document\<lparr>md_createdAt := md_createdAt old\<rparr>"] exI [of _ ?i]) simp
  qed
qed

end

definition pairs :: "doc_map \<Rightarrow> (DocumentUuid \<times> json) set" where
  "pairs D = {(md_documentUuid d, md_edfiDoc d) |d. \<exists>i. D i = Some d}"

lemma mongo_stored_pairs: "mongo_stored docs t = pairs (docs (snd t))"
  by (simp add: mongo_stored_def pairs_def)

lemma pairsI: "D i = Some d \<Longrightarrow> (md_documentUuid d, md_edfiDoc d) \<in> pairs D"
  by (auto simp: pairs_def)

lemma pairs_upd:
  assumes "D i = None"
  shows "pairs (D(i \<mapsto> e)) = insert (md_documentUuid e, md_edfiDoc e) (pairs D)"
proof (intro set_eqI iffI)
  fix x assume "x \<in> pairs (D(i \<mapsto> e))"
  then show "x \<in> insert (md_documentUuid e, md_edfiDoc e) (pairs D)"
    by (auto simp: pairs_def split: if_splits)
next
  fix x assume "x \<in> insert (md_documentUuid e, md_edfiDoc e) (pairs D)"
  then consider "x = (md_documentUuid e, md_edfiDoc e)" | j d where "D j = Some d" "x = (md_documentUuid d, md_edfiDoc d)"
    by (auto simp: pairs_def)
  then show "x \<in> pairs (D(i \<mapsto> e))"
  proof cases
    case 1
    then show ?thesis using pairsI [of "D(i \<mapsto> e)" i e] by simp
  next
    case (2 j d)
    then show ?thesis using assms pairsI [of "D(i \<mapsto> e)" j d] by (cases "j = i") auto
  qed
qed

lemma pairs_remove:
  assumes "unique_uuids D" "D i = Some e"
  shows "pairs (D(i := None)) = {(u, x) \<in> pairs D. u \<noteq> md_documentUuid e}"
proof (intro set_eqI iffI)
  fix x assume "x \<in> pairs (D(i := None))"
  then obtain j d where d: "D j = Some d" "j \<noteq> i" "x = (md_documentUuid d, md_edfiDoc d)"
    by (auto simp: pairs_def split: if_splits)
  then have "md_documentUuid d \<noteq> md_documentUuid e" using assms unfolding unique_uuids_def by metis
  then show "x \<in> {(u, x) \<in> pairs D. u \<noteq> md_documentUuid e}" using d pairsI [of D j d] by simp
next
  fix x assume "x \<in> {(u, x) \<in> pairs D. u \<noteq> md_documentUuid e}"
  then obtain j d where d: "D j = Some d" "md_documentUuid d \<noteq> md_documentUuid e" "x = (md_documentUuid d, md_edfiDoc d)"
    by (auto simp: pairs_def)
  then show "x \<in> pairs (D(i := None))" using assms(2) pairsI [of "D(i := None)" j d] by (cases "j = i") auto
qed

context mongo_store
begin

lemma store_frame:
  assumes "mongo_ok docs snap t" "with_client mg m t = (r, t')"
    and "\<And>s s'. snap s = None \<Longrightarrow> docs s = docs (snd t) \<Longrightarrow> m s = (r, s') \<Longrightarrow> snap s' = None \<and> docs s' = docs s"
  shows "mongo_ok docs snap t' \<and> mongo_stored docs t' = mongo_stored docs t"
proof -
  have "with_client mg m (fst t, snd t) = (r, t')" using assms(2) by simp
  then have "snap (snd t') = None \<and> docs (snd t') = docs (snd t)"
    using assms(1)
    by (cases rule: with_client_cases) (auto simp: same_def mongo_ok_def dest: assms(3))
  then show ?thesis using assms(1) by (simp add: mongo_ok_def mongo_stored_def)
qed

lemma store_success:
  assumes "mongo_ok docs snap t" "with_client mg m t = (Inr x, t')"
  obtains s where "snap s = None" "docs s = docs (snd t)" "m s = (Inr x, snd t')" "unique_uuids (docs s)"
proof -
  have "with_client mg m (fst t, snd t) = (Inr x, t')" using assms(2) by simp
  then show thesis using assms(1) that
    by (cases rule: with_client_cases) (auto simp: same_def mongo_ok_def)
qed

end

lemma initializeDocumentStore_simps:
  "dsp_upsertDocument (initializeDocumentStore mg) req = with_client mg (upsertDocument mg req)"
  "dsp_getDocumentById (initializeDocumentStore mg) greq = with_client mg (getDocumentByDocumentUuid mg greq)"
  "dsp_updateDocumentById (initializeDocumentStore mg) ureq = with_client mg (updateDocumentByDocumentUuid mg ureq)"
  "dsp_deleteDocumentById (initializeDocumentStore mg) dreq = with_client mg (deleteDocumentByDocumentUuid mg dreq)"
  "dsp_securityMiddleware (initializeDocumentStore mg) model = with_client mg (securityMiddleware mg model)"
  by (simp_all add: initializeDocumentStore_def)

lemma upsert_failed: "(\<And>m u. x \<noteq> INSERT_SUCCESS m u) \<Longrightarrow> (\<And>m u. x \<noteq> UpsertResult.UPDATE_SUCCESS m u) \<Longrightarrow> \<not> upsert_succeeded x"
  by (cases x) (auto simp: upsert_succeeded_def)

lemma update_failed: "(\<And>m. x \<noteq> UpdateResult.UPDATE_SUCCESS m) \<Longrightarrow> \<not> update_succeeded x"
  by (cases x) (auto simp: update_succeeded_def)

context mongo_store
begin

lemma plugin_insert:
  assumes ok: "mongo_ok docs snap t" and run: "with_client mg (upsertDocument mg req) t = (Inr (INSERT_SUCCESS m u), t')"
  shows "mongo_ok docs snap t' \<and> mongo_stored docs t' = insert (u, ur_edfiDoc req) (mongo_stored docs t)"
proof -
  obtain s where s: "snap s = None" "docs s = docs (snd t)" "upsertDocument mg req s = (Inr (INSERT_SUCCESS m u), snd t')"
    "unique_uuids (docs s)" by (rule store_success [OF ok run])
  then have eff: "snap (snd t') = None" "upsert_effect mg (docs s) (docs s) req None (INSERT_SUCCESS m u) (docs (snd t'))"
    using upsertDocument_spec [OF s(1,3)] by (simp_all add: upsert_succeeded_def)
  obtain d where d: "docs (snd t') = (docs s)(ur_meadowlarkId req \<mapsto> d)" "docs s (ur_meadowlarkId req) = None"
    "md_documentUuid d = u" "md_edfiDoc d = ur_edfiDoc req"
    using insert_unique(2) [OF s(4) eff(2)] by blast
  have "mongo_ok docs snap t'" using insert_unique(1) [OF s(4) eff(2)] eff(1) by (simp add: mongo_ok_def)
  moreover have "mongo_stored docs t' = insert (u, ur_edfiDoc req) (mongo_stored docs t)"
    using pairs_upd [where D = "docs s" and e = d, OF d(2)] unfolding mongo_stored_pairs d(1,3,4) s(2) .
  ultimately show ?thesis
    by (rule conjI)
qed

lemma plugin_upsert:
  assumes ok: "mongo_ok docs snap t"
    and run: "with_client mg (upsertDocument mg req) t = (Inr (UpsertResult.UPDATE_SUCCESS m u), t')"
  shows "mongo_ok docs snap t' \<and> (u, ur_edfiDoc req) \<in> mongo_stored docs t'"
proof -
  obtain s where s: "snap s = None" "docs s = docs (snd t)"
    "upsertDocument mg req s = (Inr (UpsertResult.UPDATE_SUCCESS m u), snd t')" "unique_uuids (docs s)"
    by (rule store_success [OF ok run])
  then have eff: "snap (snd t') = None" "upsert_effect mg (docs s) (docs s) req None (UpsertResult.UPDATE_SUCCESS m u) (docs (snd t'))"
    using upsertDocument_spec [OF s(1,3)] by (simp_all add: upsert_succeeded_def)
  obtain d where "docs (snd t') = (docs s)(ur_meadowlarkId req \<mapsto> d)" "md_documentUuid d = u" "md_edfiDoc d = ur_edfiDoc req"
    using upsert_unique(2) [OF s(4) eff(2)] by blast
  then show ?thesis
    using upsert_unique(1) [OF s(4) eff(2)] eff(1) pairsI [of "docs (snd t')" "ur_meadowlarkId req" d]
    by (simp add: mongo_ok_def mongo_stored_pairs)
qed

lemma plugin_upsert_failure:
  assumes ok: "mongo_ok docs snap t" and run: "with_client mg (upsertDocument mg req) t = (r, t')"
    and fail: "\<And>m u. r \<noteq> Inr (INSERT_SUCCESS m u)" "\<And>m u. r \<noteq> Inr (UpsertResult.UPDATE_SUCCESS m u)"
  shows "mongo_ok docs snap t' \<and> mongo_stored docs t' = mongo_stored docs t"
proof -
  have bad: "\<not> upsert_succeeded x" if "r = Inr x" for x using that fail by (intro upsert_failed) simp_all
  have "snap s' = None \<and> docs s' = docs s" if "snap s = None" "upsertDocument mg req s = (r, s')" for s s'
    using upsertDocument_spec [OF that] bad by (cases r) simp_all
  then show ?thesis
    by (intro store_frame [OF ok run]) blast
qed

lemma plugin_update:
  assumes ok: "mongo_ok docs snap t"
    and run: "with_client mg (updateDocumentByDocumentUuid mg req) t = (Inr (UpdateResult.UPDATE_SUCCESS m), t')"
  shows "mongo_ok docs snap t' \<and> (upd_documentUuid req, ur_edfiDoc req) \<in> mongo_stored docs t'"
proof -
  obtain s where s: "snap s = None" "docs s = docs (snd t)"
    "updateDocumentByDocumentUuid mg req s = (Inr (UpdateResult.UPDATE_SUCCESS m), snd t')" "unique_uuids (docs s)"
    by (rule store_success [OF ok run])
  then have eff: "snap (snd t') = None" "update_effect mg (docs s) req (UpdateResult.UPDATE_SUCCESS m) (docs (snd t'))"
    using updateDocument_spec [OF s(1,4,3)] by (simp_all add: update_succeeded_def)
  obtain d i where "docs (snd t') i = Some d" "md_documentUuid d = upd_documentUuid req" "md_edfiDoc d = ur_edfiDoc req"
    using update_unique(2) [OF s(4) eff(2)] by blast
  then show ?thesis
    using update_unique(1) [OF s(4) eff(2)] eff(1) pairsI [of "docs (snd t')" i d]
    by (simp add: mongo_ok_def mongo_stored_pairs)
qed

lemma plugin_update_failure:
  assumes ok: "mongo_ok docs snap t" and run: "with_client mg (updateDocumentByDocumentUuid mg req) t = (r, t')"
    and fail: "\<And>m. r \<noteq> Inr (UpdateResult.UPDATE_SUCCESS m)"
  shows "mongo_ok docs snap t' \<and> mongo_stored docs t' = mongo_stored docs t"
proof -
  have bad: "\<not> update_succeeded x" if "r = Inr x" for x using that fail by (intro update_failed) simp_all
  have u: "unique_uuids (docs (snd t))" using ok by (simp add: mongo_ok_def)
  have "snap s' = None \<and> docs s' = docs s"
    if "snap s = None" "docs s = docs (snd t)" "updateDocumentByDocumentUuid mg req s = (r, s')" for s s'
    using updateDocument_spec [OF that(1) _ that(3)] u that(2) bad by (cases r) simp_all
  then show ?thesis
    by (intro store_frame [OF ok run]) blast
qed

lemma plugin_delete:
  assumes ok: "mongo_ok docs snap t"
    and run: "with_client mg (deleteDocumentByDocumentUuid mg req) t = (Inr DELETE_SUCCESS, t')"
  shows "mongo_ok docs snap t' \<and> mongo_stored docs t' = {(u, d) \<in> mongo_stored docs t. u \<noteq> del_documentUuid req}"
proof -
  obtain s where s: "snap s = None" "docs s = docs (snd t)"
    "deleteDocumentByDocumentUuid mg req s = (Inr DELETE_SUCCESS, snd t')" "unique_uuids (docs s)"
    by (rule store_success [OF ok run])
  then obtain d where d: "docs s (md_id d) = Some d" "md_documentUuid d = del_documentUuid req"
    "docs (snd t') = (docs s)(md_id d := None)" "snap (snd t') = None"
    using deleteDocument_spec [OF s(1,3)] by (auto simp: delete_effect_def)
  show ?thesis
    using pairs_remove [OF s(4) d(1)] unique_uuids_remove [OF s(4)] d(2-4) s(2)
    by (simp add: mongo_ok_def mongo_stored_pairs)
qed

lemma plugin_delete_failure:
  assumes ok: "mongo_ok docs snap t" and run: "with_client mg (deleteDocumentByDocumentUuid mg req) t = (r, t')"
    and fail: "r \<noteq> Inr DELETE_SUCCESS"
  shows "mongo_ok docs snap t' \<and> mongo_stored docs t' = mongo_stored docs t"
proof (rule store_frame [OF ok run])
  fix s s' assume s: "snap s = None" "deleteDocumentByDocumentUuid mg req s = (r, s')"
  show "snap s' = None \<and> docs s' = docs s" using deleteDocument_spec [OF s] fail by (cases r) simp_all
qed

lemma plugin_get_frame:
  assumes ok: "mongo_ok docs snap t" and run: "with_client mg (getDocumentByDocumentUuid mg req) t = (r, t')"
  shows "mongo_ok docs snap t' \<and> mongo_stored docs t' = mongo_stored docs t"
proof (rule store_frame [OF ok run])
  fix s s' assume s: "snap s = None" "getDocumentByDocumentUuid mg req s = (r, s')"
  show "snap s' = None \<and> docs s' = docs s" using getDocument_spec [OF s] s(1) by (simp add: same_def)
qed

lemma plugin_get:
  assumes ok: "mongo_ok docs snap t" and run: "with_client mg (getDocumentByDocumentUuid mg req) t = (Inr g, t')"
    and good: "gr_response g = GET_SUCCESS"
  shows "(get_documentUuid req, gr_edfiDoc g) \<in> mongo_stored docs t \<and> gr_documentUuid g = get_documentUuid req"
proof -
  obtain s where s: "snap s = None" "docs s = docs (snd t)" "getDocumentByDocumentUuid mg req s = (Inr g, snd t')"
    "unique_uuids (docs s)" by (rule store_success [OF ok run])
  then obtain d where "d \<in> found (docs s) (ByUuid (get_documentUuid req))" "gr_edfiDoc g = md_edfiDoc d"
    "gr_documentUuid g = get_documentUuid req"
    using getDocument_spec [OF s(1,3)] good by auto
  moreover from this obtain i where "docs (snd t) i = Some d" "md_documentUuid d = get_documentUuid req"
    using s(2) by (auto simp: found_def)
  ultimately show ?thesis using pairsI [of "docs (snd t)" i d] by (simp add: mongo_stored_pairs)
qed

lemma plugin_security:
  assumes ok: "mongo_ok docs snap t" and run: "with_client mg (securityMiddleware mg model) t = (r, t')"
  shows "mongo_ok docs snap t' \<and> mongo_stored docs t' = mongo_stored docs t"
proof (rule store_frame [OF ok run])
  fix s s' assume s: "snap s = None" "securityMiddleware mg model s = (r, s')"
  show "snap s' = None \<and> docs s' = docs s" using security_run [OF s] s(1) by (simp add: same_def)
qed

lemmas plugin_laws = plugin_insert plugin_upsert plugin_upsert_failure plugin_update
  plugin_update_failure plugin_delete plugin_delete_failure plugin_get_frame plugin_get plugin_security

end

sublocale mongo_store < plugin: document_store "initializeDocumentStore mg" "mongo_ok docs snap" "mongo_stored docs"
  by (unfold_locales, unfold initializeDocumentStore_simps) (fact plugin_laws)+

end
