(* ===== verification/MongoIntegrity.thy ===== *)
theory MongoIntegrity
  imports MongoPlugin
begin

text \<open>
  Referential integrity of the MongoDB backend as an invariant of a state machine: the steps are the
  operations of the document store with any outcome, \<open>admissible\<close> says which requests are sent (their
  references are validated, and the aliases of a document depend only on its id), and \<open>integral\<close> says that every reference of
  every stored document leads to a stored document.
\<close>

section \<open>The state machine\<close>

datatype mongo_request =
    UpsertOf UpsertRequest
  | UpdateOf UpdateRequest
  | DeleteOf DeleteRequest
  | GetOf GetRequest
  | SecureOf MiddlewareModel

fun run_request :: "'s mongo_ops \<Rightarrow> mongo_request \<Rightarrow> 's \<Rightarrow> 's" where
  "run_request mg (UpsertOf q) s = snd (upsertDocument mg q s)"
| "run_request mg (UpdateOf q) s = snd (updateDocumentByDocumentUuid mg q s)"
| "run_request mg (DeleteOf q) s = snd (deleteDocumentByDocumentUuid mg q s)"
| "run_request mg (GetOf q) s = snd (getDocumentByDocumentUuid mg q s)"
| "run_request mg (SecureOf m) s = snd (securityMiddleware mg m s)"

inductive reachable :: "'s mongo_ops \<Rightarrow> (mongo_request \<Rightarrow> bool) \<Rightarrow> 's \<Rightarrow> 's \<Rightarrow> bool"
  for mg allowed s0 where
  start: "reachable mg allowed s0 s0"
| step: "reachable mg allowed s0 s \<Longrightarrow> allowed q \<Longrightarrow> reachable mg allowed s0 (run_request mg q s)"

inductive_cases reachableE: "reachable mg allowed s0 s"

lemma reachable_fold:
  "list_all allowed qs \<Longrightarrow> reachable mg allowed s0 (fold (run_request mg) qs s0)"
proof (induction qs rule: rev_induct)
  case Nil
  then show ?case by (simp add: reachable.start)
next
  case (snoc q qs)
  then show ?case by (simp add: reachable.step)
qed

section \<open>The invariant\<close>

text \<open>\<open>alias i\<close> are the ids under which a document with id \<open>i\<close> can be referred to: \<open>i\<close> and perhaps the id
  of its superclass.  For an id that no document may have, such as that of a superclass, \<open>alias i\<close> does not have \<open>i\<close>.
  The law says that the id of a document is not the superclass id of another one; several documents may claim
  the same superclass id.\<close>

definition alias_law :: "(MeadowlarkId \<Rightarrow> MeadowlarkId list) \<Rightarrow> bool" where
  "alias_law alias \<longleftrightarrow> (\<forall>i j. i \<in> set (alias i) \<longrightarrow> i \<in> set (alias j) \<longrightarrow> j = i)"

lemma alias_lawD: "alias_law alias \<Longrightarrow> i \<in> set (alias i) \<Longrightarrow> i \<in> set (alias j) \<Longrightarrow> j = i"
  by (simp add: alias_law_def)

lemma own_alias: "aliasMeadowlarkIdsFrom shake256 i info = Inr ids \<Longrightarrow> i \<in> set ids"
  by (cases info) (auto simp: aliasMeadowlarkIdsFrom_def)

fun admissible :: "'s mongo_ops \<Rightarrow> (MeadowlarkId \<Rightarrow> MeadowlarkId list) \<Rightarrow> mongo_request \<Rightarrow> bool" where
  "admissible mg alias (UpsertOf q) \<longleftrightarrow> ur_validateDocumentReferencesExist q \<and>
     aliasMeadowlarkIdsFrom (mg_shake256 mg) (ur_meadowlarkId q) (di_superclassInfo (ur_documentInfo q)) =
       Inr (alias (ur_meadowlarkId q))"
| "admissible mg alias (UpdateOf q) \<longleftrightarrow> ur_validateDocumentReferencesExist q \<and>
     aliasMeadowlarkIdsFrom (mg_shake256 mg) (ur_meadowlarkId q) (di_superclassInfo (ur_documentInfo q)) =
       Inr (alias (ur_meadowlarkId q))"
| "admissible mg alias (DeleteOf q) \<longleftrightarrow> del_validateNoReferencesToDocument q"
| "admissible mg alias _ \<longleftrightarrow> True"

definition refs_resolve :: "doc_map \<Rightarrow> bool" where
  "refs_resolve D \<longleftrightarrow> (\<forall>i d. D i = Some d \<longrightarrow> (\<forall>a \<in> set (md_outboundRefs d). resolves D a))"

definition aliases_as :: "(MeadowlarkId \<Rightarrow> MeadowlarkId list) \<Rightarrow> doc_map \<Rightarrow> bool" where
  "aliases_as alias D \<longleftrightarrow> (\<forall>i d. D i = Some d \<longrightarrow> md_id d = i \<and> md_aliasMeadowlarkIds d = alias i \<and> i \<in> set (alias i)) \<and>
     (\<forall>i d j e a. D i = Some d \<longrightarrow> D j = Some e \<longrightarrow> a \<in> set (alias i) \<longrightarrow> a \<in> set (alias j) \<longrightarrow> i = j)"

definition integral :: "(MeadowlarkId \<Rightarrow> MeadowlarkId list) \<Rightarrow> doc_map \<Rightarrow> bool" where
  "integral alias D \<longleftrightarrow> aliases_as alias D \<and> unique_uuids D \<and> refs_resolve D"

lemma aliases_asI:
  assumes "\<And>i d. D i = Some d \<Longrightarrow> md_id d = i \<and> md_aliasMeadowlarkIds d = alias i \<and> i \<in> set (alias i)"
    and "\<And>i d j e a. D i = Some d \<Longrightarrow> D j = Some e \<Longrightarrow> a \<in> set (alias i) \<Longrightarrow> a \<in> set (alias j) \<Longrightarrow> i = j"
  shows "aliases_as alias D"
  unfolding aliases_as_def using assms by blast

lemma aliases_asD:
  assumes "aliases_as alias D" "D i = Some d"
  shows "md_id d = i" "md_aliasMeadowlarkIds d = alias i" "i \<in> set (alias i)"
    and "D j = Some e \<Longrightarrow> a \<in> set (alias i) \<Longrightarrow> a \<in> set (alias j) \<Longrightarrow> i = j"
  using assms unfolding aliases_as_def by (blast+)

lemma well_aliased:
  assumes "aliases_as alias D"
  shows "well_aliased D"
  unfolding well_aliased_def
proof (intro conjI allI impI)
  fix i d assume d: "D i = Some d"
  show "md_id d = i" by (rule aliases_asD(1) [OF assms(1) d])
  show "i \<in> set (md_aliasMeadowlarkIds d)"
    using aliases_asD(2,3) [OF assms(1) d] by simp
next
  fix i d j e a
  assume d: "D i = Some d" and e: "D j = Some e" "a \<in> set (md_aliasMeadowlarkIds d)" "a \<in> set (md_aliasMeadowlarkIds e)"
  then show "i = j"
    using aliases_asD(2) [OF assms(1) d] aliases_asD(2) [OF assms(1) e(1)] aliases_asD(4) [OF assms(1) d e(1)] by simp
qed

lemma resolves_as: "aliases_as alias D \<Longrightarrow> resolves D a \<longleftrightarrow> (\<exists>i d. D i = Some d \<and> a \<in> set (alias i))"
  unfolding resolves_def using aliases_asD(2) by metis

lemma aliases_as_upd:
  assumes a: "aliases_as alias D" and d: "md_id d = i" "md_aliasMeadowlarkIds d = alias i" "i \<in> set (alias i)"
    and new: "\<And>j e a. D i = None \<Longrightarrow> D j = Some e \<Longrightarrow> a \<in> set (alias i) \<Longrightarrow> a \<in> set (alias j) \<Longrightarrow> False"
  shows "aliases_as alias (D(i \<mapsto> d))"
proof (rule aliases_asI)
  fix j e assume "(D(i \<mapsto> d)) j = Some e"
  then show "md_id e = j \<and> md_aliasMeadowlarkIds e = alias j \<and> j \<in> set (alias j)"
    using d aliases_asD(1-3) [OF a, of j e] by (cases "j = i") simp_all
next
  have other: "j = i" if "D j = Some e" "x \<in> set (alias i)" "x \<in> set (alias j)" for j e x
    using that new aliases_asD(4) [OF a that(1)] by (cases "D i") blast+
  fix j e k f x
  assume "(D(i \<mapsto> d)) j = Some e" "(D(i \<mapsto> d)) k = Some f" and x: "x \<in> set (alias j)" "x \<in> set (alias k)"
  then show "j = k"
    using other aliases_asD(4) [OF a, of j e k f x] by (cases "j = i"; cases "k = i") auto
qed

lemma aliases_as_remove: "aliases_as alias D \<Longrightarrow> aliases_as alias (D(i := None))"
  by (rule aliases_asI) (auto dest: aliases_asD split: if_splits)

text \<open>An insert claims ids that no document has.\<close>

lemma fresh_aliases:
  assumes "alias_law alias" "aliases_as alias D" "superclass_free mg D di" "D i = None"
    and "aliasMeadowlarkIdsFrom (mg_shake256 mg) i (di_superclassInfo di) = Inr (alias i)"
    and "D j = Some e" "a \<in> set (alias i)" "a \<in> set (alias j)"
  shows False
proof (cases "a = i")
  case True
  then have "j = i" using alias_lawD [OF assms(1)] own_alias [OF assms(5)] assms(8) by blast
  then show False using assms(4,6) by simp
next
  case False
  then obtain si where "di_superclassInfo di = Some si" "getMeadowlarkIdForSuperclassInfo (mg_shake256 mg) si = Inr a"
  proof (cases "di_superclassInfo di")
    case None
    then have "alias i = [i]" using assms(5) by (simp add: aliasMeadowlarkIdsFrom_def)
    then show thesis using False assms(7) by simp
  next
    case (Some si)
    then obtain b where "getMeadowlarkIdForSuperclassInfo (mg_shake256 mg) si = Inr b" "alias i = [i, b]"
      using assms(5) by (cases "getMeadowlarkIdForSuperclassInfo (mg_shake256 mg) si")
        (auto simp: aliasMeadowlarkIdsFrom_def)
    then show thesis using that Some False assms(7) by auto
  qed
  then have "\<not> resolves D a" using assms(3) by (simp add: superclass_free_def)
  then show False using assms(6,8) unfolding resolves_as [OF assms(2)] by blast
qed

text \<open>Writing one document with the aliases of its id keeps all references, when its own resolve.\<close>

lemma refs_resolve_upd:
  assumes a: "aliases_as alias D" "aliases_as alias (D(i \<mapsto> d))" and r: "refs_resolve D"
    and d: "\<And>x. x \<in> set (md_outboundRefs d) \<Longrightarrow> resolves D x"
  shows "refs_resolve (D(i \<mapsto> d))"
proof -
  have mono: "resolves (D(i \<mapsto> d)) x" if "resolves D x" for x
    using that unfolding resolves_as [OF a(1)] resolves_as [OF a(2)] by auto
  show ?thesis unfolding refs_resolve_def
  proof (intro allI impI ballI)
    fix j e x assume "(D(i \<mapsto> d)) j = Some e" "x \<in> set (md_outboundRefs e)"
    then have "resolves D x" using d r by (auto simp: refs_resolve_def split: if_splits)
    then show "resolves (D(i \<mapsto> d)) x" by (rule mono)
  qed
qed

text \<open>Removing a document to which no document refers keeps the references.\<close>

lemma resolves_remove:
  assumes "aliases_as alias D" "D i = Some old" "resolves D x" "x \<notin> set (alias i)"
  shows "resolves (D(i := None)) x"
  using assms(3,4) unfolding resolves_as [OF assms(1)] resolves_as [OF aliases_as_remove [OF assms(1)]] by auto

lemma refs_resolve_remove:
  assumes "aliases_as alias D" "refs_resolve D" "D i = Some old"
    and free: "found D (OutboundIn (md_aliasMeadowlarkIds old)) = {}"
  shows "refs_resolve (D(i := None))"
  unfolding refs_resolve_def
proof (intro allI impI ballI)
  fix j e x assume e: "(D(i := None)) j = Some e" "x \<in> set (md_outboundRefs e)"
  then have "D j = Some e" by (simp split: if_splits)
  then have "resolves D x" "x \<notin> set (md_aliasMeadowlarkIds old)"
    using e(2) assms(2) free by (auto simp: refs_resolve_def found_def)
  then show "resolves (D(i := None)) x"
    using assms(1,3) by (intro resolves_remove) (auto simp: aliases_as_def)
qed

section \<open>The operations keep the invariant\<close>

lemma integral_insert:
  assumes law: "alias_law alias" and ok: "integral alias D"
    and ad: "admissible mg alias (UpsertOf q)"
    and eff: "upsert_effect mg D D q None (INSERT_SUCCESS m u) D'" and u: "unique_uuids D'"
  shows "integral alias D'"
proof -
  let ?i = "ur_meadowlarkId q"
  have a: "aliases_as alias D" "refs_resolve D" using ok by (simp_all add: integral_def)
  obtain d where d: "D ?i = None" "upsertDocumentOf mg q None u = Inr d" "D' = D(?i \<mapsto> d)"
    "superclass_free mg D (ur_documentInfo q)" "sound_refs mg D (ur_documentInfo q)"
    using eff ad well_aliased [OF a(1)] by (auto simp: upsert_effect_def Let_def)
  note f = upsertDocumentOf_fields [OF d(2)]
  have al: "md_aliasMeadowlarkIds d = alias ?i" using f(6) ad by simp
  have own: "?i \<in> set (alias ?i)" by (rule own_alias [of "mg_shake256 mg" _ "di_superclassInfo (ur_documentInfo q)"]) (use ad in simp)
  have "aliases_as alias (D(?i \<mapsto> d))"
    by (rule aliases_as_upd [OF a(1) f(1) al own]) (use fresh_aliases [OF law a(1) d(4,1)] ad in simp)
  moreover from this have "refs_resolve (D(?i \<mapsto> d))"
    by (rule refs_resolve_upd [OF a(1) _ a(2)]) (use d(5) f(5) in \<open>simp add: sound_refs_def\<close>)
  ultimately show ?thesis using u d(3) by (simp add: integral_def)
qed

lemma integral_upsert:
  assumes law: "alias_law alias" and ok: "integral alias D"
    and ad: "admissible mg alias (UpsertOf q)"
    and eff: "upsert_effect mg D D q None (UpsertResult.UPDATE_SUCCESS m u) D'" and u: "unique_uuids D'"
  shows "integral alias D'"
proof -
  let ?i = "ur_meadowlarkId q"
  have a: "aliases_as alias D" "refs_resolve D" using ok by (simp_all add: integral_def)
  obtain old d where d: "D ?i = Some old" "upsertDocumentOf mg q (Some old) u = Inr d" "D' = D(?i \<mapsto> d)"
    "sound_refs mg D (ur_documentInfo q)"
    using eff ad well_aliased [OF a(1)] by (auto simp: upsert_effect_def Let_def)
  note f = upsertDocumentOf_fields [OF d(2)]
  have al: "md_aliasMeadowlarkIds d = alias ?i" using f(6) ad by simp
  have own: "?i \<in> set (alias ?i)" by (rule own_alias [of "mg_shake256 mg" _ "di_superclassInfo (ur_documentInfo q)"]) (use ad in simp)
  have "aliases_as alias (D(?i \<mapsto> d))"
    by (rule aliases_as_upd [OF a(1) f(1) al own]) (use d(1) in simp)
  moreover from this have "refs_resolve (D(?i \<mapsto> d))"
    by (rule refs_resolve_upd [OF a(1) _ a(2)]) (use d(4) f(5) in \<open>simp add: sound_refs_def\<close>)
  ultimately show ?thesis using u d(3) by (simp add: integral_def)
qed

lemma integral_delete:
  assumes ok: "integral alias D" and eff: "delete_effect D q DELETE_SUCCESS D'"
    and ad: "del_validateNoReferencesToDocument q"
  shows "integral alias D'"
proof -
  have a: "aliases_as alias D" "refs_resolve D" "unique_uuids D" using ok by (simp_all add: integral_def)
  obtain d e where d: "D (md_id d) = Some d" "md_documentUuid d = del_documentUuid q" "D' = D(md_id d := None)"
    and e: "D (md_id e) = Some e" "md_documentUuid e = del_documentUuid q"
      "found D (OutboundIn (md_aliasMeadowlarkIds e)) = {}"
    using eff ad by (auto simp: delete_effect_def)
  have "e = d" using a(3) d(1,2) e(1,2) unfolding unique_uuids_def by (metis option.inject)
  then have "refs_resolve (D(md_id d := None))" using refs_resolve_remove [OF a(1,2) d(1)] e(3) by simp
  then show ?thesis using a d(3) by (simp add: integral_def aliases_as_remove unique_uuids_remove)
qed

text \<open>A document whose identity changes leaves its old id, to which no document refers.\<close>

lemma integral_rename:
  assumes law: "alias_law alias" and ok: "integral alias D" and old: "D j = Some old"
    and d: "md_id d = i" "md_aliasMeadowlarkIds d = alias i"
    and ids: "aliasMeadowlarkIdsFrom (mg_shake256 mg) i (di_superclassInfo di) = Inr (alias i)"
    and free: "found D (OutboundIn (md_aliasMeadowlarkIds old)) = {}"
    and fresh: "D i = None \<longrightarrow> superclass_free mg (D(j := None)) di" and ij: "j \<noteq> i"
    and refs: "\<And>x. x \<in> set (md_outboundRefs d) \<Longrightarrow> resolves D x \<and> x \<notin> set (alias j)"
  shows "aliases_as alias (D(j := None, i \<mapsto> d)) \<and> refs_resolve (D(j := None, i \<mapsto> d))"
proof -
  let ?E = "D(j := None)"
  have a: "aliases_as alias D" "refs_resolve D" using ok by (simp_all add: integral_def)
  have E: "aliases_as alias ?E" "refs_resolve ?E"
    using aliases_as_remove [OF a(1)] refs_resolve_remove [OF a old free] by simp_all
  have up: "aliases_as alias (?E(i \<mapsto> d))"
  proof (rule aliases_as_upd [OF E(1) d own_alias [OF ids]])
    fix k e x
    assume "?E i = None" "?E k = Some e" "x \<in> set (alias i)" "x \<in> set (alias k)"
    then show False using fresh_aliases [OF law E(1) _ _ ids] fresh ij by simp
  qed
  have "refs_resolve (?E(i \<mapsto> d))"
    by (rule refs_resolve_upd [OF E(1) up E(2)]) (use refs resolves_remove [OF a(1) old] in blast)
  then show ?thesis using up by simp
qed

lemma integral_update:
  assumes law: "alias_law alias" and ok: "integral alias D"
    and ad: "admissible mg alias (UpdateOf q)"
    and eff: "update_effect mg D q (UpdateResult.UPDATE_SUCCESS m) D'" and u: "unique_uuids D'"
  shows "integral alias D'"
  using eff
proof (rule update_effectE)
  let ?i = "ur_meadowlarkId q"
  have a: "aliases_as alias D" "refs_resolve D" using ok by (simp_all add: integral_def)
  fix d old
  assume old: "D (md_id old) = Some old" "md_documentUuid old = upd_documentUuid q"
    and made: "meadowlarkDocumentFrom (mg_shake256 mg) (ur_resourceInfo q) (ur_documentInfo q) (upd_documentUuid q) ?i
       (ur_edfiDoc q) (ur_validateDocumentReferencesExist q) (sec_clientId (ur_security q)) None
       (di_requestTimestamp (ur_documentInfo q)) = Inr d"
    and lock: "upd_documentUuid q \<notin> md_documentUuid ` found D (AliasIn (md_outboundRefs d))"
    and sound: "ur_validateDocumentReferencesExist q \<longrightarrow> well_aliased D \<longrightarrow> sound_refs mg D (ur_documentInfo q)"
    and D': "if md_id old = ?i then D' = D(md_id old \<mapsto> set_fields d old)
     else ri_allowIdentityUpdates (ur_resourceInfo q) \<and>
          D' = D(md_id old := None, ?i \<mapsto> d\<lparr>md_createdAt := md_createdAt old\<rparr>) \<and>
          found D (OutboundIn (md_aliasMeadowlarkIds old)) = {} \<and>
          (D ?i = None \<longrightarrow> superclass_free mg (D(md_id old := None)) (ur_documentInfo q))"
  note f = meadowlarkDocumentFrom_fields [OF made]
  have refs: "resolves D x" if "x \<in> set (md_outboundRefs d)" for x
    using that sound ad well_aliased [OF a(1)] f(8) by (simp add: sound_refs_def)
  have al: "md_aliasMeadowlarkIds d = alias ?i" using f(9) ad by simp
  have own: "?i \<in> set (alias ?i)" by (rule own_alias [of "mg_shake256 mg" _ "di_superclassInfo (ur_documentInfo q)"]) (use ad in simp)
  show "integral alias D'"
  proof (cases "md_id old = ?i")
    case True
    have "aliases_as alias (D(?i \<mapsto> set_fields d old))"
      by (rule aliases_as_upd [OF a(1)]) (use True old al own in \<open>simp_all add: set_fields_def\<close>)
    moreover from this have "refs_resolve (D(?i \<mapsto> set_fields d old))"
      by (rule refs_resolve_upd [OF a(1) _ a(2)]) (use refs in \<open>simp add: set_fields_def\<close>)
    ultimately show ?thesis using u D' True by (simp add: integral_def)
  next
    case False
    have "x \<notin> set (alias (md_id old))" if "x \<in> set (md_outboundRefs d)" for x
    proof
      assume "x \<in> set (alias (md_id old))"
      then have "old \<in> found D (AliasIn (md_outboundRefs d))"
        using that old(1) aliases_asD(2) [OF a(1) old(1)] by (auto simp: found_def)
      then show False using lock old(2) by (metis image_eqI)
    qed
    then have "aliases_as alias D' \<and> refs_resolve D'"
      using D' False refs f(1) al ad integral_rename [OF law ok old(1), of "d\<lparr>md_createdAt := md_createdAt old\<rparr>" ?i mg "ur_documentInfo q"]
      by simp
    then show ?thesis using u by (simp add: integral_def)
  qed
qed

context mongo_store
begin

lemma step_upsert:
  assumes law: "alias_law alias" and s: "snap s = None" "integral alias (docs s)"
    and ad: "admissible mg alias (UpsertOf r)" and run: "upsertDocument mg r s = (x, s')"
  shows "snap s' = None \<and> integral alias (docs s')"
proof -
  have u: "unique_uuids (docs s)" using s(2) by (simp add: integral_def)
  note spec = upsertDocument_spec [OF s(1) run]
  consider (ins) m v where "x = Inr (INSERT_SUCCESS m v)" | (upd) m v where "x = Inr (UpsertResult.UPDATE_SUCCESS m v)"
    | (failed) "docs s' = docs s"
    using spec by (cases x) (auto simp: upsert_succeeded_def split: UpsertResult.splits if_splits)
  then have "integral alias (docs s')"
  proof cases
    case ins
    then have "upsert_effect mg (docs s) (docs s) r None (INSERT_SUCCESS m v) (docs s')"
      using spec by (simp add: upsert_succeeded_def)
    then show ?thesis using integral_insert [OF law s(2) ad] insert_unique(1) [OF u] by blast
  next
    case upd
    then have "upsert_effect mg (docs s) (docs s) r None (UpsertResult.UPDATE_SUCCESS m v) (docs s')"
      using spec by (simp add: upsert_succeeded_def)
    then show ?thesis using integral_upsert [OF law s(2) ad] upsert_unique(1) [OF u] by blast
  qed (use s in simp)
  then show ?thesis using spec by simp
qed

lemma step_update:
  assumes law: "alias_law alias" and s: "snap s = None" "integral alias (docs s)"
    and ad: "admissible mg alias (UpdateOf r)" and run: "updateDocumentByDocumentUuid mg r s = (x, s')"
  shows "snap s' = None \<and> integral alias (docs s')"
proof -
  have u: "unique_uuids (docs s)" using s(2) by (simp add: integral_def)
  note spec = updateDocument_spec [OF s(1) u run]
  consider (upd) m where "x = Inr (UpdateResult.UPDATE_SUCCESS m)" | (failed) "docs s' = docs s"
    using spec by (cases x) (auto simp: update_succeeded_def split: UpdateResult.splits if_splits)
  then have "integral alias (docs s')"
  proof cases
    case upd
    then have "update_effect mg (docs s) r (UpdateResult.UPDATE_SUCCESS m) (docs s')"
      using spec by (simp add: update_succeeded_def)
    then show ?thesis using integral_update [OF law s(2) ad] update_unique(1) [OF u] by blast
  qed (use s in simp)
  then show ?thesis using spec by simp
qed

lemma step_delete:
  assumes s: "snap s = None" "integral alias (docs s)"
    and ad: "admissible mg alias (DeleteOf r)" and run: "deleteDocumentByDocumentUuid mg r s = (x, s')"
  shows "snap s' = None \<and> integral alias (docs s')"
proof -
  note spec = deleteDocument_spec [OF s(1) run]
  have "integral alias (docs s')"
  proof (cases "x = Inr DELETE_SUCCESS")
    case True
    then have "delete_effect (docs s) r DELETE_SUCCESS (docs s')" using spec by simp
    then show ?thesis by (rule integral_delete [OF s(2)]) (use ad in simp)
  next
    case False
    then show ?thesis using spec s by (cases x) simp_all
  qed
  then show ?thesis using spec by simp
qed

lemma step_integral:
  assumes law: "alias_law alias" and s: "snap s = None" "integral alias (docs s)" and ad: "admissible mg alias q"
  shows "snap (run_request mg q s) = None \<and> integral alias (docs (run_request mg q s))"
proof (cases q)
  case (UpsertOf r)
  then show ?thesis using step_upsert [OF law s, of r] ad by (cases "upsertDocument mg r s") simp
next
  case (UpdateOf r)
  then show ?thesis using step_update [OF law s, of r] ad by (cases "updateDocumentByDocumentUuid mg r s") simp
next
  case (DeleteOf r)
  then show ?thesis using step_delete [OF s, of r] ad by (cases "deleteDocumentByDocumentUuid mg r s") simp
next
  case (GetOf r)
  then show ?thesis using getDocument_spec [OF s(1), of r] s
    by (cases "getDocumentByDocumentUuid mg r s") (auto simp: same_def)
next
  case (SecureOf m)
  then show ?thesis using security_run [OF s(1), of m] s
    by (cases "securityMiddleware mg m s") (auto simp: same_def)
qed

lemma reachable_integral:
  assumes "reachable mg (admissible mg alias) s0 s" "alias_law alias" "snap s0 = None" "integral alias (docs s0)"
  shows "snap s = None \<and> integral alias (docs s)"
  using assms(1)
proof (induction rule: reachable.induct)
  case start
  show ?case using assms(3,4) ..
next
  case (step s q)
  then show ?case using step_integral [OF assms(2)] by blast
qed

end

end
