(* ===== verification/MongoProperties.thy ===== *)
theory MongoProperties
  imports MongoIntegrity
begin

text \<open>
  What the MongoDB backend promises, over any driver that keeps the laws of \<open>mongo_store\<close>, with runs on the
  collection in memory as witnesses.
\<close>

section \<open>Example requests\<close>

definition example_mongo :: "mem mongo_ops" where
  "example_mongo = mem_ops prefix_digest [(''MONGODB_MAX_NUMBER_OF_RETRIES'', CNumber ''1''),
     (''MONGO_URI'', CString ''mongodb://localhost''), (''MEADOWLARK_DATABASE_NAME'', CString ''meadowlark''),
     (''MONGO_WRITE_CONCERN'', CString ''majority''), (''MONGO_READ_CONCERN'', CString ''majority'')]"

definition mem_start :: mem where
  "mem_start = \<lparr>mem_docs = [], mem_snap = None, mem_next = 0\<rparr>"

definition example_identity :: "string \<Rightarrow> DocumentIdentity" where
  "example_identity k = [[(''k'', Some (JStr k))]]"

definition example_reference :: "string \<Rightarrow> DocumentReference" where
  "example_reference k = \<lparr>dr_projectName = ''P'', dr_resourceName = ''R'', dr_isDescriptor = False,
     dr_documentIdentity = example_identity k\<rparr>"

definition example_key :: "string \<Rightarrow> MeadowlarkId" where
  "example_key k = (case getMeadowlarkIdForDocumentReference prefix_digest (example_reference k) of
     Inr i \<Rightarrow> i | Inl _ \<Rightarrow> [])"

text \<open>The upsert of the document with key \<open>k\<close>, body \<open>k\<close> and references to \<open>refs\<close> at time \<open>t\<close>, and its update
  under a uuid.\<close>

definition example_upsert :: "string \<Rightarrow> string list \<Rightarrow> int \<Rightarrow> UpsertRequest" where
  "example_upsert k refs t = \<lparr>ur_meadowlarkId = example_key k,
     ur_resourceInfo = \<lparr>bri_projectName = ''P'', bri_resourceName = ''R'', bri_isDescriptor = False,
       ri_resourceVersion = ''3.3.1-b'', ri_allowIdentityUpdates = True\<rparr>,
     ur_documentInfo = \<lparr>di_documentIdentity = example_identity k, di_documentReferences = map example_reference refs,
       di_descriptorReferences = [], di_superclassInfo = None, di_requestTimestamp = t\<rparr>,
     ur_edfiDoc = JObj [(''k'', JStr k)], ur_validateDocumentReferencesExist = True,
     ur_security = newSecurity, ur_traceId = []\<rparr>"

definition example_update :: "string \<Rightarrow> string list \<Rightarrow> int \<Rightarrow> DocumentUuid \<Rightarrow> UpdateRequest" where
  "example_update k refs t u = UpsertRequest.extend (example_upsert k refs t) (UpdateRequest.fields u)"

definition example_delete :: "DocumentUuid \<Rightarrow> DeleteRequest" where
  "example_delete u = \<lparr>del_documentUuid = u, del_resourceInfo = newResourceInfo,
     del_validateNoReferencesToDocument = True, del_security = newSecurity, del_traceId = []\<rparr>"

text \<open>A request whose document has the superclass identity \<open>s\<close> besides its own, and the aliases of the documents of such
  requests with key \<open>a\<close>; no document has the id of a superclass.\<close>

definition example_superclass :: SuperclassInfo where
  "example_superclass = \<lparr>si_documentIdentity = example_identity ''s'', si_projectName = ''P'', si_resourceName = ''R''\<rparr>"

definition with_superclass :: "'a UpsertRequest_scheme \<Rightarrow> 'a UpsertRequest_scheme" where
  "with_superclass q = q\<lparr>ur_documentInfo := (ur_documentInfo q)\<lparr>di_superclassInfo := Some example_superclass\<rparr>\<rparr>"

definition example_aliases :: "MeadowlarkId \<Rightarrow> MeadowlarkId list" where
  "example_aliases i = (if i = example_key ''s'' then []
     else if i = example_key ''a'' then [i, example_key ''s''] else [i])"

lemma example_alias_law: "alias_law example_aliases" "distinct (example_aliases i)"
proof -
  have "example_key ''a'' \<noteq> example_key ''s''" by code_simp
  then show "alias_law example_aliases" "distinct (example_aliases i)"
    by (auto simp: alias_law_def example_aliases_def split: if_splits)
qed

definition after_upserts :: "(string \<times> string list \<times> int) list \<Rightarrow> mem" where
  "after_upserts rs = fold (\<lambda>(k, refs, t) s. snd (upsertDocument example_mongo (example_upsert k refs t) s)) rs mem_start"

lemma example_store: "mongo_store example_mongo mem_map mem_snap_map"
  unfolding example_mongo_def by (rule mem.mongo_store_axioms)

lemma example_shake256: "mg_shake256 example_mongo = prefix_digest"
  by (simp add: example_mongo_def mem_ops_def)

lemma unique_uuids_example: "unique_uuids D" if "\<And>i d. D i = Some d \<Longrightarrow> i = j"
  unfolding unique_uuids_def using that by blast

lemma upsertDocumentOf_createdAt:
  "upsertDocumentOf mg request (Some old) u = Inr d \<Longrightarrow> md_createdAt old = Some c \<Longrightarrow> md_createdAt d = Some c"
  unfolding upsertDocumentOf_def Let_def by (drule meadowlarkDocumentFrom_fields(5)) simp

section \<open>Upsert\<close>

text \<open>C19: An upsert that answers INSERT_SUCCESS has stored the document of the request under a uuid no document
  had, and there was none with its id; one that answers UPDATE_SUCCESS has replaced the document with its id
  by one with the same uuid and creation time and a later modification time; every other outcome, a thrown
  error included, leaves the documents as they were.\<close>

theorem mongo_upsert_outcomes:
  assumes "mongo_store mg docs snap" "snap s = None" "upsertDocument mg request s = (r, s')"
  shows "snap s' = None \<and> (case r of
      Inr (INSERT_SUCCESS m u) \<Rightarrow> docs s (ur_meadowlarkId request) = None \<and>
        (\<forall>i d. docs s i = Some d \<longrightarrow> md_documentUuid d \<noteq> u) \<and>
        (\<exists>d. upsertDocumentOf mg request None u = Inr d \<and> docs s' = (docs s)(ur_meadowlarkId request \<mapsto> d))
    | Inr (UpsertResult.UPDATE_SUCCESS m u) \<Rightarrow>
        (\<exists>old d. docs s (ur_meadowlarkId request) = Some old \<and> u = md_documentUuid old \<and>
           upsertDocumentOf mg request (Some old) u = Inr d \<and> docs s' = (docs s)(ur_meadowlarkId request \<mapsto> d) \<and>
           (md_createdAt old \<noteq> None \<longrightarrow> md_createdAt d = md_createdAt old) \<and>
           md_lastModifiedAt old < md_lastModifiedAt d)
    | _ \<Rightarrow> docs s' = docs s)"
proof -
  note spec = mongo_store.upsertDocument_spec [OF assms]
  show ?thesis
  proof (cases r)
    case (Inl e)
    then show ?thesis using spec by simp
  next
    case (Inr x)
    show ?thesis
    proof (cases "upsert_succeeded x")
      case True
      then have "upsert_effect mg (docs s) (docs s) request None x (docs s')" using spec Inr by simp
      then show ?thesis using Inr True spec
        by (cases x) (auto simp: upsert_effect_def upsert_succeeded_def Let_def uuids_def upsertDocumentOf_fields(4)
            upsertDocumentOf_createdAt)
    next
      case False
      then show ?thesis using Inr spec by (cases x) (simp_all add: upsert_succeeded_def)
    qed
  qed
qed

theorem mongo_upsert_outcomes_witness:
  "case upsertDocument example_mongo (example_upsert ''b'' [''a''] 2) (after_upserts [(''a'', [], 1)]) of (r, s') \<Rightarrow>
     r = Inr (INSERT_SUCCESS None (numbered_uuid 1)) \<and>
     (\<exists>d. upsertDocumentOf example_mongo (example_upsert ''b'' [''a''] 2) None (numbered_uuid 1) = Inr d \<and>
        mem_map s' = (mem_map (after_upserts [(''a'', [], 1)]))(example_key ''b'' \<mapsto> d))"
proof -
  let ?q = "example_upsert ''b'' [''a''] 2" and ?s = "after_upserts [(''a'', [], 1)]"
  have r: "fst (upsertDocument example_mongo ?q ?s) = Inr (INSERT_SUCCESS None (numbered_uuid 1))"
    and s: "mem_snap ?s = None" by code_simp+
  have i: "ur_meadowlarkId ?q = example_key ''b''" by (simp add: example_upsert_def)
  have "mem_snap_map ?s = None" using s by (simp add: mem_snap_map_def)
  moreover obtain s' where "upsertDocument example_mongo ?q ?s = (Inr (INSERT_SUCCESS None (numbered_uuid 1)), s')"
    using r by (cases "upsertDocument example_mongo ?q ?s") auto
  ultimately show ?thesis using mongo_upsert_outcomes [OF example_store, of ?s ?q _ s'] i by simp
qed

section \<open>Update and delete\<close>

lemma update_effect_document:
  assumes "update_effect mg D request (UpdateResult.UPDATE_SUCCESS m) D'"
  obtains i old d where "D i = Some old" "md_documentUuid old = upd_documentUuid request"
    "md_documentUuid d = upd_documentUuid request" "md_edfiDoc d = ur_edfiDoc request"
    "md_createdAt d = md_createdAt old" "md_lastModifiedAt old < di_requestTimestamp (ur_documentInfo request)"
    "md_lastModifiedAt d = di_requestTimestamp (ur_documentInfo request)"
    "if i = ur_meadowlarkId request
     then md_createdBy d = md_createdBy old \<and> D' = D(i \<mapsto> d)
     else ri_allowIdentityUpdates (ur_resourceInfo request) \<and>
          D' = D(i := None, ur_meadowlarkId request \<mapsto> d) \<and>
          (\<forall>j e. D j = Some e \<longrightarrow> set (md_outboundRefs e) \<inter> set (md_aliasMeadowlarkIds old) = {})"
  using assms
proof (rule update_effectE)
  fix document old
  assume old: "D (md_id old) = Some old" "md_documentUuid old = upd_documentUuid request"
      "md_lastModifiedAt old < di_requestTimestamp (ur_documentInfo request)"
    and made: "meadowlarkDocumentFrom (mg_shake256 mg) (ur_resourceInfo request) (ur_documentInfo request)
      (upd_documentUuid request) (ur_meadowlarkId request) (ur_edfiDoc request)
      (ur_validateDocumentReferencesExist request) (sec_clientId (ur_security request)) None
      (di_requestTimestamp (ur_documentInfo request)) = Inr document"
    and D': "if md_id old = ur_meadowlarkId request
      then D' = D(md_id old \<mapsto> set_fields document old)
      else ri_allowIdentityUpdates (ur_resourceInfo request) \<and>
           D' = D(md_id old := None, ur_meadowlarkId request \<mapsto> document\<lparr>md_createdAt := md_createdAt old\<rparr>) \<and>
           found D (OutboundIn (md_aliasMeadowlarkIds old)) = {} \<and>
           (D (ur_meadowlarkId request) = None \<longrightarrow>
              superclass_free mg (D(md_id old := None)) (ur_documentInfo request))"
  note f = meadowlarkDocumentFrom_fields [OF made]
  show thesis
  proof (cases "md_id old = ur_meadowlarkId request")
    case True
    then show thesis using old f D' by (intro that [of "md_id old" old "set_fields document old"]) (simp_all add: set_fields_def)
  next
    case False
    then have "\<forall>j e. D j = Some e \<longrightarrow> set (md_outboundRefs e) \<inter> set (md_aliasMeadowlarkIds old) = {}"
      using D' by (auto simp: found_def)
    then show thesis using old f D' False
      by (intro that [of "md_id old" old "document\<lparr>md_createdAt := md_createdAt old\<rparr>"]) simp_all
  qed
qed

text \<open>C20: An update that answers UPDATE_SUCCESS has found the document with the uuid, older than the request, and
  stored the new content under the id of the request with the same uuid and creation time and a later
  modification time.  The creator stays when the id does.  The id changes only for a resource that allows it
  and when no document refers to the old one.  Every other outcome leaves the documents as they were.\<close>

theorem mongo_update_outcomes:
  assumes "mongo_store mg docs snap" "snap s = None" "unique_uuids (docs s)"
    and "updateDocumentByDocumentUuid mg request s = (r, s')"
  shows "snap s' = None \<and> unique_uuids (docs s') \<and> (case r of
      Inr (UpdateResult.UPDATE_SUCCESS m) \<Rightarrow>
        (\<exists>i old d. docs s i = Some old \<and> md_documentUuid old = upd_documentUuid request \<and>
           md_documentUuid d = upd_documentUuid request \<and> md_edfiDoc d = ur_edfiDoc request \<and>
           md_createdAt d = md_createdAt old \<and> md_lastModifiedAt old < md_lastModifiedAt d \<and>
           md_lastModifiedAt d = di_requestTimestamp (ur_documentInfo request) \<and>
           (if i = ur_meadowlarkId request
            then md_createdBy d = md_createdBy old \<and> docs s' = (docs s)(i \<mapsto> d)
            else ri_allowIdentityUpdates (ur_resourceInfo request) \<and>
                 docs s' = (docs s)(i := None, ur_meadowlarkId request \<mapsto> d) \<and>
                 (\<forall>j e. docs s j = Some e \<longrightarrow> set (md_outboundRefs e) \<inter> set (md_aliasMeadowlarkIds old) = {})))
    | _ \<Rightarrow> docs s' = docs s)"
proof -
  note spec = mongo_store.updateDocument_spec [OF assms]
  show ?thesis
  proof (cases "\<exists>m. r = Inr (UpdateResult.UPDATE_SUCCESS m)")
    case False
    then have "docs s' = docs s" using spec
      by (cases r) (auto simp: update_succeeded_def split: UpdateResult.splits if_splits)
    then show ?thesis using False spec assms(3) by (auto split: sum.split UpdateResult.split)
  next
    case True
    then obtain m where r: "r = Inr (UpdateResult.UPDATE_SUCCESS m)" by blast
    then have eff: "update_effect mg (docs s) request (UpdateResult.UPDATE_SUCCESS m) (docs s')"
      using spec by (simp add: update_succeeded_def)
    then have "unique_uuids (docs s')" by (rule mongo_store.update_unique(1) [OF assms(1,3)])
    moreover have "snap s' = None" using spec by simp
    ultimately show ?thesis using eff unfolding r
      by (elim update_effect_document) (simp only: sum.case UpdateResult.case simp_thms, metis)
  qed
qed

lemma example_run:
  assumes "fst (m s) = x"
  obtains s' where "m s = (x, s')"
  using assms by (cases "m s") auto

lemma example_unique_uuids:
  "distinct (map md_documentUuid (contents (mem_docs s))) \<Longrightarrow> unique_uuids (mem_map s)"
proof -
  assume d: "distinct (map md_documentUuid (contents (mem_docs s)))"
  show ?thesis
    unfolding unique_uuids_def
  proof (intro allI impI)
    fix i x j y assume x: "mem_map s i = Some x" and y: "mem_map s j = Some y" and xy: "md_documentUuid x = md_documentUuid y"
    have "x \<in> set (contents (mem_docs s))" "y \<in> set (contents (mem_docs s))"
      using x y by (auto simp: set_contents mem_map_def)
    then have "x = y" using d xy by (metis distinct_map inj_onD)
    then show "i = j" using x y lookup_Some [of "mem_docs s"] unfolding mem_map_def by metis
  qed
qed

theorem mongo_update_outcomes_witness:
  "\<exists>s'. updateDocumentByDocumentUuid example_mongo (example_update ''b'' [] 3 (numbered_uuid 0)) (after_upserts [(''a'', [], 1)]) =
       (Inr (UpdateResult.UPDATE_SUCCESS None), s') \<and> unique_uuids (mem_map s')"
proof -
  let ?q = "example_update ''b'' [] 3 (numbered_uuid 0)" and ?s = "after_upserts [(''a'', [], 1)]"
  have none: "mem_snap_map ?s = None" unfolding mem_snap_map_def map_option_is_None by code_simp
  have unique: "unique_uuids (mem_map ?s)" by (rule example_unique_uuids) code_simp
  have "fst (updateDocumentByDocumentUuid example_mongo ?q ?s) = Inr (UpdateResult.UPDATE_SUCCESS None)" by code_simp
  then obtain s' where "updateDocumentByDocumentUuid example_mongo ?q ?s = (Inr (UpdateResult.UPDATE_SUCCESS None), s')"
    by (rule example_run)
  then show ?thesis using mongo_update_outcomes [OF example_store none unique, of ?q _ s'] by blast
qed

text \<open>C21: A delete that answers DELETE_SUCCESS has removed exactly the document with the uuid, and with validation
  on no stored document referred to any of its ids; every other outcome leaves the documents as they were.\<close>

theorem mongo_delete_outcomes:
  assumes "mongo_store mg docs snap" "snap s = None" "unique_uuids (docs s)"
    and "deleteDocumentByDocumentUuid mg request s = (r, s')"
  shows "snap s' = None \<and> unique_uuids (docs s') \<and>
    (if r = Inr DELETE_SUCCESS
     then \<exists>i d. docs s i = Some d \<and> md_documentUuid d = del_documentUuid request \<and> docs s' = (docs s)(i := None) \<and>
            (del_validateNoReferencesToDocument request \<longrightarrow>
               (\<forall>j e. docs s j = Some e \<longrightarrow> set (md_outboundRefs e) \<inter> set (md_aliasMeadowlarkIds d) = {}))
     else docs s' = docs s)"
proof (cases "r = Inr DELETE_SUCCESS")
  case True
  then have eff: "snap s' = None" "delete_effect (docs s) request DELETE_SUCCESS (docs s')"
    using mongo_store.deleteDocument_spec [OF assms(1,2,4)] by simp_all
  then obtain d where d: "docs s (md_id d) = Some d" "md_documentUuid d = del_documentUuid request"
    "docs s' = (docs s)(md_id d := None)" unfolding delete_effect_def by blast
  have "found (docs s) (OutboundIn (md_aliasMeadowlarkIds d)) = {}" if "del_validateNoReferencesToDocument request"
  proof -
    have "\<exists>e. docs s (md_id e) = Some e \<and> md_documentUuid e = del_documentUuid request \<and>
        found (docs s) (OutboundIn (md_aliasMeadowlarkIds e)) = {}" using eff(2) that by (simp add: delete_effect_def)
    then obtain e where e: "docs s (md_id e) = Some e" "md_documentUuid e = del_documentUuid request"
      "found (docs s) (OutboundIn (md_aliasMeadowlarkIds e)) = {}" by (elim exE conjE)
    then have "e = d" using unique_uuidsD(2) [OF assms(3) e(1) d(1)] d(2) by simp
    then show ?thesis using e(3) by simp
  qed
  then have "del_validateNoReferencesToDocument request \<longrightarrow>
      (\<forall>j e. docs s j = Some e \<longrightarrow> set (md_outboundRefs e) \<inter> set (md_aliasMeadowlarkIds d) = {})"
    by (auto simp: found_def)
  then have "\<exists>i d. docs s i = Some d \<and> md_documentUuid d = del_documentUuid request \<and> docs s' = (docs s)(i := None) \<and>
            (del_validateNoReferencesToDocument request \<longrightarrow>
               (\<forall>j e. docs s j = Some e \<longrightarrow> set (md_outboundRefs e) \<inter> set (md_aliasMeadowlarkIds d) = {}))"
    using d by (intro exI [of _ "md_id d"] exI [of _ d] conjI) assumption+
  moreover have "unique_uuids (docs s')" unfolding d(3) by (rule unique_uuids_remove [OF assms(3)])
  ultimately show ?thesis using True eff(1) by (simp only: if_True simp_thms)
next
  case False
  then show ?thesis using mongo_store.deleteDocument_spec [OF assms(1,2,4)] assms(3) by (cases r) simp_all
qed

theorem mongo_delete_outcomes_witness:
  "\<exists>s'. deleteDocumentByDocumentUuid example_mongo (example_delete (numbered_uuid 0)) (after_upserts [(''a'', [], 1)]) =
       (Inr DELETE_SUCCESS, s') \<and>
     (\<exists>i. mem_map s' = (mem_map (after_upserts [(''a'', [], 1)]))(i := None))"
proof -
  let ?q = "example_delete (numbered_uuid 0)" and ?s = "after_upserts [(''a'', [], 1)]"
  have none: "mem_snap_map ?s = None" unfolding mem_snap_map_def map_option_is_None by code_simp
  have unique: "unique_uuids (mem_map ?s)" by (rule example_unique_uuids) code_simp
  have "fst (deleteDocumentByDocumentUuid example_mongo ?q ?s) = Inr DELETE_SUCCESS" by code_simp
  then obtain s' where s': "deleteDocumentByDocumentUuid example_mongo ?q ?s = (Inr DELETE_SUCCESS, s')"
    by (rule example_run)
  from mongo_delete_outcomes [OF example_store none unique s'] s' show ?thesis by auto
qed

text \<open>An update with a reference to the document that it updates never succeeds and changes nothing: the
  uuid of the document is twice in the list of locks.\<close>

theorem mongo_self_reference_update_fails:
  assumes "mongo_store mg docs snap" "snap s = None" "unique_uuids (docs s)"
    and "docs s i = Some old" "md_documentUuid old = upd_documentUuid request"
    and "referencedDocumentIdsFrom (mg_shake256 mg) (ur_documentInfo request) = Inr refs"
    and "a \<in> set refs" "a \<in> set (md_aliasMeadowlarkIds old)"
    and "updateDocumentByDocumentUuid mg request s = (r, s')"
  shows "r \<noteq> Inr (UpdateResult.UPDATE_SUCCESS m) \<and> docs s' = docs s"
proof -
  note spec = mongo_store.updateDocument_spec [OF assms(1-3,9)]
  have no: "r \<noteq> Inr (UpdateResult.UPDATE_SUCCESS m)" for m
  proof
    assume "r = Inr (UpdateResult.UPDATE_SUCCESS m)"
    then have "update_effect mg (docs s) request (UpdateResult.UPDATE_SUCCESS m) (docs s')"
      using spec by (simp add: update_succeeded_def)
    then obtain document where document: "meadowlarkDocumentFrom (mg_shake256 mg) (ur_resourceInfo request)
       (ur_documentInfo request) (upd_documentUuid request) (ur_meadowlarkId request) (ur_edfiDoc request)
       (ur_validateDocumentReferencesExist request) (sec_clientId (ur_security request)) None
       (di_requestTimestamp (ur_documentInfo request)) = Inr document"
      "upd_documentUuid request \<notin> md_documentUuid ` found (docs s) (AliasIn (md_outboundRefs document))"
      by (rule update_effectE)
    have "md_outboundRefs document = refs" using meadowlarkDocumentFrom_fields(8) [OF document(1)] assms(6) by simp
    then have "old \<in> found (docs s) (AliasIn (md_outboundRefs document))"
      using assms(4,7,8) by (auto simp: found_def)
    then show False using document(2) assms(5) by (metis image_eqI)
  qed
  then have "docs s' = docs s" using spec
    by (cases r) (auto simp: update_succeeded_def split: UpdateResult.splits if_splits)
  then show ?thesis using no by simp
qed

theorem mongo_self_reference_update_fails_witness:
  "\<exists>r s'. updateDocumentByDocumentUuid example_mongo (example_update ''a'' [''a''] 3 (numbered_uuid 0)) (after_upserts [(''a'', [], 1)]) =
       (r, s') \<and> r \<noteq> Inr (UpdateResult.UPDATE_SUCCESS None) \<and> mem_map s' = mem_map (after_upserts [(''a'', [], 1)])"
proof -
  let ?q = "example_update ''a'' [''a''] 3 (numbered_uuid 0)" and ?s = "after_upserts [(''a'', [], 1)]"
  have none: "mem_snap_map ?s = None" unfolding mem_snap_map_def map_option_is_None by code_simp
  have unique: "unique_uuids (mem_map ?s)" by (rule example_unique_uuids) code_simp
  have "(case mem_map ?s (example_key ''a'') of None \<Rightarrow> False | Some d \<Rightarrow>
      md_documentUuid d = upd_documentUuid ?q \<and> example_key ''a'' \<in> set (md_aliasMeadowlarkIds d))" by code_simp
  then obtain d where d: "mem_map ?s (example_key ''a'') = Some d" "md_documentUuid d = upd_documentUuid ?q"
    "example_key ''a'' \<in> set (md_aliasMeadowlarkIds d)" by (cases "mem_map ?s (example_key ''a'')") auto
  have refs: "referencedDocumentIdsFrom (mg_shake256 example_mongo) (ur_documentInfo ?q) = Inr [example_key ''a'']" by code_simp
  obtain r s' where "updateDocumentByDocumentUuid example_mongo ?q ?s = (r, s')"
    by (cases "updateDocumentByDocumentUuid example_mongo ?q ?s")
  with mongo_self_reference_update_fails [OF example_store none unique d(1,2) refs _ d(3) this] show ?thesis by auto
qed

text \<open>An update with a changed identity can take the place of another document: with documents a and b stored,
  the update of a to the identity of b answers UPDATE_SUCCESS, and the document b is gone.\<close>

theorem mongo_identity_update_overwrites:
  "let s = after_upserts [(''a'', [], 1), (''b'', [], 1)];
       (r, s') = updateDocumentByDocumentUuid example_mongo (example_update ''b'' [] 3 (numbered_uuid 0)) s
   in r = Inr (UpdateResult.UPDATE_SUCCESS None) \<and>
      map md_documentUuid (contents (mem_docs s)) = [numbered_uuid 1, numbered_uuid 0] \<and>
      map md_documentUuid (contents (mem_docs s')) = [numbered_uuid 0]"
  by code_simp

section \<open>Reference validation\<close>

text \<open>Reference validation is sound: in a store where no alias belongs to two documents, an upsert with
  validation that succeeds refers only to ids and aliases of documents that were stored.\<close>

theorem mongo_validated_references_exist:
  assumes "mongo_store mg docs snap" "snap s = None" "well_aliased (docs s)"
    and "ur_validateDocumentReferencesExist request"
    and "upsertDocument mg request s = (Inr x, s')" "upsert_succeeded x"
    and "referencedDocumentIdsFrom (mg_shake256 mg) (ur_documentInfo request) = Inr refs"
  shows "\<forall>a \<in> set refs. \<exists>i d. docs s i = Some d \<and> a \<in> set (md_aliasMeadowlarkIds d)"
proof -
  have "upsert_effect mg (docs s) (docs s) request None x (docs s')"
    using mongo_store.upsertDocument_spec [OF assms(1,2,5)] assms(6) by simp
  then have "sound_refs mg (docs s) (ur_documentInfo request)"
    using assms(3,4,6) by (cases x) (simp_all add: upsert_effect_def Let_def upsert_succeeded_def)
  then show ?thesis using assms(7) by (simp add: sound_refs_def resolves_def)
qed

lemma example_well_aliased:
  assumes "\<forall>d \<in> set (contents (mem_docs s)). md_aliasMeadowlarkIds d = [md_id d]"
  shows "well_aliased (mem_map s)"
proof -
  have "md_id d = i \<and> md_aliasMeadowlarkIds d = [i]" if "mem_map s i = Some d" for i d
    using that assms lookup_Some [of "mem_docs s" i d] by (auto simp: mem_map_def set_contents)
  then show ?thesis unfolding well_aliased_def by fastforce
qed

theorem mongo_validated_references_exist_witness:
  "\<exists>i d. mem_map (after_upserts [(''a'', [], 1)]) i = Some d \<and> example_key ''a'' \<in> set (md_aliasMeadowlarkIds d)"
proof -
  let ?q = "example_upsert ''b'' [''a''] 2" and ?s = "after_upserts [(''a'', [], 1)]"
  have none: "mem_snap_map ?s = None" unfolding mem_snap_map_def map_option_is_None by code_simp
  have al: "well_aliased (mem_map ?s)" by (rule example_well_aliased) code_simp
  have "fst (upsertDocument example_mongo ?q ?s) = Inr (INSERT_SUCCESS None (numbered_uuid 1))" by code_simp
  then obtain s' where run: "upsertDocument example_mongo ?q ?s = (Inr (INSERT_SUCCESS None (numbered_uuid 1)), s')"
    by (rule example_run)
  have refs: "referencedDocumentIdsFrom (mg_shake256 example_mongo) (ur_documentInfo ?q) = Inr [example_key ''a'']" by code_simp
  show ?thesis
    using mongo_validated_references_exist [OF example_store none al _ run _ refs]
    by (simp add: example_upsert_def upsert_succeeded_def)
qed

text \<open>Reference validation is not complete: a document with a superclass identity satisfies both a reference to
  itself and one to its superclass, but a request with both is refused, and the reference that the positional
  projection left out is reported missing.\<close>

definition subclass_document :: MeadowlarkDocument where
  "subclass_document = \<lparr>md_id = example_key ''a'', md_documentIdentity = example_identity ''a'', md_documentUuid = numbered_uuid 9,
     md_projectName = ''P'', md_resourceName = ''R'', md_resourceVersion = ''3.3.1-b'', md_edfiDoc = JObj [],
     md_outboundRefs = [], md_aliasMeadowlarkIds = [example_key ''a'', example_key ''super''], md_validated = True,
     md_isDescriptor = False, md_createdBy = ''c'', md_createdAt = Some 1, md_lastModifiedAt = 1\<rparr>"

theorem mongo_two_references_one_document:
  "let s = \<lparr>mem_docs = [subclass_document], mem_snap = None, mem_next = 0\<rparr>;
       one = fst (upsertDocument example_mongo (example_upsert ''b'' [''super''] 2) s);
       both = fst (upsertDocument example_mongo (example_upsert ''b'' [''a'', ''super''] 2) s)
   in one = Inr (INSERT_SUCCESS None (numbered_uuid 0)) \<and>
      both = Inr (INSERT_FAILURE_REFERENCE (Some (JObj [(''error'', JObj [(''message'', JStr ''Reference validation failed''),
        (''failures'', JArr [JObj [(''resourceName'', JStr ''R''), (''identity'', JArr [JObj [(''k'', JStr ''super'')]])]])])])) [])"
  by code_simp

section \<open>Referential integrity\<close>

text \<open>C1: Referential integrity: from an empty store, whatever validated requests are served in whatever order and
  with whatever outcome, every reference of every stored document leads to a stored document, by its own id or by the id
  of its superclass, and uuids are unique.  The requests are those in which the aliases of a document depend on its id
  alone, as they do when the identity of the superclass comes from that of the document, and the own id of a document is
  never the superclass id of another.\<close>

theorem mongo_referential_integrity:
  assumes "mongo_store mg docs snap" "alias_law aliases"
    and "snap s0 = None" "docs s0 = (\<lambda>_. None)"
    and "reachable mg (admissible mg aliases) s0 s"
  shows "(\<forall>i d. docs s i = Some d \<longrightarrow>
            (\<forall>a \<in> set (md_outboundRefs d). \<exists>j e. docs s j = Some e \<and> a \<in> set (md_aliasMeadowlarkIds e))) \<and>
         unique_uuids (docs s)"
proof -
  have "integral aliases (docs s0)"
    using assms(4) by (simp add: integral_def aliases_as_def unique_uuids_def refs_resolve_def)
  then have "integral aliases (docs s)"
    using mongo_store.reachable_integral [OF assms(1,5,2,3)] by blast
  then show ?thesis by (simp add: integral_def refs_resolve_def resolves_def)
qed

lemma example_keys: "example_key ''b'' \<noteq> example_key ''s''" "example_key ''b'' \<noteq> example_key ''a''"
    "example_key ''a'' \<noteq> example_key ''s''"
  by code_simp+

lemma example_request_aliases:
  "aliasMeadowlarkIdsFrom prefix_digest (example_key ''a'') (di_superclassInfo (ur_documentInfo (with_superclass (example_upsert ''a'' [] t)))) =
     Inr (example_aliases (example_key ''a''))"
  "aliasMeadowlarkIdsFrom prefix_digest (example_key ''b'') (di_superclassInfo (ur_documentInfo (example_upsert ''b'' refs t))) =
     Inr (example_aliases (example_key ''b''))"
proof -
  have "aliasMeadowlarkIdsFrom prefix_digest (example_key ''a'') (Some example_superclass) =
      Inr [example_key ''a'', example_key ''s'']" by code_simp
  then show "aliasMeadowlarkIdsFrom prefix_digest (example_key ''a'') (di_superclassInfo (ur_documentInfo (with_superclass (example_upsert ''a'' [] t)))) =
     Inr (example_aliases (example_key ''a''))"
    using example_keys by (simp add: with_superclass_def example_upsert_def example_aliases_def)
  show "aliasMeadowlarkIdsFrom prefix_digest (example_key ''b'') (di_superclassInfo (ur_documentInfo (example_upsert ''b'' refs t))) =
     Inr (example_aliases (example_key ''b''))"
    using example_keys by (simp add: example_upsert_def example_aliases_def aliasMeadowlarkIdsFrom_def)
qed

lemma example_requests_validated [simp]:
  "ur_validateDocumentReferencesExist (example_upsert k refs t)" "ur_meadowlarkId (example_upsert k refs t) = example_key k"
  "ur_validateDocumentReferencesExist (with_superclass q) = ur_validateDocumentReferencesExist q"
  "ur_meadowlarkId (with_superclass q) = ur_meadowlarkId q"
  by (simp_all add: example_upsert_def with_superclass_def)

theorem mongo_referential_integrity_witness:
  "let s = fold (run_request example_mongo)
        [UpsertOf (with_superclass (example_upsert ''a'' [] 1)), UpsertOf (example_upsert ''b'' [''s''] 2)] mem_start
   in (case mem_map s (example_key ''b'') of None \<Rightarrow> False | Some d \<Rightarrow> md_outboundRefs d = [example_key ''s'']) \<and>
      (\<exists>j e. mem_map s j = Some e \<and> example_key ''s'' \<in> set (md_aliasMeadowlarkIds e)) \<and> unique_uuids (mem_map s)"
proof -
  let ?qs = "[UpsertOf (with_superclass (example_upsert ''a'' [] 1)), UpsertOf (example_upsert ''b'' [''s''] 2)]"
  let ?s = "fold (run_request example_mongo) ?qs mem_start"
  have reach: "reachable example_mongo (admissible example_mongo example_aliases) mem_start ?s"
    by (rule reachable_fold) (simp add: example_request_aliases example_shake256)
  have start: "mem_snap_map mem_start = None" "mem_map mem_start = (\<lambda>_. None)"
    by (simp_all add: mem_start_def mem_snap_map_def mem_map_def lookup_def fun_eq_iff)
  note integrity = mongo_referential_integrity [OF example_store example_alias_law(1) start reach]
  have stored: "case mem_map ?s (example_key ''b'') of None \<Rightarrow> False | Some d \<Rightarrow> md_outboundRefs d = [example_key ''s'']"
    by code_simp
  then obtain d where "mem_map ?s (example_key ''b'') = Some d" "example_key ''s'' \<in> set (md_outboundRefs d)"
    by (cases "mem_map ?s (example_key ''b'')") auto
  then have "\<exists>j e. mem_map ?s j = Some e \<and> example_key ''s'' \<in> set (md_aliasMeadowlarkIds e)"
    using conjunct1 [OF integrity] by blast
  then show ?thesis using stored conjunct2 [OF integrity] unfolding Let_def by blast
qed

section \<open>Ownership\<close>


definition example_request :: "Action \<Rightarrow> DocumentUuid option \<Rightarrow> string \<Rightarrow> FrontendRequest" where
  "example_request action u clientId = newFrontendRequest\<lparr>fr_action := action,
     fr_middleware := newFrontendRequestMiddleware\<lparr>
       mw_security := Some \<lparr>sec_authorizationStrategy = OWNERSHIP_BASED, sec_clientId = clientId\<rparr>,
       mw_pathComponents := \<lparr>pc_projectShortVersion = ''v3.3b'', pc_projectNamespace = ''ed-fi'',
         pc_endpointName = ''schools'', pc_documentUuid = u\<rparr>,
       mw_parsedBody := JObj [(''id'', JStr (case u of None \<Rightarrow> [] | Some v \<Rightarrow> v))]\<rparr>\<rparr>"


section \<open>The store contract\<close>

context mongo_store
begin

lemma store_contract: "document_store (initializeDocumentStore mg) (mongo_ok docs snap) (mongo_stored docs)"
  by unfold_locales

end

text \<open>C3: The MongoDB plugin refines the abstract document store: seen as the set of its uuids with their documents, an
  insert adds one pair, an update has stored the pair of the request, a delete removes the pairs of its uuid, a
  get that succeeds answers with a stored pair, and whatever fails or throws changes nothing.\<close>

theorem mongo_refines_document_store:
  assumes "mongo_store mg docs snap"
  shows "document_store (initializeDocumentStore mg) (mongo_ok docs snap) (mongo_stored docs)"
  by (rule mongo_store.store_contract [OF assms])

theorem mongo_refines_document_store_witness:
  "document_store (initializeDocumentStore example_mongo) (mongo_ok mem_map mem_snap_map) (mongo_stored mem_map)"
  by (rule mongo_refines_document_store [OF example_store])

end
