(* ===== verification/OAuthProperties.thy ===== *)
theory OAuthProperties
  imports AuthzProperties MongoAuthorization MongoProperties
begin

text \<open>
  The properties of the OAuth server: who gets a token, who may look one up, who manages clients and how the
  first administrator comes to be, over any store with the contract \<open>authorization_store\<close>, and what MongoDB
  does with an update that leaves \<open>active\<close> out.  The example environment runs the server over the MongoDB
  store on collections in memory.
\<close>

section \<open>An example\<close>

definition example_store_plugin :: "both_mem client_state AuthorizationStorePlugin" where
  "example_store_plugin = initializeAuthorizationStore (both_ops example_mongo) auth_mem_ops"

text \<open>Bodies: the credentials of the hard-coded administrator, those of client \<open>c1\<close>, a token, or else a client.\<close>

definition example_body :: "string \<Rightarrow> json" where
  "example_body text =
     (if text = ''admin'' then JObj [(''grant_type'', JStr ''client_credentials''), (''client_id'', JStr (hc_key admin1)),
        (''client_secret'', JStr (hc_secret admin1))]
      else if text = ''c1'' then JObj [(''grant_type'', JStr ''client_credentials''), (''client_id'', JStr ''c1''),
        (''client_secret'', JStr ''ab'')]
      else if text = ''token'' then JObj [(''token'', JStr ''root'')]
      else JObj [(''clientName'', JStr text), (''roles'', JArr [JStr ''admin''])])"

text \<open>The token \<open>root\<close> is that of an administrator, any other one is that of a vendor; a token is never expired.\<close>

definition example_jwt :: "json option \<Rightarrow> Jwt" where
  "example_jwt token = \<lparr>jwt_message = None,
     jwt_body = Some (JObj [(''iss'', JStr ''i''), (''aud'', JStr ''a''), (''client_id'', JStr ''c1''),
       (''roles'', JArr [JStr (if token = Some (JStr ''root'') then ''admin'' else ''vendor'')])]),
     jwt_parsedBody = None\<rparr>"

definition example_authz_env :: "both_mem client_state authz_env" where
  "example_authz_env = \<lparr>
     ae_process_env = (\<lambda>_. None), ae_import = (\<lambda>_. Inr example_store_plugin),
     ae_verify = (\<lambda>token _ _. Inr (Some (example_jwt token))),
     ae_createJwt = (\<lambda>_ _ _. Inr (''jwt'', JNum ''60'')), ae_date_now = (\<lambda>_. 0),
     ae_json_parse = (\<lambda>text. Inr (example_body text)), ae_querystring_parse = (\<lambda>text. Inr (example_body text)),
     ae_ajv = (\<lambda>_ _. (True, None)), ae_betterAjvErrors = (\<lambda>_ _ _. JNull), ae_didYouMean = (\<lambda>_ _. None),
     ae_randomBytes = ret [0xab],
     ae_uuidv4 = (\<lambda>(c, (a, b)). (Inr (numbered_uuid (mem_next a)), (c, (a\<lparr>mem_next := Suc (mem_next a)\<rparr>, b)))),
     ae_shake256 = hex_encode, ae_base64_binary = id\<rparr>"

definition example_settings :: "(string \<times> ConfigValue) list" where
  "example_settings = [(''OAUTH_SIGNING_KEY'', CString ''k''), (''OAUTH_TOKEN_ISSUER'', CString ''i''),
     (''OAUTH_TOKEN_AUDIENCE'', CString ''a''), (''OAUTH_EXPIRATION_MINUTES'', CNumber ''30''),
     (''OAUTH_HARD_CODED_CREDENTIALS_ENABLED'', CBool False)]"

text \<open>Client \<open>c1\<close> with the secret \<open>ab\<close>, and no administrator.\<close>

definition example_client :: AuthorizationDocument where
  "example_client = \<lparr>ad_id = ''c1'', ad_clientSecretHashed = ''ab'', ad_clientName = JStr ''n'',
     ad_roles = JArr [JStr ''vendor''], ad_isBootstrapAdmin = False, ad_active = JBool True\<rparr>"

definition example_authz_state :: "AuthorizationDocument list \<Rightarrow> both_mem client_state authz_state" where
  "example_authz_state ds = \<lparr>cfg_envCache = [], cfg_collection = example_settings, az_store = Some example_store_plugin,
     az_pluginsLoaded = True, az_world = (False, (mem_start, \<lparr>ac_docs = ds, ac_commits = True\<rparr>))\<rparr>"

abbreviation "example_registered \<equiv> (\<lambda>t. registered_of (ac_map (snd (t :: both_mem client_state))))"
abbreviation "example_admins \<equiv> (\<lambda>t. admins_of (ac_map (snd (t :: both_mem client_state))))"

lemma example_plugin: "authorization_store example_store_plugin (\<lambda>_. True) example_registered example_admins"
  unfolding example_store_plugin_def example_mongo_def by (rule example_clients.store.authorization_store_axioms)

interpretation example_authz: authz_service example_authz_env "\<lambda>_. True" example_registered example_admins
proof (rule authz_service.intro, goal_cases)
  case (1 name p)
  then show ?case using example_plugin by (simp add: example_authz_env_def)
next
  case 2
  show ?case by (rule preservesI) (auto simp: example_authz_env_def ac_map_def split: prod.split)
next
  case 3
  show ?case by (simp add: example_authz_env_def preserves_ret)
qed

lemma example_state_store:
  "authorization_store (getAuthorizationStore (example_authz_state ds)) (\<lambda>_. True) example_registered example_admins"
  using example_plugin by (simp add: getAuthorizationStore_def example_authz_state_def)

definition authz_status :: "AuthorizationResponse res \<times> 's authz_state \<Rightarrow> int" where
  "authz_status x = (case fst x of Inl _ \<Rightarrow> - 1 | Inr resp \<Rightarrow> ar_statusCode resp)"

definition example_authz_request :: "string \<Rightarrow> string option \<Rightarrow> string \<Rightarrow> AuthorizationRequest" where
  "example_authz_request path token body = newAuthorizationRequest\<lparr>rq_path := path, rq_body := Some body,
     rq_headers := [(''content-type'', ''application/x-www-form-urlencoded'')] @
       (case token of None \<Rightarrow> [] | Some t \<Rightarrow> [(''Authorization'', ''Bearer '' @ t)])\<rparr>"

lemma example_runs:
  "authz_status (requestToken example_authz_env (example_authz_request ''/oauth/token'' None ''c1'')
     (example_authz_state [example_client])) = 200"
  "authz_status (verifyToken example_authz_env (example_authz_request ''/oauth/verify'' (Some ''root'') ''token'')
     (example_authz_state [example_client])) = 200"
  "authz_status (createClient example_authz_env (example_authz_request ''/oauth/clients'' None ''first'')
     (example_authz_state [])) = 201"
  by code_simp+

section \<open>Properties\<close>

text \<open>C13: A token is issued only for credentials that are right: a 200 answer to a token request says that the client and
  the secret of the body are those of a hard-coded client while these are enabled, or that a registered client is
  active and the hash of its secret is that of the secret sent; the token carries the name and the roles of that
  client.\<close>

theorem token_needs_credentials:
  assumes "authz_service env ok registered admins"
    and "authorization_store (getAuthorizationStore s) ok registered admins" "ok (az_world s)"
    and "requestToken env r s = (Inr resp, s')" "ar_statusCode resp = 200"
  shows "\<exists>body clientId secret client vendor roles. parseRequestTokenBody env r = Inr (Inr body) \<and>
    js_prop body ''client_id'' = Inr clientId \<and> js_prop body ''client_secret'' = Inr secret \<and>
    credentials_of env (cfg_collection s) (registered (az_world s)) clientId secret client vendor roles \<and>
    token_for env client vendor roles resp"
proof -
  have "az_inv ok registered admins (\<lambda>R A. R = registered (az_world s)) (cfg_collection s) s"
    using assms(2,3) by (simp add: az_inv_def)
  from tripleD [OF authz_service.requestToken_triple [OF assms(1)] this assms(4)] show ?thesis
    using assms(5) by (simp add: token_answer_def)
qed

theorem token_needs_credentials_witness:
  "\<exists>resp s' client vendor. requestToken example_authz_env (example_authz_request ''/oauth/token'' None ''c1'')
     (example_authz_state [example_client]) = (Inr resp, s') \<and>
     token_for example_authz_env client vendor (JArr [JStr ''vendor'']) resp"
proof -
  let ?r = "example_authz_request ''/oauth/token'' None ''c1''" and ?s = "example_authz_state [example_client]"
  obtain resp s' where run: "requestToken example_authz_env ?r ?s = (Inr resp, s')" "ar_statusCode resp = 200"
    using example_runs(1) by (cases "requestToken example_authz_env ?r ?s") (auto simp: authz_status_def split: sum.splits)
  have body: "parseRequestTokenBody example_authz_env ?r = Inr (Inr (example_body ''c1''))" by code_simp
  have props: "js_prop (example_body ''c1'') ''client_id'' = Inr (Some (JStr ''c1''))"
    "js_prop (example_body ''c1'') ''client_secret'' = Inr (Some (JStr ''ab''))" by code_simp+
  obtain client vendor roles where c: "credentials_of example_authz_env (cfg_collection ?s)
      (example_registered (az_world ?s)) (Some (JStr ''c1'')) (Some (JStr ''ab'')) client vendor roles"
    and t: "token_for example_authz_env client vendor roles resp"
    using token_needs_credentials [OF example_authz.authz_service_axioms example_state_store TrueI run] body props by auto
  have hard: "\<not> presents (Some (JStr ''c1'')) (Some (JStr ''ab'')) admin1"
    "\<not> presents (Some (JStr ''c1'')) (Some (JStr ''ab'')) verifyOnly1" by code_simp+
  have "registered_of (ac_map (snd (az_world ?s))) ''c1'' = Some (''ab'', JStr ''n'', JBool True, JArr [JStr ''vendor''])"
    by code_simp
  then have "roles = JArr [JStr ''vendor'']" using c hard by (auto simp: credentials_of_def)
  then show ?thesis using run(1) t by blast
qed

text \<open>C17: The token lookup shows a token only to its own client or to an administrator or verify-only client: a 200
  answer needs a token of the caller that is valid at the request, with that client id or role, and says active only of a
  token that then verifies under the key of the service, is not expired, has the issuer and audience of the settings, and
  belongs to a registered client that is active, or to a hard-coded client while the flag enables these.\<close>

theorem verify_needs_permission:
  assumes "authz_service env ok registered admins"
    and "authorization_store (getAuthorizationStore s) ok registered admins" "ok (az_world s)"
    and "verifyToken env r s = (Inr resp, s')" "ar_statusCode resp = 200"
  shows "\<exists>roles clientId body token it.
    validateTokenForAccess env (extractAuthorizationHeader r) s = ValidToken roles clientId \<and>
    parseVerifyTokenBody env r = Inr (Inr body) \<and> js_prop body ''token'' = Inr token \<and>
    resp = answer_body 200 (introspection_json it) \<and>
    (strict_equal clientId (it_client_id it) \<or> hasAdminOrVerifyOnlyRole roles = Inr True) \<and>
    (it_active it \<longrightarrow> active_token env (registered (az_world s)) s token)"
proof -
  have "az_inv ok registered admins (\<lambda>R A. R = registered (az_world s)) (cfg_collection s) s"
    using assms(2,3) by (simp add: az_inv_def)
  from authz_service.verifyToken_answer [OF assms(1) this assms(4,5)] show ?thesis by (simp add: verified_answer_def)
qed

theorem verify_needs_permission_witness:
  "\<exists>s' it. verifyToken example_authz_env (example_authz_request ''/oauth/verify'' (Some ''root'') ''token'')
     (example_authz_state [example_client]) = (Inr (answer_body 200 (introspection_json it)), s') \<and> it_active it \<and>
     active_token example_authz_env (example_registered (az_world (example_authz_state [example_client])))
       (example_authz_state [example_client]) (Some (JStr ''root''))"
proof -
  let ?r = "example_authz_request ''/oauth/verify'' (Some ''root'') ''token''" and ?s = "example_authz_state [example_client]"
  let ?it = "introspectedFrom True (jwt_body (example_jwt (Some (JStr ''root''))))"
  have "fst (verifyToken example_authz_env ?r ?s) = Inr (answer_body 200 (introspection_json ?it))" by code_simp
  then obtain s' where run: "verifyToken example_authz_env ?r ?s = (Inr (answer_body 200 (introspection_json ?it)), s')"
    by (cases "verifyToken example_authz_env ?r ?s") auto
  have body: "parseVerifyTokenBody example_authz_env ?r = Inr (Inr (example_body ''token''))"
    "js_prop (example_body ''token'') ''token'' = Inr (Some (JStr ''root''))" by code_simp+
  obtain it where "answer_body 200 (introspection_json ?it) = answer_body 200 (introspection_json it)"
    "it_active it \<longrightarrow> active_token example_authz_env (example_registered (az_world ?s)) ?s (Some (JStr ''root''))"
    using verify_needs_permission [OF example_authz.authz_service_axioms example_state_store TrueI run] body by auto
  moreover from this(1) have "it_active it = it_active ?it"
    by (simp add: answer_body_def introspection_json_def)
  moreover have "it_active ?it" by (simp add: introspectedFrom_def)
  ultimately show ?thesis using run by blast
qed

text \<open>While the flag does not enable them, a token of a hard-coded client is not active.\<close>

lemma hardcoded_token_inactive:
  "case fst (introspectBearerToken (example_authz_env\<lparr>ae_verify := \<lambda>_ _ _. Inr (Some ((example_jwt None)\<lparr>jwt_body :=
       Some (JObj [(''iss'', JStr ''i''), (''aud'', JStr ''a''), (''client_id'', JStr (hc_key admin1))])\<rparr>))\<rparr>) None
       (example_authz_state [example_client])) of
     Inr (Some it) \<Rightarrow> \<not> it_active it | _ \<Rightarrow> False"
  by code_simp



text \<open>There is never more than one bootstrap administrator, whatever requests are served and in whatever order.\<close>

theorem one_bootstrap_admin:
  assumes "authz_service env ok registered admins"
    and "authorization_store (getAuthorizationStore s) ok registered admins" "ok (az_world s)"
    and "admins (az_world s) \<subseteq> {c0}" "az_run env P s t"
  shows "\<exists>c. admins (az_world t) \<subseteq> {c}"
proof -
  let ?I = "az_inv ok registered admins (\<lambda>R A. \<exists>c. A \<subseteq> {c}) (cfg_collection s)"
  have "?I s" using assms(2-4) by (auto simp: az_inv_def)
  then have "?I t"
  proof (rule az_run_invariant [OF assms(5)])
    fix f r u resp u'
    assume u: "?I u" "f \<in> az_handlers env" "f r u = (resp, u')"
    have "triple ?I (f r) (\<lambda>_. True)"
      by (rule authz_service.handler_keeps [OF assms(1) u(2)]) blast+
    from tripleD [OF this u(1,3)] show "?I u'" by simp
  qed
  then show ?thesis by (simp add: az_inv_def)
qed

text \<open>C15: Without an administrator's token only the first administrator comes to be: on an empty store, requests none of
  which carries such a token leave at most one client registered, the bootstrap administrator, and its only role
  is admin.\<close>

theorem unattended_registration:
  assumes "authz_service env ok registered admins"
    and "authorization_store (getAuthorizationStore s) ok registered admins" "ok (az_world s)"
    and "registered (az_world s) = Map.empty" "admins (az_world s) = {}"
    and "az_run env (\<lambda>r u. \<not> admin_token env r u) s t"
  shows "registered (az_world t) = Map.empty \<or>
    (\<exists>c h n a. registered (az_world t) = [c \<mapsto> (h, n, a, JArr [JStr ''admin''])] \<and> admins (az_world t) = {c})"
proof -
  let ?I = "az_inv ok registered admins only_bootstrap (cfg_collection s)"
  have "?I s" using assms(2-5) by (simp add: az_inv_def only_bootstrap_def)
  then have "?I t"
    by (rule az_run_invariant [OF assms(6)]) (rule authz_service.handler_without_admin_keeps [OF assms(1)])
  then show ?thesis by (auto simp: az_inv_def only_bootstrap_def)
qed

text \<open>Two requests without a token: the first registers the administrator, the second is refused.\<close>

definition example_twice :: "both_mem client_state authz_state" where
  "example_twice =
     (let create = (\<lambda>name s. snd (createClient example_authz_env (example_authz_request ''/oauth/clients'' None name) s))
      in create ''second'' (create ''first'' (example_authz_state [])))"

lemma no_header_no_admin:
  "extractAuthorizationHeader r = None \<Longrightarrow> \<not> admin_token env r u"
  by (simp add: admin_token_def validateTokenForAccess_def verifyJwt_def newJwtStatus_def token_refused_def)

lemma example_twice_run:
  assumes "\<And>name u. P (example_authz_request ''/oauth/clients'' None name) u"
  shows "az_run example_authz_env P (example_authz_state []) example_twice"
proof -
  let ?step = "\<lambda>name s. createClient example_authz_env (example_authz_request ''/oauth/clients'' None name) s"
  have step: "az_run example_authz_env P s t \<Longrightarrow> az_run example_authz_env P s (snd (?step name t))" for s t name
    using az_serve [of example_authz_env P s t "example_authz_request ''/oauth/clients'' None name"
        "createClient example_authz_env" "fst (?step name t)" "snd (?step name t)"] assms
    by (simp add: az_handlers_def)
  show ?thesis unfolding example_twice_def Let_def by (intro step az_start)
qed

lemma example_empty: "ac_map (snd (az_world (example_authz_state []))) = Map.empty"
  by (rule ext) (simp add: example_authz_state_def ac_map_def ac_lookup_def)

lemma example_twice_clients:
  "map ad_roles (ac_docs (snd (snd (az_world example_twice)))) = [JArr [JStr ''admin'']]"
  by code_simp

theorem one_bootstrap_admin_witness:
  "(\<exists>c. admins_of (ac_map (snd (az_world example_twice))) \<subseteq> {c}) \<and>
   map ad_roles (ac_docs (snd (snd (az_world example_twice)))) = [JArr [JStr ''admin'']]"
proof -
  have "example_admins (az_world (example_authz_state [])) \<subseteq> {''''}"
    by (simp add: example_empty admins_of_def)
  from one_bootstrap_admin [OF example_authz.authz_service_axioms example_state_store TrueI this
      example_twice_run [of "\<lambda>_ _. True"]] show ?thesis using example_twice_clients by simp
qed

theorem unattended_registration_witness:
  "\<exists>c h n a. registered_of (ac_map (snd (az_world example_twice))) = [c \<mapsto> (h, n, a, JArr [JStr ''admin''])] \<and>
     admins_of (ac_map (snd (az_world example_twice))) = {c}"
proof -
  have run: "az_run example_authz_env (\<lambda>r u. \<not> admin_token example_authz_env r u) (example_authz_state []) example_twice"
    by (rule example_twice_run) (rule no_header_no_admin, simp add: example_authz_request_def newAuthorizationRequest_def
        extractAuthorizationHeader_def)
  have start: "example_registered (az_world (example_authz_state [])) = Map.empty"
    "example_admins (az_world (example_authz_state [])) = {}"
    by (auto simp: example_empty registered_of_def admins_of_def)
  obtain d where "ac_docs (snd (snd (az_world example_twice))) = [d]"
    using example_twice_clients by (auto simp: map_eq_Cons_conv)
  then have "registered_of (ac_map (snd (az_world example_twice))) (ad_id d) \<noteq> None"
    by (simp add: registered_of_def ac_map_def ac_lookup_def)
  then have "registered_of (ac_map (snd (az_world example_twice))) \<noteq> Map.empty" by auto
  then show ?thesis
    using unattended_registration [OF example_authz.authz_service_axioms example_state_store TrueI start run] by simp
qed

section \<open>Updates over MongoDB\<close>

text \<open>\<open>active\<close> is not required in the body of an update, but an update without it stores null there, so the client
  it changes gets no token any more: its token requests are answered with 403.\<close>

lemma mongo_update_without_active:
  assumes "mongo_authorizations mg am clients" "uar_active request = None"
    and "asp_updateAuthorizationClient (initializeAuthorizationStore mg am) request t = (x, t')"
    and "clients (snd t') \<noteq> clients (snd t)"
  shows "\<exists>c d. uar_clientId request = Some c \<and> clients (snd t') c = Some d \<and> \<not> js_truthy (Some (ad_active d))"
  using mongo_authorizations.update_client_run [OF assms(1,3)] assms(2,4)
  by (auto simp: update_client_def bson_def js_truthy_def)

lemma inactive_client_gets_no_token:
  assumes "\<not> js_truthy (Some a)" "maskClientSecret body = Inr text"
  shows "clientToken env body clientId secret (GetAuthorizationClientResult.GET_SUCCESS h n a ro) s = (Inr (answer 403), s)"
  using assms by (simp add: clientToken_def act_simps)

text \<open>A client that could not be committed is announced as created, with a secret.\<close>

definition example_uncommitted :: "both_mem client_state authz_state" where
  "example_uncommitted = (example_authz_state [])\<lparr>az_world := (False, (mem_start, \<lparr>ac_docs = [], ac_commits = False\<rparr>))\<rparr>"

lemma created_without_commit:
  "case createClient example_authz_env (example_authz_request ''/oauth/clients'' (Some ''root'') ''vendor'') example_uncommitted of
     (r, s') \<Rightarrow> authz_status (r, s') = 201 \<and> ac_docs (snd (snd (az_world s'))) = []"
  by code_simp

text \<open>The path of a client with a trailing slash has no client id, which is not the missing client id that the handlers
  look for.\<close>

lemma trailing_slash_path:
  "client_path ''/oauth/clients/'' = None" "client_path ''/oauth/clients'' = Some ''''"
  by code_simp+

section \<open>Secrets and tokens\<close>

text \<open>A message of the JWT library that is not one of the two that are tested for counts as a valid token.\<close>

lemma unknown_jwt_failure_is_valid:
  assumes "config_get (cfg_collection s) ''OAUTH_SIGNING_KEY'' = Inr key"
    and "ae_verify env (Some (JStr ''t'')) key (az_world s) = Inl \<lparr>jwt_message = Some m, jwt_body = None, jwt_parsedBody = None\<rparr>"
    and "m \<notin> {''Signature verification failed'', ''Jwt cannot be parsed'', ''Jwt is expired''}"
  shows "validateTokenForAccess env (Some ''Bearer t'') s = ValidToken (JArr []) (JStr '''')"
proof -
  have "token_of ''Bearer t'' = ''t''" "js_startsWith ''Bearer t'' ''Bearer ''" by code_simp+
  then show ?thesis using assms
    by (simp add: validateTokenForAccess_def verifyJwt_def toJwtStatus_def claim_def optional_prop_def is_nullish_def Let_def)
qed

text \<open>The secret sent back for a new or reset client is the one whose hash is stored: hashing the hexadecimal text gives
  the hash of the random bytes.\<close>

theorem sent_secret_matches_hash:
  "hashClientSecretHexString env (Some (JStr (hex_encode bytes))) = Inr (hashClientSecretBuffer env bytes)"
proof -
  have digit: "hex_value (hex_digit n) = Some n" if "n < 16" for n
  proof -
    have "\<forall>n \<in> set [0..<16]. hex_value (hex_digit n) = Some n" by code_simp
    then show ?thesis using that by simp
  qed
  have "hex_decode (hex_encode bytes) = bytes"
  proof (induction bytes)
    case (Cons b bytes)
    have b: "unat b < 256" using unsigned_less [of b] by simp
    then have "unat b div 16 < 16" by (simp add: div_less_iff_less_mult)
    moreover have "16 * (unat b div 16) + unat b mod 16 = unat b" by simp
    ultimately show ?case using Cons digit [of "unat b div 16"] digit [of "unat b mod 16"]
      by (simp add: hex_encode_def)
  qed (simp add: hex_encode_def)
  then show ?thesis by (simp add: hashClientSecretHexString_def)
qed

end
