(* ===== verification/PgStore.thy ===== *)
theory PgStore
  imports MongoAuthorization "HOL-Library.Multiset"
begin

text \<open>
  The tables of the PostgreSQL backend (\<open>meadowlark-postgresql-backend/src/model\<close> and the DDL of
  \<open>repository/SqlHelper.ts\<close>) and what the repository code uses of node-postgres.  A table is the list of its
  rows, in an order that no statement can see; \<open>bigserial\<close> keys are left out, since no statement reads them.
  \<open>pg_ops\<close> holds the statements of a connection, with a WHERE clause as a predicate on rows; the locale
  \<open>pg_store\<close> states their documented behaviour over what the connection sees (\<open>visible\<close>) and what was committed
  when the open transaction began (\<open>snap\<close>).  \<open>pg_mem\<close> are tables in memory that keep these laws.
\<close>

section \<open>Rows and tables\<close>

text \<open>The uuids of rows are compared as texts; the database compares them without regard to case, which is the same
  for the uuids that the service itself makes.\<close>

record pg_document =
  pgd_meadowlark_id :: MeadowlarkId
  pgd_document_uuid :: DocumentUuid
  pgd_document_identity :: DocumentIdentity
  pgd_project_name :: string
  pgd_resource_name :: string
  pgd_resource_version :: string
  pgd_edfi_doc :: json
  pgd_validated :: bool
  pgd_is_descriptor :: bool
  pgd_created_by :: string
  pgd_created_at :: int
  pgd_last_modified_at :: int

record pg_reference =
  pgr_parent_meadowlark_id :: MeadowlarkId
  pgr_referenced_meadowlark_id :: MeadowlarkId

record pg_alias =
  pga_document_uuid :: DocumentUuid
  pga_meadowlark_id :: MeadowlarkId
  pga_alias_meadowlark_id :: MeadowlarkId

text \<open>The parameters \<open>undefined\<close> and \<open>null\<close> are the SQL value NULL, here \<open>JNull\<close>.\<close>

record pg_authorization =
  pgc_client_id :: string
  pgc_client_secret_hashed :: string
  pgc_client_name :: json
  pgc_roles :: json
  pgc_is_bootstrap_admin :: bool
  pgc_active :: json

record tables =
  t_documents :: "pg_document list"
  t_references :: "pg_reference list"
  t_aliases :: "pg_alias list"
  t_authorizations :: "pg_authorization list"

text \<open>The unique indexes and the NOT NULL columns that a parameter can violate.\<close>

definition table_constraints :: "tables \<Rightarrow> bool" where
  "table_constraints T \<longleftrightarrow>
     distinct (map pgd_meadowlark_id (t_documents T)) \<and> distinct (map pgd_document_uuid (t_documents T)) \<and>
     distinct (map pgc_client_id (t_authorizations T)) \<and>
     list_all (\<lambda>c. pgc_client_name c \<noteq> JNull \<and> pgc_roles c \<noteq> JNull \<and> pgc_active c \<noteq> JNull) (t_authorizations T)"

section \<open>Statements\<close>

text \<open>INSERT, UPDATE and DELETE on one table, with the number of affected rows.\<close>

definition sql_insert :: "'r \<Rightarrow> 'r list \<Rightarrow> 'r list \<times> nat" where
  "sql_insert row rows = (rows @ [row], 1)"

definition sql_update :: "('r \<Rightarrow> bool) \<Rightarrow> ('r \<Rightarrow> 'r) \<Rightarrow> 'r list \<Rightarrow> 'r list \<times> nat" where
  "sql_update P f rows = (map (\<lambda>r. if P r then f r else r) rows, length (filter P rows))"

definition sql_delete :: "('r \<Rightarrow> bool) \<Rightarrow> 'r list \<Rightarrow> 'r list \<times> nat" where
  "sql_delete P rows = (filter (\<lambda>r. \<not> P r) rows, length (filter P rows))"

text \<open>INSERT with ON CONFLICT (key) DO UPDATE.\<close>

definition sql_upsert :: "('r \<Rightarrow> 'k) \<Rightarrow> ('r \<Rightarrow> 'r) \<Rightarrow> 'r \<Rightarrow> 'r list \<Rightarrow> 'r list \<times> nat" where
  "sql_upsert key f row rows =
     (if key row \<in> key ` set rows then (map (\<lambda>r. if key r = key row then f r else r) rows, 1) else sql_insert row rows)"

definition on_documents :: "(pg_document list \<Rightarrow> pg_document list \<times> nat) \<Rightarrow> tables \<Rightarrow> tables \<times> nat" where
  "on_documents f T = (case f (t_documents T) of (rows, n) \<Rightarrow> (T\<lparr>t_documents := rows\<rparr>, n))"

definition on_references :: "(pg_reference list \<Rightarrow> pg_reference list \<times> nat) \<Rightarrow> tables \<Rightarrow> tables \<times> nat" where
  "on_references f T = (case f (t_references T) of (rows, n) \<Rightarrow> (T\<lparr>t_references := rows\<rparr>, n))"

definition on_aliases :: "(pg_alias list \<Rightarrow> pg_alias list \<times> nat) \<Rightarrow> tables \<Rightarrow> tables \<times> nat" where
  "on_aliases f T = (case f (t_aliases T) of (rows, n) \<Rightarrow> (T\<lparr>t_aliases := rows\<rparr>, n))"

definition on_authorizations ::
  "(pg_authorization list \<Rightarrow> pg_authorization list \<times> nat) \<Rightarrow> tables \<Rightarrow> tables \<times> nat" where
  "on_authorizations f T = (case f (t_authorizations T) of (rows, n) \<Rightarrow> (T\<lparr>t_authorizations := rows\<rparr>, n))"

lemmas sql_defs = sql_insert_def sql_update_def sql_delete_def on_documents_def on_references_def on_aliases_def
  on_authorizations_def

datatype row_lock = NoLock | ForShareNowait | ForNoKeyUpdateNowait

record db_configuration =
  dbc_host :: ConfigValue
  dbc_port :: ConfigValue
  dbc_user :: ConfigValue
  dbc_password :: ConfigValue
  dbc_database :: ConfigValue

text \<open>A SELECT gives the rows of the predicate; \<open>pg_execute\<close> runs a statement that writes and gives \<open>rowCount\<close>;
  \<open>pg_deleteReturningCount\<close> is a DELETE inside \<open>WITH del AS\<close> whose rows are counted by \<open>SELECT COUNT(*)\<close>, which
  like \<open>pg_countAuthorizations\<close> gives the rows of counts.  \<open>pg_define\<close> is a statement that creates a schema, a table
  or an index.\<close>

record 's pg_ops =
  pg_selectDocuments :: "(pg_document \<Rightarrow> bool) \<Rightarrow> nat option \<Rightarrow> (pg_document list, 's) act"
  pg_selectReferences :: "(pg_reference \<Rightarrow> bool) \<Rightarrow> (pg_reference list, 's) act"
  pg_selectAliases :: "(pg_alias \<Rightarrow> bool) \<Rightarrow> row_lock \<Rightarrow> (pg_alias list, 's) act"
  pg_selectAuthorizations :: "(pg_authorization \<Rightarrow> bool) \<Rightarrow> (pg_authorization list, 's) act"
  pg_countAuthorizations :: "(pg_authorization \<Rightarrow> bool) \<Rightarrow> (nat list, 's) act"
  pg_execute :: "(tables \<Rightarrow> tables \<times> nat) \<Rightarrow> (nat, 's) act"
  pg_deleteReturningCount :: "(pg_document \<Rightarrow> bool) \<Rightarrow> (nat list, 's) act"
  pg_begin :: "(unit, 's) act"
  pg_rollback :: "(unit, 's) act"
  pg_commit :: "(unit, 's) act"
  pg_define :: "string \<Rightarrow> (unit, 's) act"
  pg_poolConnect :: "db_configuration \<Rightarrow> (unit, 's) act"
  pg_poolEnd :: "(unit, 's) act"
  pg_clientConnect :: "db_configuration \<Rightarrow> (unit, 's) act"
  pg_createDatabase :: "string \<Rightarrow> (nat, 's) act"
  pg_clientEnd :: "(unit, 's) act"
  pg_release :: "(unit, 's) act"
  pg_generateDocumentUuid :: "(DocumentUuid, 's) act"
  pg_config :: "(string \<times> ConfigValue) list"
  pg_shake256 :: "nat \<Rightarrow> string \<Rightarrow> 8 word list"

section \<open>The laws\<close>

definition committed_tables :: "('s \<Rightarrow> tables) \<Rightarrow> ('s \<Rightarrow> tables option) \<Rightarrow> 's \<Rightarrow> tables" where
  "committed_tables visible snap s = (case snap s of None \<Rightarrow> visible s | Some T \<Rightarrow> T)"

definition unchanged :: "('s \<Rightarrow> tables) \<Rightarrow> ('s \<Rightarrow> tables option) \<Rightarrow> 's \<Rightarrow> 's \<Rightarrow> bool" where
  "unchanged visible snap s s' \<longleftrightarrow> visible s' = visible s \<and> snap s' = snap s"

text \<open>A statement that fails voids the work of the open transaction; without one it has no effect.\<close>

definition voided :: "('s \<Rightarrow> tables) \<Rightarrow> ('s \<Rightarrow> tables option) \<Rightarrow> 's \<Rightarrow> 's \<Rightarrow> bool" where
  "voided visible snap s s' \<longleftrightarrow> visible s' = committed_tables visible snap s \<and> snap s' = snap s"

definition read_law ::
  "('s \<Rightarrow> tables) \<Rightarrow> ('s \<Rightarrow> tables option) \<Rightarrow> ('a, 's) act \<Rightarrow> (tables \<Rightarrow> 'a \<Rightarrow> bool) \<Rightarrow> bool" where
  "read_law visible snap m P \<longleftrightarrow>
     (\<forall>s q s'. m s = (q, s') \<longrightarrow>
        (case q of Inl e \<Rightarrow> voided visible snap s s' | Inr x \<Rightarrow> unchanged visible snap s s' \<and> P (visible s) x))"

definition write_law ::
  "('s \<Rightarrow> tables) \<Rightarrow> ('s \<Rightarrow> tables option) \<Rightarrow> ('a, 's) act \<Rightarrow> (tables \<Rightarrow> tables \<times> 'a) \<Rightarrow> bool" where
  "write_law visible snap m f \<longleftrightarrow>
     (\<forall>s q s'. m s = (q, s') \<longrightarrow>
        (case q of Inl e \<Rightarrow> voided visible snap s s'
         | Inr x \<Rightarrow> snap s' = snap s \<and> f (visible s) = (visible s', x) \<and> table_constraints (visible s')))"

text \<open>What has to do with connections leaves the state, or goes on with a connection without an open transaction.\<close>

definition connection_law :: "('s \<Rightarrow> tables) \<Rightarrow> ('s \<Rightarrow> tables option) \<Rightarrow> ('a, 's) act \<Rightarrow> bool" where
  "connection_law visible snap m \<longleftrightarrow>
     (\<forall>s q s'. m s = (q, s') \<longrightarrow>
        unchanged visible snap s s' \<or> visible s' = committed_tables visible snap s \<and> snap s' = None)"

definition some_rows :: "'r list \<Rightarrow> nat option \<Rightarrow> 'r list \<Rightarrow> bool" where
  "some_rows matching limit rows \<longleftrightarrow>
     (\<exists>all. mset all = mset matching \<and> rows = (case limit of None \<Rightarrow> all | Some n \<Rightarrow> take n all))"

locale pg_store =
  fixes pg :: "'s pg_ops"
    and visible :: "'s \<Rightarrow> tables"
    and snap :: "'s \<Rightarrow> tables option"
  assumes selectDocuments_law:
      "read_law visible snap (pg_selectDocuments pg P limit) (\<lambda>T. some_rows (filter P (t_documents T)) limit)"
    and selectReferences_law:
      "read_law visible snap (pg_selectReferences pg P1) (\<lambda>T. some_rows (filter P1 (t_references T)) None)"
    and selectAliases_law:
      "read_law visible snap (pg_selectAliases pg P2 lock) (\<lambda>T. some_rows (filter P2 (t_aliases T)) None)"
    and selectAuthorizations_law:
      "read_law visible snap (pg_selectAuthorizations pg P3) (\<lambda>T. some_rows (filter P3 (t_authorizations T)) None)"
    and countAuthorizations_law:
      "read_law visible snap (pg_countAuthorizations pg P3) (\<lambda>T ns. ns = [length (filter P3 (t_authorizations T))])"
    and execute_law: "write_law visible snap (pg_execute pg f) f"
    and deleteReturningCount_law:
      "write_law visible snap (pg_deleteReturningCount pg P)
         (\<lambda>T. case on_documents (sql_delete P) T of (T', n) \<Rightarrow> (T', [n]))"
    and begin_law: "pg_begin pg s = (q, s') \<Longrightarrow>
      (case q of Inl e \<Rightarrow> voided visible snap s s'
       | Inr _ \<Rightarrow> visible s' = visible s \<and> snap s' = Some (committed_tables visible snap s))"
    and rollback_law: "pg_rollback pg s = (q, s') \<Longrightarrow> visible s' = committed_tables visible snap s \<and> snap s' = None"
    and commit_law: "pg_commit pg s = (q, s') \<Longrightarrow>
      snap s' = None \<and> visible s' = (case q of Inl e \<Rightarrow> committed_tables visible snap s | Inr _ \<Rightarrow> visible s)"
    and define_law: "read_law visible snap (pg_define pg sql) (\<lambda>_ _. True)"
    and pool_law: "connection_law visible snap (pg_poolConnect pg cfg)" "connection_law visible snap (pg_poolEnd pg)"
      "connection_law visible snap (pg_release pg)"
    and release_law: "fst (pg_release pg s) = Inr ()"
    and client_law: "connection_law visible snap (pg_clientConnect pg cfg)"
      "connection_law visible snap (pg_createDatabase pg db)" "connection_law visible snap (pg_clientEnd pg)"
    and uuid_law: "pg_generateDocumentUuid pg s = (qu, s') \<Longrightarrow> unchanged visible snap s s'"

section \<open>Tables in memory\<close>

record pg_mem =
  pm_view :: tables
  pm_snap :: "tables option"
  pm_next :: nat

definition pm_void :: "pg_mem \<Rightarrow> pg_mem" where
  "pm_void s = s\<lparr>pm_view := committed_tables pm_view pm_snap s\<rparr>"

definition pm_execute :: "(tables \<Rightarrow> tables \<times> 'a) \<Rightarrow> ('a, pg_mem) act" where
  "pm_execute f s =
     (case f (pm_view s) of (T, x) \<Rightarrow>
        if table_constraints T then (Inr x, s\<lparr>pm_view := T\<rparr>)
        else (Inl (mk_error ''error'' ''duplicate key value violates unique constraint''), pm_void s))"

definition pg_mem_ops ::
  "(nat \<Rightarrow> string \<Rightarrow> 8 word list) \<Rightarrow> (string \<times> ConfigValue) list \<Rightarrow> pg_mem pg_ops" where
  "pg_mem_ops shake256 config = \<lparr>
     pg_selectDocuments = (\<lambda>P limit s. let matching = filter P (t_documents (pm_view s)) in
        (Inr (case limit of None \<Rightarrow> matching | Some n \<Rightarrow> take n matching), s)),
     pg_selectReferences = (\<lambda>P s. (Inr (filter P (t_references (pm_view s))), s)),
     pg_selectAliases = (\<lambda>P lock s. (Inr (filter P (t_aliases (pm_view s))), s)),
     pg_selectAuthorizations = (\<lambda>P s. (Inr (filter P (t_authorizations (pm_view s))), s)),
     pg_countAuthorizations = (\<lambda>P s. (Inr [length (filter P (t_authorizations (pm_view s)))], s)),
     pg_execute = pm_execute,
     pg_deleteReturningCount = (\<lambda>P. pm_execute (\<lambda>T. case on_documents (sql_delete P) T of (T', n) \<Rightarrow> (T', [n]))),
     pg_begin = (\<lambda>s. (Inr (), s\<lparr>pm_snap := Some (committed_tables pm_view pm_snap s)\<rparr>)),
     pg_rollback = (\<lambda>s. (Inr (), (pm_void s)\<lparr>pm_snap := None\<rparr>)),
     pg_commit = (\<lambda>s. (Inr (), s\<lparr>pm_snap := None\<rparr>)),
     pg_define = (\<lambda>_. ret ()),
     pg_poolConnect = (\<lambda>_. ret ()), pg_poolEnd = ret (),
     pg_clientConnect = (\<lambda>_. ret ()), pg_createDatabase = (\<lambda>_. ret 0), pg_clientEnd = ret (),
     pg_release = ret (),
     pg_generateDocumentUuid = (\<lambda>s. (Inr (numbered_uuid (pm_next s)), s\<lparr>pm_next := Suc (pm_next s)\<rparr>)),
     pg_config = config,
     pg_shake256 = shake256\<rparr>"

lemma some_rows_filter: "some_rows matching limit (case limit of None \<Rightarrow> matching | Some n \<Rightarrow> take n matching)"
  unfolding some_rows_def by blast

lemma some_rows_all: "some_rows matching None matching"
  unfolding some_rows_def by simp

lemma pm_execute_law: "write_law pm_view pm_snap (pm_execute f) f"
  unfolding write_law_def
  by (auto simp: pm_execute_def voided_def pm_void_def committed_tables_def split: prod.splits if_splits)

interpretation pg_mem: pg_store "pg_mem_ops shake256 config" pm_view pm_snap
  by unfold_locales
    (auto simp: pg_mem_ops_def Let_def pm_execute_law read_law_def connection_law_def unchanged_def committed_tables_def
      some_rows_filter some_rows_all pm_void_def act_simps)

section \<open>Consequences of the laws\<close>

lemma some_rows_set: "some_rows matching limit rows \<Longrightarrow> set rows \<subseteq> set matching"
proof -
  assume "some_rows matching limit rows"
  then obtain all where all: "mset all = mset matching" "rows = (case limit of None \<Rightarrow> all | Some n \<Rightarrow> take n all)"
    unfolding some_rows_def by blast
  then have "set rows \<subseteq> set all" by (cases limit) (simp_all add: set_take_subset)
  then show ?thesis using mset_eq_setD [OF all(1)] by simp
qed

lemma some_rows_None: "some_rows matching None rows \<longleftrightarrow> mset rows = mset matching"
  unfolding some_rows_def by auto

lemma some_rows_Nil: "some_rows matching limit [] \<longleftrightarrow> matching = [] \<or> limit = Some 0"
proof
  assume "some_rows matching limit []"
  then obtain all where "mset all = mset matching" "[] = (case limit of None \<Rightarrow> all | Some n \<Rightarrow> take n all)"
    unfolding some_rows_def by blast
  then show "matching = [] \<or> limit = Some 0" by (cases limit) auto
next
  assume "matching = [] \<or> limit = Some 0"
  then show "some_rows matching limit []"
    unfolding some_rows_def by (intro exI [of _ matching]) (auto split: option.split)
qed

lemma some_rows_member: "some_rows matching None rows \<Longrightarrow> set rows = set matching"
  unfolding some_rows_None by (rule mset_eq_setD)

end
