(* ===== verification/PgSql.thy ===== *)
theory PgSql
  imports PgStore
begin

text \<open>
  The statements of the PostgreSQL backend (\<open>meadowlark-postgresql-backend/src/repository/SqlHelper.ts\<close>), one
  definition per function, with what each one reads or writes under the laws of \<open>pg_store\<close>.  A SELECT by a key
  gives the first row or none, where \<open>None\<close> is the frozen object \<open>NoMeadowlarkDocument\<close> or
  \<open>NoAuthorizationDocument\<close>, which the code compares by reference.  The lists of \<open>IN (%L)\<close> are never empty
  where the functions are called.
\<close>

section \<open>Transactions and results\<close>

definition beginTransaction :: "'s pg_ops \<Rightarrow> (unit, 's) act" where
  "beginTransaction pg = pg_begin pg"

definition rollbackTransaction :: "'s pg_ops \<Rightarrow> (unit, 's) act" where
  "rollbackTransaction pg = pg_rollback pg"

definition commitTransaction :: "'s pg_ops \<Rightarrow> (unit, 's) act" where
  "commitTransaction pg = pg_commit pg"

definition hasResults :: "nat \<Rightarrow> bool" where
  "hasResults rowCount \<longleftrightarrow> 0 < rowCount"

definition first_row :: "'r list \<Rightarrow> 'r option" where
  "first_row rows = (if hasResults (length rows) then Some (hd rows) else None)"

section \<open>Reads\<close>

definition findReferencingMeadowlarkIds :: "'s pg_ops \<Rightarrow> MeadowlarkId list \<Rightarrow> (MeadowlarkId list, 's) act" where
  "findReferencingMeadowlarkIds pg referencedMeadowlarkIds =
     bnd (pg_selectReferences pg (\<lambda>ref. pgr_referenced_meadowlark_id ref \<in> set referencedMeadowlarkIds)) (\<lambda>rows.
     ret (map pgr_parent_meadowlark_id rows))"

definition findAliasMeadowlarkIdsForDocumentByMeadowlarkId ::
  "'s pg_ops \<Rightarrow> MeadowlarkId \<Rightarrow> (MeadowlarkId list, 's) act" where
  "findAliasMeadowlarkIdsForDocumentByMeadowlarkId pg meadowlarkId =
     bnd (pg_selectAliases pg (\<lambda>a. pga_meadowlark_id a = meadowlarkId) ForShareNowait) (\<lambda>rows.
     ret (map pga_alias_meadowlark_id rows))"

text \<open>Rows of the document's id and an alias id.\<close>

definition findAliasMeadowlarkIdsForDocumentByDocumentUuid ::
  "'s pg_ops \<Rightarrow> DocumentUuid \<Rightarrow> ((MeadowlarkId \<times> MeadowlarkId) list, 's) act" where
  "findAliasMeadowlarkIdsForDocumentByDocumentUuid pg documentUuid =
     bnd (pg_selectAliases pg (\<lambda>a. pga_document_uuid a = documentUuid) ForShareNowait) (\<lambda>rows.
     ret (map (\<lambda>a. (pga_meadowlark_id a, pga_alias_meadowlark_id a)) rows))"

definition findAliasMeadowlarkId :: "'s pg_ops \<Rightarrow> MeadowlarkId \<Rightarrow> (MeadowlarkId list, 's) act" where
  "findAliasMeadowlarkId pg meadowlarkId =
     bnd (pg_selectAliases pg (\<lambda>a. pga_alias_meadowlark_id a = meadowlarkId) NoLock) (\<lambda>rows.
     ret (map pga_alias_meadowlark_id rows))"

definition findDocumentByMeadowlarkId :: "'s pg_ops \<Rightarrow> MeadowlarkId \<Rightarrow> (pg_document option, 's) act" where
  "findDocumentByMeadowlarkId pg meadowlarkId =
     bnd (pg_selectDocuments pg (\<lambda>d. pgd_meadowlark_id d = meadowlarkId) None) (\<lambda>rows. ret (first_row rows))"

definition findDocumentByDocumentUuid :: "'s pg_ops \<Rightarrow> DocumentUuid \<Rightarrow> (pg_document option, 's) act" where
  "findDocumentByDocumentUuid pg documentUuid =
     bnd (pg_selectDocuments pg (\<lambda>d. pgd_document_uuid d = documentUuid) None) (\<lambda>rows. ret (first_row rows))"

definition findOwnershipForDocumentByDocumentUuid :: "'s pg_ops \<Rightarrow> DocumentUuid \<Rightarrow> (pg_document option, 's) act" where
  "findOwnershipForDocumentByDocumentUuid pg documentUuid =
     bnd (pg_selectDocuments pg (\<lambda>d. pgd_document_uuid d = documentUuid) None) (\<lambda>rows. ret (first_row rows))"

definition findOwnershipForDocumentByMeadowlarkId :: "'s pg_ops \<Rightarrow> MeadowlarkId \<Rightarrow> (pg_document option, 's) act" where
  "findOwnershipForDocumentByMeadowlarkId pg meadowlarkId =
     bnd (pg_selectDocuments pg (\<lambda>d. pgd_meadowlark_id d = meadowlarkId) None) (\<lambda>rows. ret (first_row rows))"

definition validateReferenceExistence :: "'s pg_ops \<Rightarrow> MeadowlarkId list \<Rightarrow> (MeadowlarkId list, 's) act" where
  "validateReferenceExistence pg meadowlarkIds =
     bnd (pg_selectAliases pg (\<lambda>a. pga_alias_meadowlark_id a \<in> set meadowlarkIds) ForNoKeyUpdateNowait) (\<lambda>rows.
     ret (map pga_alias_meadowlark_id rows))"

definition validateReferenceExistenceByDocumentUuid :: "'s pg_ops \<Rightarrow> DocumentUuid list \<Rightarrow> (MeadowlarkId list, 's) act" where
  "validateReferenceExistenceByDocumentUuid pg documentUuids =
     bnd (pg_selectAliases pg (\<lambda>a. pga_document_uuid a \<in> set documentUuids) ForNoKeyUpdateNowait) (\<lambda>rows.
     ret (map pga_alias_meadowlark_id rows))"

definition pg_referringInfo :: "pg_document \<Rightarrow> ReferringDocumentInfo" where
  "pg_referringInfo d = \<lparr>rdi_projectName = pgd_project_name d, rdi_resourceVersion = pgd_resource_version d,
     rdi_resourceName = pgd_resource_name d, rdi_documentUuid = pgd_document_uuid d,
     rdi_meadowlarkId = pgd_meadowlark_id d\<rparr>"

definition findReferringDocumentInfoForErrorReporting ::
  "'s pg_ops \<Rightarrow> MeadowlarkId list \<Rightarrow> (ReferringDocumentInfo list, 's) act" where
  "findReferringDocumentInfoForErrorReporting pg referringMeadowlarkIds =
     bnd (pg_selectDocuments pg (\<lambda>d. pgd_meadowlark_id d \<in> set referringMeadowlarkIds) (Some 5)) (\<lambda>rows.
     ret (map pg_referringInfo rows))"

section \<open>Writes\<close>

definition insertAlias :: "'s pg_ops \<Rightarrow> DocumentUuid \<Rightarrow> MeadowlarkId \<Rightarrow> MeadowlarkId \<Rightarrow> (bool, 's) act" where
  "insertAlias pg documentUuid meadowlarkId aliasId =
     bnd (pg_execute pg (on_aliases (sql_insert \<lparr>pga_document_uuid = documentUuid,
            pga_meadowlark_id = meadowlarkId, pga_alias_meadowlark_id = aliasId\<rparr>))) (\<lambda>rowCount.
     ret (hasResults rowCount))"

definition insertOutboundReferences :: "'s pg_ops \<Rightarrow> MeadowlarkId \<Rightarrow> MeadowlarkId \<Rightarrow> (bool, 's) act" where
  "insertOutboundReferences pg meadowlarkId referencedMeadowlarkId =
     bnd (pg_execute pg (on_references (sql_insert \<lparr>pgr_parent_meadowlark_id = meadowlarkId,
            pgr_referenced_meadowlark_id = referencedMeadowlarkId\<rparr>))) (\<lambda>rowCount.
     ret (hasResults rowCount))"

text \<open>The columns that the UPDATE sets; the uuid and the creation time stay.\<close>

definition updated_row :: "('b UpsertRequest_scheme) \<Rightarrow> pg_document \<Rightarrow> pg_document" where
  "updated_row request d = d\<lparr>pgd_meadowlark_id := ur_meadowlarkId request,
     pgd_document_identity := di_documentIdentity (ur_documentInfo request),
     pgd_project_name := bri_projectName (ur_resourceInfo request),
     pgd_resource_name := bri_resourceName (ur_resourceInfo request),
     pgd_resource_version := ri_resourceVersion (ur_resourceInfo request),
     pgd_is_descriptor := bri_isDescriptor (ur_resourceInfo request),
     pgd_validated := ur_validateDocumentReferencesExist request,
     pgd_created_by := sec_clientId (ur_security request),
     pgd_edfi_doc := ur_edfiDoc request,
     pgd_last_modified_at := di_requestTimestamp (ur_documentInfo request)\<rparr>"

definition updateDocument :: "'s pg_ops \<Rightarrow> 'b UpsertRequest_scheme \<Rightarrow> DocumentUuid \<Rightarrow> (bool, 's) act" where
  "updateDocument pg request documentUuid =
     bnd (pg_execute pg (on_documents (sql_update (\<lambda>d. pgd_document_uuid d = documentUuid) (updated_row request))))
       (\<lambda>rowCount. ret (hasResults rowCount))"

definition inserted_row :: "('b UpsertRequest_scheme) \<Rightarrow> DocumentUuid \<Rightarrow> pg_document" where
  "inserted_row request documentUuid = \<lparr>pgd_meadowlark_id = ur_meadowlarkId request,
     pgd_document_uuid = documentUuid,
     pgd_document_identity = di_documentIdentity (ur_documentInfo request),
     pgd_project_name = bri_projectName (ur_resourceInfo request),
     pgd_resource_name = bri_resourceName (ur_resourceInfo request),
     pgd_resource_version = ri_resourceVersion (ur_resourceInfo request),
     pgd_edfi_doc = ur_edfiDoc request,
     pgd_validated = ur_validateDocumentReferencesExist request,
     pgd_is_descriptor = bri_isDescriptor (ur_resourceInfo request),
     pgd_created_by = sec_clientId (ur_security request),
     pgd_created_at = di_requestTimestamp (ur_documentInfo request),
     pgd_last_modified_at = di_requestTimestamp (ur_documentInfo request)\<rparr>"

definition insertDocument :: "'s pg_ops \<Rightarrow> 'b UpsertRequest_scheme \<Rightarrow> DocumentUuid \<Rightarrow> (bool, 's) act" where
  "insertDocument pg request documentUuid =
     bnd (pg_execute pg (on_documents (sql_insert (inserted_row request documentUuid)))) (\<lambda>rowCount.
     ret (hasResults rowCount))"

definition checkDeleteResult :: "'s pg_ops \<Rightarrow> nat list \<Rightarrow> bool \<Rightarrow> (DeleteResult, 's) act" where
  "checkDeleteResult pg counts countDeletedRows =
     (if \<not> hasResults (length counts)
      then bnd (rollbackTransaction pg) (\<lambda>_.
           ret (DeleteResult.UNKNOWN_FAILURE
             ''deleteDocumentByDocumentUuId: Failure deleting document, a null result was returned''))
      else if countDeletedRows then ret (if hd counts = 0 then DELETE_FAILURE_NOT_EXISTS else DELETE_SUCCESS)
      else ret DELETE_SUCCESS)"

definition deleteDocumentRowByDocumentUuid :: "'s pg_ops \<Rightarrow> DocumentUuid \<Rightarrow> (DeleteResult, 's) act" where
  "deleteDocumentRowByDocumentUuid pg documentUuid =
     bnd (pg_deleteReturningCount pg (\<lambda>d. pgd_document_uuid d = documentUuid)) (\<lambda>counts.
     checkDeleteResult pg counts True)"

definition deleteOutboundReferencesOfDocumentByMeadowlarkId :: "'s pg_ops \<Rightarrow> MeadowlarkId \<Rightarrow> (bool, 's) act" where
  "deleteOutboundReferencesOfDocumentByMeadowlarkId pg meadowlarkId =
     bnd (pg_execute pg (on_references (sql_delete (\<lambda>ref. pgr_parent_meadowlark_id ref = meadowlarkId)))) (\<lambda>rowCount.
     ret (hasResults rowCount))"

definition deleteAliasesForDocumentByMeadowlarkId :: "'s pg_ops \<Rightarrow> MeadowlarkId \<Rightarrow> (bool, 's) act" where
  "deleteAliasesForDocumentByMeadowlarkId pg meadowlarkId =
     bnd (pg_execute pg (on_aliases (sql_delete (\<lambda>a. pga_meadowlark_id a = meadowlarkId)))) (\<lambda>rowCount.
     ret (hasResults rowCount))"

section \<open>Authorization clients\<close>

definition nullish_or :: "json \<Rightarrow> json \<Rightarrow> json" where
  "nullish_or v otherwise = (if v = JNull then otherwise else v)"

definition insertOrUpdateAuthorization :: "'s pg_ops \<Rightarrow> pg_authorization \<Rightarrow> (bool, 's) act" where
  "insertOrUpdateAuthorization pg authorizationClient =
     (let row = authorizationClient\<lparr>pgc_active := nullish_or (pgc_active authorizationClient) (JBool True)\<rparr> in
      bnd (pg_execute pg (on_authorizations (sql_upsert pgc_client_id (\<lambda>_. row) row))) (\<lambda>rowCount.
      ret (hasResults rowCount)))"

definition getAuthorizationClientDocumentList :: "'s pg_ops \<Rightarrow> (GetAllAuthorizationClientsResult, 's) act" where
  "getAuthorizationClientDocumentList pg =
     bnd (pg_selectAuthorizations pg (\<lambda>_. True)) (\<lambda>rows.
     ret (if \<not> hasResults (length rows) then GetAllAuthorizationClientsResult.GET_FAILURE_NOT_EXISTS
          else GetAllAuthorizationClientsResult.GET_SUCCESS (map (\<lambda>x. \<lparr>gcb_clientId = pgc_client_id x,
            gcb_clientName = pgc_client_name x, gcb_active = pgc_active x, gcb_roles = pgc_roles x\<rparr>) rows)))"

text \<open>The literal that pg-format makes of a client id: NULL, which equals nothing, for \<open>undefined\<close> and \<open>null\<close>.  What it
  makes of an array or an object is no text, and equals no client id either.\<close>

fun sql_literal :: "json option \<Rightarrow> string option" where
  "sql_literal (Some (JStr c)) = Some c"
| "sql_literal (Some (JNum n)) = Some n"
| "sql_literal (Some (JBool b)) = Some (if b then ''t'' else ''f'')"
| "sql_literal _ = None"

definition getAuthorizationClientDocumentById ::
  "'s pg_ops \<Rightarrow> json option \<Rightarrow> (pg_authorization option, 's) act" where
  "getAuthorizationClientDocumentById pg clientId =
     bnd (pg_selectAuthorizations pg (\<lambda>c. sql_literal clientId = Some (pgc_client_id c))) (\<lambda>rows.
     ret (map_option (\<lambda>result. result\<lparr>pgc_active := nullish_or (pgc_active result) (JBool True)\<rparr>) (first_row rows)))"

definition resetAuthorizationClientSecretByClientId ::
  "'s pg_ops \<Rightarrow> ResetAuthorizationClientSecretRequest \<Rightarrow> (ResetAuthorizationClientSecretResult, 's) act" where
  "resetAuthorizationClientSecretByClientId pg request =
     bnd (pg_execute pg (on_authorizations (sql_update (\<lambda>c. rar_clientId request = Some (pgc_client_id c))
            (\<lambda>c. c\<lparr>pgc_client_secret_hashed := rar_clientSecretHashed request\<rparr>)))) (\<lambda>rowCount.
     ret (if \<not> hasResults rowCount then RESET_FAILED_NOT_EXISTS else RESET_SUCCESS))"

definition checkBootstrapAdminExists :: "'s pg_ops \<Rightarrow> (bool, 's) act" where
  "checkBootstrapAdminExists pg =
     bnd (pg_countAuthorizations pg pgc_is_bootstrap_admin) (\<lambda>totals.
     ret (hasResults (length totals) \<and> 0 < hd totals))"

definition insertBootstrapAdmin :: "'s pg_ops \<Rightarrow> pg_authorization \<Rightarrow> (bool, 's) act" where
  "insertBootstrapAdmin pg authorizationClient =
     insertOrUpdateAuthorization pg (authorizationClient\<lparr>pgc_is_bootstrap_admin := True\<rparr>)"

definition updated_authorization :: "UpdateAuthorizationClientRequest \<Rightarrow> pg_authorization \<Rightarrow> pg_authorization" where
  "updated_authorization request c = c\<lparr>pgc_client_name := bson (uar_clientName request),
     pgc_roles := bson (uar_roles request), pgc_active := nullish_or (bson (uar_active request)) (JBool True)\<rparr>"

definition updateAuthorizationClientDocumentByClientId ::
  "'s pg_ops \<Rightarrow> UpdateAuthorizationClientRequest \<Rightarrow> (bool, 's) act" where
  "updateAuthorizationClientDocumentByClientId pg request =
     bnd (pg_execute pg (on_authorizations (sql_update (\<lambda>c. uar_clientId request = Some (pgc_client_id c))
            (updated_authorization request)))) (\<lambda>rowCount.
     ret (hasResults rowCount))"

section \<open>Definitions of the database\<close>

definition createDatabase :: "'s pg_ops \<Rightarrow> string \<Rightarrow> (bool, 's) act" where
  "createDatabase pg meadowlarkDbName =
     bnd (pg_createDatabase pg meadowlarkDbName) (\<lambda>rowCount. ret (hasResults rowCount))"

definition createSchemaSql :: string where
  "createSchemaSql = ''CREATE SCHEMA IF NOT EXISTS meadowlark''"

definition createDocumentTableSql :: string where
  "createDocumentTableSql = ''CREATE TABLE IF NOT EXISTS meadowlark.documents(id bigserial PRIMARY KEY, '' @
     ''meadowlark_id VARCHAR(56) NOT NULL, document_uuid UUID NOT NULL, document_identity JSONB NOT NULL, '' @
     ''project_name VARCHAR NOT NULL, resource_name VARCHAR NOT NULL, resource_version VARCHAR NOT NULL, '' @
     ''is_descriptor BOOLEAN NOT NULL, validated BOOLEAN NOT NULL, created_by VARCHAR(100) NULL, '' @
     ''created_at BIGINT NOT NULL, last_modified_at BIGINT NOT NULL, edfi_doc JSONB NOT NULL);''"

definition createDocumentTableMeadowlarkIdUniqueIndexSql :: string where
  "createDocumentTableMeadowlarkIdUniqueIndexSql =
     ''CREATE UNIQUE INDEX IF NOT EXISTS ux_meadowlark_documents ON meadowlark.documents(meadowlark_id)''"

definition createDocumentTableDocumentUuidUniqueIndexSql :: string where
  "createDocumentTableDocumentUuidUniqueIndexSql =
     ''CREATE UNIQUE INDEX IF NOT EXISTS ux_meadowlark_document_uuid ON meadowlark.documents(document_uuid)''"

definition createAuthorizationsTableSql :: string where
  "createAuthorizationsTableSql = ''CREATE TABLE IF NOT EXISTS meadowlark.authorizations('' @
     ''client_id VARCHAR PRIMARY KEY, client_secret_hashed VARCHAR NOT NULL, client_name VARCHAR NOT NULL, '' @
     ''roles TEXT[] NOT NULL, is_bootstrap_admin BOOLEAN NOT NULL, active BOOLEAN NOT NULL);''"

definition createAuthorizationsTableUniqueClientIdIndexSql :: string where
  "createAuthorizationsTableUniqueClientIdIndexSql =
     ''CREATE UNIQUE INDEX IF NOT EXISTS idx_authorizations_client_id ON meadowlark.authorizations(client_id);''"

definition createReferencesTableSql :: string where
  "createReferencesTableSql = ''CREATE TABLE IF NOT EXISTS meadowlark.references(id bigserial PRIMARY KEY, '' @
     ''parent_meadowlark_id VARCHAR NOT NULL, referenced_meadowlark_id VARCHAR NOT NULL);''"

definition createReferencesTableCheckingIndexSql :: string where
  "createReferencesTableCheckingIndexSql = ''CREATE INDEX IF NOT EXISTS ix_meadowlark_references_checking '' @
     ''ON meadowlark.references(referenced_meadowlark_id)''"

definition createReferencesTableDeletingIndexSql :: string where
  "createReferencesTableDeletingIndexSql = ''CREATE INDEX IF NOT EXISTS ix_meadowlark_references_deleting '' @
     ''ON meadowlark.references(parent_meadowlark_id)''"

definition createAliasesTableSql :: string where
  "createAliasesTableSql = ''CREATE TABLE IF NOT EXISTS meadowlark.aliases(id bigserial PRIMARY KEY, '' @
     ''meadowlark_id VARCHAR, document_uuid uuid, alias_meadowlark_id VARCHAR);''"

definition createAliasesTableMeadowlarkIdIndexSql :: string where
  "createAliasesTableMeadowlarkIdIndexSql =
     ''CREATE INDEX IF NOT EXISTS ix_meadowlark_aliases_meadowlark_id ON meadowlark.aliases(meadowlark_id)''"

definition createAliasesTableDocumentUuidIndexSql :: string where
  "createAliasesTableDocumentUuidIndexSql =
     ''CREATE INDEX IF NOT EXISTS ix_meadowlark_aliases_document_uuid ON meadowlark.aliases(document_uuid)''"

definition createAliasesTableAliasMeadowlarkIdIndexSql :: string where
  "createAliasesTableAliasMeadowlarkIdIndexSql = ''CREATE INDEX IF NOT EXISTS '' @
     ''ix_meadowlark_aliases_alias_meadowlark_id ON meadowlark.aliases(alias_meadowlark_id)''"

fun run_all :: "('a \<Rightarrow> (unit, 's) act) \<Rightarrow> 'a list \<Rightarrow> (unit, 's) act" where
  "run_all f [] = ret ()"
| "run_all f (x # xs) = bnd (f x) (\<lambda>_. run_all f xs)"

text \<open>The \<open>catch\<close> logs and throws again.\<close>

definition checkExistsAndCreateTables :: "'s pg_ops \<Rightarrow> (unit, 's) act" where
  "checkExistsAndCreateTables pg = run_all (pg_define pg)
     [createSchemaSql, createDocumentTableSql, createDocumentTableMeadowlarkIdUniqueIndexSql,
      createDocumentTableDocumentUuidUniqueIndexSql, createReferencesTableSql,
      createReferencesTableCheckingIndexSql, createReferencesTableDeletingIndexSql, createAliasesTableSql,
      createAliasesTableMeadowlarkIdIndexSql, createAliasesTableDocumentUuidIndexSql,
      createAliasesTableAliasMeadowlarkIdIndexSql, createAuthorizationsTableSql,
      createAuthorizationsTableUniqueClientIdIndexSql]"

end
