(* ===== verification/PgRepository.thy ===== *)
theory PgRepository
  imports PgSql
begin

text \<open>
  The repository of the PostgreSQL backend (\<open>meadowlark-postgresql-backend/src\<close>): reference validation, upsert,
  update, delete and get, ownership security, the connection pool (\<open>repository/Db.ts\<close>) and the plugin
  (\<open>BackendFacade.ts\<close>, \<open>index.ts\<close>).  \<open>pg\<close> is the connection (\<open>PgStore\<close>).  Names that the MongoDB backend has too
  begin with \<open>pg_\<close>.
\<close>

section \<open>ReferenceValidation\<close>

definition pg_findReferencedMeadowlarkIdsByMeadowlarkId ::
  "'s pg_ops \<Rightarrow> MeadowlarkId list \<Rightarrow> (MeadowlarkId list, 's) act" where
  "pg_findReferencedMeadowlarkIdsByMeadowlarkId pg referenceMeadowlarkIds =
     (if referenceMeadowlarkIds = [] then ret [] else validateReferenceExistence pg referenceMeadowlarkIds)"

definition pg_findMissingReferences ::
  "MeadowlarkId list \<Rightarrow> MeadowlarkId list \<Rightarrow> DocumentReference list \<Rightarrow> MissingIdentity list res" where
  "pg_findMissingReferences refsInDb documentOutboundRefs documentReferences =
     (let outRefIdsNotInDb = R_difference documentOutboundRefs refsInDb;
          arrayIndexesOfMissing = map (\<lambda>outRefId. index_of outRefId documentOutboundRefs) outRefIdsNotInDb
      in res_map (\<lambda>n.
           if n < length documentReferences
           then Inr \<lparr>mi_resourceName = dr_resourceName (documentReferences ! n),
                     mi_identity = dr_documentIdentity (documentReferences ! n)\<rparr>
           else Inl (TypeError ''Cannot read properties of undefined (reading resourceName)'')) arrayIndexesOfMissing)"

definition pg_missingOf ::
  "'s pg_ops \<Rightarrow> MeadowlarkId list \<Rightarrow> DocumentReference list \<Rightarrow> (MissingIdentity list, 's) act" where
  "pg_missingOf pg meadowlarkIds references =
     bnd (pg_findReferencedMeadowlarkIdsByMeadowlarkId pg meadowlarkIds) (\<lambda>inDb.
     lift (if length meadowlarkIds \<noteq> length inDb then pg_findMissingReferences inDb meadowlarkIds references
           else Inr []))"

definition pg_validateReferences ::
  "'s pg_ops \<Rightarrow> DocumentReference list \<Rightarrow> DocumentReference list \<Rightarrow> MeadowlarkId list \<Rightarrow>
   (MissingIdentity list, 's) act" where
  "pg_validateReferences pg documentReferences descriptorReferences outboundRefs =
     bnd (pg_missingOf pg outboundRefs documentReferences) (\<lambda>missing.
     bnd (lift (res_map (getMeadowlarkIdForDocumentReference (pg_shake256 pg)) descriptorReferences)) (\<lambda>descriptorIds.
     bnd (pg_missingOf pg descriptorIds descriptorReferences) (\<lambda>missingDescriptors.
     ret (missing @ missingDescriptors))))"

definition pg_reference_failure :: "MissingIdentity list \<Rightarrow> json option" where
  "pg_reference_failure failures =
     Some (JObj [(''error'', JObj [(''message'', JStr ''Reference validation failed''),
                                   (''failures'', missing_json failures)])])"

text \<open>The failures of the validation with up to five documents that have the id, when there are failures.\<close>

definition pg_invalid_references ::
  "'s pg_ops \<Rightarrow> 'b UpsertRequest_scheme \<Rightarrow> MeadowlarkId list \<Rightarrow> MeadowlarkId \<Rightarrow>
   ((MissingIdentity list \<times> ReferringDocumentInfo list) option, 's) act" where
  "pg_invalid_references pg request outboundRefs reportedId =
     (if ur_validateDocumentReferencesExist request
      then bnd (pg_validateReferences pg (di_documentReferences (ur_documentInfo request))
                 (di_descriptorReferences (ur_documentInfo request)) outboundRefs) (\<lambda>failures.
           if failures = [] then ret None
           else bnd (findReferringDocumentInfoForErrorReporting pg [reportedId]) (\<lambda>info. ret (Some (failures, info))))
      else ret None)"

section \<open>What upsert and update write beside the document\<close>

text \<open>The rows of the old id go, those of the new id come.\<close>

definition writeAliases ::
  "'s pg_ops \<Rightarrow> DocumentUuid \<Rightarrow> MeadowlarkId \<Rightarrow> MeadowlarkId \<Rightarrow> SuperclassInfo option \<Rightarrow> (unit, 's) act" where
  "writeAliases pg documentUuid oldId newId superclassInfo =
     bnd (deleteAliasesForDocumentByMeadowlarkId pg oldId) (\<lambda>_.
     bnd (insertAlias pg documentUuid newId newId) (\<lambda>_.
     case superclassInfo of
       None \<Rightarrow> ret ()
     | Some si \<Rightarrow>
         bnd (lift (getMeadowlarkIdForSuperclassInfo (pg_shake256 pg) si)) (\<lambda>superclassAliasId.
         bnd (insertAlias pg documentUuid newId superclassAliasId) (\<lambda>_. ret ()))))"

definition writeOutboundReferences ::
  "'s pg_ops \<Rightarrow> MeadowlarkId \<Rightarrow> MeadowlarkId \<Rightarrow> MeadowlarkId list \<Rightarrow> DocumentReference list \<Rightarrow> (unit, 's) act" where
  "writeOutboundReferences pg oldId newId outboundRefs descriptorReferences =
     bnd (deleteOutboundReferencesOfDocumentByMeadowlarkId pg oldId) (\<lambda>_.
     bnd (lift (res_map (getMeadowlarkIdForDocumentReference (pg_shake256 pg)) descriptorReferences)) (\<lambda>descriptorIds.
     run_all (\<lambda>r. bnd (insertOutboundReferences pg newId r) (\<lambda>_. ret ())) (outboundRefs @ descriptorIds)))"

section \<open>Upsert\<close>

definition pg_subclass_conflict ::
  "'s pg_ops \<Rightarrow> UpsertRequest \<Rightarrow> SuperclassInfo \<Rightarrow> (UpsertResult option, 's) act" where
  "pg_subclass_conflict pg request superclassInfo =
     bnd (lift (getMeadowlarkIdForSuperclassInfo (pg_shake256 pg) superclassInfo)) (\<lambda>superclassAliasId.
     bnd (findAliasMeadowlarkId pg superclassAliasId) (\<lambda>inUse.
     if inUse = [] then ret None
     else
       bnd (findReferringDocumentInfoForErrorReporting pg [superclassAliasId]) (\<lambda>info.
       ret (Some (INSERT_FAILURE_CONFLICT
         (Some (JStr (''Insert failed: the identity is in use by '' @ quoted (bri_resourceName (ur_resourceInfo request)) @
                '' which is also a(n) '' @ quoted (si_resourceName superclassInfo)))) info)))))"

definition pg_write_upsert ::
  "'s pg_ops \<Rightarrow> UpsertRequest \<Rightarrow> bool \<Rightarrow> DocumentUuid \<Rightarrow> MeadowlarkId list \<Rightarrow> (UpsertResult, 's) act" where
  "pg_write_upsert pg request isInsert documentUuid outboundRefs =
     bnd (if isInsert then insertDocument pg request documentUuid else updateDocument pg request documentUuid) (\<lambda>_.
     bnd (writeAliases pg documentUuid (ur_meadowlarkId request) (ur_meadowlarkId request)
            (di_superclassInfo (ur_documentInfo request))) (\<lambda>_.
     bnd (writeOutboundReferences pg (ur_meadowlarkId request) (ur_meadowlarkId request) outboundRefs
            (di_descriptorReferences (ur_documentInfo request))) (\<lambda>_.
     bnd (commitTransaction pg) (\<lambda>_.
     ret (if isInsert then INSERT_SUCCESS None documentUuid else UpsertResult.UPDATE_SUCCESS None documentUuid)))))"

text \<open>A request that is stale is answered without the end of the transaction.\<close>

definition pg_upsert_in_transaction ::
  "'s pg_ops \<Rightarrow> UpsertRequest \<Rightarrow> MeadowlarkId list \<Rightarrow> (UpsertResult, 's) act" where
  "pg_upsert_in_transaction pg request outboundRefs =
     bnd (beginTransaction pg) (\<lambda>_.
     bnd (findDocumentByMeadowlarkId pg (ur_meadowlarkId request)) (\<lambda>documentFromDb.
     bnd (case documentFromDb of None \<Rightarrow> pg_generateDocumentUuid pg | Some d \<Rightarrow> ret (pgd_document_uuid d)) (\<lambda>documentUuid.
     if (case documentFromDb of None \<Rightarrow> False
         | Some d \<Rightarrow> di_requestTimestamp (ur_documentInfo request) \<le> pgd_last_modified_at d)
     then ret (UPSERT_FAILURE_WRITE_CONFLICT None)
     else
       bnd (case di_superclassInfo (ur_documentInfo request) of
              None \<Rightarrow> ret None
            | Some si \<Rightarrow> if documentFromDb = None then pg_subclass_conflict pg request si else ret None) (\<lambda>conflict.
       case conflict of
         Some failure \<Rightarrow> bnd (rollbackTransaction pg) (\<lambda>_. ret failure)
       | None \<Rightarrow>
           bnd (pg_invalid_references pg request outboundRefs (ur_meadowlarkId request)) (\<lambda>invalid.
           case invalid of
             Some (failures, info) \<Rightarrow>
               bnd (rollbackTransaction pg) (\<lambda>_.
               ret (if documentFromDb = None then INSERT_FAILURE_REFERENCE (pg_reference_failure failures) info
                    else UpsertResult.UPDATE_FAILURE_REFERENCE (pg_reference_failure failures) info))
           | None \<Rightarrow> pg_write_upsert pg request (documentFromDb = None) documentUuid outboundRefs)))))"

definition pg_upsertDocument :: "'s pg_ops \<Rightarrow> UpsertRequest \<Rightarrow> (UpsertResult, 's) act" where
  "pg_upsertDocument pg request =
     bnd (lift (res_map (getMeadowlarkIdForDocumentReference (pg_shake256 pg))
            (di_documentReferences (ur_documentInfo request)))) (\<lambda>outboundRefs.
     try_catch (pg_upsert_in_transaction pg request outboundRefs)
       (\<lambda>e. bnd (rollbackTransaction pg) (\<lambda>_. ret (UpsertResult.UNKNOWN_FAILURE (Some (JStr (err_message e)))))))"

section \<open>Update\<close>

definition pg_write_update ::
  "'s pg_ops \<Rightarrow> UpdateRequest \<Rightarrow> MeadowlarkId \<Rightarrow> MeadowlarkId list \<Rightarrow> (UpdateResult, 's) act" where
  "pg_write_update pg request existingMeadowlarkId outboundRefs =
     bnd (updateDocument pg request (upd_documentUuid request)) (\<lambda>updateDocumentResult.
     bnd (writeAliases pg (upd_documentUuid request) existingMeadowlarkId (ur_meadowlarkId request)
            (di_superclassInfo (ur_documentInfo request))) (\<lambda>_.
     bnd (writeOutboundReferences pg existingMeadowlarkId (ur_meadowlarkId request) outboundRefs
            (di_descriptorReferences (ur_documentInfo request))) (\<lambda>_.
     bnd (commitTransaction pg) (\<lambda>_.
     ret (if updateDocumentResult then UpdateResult.UPDATE_SUCCESS None else UPDATE_FAILURE_NOT_EXISTS None)))))"

text \<open>The first three failures are answered without the end of the transaction.\<close>

definition pg_update_in_transaction ::
  "'s pg_ops \<Rightarrow> UpdateRequest \<Rightarrow> MeadowlarkId list \<Rightarrow> (UpdateResult, 's) act" where
  "pg_update_in_transaction pg request outboundRefs =
     bnd (beginTransaction pg) (\<lambda>_.
     bnd (findDocumentByDocumentUuid pg (upd_documentUuid request)) (\<lambda>documentFromDb.
     case documentFromDb of
       None \<Rightarrow> ret (UPDATE_FAILURE_NOT_EXISTS None)
     | Some d \<Rightarrow>
         if di_requestTimestamp (ur_documentInfo request) \<le> pgd_last_modified_at d
         then ret (UPDATE_FAILURE_WRITE_CONFLICT None)
         else if \<not> ri_allowIdentityUpdates (ur_resourceInfo request) \<and>
                 pgd_meadowlark_id d \<noteq> ur_meadowlarkId request
         then ret (UPDATE_FAILURE_IMMUTABLE_IDENTITY None)
         else
           bnd (pg_invalid_references pg request outboundRefs (pgd_meadowlark_id d)) (\<lambda>invalid.
           case invalid of
             Some (failures, info) \<Rightarrow>
               bnd (rollbackTransaction pg) (\<lambda>_.
               ret (UpdateResult.UPDATE_FAILURE_REFERENCE (pg_reference_failure failures) info))
           | None \<Rightarrow> pg_write_update pg request (pgd_meadowlark_id d) outboundRefs)))"

definition pg_updateDocumentByDocumentUuid :: "'s pg_ops \<Rightarrow> UpdateRequest \<Rightarrow> (UpdateResult, 's) act" where
  "pg_updateDocumentByDocumentUuid pg request =
     bnd (lift (res_map (getMeadowlarkIdForDocumentReference (pg_shake256 pg))
            (di_documentReferences (ur_documentInfo request)))) (\<lambda>outboundRefs.
     try_catch (pg_update_in_transaction pg request outboundRefs)
       (\<lambda>e. bnd (rollbackTransaction pg) (\<lambda>_. ret (UpdateResult.UNKNOWN_FAILURE (Some (JStr (err_message e)))))))"

section \<open>Delete\<close>

definition pg_blocking_references ::
  "'s pg_ops \<Rightarrow> MeadowlarkId \<Rightarrow> MeadowlarkId list \<Rightarrow> (DeleteResult option, 's) act" where
  "pg_blocking_references pg meadowlarkId documentAliasMeadowlarkIds =
     (if meadowlarkId = '''' then ret (Some DELETE_FAILURE_NOT_EXISTS)
      else
        bnd (findReferencingMeadowlarkIds pg documentAliasMeadowlarkIds) (\<lambda>referenceResult.
        let references = filter (\<lambda>ref. ref \<noteq> meadowlarkId) referenceResult in
        if references = [] then ret None
        else
          bnd (findReferringDocumentInfoForErrorReporting pg references) (\<lambda>info.
          ret (Some (if info = []
                     then DeleteResult.UNKNOWN_FAILURE
                       (''postgresql.repository.Delete.deleteDocumentByDocumentUuid Error retrieving documents '' @
                        ''referenced by '' @ meadowlarkId @ '', a null result set was returned'')
                     else DELETE_FAILURE_REFERENCE info)))))"

definition pg_delete_in_transaction :: "'s pg_ops \<Rightarrow> DeleteRequest \<Rightarrow> (DeleteResult, 's) act" where
  "pg_delete_in_transaction pg request =
     bnd (beginTransaction pg) (\<lambda>_.
     bnd (findAliasMeadowlarkIdsForDocumentByDocumentUuid pg (del_documentUuid request)) (\<lambda>rows.
     let meadowlarkId = (case rows of [] \<Rightarrow> '''' | row # _ \<Rightarrow> fst row) in
     bnd (if del_validateNoReferencesToDocument request
          then pg_blocking_references pg meadowlarkId (map snd rows) else ret None) (\<lambda>blocked.
     case blocked of
       Some failure \<Rightarrow> bnd (rollbackTransaction pg) (\<lambda>_. ret failure)
     | None \<Rightarrow>
         bnd (deleteDocumentRowByDocumentUuid pg (del_documentUuid request)) (\<lambda>deleteResult.
         bnd (deleteOutboundReferencesOfDocumentByMeadowlarkId pg meadowlarkId) (\<lambda>_.
         bnd (deleteAliasesForDocumentByMeadowlarkId pg meadowlarkId) (\<lambda>_.
         bnd (commitTransaction pg) (\<lambda>_. ret deleteResult)))))))"

definition pg_deleteDocumentByDocumentUuid :: "'s pg_ops \<Rightarrow> DeleteRequest \<Rightarrow> (DeleteResult, 's) act" where
  "pg_deleteDocumentByDocumentUuid pg request =
     try_catch (pg_delete_in_transaction pg request)
       (\<lambda>_. bnd (rollbackTransaction pg) (\<lambda>_. ret (DeleteResult.UNKNOWN_FAILURE '''')))"

section \<open>Get\<close>

definition pg_getDocumentByDocumentUuid :: "'s pg_ops \<Rightarrow> GetRequest \<Rightarrow> (GetResult, 's) act" where
  "pg_getDocumentByDocumentUuid pg request =
     (let failed = (\<lambda>r. ret \<lparr>gr_response = r, gr_documentUuid = get_documentUuid request, gr_edfiDoc = JObj [],
                              gr_lastModifiedDate = 0, gr_failureMessage = None\<rparr>)
      in try_catch
           (bnd (findDocumentByDocumentUuid pg (get_documentUuid request)) (\<lambda>meadowlarkDocument.
            case meadowlarkDocument of
              None \<Rightarrow> failed GetResponse.GET_FAILURE_NOT_EXISTS
            | Some d \<Rightarrow> ret \<lparr>gr_response = GetResponse.GET_SUCCESS, gr_documentUuid = get_documentUuid request,
                gr_edfiDoc = pgd_edfi_doc d, gr_lastModifiedDate = pgd_last_modified_at d, gr_failureMessage = None\<rparr>))
           (\<lambda>_. failed GetResponse.UNKNOWN_FAILURE))"

section \<open>OwnershipSecurity and SecurityMiddleware\<close>

definition extractIdIfUpsert :: "'s pg_ops \<Rightarrow> FrontendRequest \<Rightarrow> MeadowlarkId option res" where
  "extractIdIfUpsert pg frontendRequest =
     (if fr_action frontendRequest \<noteq> upsert then Inr None
      else res_bind (meadowlarkIdForDocumentIdentity (pg_shake256 pg) (mw_resourceInfo (fr_middleware frontendRequest))
             (di_documentIdentity (mw_documentInfo (fr_middleware frontendRequest)))) (\<lambda>i. Inr (Some i)))"

definition ownership_decision :: "FrontendRequest \<Rightarrow> pg_document option \<Rightarrow> SecurityResult" where
  "ownership_decision frontendRequest meadowlarkDocument =
     (case meadowlarkDocument of
        None \<Rightarrow> NOT_APPLICABLE
      | Some d \<Rightarrow>
          if pgd_created_by d = sec_clientId (securityOf (mw_security (fr_middleware frontendRequest)))
          then ACCESS_APPROVED else ACCESS_DENIED)"

text \<open>The id of an upsert is computed outside of the \<open>try\<close>.\<close>

definition pg_rejectByOwnershipSecurity :: "'s pg_ops \<Rightarrow> FrontendRequest \<Rightarrow> (SecurityResult, 's) act" where
  "pg_rejectByOwnershipSecurity pg frontendRequest =
     (let m = fr_middleware frontendRequest;
          secured = (\<lambda>find. try_catch (bnd find (\<lambda>d. ret (ownership_decision frontendRequest d)))
                              (\<lambda>_. ret SecurityResult.UNKNOWN_FAILURE))
      in if bri_isDescriptor (mw_resourceInfo m) \<and>
            (fr_action frontendRequest = getById \<or> fr_action frontendRequest = query)
         then ret NOT_APPLICABLE
         else
           case pc_documentUuid (mw_pathComponents m) of
             Some documentUuid \<Rightarrow> secured (findOwnershipForDocumentByDocumentUuid pg documentUuid)
           | None \<Rightarrow>
               bnd (lift (extractIdIfUpsert pg frontendRequest)) (\<lambda>meadowlarkId.
               if meadowlarkId = None \<or> meadowlarkId = Some '''' then ret NOT_APPLICABLE
               else secured (findOwnershipForDocumentByMeadowlarkId pg (the meadowlarkId))))"

definition pg_securityMiddleware :: "'s pg_ops \<Rightarrow> 's middleware" where
  "pg_securityMiddleware pg = (\<lambda>(frontendRequest, frontendResponse).
     if frontendResponse \<noteq> None then ret (frontendRequest, frontendResponse)
     else if sec_authorizationStrategy (securityOf (mw_security (fr_middleware frontendRequest))) \<noteq> OWNERSHIP_BASED
     then ret (frontendRequest, None)
     else
       bnd (pg_rejectByOwnershipSecurity pg frontendRequest) (\<lambda>securityResult.
       let denied = (\<lambda>n. \<lparr>resp_statusCode = n, resp_headers = Some [], resp_body = Some (JStr '''')\<rparr>) in
       ret (frontendRequest,
         (case securityResult of
            ACCESS_APPROVED \<Rightarrow> None
          | NOT_APPLICABLE \<Rightarrow> None
          | SecurityResult.UNKNOWN_FAILURE \<Rightarrow> Some (denied 500)
          | ACCESS_DENIED \<Rightarrow> Some (denied 403)))))"

section \<open>Db\<close>

text \<open>\<open>singletonDbPool\<close> with the settings it was made with, and the state of the connection.\<close>

type_synonym 's pool_state = "db_configuration option \<times> 's"

fun truthy_setting :: "ConfigValue \<Rightarrow> bool" where
  "truthy_setting (CString t) = (t \<noteq> '''')"
| "truthy_setting (CBool b) = b"
| "truthy_setting (CNumber t) = (t \<noteq> ''0'' \<and> t \<noteq> ''NaN'')"
| "truthy_setting (CBuffer t) = True"

fun setting_text :: "ConfigValue \<Rightarrow> string" where
  "setting_text (CString t) = t"
| "setting_text (CBool b) = (if b then ''true'' else ''false'')"
| "setting_text (CNumber t) = t"
| "setting_text (CBuffer t) = t"

definition getDbConfiguration :: "'s pg_ops \<Rightarrow> db_configuration res" where
  "getDbConfiguration pg =
     (let get = config_get (pg_config pg) in
      res_bind (get ''POSTGRES_USER'') (\<lambda>user.
      res_bind (if truthy_setting user then get ''POSTGRES_PASSWORD'' else Inr (CString '''')) (\<lambda>password.
      if \<not> truthy_setting user \<or> \<not> truthy_setting password
      then Inl (js_Error (''The POSTGRES_USER and POSTGRES_PASSWORD parameters in the .env file are required and '' @
                          ''cannot be empty.''))
      else
        res_bind (get ''POSTGRES_HOST'') (\<lambda>host.
        res_bind (get ''POSTGRES_PORT'') (\<lambda>port.
        res_bind (get ''MEADOWLARK_DATABASE_NAME'') (\<lambda>database.
        Inr \<lparr>dbc_host = host, dbc_port = port, dbc_user = user, dbc_password = password, dbc_database = database\<rparr>))))))"

definition on_pool :: "('a, 's) act \<Rightarrow> ('a, 's pool_state) act" where
  "on_pool m = (\<lambda>(p, s). case m s of (r, s') \<Rightarrow> (r, (p, s')))"

definition set_pool :: "db_configuration option \<Rightarrow> (unit, 's pool_state) act" where
  "set_pool p = (\<lambda>(_, s). (Inr (), (p, s)))"

definition missing_database_message :: "db_configuration \<Rightarrow> string" where
  "missing_database_message cfg =
     ''database '' @ [CHR 0x22] @ setting_text (dbc_database cfg) @ [CHR 0x22] @ '' does not exist''"

text \<open>\<open>getDbConfiguration().database = ...\<close> assigns to an object that nothing else holds, so that both clients
  get the settings as they are.  The first part answers whether it has connected.\<close>

definition createConnectionPoolAndReturnClient :: "'s pg_ops \<Rightarrow> (unit, 's pool_state) act" where
  "createConnectionPoolAndReturnClient pg =
     bnd (try_catch
       (bnd (lift (getDbConfiguration pg)) (\<lambda>cfg.
        bnd (set_pool (Some cfg)) (\<lambda>_.
        bnd (on_pool (pg_poolConnect pg cfg)) (\<lambda>_. ret True))))
       (\<lambda>e.
        bnd (lift (getDbConfiguration pg)) (\<lambda>cfg.
        if err_message e \<noteq> missing_database_message cfg then throw e
        else (\<lambda>(p, s). bnd (if p \<noteq> None then on_pool (pg_poolEnd pg) else ret ()) (\<lambda>_. ret False) (p, s))))) (\<lambda>connected.
     if connected then ret ()
     else
       bnd (lift (getDbConfiguration pg)) (\<lambda>cfg.
       bnd (finally_do
              (bnd (on_pool (pg_clientConnect pg cfg)) (\<lambda>_.
               bnd (on_pool (createDatabase pg (setting_text (dbc_database cfg)))) (\<lambda>_. ret ())))
              (on_pool (pg_clientEnd pg))) (\<lambda>_.
       bnd (set_pool (Some cfg)) (\<lambda>_. on_pool (pg_poolConnect pg cfg)))))"

definition pg_getSharedClient :: "'s pg_ops \<Rightarrow> (unit, 's pool_state) act" where
  "pg_getSharedClient pg = (\<lambda>(p, s).
     case p of
       None \<Rightarrow> bnd (createConnectionPoolAndReturnClient pg) (\<lambda>_. on_pool (checkExistsAndCreateTables pg)) (p, s)
     | Some cfg \<Rightarrow> on_pool (pg_poolConnect pg cfg) (p, s))"

definition resetSharedClient :: "'s pg_ops \<Rightarrow> (unit, 's pool_state) act" where
  "resetSharedClient pg = (\<lambda>(p, s).
     case p of None \<Rightarrow> (Inr (), (None, s)) | Some _ \<Rightarrow> on_pool (pg_poolEnd pg) (None, s))"

definition pg_closeSharedConnection :: "'s pg_ops \<Rightarrow> (unit, 's pool_state) act" where
  "pg_closeSharedConnection pg = resetSharedClient pg"

section \<open>BackendFacade and the plugin\<close>

text \<open>\<open>try { return operation(client) } finally { client.release() }\<close>: the promise is not awaited, so that the
  client is released before the operation ends, with the operation's answers to come.\<close>

definition released_early :: "'s pg_ops \<Rightarrow> ('a, 's) act \<Rightarrow> ('a, 's) act" where
  "released_early pg operation = (\<lambda>s.
     case pg_release pg s of
       (q, s1) \<Rightarrow> (case operation s1 of (r, s2) \<Rightarrow> (case q of Inl e \<Rightarrow> (Inl e, s2) | Inr _ \<Rightarrow> (r, s2))))"

definition with_pool_client :: "'s pg_ops \<Rightarrow> ('a, 's) act \<Rightarrow> ('a, 's pool_state) act" where
  "with_pool_client pg operation = bnd (pg_getSharedClient pg) (\<lambda>_. on_pool (released_early pg operation))"

definition pg_initializeDocumentStore :: "'s pg_ops \<Rightarrow> 's pool_state DocumentStorePlugin" where
  "pg_initializeDocumentStore pg = \<lparr>
     dsp_upsertDocument = (\<lambda>request. with_pool_client pg (pg_upsertDocument pg request)),
     dsp_getDocumentById = (\<lambda>request. with_pool_client pg (pg_getDocumentByDocumentUuid pg request)),
     dsp_updateDocumentById = (\<lambda>request. with_pool_client pg (pg_updateDocumentByDocumentUuid pg request)),
     dsp_deleteDocumentById = (\<lambda>request. with_pool_client pg (pg_deleteDocumentByDocumentUuid pg request)),
     dsp_securityMiddleware = (\<lambda>model. with_pool_client pg (pg_securityMiddleware pg model)),
     dsp_closeConnection = pg_closeSharedConnection pg\<rparr>"

end
