(* ===== verification/PgTransactions.thy ===== *)
theory PgTransactions
  imports PgRepository
begin

text \<open>
  Statements of the PostgreSQL backend in a transaction, under the laws of \<open>pg_store\<close>: triples with one
  postcondition for a result and one for a thrown error (\<open>outcome\<close>), and what each function of \<open>SqlHelper\<close> reads
  or writes.
\<close>

section \<open>Triples with two postconditions\<close>

definition outcome ::
  "('s \<Rightarrow> bool) \<Rightarrow> ('a, 's) act \<Rightarrow> ('a \<Rightarrow> 's \<Rightarrow> bool) \<Rightarrow> ('s \<Rightarrow> bool) \<Rightarrow> bool" where
  "outcome P m Q E \<longleftrightarrow> (\<forall>s r s'. P s \<longrightarrow> m s = (r, s') \<longrightarrow> (case r of Inl e \<Rightarrow> E s' | Inr x \<Rightarrow> Q x s'))"

lemma outcomeI:
  "(\<And>s r s'. P s \<Longrightarrow> m s = (r, s') \<Longrightarrow> (case r of Inl e \<Rightarrow> E s' | Inr x \<Rightarrow> Q x s')) \<Longrightarrow> outcome P m Q E"
  unfolding outcome_def by blast

lemma outcomeD: "outcome P m Q E \<Longrightarrow> P s \<Longrightarrow> m s = (r, s') \<Longrightarrow> case r of Inl e \<Rightarrow> E s' | Inr x \<Rightarrow> Q x s'"
  unfolding outcome_def by blast

lemma outcome_ret: "(\<And>s. P s \<Longrightarrow> Q x s) \<Longrightarrow> outcome P (ret x) Q E"
  by (rule outcomeI) (auto simp: act_simps)

lemma outcome_lift: "(\<And>s. P s \<Longrightarrow> E s) \<Longrightarrow> outcome P (lift r) (\<lambda>x s. P s \<and> r = Inr x) E"
  by (rule outcomeI) (auto simp: act_simps split: sum.split)

lemma outcome_seq:
  assumes "outcome P m R E" "\<And>x. outcome (R x) (K x) Q E"
  shows "outcome P (bnd m K) Q E"
proof (rule outcomeI)
  fix s r s'
  assume p: "P s" and run: "bnd m K s = (r, s')"
  obtain q t where m: "m s = (q, t)" by (cases "m s")
  show "case r of Inl e \<Rightarrow> E s' | Inr x \<Rightarrow> Q x s'"
  proof (cases q)
    case (Inl e)
    then show ?thesis using outcomeD [OF assms(1) p m] run m by (auto simp: act_simps)
  next
    case (Inr x)
    have "K x t = (r, s')" using run m Inr by (simp add: act_simps)
    moreover have "R x t" using outcomeD [OF assms(1) p m] Inr by simp
    ultimately show ?thesis using outcomeD [OF assms(2)] by blast
  qed
qed

lemma outcome_fact: "(F \<Longrightarrow> outcome P m Q E) \<Longrightarrow> outcome (\<lambda>s. P s \<and> F) m Q E"
  unfolding outcome_def by blast

lemma outcome_exists: "(\<And>y. outcome (P y) m Q E) \<Longrightarrow> outcome (\<lambda>s. \<exists>y. P y s) m Q E"
  unfolding outcome_def by blast

lemma outcome_step:
  assumes "outcome P m (\<lambda>x s. P' s \<and> F x) E" "\<And>x. F x \<Longrightarrow> outcome P' (K x) Q E"
  shows "outcome P (bnd m K) Q E"
  by (rule outcome_seq [OF assms(1)]) (rule outcome_fact, rule assms(2))

lemma outcome_conseq:
  "outcome P m Q E \<Longrightarrow> (\<And>s. P' s \<Longrightarrow> P s) \<Longrightarrow> (\<And>x s. Q x s \<Longrightarrow> Q' x s) \<Longrightarrow> (\<And>s. E s \<Longrightarrow> E' s) \<Longrightarrow>
   outcome P' m Q' E'"
  unfolding outcome_def by (fastforce split: sum.splits)

lemma outcome_post: "outcome P m Q E \<Longrightarrow> (\<And>x s. Q x s \<Longrightarrow> Q' x s) \<Longrightarrow> outcome P m Q' E"
  by (erule outcome_conseq)

lemma outcome_ret_after:
  "outcome P m (\<lambda>x s. P' s \<and> F x) E \<Longrightarrow> (\<And>x s. P' s \<Longrightarrow> F x \<Longrightarrow> Q (f x) s) \<Longrightarrow> outcome P (bnd m (\<lambda>x. ret (f x))) Q E"
  by (erule outcome_step, rule outcome_ret)

section \<open>Statements in a transaction\<close>

text \<open>\<open>T0\<close> is committed; the open transaction sees \<open>T\<close>.\<close>

definition in_txn :: "('s \<Rightarrow> tables) \<Rightarrow> ('s \<Rightarrow> tables option) \<Rightarrow> tables \<Rightarrow> tables \<Rightarrow> 's \<Rightarrow> bool" where
  "in_txn visible snap T0 T s \<longleftrightarrow> snap s = Some T0 \<and> visible s = T"

definition committed_is :: "('s \<Rightarrow> tables) \<Rightarrow> ('s \<Rightarrow> tables option) \<Rightarrow> tables \<Rightarrow> 's \<Rightarrow> bool" where
  "committed_is visible snap T0 s \<longleftrightarrow> committed_tables visible snap s = T0"

text \<open>Nothing is pending: there is no open transaction, or one that has written nothing.\<close>

definition nothing_pending :: "('s \<Rightarrow> tables) \<Rightarrow> ('s \<Rightarrow> tables option) \<Rightarrow> tables \<Rightarrow> 's \<Rightarrow> bool" where
  "nothing_pending visible snap T s \<longleftrightarrow> visible s = T \<and> (snap s = None \<or> snap s = Some T)"

definition settled :: "('s \<Rightarrow> tables) \<Rightarrow> ('s \<Rightarrow> tables option) \<Rightarrow> tables \<Rightarrow> 's \<Rightarrow> bool" where
  "settled visible snap T s \<longleftrightarrow> visible s = T \<and> snap s = None"

lemmas txn_defs = in_txn_def committed_is_def committed_tables_def nothing_pending_def settled_def

lemma in_txn_committed: "in_txn visible snap T0 T s \<Longrightarrow> committed_is visible snap T0 s"
  by (simp add: txn_defs)

lemma nothing_pending_committed: "nothing_pending visible snap T s \<Longrightarrow> committed_is visible snap T s"
  by (auto simp: txn_defs)

lemma settled_pending: "settled visible snap T s \<Longrightarrow> nothing_pending visible snap T s"
  by (simp add: txn_defs)

lemma read_outcome:
  assumes "read_law visible snap m P"
  shows "outcome (in_txn visible snap T0 T) m (\<lambda>x s. in_txn visible snap T0 T s \<and> P T x) (committed_is visible snap T0)"
  using assms unfolding outcome_def read_law_def
  by (fastforce simp: txn_defs voided_def unchanged_def split: sum.splits)

lemma write_outcome:
  assumes "write_law visible snap m f"
  shows "outcome (in_txn visible snap T0 T) m
    (\<lambda>x s. in_txn visible snap T0 (fst (f T)) s \<and> x = snd (f T) \<and> table_constraints (fst (f T)))
    (committed_is visible snap T0)"
proof (rule outcomeI)
  fix s q s'
  assume "in_txn visible snap T0 T s" and run: "m s = (q, s')"
  then have s: "snap s = Some T0" "visible s = T" by (simp_all add: in_txn_def)
  have "case q of Inl e \<Rightarrow> voided visible snap s s'
         | Inr x \<Rightarrow> snap s' = snap s \<and> f (visible s) = (visible s', x) \<and> table_constraints (visible s')"
    using assms run unfolding write_law_def by blast
  then show "case q of Inl e \<Rightarrow> committed_is visible snap T0 s' | Inr x \<Rightarrow>
     in_txn visible snap T0 (fst (f T)) s' \<and> x = snd (f T) \<and> table_constraints (fst (f T))"
    using s by (cases q) (simp_all add: txn_defs voided_def)
qed

text \<open>A read with nothing pending, also outside of a transaction.\<close>

lemma read_pending:
  assumes "read_law visible snap m P"
  shows "outcome (nothing_pending visible snap T) m (\<lambda>x s. nothing_pending visible snap T s \<and> P T x)
    (nothing_pending visible snap T)"
proof (rule outcomeI)
  fix s q s'
  assume s: "nothing_pending visible snap T s" and run: "m s = (q, s')"
  have "case q of Inl e \<Rightarrow> voided visible snap s s' | Inr x \<Rightarrow> unchanged visible snap s s' \<and> P (visible s) x"
    using assms run unfolding read_law_def by blast
  then show "case q of Inl e \<Rightarrow> nothing_pending visible snap T s' | Inr x \<Rightarrow> nothing_pending visible snap T s' \<and> P T x"
    using s by (cases q) (auto simp: txn_defs voided_def unchanged_def)
qed

lemma connection_pending:
  assumes "connection_law visible snap m" "nothing_pending visible snap T s" "m s = (q, s')"
  shows "nothing_pending visible snap T s'"
proof -
  have "unchanged visible snap s s' \<or> visible s' = committed_tables visible snap s \<and> snap s' = None"
    using assms(1,3) unfolding connection_law_def by blast
  then show ?thesis using assms(2) by (auto simp: txn_defs unchanged_def)
qed

text \<open>The tables after the rows of an old id are replaced.\<close>

definition replace_aliases ::
  "MeadowlarkId \<Rightarrow> DocumentUuid \<Rightarrow> MeadowlarkId \<Rightarrow> MeadowlarkId list \<Rightarrow> tables \<Rightarrow> tables" where
  "replace_aliases oldId documentUuid newId ids T =
     T\<lparr>t_aliases := filter (\<lambda>a. pga_meadowlark_id a \<noteq> oldId) (t_aliases T) @
        map (\<lambda>i. \<lparr>pga_document_uuid = documentUuid, pga_meadowlark_id = newId, pga_alias_meadowlark_id = i\<rparr>) ids\<rparr>"

definition replace_references :: "MeadowlarkId \<Rightarrow> MeadowlarkId \<Rightarrow> MeadowlarkId list \<Rightarrow> tables \<Rightarrow> tables" where
  "replace_references oldId newId refs T =
     T\<lparr>t_references := filter (\<lambda>r. pgr_parent_meadowlark_id r \<noteq> oldId) (t_references T) @
        map (\<lambda>i. \<lparr>pgr_parent_meadowlark_id = newId, pgr_referenced_meadowlark_id = i\<rparr>) refs\<rparr>"

lemma replace_simps [simp]:
  "t_documents (replace_aliases o1 u n ids T) = t_documents T"
  "t_documents (replace_references o1 n refs T) = t_documents T"
  "t_authorizations (replace_aliases o1 u n ids T) = t_authorizations T"
  "t_authorizations (replace_references o1 n refs T) = t_authorizations T"
  "t_references (replace_aliases o1 u n ids T) = t_references T"
  "t_aliases (replace_references o1 n refs T) = t_aliases T"
  by (simp_all add: replace_aliases_def replace_references_def)

lemma constraints_replace [simp]:
  "table_constraints (replace_aliases o1 u n ids T) = table_constraints T"
  "table_constraints (replace_references o1 n refs T) = table_constraints T"
  by (simp_all add: table_constraints_def)

context pg_store
begin

abbreviation txn where "txn \<equiv> in_txn visible snap"
abbreviation com where "com \<equiv> committed_is visible snap"

lemma begin_outcome:
  "outcome (nothing_pending visible snap T) (beginTransaction pg) (\<lambda>_. txn T T) (com T)"
  by (rule outcomeI) (auto simp: beginTransaction_def txn_defs voided_def dest!: begin_law split: sum.splits)

lemma rollback_outcome:
  "outcome (com T) (rollbackTransaction pg) (\<lambda>_. settled visible snap T) (settled visible snap T)"
  by (rule outcomeI) (auto simp: rollbackTransaction_def txn_defs dest!: rollback_law split: sum.splits)

lemma commit_outcome:
  "outcome (txn T0 T) (commitTransaction pg) (\<lambda>_. settled visible snap T) (com T0)"
  by (rule outcomeI) (auto simp: commitTransaction_def txn_defs dest!: commit_law split: sum.splits)

lemma uuid_outcome: "outcome (txn T0 T) (pg_generateDocumentUuid pg) (\<lambda>u s. txn T0 T s \<and> True) (com T0)"
  by (rule outcomeI) (auto simp: txn_defs unchanged_def dest!: uuid_law split: sum.splits)

lemma fail_outcome:
  "outcome (txn T0 T) (bnd (rollbackTransaction pg) (\<lambda>_. ret x)) (\<lambda>r s. settled visible snap T0 s \<and> r = x) (com T0)"
proof (rule outcome_seq)
  show "outcome (txn T0 T) (rollbackTransaction pg) (\<lambda>_. settled visible snap T0) (com T0)"
    by (rule outcome_conseq [OF rollback_outcome])
      (auto intro: in_txn_committed nothing_pending_committed settled_pending)
qed (simp add: outcome_ret)

text \<open>The \<open>catch\<close> of upsert, update and delete.\<close>

lemma catch_outcome:
  assumes "outcome P m Q (com T)"
  shows "outcome P (try_catch m (\<lambda>e. bnd (rollbackTransaction pg) (\<lambda>_. ret (h e))))
    (\<lambda>r s. Q r s \<or> settled visible snap T s \<and> (\<exists>e. r = h e)) (settled visible snap T)"
proof (rule outcomeI)
  fix s r s'
  assume p: "P s" and run: "try_catch m (\<lambda>e. bnd (rollbackTransaction pg) (\<lambda>_. ret (h e))) s = (r, s')"
  obtain q t where m: "m s = (q, t)" by (cases "m s")
  show "case r of Inl e \<Rightarrow> settled visible snap T s' | Inr x \<Rightarrow> Q x s' \<or> settled visible snap T s' \<and> (\<exists>e. x = h e)"
  proof (cases q)
    case (Inr x)
    then show ?thesis using outcomeD [OF assms p m] run m by (auto simp: act_simps)
  next
    case (Inl e)
    obtain v t' where rb: "rollbackTransaction pg t = (v, t')" by (cases "rollbackTransaction pg t")
    have "com T t" using outcomeD [OF assms p m] Inl by simp
    from outcomeD [OF rollback_outcome this rb] have "settled visible snap T t'" by (cases v) simp_all
    then show ?thesis using run m Inl rb by (cases v) (auto simp: act_simps)
  qed
qed

section \<open>The functions of SqlHelper\<close>

lemma first_row_None: "first_row rows = None \<longleftrightarrow> rows = []"
  by (simp add: first_row_def hasResults_def)

lemma first_row_Some: "first_row rows = Some d \<Longrightarrow> d \<in> set rows"
  by (auto simp: first_row_def hasResults_def split: if_splits)

lemma select_first:
  assumes "some_rows (filter P xs) None rows"
  shows "case first_row rows of None \<Rightarrow> \<forall>d \<in> set xs. \<not> P d | Some d \<Rightarrow> d \<in> set xs \<and> P d"
proof -
  have rows: "set rows = set (filter P xs)" by (rule some_rows_member [OF assms])
  show ?thesis
  proof (cases "first_row rows")
    case None
    then have "filter P xs = []" using rows by (simp add: first_row_None)
    then show ?thesis using None by (simp add: filter_empty_conv)
  next
    case (Some d)
    then show ?thesis using first_row_Some [OF Some] rows by simp
  qed
qed

lemma read_law_map:
  assumes "read_law visible snap m P" "\<And>T x. P T x \<Longrightarrow> Q T (f x)"
  shows "read_law visible snap (bnd m (\<lambda>x. ret (f x))) Q"
  unfolding read_law_def
proof (intro allI impI)
  fix s q s'
  assume run: "bnd m (\<lambda>x. ret (f x)) s = (q, s')"
  obtain q1 s1 where m: "m s = (q1, s1)" by (cases "m s")
  have "case q1 of Inl e \<Rightarrow> voided visible snap s s1 | Inr x \<Rightarrow> unchanged visible snap s s1 \<and> P (visible s) x"
    using assms(1) m unfolding read_law_def by blast
  then show "case q of Inl e \<Rightarrow> voided visible snap s s' | Inr x \<Rightarrow> unchanged visible snap s s' \<and> Q (visible s) x"
    using run m assms(2) by (cases q1) (auto simp: act_simps)
qed

lemma write_law_map:
  assumes "write_law visible snap m f" "\<And>T. g T = (fst (f T), h (snd (f T)))"
  shows "write_law visible snap (bnd m (\<lambda>x. ret (h x))) g"
  unfolding write_law_def
proof (intro allI impI)
  fix s q s'
  assume run: "bnd m (\<lambda>x. ret (h x)) s = (q, s')"
  obtain q1 s1 where m: "m s = (q1, s1)" by (cases "m s")
  have "case q1 of Inl e \<Rightarrow> voided visible snap s s1
         | Inr x \<Rightarrow> snap s1 = snap s \<and> f (visible s) = (visible s1, x) \<and> table_constraints (visible s1)"
    using assms(1) m unfolding write_law_def by blast
  then show "case q of Inl e \<Rightarrow> voided visible snap s s'
         | Inr x \<Rightarrow> snap s' = snap s \<and> g (visible s) = (visible s', x) \<and> table_constraints (visible s')"
    using run m assms(2) by (cases q1) (auto simp: act_simps)
qed

lemma find_by_id_read:
  "read_law visible snap (findDocumentByMeadowlarkId pg i)
     (\<lambda>T d. case d of None \<Rightarrow> \<forall>d \<in> set (t_documents T). pgd_meadowlark_id d \<noteq> i
            | Some d \<Rightarrow> d \<in> set (t_documents T) \<and> pgd_meadowlark_id d = i)"
  unfolding findDocumentByMeadowlarkId_def by (rule read_law_map [OF selectDocuments_law]) (rule select_first)

lemma find_by_uuid_read:
  "read_law visible snap (findDocumentByDocumentUuid pg u)
     (\<lambda>T d. case d of None \<Rightarrow> \<forall>d \<in> set (t_documents T). pgd_document_uuid d \<noteq> u
            | Some d \<Rightarrow> d \<in> set (t_documents T) \<and> pgd_document_uuid d = u)"
  unfolding findDocumentByDocumentUuid_def by (rule read_law_map [OF selectDocuments_law]) (rule select_first)

lemma ownership_by_uuid_read: "findOwnershipForDocumentByDocumentUuid pg = findDocumentByDocumentUuid pg"
  by (rule ext) (simp add: findOwnershipForDocumentByDocumentUuid_def findDocumentByDocumentUuid_def)

lemma ownership_by_id_read: "findOwnershipForDocumentByMeadowlarkId pg = findDocumentByMeadowlarkId pg"
  by (rule ext) (simp add: findOwnershipForDocumentByMeadowlarkId_def findDocumentByMeadowlarkId_def)

lemma alias_in_use_read:
  "read_law visible snap (findAliasMeadowlarkId pg i)
     (\<lambda>T ids. ids = [] \<longleftrightarrow> i \<notin> pga_alias_meadowlark_id ` set (t_aliases T))"
  unfolding findAliasMeadowlarkId_def
proof (rule read_law_map [OF selectAliases_law])
  fix T rows
  assume "some_rows (filter (\<lambda>a. pga_alias_meadowlark_id a = i) (t_aliases T)) None rows"
  then have "set rows = {a \<in> set (t_aliases T). pga_alias_meadowlark_id a = i}" by (simp add: some_rows_member)
  then show "(map pga_alias_meadowlark_id rows = []) = (i \<notin> pga_alias_meadowlark_id ` set (t_aliases T))"
    by (cases rows) auto
qed

lemma existence_read:
  "read_law visible snap (validateReferenceExistence pg ids)
     (\<lambda>T found. mset found = mset (filter (\<lambda>i. i \<in> set ids) (map pga_alias_meadowlark_id (t_aliases T))))"
  unfolding validateReferenceExistence_def
  by (rule read_law_map [OF selectAliases_law]) (simp add: some_rows_None filter_map comp_def)

lemma document_aliases_read:
  "read_law visible snap (findAliasMeadowlarkIdsForDocumentByDocumentUuid pg u)
     (\<lambda>T rows. set rows = {(pga_meadowlark_id a, pga_alias_meadowlark_id a) | a.
                            a \<in> set (t_aliases T) \<and> pga_document_uuid a = u})"
  unfolding findAliasMeadowlarkIdsForDocumentByDocumentUuid_def
proof (rule read_law_map [OF selectAliases_law])
  fix T rows
  assume "some_rows (filter (\<lambda>a. pga_document_uuid a = u) (t_aliases T)) None rows"
  then show "set (map (\<lambda>a. (pga_meadowlark_id a, pga_alias_meadowlark_id a)) rows) =
    {(pga_meadowlark_id a, pga_alias_meadowlark_id a) | a. a \<in> set (t_aliases T) \<and> pga_document_uuid a = u}"
    by (auto simp: some_rows_member)
qed

lemma referencing_read:
  "read_law visible snap (findReferencingMeadowlarkIds pg ids)
     (\<lambda>T parents. set parents = pgr_parent_meadowlark_id ` {r \<in> set (t_references T). pgr_referenced_meadowlark_id r \<in> set ids})"
  unfolding findReferencingMeadowlarkIds_def
  by (rule read_law_map [OF selectReferences_law]) (simp add: some_rows_member)

lemma referring_info_read:
  "read_law visible snap (findReferringDocumentInfoForErrorReporting pg ids)
     (\<lambda>T info. set info \<subseteq> pg_referringInfo ` {d \<in> set (t_documents T). pgd_meadowlark_id d \<in> set ids} \<and> length info \<le> 5 \<and>
               (info = [] \<longleftrightarrow> (\<forall>d \<in> set (t_documents T). pgd_meadowlark_id d \<notin> set ids)))"
  unfolding findReferringDocumentInfoForErrorReporting_def
proof (rule read_law_map [OF selectDocuments_law])
  fix T rows
  let ?m = "filter (\<lambda>d. pgd_meadowlark_id d \<in> set ids) (t_documents T)"
  assume rows: "some_rows ?m (Some 5) rows"
  then have "length rows \<le> 5" unfolding some_rows_def by auto
  moreover have "set rows \<subseteq> set ?m" by (rule some_rows_set [OF rows])
  moreover have "rows = [] \<longleftrightarrow> ?m = []"
  proof
    assume "rows = []"
    then show "?m = []" using rows some_rows_Nil [of ?m "Some 5"] by simp
  next
    assume "?m = []"
    then show "rows = []" using \<open>set rows \<subseteq> set ?m\<close> by simp
  qed
  ultimately show "set (map pg_referringInfo rows) \<subseteq> pg_referringInfo ` {d \<in> set (t_documents T). pgd_meadowlark_id d \<in> set ids} \<and>
     length (map pg_referringInfo rows) \<le> 5 \<and>
     (map pg_referringInfo rows = [] \<longleftrightarrow> (\<forall>d \<in> set (t_documents T). pgd_meadowlark_id d \<notin> set ids))"
    by (auto simp: filter_empty_conv)
qed

lemma insert_alias_write:
  "write_law visible snap (insertAlias pg u m i)
     (\<lambda>T. (T\<lparr>t_aliases := t_aliases T @ [\<lparr>pga_document_uuid = u, pga_meadowlark_id = m, pga_alias_meadowlark_id = i\<rparr>]\<rparr>, True))"
  unfolding insertAlias_def by (rule write_law_map [OF execute_law]) (simp add: sql_defs hasResults_def)

lemma insert_reference_write:
  "write_law visible snap (insertOutboundReferences pg m i)
     (\<lambda>T. (T\<lparr>t_references := t_references T @ [\<lparr>pgr_parent_meadowlark_id = m, pgr_referenced_meadowlark_id = i\<rparr>]\<rparr>, True))"
  unfolding insertOutboundReferences_def by (rule write_law_map [OF execute_law]) (simp add: sql_defs hasResults_def)

lemma delete_aliases_write:
  "write_law visible snap (deleteAliasesForDocumentByMeadowlarkId pg m)
     (\<lambda>T. (T\<lparr>t_aliases := filter (\<lambda>a. pga_meadowlark_id a \<noteq> m) (t_aliases T)\<rparr>,
           hasResults (length (filter (\<lambda>a. pga_meadowlark_id a = m) (t_aliases T)))))"
  unfolding deleteAliasesForDocumentByMeadowlarkId_def by (rule write_law_map [OF execute_law]) (simp add: sql_defs)

lemma delete_references_write:
  "write_law visible snap (deleteOutboundReferencesOfDocumentByMeadowlarkId pg m)
     (\<lambda>T. (T\<lparr>t_references := filter (\<lambda>r. pgr_parent_meadowlark_id r \<noteq> m) (t_references T)\<rparr>,
           hasResults (length (filter (\<lambda>r. pgr_parent_meadowlark_id r = m) (t_references T)))))"
  unfolding deleteOutboundReferencesOfDocumentByMeadowlarkId_def by (rule write_law_map [OF execute_law]) (simp add: sql_defs)

lemma insert_document_write:
  "write_law visible snap (insertDocument pg request u)
     (\<lambda>T. (T\<lparr>t_documents := t_documents T @ [inserted_row request u]\<rparr>, True))"
  unfolding insertDocument_def by (rule write_law_map [OF execute_law]) (simp add: sql_defs hasResults_def)

lemma update_document_write:
  "write_law visible snap (updateDocument pg request u)
     (\<lambda>T. (T\<lparr>t_documents := map (\<lambda>d. if pgd_document_uuid d = u then updated_row request d else d) (t_documents T)\<rparr>,
           hasResults (length (filter (\<lambda>d. pgd_document_uuid d = u) (t_documents T)))))"
  unfolding updateDocument_def by (rule write_law_map [OF execute_law]) (simp add: sql_defs)

text \<open>The count of the DELETE is a single row, so that the check never rolls back.\<close>

lemma delete_row_write:
  "write_law visible snap (deleteDocumentRowByDocumentUuid pg u)
     (\<lambda>T. (T\<lparr>t_documents := filter (\<lambda>d. pgd_document_uuid d \<noteq> u) (t_documents T)\<rparr>,
           if \<exists>d \<in> set (t_documents T). pgd_document_uuid d = u then DELETE_SUCCESS else DELETE_FAILURE_NOT_EXISTS))"
  unfolding write_law_def
proof (intro allI impI)
  fix s q s'
  assume run: "deleteDocumentRowByDocumentUuid pg u s = (q, s')"
  obtain q1 s1 where m: "pg_deleteReturningCount pg (\<lambda>d. pgd_document_uuid d = u) s = (q1, s1)"
    by (cases "pg_deleteReturningCount pg (\<lambda>d. pgd_document_uuid d = u) s")
  note law = deleteReturningCount_law [of "\<lambda>d. pgd_document_uuid d = u", unfolded write_law_def, rule_format, OF m]
  show "case q of Inl e \<Rightarrow> voided visible snap s s'
         | Inr x \<Rightarrow> snap s' = snap s \<and> ((visible s)\<lparr>t_documents := filter (\<lambda>d. pgd_document_uuid d \<noteq> u) (t_documents (visible s))\<rparr>,
             if \<exists>d \<in> set (t_documents (visible s)). pgd_document_uuid d = u then DELETE_SUCCESS else DELETE_FAILURE_NOT_EXISTS) =
             (visible s', x) \<and> table_constraints (visible s')"
  proof (cases q1)
    case (Inl e)
    then show ?thesis using run m law by (auto simp: deleteDocumentRowByDocumentUuid_def act_simps)
  next
    case (Inr counts)
    then have counts: "counts = [length (filter (\<lambda>d. pgd_document_uuid d = u) (t_documents (visible s)))]"
      using law by (simp add: sql_defs)
    then have "q = Inr (if filter (\<lambda>d. pgd_document_uuid d = u) (t_documents (visible s)) = []
        then DELETE_FAILURE_NOT_EXISTS else DELETE_SUCCESS)" "s' = s1"
      using run m Inr by (auto simp: deleteDocumentRowByDocumentUuid_def checkDeleteResult_def hasResults_def act_simps)
    then show ?thesis using law Inr by (auto simp: sql_defs filter_empty_conv)
  qed
qed

end

end
