(* ===== verification/PgOperations.thy ===== *)
theory PgOperations
  imports PgTransactions
begin

text \<open>
  What upsert, update and delete of the PostgreSQL backend do to the tables, under the laws of \<open>pg_store\<close>:
  \<open>pg_upsert_effect\<close>, \<open>pg_update_effect\<close> and \<open>pg_delete_effect\<close> give the tables that each answer leaves, and
  the lemmas \<open>..._outcome\<close> show that the operations have these effects.
\<close>

section \<open>Reference validation\<close>

definition alias_ids :: "tables \<Rightarrow> MeadowlarkId list" where
  "alias_ids T = map pga_alias_meadowlark_id (t_aliases T)"

text \<open>What the validation asks of ids: all are aliases, or as many rows have one of them as there are ids.\<close>

definition passes :: "tables \<Rightarrow> MeadowlarkId list \<Rightarrow> bool" where
  "passes T ids \<longleftrightarrow>
     set ids \<subseteq> set (alias_ids T) \<or> length (filter (\<lambda>i. i \<in> set ids) (alias_ids T)) = length ids"

text \<open>When no alias has two rows, the comparison of the numbers is not needed.\<close>

lemma passes_sound:
  assumes "distinct (alias_ids T)" "passes T ids"
  shows "set ids \<subseteq> set (alias_ids T)"
proof (cases "set ids \<subseteq> set (alias_ids T)")
  case False
  let ?f = "filter (\<lambda>i. i \<in> set ids) (alias_ids T)"
  have "length ?f = length ids" using assms(2) False by (simp add: passes_def)
  moreover have "length ?f = card (set ?f)" by (rule distinct_card [symmetric]) (simp add: assms(1))
  moreover have "card (set ?f) < card (set ids)"
    by (rule psubset_card_mono) (use False in auto)
  moreover have "card (set ids) \<le> length ids" by (rule card_length)
  ultimately show ?thesis by linarith
qed

definition passing_references :: "(nat \<Rightarrow> string \<Rightarrow> 8 word list) \<Rightarrow> tables \<Rightarrow> DocumentInfo \<Rightarrow> bool" where
  "passing_references shake256 T documentInfo \<longleftrightarrow>
     (\<exists>refs descs. res_map (getMeadowlarkIdForDocumentReference shake256) (di_documentReferences documentInfo) = Inr refs \<and>
        res_map (getMeadowlarkIdForDocumentReference shake256) (di_descriptorReferences documentInfo) = Inr descs \<and>
        passes T refs \<and> passes T descs)"

lemma passes_refl: "set ids \<subseteq> set (alias_ids T) \<Longrightarrow> passes T ids"
  by (simp add: passes_def)

lemma R_difference_Nil: "R_difference xs ys = [] \<longleftrightarrow> set xs \<subseteq> set ys"
  by (auto simp: R_difference_def filter_empty_conv)

lemma missing_Nil: "pg_findMissingReferences inDb ids references = Inr fs \<Longrightarrow> fs = [] \<longleftrightarrow> set ids \<subseteq> set inDb"
proof -
  assume "pg_findMissingReferences inDb ids references = Inr fs"
  then have "length fs = length (R_difference ids inDb)"
    unfolding pg_findMissingReferences_def Let_def by (auto dest: res_map_length)
  then have "fs = [] \<longleftrightarrow> R_difference ids inDb = []" by (metis length_0_conv)
  then show ?thesis by (simp add: R_difference_Nil)
qed

text \<open>The rows of the request in place of those of the id \<open>i\<close>, beside the documents of \<open>T\<close>.\<close>

definition related_rows ::
  "(nat \<Rightarrow> string \<Rightarrow> 8 word list) \<Rightarrow> 'b UpsertRequest_scheme \<Rightarrow> MeadowlarkId \<Rightarrow> DocumentUuid \<Rightarrow> tables \<Rightarrow> tables \<Rightarrow> bool" where
  "related_rows shake256 request i u T T' \<longleftrightarrow> table_constraints T' \<and>
     (\<exists>ids refs. aliasMeadowlarkIdsFrom shake256 (ur_meadowlarkId request) (di_superclassInfo (ur_documentInfo request)) = Inr ids \<and>
        referencedDocumentIdsFrom shake256 (ur_documentInfo request) = Inr refs \<and>
        T' = replace_references i (ur_meadowlarkId request) refs (replace_aliases i u (ur_meadowlarkId request) ids T))"

definition superclass_unused :: "(nat \<Rightarrow> string \<Rightarrow> 8 word list) \<Rightarrow> tables \<Rightarrow> DocumentInfo \<Rightarrow> bool" where
  "superclass_unused shake256 T documentInfo \<longleftrightarrow>
     (case di_superclassInfo documentInfo of None \<Rightarrow> True
      | Some si \<Rightarrow> \<exists>a. getMeadowlarkIdForSuperclassInfo shake256 si = Inr a \<and> a \<notin> set (alias_ids T))"

definition superclass_used :: "(nat \<Rightarrow> string \<Rightarrow> 8 word list) \<Rightarrow> tables \<Rightarrow> DocumentInfo \<Rightarrow> bool" where
  "superclass_used shake256 T documentInfo \<longleftrightarrow>
     (\<exists>si a. di_superclassInfo documentInfo = Some si \<and> getMeadowlarkIdForSuperclassInfo shake256 si = Inr a \<and>
        a \<in> set (alias_ids T))"

text \<open>At most five documents of the table are reported.\<close>

definition reported :: "tables \<Rightarrow> ReferringDocumentInfo list \<Rightarrow> bool" where
  "reported T info \<longleftrightarrow> length info \<le> 5 \<and> set info \<subseteq> pg_referringInfo ` set (t_documents T)"

definition validated_in :: "(nat \<Rightarrow> string \<Rightarrow> 8 word list) \<Rightarrow> tables \<Rightarrow> 'b UpsertRequest_scheme \<Rightarrow> bool" where
  "validated_in shake256 T request \<longleftrightarrow>
     (ur_validateDocumentReferencesExist request \<longrightarrow> passing_references shake256 T (ur_documentInfo request))"

definition with_inserted :: "'b UpsertRequest_scheme \<Rightarrow> DocumentUuid \<Rightarrow> tables \<Rightarrow> tables" where
  "with_inserted request u T = T\<lparr>t_documents := t_documents T @ [inserted_row request u]\<rparr>"

definition with_updated :: "'b UpsertRequest_scheme \<Rightarrow> DocumentUuid \<Rightarrow> tables \<Rightarrow> tables" where
  "with_updated request u T =
     T\<lparr>t_documents := map (\<lambda>d. if pgd_document_uuid d = u then updated_row request d else d) (t_documents T)\<rparr>"

definition pg_upsert_effect ::
  "(nat \<Rightarrow> string \<Rightarrow> 8 word list) \<Rightarrow> tables \<Rightarrow> UpsertRequest \<Rightarrow> UpsertResult \<Rightarrow> tables \<Rightarrow> bool" where
  "pg_upsert_effect shake256 T request r T' \<longleftrightarrow>
     (case r of
        INSERT_SUCCESS m u \<Rightarrow>
          (\<forall>d \<in> set (t_documents T). pgd_meadowlark_id d \<noteq> ur_meadowlarkId request) \<and>
          superclass_unused shake256 T (ur_documentInfo request) \<and> validated_in shake256 T request \<and>
          related_rows shake256 request (ur_meadowlarkId request) u (with_inserted request u T) T'
      | UpsertResult.UPDATE_SUCCESS m u \<Rightarrow>
          (\<exists>old \<in> set (t_documents T). pgd_meadowlark_id old = ur_meadowlarkId request \<and> pgd_document_uuid old = u \<and>
             pgd_last_modified_at old < di_requestTimestamp (ur_documentInfo request)) \<and>
          validated_in shake256 T request \<and>
          related_rows shake256 request (ur_meadowlarkId request) u (with_updated request u T) T'
      | UPSERT_FAILURE_WRITE_CONFLICT m \<Rightarrow> T' = T \<and>
          (\<exists>old \<in> set (t_documents T). pgd_meadowlark_id old = ur_meadowlarkId request \<and>
             di_requestTimestamp (ur_documentInfo request) \<le> pgd_last_modified_at old)
      | INSERT_FAILURE_CONFLICT m info \<Rightarrow> T' = T \<and> reported T info \<and>
          (\<forall>d \<in> set (t_documents T). pgd_meadowlark_id d \<noteq> ur_meadowlarkId request) \<and>
          superclass_used shake256 T (ur_documentInfo request)
      | INSERT_FAILURE_REFERENCE m info \<Rightarrow> T' = T \<and> reported T info \<and>
          (\<forall>d \<in> set (t_documents T). pgd_meadowlark_id d \<noteq> ur_meadowlarkId request) \<and>
          \<not> validated_in shake256 T request
      | UpsertResult.UPDATE_FAILURE_REFERENCE m info \<Rightarrow> T' = T \<and> reported T info \<and>
          (\<exists>old \<in> set (t_documents T). pgd_meadowlark_id old = ur_meadowlarkId request) \<and>
          \<not> validated_in shake256 T request
      | UpsertResult.UNKNOWN_FAILURE m \<Rightarrow> T' = T)"

definition pg_update_effect ::
  "(nat \<Rightarrow> string \<Rightarrow> 8 word list) \<Rightarrow> tables \<Rightarrow> UpdateRequest \<Rightarrow> UpdateResult \<Rightarrow> tables \<Rightarrow> bool" where
  "pg_update_effect shake256 T request r T' \<longleftrightarrow>
     (case r of
        UpdateResult.UPDATE_SUCCESS m \<Rightarrow>
          \<exists>old \<in> set (t_documents T). pgd_document_uuid old = upd_documentUuid request \<and>
             pgd_last_modified_at old < di_requestTimestamp (ur_documentInfo request) \<and>
             (ri_allowIdentityUpdates (ur_resourceInfo request) \<or> pgd_meadowlark_id old = ur_meadowlarkId request) \<and>
             validated_in shake256 T request \<and>
             related_rows shake256 request (pgd_meadowlark_id old) (upd_documentUuid request)
               (with_updated request (upd_documentUuid request) T) T'
      | UPDATE_FAILURE_NOT_EXISTS m \<Rightarrow> T' = T \<and>
          (\<forall>d \<in> set (t_documents T). pgd_document_uuid d \<noteq> upd_documentUuid request)
      | UPDATE_FAILURE_WRITE_CONFLICT m \<Rightarrow> T' = T \<and>
          (\<exists>old \<in> set (t_documents T). pgd_document_uuid old = upd_documentUuid request \<and>
             di_requestTimestamp (ur_documentInfo request) \<le> pgd_last_modified_at old)
      | UPDATE_FAILURE_IMMUTABLE_IDENTITY m \<Rightarrow> T' = T \<and> \<not> ri_allowIdentityUpdates (ur_resourceInfo request) \<and>
          (\<exists>old \<in> set (t_documents T). pgd_document_uuid old = upd_documentUuid request \<and>
             pgd_meadowlark_id old \<noteq> ur_meadowlarkId request)
      | UpdateResult.UPDATE_FAILURE_REFERENCE m info \<Rightarrow> T' = T \<and> reported T info \<and>
          (\<exists>old \<in> set (t_documents T). pgd_document_uuid old = upd_documentUuid request) \<and>
          \<not> validated_in shake256 T request
      | UpdateResult.UNKNOWN_FAILURE m \<Rightarrow> T' = T
      | UPDATE_FAILURE_CONFLICT m info \<Rightarrow> False
      | UPDATE_CASCADE_REQUIRED \<Rightarrow> False)"

text \<open>The id that the delete works with: that of an alias row of the uuid, or the empty string.\<close>

definition alias_owner :: "tables \<Rightarrow> DocumentUuid \<Rightarrow> MeadowlarkId \<Rightarrow> bool" where
  "alias_owner T u i \<longleftrightarrow>
     (\<exists>a \<in> set (t_aliases T). pga_document_uuid a = u \<and> pga_meadowlark_id a = i) \<or>
     (\<forall>a \<in> set (t_aliases T). pga_document_uuid a \<noteq> u) \<and> i = ''''"

definition unreferenced :: "tables \<Rightarrow> DocumentUuid \<Rightarrow> MeadowlarkId \<Rightarrow> bool" where
  "unreferenced T u i \<longleftrightarrow>
     (\<forall>r \<in> set (t_references T). \<forall>a \<in> set (t_aliases T). pga_document_uuid a = u \<longrightarrow>
        pgr_referenced_meadowlark_id r = pga_alias_meadowlark_id a \<longrightarrow> pgr_parent_meadowlark_id r = i)"

definition without_document :: "DocumentUuid \<Rightarrow> MeadowlarkId \<Rightarrow> tables \<Rightarrow> tables" where
  "without_document u i T =
     T\<lparr>t_documents := filter (\<lambda>d. pgd_document_uuid d \<noteq> u) (t_documents T),
       t_references := filter (\<lambda>r. pgr_parent_meadowlark_id r \<noteq> i) (t_references T),
       t_aliases := filter (\<lambda>a. pga_meadowlark_id a \<noteq> i) (t_aliases T)\<rparr>"

text \<open>Why a delete of the document with uuid \<open>u\<close> and id \<open>i\<close> is refused.\<close>

definition blocked_by :: "tables \<Rightarrow> DocumentUuid \<Rightarrow> MeadowlarkId \<Rightarrow> DeleteResult \<Rightarrow> bool" where
  "blocked_by T u i r \<longleftrightarrow>
     (case r of
        DELETE_FAILURE_NOT_EXISTS \<Rightarrow> i = ''''
      | DELETE_FAILURE_REFERENCE info \<Rightarrow> info \<noteq> [] \<and> reported T info \<and> \<not> unreferenced T u i
      | DeleteResult.UNKNOWN_FAILURE m \<Rightarrow> m \<noteq> '''' \<and> \<not> unreferenced T u i
      | _ \<Rightarrow> False)"

text \<open>A delete that finds no document still removes the rows of the id from the other tables.\<close>

definition pg_delete_refusal :: "tables \<Rightarrow> DeleteRequest \<Rightarrow> DeleteResult \<Rightarrow> bool" where
  "pg_delete_refusal T request r \<longleftrightarrow>
     (case r of
        DELETE_FAILURE_NOT_EXISTS \<Rightarrow> alias_owner T (del_documentUuid request) ''''
      | DELETE_FAILURE_REFERENCE info \<Rightarrow> info \<noteq> [] \<and> reported T info \<and>
          (\<exists>i. alias_owner T (del_documentUuid request) i \<and> \<not> unreferenced T (del_documentUuid request) i)
      | DeleteResult.UNKNOWN_FAILURE m \<Rightarrow> m = '''' \<or>
          (\<exists>i. alias_owner T (del_documentUuid request) i \<and> \<not> unreferenced T (del_documentUuid request) i)
      | _ \<Rightarrow> False)"

definition pg_delete_effect :: "tables \<Rightarrow> DeleteRequest \<Rightarrow> DeleteResult \<Rightarrow> tables \<Rightarrow> bool" where
  "pg_delete_effect T request r T' \<longleftrightarrow>
     T' = T \<and> pg_delete_refusal T request r \<or>
     (\<exists>i. alias_owner T (del_documentUuid request) i \<and> T' = without_document (del_documentUuid request) i T \<and>
        (del_validateNoReferencesToDocument request \<longrightarrow> i \<noteq> '''' \<and> unreferenced T (del_documentUuid request) i) \<and>
        table_constraints T' \<and>
        r = (if \<exists>d \<in> set (t_documents T). pgd_document_uuid d = del_documentUuid request
             then DELETE_SUCCESS else DELETE_FAILURE_NOT_EXISTS))"

context pg_store
begin

lemma found_outcome:
  "outcome (txn T0 T) (pg_findReferencedMeadowlarkIdsByMeadowlarkId pg ids)
    (\<lambda>found s. txn T0 T s \<and> mset found = mset (filter (\<lambda>i. i \<in> set ids) (alias_ids T))) (com T0)"
  using read_outcome [OF existence_read, of T0 T ids]
  by (simp add: pg_findReferencedMeadowlarkIdsByMeadowlarkId_def outcome_ret alias_ids_def)

lemma missingOf_outcome:
  "outcome (txn T0 T) (pg_missingOf pg ids references) (\<lambda>fs s. txn T0 T s \<and> (fs = [] \<longleftrightarrow> passes T ids)) (com T0)"
  unfolding pg_missingOf_def
proof (rule outcome_step [OF found_outcome])
  fix found
  assume found: "mset found = mset (filter (\<lambda>i. i \<in> set ids) (alias_ids T))"
  then have len: "length found = length (filter (\<lambda>i. i \<in> set ids) (alias_ids T))"
    using mset_eq_length by blast
  have sub: "set ids \<subseteq> set found \<longleftrightarrow> set ids \<subseteq> set (alias_ids T)"
    using mset_eq_setD [OF found] by auto
  let ?r = "if length ids \<noteq> length found then pg_findMissingReferences found ids references else Inr []"
  show "outcome (txn T0 T) (lift ?r) (\<lambda>fs s. txn T0 T s \<and> (fs = [] \<longleftrightarrow> passes T ids)) (com T0)"
  proof (rule outcome_post [OF outcome_lift])
    fix fs s
    assume "txn T0 T s \<and> ?r = Inr fs"
    then show "txn T0 T s \<and> (fs = [] \<longleftrightarrow> passes T ids)"
      using missing_Nil [of found ids references fs] len sub by (auto simp: passes_def split: if_splits)
  qed (rule in_txn_committed)
qed


lemma validate_outcome:
  assumes "res_map (getMeadowlarkIdForDocumentReference (pg_shake256 pg)) (di_documentReferences di) = Inr refs"
  shows "outcome (txn T0 T) (pg_validateReferences pg (di_documentReferences di) (di_descriptorReferences di) refs)
    (\<lambda>fs s. txn T0 T s \<and> (fs = [] \<longleftrightarrow> passing_references (pg_shake256 pg) T di)) (com T0)"
  unfolding pg_validateReferences_def
proof (rule outcome_step [OF missingOf_outcome], rule outcome_step [OF outcome_lift])
  fix missing :: "MissingIdentity list" and descs
  assume missing: "(missing = []) = passes T refs"
    and descs: "res_map (getMeadowlarkIdForDocumentReference (pg_shake256 pg)) (di_descriptorReferences di) = Inr descs"
  show "outcome (txn T0 T) (bnd (pg_missingOf pg descs (di_descriptorReferences di)) (\<lambda>more. ret (missing @ more)))
    (\<lambda>fs s. txn T0 T s \<and> (fs = [] \<longleftrightarrow> passing_references (pg_shake256 pg) T di)) (com T0)"
    by (rule outcome_ret_after [OF missingOf_outcome])
      (use missing descs assms in \<open>auto simp: passing_references_def\<close>)
qed (rule in_txn_committed)

lemma invalid_outcome:
  assumes "res_map (getMeadowlarkIdForDocumentReference (pg_shake256 pg)) (di_documentReferences (ur_documentInfo request)) = Inr refs"
  shows "outcome (txn T0 T) (pg_invalid_references pg request refs i)
    (\<lambda>x s. txn T0 T s \<and> (x = None \<longleftrightarrow> (ur_validateDocumentReferencesExist request \<longrightarrow>
       passing_references (pg_shake256 pg) T (ur_documentInfo request))) \<and>
       (\<forall>fs info. x = Some (fs, info) \<longrightarrow> reported T info)) (com T0)"
proof (cases "ur_validateDocumentReferencesExist request")
  case True
  show ?thesis unfolding pg_invalid_references_def if_P [OF True]
  proof (rule outcome_step [OF validate_outcome [OF assms]])
    fix fs :: "MissingIdentity list"
    assume fs: "(fs = []) = passing_references (pg_shake256 pg) T (ur_documentInfo request)"
    show "outcome (txn T0 T)
      (if fs = [] then ret None
       else bnd (findReferringDocumentInfoForErrorReporting pg [i]) (\<lambda>info. ret (Some (fs, info))))
      (\<lambda>x s. txn T0 T s \<and> (x = None \<longleftrightarrow> (ur_validateDocumentReferencesExist request \<longrightarrow>
         passing_references (pg_shake256 pg) T (ur_documentInfo request))) \<and>
         (\<forall>fs info. x = Some (fs, info) \<longrightarrow> reported T info)) (com T0)"
    proof (cases "fs = []")
      case True
      then show ?thesis using fs by (simp add: outcome_ret)
    next
      case False
      then show ?thesis using fs True
        by (simp, intro outcome_ret_after [OF read_outcome [OF referring_info_read]]) (auto simp: reported_def)
    qed
  qed
next
  case False
  then show ?thesis by (simp add: pg_invalid_references_def outcome_ret)
qed

section \<open>Upsert\<close>

lemma write_step:
  "write_law visible snap m f \<Longrightarrow>
   (\<And>x. x = snd (f T) \<Longrightarrow> table_constraints (fst (f T)) \<Longrightarrow> outcome (txn T0 (fst (f T))) (K x) Q (com T0)) \<Longrightarrow>
   outcome (txn T0 T) (bnd m K) Q (com T0)"
  by (rule outcome_step [OF write_outcome]) auto

lemma aliases_outcome:
  "outcome (txn T0 T) (writeAliases pg u i j si)
    (\<lambda>_ s. \<exists>ids. aliasMeadowlarkIdsFrom (pg_shake256 pg) j si = Inr ids \<and> txn T0 (replace_aliases i u j ids T) s) (com T0)"
  unfolding writeAliases_def
proof (rule write_step [OF delete_aliases_write], rule write_step [OF insert_alias_write])
  fix x y
  let ?T = "T\<lparr>t_aliases := filter (\<lambda>a. pga_meadowlark_id a \<noteq> i) (t_aliases T) @
     [\<lparr>pga_document_uuid = u, pga_meadowlark_id = j, pga_alias_meadowlark_id = j\<rparr>]\<rparr>"
  let ?Q = "\<lambda>_ s. \<exists>ids. aliasMeadowlarkIdsFrom (pg_shake256 pg) j si = Inr ids \<and> txn T0 (replace_aliases i u j ids T) s"
  have "outcome (txn T0 ?T) (case si of None \<Rightarrow> ret () | Some si \<Rightarrow>
      bnd (lift (getMeadowlarkIdForSuperclassInfo (pg_shake256 pg) si)) (\<lambda>a.
      bnd (insertAlias pg u j a) (\<lambda>_. ret ()))) ?Q (com T0)"
  proof (cases si)
    case None
    then show ?thesis by (simp add: outcome_ret aliasMeadowlarkIdsFrom_def replace_aliases_def)
  next
    case (Some sup)
    show ?thesis unfolding Some option.case
    proof (rule outcome_step [OF outcome_lift], erule in_txn_committed, rule write_step [OF insert_alias_write])
      fix a z
      assume "getMeadowlarkIdForSuperclassInfo (pg_shake256 pg) sup = Inr a"
      then show "outcome (txn T0 (fst (?T\<lparr>t_aliases := t_aliases ?T @ [\<lparr>pga_document_uuid = u, pga_meadowlark_id = j,
          pga_alias_meadowlark_id = a\<rparr>]\<rparr>, True))) (ret ())
        (\<lambda>_ s. \<exists>ids. aliasMeadowlarkIdsFrom (pg_shake256 pg) j (Some sup) = Inr ids \<and> txn T0 (replace_aliases i u j ids T) s) (com T0)"
        by (simp add: outcome_ret aliasMeadowlarkIdsFrom_def replace_aliases_def)
    qed
  qed
  then show "outcome (txn T0 (fst (fst (T\<lparr>t_aliases := filter (\<lambda>a. pga_meadowlark_id a \<noteq> i) (t_aliases T)\<rparr>,
        hasResults (length (filter (\<lambda>a. pga_meadowlark_id a = i) (t_aliases T))))
      \<lparr>t_aliases := t_aliases (fst (T\<lparr>t_aliases := filter (\<lambda>a. pga_meadowlark_id a \<noteq> i) (t_aliases T)\<rparr>,
        hasResults (length (filter (\<lambda>a. pga_meadowlark_id a = i) (t_aliases T))))) @
        [\<lparr>pga_document_uuid = u, pga_meadowlark_id = j, pga_alias_meadowlark_id = j\<rparr>]\<rparr>, True)))
    (case si of None \<Rightarrow> ret () | Some si \<Rightarrow>
      bnd (lift (getMeadowlarkIdForSuperclassInfo (pg_shake256 pg) si)) (\<lambda>a.
      bnd (insertAlias pg u j a) (\<lambda>_. ret ()))) ?Q (com T0)"
    by simp
qed

lemma insert_references_outcome:
  "outcome (txn T0 T) (run_all (\<lambda>r. bnd (insertOutboundReferences pg j r) (\<lambda>_. ret ())) refs)
    (\<lambda>_. txn T0 (T\<lparr>t_references := t_references T @
       map (\<lambda>i. \<lparr>pgr_parent_meadowlark_id = j, pgr_referenced_meadowlark_id = i\<rparr>) refs\<rparr>)) (com T0)"
proof (induction refs arbitrary: T)
  case Nil
  then show ?case by (simp add: outcome_ret)
next
  case (Cons r refs)
  let ?T = "T\<lparr>t_references := t_references T @ [\<lparr>pgr_parent_meadowlark_id = j, pgr_referenced_meadowlark_id = r\<rparr>]\<rparr>"
  have "outcome (txn T0 T) (bnd (insertOutboundReferences pg j r) (\<lambda>_. ret ())) (\<lambda>_. txn T0 ?T) (com T0)"
    by (rule write_step [OF insert_reference_write]) (simp add: outcome_ret)
  then show ?case unfolding run_all.simps
    by (rule outcome_seq) (rule outcome_post [OF Cons.IH], simp)
qed

lemma references_outcome:
  "outcome (txn T0 T) (writeOutboundReferences pg i j outs descriptors)
    (\<lambda>_ s. \<exists>descs. res_map (getMeadowlarkIdForDocumentReference (pg_shake256 pg)) descriptors = Inr descs \<and>
       txn T0 (replace_references i j (outs @ descs) T) s) (com T0)"
  unfolding writeOutboundReferences_def
proof (rule write_step [OF delete_references_write], rule outcome_step [OF outcome_lift], erule in_txn_committed)
  fix x descs
  assume "res_map (getMeadowlarkIdForDocumentReference (pg_shake256 pg)) descriptors = Inr descs"
  then show "outcome (txn T0 (fst (T\<lparr>t_references := filter (\<lambda>r. pgr_parent_meadowlark_id r \<noteq> i) (t_references T)\<rparr>,
        hasResults (length (filter (\<lambda>r. pgr_parent_meadowlark_id r = i) (t_references T))))))
    (run_all (\<lambda>r. bnd (insertOutboundReferences pg j r) (\<lambda>_. ret ())) (outs @ descs))
    (\<lambda>_ s. \<exists>descs. res_map (getMeadowlarkIdForDocumentReference (pg_shake256 pg)) descriptors = Inr descs \<and>
       txn T0 (replace_references i j (outs @ descs) T) s) (com T0)"
    by (intro outcome_post [OF insert_references_outcome]) (simp add: replace_references_def)
qed

text \<open>What upsert and update have in common after the document is written.\<close>

lemma related_outcome:
  assumes "table_constraints T"
    and "res_map (getMeadowlarkIdForDocumentReference (pg_shake256 pg)) (di_documentReferences (ur_documentInfo request)) = Inr refs"
  shows "outcome (txn T0 T)
    (bnd (writeAliases pg u i (ur_meadowlarkId request) (di_superclassInfo (ur_documentInfo request))) (\<lambda>_.
     bnd (writeOutboundReferences pg i (ur_meadowlarkId request) refs (di_descriptorReferences (ur_documentInfo request))) (\<lambda>_.
     bnd (commitTransaction pg) (\<lambda>_. ret x))))
    (\<lambda>r s. r = x \<and> (\<exists>T'. related_rows (pg_shake256 pg) request i u T T' \<and> settled visible snap T' s)) (com T0)"
proof (rule outcome_seq [OF aliases_outcome], rule outcome_exists, rule outcome_conseq)
  fix ids
  let ?K = "bnd (writeOutboundReferences pg i (ur_meadowlarkId request) refs (di_descriptorReferences (ur_documentInfo request))) (\<lambda>_.
     bnd (commitTransaction pg) (\<lambda>_. ret x))"
  let ?T = "replace_aliases i u (ur_meadowlarkId request) ids T"
  let ?ids = "aliasMeadowlarkIdsFrom (pg_shake256 pg) (ur_meadowlarkId request) (di_superclassInfo (ur_documentInfo request))"
  have "outcome (txn T0 ?T) ?K (\<lambda>r s. r = x \<and> (\<exists>descs. res_map (getMeadowlarkIdForDocumentReference (pg_shake256 pg))
       (di_descriptorReferences (ur_documentInfo request)) = Inr descs \<and>
       settled visible snap (replace_references i (ur_meadowlarkId request) (refs @ descs) ?T) s)) (com T0)"
  proof (rule outcome_seq [OF references_outcome], rule outcome_exists, rule outcome_conseq)
    fix descs
    let ?D = "res_map (getMeadowlarkIdForDocumentReference (pg_shake256 pg)) (di_descriptorReferences (ur_documentInfo request)) = Inr descs"
    show "outcome (\<lambda>s. txn T0 (replace_references i (ur_meadowlarkId request) (refs @ descs) ?T) s \<and> ?D)
      (bnd (commitTransaction pg) (\<lambda>_. ret x))
      (\<lambda>r s. r = x \<and> ?D \<and> settled visible snap (replace_references i (ur_meadowlarkId request) (refs @ descs) ?T) s) (com T0)"
      by (rule outcome_fact, rule outcome_seq [OF commit_outcome]) (simp add: outcome_ret)
  qed auto
  then show "outcome (\<lambda>s. txn T0 ?T s \<and> ?ids = Inr ids) ?K
    (\<lambda>r s. r = x \<and> ?ids = Inr ids \<and> (\<exists>descs. res_map (getMeadowlarkIdForDocumentReference (pg_shake256 pg))
       (di_descriptorReferences (ur_documentInfo request)) = Inr descs \<and>
       settled visible snap (replace_references i (ur_meadowlarkId request) (refs @ descs) ?T) s)) (com T0)"
    by (intro outcome_fact) (auto elim: outcome_post)
next
  fix ids r s
  assume "r = x \<and> aliasMeadowlarkIdsFrom (pg_shake256 pg) (ur_meadowlarkId request) (di_superclassInfo (ur_documentInfo request)) = Inr ids \<and>
    (\<exists>descs. res_map (getMeadowlarkIdForDocumentReference (pg_shake256 pg))
       (di_descriptorReferences (ur_documentInfo request)) = Inr descs \<and>
       settled visible snap (replace_references i (ur_meadowlarkId request) (refs @ descs)
         (replace_aliases i u (ur_meadowlarkId request) ids T)) s)"
  then show "r = x \<and> (\<exists>T'. related_rows (pg_shake256 pg) request i u T T' \<and> settled visible snap T' s)"
    using assms unfolding related_rows_def referencedDocumentIdsFrom_def by auto
qed auto

lemma conflict_outcome:
  "outcome (txn T0 T) (pg_subclass_conflict pg request si)
    (\<lambda>x s. txn T0 T s \<and> (case x of
       None \<Rightarrow> \<exists>a. getMeadowlarkIdForSuperclassInfo (pg_shake256 pg) si = Inr a \<and> a \<notin> set (alias_ids T)
     | Some r \<Rightarrow> \<exists>m info. r = INSERT_FAILURE_CONFLICT m info \<and> reported T info \<and>
         (\<exists>a. getMeadowlarkIdForSuperclassInfo (pg_shake256 pg) si = Inr a \<and> a \<in> set (alias_ids T)))) (com T0)"
  unfolding pg_subclass_conflict_def
proof (rule outcome_step [OF outcome_lift], erule in_txn_committed, rule outcome_step [OF read_outcome [OF alias_in_use_read]])
  fix a inUse
  assume a: "getMeadowlarkIdForSuperclassInfo (pg_shake256 pg) si = Inr a"
    and inUse: "(inUse = []) = (a \<notin> pga_alias_meadowlark_id ` set (t_aliases T))"
  let ?m = "Some (JStr (''Insert failed: the identity is in use by '' @ quoted (bri_resourceName (ur_resourceInfo request)) @
                '' which is also a(n) '' @ quoted (si_resourceName si)))"
  let ?Q = "\<lambda>x s. txn T0 T s \<and> (case x of
       None \<Rightarrow> \<exists>a. getMeadowlarkIdForSuperclassInfo (pg_shake256 pg) si = Inr a \<and> a \<notin> set (alias_ids T)
     | Some r \<Rightarrow> \<exists>m info. r = INSERT_FAILURE_CONFLICT m info \<and> reported T info \<and>
         (\<exists>a. getMeadowlarkIdForSuperclassInfo (pg_shake256 pg) si = Inr a \<and> a \<in> set (alias_ids T)))"
  show "outcome (txn T0 T) (if inUse = [] then ret None
      else bnd (findReferringDocumentInfoForErrorReporting pg [a]) (\<lambda>info. ret (Some (INSERT_FAILURE_CONFLICT ?m info)))) ?Q (com T0)"
  proof (cases "inUse = []")
    case True
    then show ?thesis using a inUse by (simp add: outcome_ret alias_ids_def)
  next
    case False
    then show ?thesis using a inUse
      by (simp, intro outcome_ret_after [OF read_outcome [OF referring_info_read]]) (auto simp: reported_def alias_ids_def)
  qed
qed

lemma write_upsert_outcome:
  assumes refs: "res_map (getMeadowlarkIdForDocumentReference (pg_shake256 pg)) (di_documentReferences (ur_documentInfo request)) = Inr refs"
  shows "outcome (txn T T) (pg_write_upsert pg request isInsert u refs)
    (\<lambda>r s. r = (if isInsert then INSERT_SUCCESS None u else UpsertResult.UPDATE_SUCCESS None u) \<and>
       (\<exists>T'. related_rows (pg_shake256 pg) request (ur_meadowlarkId request) u
          (if isInsert then with_inserted request u T else with_updated request u T) T' \<and> settled visible snap T' s)) (com T)"
proof (cases isInsert)
  case True
  show ?thesis unfolding pg_write_upsert_def if_P [OF True]
    by (rule write_step [OF insert_document_write])
      (use related_outcome [OF _ refs, of "with_inserted request u T"] in \<open>simp add: with_inserted_def\<close>)
next
  case False
  show ?thesis unfolding pg_write_upsert_def if_not_P [OF False]
    by (rule write_step [OF update_document_write])
      (use related_outcome [OF _ refs, of "with_updated request u T"] in \<open>simp add: with_updated_def\<close>)
qed

lemma upsert_in_transaction_outcome:
  assumes refs: "res_map (getMeadowlarkIdForDocumentReference (pg_shake256 pg)) (di_documentReferences (ur_documentInfo request)) = Inr refs"
  shows "outcome (nothing_pending visible snap T) (pg_upsert_in_transaction pg request refs)
    (\<lambda>r s. \<exists>T'. pg_upsert_effect (pg_shake256 pg) T request r T' \<and>
       (if r = UPSERT_FAILURE_WRITE_CONFLICT None then txn T' T' s else settled visible snap T' s) \<and>
       (\<forall>m. r \<noteq> UpsertResult.UNKNOWN_FAILURE m)) (com T)"
  unfolding pg_upsert_in_transaction_def
proof (rule outcome_seq [OF begin_outcome], rule outcome_step [OF read_outcome [OF find_by_id_read]])
  fix old :: "pg_document option"
  let ?ts = "di_requestTimestamp (ur_documentInfo request)"
  let ?stale = "case old of None \<Rightarrow> False | Some d \<Rightarrow> ?ts \<le> pgd_last_modified_at d"
  let ?Q = "\<lambda>r s. \<exists>T'. pg_upsert_effect (pg_shake256 pg) T request r T' \<and>
       (if r = UPSERT_FAILURE_WRITE_CONFLICT None then txn T' T' s else settled visible snap T' s) \<and>
       (\<forall>m. r \<noteq> UpsertResult.UNKNOWN_FAILURE m)"
  let ?conflict = "case di_superclassInfo (ur_documentInfo request) of None \<Rightarrow> ret None
    | Some si \<Rightarrow> if old = None then pg_subclass_conflict pg request si else ret None"
  let ?K = "\<lambda>u. if ?stale then ret (UPSERT_FAILURE_WRITE_CONFLICT None)
     else bnd ?conflict (\<lambda>conflict. case conflict of
         Some failure \<Rightarrow> bnd (rollbackTransaction pg) (\<lambda>_. ret failure)
       | None \<Rightarrow> bnd (pg_invalid_references pg request refs (ur_meadowlarkId request)) (\<lambda>invalid. case invalid of
             Some (failures, info) \<Rightarrow> bnd (rollbackTransaction pg) (\<lambda>_.
               ret (if old = None then INSERT_FAILURE_REFERENCE (pg_reference_failure failures) info
                    else UpsertResult.UPDATE_FAILURE_REFERENCE (pg_reference_failure failures) info))
           | None \<Rightarrow> pg_write_upsert pg request (old = None) u refs))"
  assume old: "case old of None \<Rightarrow> \<forall>d \<in> set (t_documents T). pgd_meadowlark_id d \<noteq> ur_meadowlarkId request
            | Some d \<Rightarrow> d \<in> set (t_documents T) \<and> pgd_meadowlark_id d = ur_meadowlarkId request"
  have fail: "outcome (txn T T) (bnd (rollbackTransaction pg) (\<lambda>_. ret r)) ?Q (com T)"
    if "pg_upsert_effect (pg_shake256 pg) T request r T" "r \<noteq> UPSERT_FAILURE_WRITE_CONFLICT None"
      "\<And>m. r \<noteq> UpsertResult.UNKNOWN_FAILURE m" for r
    by (rule outcome_post [OF fail_outcome]) (use that in auto)
  have K: "outcome (txn T T) (?K u) ?Q (com T)" if u: "\<And>d. old = Some d \<Longrightarrow> u = pgd_document_uuid d" for u
  proof (cases ?stale)
    case True
    then show ?thesis using old by (cases old) (auto simp: pg_upsert_effect_def intro!: outcome_ret)
  next
    case fresh: False
    have conflict: "outcome (txn T T) ?conflict (\<lambda>x s. txn T T s \<and> (case x of
        None \<Rightarrow> old = None \<longrightarrow> superclass_unused (pg_shake256 pg) T (ur_documentInfo request)
      | Some r \<Rightarrow> \<exists>m info. r = INSERT_FAILURE_CONFLICT m info \<and> reported T info \<and> old = None \<and>
          superclass_used (pg_shake256 pg) T (ur_documentInfo request))) (com T)"
    proof (cases "di_superclassInfo (ur_documentInfo request)")
      case None
      then show ?thesis by (simp add: outcome_ret superclass_unused_def)
    next
      case (Some si)
      show ?thesis
      proof (cases "old = None")
        case True
        then show ?thesis using Some
          by (simp, intro outcome_post [OF conflict_outcome]) (auto simp: superclass_unused_def superclass_used_def split: option.splits)
      next
        case False
        then show ?thesis unfolding Some option.case if_not_P [OF False] by (intro outcome_ret) (use False in \<open>simp del: not_None_eq\<close>)
      qed
    qed
    show ?thesis unfolding if_not_P [OF fresh]
    proof (rule outcome_step [OF conflict])
      fix x
      assume x: "case x of None \<Rightarrow> old = None \<longrightarrow> superclass_unused (pg_shake256 pg) T (ur_documentInfo request)
        | Some r \<Rightarrow> \<exists>m info. r = INSERT_FAILURE_CONFLICT m info \<and> reported T info \<and> old = None \<and>
            superclass_used (pg_shake256 pg) T (ur_documentInfo request)"
      show "outcome (txn T T) (case x of
         Some failure \<Rightarrow> bnd (rollbackTransaction pg) (\<lambda>_. ret failure)
       | None \<Rightarrow> bnd (pg_invalid_references pg request refs (ur_meadowlarkId request)) (\<lambda>invalid. case invalid of
             Some (failures, info) \<Rightarrow> bnd (rollbackTransaction pg) (\<lambda>_.
               ret (if old = None then INSERT_FAILURE_REFERENCE (pg_reference_failure failures) info
                    else UpsertResult.UPDATE_FAILURE_REFERENCE (pg_reference_failure failures) info))
           | None \<Rightarrow> pg_write_upsert pg request (old = None) u refs)) ?Q (com T)"
      proof (cases x)
        case (Some r)
        then obtain m info where r: "r = INSERT_FAILURE_CONFLICT m info" "reported T info" "old = None"
          "superclass_used (pg_shake256 pg) T (ur_documentInfo request)" using x by auto
        then show ?thesis unfolding Some option.case by (intro fail) (use old in \<open>simp_all add: pg_upsert_effect_def\<close>)
      next
        case None
        show ?thesis unfolding None option.case
        proof (rule outcome_step [OF invalid_outcome [OF refs]])
          fix invalid :: "(MissingIdentity list \<times> ReferringDocumentInfo list) option"
          assume invalid: "(invalid = None) = (ur_validateDocumentReferencesExist request \<longrightarrow>
             passing_references (pg_shake256 pg) T (ur_documentInfo request)) \<and>
             (\<forall>fs info. invalid = Some (fs, info) \<longrightarrow> reported T info)"
          show "outcome (txn T T) (case invalid of
               Some (failures, info) \<Rightarrow> bnd (rollbackTransaction pg) (\<lambda>_.
                 ret (if old = None then INSERT_FAILURE_REFERENCE (pg_reference_failure failures) info
                      else UpsertResult.UPDATE_FAILURE_REFERENCE (pg_reference_failure failures) info))
             | None \<Rightarrow> pg_write_upsert pg request (old = None) u refs) ?Q (com T)"
          proof (cases invalid)
            case (Some p)
            obtain failures info where p: "p = (failures, info)" by (cases p)
            have "reported T info" "\<not> validated_in (pg_shake256 pg) T request"
              using invalid Some p by (simp_all add: validated_in_def)
            then show ?thesis unfolding Some p option.case prod.case
              by (intro fail) (use old in \<open>auto simp: pg_upsert_effect_def split: option.splits\<close>)
          next
            case valid: None
            then have v: "validated_in (pg_shake256 pg) T request" using invalid by (simp add: validated_in_def)
            show ?thesis unfolding valid option.case
              by (rule outcome_post [OF write_upsert_outcome [OF refs]])
                (use old u x v None fresh in \<open>auto simp: pg_upsert_effect_def split: option.splits\<close>)
          qed
        qed
      qed
    qed
  qed
  show "outcome (txn T T) (bnd (case old of None \<Rightarrow> pg_generateDocumentUuid pg | Some d \<Rightarrow> ret (pgd_document_uuid d)) ?K) ?Q (com T)"
  proof (cases old)
    case None
    show ?thesis
      by (subst None, unfold option.case, rule outcome_step [OF uuid_outcome], rule K, simp add: None)
  next
    case (Some d)
    show ?thesis
      by (subst Some, unfold option.case bnd_ret, rule K, simp add: Some)
  qed
qed

lemma pg_upsert_outcome:
  "outcome (nothing_pending visible snap T) (pg_upsertDocument pg request)
    (\<lambda>r s. \<exists>T'. pg_upsert_effect (pg_shake256 pg) T request r T' \<and>
       (if r = UPSERT_FAILURE_WRITE_CONFLICT None then txn T' T' s else settled visible snap T' s))
    (nothing_pending visible snap T)"
  unfolding pg_upsertDocument_def
proof (rule outcome_step [OF outcome_lift])
  fix refs
  assume refs: "res_map (getMeadowlarkIdForDocumentReference (pg_shake256 pg)) (di_documentReferences (ur_documentInfo request)) = Inr refs"
  show "outcome (nothing_pending visible snap T) (try_catch (pg_upsert_in_transaction pg request refs)
      (\<lambda>e. bnd (rollbackTransaction pg) (\<lambda>_. ret (UpsertResult.UNKNOWN_FAILURE (Some (JStr (err_message e)))))))
    (\<lambda>r s. \<exists>T'. pg_upsert_effect (pg_shake256 pg) T request r T' \<and>
       (if r = UPSERT_FAILURE_WRITE_CONFLICT None then txn T' T' s else settled visible snap T' s))
    (nothing_pending visible snap T)"
    by (rule outcome_conseq [OF catch_outcome [OF upsert_in_transaction_outcome [OF refs]]])
      (auto simp: pg_upsert_effect_def intro: settled_pending)
qed

section \<open>Update\<close>

lemma write_update_outcome:
  assumes refs: "res_map (getMeadowlarkIdForDocumentReference (pg_shake256 pg)) (di_documentReferences (ur_documentInfo request)) = Inr refs"
    and found: "d \<in> set (t_documents T)" "pgd_document_uuid d = upd_documentUuid request"
  shows "outcome (txn T T) (pg_write_update pg request (pgd_meadowlark_id d) refs)
    (\<lambda>r s. r = UpdateResult.UPDATE_SUCCESS None \<and> (\<exists>T'. related_rows (pg_shake256 pg) request (pgd_meadowlark_id d)
       (upd_documentUuid request) (with_updated request (upd_documentUuid request) T) T' \<and> settled visible snap T' s)) (com T)"
proof -
  have "filter (\<lambda>d. pgd_document_uuid d = upd_documentUuid request) (t_documents T) \<noteq> []"
    using found by (auto simp: filter_empty_conv)
  then show ?thesis
    unfolding pg_write_update_def
    by (intro write_step [OF update_document_write])
      (use related_outcome [OF _ refs, of "with_updated request (upd_documentUuid request) T"] in
        \<open>simp add: with_updated_def hasResults_def\<close>)
qed

lemma update_in_transaction_outcome:
  assumes refs: "res_map (getMeadowlarkIdForDocumentReference (pg_shake256 pg)) (di_documentReferences (ur_documentInfo request)) = Inr refs"
  shows "outcome (nothing_pending visible snap T) (pg_update_in_transaction pg request refs)
    (\<lambda>r s. \<exists>T'. pg_update_effect (pg_shake256 pg) T request r T' \<and> nothing_pending visible snap T' s \<and>
       (r = UpdateResult.UPDATE_SUCCESS None \<longrightarrow> settled visible snap T' s)) (com T)"
  unfolding pg_update_in_transaction_def
proof (rule outcome_seq [OF begin_outcome], rule outcome_step [OF read_outcome [OF find_by_uuid_read]])
  fix old :: "pg_document option"
  let ?u = "upd_documentUuid request"
  let ?Q = "\<lambda>r s. \<exists>T'. pg_update_effect (pg_shake256 pg) T request r T' \<and> nothing_pending visible snap T' s \<and>
       (r = UpdateResult.UPDATE_SUCCESS None \<longrightarrow> settled visible snap T' s)"
  assume old: "case old of None \<Rightarrow> \<forall>d \<in> set (t_documents T). pgd_document_uuid d \<noteq> ?u
            | Some d \<Rightarrow> d \<in> set (t_documents T) \<and> pgd_document_uuid d = ?u"
  have open_end: "outcome (txn T T) (ret r) ?Q (com T)"
    if "pg_update_effect (pg_shake256 pg) T request r T" "r \<noteq> UpdateResult.UPDATE_SUCCESS None" for r
    by (rule outcome_ret, rule exI [of _ T]) (use that in \<open>simp add: txn_defs\<close>)
  show "outcome (txn T T) (case old of None \<Rightarrow> ret (UPDATE_FAILURE_NOT_EXISTS None)
     | Some d \<Rightarrow>
         if di_requestTimestamp (ur_documentInfo request) \<le> pgd_last_modified_at d
         then ret (UPDATE_FAILURE_WRITE_CONFLICT None)
         else if \<not> ri_allowIdentityUpdates (ur_resourceInfo request) \<and> pgd_meadowlark_id d \<noteq> ur_meadowlarkId request
         then ret (UPDATE_FAILURE_IMMUTABLE_IDENTITY None)
         else bnd (pg_invalid_references pg request refs (pgd_meadowlark_id d)) (\<lambda>invalid. case invalid of
             Some (failures, info) \<Rightarrow> bnd (rollbackTransaction pg) (\<lambda>_.
               ret (UpdateResult.UPDATE_FAILURE_REFERENCE (pg_reference_failure failures) info))
           | None \<Rightarrow> pg_write_update pg request (pgd_meadowlark_id d) refs)) ?Q (com T)"
  proof (cases old)
    case None
    show ?thesis unfolding None option.case by (rule open_end) (use old None in \<open>simp_all add: pg_update_effect_def\<close>)
  next
    case (Some d)
    then have d: "d \<in> set (t_documents T)" "pgd_document_uuid d = ?u" using old by simp_all
    consider (stale) "di_requestTimestamp (ur_documentInfo request) \<le> pgd_last_modified_at d"
      | (immutable) "\<not> di_requestTimestamp (ur_documentInfo request) \<le> pgd_last_modified_at d"
          "\<not> ri_allowIdentityUpdates (ur_resourceInfo request) \<and> pgd_meadowlark_id d \<noteq> ur_meadowlarkId request"
      | (writes) "\<not> di_requestTimestamp (ur_documentInfo request) \<le> pgd_last_modified_at d"
          "\<not> (\<not> ri_allowIdentityUpdates (ur_resourceInfo request) \<and> pgd_meadowlark_id d \<noteq> ur_meadowlarkId request)"
      by blast
    then show ?thesis
    proof cases
      case writes
      show ?thesis unfolding Some option.case if_not_P [OF writes(1)] if_not_P [OF writes(2)]
      proof (rule outcome_step [OF invalid_outcome [OF refs]])
        fix invalid :: "(MissingIdentity list \<times> ReferringDocumentInfo list) option"
        assume invalid: "(invalid = None) = (ur_validateDocumentReferencesExist request \<longrightarrow>
             passing_references (pg_shake256 pg) T (ur_documentInfo request)) \<and>
             (\<forall>fs info. invalid = Some (fs, info) \<longrightarrow> reported T info)"
        show "outcome (txn T T) (case invalid of
             Some (failures, info) \<Rightarrow> bnd (rollbackTransaction pg) (\<lambda>_.
               ret (UpdateResult.UPDATE_FAILURE_REFERENCE (pg_reference_failure failures) info))
           | None \<Rightarrow> pg_write_update pg request (pgd_meadowlark_id d) refs) ?Q (com T)"
        proof (cases invalid)
          case (Some p)
          obtain failures info where p: "p = (failures, info)" by (cases p)
          have "reported T info" "\<not> validated_in (pg_shake256 pg) T request"
            using invalid Some p by (simp_all add: validated_in_def)
          then show ?thesis unfolding Some p option.case prod.case
            by (intro outcome_post [OF fail_outcome] exI [of _ T])
              (use d in \<open>auto simp: pg_update_effect_def settled_pending\<close>)
        next
          case valid: None
          then have v: "validated_in (pg_shake256 pg) T request" using invalid by (simp add: validated_in_def)
          have eff: "pg_update_effect (pg_shake256 pg) T request (UpdateResult.UPDATE_SUCCESS None) T'"
            if "related_rows (pg_shake256 pg) request (pgd_meadowlark_id d) ?u (with_updated request ?u T) T'" for T'
            unfolding pg_update_effect_def UpdateResult.case
            by (rule bexI [OF _ d(1)]) (use that d(2) writes v in auto)
          show ?thesis unfolding valid option.case
          proof (rule outcome_post [OF write_update_outcome [OF refs d]], elim conjE exE)
            fix r s T'
            assume r: "r = UpdateResult.UPDATE_SUCCESS None"
              and T': "related_rows (pg_shake256 pg) request (pgd_meadowlark_id d) ?u (with_updated request ?u T) T'"
                "settled visible snap T' s"
            show "?Q r s" unfolding r using eff [OF T'(1)] settled_pending [OF T'(2)] T'(2) by (intro exI [of _ T']) simp
          qed
        qed
      qed
    next
      case stale
      show ?thesis unfolding Some option.case if_P [OF stale]
        by (rule open_end) (use stale d in \<open>auto simp: pg_update_effect_def\<close>)
    next
      case immutable
      show ?thesis unfolding Some option.case if_not_P [OF immutable(1)] if_P [OF immutable(2)]
        by (rule open_end) (use immutable d in \<open>auto simp: pg_update_effect_def\<close>)
    qed
  qed
qed

lemma pg_update_outcome:
  "outcome (nothing_pending visible snap T) (pg_updateDocumentByDocumentUuid pg request)
    (\<lambda>r s. \<exists>T'. pg_update_effect (pg_shake256 pg) T request r T' \<and> nothing_pending visible snap T' s \<and>
       (r = UpdateResult.UPDATE_SUCCESS None \<longrightarrow> settled visible snap T' s))
    (nothing_pending visible snap T)"
  unfolding pg_updateDocumentByDocumentUuid_def
proof (rule outcome_step [OF outcome_lift])
  fix refs
  assume refs: "res_map (getMeadowlarkIdForDocumentReference (pg_shake256 pg)) (di_documentReferences (ur_documentInfo request)) = Inr refs"
  show "outcome (nothing_pending visible snap T) (try_catch (pg_update_in_transaction pg request refs)
      (\<lambda>e. bnd (rollbackTransaction pg) (\<lambda>_. ret (UpdateResult.UNKNOWN_FAILURE (Some (JStr (err_message e)))))))
    (\<lambda>r s. \<exists>T'. pg_update_effect (pg_shake256 pg) T request r T' \<and> nothing_pending visible snap T' s \<and>
       (r = UpdateResult.UPDATE_SUCCESS None \<longrightarrow> settled visible snap T' s))
    (nothing_pending visible snap T)"
    by (rule outcome_conseq [OF catch_outcome [OF update_in_transaction_outcome [OF refs]]])
      (auto simp: pg_update_effect_def intro: settled_pending)
qed

section \<open>Delete\<close>

lemma blocked_refusal:
  "blocked_by T (del_documentUuid request) i r \<Longrightarrow> alias_owner T (del_documentUuid request) i \<Longrightarrow> pg_delete_refusal T request r"
  by (auto simp: blocked_by_def pg_delete_refusal_def split: DeleteResult.splits)

lemma blocking_outcome:
  assumes rows: "set rows = {(pga_meadowlark_id a, pga_alias_meadowlark_id a) | a.
                            a \<in> set (t_aliases T) \<and> pga_document_uuid a = u}"
  shows "outcome (txn T0 T) (pg_blocking_references pg i (map snd rows))
    (\<lambda>x s. txn T0 T s \<and> (case x of None \<Rightarrow> i \<noteq> '''' \<and> unreferenced T u i | Some r \<Rightarrow> blocked_by T u i r)) (com T0)"
proof (cases "i = ''''")
  case True
  then show ?thesis by (simp add: pg_blocking_references_def outcome_ret blocked_by_def)
next
  case False
  have ids: "a \<in> set (map snd rows) \<longleftrightarrow> (\<exists>al \<in> set (t_aliases T). pga_document_uuid al = u \<and> pga_alias_meadowlark_id al = a)" for a
    using rows by force
  show ?thesis unfolding pg_blocking_references_def if_not_P [OF False] Let_def
  proof (rule outcome_step [OF read_outcome [OF referencing_read]])
    fix parents
    assume parents: "set parents = pgr_parent_meadowlark_id `
      {r \<in> set (t_references T). pgr_referenced_meadowlark_id r \<in> set (map snd rows)}"
    let ?refs = "filter (\<lambda>ref. ref \<noteq> i) parents"
    show "outcome (txn T0 T) (if ?refs = [] then ret None
        else bnd (findReferringDocumentInfoForErrorReporting pg ?refs) (\<lambda>info.
          ret (Some (if info = [] then DeleteResult.UNKNOWN_FAILURE
                (''postgresql.repository.Delete.deleteDocumentByDocumentUuid Error retrieving documents '' @
                 ''referenced by '' @ i @ '', a null result set was returned'')
               else DELETE_FAILURE_REFERENCE info))))
      (\<lambda>x s. txn T0 T s \<and> (case x of None \<Rightarrow> i \<noteq> '''' \<and> unreferenced T u i | Some r \<Rightarrow> blocked_by T u i r)) (com T0)"
    proof (cases "?refs = []")
      case True
      have "unreferenced T u i"
        unfolding unreferenced_def
      proof (intro ballI impI)
        fix r a
        assume r: "r \<in> set (t_references T)" and a: "a \<in> set (t_aliases T)" "pga_document_uuid a = u"
          "pgr_referenced_meadowlark_id r = pga_alias_meadowlark_id a"
        then have "pgr_referenced_meadowlark_id r \<in> set (map snd rows)" using ids by metis
        then have "pgr_parent_meadowlark_id r \<in> set parents" using r parents by blast
        then show "pgr_parent_meadowlark_id r = i" using True by (auto simp: filter_empty_conv)
      qed
      then show ?thesis using False by (simp add: True outcome_ret)
    next
      case nonempty: False
      then obtain p where p: "p \<in> set parents" "p \<noteq> i" by (auto simp: filter_empty_conv)
      then obtain r where r: "r \<in> set (t_references T)" "pgr_referenced_meadowlark_id r \<in> set (map snd rows)"
        "pgr_parent_meadowlark_id r = p" unfolding parents by auto
      then obtain a where "a \<in> set (t_aliases T)" "pga_document_uuid a = u" "pgr_referenced_meadowlark_id r = pga_alias_meadowlark_id a"
        using ids by metis
      then have blocked: "\<not> unreferenced T u i" using r p unfolding unreferenced_def by blast
      show ?thesis unfolding if_not_P [OF nonempty]
      proof (rule outcome_ret_after [OF read_outcome [OF referring_info_read]])
        fix info s
        assume "txn T0 T s" and info: "set info \<subseteq> pg_referringInfo ` {d \<in> set (t_documents T). pgd_meadowlark_id d \<in> set ?refs} \<and>
           length info \<le> 5 \<and> (info = [] \<longleftrightarrow> (\<forall>d \<in> set (t_documents T). pgd_meadowlark_id d \<notin> set ?refs))"
        moreover have "reported T info" using info unfolding reported_def by blast
        ultimately show "txn T0 T s \<and> (case Some (if info = [] then DeleteResult.UNKNOWN_FAILURE
                (''postgresql.repository.Delete.deleteDocumentByDocumentUuid Error retrieving documents '' @
                 ''referenced by '' @ i @ '', a null result set was returned'')
               else DELETE_FAILURE_REFERENCE info) of None \<Rightarrow> i \<noteq> '''' \<and> unreferenced T u i | Some r \<Rightarrow> blocked_by T u i r)"
          using blocked by (simp add: blocked_by_def)
      qed
    qed
  qed
qed

lemma remove_outcome:
  "outcome (txn T T)
    (bnd (deleteDocumentRowByDocumentUuid pg u) (\<lambda>deleteResult.
     bnd (deleteOutboundReferencesOfDocumentByMeadowlarkId pg i) (\<lambda>_.
     bnd (deleteAliasesForDocumentByMeadowlarkId pg i) (\<lambda>_.
     bnd (commitTransaction pg) (\<lambda>_. ret deleteResult)))))
    (\<lambda>r s. settled visible snap (without_document u i T) s \<and> table_constraints (without_document u i T) \<and>
       r = (if \<exists>d \<in> set (t_documents T). pgd_document_uuid d = u then DELETE_SUCCESS else DELETE_FAILURE_NOT_EXISTS)) (com T)"
proof (rule write_step [OF delete_row_write], rule write_step [OF delete_references_write],
    rule write_step [OF delete_aliases_write], unfold fst_conv snd_conv)
  fix r x y
  let ?T1 = "T\<lparr>t_documents := filter (\<lambda>d. pgd_document_uuid d \<noteq> u) (t_documents T)\<rparr>"
  let ?T2 = "?T1\<lparr>t_references := filter (\<lambda>r. pgr_parent_meadowlark_id r \<noteq> i) (t_references ?T1)\<rparr>"
  let ?T3 = "?T2\<lparr>t_aliases := filter (\<lambda>a. pga_meadowlark_id a \<noteq> i) (t_aliases ?T2)\<rparr>"
  let ?r = "if \<exists>d \<in> set (t_documents T). pgd_document_uuid d = u then DELETE_SUCCESS else DELETE_FAILURE_NOT_EXISTS"
  have T3: "?T3 = without_document u i T" by (simp add: without_document_def)
  assume "r = ?r" "table_constraints ?T3"
  then show "outcome (txn T ?T3) (bnd (commitTransaction pg) (\<lambda>_. ret r))
    (\<lambda>r s. settled visible snap (without_document u i T) s \<and> table_constraints (without_document u i T) \<and> r = ?r) (com T)"
    unfolding T3 by (intro outcome_seq [OF commit_outcome]) (simp add: outcome_ret)
qed

lemma delete_in_transaction_outcome:
  "outcome (nothing_pending visible snap T) (pg_delete_in_transaction pg request)
    (\<lambda>r s. (\<exists>T'. pg_delete_effect T request r T' \<and> settled visible snap T' s) \<and> r \<noteq> DeleteResult.UNKNOWN_FAILURE '''') (com T)"
  unfolding pg_delete_in_transaction_def
proof (rule outcome_seq [OF begin_outcome], rule outcome_step [OF read_outcome [OF document_aliases_read]])
  fix rows :: "(MeadowlarkId \<times> MeadowlarkId) list"
  let ?u = "del_documentUuid request"
  let ?i = "case rows of [] \<Rightarrow> '''' | row # _ \<Rightarrow> fst row"
  let ?Q = "\<lambda>r s. (\<exists>T'. pg_delete_effect T request r T' \<and> settled visible snap T' s) \<and> r \<noteq> DeleteResult.UNKNOWN_FAILURE ''''"
  assume rows: "set rows = {(pga_meadowlark_id a, pga_alias_meadowlark_id a) | a.
                            a \<in> set (t_aliases T) \<and> pga_document_uuid a = ?u}"
  have owner: "alias_owner T ?u ?i"
  proof (cases rows)
    case Nil
    then show ?thesis using rows by (auto simp: alias_owner_def)
  next
    case (Cons row rest)
    then have "row \<in> set rows" by simp
    then obtain a where "row = (pga_meadowlark_id a, pga_alias_meadowlark_id a)" "a \<in> set (t_aliases T)" "pga_document_uuid a = ?u"
      unfolding rows by blast
    then show ?thesis using Cons by (auto simp: alias_owner_def)
  qed
  have guard: "outcome (txn T T) (if del_validateNoReferencesToDocument request
      then pg_blocking_references pg ?i (map snd rows) else ret None)
    (\<lambda>x s. txn T T s \<and> (case x of
        None \<Rightarrow> del_validateNoReferencesToDocument request \<longrightarrow> ?i \<noteq> '''' \<and> unreferenced T ?u ?i
      | Some r \<Rightarrow> blocked_by T ?u ?i r)) (com T)"
  proof (cases "del_validateNoReferencesToDocument request")
    case True
    show ?thesis unfolding if_P [OF True]
      by (rule outcome_post [OF blocking_outcome [OF rows]]) (auto split: option.splits)
  qed (simp add: outcome_ret)
  show "outcome (txn T T) (let meadowlarkId = ?i in
      bnd (if del_validateNoReferencesToDocument request
           then pg_blocking_references pg meadowlarkId (map snd rows) else ret None) (\<lambda>blocked.
      case blocked of
        Some failure \<Rightarrow> bnd (rollbackTransaction pg) (\<lambda>_. ret failure)
      | None \<Rightarrow>
          bnd (deleteDocumentRowByDocumentUuid pg ?u) (\<lambda>deleteResult.
          bnd (deleteOutboundReferencesOfDocumentByMeadowlarkId pg meadowlarkId) (\<lambda>_.
          bnd (deleteAliasesForDocumentByMeadowlarkId pg meadowlarkId) (\<lambda>_.
          bnd (commitTransaction pg) (\<lambda>_. ret deleteResult)))))) ?Q (com T)"
    unfolding Let_def
  proof (rule outcome_step [OF guard])
    fix x :: "DeleteResult option"
    assume x: "case x of
        None \<Rightarrow> del_validateNoReferencesToDocument request \<longrightarrow> ?i \<noteq> '''' \<and> unreferenced T ?u ?i
      | Some r \<Rightarrow> blocked_by T ?u ?i r"
    show "outcome (txn T T) (case x of
        Some failure \<Rightarrow> bnd (rollbackTransaction pg) (\<lambda>_. ret failure)
      | None \<Rightarrow>
          bnd (deleteDocumentRowByDocumentUuid pg ?u) (\<lambda>deleteResult.
          bnd (deleteOutboundReferencesOfDocumentByMeadowlarkId pg ?i) (\<lambda>_.
          bnd (deleteAliasesForDocumentByMeadowlarkId pg ?i) (\<lambda>_.
          bnd (commitTransaction pg) (\<lambda>_. ret deleteResult))))) ?Q (com T)"
    proof (cases x)
      case (Some r)
      then have "pg_delete_refusal T request r" "r \<noteq> DeleteResult.UNKNOWN_FAILURE ''''"
        using x owner blocked_refusal by (simp_all add: blocked_by_def split: DeleteResult.splits)
      then show ?thesis unfolding Some option.case
        by (intro outcome_post [OF fail_outcome] conjI exI [of _ T]) (auto simp: pg_delete_effect_def)
    next
      case None
      show ?thesis unfolding None option.case
      proof (rule outcome_post [OF remove_outcome], elim conjE)
        fix r s
        assume "settled visible snap (without_document ?u ?i T) s" "table_constraints (without_document ?u ?i T)"
          "r = (if \<exists>d \<in> set (t_documents T). pgd_document_uuid d = ?u then DELETE_SUCCESS else DELETE_FAILURE_NOT_EXISTS)"
        then show "?Q r s"
          by (intro conjI, intro exI [of _ "without_document ?u ?i T"] conjI, unfold pg_delete_effect_def,
            intro disjI2 exI [of _ ?i]) (use owner x None in simp_all)
      qed
    qed
  qed
qed

lemma pg_delete_outcome:
  "outcome (nothing_pending visible snap T) (pg_deleteDocumentByDocumentUuid pg request)
    (\<lambda>r s. \<exists>T'. pg_delete_effect T request r T' \<and> settled visible snap T' s) (nothing_pending visible snap T)"
  unfolding pg_deleteDocumentByDocumentUuid_def
proof (rule outcome_conseq [OF catch_outcome [OF delete_in_transaction_outcome]])
  fix r s
  assume "((\<exists>T'. pg_delete_effect T request r T' \<and> settled visible snap T' s) \<and> r \<noteq> DeleteResult.UNKNOWN_FAILURE '''') \<or>
    settled visible snap T s \<and> (\<exists>e :: js_error. r = DeleteResult.UNKNOWN_FAILURE '''')"
  then show "\<exists>T'. pg_delete_effect T request r T' \<and> settled visible snap T' s"
  proof (elim disjE conjE exE)
    assume "settled visible snap T s" "r = DeleteResult.UNKNOWN_FAILURE ''''"
    then show ?thesis by (intro exI [of _ T]) (simp add: pg_delete_effect_def pg_delete_refusal_def)
  qed (intro exI conjI)
qed (auto intro: settled_pending)

end

end
