(* ===== verification/PgPlugin.thy ===== *)
theory PgPlugin
  imports PgOperations
begin

text \<open>
  The PostgreSQL plugin as a document store (\<open>BackendFacade.ts\<close>, \<open>index.ts\<close>): get and security, the pool, and the
  proof that the plugin keeps the contract \<open>document_store\<close> for the pairs of a uuid and a document in the table.
  Its invariant \<open>pg_ok\<close> allows a transaction that is open without having written, which is what the early answers
  of upsert and update leave behind.
\<close>

definition pg_ok :: "('s \<Rightarrow> tables) \<Rightarrow> ('s \<Rightarrow> tables option) \<Rightarrow> 's pool_state \<Rightarrow> bool" where
  "pg_ok visible snap t \<longleftrightarrow>
     nothing_pending visible snap (visible (snd t)) (snd t) \<and> table_constraints (visible (snd t))"

definition document_pairs :: "tables \<Rightarrow> (DocumentUuid \<times> json) set" where
  "document_pairs T = (\<lambda>d. (pgd_document_uuid d, pgd_edfi_doc d)) ` set (t_documents T)"

definition pg_stored :: "('s \<Rightarrow> tables) \<Rightarrow> 's pool_state \<Rightarrow> (DocumentUuid \<times> json) set" where
  "pg_stored visible t = document_pairs (visible (snd t))"

section \<open>Effects on the pairs\<close>

lemma document_pairsI:
  "d \<in> set (t_documents T) \<Longrightarrow> pgd_document_uuid d = u \<Longrightarrow> e = pgd_edfi_doc d \<Longrightarrow> (u, e) \<in> document_pairs T"
  by (auto simp: document_pairs_def)

lemma related_rows_documents:
  "related_rows shake256 request i u T T' \<Longrightarrow> t_documents T' = t_documents T \<and> table_constraints T'"
  by (auto simp: related_rows_def)

lemma insert_pairs:
  assumes "pg_upsert_effect shake256 T request (INSERT_SUCCESS m u) T'"
  shows "document_pairs T' = insert (u, ur_edfiDoc request) (document_pairs T) \<and> table_constraints T'"
proof -
  have "t_documents T' = t_documents T @ [inserted_row request u] \<and> table_constraints T'"
    using assms related_rows_documents by (fastforce simp: pg_upsert_effect_def with_inserted_def)
  then show ?thesis by (auto simp: document_pairs_def inserted_row_def)
qed

lemma updated_pair:
  assumes "related_rows shake256 request i u (with_updated request u T) T'"
    and "old \<in> set (t_documents T)" "pgd_document_uuid old = u"
  shows "(u, ur_edfiDoc request) \<in> document_pairs T' \<and> table_constraints T'"
proof -
  have docs: "t_documents T' = map (\<lambda>d. if pgd_document_uuid d = u then updated_row request d else d) (t_documents T)"
    "table_constraints T'"
    using related_rows_documents [OF assms(1)] by (simp_all add: with_updated_def)
  then have "updated_row request old \<in> set (t_documents T')" using assms(2,3) by force
  moreover have "pgd_document_uuid (updated_row request old) = u" "pgd_edfi_doc (updated_row request old) = ur_edfiDoc request"
    using assms(3) by (simp_all add: updated_row_def)
  ultimately have "(u, ur_edfiDoc request) \<in> document_pairs T'"
    unfolding document_pairs_def by (intro image_eqI [of _ _ "updated_row request old"]) simp_all
  then show ?thesis using docs(2) by simp
qed

lemma delete_pairs:
  assumes "pg_delete_effect T request DELETE_SUCCESS T'"
  shows "document_pairs T' = {(u, d) \<in> document_pairs T. u \<noteq> del_documentUuid request} \<and> table_constraints T'"
proof -
  obtain i where "T' = without_document (del_documentUuid request) i T" "table_constraints T'"
    using assms unfolding pg_delete_effect_def pg_delete_refusal_def DeleteResult.case by blast
  then show ?thesis by (auto simp: document_pairs_def without_document_def)
qed

text \<open>A delete that answers NOT_EXISTS had no document to remove.\<close>

lemma delete_failure_pairs:
  assumes "pg_delete_effect T request r T'" "r \<noteq> DELETE_SUCCESS" "table_constraints T"
  shows "t_documents T' = t_documents T \<and> table_constraints T'"
  using assms unfolding pg_delete_effect_def
proof (elim disjE exE conjE)
  fix i
  assume "T' = without_document (del_documentUuid request) i T" "table_constraints T'"
    and "r = (if \<exists>d \<in> set (t_documents T). pgd_document_uuid d = del_documentUuid request
             then DELETE_SUCCESS else DELETE_FAILURE_NOT_EXISTS)"
  then show ?thesis using assms(2) by (auto simp: without_document_def filter_id_conv split: if_splits)
qed simp

section \<open>The pool\<close>

text \<open>Properties of the state that no loss of a connection and no failed statement takes away.\<close>

definition at_rest :: "('s \<Rightarrow> tables) \<Rightarrow> ('s \<Rightarrow> tables option) \<Rightarrow> ('s \<Rightarrow> bool) \<Rightarrow> bool" where
  "at_rest visible snap J \<longleftrightarrow> (\<forall>s s'. J s \<longrightarrow>
     unchanged visible snap s s' \<or> visible s' = committed_tables visible snap s \<and> snap s' \<in> {None, snap s} \<longrightarrow> J s')"

lemma pending_rest: "at_rest visible snap (nothing_pending visible snap T)"
  by (auto simp: at_rest_def txn_defs unchanged_def)

lemma settled_rest: "at_rest visible snap (settled visible snap T)"
  by (auto simp: at_rest_def txn_defs unchanged_def)

lemma rest_connection:
  "at_rest visible snap J \<Longrightarrow> connection_law visible snap m \<Longrightarrow> J s \<Longrightarrow> m s = (q, s') \<Longrightarrow> J s'"
  unfolding at_rest_def connection_law_def by blast

lemma rest_read:
  assumes "at_rest visible snap J" "read_law visible snap m P" "J s" "m s = (q, s')"
  shows "J s'"
proof -
  have "case q of Inl e \<Rightarrow> voided visible snap s s' | Inr x \<Rightarrow> unchanged visible snap s s' \<and> P (visible s) x"
    using assms(2,4) unfolding read_law_def by blast
  then have "unchanged visible snap s s' \<or> visible s' = committed_tables visible snap s \<and> snap s' \<in> {None, snap s}"
    by (cases q) (simp_all add: voided_def)
  then show ?thesis using assms(1,3) unfolding at_rest_def by blast
qed

lemma on_pool_triple:
  assumes "\<And>s r s'. J s \<Longrightarrow> m s = (r, s') \<Longrightarrow> J s'"
  shows "triple (\<lambda>t. J (snd t)) (on_pool m) (\<lambda>_. True)"
proof (rule tripleI)
  fix t :: "'a pool_state" and r t'
  assume t: "J (snd t)" and run: "on_pool m t = (r, t')"
  obtain q s1 where q: "m (snd t) = (q, s1)" by (cases "m (snd t)")
  have "snd t' = s1" using run q by (cases t) (auto simp: on_pool_def)
  then show "J (snd t') \<and> (\<forall>x. r = Inr x \<longrightarrow> True)" using assms [OF t q] by simp
qed

lemma connection_triple:
  "at_rest visible snap J \<Longrightarrow> connection_law visible snap m \<Longrightarrow> triple (\<lambda>t. J (snd t)) (on_pool m) (\<lambda>_. True)"
  by (rule on_pool_triple) (rule rest_connection)

lemma set_pool_triple: "triple (\<lambda>t. J (snd t)) (set_pool p) (\<lambda>_. True)"
  by (rule tripleI) (auto simp: set_pool_def)

lemma triple_finally:
  assumes "triple I m (\<lambda>_. True)" "triple I fin (\<lambda>_. True)"
  shows "triple I (finally_do m fin) (\<lambda>_. True)"
proof (rule tripleI)
  fix s r s'
  assume "I s" and run: "finally_do m fin s = (r, s')"
  obtain q s1 where q: "m s = (q, s1)" by (cases "m s")
  obtain v s2 where v: "fin s1 = (v, s2)" by (cases "fin s1")
  have "I s2" using tripleD [OF assms(1) \<open>I s\<close> q] tripleD [OF assms(2) _ v] by blast
  then show "I s' \<and> (\<forall>x. r = Inr x \<longrightarrow> True)" using run q v by (auto simp: finally_do_def split: sum.splits)
qed

lemma outcome_try:
  assumes "outcome P m Q E'" "\<And>e. outcome E' (h e) Q E"
  shows "outcome P (try_catch m h) Q E"
proof (rule outcomeI)
  fix s r s'
  assume p: "P s" and run: "try_catch m h s = (r, s')"
  obtain q t where m: "m s = (q, t)" by (cases "m s")
  show "case r of Inl e \<Rightarrow> E s' | Inr x \<Rightarrow> Q x s'"
    using outcomeD [OF assms(1) p m] outcomeD [OF assms(2), of t _ r s'] run m
    by (cases q) (auto simp: act_simps)
qed

context pg_store
begin

lemma define_rest:
  assumes "at_rest visible snap J"
  shows "J s \<Longrightarrow> run_all (pg_define pg) sqls s = (r, s') \<Longrightarrow> J s'"
proof (induction sqls arbitrary: s)
  case Nil
  then show ?case by (simp add: act_simps)
next
  case (Cons sql sqls)
  obtain q s1 where q: "pg_define pg sql s = (q, s1)" by (cases "pg_define pg sql s")
  have "J s1" by (rule rest_read [OF assms define_law Cons.prems(1) q])
  then show ?case using Cons.IH Cons.prems(2) q by (cases q) (auto simp: act_simps)
qed

lemma createDatabase_triple:
  assumes "at_rest visible snap J"
  shows "triple (\<lambda>t. J (snd t)) (on_pool (createDatabase pg db)) (\<lambda>_. True)"
proof (rule on_pool_triple)
  fix s r s'
  assume s: "J s" and run: "createDatabase pg db s = (r, s')"
  obtain q s1 where q: "pg_createDatabase pg db s = (q, s1)" by (cases "pg_createDatabase pg db s")
  have "s' = s1" using run q by (cases q) (auto simp: createDatabase_def act_simps)
  then show "J s'" using rest_connection [OF assms client_law(2) s q] by simp
qed

lemma create_pool_triple:
  assumes rest: "at_rest visible snap J"
  shows "triple (\<lambda>t. J (snd t)) (createConnectionPoolAndReturnClient pg) (\<lambda>_. True)"
proof -
  let ?m = "\<lambda>p. bnd (if p \<noteq> None then on_pool (pg_poolEnd pg) else ret ()) (\<lambda>_. ret False)"
  have "triple (\<lambda>t. J (snd t)) (?m p) (\<lambda>_. True)" for p :: "db_configuration option"
    by (intro triple_bnd [where P = "\<lambda>_. True"] triple_if triple_ret connection_triple [OF rest] pool_law TrueI)
  from tripleD [OF this] have catch: "triple (\<lambda>t. J (snd t)) (\<lambda>(p, s). ?m p (p, s)) (\<lambda>_. True)"
    by (intro tripleI) (auto split: prod.splits)
  show ?thesis unfolding createConnectionPoolAndReturnClient_def
    by (intro triple_bnd [where P = "\<lambda>_. True"] triple_try_catch triple_if triple_ret triple_lift triple_throw triple_finally
      connection_triple [OF rest] set_pool_triple createDatabase_triple [OF rest] catch pool_law client_law TrueI)
qed

lemma shared_client_rest:
  assumes rest: "at_rest visible snap J" and "J (snd t)" "pg_getSharedClient pg t = (r, t')"
  shows "J (snd t')"
proof (cases t)
  case (Pair p s)
  show ?thesis
  proof (cases p)
    case None
    have "triple (\<lambda>t. J (snd t)) (on_pool (checkExistsAndCreateTables pg)) (\<lambda>_. True)"
      unfolding checkExistsAndCreateTables_def by (rule on_pool_triple) (rule define_rest [OF rest])
    then have "triple (\<lambda>t. J (snd t)) (bnd (createConnectionPoolAndReturnClient pg) (\<lambda>_. on_pool (checkExistsAndCreateTables pg))) (\<lambda>_. True)"
      by (intro triple_bnd [OF create_pool_triple [OF rest]])
    then show ?thesis using tripleD [of "\<lambda>t. J (snd t)" _ "\<lambda>_. True" t r t'] assms(2,3) Pair None
      by (simp add: pg_getSharedClient_def)
  next
    case (Some cfg)
    then show ?thesis using tripleD [OF connection_triple [OF rest pool_law(1)], of t cfg r t'] assms(2,3) Pair
      by (simp add: pg_getSharedClient_def)
  qed
qed

text \<open>An operation of the plugin: a connection that could not be had, or a run of the operation from a state at rest.\<close>

lemma with_pool_rest:
  assumes rest: "at_rest visible snap J" and "J (snd t)" "with_pool_client pg m t = (r, t')"
  obtains (failed) e where "r = Inl e" "J (snd t')" | (ran) s where "J s" "m s = (r, snd t')"
proof -
  obtain q t1 where q: "pg_getSharedClient pg t = (q, t1)" by (cases "pg_getSharedClient pg t")
  have t1: "J (snd t1)" by (rule shared_client_rest [OF rest assms(2) q])
  show thesis
  proof (cases q)
    case (Inl e)
    then have "r = Inl e" "t' = t1" using assms(3) q by (simp_all add: with_pool_client_def act_simps)
    then show thesis using failed [of e] t1 by simp
  next
    case (Inr v)
    obtain s2 where rel: "pg_release pg (snd t1) = (Inr (), s2)"
      using release_law [of "snd t1"] by (metis prod.collapse)
    have "J s2" by (rule rest_connection [OF rest pool_law(3) t1 rel])
    moreover have "m s2 = (r, snd t')"
      using assms(3) q Inr rel
      by (cases t1) (auto simp: with_pool_client_def released_early_def on_pool_def act_simps split: prod.splits)
    ultimately show thesis by (rule ran)
  qed
qed

lemma with_pool_cases:
  assumes "pg_ok visible snap t" "with_pool_client pg m t = (r, t')"
  obtains (failed) e where "r = Inl e" "pg_ok visible snap t'" "visible (snd t') = visible (snd t)"
  | (ran) s where "nothing_pending visible snap (visible (snd t)) s" "m s = (r, snd t')"
proof -
  have t: "nothing_pending visible snap (visible (snd t)) (snd t)" "table_constraints (visible (snd t))"
    using assms(1) by (simp_all add: pg_ok_def)
  show thesis
  proof (cases rule: with_pool_rest [OF pending_rest t(1) assms(2), case_names failed ran])
    case (failed e)
    moreover from failed(2) have "visible (snd t') = visible (snd t)" by (simp add: nothing_pending_def)
    ultimately show thesis using that(1) [of e] t(2) by (simp add: pg_ok_def)
  next
    case (ran s)
    then show thesis by (rule that(2))
  qed
qed

section \<open>Get and security\<close>

lemma get_outcome:
  "outcome (nothing_pending visible snap T) (pg_getDocumentByDocumentUuid pg request)
    (\<lambda>g s. nothing_pending visible snap T s \<and> gr_documentUuid g = get_documentUuid request \<and>
       (case gr_response g of
          GetResponse.GET_SUCCESS \<Rightarrow> \<exists>d \<in> set (t_documents T). pgd_document_uuid d = get_documentUuid request \<and>
            gr_edfiDoc g = pgd_edfi_doc d \<and> gr_lastModifiedDate g = pgd_last_modified_at d
        | GetResponse.GET_FAILURE_NOT_EXISTS \<Rightarrow> \<forall>d \<in> set (t_documents T). pgd_document_uuid d \<noteq> get_documentUuid request
        | _ \<Rightarrow> True)) (\<lambda>_. False)"
  unfolding pg_getDocumentByDocumentUuid_def Let_def
proof (rule outcome_try [OF outcome_step [OF read_pending [OF find_by_uuid_read]]])
  fix old :: "pg_document option"
  assume old: "case old of None \<Rightarrow> \<forall>d \<in> set (t_documents T). pgd_document_uuid d \<noteq> get_documentUuid request
            | Some d \<Rightarrow> d \<in> set (t_documents T) \<and> pgd_document_uuid d = get_documentUuid request"
  show "outcome (nothing_pending visible snap T) (case old of
      None \<Rightarrow> ret \<lparr>gr_response = GetResponse.GET_FAILURE_NOT_EXISTS, gr_documentUuid = get_documentUuid request,
        gr_edfiDoc = JObj [], gr_lastModifiedDate = 0, gr_failureMessage = None\<rparr>
    | Some d \<Rightarrow> ret \<lparr>gr_response = GetResponse.GET_SUCCESS, gr_documentUuid = get_documentUuid request,
        gr_edfiDoc = pgd_edfi_doc d, gr_lastModifiedDate = pgd_last_modified_at d, gr_failureMessage = None\<rparr>)
    (\<lambda>g s. nothing_pending visible snap T s \<and> gr_documentUuid g = get_documentUuid request \<and>
       (case gr_response g of
          GetResponse.GET_SUCCESS \<Rightarrow> \<exists>d \<in> set (t_documents T). pgd_document_uuid d = get_documentUuid request \<and>
            gr_edfiDoc g = pgd_edfi_doc d \<and> gr_lastModifiedDate g = pgd_last_modified_at d
        | GetResponse.GET_FAILURE_NOT_EXISTS \<Rightarrow> \<forall>d \<in> set (t_documents T). pgd_document_uuid d \<noteq> get_documentUuid request
        | _ \<Rightarrow> True)) (nothing_pending visible snap T)"
    using old by (cases old) (auto intro!: outcome_ret)
qed (auto intro!: outcome_ret)

lemma decide_outcome:
  assumes "read_law visible snap read P"
  shows "outcome (nothing_pending visible snap T)
    (try_catch (bnd read (\<lambda>d. ret (ownership_decision request d))) (\<lambda>_. ret SecurityResult.UNKNOWN_FAILURE))
    (\<lambda>x s. nothing_pending visible snap T s \<and>
       (x = SecurityResult.UNKNOWN_FAILURE \<or> (\<exists>d. P T d \<and> x = ownership_decision request d))) (\<lambda>_. False)"
  by (rule outcome_try [OF outcome_ret_after [OF read_pending [OF assms]]]) (auto intro!: outcome_ret)

lemma reject_outcome:
  "outcome (nothing_pending visible snap T) (pg_rejectByOwnershipSecurity pg request)
    (\<lambda>_. nothing_pending visible snap T) (nothing_pending visible snap T)"
proof -
  have decide: "outcome (nothing_pending visible snap T)
    (try_catch (bnd read (\<lambda>d. ret (ownership_decision request d))) (\<lambda>_. ret SecurityResult.UNKNOWN_FAILURE))
    (\<lambda>_. nothing_pending visible snap T) (nothing_pending visible snap T)" if "read_law visible snap read P" for read P
    by (rule outcome_conseq [OF decide_outcome [OF that]]) auto
  note by_uuid = decide [OF find_by_uuid_read] and by_id = decide [OF find_by_id_read]
  show ?thesis
  proof (cases "pc_documentUuid (mw_pathComponents (fr_middleware request))")
    case None
    have "outcome (nothing_pending visible snap T)
      (bnd (lift (extractIdIfUpsert pg request)) (\<lambda>meadowlarkId.
         if meadowlarkId = None \<or> meadowlarkId = Some '''' then ret NOT_APPLICABLE
         else try_catch (bnd (findDocumentByMeadowlarkId pg (the meadowlarkId)) (\<lambda>d. ret (ownership_decision request d)))
                (\<lambda>_. ret SecurityResult.UNKNOWN_FAILURE)))
      (\<lambda>_. nothing_pending visible snap T) (nothing_pending visible snap T)"
      by (rule outcome_step [OF outcome_lift]) (auto intro!: outcome_ret by_id)
    then show ?thesis
      unfolding pg_rejectByOwnershipSecurity_def Let_def None option.case ownership_by_id_read
      by (auto intro!: outcome_ret)
  next
    case (Some u)
    show ?thesis
      unfolding pg_rejectByOwnershipSecurity_def Let_def Some option.case ownership_by_uuid_read
      by (auto intro!: outcome_ret by_uuid)
  qed
qed

lemma security_outcome:
  "outcome (nothing_pending visible snap T) (pg_securityMiddleware pg model)
    (\<lambda>_. nothing_pending visible snap T) (nothing_pending visible snap T)"
proof (cases model)
  case (Pair request response)
  have "outcome (nothing_pending visible snap T)
    (bnd (pg_rejectByOwnershipSecurity pg request) (\<lambda>x. ret (f x)))
    (\<lambda>_. nothing_pending visible snap T) (nothing_pending visible snap T)" for f :: "SecurityResult \<Rightarrow> MiddlewareModel"
    by (rule outcome_seq [OF reject_outcome]) (rule outcome_ret)
  then show ?thesis
    unfolding Pair pg_securityMiddleware_def prod.case Let_def by (auto intro!: outcome_ret)
qed

section \<open>The contract\<close>

lemma pg_ok_stored: "nothing_pending visible snap T' (snd t') \<Longrightarrow> table_constraints T' \<Longrightarrow> pg_ok visible snap t' \<and> visible (snd t') = T'"
  by (auto simp: pg_ok_def nothing_pending_def)

lemma txn_pending: "txn T T s \<Longrightarrow> nothing_pending visible snap T s"
  by (simp add: txn_defs)

lemma plugin_upsert:
  assumes "pg_ok visible snap t" "with_pool_client pg (pg_upsertDocument pg request) t = (r, t')"
  shows "\<exists>T'. (case r of Inl e \<Rightarrow> T' = visible (snd t) | Inr x \<Rightarrow> pg_upsert_effect (pg_shake256 pg) (visible (snd t)) request x T') \<and>
    visible (snd t') = T' \<and> (table_constraints T' \<longrightarrow> pg_ok visible snap t')"
  using assms
proof (cases rule: with_pool_cases)
  case (failed e)
  then show ?thesis by simp
next
  case (ran s)
  note out = outcomeD [OF pg_upsert_outcome ran]
  show ?thesis
  proof (cases r)
    case (Inl e)
    then show ?thesis using out by (auto simp: pg_ok_def nothing_pending_def)
  next
    case (Inr x)
    then obtain T' where "pg_upsert_effect (pg_shake256 pg) (visible (snd t)) request x T'" "nothing_pending visible snap T' (snd t')"
      using out by (auto dest: txn_pending settled_pending split: if_splits)
    moreover from this(2) have "visible (snd t') = T'" by (simp add: nothing_pending_def)
    ultimately show ?thesis using Inr pg_ok_stored [of T' t'] by (intro exI [of _ T'] conjI impI) simp_all
  qed
qed

lemma plugin_update:
  assumes "pg_ok visible snap t" "with_pool_client pg (pg_updateDocumentByDocumentUuid pg request) t = (r, t')"
  shows "\<exists>T'. (case r of Inl e \<Rightarrow> T' = visible (snd t) | Inr x \<Rightarrow> pg_update_effect (pg_shake256 pg) (visible (snd t)) request x T') \<and>
    visible (snd t') = T' \<and> (table_constraints T' \<longrightarrow> pg_ok visible snap t')"
  using assms
proof (cases rule: with_pool_cases)
  case (failed e)
  then show ?thesis by simp
next
  case (ran s)
  note out = outcomeD [OF pg_update_outcome ran]
  show ?thesis
  proof (cases r)
    case (Inl e)
    then show ?thesis using out by (auto simp: pg_ok_def nothing_pending_def)
  next
    case (Inr x)
    then have "\<exists>T'. pg_update_effect (pg_shake256 pg) (visible (snd t)) request x T' \<and> nothing_pending visible snap T' (snd t') \<and>
       (x = UpdateResult.UPDATE_SUCCESS None \<longrightarrow> settled visible snap T' (snd t'))" using out by simp
    then obtain T' where "pg_update_effect (pg_shake256 pg) (visible (snd t)) request x T'" "nothing_pending visible snap T' (snd t')"
      by (elim exE conjE)
    moreover from this(2) have "visible (snd t') = T'" by (simp add: nothing_pending_def)
    ultimately show ?thesis using Inr pg_ok_stored [of T' t'] by (intro exI [of _ T'] conjI impI) simp_all
  qed
qed

lemma plugin_delete:
  assumes "pg_ok visible snap t" "with_pool_client pg (pg_deleteDocumentByDocumentUuid pg request) t = (r, t')"
  shows "\<exists>T'. (case r of Inl e \<Rightarrow> T' = visible (snd t) | Inr x \<Rightarrow> pg_delete_effect (visible (snd t)) request x T') \<and>
    visible (snd t') = T' \<and> (table_constraints T' \<longrightarrow> pg_ok visible snap t')"
  using assms
proof (cases rule: with_pool_cases)
  case (failed e)
  then show ?thesis by simp
next
  case (ran s)
  note out = outcomeD [OF pg_delete_outcome ran]
  show ?thesis
  proof (cases r)
    case (Inl e)
    then show ?thesis using out by (auto simp: pg_ok_def nothing_pending_def)
  next
    case (Inr x)
    then obtain T' where "pg_delete_effect (visible (snd t)) request x T'" "nothing_pending visible snap T' (snd t')"
      using out by (auto dest: settled_pending)
    moreover from this(2) have "visible (snd t') = T'" by (simp add: nothing_pending_def)
    ultimately show ?thesis using Inr pg_ok_stored [of T' t'] by (intro exI [of _ T'] conjI impI) simp_all
  qed
qed

lemma plugin_read:
  assumes "pg_ok visible snap t" "with_pool_client pg m t = (r, t')"
    and "\<And>T. outcome (nothing_pending visible snap T) m (\<lambda>x s. nothing_pending visible snap T s \<and> F T x) (nothing_pending visible snap T)"
  shows "pg_ok visible snap t' \<and> visible (snd t') = visible (snd t) \<and> (\<forall>x. r = Inr x \<longrightarrow> F (visible (snd t)) x)"
  using assms(1,2)
proof (cases rule: with_pool_cases)
  case (ran s)
  have "table_constraints (visible (snd t))" using assms(1) by (simp add: pg_ok_def)
  then show ?thesis using outcomeD [OF assms(3) ran] pg_ok_stored [of "visible (snd t)" t'] by (cases r) auto
qed simp

lemma upsert_failed_effect:
  "pg_upsert_effect shake256 T request x T' \<Longrightarrow> (\<And>m u. x \<noteq> INSERT_SUCCESS m u) \<Longrightarrow>
   (\<And>m u. x \<noteq> UpsertResult.UPDATE_SUCCESS m u) \<Longrightarrow> T' = T"
  by (cases x) (auto simp: pg_upsert_effect_def)

lemma update_failed_effect:
  "pg_update_effect shake256 T urequest y T' \<Longrightarrow> (\<And>m. y \<noteq> UpdateResult.UPDATE_SUCCESS m) \<Longrightarrow> T' = T"
  by (cases y) (auto simp: pg_update_effect_def)

lemma pg_contract: "document_store (pg_initializeDocumentStore pg) (pg_ok visible snap) (pg_stored visible)"
proof (unfold_locales, unfold pg_initializeDocumentStore_def DocumentStorePlugin.simps pg_stored_def, goal_cases)
  case (1 t req m u t')
  obtain T' where T': "pg_upsert_effect (pg_shake256 pg) (visible (snd t)) req (INSERT_SUCCESS m u) T'"
    "visible (snd t') = T'" "table_constraints T' \<longrightarrow> pg_ok visible snap t'" using plugin_upsert [OF 1] by auto
  then show ?case using insert_pairs [OF T'(1)] by simp
next
  case (2 t req m u t')
  obtain T' where T': "pg_upsert_effect (pg_shake256 pg) (visible (snd t)) req (UpsertResult.UPDATE_SUCCESS m u) T'"
    "visible (snd t') = T'" "table_constraints T' \<longrightarrow> pg_ok visible snap t'" using plugin_upsert [OF 2] by auto
  then obtain old where "old \<in> set (t_documents (visible (snd t)))" "pgd_document_uuid old = u"
    "related_rows (pg_shake256 pg) req (ur_meadowlarkId req) u (with_updated req u (visible (snd t))) T'"
    by (auto simp: pg_upsert_effect_def)
  then show ?case using updated_pair [of "pg_shake256 pg" req _ u _ T' old] T' by simp
next
  case (3 t req r t')
  have ok: "table_constraints (visible (snd t))" using 3(1) by (simp add: pg_ok_def)
  obtain T' where T': "case r of Inl e \<Rightarrow> T' = visible (snd t) | Inr x \<Rightarrow> pg_upsert_effect (pg_shake256 pg) (visible (snd t)) req x T'"
    "visible (snd t') = T'" "table_constraints T' \<longrightarrow> pg_ok visible snap t'" using plugin_upsert [OF 3(1,2)] by auto
  have "T' = visible (snd t)"
  proof (cases r)
    case (Inr x)
    then have "pg_upsert_effect (pg_shake256 pg) (visible (snd t)) req x T'" using T'(1) by simp
    then show ?thesis by (rule upsert_failed_effect) (use 3(3,4) Inr in simp_all)
  qed (use T'(1) in simp)
  then show ?case using ok T' by simp
next
  case (4 t req m t')
  obtain T' where T': "pg_update_effect (pg_shake256 pg) (visible (snd t)) req (UpdateResult.UPDATE_SUCCESS m) T'"
    "visible (snd t') = T'" "table_constraints T' \<longrightarrow> pg_ok visible snap t'" using plugin_update [OF 4] by auto
  then obtain old where "old \<in> set (t_documents (visible (snd t)))" "pgd_document_uuid old = upd_documentUuid req"
    "related_rows (pg_shake256 pg) req (pgd_meadowlark_id old) (upd_documentUuid req) (with_updated req (upd_documentUuid req) (visible (snd t))) T'"
    by (auto simp: pg_update_effect_def)
  then show ?case using updated_pair [of "pg_shake256 pg" req _ _ _ T' old] T' by simp
next
  case (5 t req r t')
  have ok: "table_constraints (visible (snd t))" using 5(1) by (simp add: pg_ok_def)
  obtain T' where T': "case r of Inl e \<Rightarrow> T' = visible (snd t) | Inr x \<Rightarrow> pg_update_effect (pg_shake256 pg) (visible (snd t)) req x T'"
    "visible (snd t') = T'" "table_constraints T' \<longrightarrow> pg_ok visible snap t'" using plugin_update [OF 5(1,2)] by auto
  have "T' = visible (snd t)"
  proof (cases r)
    case (Inr x)
    then have "pg_update_effect (pg_shake256 pg) (visible (snd t)) req x T'" using T'(1) by simp
    then show ?thesis by (rule update_failed_effect) (use 5(3) Inr in simp_all)
  qed (use T'(1) in simp)
  then show ?case using ok T' by simp
next
  case (6 t dreq t')
  obtain T' where T': "pg_delete_effect (visible (snd t)) dreq DELETE_SUCCESS T'"
    "visible (snd t') = T'" "table_constraints T' \<longrightarrow> pg_ok visible snap t'" using plugin_delete [OF 6] by auto
  then show ?case using delete_pairs [OF T'(1)] by simp
next
  case (7 t dreq r t')
  have ok: "table_constraints (visible (snd t))" using 7(1) by (simp add: pg_ok_def)
  obtain T' where T': "case r of Inl e \<Rightarrow> T' = visible (snd t) | Inr x \<Rightarrow> pg_delete_effect (visible (snd t)) dreq x T'"
    "visible (snd t') = T'" "table_constraints T' \<longrightarrow> pg_ok visible snap t'" using plugin_delete [OF 7(1,2)] by auto
  show ?case
  proof (cases r)
    case (Inl e)
    then show ?thesis using T' ok by simp
  next
    case (Inr x)
    then have "t_documents T' = t_documents (visible (snd t)) \<and> table_constraints T'"
      using delete_failure_pairs [of _ dreq x T'] T'(1) 7(3) ok by simp
    then show ?thesis using T' by (simp add: document_pairs_def)
  qed
next
  case (8 t greq r t')
  have "pg_ok visible snap t' \<and> visible (snd t') = visible (snd t) \<and> (\<forall>x. r = Inr x \<longrightarrow> True)"
    by (rule plugin_read [OF 8]) (rule outcome_conseq [OF get_outcome], auto)
  then show ?case by simp
next
  case (9 t greq g t')
  let ?F = "\<lambda>T (g :: GetResult). gr_documentUuid g = get_documentUuid greq \<and> (gr_response g = GetResponse.GET_SUCCESS \<longrightarrow>
     (get_documentUuid greq, gr_edfiDoc g) \<in> document_pairs T)"
  have "pg_ok visible snap t' \<and> visible (snd t') = visible (snd t) \<and> (\<forall>x. (Inr g :: GetResult res) = Inr x \<longrightarrow> ?F (visible (snd t)) x)"
  proof (rule plugin_read [where F = ?F, OF 9(1,2)], rule outcome_conseq [OF get_outcome])
    fix T and x :: GetResult and s
    assume "nothing_pending visible snap T s \<and> gr_documentUuid x = get_documentUuid greq \<and>
       (case gr_response x of
          GetResponse.GET_SUCCESS \<Rightarrow> \<exists>d \<in> set (t_documents T). pgd_document_uuid d = get_documentUuid greq \<and>
            gr_edfiDoc x = pgd_edfi_doc d \<and> gr_lastModifiedDate x = pgd_last_modified_at d
        | GetResponse.GET_FAILURE_NOT_EXISTS \<Rightarrow> \<forall>d \<in> set (t_documents T). pgd_document_uuid d \<noteq> get_documentUuid greq
        | _ \<Rightarrow> True)"
    then show "nothing_pending visible snap T s \<and> ?F T x" by (auto intro: document_pairsI)
  qed auto
  then show ?case using 9(3) by simp
next
  case (10 t model r t')
  have "pg_ok visible snap t' \<and> visible (snd t') = visible (snd t) \<and> (\<forall>x. r = Inr x \<longrightarrow> True)"
    by (rule plugin_read [OF 10]) (rule outcome_conseq [OF security_outcome], auto)
  then show ?case by simp
qed

end

end
