(* ===== verification/PgIntegrity.thy ===== *)
theory PgIntegrity
  imports PgPlugin MongoIntegrity
begin

text \<open>
  Referential integrity of the PostgreSQL backend as an invariant of its operations: the alias table holds the rows
  of the stored documents and no others, every row of the reference table starts at a stored document and leads to
  an alias.  \<open>pg_admissible\<close> says which requests are served: references are validated, the aliases of a document
  depend only on its id, and no update changes an identity.
\<close>

section \<open>The state machine\<close>

fun pg_run_request :: "'s pg_ops \<Rightarrow> mongo_request \<Rightarrow> 's \<Rightarrow> 's" where
  "pg_run_request pg (UpsertOf q) s = snd (pg_upsertDocument pg q s)"
| "pg_run_request pg (UpdateOf q) s = snd (pg_updateDocumentByDocumentUuid pg q s)"
| "pg_run_request pg (DeleteOf q) s = snd (pg_deleteDocumentByDocumentUuid pg q s)"
| "pg_run_request pg (GetOf q) s = snd (pg_getDocumentByDocumentUuid pg q s)"
| "pg_run_request pg (SecureOf m) s = snd (pg_securityMiddleware pg m s)"

inductive pg_reachable :: "'s pg_ops \<Rightarrow> (mongo_request \<Rightarrow> bool) \<Rightarrow> 's \<Rightarrow> 's \<Rightarrow> bool"
  for pg allowed s0 where
  pg_start: "pg_reachable pg allowed s0 s0"
| pg_step: "pg_reachable pg allowed s0 s \<Longrightarrow> allowed q \<Longrightarrow> pg_reachable pg allowed s0 (pg_run_request pg q s)"

inductive_cases pg_reachableE: "pg_reachable pg allowed s0 s"

lemma pg_reachable_fold:
  "list_all allowed qs \<Longrightarrow> pg_reachable pg allowed s0 (fold (pg_run_request pg) qs s0)"
proof (induction qs rule: rev_induct)
  case Nil
  then show ?case by (simp add: pg_start)
next
  case (snoc q qs)
  then show ?case by (simp add: pg_step)
qed

fun pg_admissible :: "'s pg_ops \<Rightarrow> (MeadowlarkId \<Rightarrow> MeadowlarkId list) \<Rightarrow> mongo_request \<Rightarrow> bool" where
  "pg_admissible pg alias (UpsertOf q) \<longleftrightarrow> ur_validateDocumentReferencesExist q \<and>
     aliasMeadowlarkIdsFrom (pg_shake256 pg) (ur_meadowlarkId q) (di_superclassInfo (ur_documentInfo q)) =
       Inr (alias (ur_meadowlarkId q))"
| "pg_admissible pg alias (UpdateOf q) \<longleftrightarrow> ur_validateDocumentReferencesExist q \<and>
     \<not> ri_allowIdentityUpdates (ur_resourceInfo q) \<and>
     aliasMeadowlarkIdsFrom (pg_shake256 pg) (ur_meadowlarkId q) (di_superclassInfo (ur_documentInfo q)) =
       Inr (alias (ur_meadowlarkId q))"
| "pg_admissible pg alias (DeleteOf q) \<longleftrightarrow> del_validateNoReferencesToDocument q"
| "pg_admissible pg alias _ \<longleftrightarrow> True"

section \<open>The invariant\<close>

definition alias_rows :: "(MeadowlarkId \<Rightarrow> MeadowlarkId list) \<Rightarrow> pg_document \<Rightarrow> pg_alias set" where
  "alias_rows alias d = (\<lambda>i. \<lparr>pga_document_uuid = pgd_document_uuid d, pga_meadowlark_id = pgd_meadowlark_id d,
     pga_alias_meadowlark_id = i\<rparr>) ` set (alias (pgd_meadowlark_id d))"

definition pg_aliased :: "(MeadowlarkId \<Rightarrow> MeadowlarkId list) \<Rightarrow> tables \<Rightarrow> bool" where
  "pg_aliased alias T \<longleftrightarrow> set (t_aliases T) = (\<Union>d \<in> set (t_documents T). alias_rows alias d) \<and> distinct (alias_ids T) \<and>
     (\<forall>d \<in> set (t_documents T). pgd_meadowlark_id d \<in> set (alias (pgd_meadowlark_id d)))"

definition pg_resolved :: "tables \<Rightarrow> bool" where
  "pg_resolved T \<longleftrightarrow> (\<forall>r \<in> set (t_references T).
     pgr_parent_meadowlark_id r \<in> pgd_meadowlark_id ` set (t_documents T) \<and>
     pgr_referenced_meadowlark_id r \<in> set (alias_ids T))"

definition pg_integral :: "(MeadowlarkId \<Rightarrow> MeadowlarkId list) \<Rightarrow> tables \<Rightarrow> bool" where
  "pg_integral alias T \<longleftrightarrow> table_constraints T \<and> pg_aliased alias T \<and> pg_resolved T"

lemma alias_row:
  "a \<in> alias_rows alias d \<longleftrightarrow> pga_document_uuid a = pgd_document_uuid d \<and> pga_meadowlark_id a = pgd_meadowlark_id d \<and>
     pga_alias_meadowlark_id a \<in> set (alias (pgd_meadowlark_id d))"
  by (cases a) (auto simp: alias_rows_def)

lemma pg_aliasedD:
  assumes "pg_aliased alias T"
  shows "a \<in> set (t_aliases T) \<Longrightarrow> \<exists>d \<in> set (t_documents T). pga_document_uuid a = pgd_document_uuid d \<and>
      pga_meadowlark_id a = pgd_meadowlark_id d \<and> pga_alias_meadowlark_id a \<in> set (alias (pgd_meadowlark_id d))"
    and "distinct (alias_ids T)"
    and "d \<in> set (t_documents T) \<Longrightarrow> pgd_meadowlark_id d \<in> set (alias (pgd_meadowlark_id d))"
  using assms by (auto simp: pg_aliased_def alias_row)

text \<open>An alias id has one row.\<close>

lemma alias_rows_inj:
  "distinct (alias_ids T) \<Longrightarrow> a \<in> set (t_aliases T) \<Longrightarrow> b \<in> set (t_aliases T) \<Longrightarrow>
   pga_alias_meadowlark_id a = pga_alias_meadowlark_id b \<Longrightarrow> a = b"
  by (auto simp: alias_ids_def distinct_map dest: inj_onD)

lemma documents_inj:
  assumes "table_constraints T" "d \<in> set (t_documents T)" "e \<in> set (t_documents T)"
  shows "pgd_meadowlark_id d = pgd_meadowlark_id e \<Longrightarrow> d = e"
    and "pgd_document_uuid d = pgd_document_uuid e \<Longrightarrow> d = e"
  using assms by (auto simp: table_constraints_def distinct_map dest: inj_onD)

lemma alias_ids_replace:
  "alias_ids (replace_aliases i u j ids T) =
     map pga_alias_meadowlark_id (filter (\<lambda>a. pga_meadowlark_id a \<noteq> i) (t_aliases T)) @ ids"
  by (simp add: alias_ids_def replace_aliases_def comp_def)

lemma alias_ids_references [simp]: "alias_ids (replace_references i j refs T) = alias_ids T"
  by (simp add: alias_ids_def)

text \<open>Rows for the document \<open>d\<close>, whose id is new or was its own, keep the alias table in step.\<close>

lemma aliased_replace:
  assumes old: "pg_aliased alias T"
    and docs: "set (t_documents T') = insert d {e \<in> set (t_documents T). pgd_meadowlark_id e \<noteq> pgd_meadowlark_id d}"
    and rows: "t_aliases T' = t_aliases (replace_aliases (pgd_meadowlark_id d) (pgd_document_uuid d) (pgd_meadowlark_id d)
                 (alias (pgd_meadowlark_id d)) T)"
    and ids: "distinct (alias (pgd_meadowlark_id d))" "pgd_meadowlark_id d \<in> set (alias (pgd_meadowlark_id d))"
    and new: "\<And>a. a \<in> set (t_aliases T) \<Longrightarrow> pga_meadowlark_id a \<noteq> pgd_meadowlark_id d \<Longrightarrow>
       pga_alias_meadowlark_id a \<notin> set (alias (pgd_meadowlark_id d))"
  shows "pg_aliased alias T'"
  unfolding pg_aliased_def
proof (intro conjI)
  let ?i = "pgd_meadowlark_id d"
  let ?kept = "filter (\<lambda>a. pga_meadowlark_id a \<noteq> ?i) (t_aliases T)"
  have all: "set (t_aliases T) = (\<Union>d \<in> set (t_documents T). alias_rows alias d)" "distinct (alias_ids T)"
    using old by (simp_all add: pg_aliased_def)
  have "set (t_aliases T') = set ?kept \<union> alias_rows alias d"
    by (auto simp: rows replace_aliases_def alias_rows_def)
  also have "set ?kept = (\<Union>e \<in> {e \<in> set (t_documents T). pgd_meadowlark_id e \<noteq> ?i}. alias_rows alias e)"
    by (auto simp: all(1) alias_row)
  finally show "set (t_aliases T') = (\<Union>d \<in> set (t_documents T'). alias_rows alias d)" by (auto simp: docs)
  have "alias_ids T' = map pga_alias_meadowlark_id ?kept @ alias ?i"
    by (simp add: alias_ids_def rows replace_aliases_def comp_def)
  moreover have "distinct (map pga_alias_meadowlark_id ?kept)"
    using all(2) by (simp add: alias_ids_def distinct_map_filter)
  moreover have "set (map pga_alias_meadowlark_id ?kept) \<inter> set (alias ?i) = {}" using new by auto
  ultimately show "distinct (alias_ids T')" using ids by simp
  show "\<forall>e \<in> set (t_documents T'). pgd_meadowlark_id e \<in> set (alias (pgd_meadowlark_id e))"
    using docs ids(2) pg_aliasedD(3) [OF old] by auto
qed

section \<open>The operations keep it\<close>

lemma validated_references:
  assumes "distinct (alias_ids T)" "ur_validateDocumentReferencesExist request" "validated_in shake256 T request"
    and "referencedDocumentIdsFrom shake256 (ur_documentInfo request) = Inr refs"
  shows "set refs \<subseteq> set (alias_ids T)"
  using assms(2-4)
  by (auto simp: validated_in_def passing_references_def referencedDocumentIdsFrom_def dest!: passes_sound [OF assms(1)])

lemma resolved_replace:
  assumes "pg_resolved T" "set refs \<subseteq> set (alias_ids T)" "set (alias_ids T) \<subseteq> set (alias_ids T')"
    and "t_references T' = t_references (replace_references i i refs T)"
    and "pgd_meadowlark_id ` set (t_documents T') = insert i (pgd_meadowlark_id ` set (t_documents T))"
  shows "pg_resolved T'"
  using assms unfolding pg_resolved_def by (auto simp: replace_references_def)

text \<open>The write of a document under an id that was its own or no one's.\<close>

lemma integral_write:
  assumes inv: "pg_integral alias T" and rows: "related_rows shake256 request (ur_meadowlarkId request) u D T'"
    and D: "t_aliases D = t_aliases T" "t_references D = t_references T"
    and docs: "set (t_documents D) = insert d {e \<in> set (t_documents T). pgd_meadowlark_id e \<noteq> ur_meadowlarkId request}"
    and d: "pgd_meadowlark_id d = ur_meadowlarkId request" "pgd_document_uuid d = u"
    and valid: "ur_validateDocumentReferencesExist request" "validated_in shake256 T request"
    and ids: "aliasMeadowlarkIdsFrom shake256 (ur_meadowlarkId request) (di_superclassInfo (ur_documentInfo request)) =
       Inr (alias (ur_meadowlarkId request))" "distinct (alias (ur_meadowlarkId request))"
    and new: "\<And>a. a \<in> set (t_aliases T) \<Longrightarrow> pga_meadowlark_id a \<noteq> ur_meadowlarkId request \<Longrightarrow>
       pga_alias_meadowlark_id a \<notin> set (alias (ur_meadowlarkId request))"
  shows "pg_integral alias T'"
proof -
  let ?i = "ur_meadowlarkId request"
  have old: "pg_aliased alias T" "pg_resolved T" "distinct (alias_ids T)"
    using inv by (auto simp: pg_integral_def pg_aliased_def)
  obtain refs where refs: "referencedDocumentIdsFrom shake256 (ur_documentInfo request) = Inr refs"
    and T': "T' = replace_references ?i ?i refs (replace_aliases ?i u ?i (alias ?i) D)" "table_constraints T'"
    using rows ids(1) by (auto simp: related_rows_def)
  have "pg_aliased alias T'"
    by (rule aliased_replace [OF old(1), of _ d])
      (use docs d ids(2) own_alias [OF ids(1)] new in \<open>auto simp: T'(1) D replace_aliases_def replace_references_def\<close>)
  moreover have "set (alias_ids T) \<subseteq> set (alias_ids T')"
  proof
    fix i assume "i \<in> set (alias_ids T)"
    then obtain a where a: "a \<in> set (t_aliases T)" "i = pga_alias_meadowlark_id a" by (auto simp: alias_ids_def)
    then obtain e where e: "e \<in> set (t_documents T)" "a \<in> alias_rows alias e"
      using old(1) by (auto simp: pg_aliased_def)
    show "i \<in> set (alias_ids T')"
      using a e by (cases "pga_meadowlark_id a = ?i") (auto simp: T'(1) alias_ids_replace D alias_row)
  qed
  moreover have "pgd_meadowlark_id ` set (t_documents T') = insert ?i (pgd_meadowlark_id ` set (t_documents T))"
    using d(1) by (auto simp: T'(1) docs)
  ultimately show ?thesis
    using resolved_replace [OF old(2) validated_references [OF old(3) valid refs], of T' ?i] T'
    by (simp add: pg_integral_def replace_references_def D)
qed

lemma no_rows:
  "pg_aliased alias T \<Longrightarrow> \<forall>d \<in> set (t_documents T). pgd_meadowlark_id d \<noteq> i \<Longrightarrow> a \<in> set (t_aliases T) \<Longrightarrow> pga_meadowlark_id a \<noteq> i"
  using pg_aliasedD(1) by force

text \<open>The ids of a document are its own and that of its superclass.\<close>

lemma superclass_only:
  assumes "aliasMeadowlarkIdsFrom shake256 i info = Inr ids" "a \<in> set ids" "a \<noteq> i"
  shows "\<exists>si. info = Some si \<and> getMeadowlarkIdForSuperclassInfo shake256 si = Inr a"
  using assms by (cases info) (auto simp: aliasMeadowlarkIdsFrom_def)

lemma pg_integral_insert:
  assumes law: "alias_law alias" "\<And>i. distinct (alias i)" and inv: "pg_integral alias T"
    and eff: "pg_upsert_effect shake256 T request (INSERT_SUCCESS m u) T'" "ur_validateDocumentReferencesExist request"
    and ids: "aliasMeadowlarkIdsFrom shake256 (ur_meadowlarkId request) (di_superclassInfo (ur_documentInfo request)) =
       Inr (alias (ur_meadowlarkId request))"
  shows "pg_integral alias T'"
proof -
  let ?i = "ur_meadowlarkId request"
  have e: "\<forall>d \<in> set (t_documents T). pgd_meadowlark_id d \<noteq> ?i" "superclass_unused shake256 T (ur_documentInfo request)"
    "validated_in shake256 T request" "related_rows shake256 request ?i u (with_inserted request u T) T'"
    using eff(1) by (simp_all add: pg_upsert_effect_def)
  show ?thesis
  proof (rule integral_write [OF inv e(4) _ _ _ _ _ eff(2) e(3) ids law(2), of "inserted_row request u"])
    fix a assume a: "a \<in> set (t_aliases T)"
    show "pga_alias_meadowlark_id a \<notin> set (alias ?i)"
    proof
      assume hit: "pga_alias_meadowlark_id a \<in> set (alias ?i)"
      obtain d where d: "d \<in> set (t_documents T)" "pga_alias_meadowlark_id a \<in> set (alias (pgd_meadowlark_id d))"
        using pg_aliasedD(1) [of _ T a] inv a by (auto simp: pg_integral_def)
      show False
      proof (cases "pga_alias_meadowlark_id a = ?i")
        case True
        then have "pgd_meadowlark_id d = ?i" using d(2) alias_lawD [OF law(1) own_alias [OF ids]] by simp
        then show False using e(1) d(1) by blast
      next
        case False
        then have "pga_alias_meadowlark_id a \<notin> set (alias_ids T)"
          using superclass_only [OF ids hit False] e(2) by (auto simp: superclass_unused_def)
        then show False using a by (simp add: alias_ids_def)
      qed
    qed
  qed (use e(1) in \<open>auto simp: with_inserted_def inserted_row_def\<close>)
qed

lemma pg_integral_update:
  assumes law: "\<And>i. distinct (alias i)" and inv: "pg_integral alias T"
    and old: "old \<in> set (t_documents T)" "pgd_meadowlark_id old = ur_meadowlarkId request" "pgd_document_uuid old = u"
    and rows: "related_rows shake256 request (ur_meadowlarkId request) u (with_updated request u T) T'"
    and valid: "ur_validateDocumentReferencesExist request" "validated_in shake256 T request"
    and ids: "aliasMeadowlarkIdsFrom shake256 (ur_meadowlarkId request) (di_superclassInfo (ur_documentInfo request)) =
       Inr (alias (ur_meadowlarkId request))"
  shows "pg_integral alias T'"
proof -
  let ?i = "ur_meadowlarkId request"
  have tc: "table_constraints T" and al: "pg_aliased alias T" using inv by (simp_all add: pg_integral_def)
  have only: "pgd_document_uuid e = u \<longleftrightarrow> pgd_meadowlark_id e = ?i" if "e \<in> set (t_documents T)" for e
    using documents_inj [OF tc that old(1)] old(2,3) by auto
  have single: "e = old" if "e \<in> set (t_documents T)" "pgd_document_uuid e = u" for e
    using documents_inj(2) [OF tc that(1) old(1)] that(2) old(3) by simp
  show ?thesis
  proof (rule integral_write [OF inv rows _ _ _ _ _ valid ids law, of "updated_row request old"])
    have "set (t_documents (with_updated request u T)) =
      updated_row request ` {e \<in> set (t_documents T). pgd_document_uuid e = u} \<union> {e \<in> set (t_documents T). pgd_document_uuid e \<noteq> u}"
      by (auto simp: with_updated_def)
    moreover have "{e \<in> set (t_documents T). pgd_document_uuid e = u} = {old}"
      using single old(1,3) by blast
    moreover have "{e \<in> set (t_documents T). pgd_document_uuid e \<noteq> u} = {e \<in> set (t_documents T). pgd_meadowlark_id e \<noteq> ?i}"
      using only by blast
    ultimately show "set (t_documents (with_updated request u T)) =
      insert (updated_row request old) {e \<in> set (t_documents T). pgd_meadowlark_id e \<noteq> ?i}" by simp
  next
    fix a assume a: "a \<in> set (t_aliases T)" "pga_meadowlark_id a \<noteq> ?i"
    show "pga_alias_meadowlark_id a \<notin> set (alias ?i)"
    proof
      let ?b = "\<lparr>pga_document_uuid = u, pga_meadowlark_id = ?i, pga_alias_meadowlark_id = pga_alias_meadowlark_id a\<rparr>"
      assume "pga_alias_meadowlark_id a \<in> set (alias ?i)"
      then have "?b \<in> alias_rows alias old" using old(2,3) by (simp add: alias_row)
      then have "?b \<in> set (t_aliases T)" using al old(1) by (auto simp: pg_aliased_def)
      then have "a = ?b" using alias_rows_inj [OF pg_aliasedD(2) [OF al] a(1)] by simp
      then have "pga_meadowlark_id a = pga_meadowlark_id ?b" by (rule arg_cong)
      then show False using a(2) by simp
    qed
  qed (use old in \<open>simp_all add: with_updated_def updated_row_def\<close>)
qed

lemma pg_integral_delete:
  assumes inv: "pg_integral alias T"
    and i: "alias_owner T u i" "i \<noteq> ''''" "unreferenced T u i" and tc': "table_constraints (without_document u i T)"
  shows "pg_integral alias (without_document u i T)"
proof -
  let ?T = "without_document u i T"
  have tc: "table_constraints T" and al: "pg_aliased alias T" and re: "pg_resolved T" using inv by (simp_all add: pg_integral_def)
  obtain a where a: "a \<in> set (t_aliases T)" "pga_document_uuid a = u" "pga_meadowlark_id a = i"
    using i(1,2) by (auto simp: alias_owner_def)
  then obtain d where d: "d \<in> set (t_documents T)" "pgd_document_uuid d = u" "pgd_meadowlark_id d = i"
    using pg_aliasedD(1) [OF al a(1)] by auto
  have only: "pgd_document_uuid e = u \<longleftrightarrow> pgd_meadowlark_id e = i" if "e \<in> set (t_documents T)" for e
    using documents_inj [OF tc that d(1)] d(2,3) by auto
  have kept: "pga_meadowlark_id b = i \<longleftrightarrow> pga_document_uuid b = u" if "b \<in> set (t_aliases T)" for b
    using pg_aliasedD(1) [OF al that] only by metis
  have "pg_aliased alias ?T"
    unfolding pg_aliased_def
  proof (intro conjI)
    have "set (t_aliases ?T) = {b \<in> set (t_aliases T). pga_meadowlark_id b \<noteq> i}" by (auto simp: without_document_def)
    also have "\<dots> = (\<Union>e \<in> {e \<in> set (t_documents T). pgd_meadowlark_id e \<noteq> i}. alias_rows alias e)"
      using al by (auto simp: pg_aliased_def alias_row)
    also have "{e \<in> set (t_documents T). pgd_meadowlark_id e \<noteq> i} = set (t_documents ?T)"
      using only by (auto simp: without_document_def)
    finally show "set (t_aliases ?T) = (\<Union>d \<in> set (t_documents ?T). alias_rows alias d)" .
    show "distinct (alias_ids ?T)"
      using pg_aliasedD(2) [OF al] by (simp add: alias_ids_def without_document_def distinct_map_filter)
    show "\<forall>d \<in> set (t_documents ?T). pgd_meadowlark_id d \<in> set (alias (pgd_meadowlark_id d))"
      using pg_aliasedD(3) [OF al] by (auto simp: without_document_def)
  qed
  moreover have "pg_resolved ?T"
    unfolding pg_resolved_def
  proof
    fix r assume "r \<in> set (t_references ?T)"
    then have r: "r \<in> set (t_references T)" "pgr_parent_meadowlark_id r \<noteq> i" by (auto simp: without_document_def)
    obtain e where e: "e \<in> set (t_documents T)" "pgd_meadowlark_id e = pgr_parent_meadowlark_id r"
      using re r(1) unfolding pg_resolved_def by (metis image_iff)
    then have "e \<in> set (t_documents ?T)" using only r(2) by (auto simp: without_document_def)
    moreover obtain b where b: "b \<in> set (t_aliases T)" "pga_alias_meadowlark_id b = pgr_referenced_meadowlark_id r"
      using re r(1) unfolding pg_resolved_def alias_ids_def by fastforce
    have "pga_document_uuid b \<noteq> u" using i(3) r b unfolding unreferenced_def by metis
    then have "b \<in> set (t_aliases ?T)" using b(1) kept by (auto simp: without_document_def)
    ultimately show "pgr_parent_meadowlark_id r \<in> pgd_meadowlark_id ` set (t_documents ?T) \<and>
        pgr_referenced_meadowlark_id r \<in> set (alias_ids ?T)"
      using e(2) b(2) unfolding alias_ids_def by (metis image_eqI image_set)
  qed
  ultimately show ?thesis using tc' by (simp add: pg_integral_def)
qed

section \<open>Every reachable state has it\<close>

definition empty_tables :: tables where
  "empty_tables = \<lparr>t_documents = [], t_references = [], t_aliases = [], t_authorizations = []\<rparr>"

lemma integral_empty: "pg_integral alias empty_tables"
  by (simp add: pg_integral_def empty_tables_def table_constraints_def pg_aliased_def pg_resolved_def alias_ids_def)

context pg_store
begin

lemma run_upsert_integral:
  assumes law: "alias_law alias" "\<And>i. distinct (alias i)" and s: "nothing_pending visible snap T s" "pg_integral alias T"
    and q: "pg_admissible pg alias (UpsertOf q)"
  shows "\<exists>T'. nothing_pending visible snap T' (pg_run_request pg (UpsertOf q) s) \<and> pg_integral alias T'"
proof -
  obtain r s' where run: "pg_upsertDocument pg q s = (r, s')" by (cases "pg_upsertDocument pg q s")
  note out = outcomeD [OF pg_upsert_outcome s(1) run]
  have ids: "aliasMeadowlarkIdsFrom (pg_shake256 pg) (ur_meadowlarkId q) (di_superclassInfo (ur_documentInfo q)) = Inr (alias (ur_meadowlarkId q))"
    "ur_validateDocumentReferencesExist q" using q by simp_all
  have "\<exists>T'. nothing_pending visible snap T' s' \<and> pg_integral alias T'"
  proof (cases r)
    case (Inl e)
    then show ?thesis using out s(2) by auto
  next
    case (Inr x)
    then obtain T' where T': "pg_upsert_effect (pg_shake256 pg) T q x T'" "nothing_pending visible snap T' s'"
      using out by (auto dest: txn_pending settled_pending split: if_splits)
    have "pg_integral alias T'"
    proof (cases x)
      case (INSERT_SUCCESS m u)
      show ?thesis by (rule pg_integral_insert [OF law s(2) T'(1) [unfolded INSERT_SUCCESS] ids(2,1)])
    next
      case (UPDATE_SUCCESS m u)
      then obtain old where "old \<in> set (t_documents T)" "pgd_meadowlark_id old = ur_meadowlarkId q" "pgd_document_uuid old = u"
        "validated_in (pg_shake256 pg) T q"
        "related_rows (pg_shake256 pg) q (ur_meadowlarkId q) u (with_updated q u T) T'"
        using T'(1) by (auto simp: pg_upsert_effect_def)
      then show ?thesis using pg_integral_update [OF law(2) s(2) _ _ _ _ ids(2) _ ids(1)] by blast
    qed (use T'(1) s(2) in \<open>auto simp: pg_upsert_effect_def\<close>)
    then show ?thesis using T'(2) by blast
  qed
  then show ?thesis using run by simp
qed

lemma run_update_integral:
  assumes law: "alias_law alias" "\<And>i. distinct (alias i)" and s: "nothing_pending visible snap T s" "pg_integral alias T"
    and q: "pg_admissible pg alias (UpdateOf q)"
  shows "\<exists>T'. nothing_pending visible snap T' (pg_run_request pg (UpdateOf q) s) \<and> pg_integral alias T'"
proof -
  obtain r s' where run: "pg_updateDocumentByDocumentUuid pg q s = (r, s')" by (cases "pg_updateDocumentByDocumentUuid pg q s")
  note out = outcomeD [OF pg_update_outcome s(1) run]
  have ids: "aliasMeadowlarkIdsFrom (pg_shake256 pg) (ur_meadowlarkId q) (di_superclassInfo (ur_documentInfo q)) = Inr (alias (ur_meadowlarkId q))"
    "ur_validateDocumentReferencesExist q" "\<not> ri_allowIdentityUpdates (ur_resourceInfo q)" using q by simp_all
  have "\<exists>T'. nothing_pending visible snap T' s' \<and> pg_integral alias T'"
  proof (cases r)
    case (Inl e)
    then show ?thesis using out s(2) by auto
  next
    case (Inr x)
    then have "\<exists>T'. pg_update_effect (pg_shake256 pg) T q x T' \<and> nothing_pending visible snap T' s' \<and>
       (x = UpdateResult.UPDATE_SUCCESS None \<longrightarrow> settled visible snap T' s')" using out by simp
    then obtain T' where T': "pg_update_effect (pg_shake256 pg) T q x T'" "nothing_pending visible snap T' s'"
      by (elim exE conjE)
    have "pg_integral alias T'"
    proof (cases x)
      case (UPDATE_SUCCESS m)
      then obtain old where old: "old \<in> set (t_documents T)" "pgd_meadowlark_id old = ur_meadowlarkId q"
        "pgd_document_uuid old = upd_documentUuid q" "validated_in (pg_shake256 pg) T q"
        "related_rows (pg_shake256 pg) q (pgd_meadowlark_id old) (upd_documentUuid q) (with_updated q (upd_documentUuid q) T) T'"
        using T'(1) ids(3) by (auto simp: pg_update_effect_def)
      show ?thesis by (rule pg_integral_update [OF law(2) s(2) old(1-3) old(5) [unfolded old(2)] ids(2) old(4) ids(1)])
    qed (use T'(1) s(2) in \<open>auto simp: pg_update_effect_def\<close>)
    then show ?thesis using T'(2) by blast
  qed
  then show ?thesis using run by simp
qed

lemma run_delete_integral:
  assumes s: "nothing_pending visible snap T s" "pg_integral alias T"
    and q: "pg_admissible pg alias (DeleteOf q)"
  shows "\<exists>T'. nothing_pending visible snap T' (pg_run_request pg (DeleteOf q) s) \<and> pg_integral alias T'"
proof -
  obtain r s' where run: "pg_deleteDocumentByDocumentUuid pg q s = (r, s')" by (cases "pg_deleteDocumentByDocumentUuid pg q s")
  note out = outcomeD [OF pg_delete_outcome s(1) run]
  have "\<exists>T'. nothing_pending visible snap T' s' \<and> pg_integral alias T'"
  proof (cases r)
    case (Inl e)
    then show ?thesis using out s(2) by auto
  next
    case (Inr x)
    then obtain T' where T': "pg_delete_effect T q x T'" "nothing_pending visible snap T' s'"
      using out by (auto dest: settled_pending)
    from T'(1) have "pg_integral alias T'"
      unfolding pg_delete_effect_def
    proof (elim disjE exE conjE)
      fix i
      assume "alias_owner T (del_documentUuid q) i" "T' = without_document (del_documentUuid q) i T" "table_constraints T'"
        and "del_validateNoReferencesToDocument q \<longrightarrow> i \<noteq> '''' \<and> unreferenced T (del_documentUuid q) i"
      then show ?thesis using pg_integral_delete [OF s(2)] q by simp
    qed (simp add: s(2))
    then show ?thesis using T'(2) by blast
  qed
  then show ?thesis using run by simp
qed

lemma outcome_snd: "outcome P m (\<lambda>_. Q) Q \<Longrightarrow> P s \<Longrightarrow> Q (snd (m s))"
  by (drule outcomeD [where r = "fst (m s)" and s' = "snd (m s)"]) (auto split: sum.splits)

lemma run_integral:
  assumes law: "alias_law alias" "\<And>i. distinct (alias i)" and s: "nothing_pending visible snap T s" "pg_integral alias T"
    and q: "pg_admissible pg alias q"
  shows "\<exists>T'. nothing_pending visible snap T' (pg_run_request pg q s) \<and> pg_integral alias T'"
proof (cases q)
  case (UpsertOf x)
  show ?thesis using run_upsert_integral [OF law s] q unfolding UpsertOf .
next
  case (UpdateOf x)
  show ?thesis using run_update_integral [OF law s] q unfolding UpdateOf .
next
  case (DeleteOf x)
  show ?thesis using run_delete_integral [OF s] q unfolding DeleteOf .
next
  case (GetOf x)
  have "outcome (nothing_pending visible snap T) (pg_getDocumentByDocumentUuid pg x) (\<lambda>_. nothing_pending visible snap T)
      (nothing_pending visible snap T)" by (rule outcome_conseq [OF get_outcome]) auto
  from outcome_snd [OF this s(1)] show ?thesis using s(2) GetOf by auto
next
  case (SecureOf x)
  have "nothing_pending visible snap T (snd (pg_securityMiddleware pg x s))"
    by (rule outcome_snd [OF security_outcome s(1)])
  then show ?thesis using s(2) SecureOf by (intro exI [of _ T]) simp
qed

lemma reachable_integral:
  assumes law: "alias_law alias" "\<And>i. distinct (alias i)"
    and start: "nothing_pending visible snap T0 s0" "pg_integral alias T0"
    and reach: "pg_reachable pg (pg_admissible pg alias) s0 s"
  shows "\<exists>T. nothing_pending visible snap T s \<and> pg_integral alias T"
  using reach
proof (induction rule: pg_reachable.induct)
  case pg_start
  then show ?case using start by blast
next
  case (pg_step s q)
  then show ?case using run_integral [OF law] by blast
qed

end

end
