(* ===== verification/PgAuthorization.thy ===== *)
theory PgAuthorization
  imports PgPlugin
begin

text \<open>
  The authorization clients of the PostgreSQL backend (\<open>repository/authorization\<close>,
  \<open>model/AuthorizationDocument.ts\<close>).  Only the creation of a client runs in a transaction; the other operations are
  single statements, which are committed on their own unless the connection has a transaction open.
\<close>

section \<open>Operations\<close>

definition pg_authorizationDocumentFromCreate :: "CreateAuthorizationClientRequest \<Rightarrow> bool \<Rightarrow> pg_authorization" where
  "pg_authorizationDocumentFromCreate request isBootstrapAdmin =
     \<lparr>pgc_client_id = car_clientId request, pgc_client_secret_hashed = car_clientSecretHashed request,
      pgc_client_name = bson (car_clientName request), pgc_roles = bson (car_roles request),
      pgc_is_bootstrap_admin = isBootstrapAdmin, pgc_active = car_active request\<rparr>"

definition pg_bootstrapAdminDocumentFromCreate :: "CreateAuthorizationClientRequest \<Rightarrow> pg_authorization" where
  "pg_bootstrapAdminDocumentFromCreate request = pg_authorizationDocumentFromCreate request True"

text \<open>A failed insert is rolled back, and then there is a commit all the same.\<close>

definition pg_createAuthorizationClientDocument ::
  "'s pg_ops \<Rightarrow> CreateAuthorizationClientRequest \<Rightarrow> (CreateAuthorizationClientResult, 's) act" where
  "pg_createAuthorizationClientDocument pg request = (\<lambda>s.
     case bnd (beginTransaction pg) (\<lambda>_.
            insertOrUpdateAuthorization pg (pg_authorizationDocumentFromCreate request False)) s of
       (Inl e, s1) \<Rightarrow> bnd (rollbackTransaction pg) (\<lambda>_. ret CreateAuthorizationClientResult.UNKNOWN_FAILURE) s1
     | (Inr inserted, s1) \<Rightarrow>
         (let response = (if inserted then CreateAuthorizationClientResult.CREATE_SUCCESS
                          else CreateAuthorizationClientResult.UNKNOWN_FAILURE) in
          try_catch
            (bnd (if inserted then ret () else rollbackTransaction pg) (\<lambda>_.
             bnd (commitTransaction pg) (\<lambda>_. ret response)))
            (\<lambda>_. bnd (rollbackTransaction pg) (\<lambda>_. ret response)) s1))"

definition pg_tryCreateBootstrapAuthorizationAdminDocument ::
  "'s pg_ops \<Rightarrow> CreateAuthorizationClientRequest \<Rightarrow> (TryCreateBootstrapAuthorizationAdminResult, 's) act" where
  "pg_tryCreateBootstrapAuthorizationAdminDocument pg request =
     try_catch
       (bnd (checkBootstrapAdminExists pg) (\<lambda>bootstrapAdminExists.
        if bootstrapAdminExists then ret CREATE_FAILURE_ALREADY_EXISTS
        else
          bnd (insertBootstrapAdmin pg (pg_bootstrapAdminDocumentFromCreate request)) (\<lambda>insertResult.
          ret (if insertResult then TryCreateBootstrapAuthorizationAdminResult.CREATE_SUCCESS
               else TryCreateBootstrapAuthorizationAdminResult.UNKNOWN_FAILURE))))
       (\<lambda>_. ret TryCreateBootstrapAuthorizationAdminResult.UNKNOWN_FAILURE)"

definition pg_getAuthorizationClientDocument ::
  "'s pg_ops \<Rightarrow> json option \<Rightarrow> (GetAuthorizationClientResult, 's) act" where
  "pg_getAuthorizationClientDocument pg clientId =
     try_catch
       (bnd (getAuthorizationClientDocumentById pg clientId) (\<lambda>result.
        ret (case result of
               None \<Rightarrow> GetAuthorizationClientResult.GET_FAILURE_NOT_EXISTS
             | Some c \<Rightarrow> GetAuthorizationClientResult.GET_SUCCESS (pgc_client_secret_hashed c) (pgc_client_name c)
                 (pgc_active c) (pgc_roles c))))
       (\<lambda>_. ret GetAuthorizationClientResult.UNKNOWN_FAILURE)"

definition pg_getAllAuthorizationClientDocuments :: "'s pg_ops \<Rightarrow> (GetAllAuthorizationClientsResult, 's) act" where
  "pg_getAllAuthorizationClientDocuments pg =
     try_catch (getAuthorizationClientDocumentList pg) (\<lambda>_. ret GetAllAuthorizationClientsResult.UNKNOWN_FAILURE)"

definition pg_updateAuthorizationClientDocument ::
  "'s pg_ops \<Rightarrow> UpdateAuthorizationClientRequest \<Rightarrow> (UpdateAuthorizationClientResult, 's) act" where
  "pg_updateAuthorizationClientDocument pg request =
     try_catch
       (bnd (updateAuthorizationClientDocumentByClientId pg request) (\<lambda>updated.
        ret (if \<not> updated then UPDATE_FAILED_NOT_EXISTS else UpdateAuthorizationClientResult.UPDATE_SUCCESS)))
       (\<lambda>_. ret UpdateAuthorizationClientResult.UNKNOWN_FAILURE)"

definition pg_resetAuthorizationClientSecret ::
  "'s pg_ops \<Rightarrow> ResetAuthorizationClientSecretRequest \<Rightarrow> (ResetAuthorizationClientSecretResult, 's) act" where
  "pg_resetAuthorizationClientSecret pg request =
     try_catch (resetAuthorizationClientSecretByClientId pg request)
       (\<lambda>_. ret ResetAuthorizationClientSecretResult.UNKNOWN_FAILURE)"

definition pg_initializeAuthorizationStore :: "'s pg_ops \<Rightarrow> 's pool_state AuthorizationStorePlugin" where
  "pg_initializeAuthorizationStore pg = \<lparr>
     asp_createAuthorizationClient = (\<lambda>request. with_pool_client pg (pg_createAuthorizationClientDocument pg request)),
     asp_tryCreateBootstrapAuthorizationAdmin =
       (\<lambda>request. with_pool_client pg (pg_tryCreateBootstrapAuthorizationAdminDocument pg request)),
     asp_getAllAuthorizationClients = with_pool_client pg (pg_getAllAuthorizationClientDocuments pg),
     asp_getAuthorizationClient = (\<lambda>clientId. with_pool_client pg (pg_getAuthorizationClientDocument pg clientId)),
     asp_updateAuthorizationClient = (\<lambda>request. with_pool_client pg (pg_updateAuthorizationClientDocument pg request)),
     asp_resetAuthorizationClientSecret = (\<lambda>request. with_pool_client pg (pg_resetAuthorizationClientSecret pg request))\<rparr>"


section \<open>Registered clients\<close>

definition pg_client :: "pg_authorization \<Rightarrow> registered_client" where
  "pg_client c = (pgc_client_secret_hashed c, pgc_client_name c, pgc_active c, pgc_roles c)"

definition pg_registered :: "tables \<Rightarrow> string \<Rightarrow> registered_client option" where
  "pg_registered T = map_of (map (\<lambda>c. (pgc_client_id c, pg_client c)) (t_authorizations T))"

definition pg_admins :: "tables \<Rightarrow> string set" where
  "pg_admins T = {pgc_client_id c | c. c \<in> set (t_authorizations T) \<and> pgc_is_bootstrap_admin c}"

text \<open>The invariant of the store: no transaction is open.\<close>

definition pg_settled :: "('s \<Rightarrow> tables) \<Rightarrow> ('s \<Rightarrow> tables option) \<Rightarrow> 's pool_state \<Rightarrow> bool" where
  "pg_settled visible snap t \<longleftrightarrow>
     settled visible snap (visible (snd t)) (snd t) \<and> table_constraints (visible (snd t))"

abbreviation clients_of :: "tables \<Rightarrow> (string \<Rightarrow> registered_client option) \<times> string set" where
  "clients_of T \<equiv> (pg_registered T, pg_admins T)"

lemma map_of_replace:
  assumes "distinct (map key rows)" "r0 \<in> set rows" "key (f r0) = key r0"
  shows "map_of (map (\<lambda>r. (key r, v r)) (map (\<lambda>r. if key r = key r0 then f r else r) rows)) =
    (map_of (map (\<lambda>r. (key r, v r)) rows))(key r0 \<mapsto> v (f r0))"
  using assms(1,2)
proof (induction rows)
  case (Cons a rows)
  let ?g = "\<lambda>r. if key r = key r0 then f r else r"
  show ?case
  proof (cases "a = r0")
    case True
    have "?g r = r" if "r \<in> set rows" for r
    proof -
      have "key r \<in> key ` set rows" using that by (rule imageI)
      then have "key r \<noteq> key r0" using Cons.prems(1) True by auto
      then show ?thesis by simp
    qed
    then have "map ?g rows = rows" by (intro map_idI)
    then have "map ?g (a # rows) = f r0 # rows" using True by simp
    then show ?thesis using True assms(3) by (simp only:) (simp add: fun_eq_iff)
  next
    case False
    then have r0: "r0 \<in> set rows" using Cons.prems(2) by simp
    then have key: "key a \<noteq> key r0" using Cons.prems(1) by force
    then have "map ?g (a # rows) = a # map ?g rows" by simp
    then show ?thesis using Cons.IH Cons.prems(1) r0 key by (simp only:) (auto simp: fun_eq_iff)
  qed
qed simp

lemma map_of_upsert:
  assumes "distinct (map key rows)"
  shows "map_of (map (\<lambda>r. (key r, v r)) (fst (sql_upsert key (\<lambda>_. row) row rows))) =
    (map_of (map (\<lambda>r. (key r, v r)) rows))(key row \<mapsto> v row)"
proof (cases "key row \<in> key ` set rows")
  case True
  then obtain r0 where r0: "r0 \<in> set rows" "key row = key r0" by auto
  show ?thesis using map_of_replace [of key rows r0 "\<lambda>_. row" v] assms r0 True by (simp add: sql_upsert_def)
next
  case False
  then have "map_of (map (\<lambda>r. (key r, v r)) rows) (key row) = None"
    by (simp add: map_of_eq_None_iff image_image)
  then show ?thesis using False by (auto simp: sql_upsert_def sql_insert_def map_add_def fun_eq_iff split: option.split)
qed

lemma set_upsert: "set (fst (sql_upsert key (\<lambda>_. row) row rows)) = insert row {r \<in> set rows. key r \<noteq> key row}"
proof (cases "key row \<in> key ` set rows")
  case True
  then obtain r where "r \<in> set rows" "key r = key row" by auto
  then have "row \<in> (\<lambda>r. if key r = key row then row else r) ` set rows" by (intro image_eqI [of _ _ r]) simp_all
  then show ?thesis using True by (auto simp: sql_upsert_def)
next
  case False
  then have "{r \<in> set rows. key r \<noteq> key row} = set rows" by (auto simp: image_iff)
  then show ?thesis using False by (simp add: sql_upsert_def sql_insert_def)
qed

lemma pg_admins_list: "pg_admins T = set (map pgc_client_id (filter pgc_is_bootstrap_admin (t_authorizations T)))"
  by (auto simp: pg_admins_def)

lemma admins_upsert:
  assumes "fst (on_authorizations (sql_upsert pgc_client_id (\<lambda>_. row) row) T) = T'"
  shows "pg_admins T' = (if pgc_is_bootstrap_admin row then {pgc_client_id row} else {}) \<union> (pg_admins T - {pgc_client_id row})"
proof -
  have "set (t_authorizations T') = insert row {r \<in> set (t_authorizations T). pgc_client_id r \<noteq> pgc_client_id row}"
    using assms set_upsert [of pgc_client_id row "t_authorizations T"]
    by (simp add: on_authorizations_def split: prod.splits) force
  then show ?thesis by (auto simp: pg_admins_def)
qed

lemma registered_upsert:
  assumes "fst (on_authorizations (sql_upsert pgc_client_id (\<lambda>_. row) row) T) = T'" "table_constraints T"
  shows "pg_registered T' = (pg_registered T)(pgc_client_id row \<mapsto> pg_client row)"
  using assms map_of_upsert [of pgc_client_id "t_authorizations T" pg_client row]
  by (auto simp: pg_registered_def on_authorizations_def table_constraints_def split: prod.splits)

text \<open>An UPDATE of one client that keeps the id and the administrator's mark.\<close>

lemma updated_clients:
  assumes "fst (on_authorizations (sql_update (\<lambda>c. i = Some (pgc_client_id c)) f) T) = T'" "table_constraints T"
    and "\<And>c. pgc_client_id (f c) = pgc_client_id c" "\<And>c. pgc_is_bootstrap_admin (f c) = pgc_is_bootstrap_admin c"
  shows "clients_of T' = clients_of T \<or> pg_admins T' = pg_admins T \<and>
    (\<exists>c row. i = Some c \<and> pg_registered T c = Some (pg_client row) \<and>
       pg_registered T' = (pg_registered T)(c \<mapsto> pg_client (f row)))"
proof -
  let ?rows = "t_authorizations T"
  let ?g = "\<lambda>c. if i = Some (pgc_client_id c) then f c else c"
  have T': "t_authorizations T' = map ?g ?rows"
    using assms(1) by (auto simp: on_authorizations_def sql_update_def)
  have d: "distinct (map pgc_client_id ?rows)" using assms(2) by (simp add: table_constraints_def)
  have g: "pgc_client_id (?g c) = pgc_client_id c" "pgc_is_bootstrap_admin (?g c) = pgc_is_bootstrap_admin c" for c
    using assms(3,4) by simp_all
  have admins: "pg_admins T' = pg_admins T"
    unfolding pg_admins_list T' filter_map comp_def g(2) map_map g(1) by (rule refl)
  show ?thesis
  proof (cases "\<exists>row \<in> set ?rows. i = Some (pgc_client_id row)")
    case False
    then have "map ?g ?rows = ?rows" by (intro map_idI) auto
    then show ?thesis using T' admins by (simp add: pg_registered_def)
  next
    case True
    then obtain row where row: "row \<in> set ?rows" "i = Some (pgc_client_id row)" by blast
    have old: "pg_registered T (pgc_client_id row) = Some (pg_client row)"
      unfolding pg_registered_def using row(1) d by (intro map_of_is_SomeI) (auto simp: comp_def)
    have "?g = (\<lambda>c. if pgc_client_id c = pgc_client_id row then f c else c)" using row(2) by (auto simp: fun_eq_iff)
    then have "pg_registered T' = (pg_registered T)(pgc_client_id row \<mapsto> pg_client (f row))"
      using map_of_replace [where key = pgc_client_id and f = f and v = pg_client, OF d row(1) assms(3)]
      by (simp only: pg_registered_def T')
    then show ?thesis using admins old row(2) by blast
  qed
qed

section \<open>Statements that commit on their own\<close>

lemma settled_read:
  assumes "read_law visible snap m P"
  shows "outcome (settled visible snap T) m (\<lambda>x s. settled visible snap T s \<and> P T x) (settled visible snap T)"
proof (rule outcomeI)
  fix s q s'
  assume s: "settled visible snap T s" and run: "m s = (q, s')"
  have "case q of Inl e \<Rightarrow> voided visible snap s s' | Inr x \<Rightarrow> unchanged visible snap s s' \<and> P (visible s) x"
    using assms run unfolding read_law_def by blast
  then show "case q of Inl e \<Rightarrow> settled visible snap T s' | Inr x \<Rightarrow> settled visible snap T s' \<and> P T x"
    using s by (cases q) (auto simp: txn_defs voided_def unchanged_def)
qed

lemma settled_write:
  assumes "write_law visible snap m f"
  shows "outcome (settled visible snap T) m
    (\<lambda>x s. settled visible snap (fst (f T)) s \<and> x = snd (f T) \<and> table_constraints (fst (f T))) (settled visible snap T)"
proof (rule outcomeI)
  fix s q s'
  assume s: "settled visible snap T s" and run: "m s = (q, s')"
  have "case q of Inl e \<Rightarrow> voided visible snap s s'
         | Inr x \<Rightarrow> snap s' = snap s \<and> f (visible s) = (visible s', x) \<and> table_constraints (visible s')"
    using assms run unfolding write_law_def by blast
  then show "case q of Inl e \<Rightarrow> settled visible snap T s'
     | Inr x \<Rightarrow> settled visible snap (fst (f T)) s' \<and> x = snd (f T) \<and> table_constraints (fst (f T))"
    using s by (cases q) (auto simp: txn_defs voided_def)
qed

text \<open>The row an insert stores.\<close>

definition active_row :: "pg_authorization \<Rightarrow> pg_authorization" where
  "active_row c = c\<lparr>pgc_active := nullish_or (pgc_active c) (JBool True)\<rparr>"

abbreviation upserted where
  "upserted c T \<equiv> fst (on_authorizations (sql_upsert pgc_client_id (\<lambda>_. active_row c) (active_row c)) T)"

text \<open>What a write of the clients leaves: the tables as they were, or those of the statement.\<close>

definition written :: "('s \<Rightarrow> tables) \<Rightarrow> ('s \<Rightarrow> tables option) \<Rightarrow> tables \<Rightarrow> tables \<Rightarrow> 's \<Rightarrow> bool" where
  "written visible snap T T' s \<longleftrightarrow>
     settled visible snap T s \<or> settled visible snap T' s \<and> table_constraints T'"

lemma settled_statement:
  assumes "write_law visible snap m f"
  shows "outcome (settled visible snap T) (try_catch (bnd m (\<lambda>x. ret (g x))) (\<lambda>e. ret (h e)))
    (\<lambda>_. written visible snap T (fst (f T))) (\<lambda>_. False)"
  by (rule outcome_try [OF outcome_ret_after [OF settled_write [OF assms]]]) (auto intro: outcome_ret simp: written_def)

context pg_store
begin

lemma upsert_law:
  "write_law visible snap (insertOrUpdateAuthorization pg c)
    (\<lambda>T. map_prod id hasResults (on_authorizations (sql_upsert pgc_client_id (\<lambda>_. active_row c) (active_row c)) T))"
  unfolding insertOrUpdateAuthorization_def Let_def active_row_def
  by (rule write_law_map [OF execute_law]) (simp add: map_prod_def split: prod.split)

lemma upsert_count [simp]: "snd (on_authorizations (sql_upsert k f row) T) = 1"
  by (auto simp: on_authorizations_def sql_upsert_def sql_insert_def split: prod.split)

lemma upsert_true: "write_law visible snap (insertOrUpdateAuthorization pg c) (\<lambda>T. (upserted c T, True))"
proof -
  have "(\<lambda>T. map_prod id hasResults (on_authorizations (sql_upsert pgc_client_id (\<lambda>_. active_row c) (active_row c)) T)) =
      (\<lambda>T. (upserted c T, True))"
    by (auto simp: fun_eq_iff hasResults_def prod_eq_iff)
  then show ?thesis using upsert_law [of c] by simp
qed

lemma create_client_outcome:
  fixes request :: CreateAuthorizationClientRequest and T :: tables
  defines "c \<equiv> pg_authorizationDocumentFromCreate request False"
  shows "outcome (settled visible snap T) (pg_createAuthorizationClientDocument pg request)
    (\<lambda>_. written visible snap T (upserted c T)) (settled visible snap T)"
proof (rule outcomeI)
  fix s r s'
  assume s: "settled visible snap T s" and run: "pg_createAuthorizationClientDocument pg request s = (r, s')"
  let ?m = "bnd (beginTransaction pg) (\<lambda>_. insertOrUpdateAuthorization pg c)"
  let ?T = "upserted c T"
  obtain q s1 where q: "?m s = (q, s1)" by (cases "?m s")
  have "outcome (settled visible snap T) ?m (\<lambda>x s. txn T ?T s \<and> x \<and> table_constraints ?T) (com T)"
  proof (rule outcome_seq)
    show "outcome (settled visible snap T) (beginTransaction pg) (\<lambda>_. txn T T) (com T)"
      by (rule outcome_conseq [OF begin_outcome settled_pending])
    show "outcome (txn T T) (insertOrUpdateAuthorization pg c) (\<lambda>x s. txn T ?T s \<and> x \<and> table_constraints ?T) (com T)"
      by (rule outcome_conseq [OF write_outcome [OF upsert_true]]) auto
  qed
  from outcomeD [OF this s q] have s1: "case q of Inl e \<Rightarrow> com T s1 | Inr x \<Rightarrow> txn T ?T s1 \<and> x \<and> table_constraints ?T" .
  show "case r of Inl e \<Rightarrow> settled visible snap T s' | Inr x \<Rightarrow> written visible snap T ?T s'"
  proof (cases q)
    case (Inl e)
    have rb: "outcome (com T) (bnd (rollbackTransaction pg) (\<lambda>_. ret CreateAuthorizationClientResult.UNKNOWN_FAILURE))
        (\<lambda>_. settled visible snap T) (settled visible snap T)"
      by (rule outcome_seq [OF rollback_outcome]) (rule outcome_ret)
    have "bnd (rollbackTransaction pg) (\<lambda>_. ret CreateAuthorizationClientResult.UNKNOWN_FAILURE) s1 = (r, s')"
      using run q Inl by (simp add: pg_createAuthorizationClientDocument_def c_def)
    from outcomeD [OF rb _ this] show ?thesis using s1 Inl by (cases r) (auto simp: written_def)
  next
    case (Inr x)
    have x: "x" "txn T ?T s1" "table_constraints ?T" using s1 Inr by simp_all
    have body: "outcome (txn T ?T) (bnd (ret ()) (\<lambda>_. bnd (commitTransaction pg) (\<lambda>_. ret (CreateAuthorizationClientResult.CREATE_SUCCESS))))
        (\<lambda>_ s. settled visible snap ?T s) (com T)"
      by (intro outcome_seq [where R = "\<lambda>_. txn T ?T"] outcome_seq [OF commit_outcome] outcome_ret)
    have "try_catch (bnd (ret ()) (\<lambda>_. bnd (commitTransaction pg) (\<lambda>_. ret (CreateAuthorizationClientResult.CREATE_SUCCESS))))
        (\<lambda>_. bnd (rollbackTransaction pg) (\<lambda>_. ret CreateAuthorizationClientResult.CREATE_SUCCESS)) s1 = (r, s')"
      using run q Inr x(1) by (simp add: pg_createAuthorizationClientDocument_def c_def Let_def)
    from outcomeD [OF catch_outcome [OF body] x(2) this] show ?thesis using x(3) by (cases r) (auto simp: written_def)
  qed
qed

lemma bootstrap_outcome:
  fixes request :: CreateAuthorizationClientRequest and T :: tables
  defines "c \<equiv> pg_authorizationDocumentFromCreate request True"
  shows "outcome (settled visible snap T) (pg_tryCreateBootstrapAuthorizationAdminDocument pg request)
    (\<lambda>_ s. settled visible snap T s \<or> pg_admins T = {} \<and> written visible snap T (upserted c T) s) (\<lambda>_. False)"
proof -
  let ?Q = "\<lambda>s. settled visible snap T s \<or> pg_admins T = {} \<and> written visible snap T (upserted c T) s"
  have row: "c\<lparr>pgc_is_bootstrap_admin := True\<rparr> = c" by (simp add: c_def pg_authorizationDocumentFromCreate_def)
  have check: "read_law visible snap (checkBootstrapAdminExists pg) (\<lambda>T x. x \<longleftrightarrow> pg_admins T \<noteq> {})"
    unfolding checkBootstrapAdminExists_def
    by (rule read_law_map [OF countAuthorizations_law]) (auto simp: hasResults_def pg_admins_list filter_empty_conv)
  show ?thesis
    unfolding pg_tryCreateBootstrapAuthorizationAdminDocument_def pg_bootstrapAdminDocumentFromCreate_def
      insertBootstrapAdmin_def c_def [symmetric] row
  proof (rule outcome_try [OF outcome_step [OF settled_read [OF check]]])
    fix x
    assume x: "x \<longleftrightarrow> pg_admins T \<noteq> {}"
    show "outcome (settled visible snap T)
      (if x then ret CREATE_FAILURE_ALREADY_EXISTS
       else bnd (insertOrUpdateAuthorization pg c) (\<lambda>insertResult.
         ret (if insertResult then TryCreateBootstrapAuthorizationAdminResult.CREATE_SUCCESS
              else TryCreateBootstrapAuthorizationAdminResult.UNKNOWN_FAILURE))) (\<lambda>_. ?Q) (settled visible snap T)"
    proof (cases x)
      case False
      have "outcome (settled visible snap T) (bnd (insertOrUpdateAuthorization pg c) (\<lambda>insertResult.
         ret (if insertResult then TryCreateBootstrapAuthorizationAdminResult.CREATE_SUCCESS
              else TryCreateBootstrapAuthorizationAdminResult.UNKNOWN_FAILURE))) (\<lambda>_. ?Q) (settled visible snap T)"
        by (rule outcome_ret_after [OF settled_write [OF upsert_true]]) (use x False in \<open>simp add: written_def\<close>)
      then show ?thesis using False by simp
    qed (simp add: outcome_ret)
  qed (simp add: outcome_ret)
qed


lemma get_client_outcome:
  "outcome (settled visible snap T) (pg_getAuthorizationClientDocument pg i)
    (\<lambda>x s. settled visible snap T s \<and> (\<forall>h n a ro. x = GetAuthorizationClientResult.GET_SUCCESS h n a ro \<longrightarrow>
       (\<exists>c \<in> set (t_authorizations T). sql_literal i = Some (pgc_client_id c) \<and> h = pgc_client_secret_hashed c \<and>
          n = pgc_client_name c \<and> a = nullish_or (pgc_active c) (JBool True) \<and> ro = pgc_roles c))) (\<lambda>_. False)"
  unfolding pg_getAuthorizationClientDocument_def
proof (rule outcome_try [OF outcome_ret_after])
  have "read_law visible snap (getAuthorizationClientDocumentById pg i)
     (\<lambda>T x. \<forall>row. x = Some row \<longrightarrow> (\<exists>c \<in> set (t_authorizations T). sql_literal i = Some (pgc_client_id c) \<and>
        row = active_row c))"
    unfolding getAuthorizationClientDocumentById_def
  proof (rule read_law_map [OF selectAuthorizations_law], intro allI impI)
    fix T rows row
    assume rows: "some_rows (filter (\<lambda>c. sql_literal i = Some (pgc_client_id c)) (t_authorizations T)) None rows"
      and row: "map_option (\<lambda>result. result\<lparr>pgc_active := nullish_or (pgc_active result) (JBool True)\<rparr>) (first_row rows) = Some row"
    obtain c where "first_row rows = Some c" "row = active_row c" using row by (auto simp: active_row_def)
    then show "\<exists>c \<in> set (t_authorizations T). sql_literal i = Some (pgc_client_id c) \<and> row = active_row c"
      using some_rows_set [OF rows] first_row_Some [of rows c] by auto
  qed
  then show "outcome (settled visible snap T) (getAuthorizationClientDocumentById pg i) (\<lambda>x s. settled visible snap T s \<and>
     (\<forall>row. x = Some row \<longrightarrow> (\<exists>c \<in> set (t_authorizations T). sql_literal i = Some (pgc_client_id c) \<and> row = active_row c)))
     (settled visible snap T)"
    by (rule settled_read)
qed (fastforce simp: active_row_def intro: outcome_ret split: option.splits)+

lemma all_clients_outcome:
  "outcome (settled visible snap T) (pg_getAllAuthorizationClientDocuments pg) (\<lambda>_. settled visible snap T) (\<lambda>_. False)"
proof -
  have "read_law visible snap (getAuthorizationClientDocumentList pg) (\<lambda>_ _. True)"
    unfolding getAuthorizationClientDocumentList_def by (rule read_law_map [OF selectAuthorizations_law]) simp
  from settled_read [OF this] have "outcome (settled visible snap T) (getAuthorizationClientDocumentList pg)
      (\<lambda>_. settled visible snap T) (settled visible snap T)" by simp
  then show ?thesis unfolding pg_getAllAuthorizationClientDocuments_def by (rule outcome_try) (simp add: outcome_ret)
qed

lemma update_client_outcome:
  "outcome (settled visible snap T) (pg_updateAuthorizationClientDocument pg urequest)
    (\<lambda>_. written visible snap T (fst (on_authorizations (sql_update (\<lambda>c. uar_clientId urequest = Some (pgc_client_id c))
       (updated_authorization urequest)) T))) (\<lambda>_. False)"
  unfolding pg_updateAuthorizationClientDocument_def updateAuthorizationClientDocumentByClientId_def bnd_assoc bnd_ret
  by (rule settled_statement [OF execute_law])

lemma reset_client_outcome:
  "outcome (settled visible snap T) (pg_resetAuthorizationClientSecret pg rrequest)
    (\<lambda>_. written visible snap T (fst (on_authorizations (sql_update (\<lambda>c. rar_clientId rrequest = Some (pgc_client_id c))
       (\<lambda>c. c\<lparr>pgc_client_secret_hashed := rar_clientSecretHashed rrequest\<rparr>)) T))) (\<lambda>_. False)"
  unfolding pg_resetAuthorizationClientSecret_def resetAuthorizationClientSecretByClientId_def
  by (rule settled_statement [OF execute_law])


section \<open>The contract\<close>

abbreviation registered_in where "registered_in \<equiv> \<lambda>t. pg_registered (visible (snd t))"
abbreviation admins_in where "admins_in \<equiv> \<lambda>t. pg_admins (visible (snd t))"

lemma auth_plugin_run:
  assumes "pg_settled visible snap t" "with_pool_client pg m t = (r, t')"
    and "\<And>T. outcome (settled visible snap T) m (Q T) (settled visible snap T)"
    and "\<And>T x s. Q T x s \<Longrightarrow> settled visible snap T s \<or> (\<exists>T'. settled visible snap T' s \<and> table_constraints T' \<and> R T T')"
  shows "pg_settled visible snap t' \<and> (visible (snd t') = visible (snd t) \<or> R (visible (snd t)) (visible (snd t'))) \<and>
    (\<forall>x. r = Inr x \<longrightarrow> Q (visible (snd t)) x (snd t'))"
proof -
  let ?T = "visible (snd t)"
  have t: "settled visible snap ?T (snd t)" "table_constraints ?T" using assms(1) by (simp_all add: pg_settled_def)
  have still: "pg_settled visible snap t' \<and> visible (snd t') = ?T" if "settled visible snap ?T (snd t')"
    using that t(2) by (simp add: pg_settled_def settled_def)
  show ?thesis
  proof (cases rule: with_pool_rest [OF settled_rest t(1) assms(2), case_names failed ran])
    case (failed e)
    then show ?thesis using still by simp
  next
    case (ran s)
    have out: "case r of Inl e \<Rightarrow> settled visible snap ?T (snd t') | Inr x \<Rightarrow> Q ?T x (snd t')"
      by (rule outcomeD [OF assms(3) ran])
    show ?thesis
    proof (cases r)
      case (Inl e)
      then show ?thesis using out still by simp
    next
      case (Inr x)
      then have x: "Q ?T x (snd t')" using out by simp
      from assms(4) [OF this] show ?thesis
      proof (elim disjE exE conjE)
        fix T' assume "settled visible snap T' (snd t')" "table_constraints T'" "R ?T T'"
        then show ?thesis using x Inr by (auto simp: pg_settled_def settled_def)
      qed (use still x Inr in simp)
    qed
  qed
qed

lemma outcome_no_throw: "outcome P m Q (\<lambda>_. False) \<Longrightarrow> outcome P m Q E"
  by (erule outcome_conseq) simp_all

lemma written_cases:
  "written visible snap T T1 s \<Longrightarrow> settled visible snap T s \<or> (\<exists>T'. settled visible snap T' s \<and> table_constraints T' \<and> T' = T1)"
  by (auto simp: written_def)

lemma created_client:
  "requested_client request (pg_client (active_row (pg_authorizationDocumentFromCreate request b)))"
  by (auto simp: requested_client_def pg_client_def active_row_def pg_authorizationDocumentFromCreate_def nullish_or_def
      bson_def)

lemma upserted_clients:
  assumes "table_constraints T"
  shows "pg_registered (upserted (pg_authorizationDocumentFromCreate request b) T) = (pg_registered T)(car_clientId request \<mapsto>
      pg_client (active_row (pg_authorizationDocumentFromCreate request b)))"
    and "pg_admins (upserted (pg_authorizationDocumentFromCreate request b) T) =
      (if b then {car_clientId request} else {}) \<union> (pg_admins T - {car_clientId request})"
  using registered_upsert [OF refl assms] admins_upsert [OF refl]
  by (auto simp: active_row_def pg_authorizationDocumentFromCreate_def)

lemma client_law:
  assumes "pg_settled visible snap t" "with_pool_client pg (pg_getAuthorizationClientDocument pg i) t = (r, t')"
  shows "pg_settled visible snap t' \<and> registered_in t' = registered_in t \<and> admins_in t' = admins_in t \<and>
    (\<forall>h n a ro. r = Inr (GetAuthorizationClientResult.GET_SUCCESS h n a ro) \<longrightarrow>
       (\<exists>c. (\<forall>j. i = Some (JStr j) \<longrightarrow> c = j) \<and> registered_in t c = Some (h, n, a, ro)))"
proof -
  have T: "table_constraints (visible (snd t))" using assms(1) by (simp add: pg_settled_def)
  have run: "pg_settled visible snap t' \<and> (visible (snd t') = visible (snd t) \<or> False) \<and>
    (\<forall>x. r = Inr x \<longrightarrow> settled visible snap (visible (snd t)) (snd t') \<and>
       (\<forall>h n a ro. x = GetAuthorizationClientResult.GET_SUCCESS h n a ro \<longrightarrow>
         (\<exists>c \<in> set (t_authorizations (visible (snd t))). sql_literal i = Some (pgc_client_id c) \<and> h = pgc_client_secret_hashed c \<and>
            n = pgc_client_name c \<and> a = nullish_or (pgc_active c) (JBool True) \<and> ro = pgc_roles c)))"
    by (rule auth_plugin_run [OF assms outcome_no_throw [OF get_client_outcome]]) simp
  moreover have "\<exists>c. (\<forall>j. i = Some (JStr j) \<longrightarrow> c = j) \<and> registered_in t c = Some (h, n, a, ro)"
    if "r = Inr (GetAuthorizationClientResult.GET_SUCCESS h n a ro)" for h n a ro
  proof -
    have "\<exists>c \<in> set (t_authorizations (visible (snd t))). sql_literal i = Some (pgc_client_id c) \<and> h = pgc_client_secret_hashed c \<and>
        n = pgc_client_name c \<and> a = nullish_or (pgc_active c) (JBool True) \<and> ro = pgc_roles c"
      using run that by blast
    then obtain c where c: "c \<in> set (t_authorizations (visible (snd t)))" "sql_literal i = Some (pgc_client_id c)"
      "(h, n, a, ro) = (pgc_client_secret_hashed c, pgc_client_name c, nullish_or (pgc_active c) (JBool True), pgc_roles c)"
      by auto
    have "pgc_active c \<noteq> JNull" using T c(1) by (auto simp: table_constraints_def list_all_iff)
    then have "(h, n, a, ro) = pg_client c" using c(3) by (simp add: nullish_or_def pg_client_def)
    moreover have "registered_in t (pgc_client_id c) = Some (pg_client c)"
      unfolding pg_registered_def using c(1) T by (intro map_of_is_SomeI) (auto simp: comp_def table_constraints_def)
    ultimately show ?thesis using c(2) by (intro exI [of _ "pgc_client_id c"]) auto
  qed
  ultimately show ?thesis by simp
qed


text \<open>An update or a reset of one client, for the laws of the contract.\<close>

lemma one_client_changed:
  assumes "x' = T \<or> x' = T1"
    and "clients_of T1 = clients_of T \<or> pg_admins T1 = pg_admins T \<and>
      (\<exists>c row. i = Some c \<and> pg_registered T c = Some (pg_client row) \<and>
         pg_registered T1 = (pg_registered T)(c \<mapsto> pg_client (f row)))"
    and "\<And>row. pg_client (f row) = g (pg_client row)"
  shows "pg_admins x' = pg_admins T \<and> (pg_registered x' = pg_registered T \<or>
    (\<exists>c h n a ro. i = Some c \<and> pg_registered T c = Some (h, n, a, ro) \<and>
       pg_registered x' = (pg_registered T)(c \<mapsto> g (h, n, a, ro))))"
proof (cases "clients_of x' = clients_of T")
  case False
  then have "x' = T1" "clients_of T1 \<noteq> clients_of T" using assms(1) by auto
  then obtain c row where row: "pg_admins x' = pg_admins T" "i = Some c" "pg_registered T c = Some (pg_client row)"
    "pg_registered x' = (pg_registered T)(c \<mapsto> g (pg_client row))" using assms(2,3) by auto
  obtain h n a ro where "pg_client row = (h, n, a, ro)" by (cases "pg_client row")
  then show ?thesis using row by (intro conjI disjI2 exI [of _ c] exI [of _ h] exI [of _ n] exI [of _ a] exI [of _ ro]) simp_all
qed simp

lemma pg_authorization_contract:
  "authorization_store (pg_initializeAuthorizationStore pg) (pg_settled visible snap) registered_in admins_in"
proof (unfold_locales, unfold pg_initializeAuthorizationStore_def AuthorizationStorePlugin.simps, goal_cases)
  case (1 t i r t')
  then show ?case by (rule client_law)
next
  case (2 t r t')
  have "pg_settled visible snap t' \<and> (visible (snd t') = visible (snd t) \<or> False) \<and>
      (\<forall>x. r = Inr x \<longrightarrow> settled visible snap (visible (snd t)) (snd t'))"
    by (rule auth_plugin_run [OF 2 outcome_no_throw [OF all_clients_outcome]]) simp
  then show ?case by auto
next
  case (3 t request r t')
  let ?c = "pg_authorizationDocumentFromCreate request False"
  have T: "table_constraints (visible (snd t))" using 3(1) by (simp add: pg_settled_def)
  have run: "pg_settled visible snap t' \<and> (visible (snd t') = visible (snd t) \<or> visible (snd t') = upserted ?c (visible (snd t))) \<and>
      (\<forall>x. r = Inr x \<longrightarrow> written visible snap (visible (snd t)) (upserted ?c (visible (snd t))) (snd t'))"
    by (rule auth_plugin_run [OF 3 create_client_outcome]) (rule written_cases)
  have "pg_admins (upserted ?c (visible (snd t))) \<subseteq> admins_in t"
    unfolding upserted_clients(2) [OF T] by auto
  then show ?case using run upserted_clients(1) [OF T, of request False] created_client [of request False]
    by (elim conjE disjE) (simp, metis)
next
  case (4 t request r t')
  let ?c = "pg_authorizationDocumentFromCreate request True"
  have T: "table_constraints (visible (snd t))" using 4(1) by (simp add: pg_settled_def)
  have run: "pg_settled visible snap t' \<and> (visible (snd t') = visible (snd t) \<or>
        pg_admins (visible (snd t)) = {} \<and> visible (snd t') = upserted ?c (visible (snd t))) \<and>
      (\<forall>x. r = Inr x \<longrightarrow> settled visible snap (visible (snd t)) (snd t') \<or> pg_admins (visible (snd t)) = {} \<and>
        written visible snap (visible (snd t)) (upserted ?c (visible (snd t))) (snd t'))"
    by (rule auth_plugin_run [OF 4 outcome_no_throw [OF bootstrap_outcome]]) (auto dest: written_cases)
  then show ?case using upserted_clients [OF T, of request True] created_client [of request True]
    by (elim conjE disjE) (simp, metis Diff_empty Un_empty_right empty_Diff if_True)
next
  case (5 t urequest r t')
  let ?T = "\<lambda>T. fst (on_authorizations (sql_update (\<lambda>c. uar_clientId urequest = Some (pgc_client_id c)) (updated_authorization urequest)) T)"
  have T: "table_constraints (visible (snd t))" using 5(1) by (simp add: pg_settled_def)
  have run: "pg_settled visible snap t' \<and> (visible (snd t') = visible (snd t) \<or> visible (snd t') = ?T (visible (snd t))) \<and>
      (\<forall>x. r = Inr x \<longrightarrow> written visible snap (visible (snd t)) (?T (visible (snd t))) (snd t'))"
    by (rule auth_plugin_run [OF 5 outcome_no_throw [OF update_client_outcome]]) (rule written_cases)
  have change: "clients_of (?T (visible (snd t))) = clients_of (visible (snd t)) \<or> pg_admins (?T (visible (snd t))) = admins_in t \<and>
      (\<exists>c row. uar_clientId urequest = Some c \<and> registered_in t c = Some (pg_client row) \<and>
         pg_registered (?T (visible (snd t))) = (registered_in t)(c \<mapsto> pg_client (updated_authorization urequest row)))"
    by (rule updated_clients [OF refl T]) (simp_all add: updated_authorization_def)
  from run have "visible (snd t') = visible (snd t) \<or> visible (snd t') = ?T (visible (snd t))" by simp
  from one_client_changed [OF this change, of "\<lambda>(h, n, a, ro). (h, bson (uar_clientName urequest),
      nullish_or (bson (uar_active urequest)) (JBool True), bson (uar_roles urequest))"] show ?case
    using run by (fastforce simp: pg_client_def updated_authorization_def)
next
  case (6 t rrequest r t')
  let ?T = "\<lambda>T. fst (on_authorizations (sql_update (\<lambda>c. rar_clientId rrequest = Some (pgc_client_id c))
       (\<lambda>c. c\<lparr>pgc_client_secret_hashed := rar_clientSecretHashed rrequest\<rparr>)) T)"
  have T: "table_constraints (visible (snd t))" using 6(1) by (simp add: pg_settled_def)
  have run: "pg_settled visible snap t' \<and> (visible (snd t') = visible (snd t) \<or> visible (snd t') = ?T (visible (snd t))) \<and>
      (\<forall>x. r = Inr x \<longrightarrow> written visible snap (visible (snd t)) (?T (visible (snd t))) (snd t'))"
    by (rule auth_plugin_run [OF 6 outcome_no_throw [OF reset_client_outcome]]) (rule written_cases)
  have change: "clients_of (?T (visible (snd t))) = clients_of (visible (snd t)) \<or> pg_admins (?T (visible (snd t))) = admins_in t \<and>
      (\<exists>c row. rar_clientId rrequest = Some c \<and> registered_in t c = Some (pg_client row) \<and>
         pg_registered (?T (visible (snd t))) = (registered_in t)(c \<mapsto> pg_client (row\<lparr>pgc_client_secret_hashed := rar_clientSecretHashed rrequest\<rparr>)))"
    by (rule updated_clients [OF refl T]) simp_all
  from run have "visible (snd t') = visible (snd t) \<or> visible (snd t') = ?T (visible (snd t))" by simp
  from one_client_changed [OF this change, of "\<lambda>(h, n, a, ro). (rar_clientSecretHashed rrequest, n, a, ro)"] show ?case
    using run by (fastforce simp: pg_client_def)
qed

end


sublocale pg_store <
  pg_clients: authorization_store "pg_initializeAuthorizationStore pg" "pg_settled visible snap"
    "\<lambda>t. pg_registered (visible (snd t))" "\<lambda>t. pg_admins (visible (snd t))"
  by (rule pg_authorization_contract)

end
