(* ===== verification/PgProperties.thy ===== *)
theory PgProperties
  imports PgIntegrity PgAuthorization MongoProperties
begin

text \<open>
  What the PostgreSQL backend promises, over any database that keeps the laws of \<open>pg_store\<close>, with runs on the
  tables in memory as witnesses, and what it does not promise: runs that end in a state or an answer that the code
  means to exclude.
\<close>

section \<open>Examples\<close>

definition example_pg :: "pg_mem pg_ops" where
  "example_pg = pg_mem_ops prefix_digest [(''POSTGRES_USER'', CString ''u''), (''POSTGRES_PASSWORD'', CString ''p''),
     (''POSTGRES_HOST'', CString ''localhost''), (''POSTGRES_PORT'', CNumber ''5432''),
     (''MEADOWLARK_DATABASE_NAME'', CString ''meadowlark'')]"

definition pg_mem_start :: pg_mem where
  "pg_mem_start = \<lparr>pm_view = empty_tables, pm_snap = None, pm_next = 0\<rparr>"

definition pg_after :: "mongo_request list \<Rightarrow> pg_mem" where
  "pg_after qs = fold (pg_run_request example_pg) qs pg_mem_start"

definition example_stored :: "string \<Rightarrow> string list \<Rightarrow> int \<Rightarrow> mongo_request" where
  "example_stored k refs t = UpsertOf (example_upsert k refs t)"

lemma example_pg_store: "pg_store example_pg pm_view pm_snap"
  unfolding example_pg_def by (rule pg_mem.pg_store_axioms)

text \<open>The document \<open>a\<close> and the document \<open>b\<close> that refers to it.\<close>

definition pg_two :: pg_mem where
  "pg_two = pg_after [example_stored ''a'' [] 1, example_stored ''b'' [''a''] 2]"

lemma pg_two_rows:
  "map pgd_edfi_doc (t_documents (pm_view pg_two)) = [JObj [(''k'', JStr ''a'')], JObj [(''k'', JStr ''b'')]]"
  "map pgr_referenced_meadowlark_id (t_references (pm_view pg_two)) = [example_key ''a'']"
  "map pga_alias_meadowlark_id (t_aliases (pm_view pg_two)) = [example_key ''a'', example_key ''b'']"
  "pm_snap pg_two = None"
  by code_simp+


section \<open>Writes\<close>

text \<open>C22: An upsert that answers INSERT_SUCCESS has added the row of the document under a uuid that no row had, and there
  was none with its id; one that answers UPDATE_SUCCESS has found an older row with its id and rewritten that row and no
  other.  Every other outcome leaves all tables as they were, a thrown error included, and no outcome leaves anything
  unwritten in a transaction.\<close>

theorem pg_upsert_outcomes:
  assumes "pg_store pg visible snap" "nothing_pending visible snap T s" "pg_upsertDocument pg request s = (r, s')"
  shows "nothing_pending visible snap (visible s') s' \<and> (case r of
      Inr (INSERT_SUCCESS m u) \<Rightarrow> snap s' = None \<and>
        (\<forall>d \<in> set (t_documents T). pgd_meadowlark_id d \<noteq> ur_meadowlarkId request \<and> pgd_document_uuid d \<noteq> u) \<and>
        t_documents (visible s') = t_documents T @ [inserted_row request u]
    | Inr (UpsertResult.UPDATE_SUCCESS m u) \<Rightarrow> snap s' = None \<and>
        (\<exists>old \<in> set (t_documents T). pgd_meadowlark_id old = ur_meadowlarkId request \<and> pgd_document_uuid old = u \<and>
           pgd_last_modified_at old < di_requestTimestamp (ur_documentInfo request)) \<and>
        t_documents (visible s') =
          map (\<lambda>d. if pgd_document_uuid d = u then updated_row request d else d) (t_documents T)
    | _ \<Rightarrow> visible s' = T)"
proof (cases r)
  case (Inl e)
  then show ?thesis using outcomeD [OF pg_store.pg_upsert_outcome [OF assms(1)] assms(2,3)]
    by (auto simp: nothing_pending_def)
next
  case (Inr x)
  then obtain T' where eff: "pg_upsert_effect (pg_shake256 pg) T request x T'"
    and "if x = UPSERT_FAILURE_WRITE_CONFLICT None then in_txn visible snap T' T' s' else settled visible snap T' s'"
    using outcomeD [OF pg_store.pg_upsert_outcome [OF assms(1)] assms(2,3)] by auto
  then have s': "visible s' = T'" "nothing_pending visible snap T' s'" "x \<noteq> UPSERT_FAILURE_WRITE_CONFLICT None \<Longrightarrow> snap s' = None"
    by (auto simp: txn_defs split: if_splits)
  show ?thesis
  proof (cases x)
    case (INSERT_SUCCESS m u)
    then have rows: "t_documents T' = t_documents T @ [inserted_row request u]" "table_constraints T'"
      and new: "\<forall>d \<in> set (t_documents T). pgd_meadowlark_id d \<noteq> ur_meadowlarkId request"
      using eff by (auto simp: pg_upsert_effect_def related_rows_def with_inserted_def)
    have "pgd_document_uuid d \<noteq> u" if "d \<in> set (t_documents T)" for d
      using rows that by (auto simp: table_constraints_def inserted_row_def)
    then show ?thesis using Inr INSERT_SUCCESS s' rows new by simp
  next
    case (UPDATE_SUCCESS m u)
    then show ?thesis using eff Inr s' by (auto simp: pg_upsert_effect_def related_rows_def with_updated_def)
  qed (use eff Inr s' in \<open>simp_all add: pg_upsert_effect_def\<close>)
qed

theorem pg_upsert_outcomes_witness:
  "\<exists>s'. pg_upsertDocument example_pg (example_upsert ''c'' [''a''] 3) pg_two = (Inr (INSERT_SUCCESS None (numbered_uuid 2)), s') \<and>
     t_documents (pm_view s') = t_documents (pm_view pg_two) @ [inserted_row (example_upsert ''c'' [''a''] 3) (numbered_uuid 2)]"
proof -
  let ?q = "example_upsert ''c'' [''a''] 3"
  have "fst (pg_upsertDocument example_pg ?q pg_two) = Inr (INSERT_SUCCESS None (numbered_uuid 2))" by code_simp
  then obtain s' where run: "pg_upsertDocument example_pg ?q pg_two = (Inr (INSERT_SUCCESS None (numbered_uuid 2)), s')"
    by (rule example_run)
  have "nothing_pending pm_view pm_snap (pm_view pg_two) pg_two" by (simp add: nothing_pending_def pg_two_rows)
  from pg_upsert_outcomes [OF example_pg_store this run] run show ?thesis by simp
qed

text \<open>C23: An update that answers UPDATE_SUCCESS has found the row with the uuid, older than the request, and rewritten that
  row and no other with the content of the request; the uuid stays, and the id too unless the resource allows its
  change.  Every other outcome leaves all tables as they were, and none leaves anything unwritten in a
  transaction.\<close>

theorem pg_update_outcomes:
  assumes "pg_store pg visible snap" "nothing_pending visible snap T s"
    and "pg_updateDocumentByDocumentUuid pg request s = (r, s')"
  shows "nothing_pending visible snap (visible s') s' \<and> (case r of
      Inr (UpdateResult.UPDATE_SUCCESS m) \<Rightarrow>
        (\<exists>old \<in> set (t_documents T). pgd_document_uuid old = upd_documentUuid request \<and>
           pgd_last_modified_at old < di_requestTimestamp (ur_documentInfo request) \<and>
           (ri_allowIdentityUpdates (ur_resourceInfo request) \<or> pgd_meadowlark_id old = ur_meadowlarkId request)) \<and>
        t_documents (visible s') =
          map (\<lambda>d. if pgd_document_uuid d = upd_documentUuid request then updated_row request d else d) (t_documents T)
    | _ \<Rightarrow> visible s' = T)"
proof (cases r)
  case (Inl e)
  then show ?thesis using outcomeD [OF pg_store.pg_update_outcome [OF assms(1)] assms(2,3)]
    by (auto simp: nothing_pending_def)
next
  case (Inr x)
  then have "\<exists>T'. pg_update_effect (pg_shake256 pg) T request x T' \<and> nothing_pending visible snap T' s' \<and>
       (x = UpdateResult.UPDATE_SUCCESS None \<longrightarrow> settled visible snap T' s')"
    using outcomeD [OF pg_store.pg_update_outcome [OF assms(1)] assms(2,3)] by simp
  then obtain T' where eff: "pg_update_effect (pg_shake256 pg) T request x T'" and s': "nothing_pending visible snap T' s'"
    by (elim exE conjE)
  have v: "visible s' = T'" using s' by (simp add: nothing_pending_def)
  show ?thesis
  proof (cases x)
    case (UPDATE_SUCCESS m)
    then show ?thesis using eff Inr s' v by (auto simp: pg_update_effect_def related_rows_def with_updated_def)
  qed (use eff Inr s' v in \<open>simp_all add: pg_update_effect_def\<close>)
qed

theorem pg_update_outcomes_witness:
  "\<exists>s'. pg_updateDocumentByDocumentUuid example_pg (example_update ''b'' [] 3 (numbered_uuid 1)) pg_two =
       (Inr (UpdateResult.UPDATE_SUCCESS None), s') \<and>
     t_documents (pm_view s') = map (\<lambda>d. if pgd_document_uuid d = numbered_uuid 1
       then updated_row (example_update ''b'' [] 3 (numbered_uuid 1)) d else d) (t_documents (pm_view pg_two))"
proof -
  let ?q = "example_update ''b'' [] 3 (numbered_uuid 1)"
  have "fst (pg_updateDocumentByDocumentUuid example_pg ?q pg_two) = Inr (UpdateResult.UPDATE_SUCCESS None)" by code_simp
  then obtain s' where run: "pg_updateDocumentByDocumentUuid example_pg ?q pg_two = (Inr (UpdateResult.UPDATE_SUCCESS None), s')"
    by (rule example_run)
  have "nothing_pending pm_view pm_snap (pm_view pg_two) pg_two" by (simp add: nothing_pending_def pg_two_rows)
  moreover have "upd_documentUuid ?q = numbered_uuid 1" by code_simp
  ultimately show ?thesis using pg_update_outcomes [OF example_pg_store _ run] run by simp
qed

text \<open>C24: A delete that answers DELETE_SUCCESS has removed exactly the row with the uuid, and with validation on no
  other document had a reference to one of its aliases; every other answer leaves the documents as they were.  A delete
  never leaves a transaction open unless it throws.\<close>

theorem pg_delete_outcomes:
  assumes "pg_store pg visible snap" "nothing_pending visible snap T s"
    and "pg_deleteDocumentByDocumentUuid pg request s = (Inr r, s')"
  shows "snap s' = None \<and>
    (if r = DELETE_SUCCESS
     then (\<exists>d \<in> set (t_documents T). pgd_document_uuid d = del_documentUuid request) \<and>
       t_documents (visible s') = filter (\<lambda>d. pgd_document_uuid d \<noteq> del_documentUuid request) (t_documents T) \<and>
       (del_validateNoReferencesToDocument request \<longrightarrow>
         (\<exists>i. alias_owner T (del_documentUuid request) i \<and> unreferenced T (del_documentUuid request) i))
     else t_documents (visible s') = t_documents T)"
proof -
  obtain T' where eff: "pg_delete_effect T request r T'" and s': "settled visible snap T' s'"
    using outcomeD [OF pg_store.pg_delete_outcome [OF assms(1)] assms(2,3)] by auto
  have v: "visible s' = T'" "snap s' = None" using s' by (simp_all add: settled_def)
  show ?thesis
  proof (cases "T' = T \<and> pg_delete_refusal T request r")
    case True
    then show ?thesis using v by (auto simp: pg_delete_refusal_def)
  next
    case False
    then obtain i where i: "alias_owner T (del_documentUuid request) i" "T' = without_document (del_documentUuid request) i T"
      "del_validateNoReferencesToDocument request \<longrightarrow> i \<noteq> '''' \<and> unreferenced T (del_documentUuid request) i"
      "r = (if \<exists>d \<in> set (t_documents T). pgd_document_uuid d = del_documentUuid request
             then DELETE_SUCCESS else DELETE_FAILURE_NOT_EXISTS)"
      using eff unfolding pg_delete_effect_def by blast
    show ?thesis
    proof (cases "\<exists>d \<in> set (t_documents T). pgd_document_uuid d = del_documentUuid request")
      case True
      then show ?thesis using i v by (auto simp: without_document_def)
    next
      case False
      then have "filter (\<lambda>d. pgd_document_uuid d \<noteq> del_documentUuid request) (t_documents T) = t_documents T"
        by (intro filter_True) auto
      then show ?thesis using False i v by (simp add: without_document_def)
    qed
  qed
qed

theorem pg_delete_outcomes_witness:
  "\<exists>s'. pg_deleteDocumentByDocumentUuid example_pg (example_delete (numbered_uuid 1)) pg_two = (Inr DELETE_SUCCESS, s') \<and>
     t_documents (pm_view s') = filter (\<lambda>d. pgd_document_uuid d \<noteq> numbered_uuid 1) (t_documents (pm_view pg_two))"
proof -
  let ?q = "example_delete (numbered_uuid 1)"
  have "fst (pg_deleteDocumentByDocumentUuid example_pg ?q pg_two) = Inr DELETE_SUCCESS" by code_simp
  then obtain s' where run: "pg_deleteDocumentByDocumentUuid example_pg ?q pg_two = (Inr DELETE_SUCCESS, s')"
    by (rule example_run)
  have "nothing_pending pm_view pm_snap (pm_view pg_two) pg_two" by (simp add: nothing_pending_def pg_two_rows)
  from pg_delete_outcomes [OF example_pg_store this run] run show ?thesis by (simp add: example_delete_def)
qed


section \<open>Referential integrity\<close>

text \<open>C2: Referential integrity: from empty tables, whatever validated requests are served in whatever order and with
  whatever outcome, every row of the reference table starts at a stored document and leads to an alias of a stored
  document, its own id or the id of its superclass, as long as no update changes an identity, the aliases of a document
  depend on its id alone and differ, and the own id of a document is never the superclass id of another.\<close>

theorem pg_referential_integrity:
  assumes "pg_store pg visible snap" "alias_law alias" "\<And>i. distinct (alias i)"
    and "settled visible snap empty_tables s0" "pg_reachable pg (pg_admissible pg alias) s0 s"
  shows "\<forall>r \<in> set (t_references (visible s)).
    (\<exists>d \<in> set (t_documents (visible s)). pgd_meadowlark_id d = pgr_parent_meadowlark_id r) \<and>
    (\<exists>d \<in> set (t_documents (visible s)). pgr_referenced_meadowlark_id r \<in> set (alias (pgd_meadowlark_id d)))"
proof -
  obtain T where "nothing_pending visible snap T s" "pg_integral alias T"
    using pg_store.reachable_integral [OF assms(1-3) settled_pending [OF assms(4)] integral_empty assms(5)] by blast
  then have inv: "pg_aliased alias (visible s)" "pg_resolved (visible s)"
    by (simp_all add: pg_integral_def nothing_pending_def)
  show ?thesis
  proof
    fix r assume "r \<in> set (t_references (visible s))"
    then have "pgr_parent_meadowlark_id r \<in> pgd_meadowlark_id ` set (t_documents (visible s))"
      "pgr_referenced_meadowlark_id r \<in> set (alias_ids (visible s))" using inv(2) by (simp_all add: pg_resolved_def)
    then obtain d a where "d \<in> set (t_documents (visible s))" "pgd_meadowlark_id d = pgr_parent_meadowlark_id r"
      "a \<in> set (t_aliases (visible s))" "pga_alias_meadowlark_id a = pgr_referenced_meadowlark_id r"
      unfolding alias_ids_def by force
    then show "(\<exists>d \<in> set (t_documents (visible s)). pgd_meadowlark_id d = pgr_parent_meadowlark_id r) \<and>
        (\<exists>d \<in> set (t_documents (visible s)). pgr_referenced_meadowlark_id r \<in> set (alias (pgd_meadowlark_id d)))"
      using pg_aliasedD(1) [OF inv(1)] by metis
  qed
qed

lemma pg_two_reachable: "pg_reachable example_pg (pg_admissible example_pg (\<lambda>i. [i])) pg_mem_start pg_two"
  unfolding pg_two_def pg_after_def
  by (rule pg_reachable_fold) (simp add: example_stored_def example_upsert_def aliasMeadowlarkIdsFrom_def)

lemma pg_start_settled: "settled pm_view pm_snap empty_tables pg_mem_start"
  by (simp add: settled_def pg_mem_start_def)

definition pg_with_superclass :: pg_mem where
  "pg_with_superclass = pg_after [UpsertOf (with_superclass (example_upsert ''a'' [] 1)), example_stored ''b'' [''s''] 2]"

lemma example_pg_shake256: "pg_shake256 example_pg = prefix_digest"
  by (simp add: example_pg_def pg_mem_ops_def)

lemma pg_with_superclass_reachable:
  "pg_reachable example_pg (pg_admissible example_pg example_aliases) pg_mem_start pg_with_superclass"
  unfolding pg_with_superclass_def pg_after_def
  by (rule pg_reachable_fold) (simp add: example_stored_def example_request_aliases example_pg_shake256)

theorem pg_referential_integrity_witness:
  "map pgr_referenced_meadowlark_id (t_references (pm_view pg_with_superclass)) = [example_key ''s''] \<and>
   (\<exists>d. d \<in> set (t_documents (pm_view pg_with_superclass)) \<and> pgd_meadowlark_id d = example_key ''a'')"
proof -
  have rows: "map pgr_referenced_meadowlark_id (t_references (pm_view pg_with_superclass)) = [example_key ''s'']"
    by code_simp
  then obtain r where r: "r \<in> set (t_references (pm_view pg_with_superclass))"
    "pgr_referenced_meadowlark_id r = example_key ''s''" by (auto simp: map_eq_Cons_conv)
  have "\<exists>d \<in> set (t_documents (pm_view pg_with_superclass)). example_key ''s'' \<in> set (example_aliases (pgd_meadowlark_id d))"
    using pg_referential_integrity [OF example_pg_store example_alias_law pg_start_settled pg_with_superclass_reachable] r
    by fastforce
  then obtain d where "d \<in> set (t_documents (pm_view pg_with_superclass))" "pgd_meadowlark_id d = example_key ''a''"
    unfolding example_aliases_def by (auto split: if_splits)
  then show ?thesis using rows by blast
qed

text \<open>An update that changes the id of a document leaves the references of other documents to the old id behind, where
  they lead to nothing: the code removes the alias of the old id without looking at the documents that refer to it.\<close>

theorem pg_identity_update_dangles:
  assumes "pg_store pg visible snap" "nothing_pending visible snap T s" "pg_integral alias T"
    and "pg_updateDocumentByDocumentUuid pg request s = (Inr (UpdateResult.UPDATE_SUCCESS m), s')"
    and "old \<in> set (t_documents T)" "pgd_document_uuid old = upd_documentUuid request"
    and "pgd_meadowlark_id old \<noteq> ur_meadowlarkId request" "di_superclassInfo (ur_documentInfo request) = None"
    and "row \<in> set (t_references T)" "pgr_referenced_meadowlark_id row = pgd_meadowlark_id old"
    and "pgr_parent_meadowlark_id row \<noteq> pgd_meadowlark_id old"
  shows "row \<in> set (t_references (visible s')) \<and>
    (\<forall>a \<in> set (t_aliases (visible s')). pga_alias_meadowlark_id a \<noteq> pgr_referenced_meadowlark_id row)"
proof -
  let ?i = "pgd_meadowlark_id old"
  have "\<exists>T'. pg_update_effect (pg_shake256 pg) T request (UpdateResult.UPDATE_SUCCESS m) T' \<and> nothing_pending visible snap T' s'"
    using outcomeD [OF pg_store.pg_update_outcome [OF assms(1)] assms(2,4)] by auto
  then obtain T' where eff: "pg_update_effect (pg_shake256 pg) T request (UpdateResult.UPDATE_SUCCESS m) T'"
    and s': "visible s' = T'" by (auto simp: nothing_pending_def)
  have tc: "table_constraints T" and al: "pg_aliased alias T" using assms(3) by (simp_all add: pg_integral_def)
  obtain old' where "old' \<in> set (t_documents T)" "pgd_document_uuid old' = upd_documentUuid request"
    and rows: "related_rows (pg_shake256 pg) request (pgd_meadowlark_id old') (upd_documentUuid request)
        (with_updated request (upd_documentUuid request) T) T'"
    using eff by (auto simp: pg_update_effect_def)
  then have "old' = old" using documents_inj(2) [OF tc] assms(5,6) by metis
  then obtain refs where T': "T' = replace_references ?i (ur_meadowlarkId request) refs
      (replace_aliases ?i (upd_documentUuid request) (ur_meadowlarkId request) [ur_meadowlarkId request]
        (with_updated request (upd_documentUuid request) T))"
    using rows assms(8) by (auto simp: related_rows_def aliasMeadowlarkIdsFrom_def)
  let ?own = "\<lparr>pga_document_uuid = pgd_document_uuid old, pga_meadowlark_id = ?i, pga_alias_meadowlark_id = ?i\<rparr>"
  have own: "?own \<in> set (t_aliases T)" using al pg_aliasedD(3) [OF al assms(5)] assms(5) by (auto simp: pg_aliased_def alias_row)
  have "pga_alias_meadowlark_id a \<noteq> ?i" if a: "a \<in> set (t_aliases T')" for a
  proof
    assume "pga_alias_meadowlark_id a = ?i"
    moreover from this have kept: "a \<in> set (t_aliases T)" "pga_meadowlark_id a \<noteq> ?i"
      using a assms(7) by (auto simp: T' replace_aliases_def replace_references_def with_updated_def)
    ultimately have "a = ?own" using alias_rows_inj [OF pg_aliasedD(2) [OF al] kept(1) own] by simp
    then have "pga_meadowlark_id a = pga_meadowlark_id ?own" by (rule arg_cong)
    then show False using kept(2) by simp
  qed
  moreover have "row \<in> set (t_references T')"
    using assms(9,11) by (auto simp: T' replace_references_def with_updated_def)
  ultimately show ?thesis using s' assms(10) by simp
qed

lemma pg_two_integral: "pg_integral (\<lambda>i. [i]) (pm_view pg_two)"
proof -
  have "alias_law (\<lambda>i. [i])" by (simp add: alias_law_def)
  moreover have "pg_store example_pg pm_view pm_snap" by (rule example_pg_store)
  ultimately obtain T where "nothing_pending pm_view pm_snap T pg_two" "pg_integral (\<lambda>i. [i]) T"
    using pg_store.reachable_integral [OF example_pg_store _ _ settled_pending [OF pg_start_settled] integral_empty pg_two_reachable]
    by fastforce
  then show ?thesis by (simp add: nothing_pending_def)
qed

theorem pg_identity_update_dangles_witness:
  "\<exists>s' row. pg_updateDocumentByDocumentUuid example_pg (example_update ''c'' [] 3 (numbered_uuid 0)) pg_two =
       (Inr (UpdateResult.UPDATE_SUCCESS None), s') \<and>
     row \<in> set (t_references (pm_view s')) \<and> pgr_referenced_meadowlark_id row = example_key ''a'' \<and>
     example_key ''a'' \<notin> pga_alias_meadowlark_id ` set (t_aliases (pm_view s'))"
proof -
  let ?q = "example_update ''c'' [] 3 (numbered_uuid 0)"
  have "fst (pg_updateDocumentByDocumentUuid example_pg ?q pg_two) = Inr (UpdateResult.UPDATE_SUCCESS None)" by code_simp
  then obtain s' where run: "pg_updateDocumentByDocumentUuid example_pg ?q pg_two = (Inr (UpdateResult.UPDATE_SUCCESS None), s')"
    by (rule example_run)
  have pending: "nothing_pending pm_view pm_snap (pm_view pg_two) pg_two" by (simp add: nothing_pending_def pg_two_rows)
  let ?old = "hd (t_documents (pm_view pg_two))" and ?row = "hd (t_references (pm_view pg_two))"
  have mem: "?old \<in> set (t_documents (pm_view pg_two))" "?row \<in> set (t_references (pm_view pg_two))"
    using pg_two_rows(1,2) by (auto intro: hd_in_set)
  have old: "pgd_document_uuid ?old = upd_documentUuid ?q" "pgd_meadowlark_id ?old \<noteq> ur_meadowlarkId ?q"
    "di_superclassInfo (ur_documentInfo ?q) = None" "pgr_referenced_meadowlark_id ?row = pgd_meadowlark_id ?old"
    "pgr_parent_meadowlark_id ?row \<noteq> pgd_meadowlark_id ?old" "pgr_referenced_meadowlark_id ?row = example_key ''a''"
    by code_simp+
  from pg_identity_update_dangles [OF example_pg_store pending pg_two_integral run mem(1) old(1-3) mem(2) old(4,5)]
  show ?thesis using run old(6) by (intro exI [of _ s'] exI [of _ ?row]) auto
qed


section \<open>The contracts\<close>

text \<open>C4: The PostgreSQL plugin refines the abstract document store: seen as the set of its uuids with their documents, an
  insert adds one pair, an update has stored the pair of the request, a delete removes the pairs of its uuid, a
  get that succeeds answers with a stored pair, and whatever fails or throws changes nothing.\<close>

theorem pg_refines_document_store:
  assumes "pg_store pg visible snap"
  shows "document_store (pg_initializeDocumentStore pg) (pg_ok visible snap) (pg_stored visible)"
  by (rule pg_store.pg_contract [OF assms])

theorem pg_refines_document_store_witness:
  "document_store (pg_initializeDocumentStore example_pg) (pg_ok pm_view pm_snap) (pg_stored pm_view)"
  by (rule pg_refines_document_store [OF example_pg_store])

text \<open>C18: The PostgreSQL store of clients keeps the contract that the OAuth server relies on as long as no transaction is
  open: clients appear only under the id, name, roles and hash asked for, a lookup shows what is registered, an update
  keeps the hash and a reset only changes it, and an administrator is registered only when there is none.\<close>

theorem pg_refines_authorization_store:
  assumes "pg_store pg visible snap"
  shows "authorization_store (pg_initializeAuthorizationStore pg) (pg_settled visible snap)
    (\<lambda>t. pg_registered (visible (snd t))) (\<lambda>t. pg_admins (visible (snd t)))"
  by (rule pg_store.pg_authorization_contract [OF assms])

theorem pg_refines_authorization_store_witness:
  "authorization_store (pg_initializeAuthorizationStore example_pg) (pg_settled pm_view pm_snap)
    (\<lambda>t. pg_registered (pm_view (snd t))) (\<lambda>t. pg_admins (pm_view (snd t)))"
  by (rule pg_refines_authorization_store [OF example_pg_store])

section \<open>Ownership\<close>



section \<open>Bounds\<close>

text \<open>C38: No answer to an upsert, update or delete reports more than five conflicting or referring documents, and those it
  reports are stored.\<close>

theorem pg_reports_at_most_five:
  assumes "pg_store pg visible snap" "nothing_pending visible snap T s"
    and "fst (pg_upsertDocument pg request s) = Inr (INSERT_FAILURE_REFERENCE m info) \<or>
      fst (pg_upsertDocument pg request s) = Inr (UpsertResult.UPDATE_FAILURE_REFERENCE m info) \<or>
      fst (pg_upsertDocument pg request s) = Inr (INSERT_FAILURE_CONFLICT m info) \<or>
      fst (pg_updateDocumentByDocumentUuid pg urequest s) = Inr (UpdateResult.UPDATE_FAILURE_REFERENCE m info) \<or>
      fst (pg_deleteDocumentByDocumentUuid pg drequest s) = Inr (DELETE_FAILURE_REFERENCE info)"
  shows "length info \<le> 5 \<and> set info \<subseteq> pg_referringInfo ` set (t_documents T)"
proof -
  obtain ru s1 where ru: "pg_upsertDocument pg request s = (ru, s1)" by (cases "pg_upsertDocument pg request s")
  obtain rp s2 where rp: "pg_updateDocumentByDocumentUuid pg urequest s = (rp, s2)"
    by (cases "pg_updateDocumentByDocumentUuid pg urequest s")
  obtain rd s3 where rd: "pg_deleteDocumentByDocumentUuid pg drequest s = (rd, s3)"
    by (cases "pg_deleteDocumentByDocumentUuid pg drequest s")
  note out = outcomeD [OF pg_store.pg_upsert_outcome [OF assms(1)] assms(2) ru]
    outcomeD [OF pg_store.pg_update_outcome [OF assms(1)] assms(2) rp]
    outcomeD [OF pg_store.pg_delete_outcome [OF assms(1)] assms(2) rd]
  have "reported T info"
    using assms(3) unfolding ru rp rd fst_conv
  proof (elim disjE)
    assume "rd = Inr (DELETE_FAILURE_REFERENCE info)"
    then show ?thesis using out(3) by (auto simp: pg_delete_effect_def pg_delete_refusal_def split: if_splits)
  qed (use out(1,2) in \<open>auto simp: pg_upsert_effect_def pg_update_effect_def\<close>)
  then show ?thesis by (simp add: reported_def)
qed

theorem pg_reports_at_most_five_witness:
  "\<exists>info. fst (pg_deleteDocumentByDocumentUuid example_pg (example_delete (numbered_uuid 0)) pg_two) =
     Inr (DELETE_FAILURE_REFERENCE info) \<and> info \<noteq> [] \<and> length info \<le> 5"
proof -
  have "case fst (pg_deleteDocumentByDocumentUuid example_pg (example_delete (numbered_uuid 0)) pg_two) of
      Inr (DELETE_FAILURE_REFERENCE info) \<Rightarrow> info \<noteq> [] | _ \<Rightarrow> False" by code_simp
  then obtain info where run: "fst (pg_deleteDocumentByDocumentUuid example_pg (example_delete (numbered_uuid 0)) pg_two) =
      Inr (DELETE_FAILURE_REFERENCE info)" "info \<noteq> []" by (auto split: sum.splits DeleteResult.splits)
  have pending: "nothing_pending pm_view pm_snap (pm_view pg_two) pg_two" by (simp add: nothing_pending_def pg_two_rows)
  from pg_reports_at_most_five [OF example_pg_store pending] run show ?thesis by blast
qed

end
