(* ===== verification/PgLiveness.thy ===== *)
theory PgLiveness
  imports PgProperties
begin

text \<open>
  What the PostgreSQL backend gets done when the database works: \<open>pg_reliable\<close> adds to the laws of \<open>pg_store\<close> that
  no statement fails, except one whose result would violate a constraint.  Then no operation ends in its \<open>catch\<close>
  without a cause in the tables, a valid upsert is carried out and a document that nothing refers to can be deleted.
\<close>

section \<open>Runs that do not throw\<close>

definition sure :: "('s \<Rightarrow> bool) \<Rightarrow> ('a, 's) act \<Rightarrow> bool" where
  "sure P m \<longleftrightarrow> (\<forall>s. P s \<longrightarrow> (\<exists>x s'. m s = (Inr x, s')))"

lemma sureI: "(\<And>s. P s \<Longrightarrow> \<exists>x s'. m s = (Inr x, s')) \<Longrightarrow> sure P m"
  unfolding sure_def by blast

lemma sureD: "sure P m \<Longrightarrow> P s \<Longrightarrow> \<exists>x s'. m s = (Inr x, s')"
  unfolding sure_def by blast

lemma sure_ret [simp]: "sure P (ret x)"
  by (rule sureI) (simp add: ret_def)

lemma sure_lift: "r = Inr x \<Longrightarrow> sure P (lift r)"
  by (rule sureI) (simp add: lift_def)

lemma sure_if: "(b \<Longrightarrow> sure P m) \<Longrightarrow> (\<not> b \<Longrightarrow> sure P n) \<Longrightarrow> sure P (if b then m else n)"
  by simp

lemma sure_any: "sure (\<lambda>_. True) m \<Longrightarrow> sure P m"
  unfolding sure_def by blast

lemma sure_seq:
  assumes "sure P m" "outcome P m R E" "\<And>x. sure (R x) (K x)"
  shows "sure P (bnd m K)"
proof (rule sureI)
  fix s assume p: "P s"
  then obtain x t where m: "m s = (Inr x, t)" using sureD [OF assms(1)] by blast
  then have "R x t" using outcomeD [OF assms(2) p m] by simp
  then show "\<exists>y s'. bnd m K s = (Inr y, s')" using sureD [OF assms(3)] m by (simp add: bnd_def)
qed

lemma sure_fact: "(F \<Longrightarrow> sure P m) \<Longrightarrow> sure (\<lambda>s. P s \<and> F) m"
  unfolding sure_def by blast

lemma sure_exists: "(\<And>y. sure (P y) m) \<Longrightarrow> sure (\<lambda>s. \<exists>y. P y s) m"
  unfolding sure_def by blast

lemma sure_step:
  "sure P m \<Longrightarrow> outcome P m (\<lambda>x s. P' s \<and> F x) E \<Longrightarrow> (\<And>x. F x \<Longrightarrow> sure P' (K x)) \<Longrightarrow> sure P (bnd m K)"
  by (erule sure_seq, assumption) (rule sure_fact)

lemma sure_weaken: "sure P m \<Longrightarrow> (\<And>s. P' s \<Longrightarrow> P s) \<Longrightarrow> sure P' m"
  unfolding sure_def by blast

lemma sure_map: "sure P m \<Longrightarrow> sure P (bnd m (\<lambda>x. ret (f x)))"
  unfolding sure_def by (fastforce simp: bnd_def ret_def)

text \<open>A \<open>catch\<close> that is not needed.\<close>

lemma sure_try:
  assumes "sure P m" "P s"
  shows "\<exists>x s'. m s = (Inr x, s') \<and> try_catch m h s = (Inr x, s')"
  using sureD [OF assms] by (auto simp: try_catch_def)

section \<open>A database that works\<close>

definition works :: "('s \<Rightarrow> tables) \<Rightarrow> ('a, 's) act \<Rightarrow> (tables \<Rightarrow> tables) \<Rightarrow> bool" where
  "works visible m f \<longleftrightarrow> sure (\<lambda>s. table_constraints (f (visible s))) m"

locale pg_reliable = pg_store +
  assumes selectDocuments_works: "sure (\<lambda>_. True) (pg_selectDocuments pg P limit)"
    and selectReferences_works: "sure (\<lambda>_. True) (pg_selectReferences pg P1)"
    and selectAliases_works: "sure (\<lambda>_. True) (pg_selectAliases pg P2 lock)"
    and execute_works: "works visible (pg_execute pg f) (\<lambda>T. fst (f T))"
    and deleteReturningCount_works:
      "works visible (pg_deleteReturningCount pg P) (\<lambda>T. fst (on_documents (sql_delete P) T))"
    and begin_works: "sure (\<lambda>_. True) (pg_begin pg)"
    and rollback_works: "sure (\<lambda>_. True) (pg_rollback pg)"
    and commit_works: "sure (\<lambda>_. True) (pg_commit pg)"
    and uuid_works: "sure (\<lambda>_. True) (pg_generateDocumentUuid pg)"

interpretation pg_mem_reliable: pg_reliable "pg_mem_ops shake256 config" pm_view pm_snap
  by unfold_locales
    (auto simp: pg_mem_ops_def works_def sure_def Let_def pm_execute_def on_documents_def sql_delete_def split: prod.splits)

context pg_reliable
begin

text \<open>A statement that leaves the documents and the clients alone never fails in a transaction.\<close>

lemma sure_txn_read: "sure (\<lambda>_. True) m \<Longrightarrow> sure (txn T0 T) m"
  by (rule sure_any)

lemma sure_write:
  assumes "works visible m f" "table_constraints (f T)"
  shows "sure (txn T0 T) m"
  using assms unfolding works_def sure_def by (auto simp: in_txn_def)

lemma works_map: "works visible m f \<Longrightarrow> works visible (bnd m (\<lambda>x. ret (g x))) f"
  unfolding works_def by (rule sure_map)

lemmas statement_defs = insertAlias_def insertOutboundReferences_def deleteAliasesForDocumentByMeadowlarkId_def
  deleteOutboundReferencesOfDocumentByMeadowlarkId_def insertDocument_def updateDocument_def

lemma begin_sure: "sure P (beginTransaction pg)"
  unfolding beginTransaction_def by (intro sure_any [OF begin_works])

lemma rollback_sure: "sure P (rollbackTransaction pg)"
  unfolding rollbackTransaction_def by (intro sure_any [OF rollback_works])

lemma commit_sure: "sure P (commitTransaction pg)"
  unfolding commitTransaction_def by (intro sure_any [OF commit_works])


text \<open>Statements that write rows beside the documents.\<close>

lemma sure_execute:
  assumes "table_constraints (fst (f T))"
  shows "sure (txn T0 T) (bnd (pg_execute pg f) (\<lambda>n. ret (g n)))"
  by (rule sure_map, rule sure_write [OF execute_works]) (rule assms)

lemma beside_documents:
  assumes "table_constraints T"
  shows "sure (txn T0 T) (insertAlias pg u i a)" "sure (txn T0 T) (insertOutboundReferences pg i a)"
    "sure (txn T0 T) (deleteAliasesForDocumentByMeadowlarkId pg i)"
    "sure (txn T0 T) (deleteOutboundReferencesOfDocumentByMeadowlarkId pg i)"
  unfolding statement_defs
  by (rule sure_execute; use assms in \<open>simp add: sql_defs table_constraints_def\<close>)+

lemma sure_write_step:
  assumes "sure (txn T0 T) m" "write_law visible snap m f"
    and "\<And>x. table_constraints (fst (f T)) \<Longrightarrow> sure (txn T0 (fst (f T))) (K x)"
  shows "sure (txn T0 T) (bnd m K)"
  by (rule sure_step [OF assms(1) write_outcome [OF assms(2)]]) (rule assms(3), simp)

lemma sure_read_step:
  assumes "sure (\<lambda>_. True) m" "read_law visible snap m P" "\<And>x. P T x \<Longrightarrow> sure (txn T0 T) (K x)"
  shows "sure (txn T0 T) (bnd m K)"
  by (rule sure_step [OF sure_any [OF assms(1)] read_outcome [OF assms(2)]]) (rule assms(3))

lemma aliases_sure:
  assumes "table_constraints T" "aliasMeadowlarkIdsFrom (pg_shake256 pg) j si = Inr ids"
  shows "sure (txn T0 T) (writeAliases pg u i j si)"
  unfolding writeAliases_def
proof (intro sure_write_step [OF beside_documents(3) delete_aliases_write] sure_write_step [OF beside_documents(1) insert_alias_write])
  fix x y and T1 :: tables
  assume T1: "table_constraints T1"
  show "sure (txn T0 T1) (case si of None \<Rightarrow> ret () | Some si \<Rightarrow>
      bnd (lift (getMeadowlarkIdForSuperclassInfo (pg_shake256 pg) si)) (\<lambda>a.
      bnd (insertAlias pg u j a) (\<lambda>_. ret ())))"
  proof (cases si)
    case (Some sup)
    then obtain a where a: "getMeadowlarkIdForSuperclassInfo (pg_shake256 pg) sup = Inr a"
      using assms(2) by (cases "getMeadowlarkIdForSuperclassInfo (pg_shake256 pg) sup") (auto simp: aliasMeadowlarkIdsFrom_def)
    then show ?thesis using Some
      by (simp, intro sure_write_step [OF beside_documents(1) [OF T1] insert_alias_write], simp)
  qed simp
qed (use assms(1) in simp_all)

lemma insert_references_sure:
  "table_constraints T \<Longrightarrow> sure (txn T0 T) (run_all (\<lambda>r. bnd (insertOutboundReferences pg j r) (\<lambda>_. ret ())) refs)"
proof (induction refs arbitrary: T)
  case (Cons r refs)
  show ?case unfolding run_all.simps bnd_assoc bnd_ret
    by (rule sure_write_step [OF beside_documents(2) [OF Cons.prems] insert_reference_write]) (rule Cons.IH)
qed simp

lemma references_sure:
  assumes "table_constraints T"
    and "res_map (getMeadowlarkIdForDocumentReference (pg_shake256 pg)) descriptors = Inr descs"
  shows "sure (txn T0 T) (writeOutboundReferences pg i j outs descriptors)"
  unfolding writeOutboundReferences_def assms(2) lift_Inr bnd_ret
  by (rule sure_write_step [OF beside_documents(4) [OF assms(1)] delete_references_write]) (rule insert_references_sure)


section \<open>Valid upserts\<close>

lemma missing_sure:
  assumes "passes T ids"
  shows "sure (txn T0 T) (pg_missingOf pg ids references)"
  unfolding pg_missingOf_def
proof (rule sure_step [where F = "\<lambda>found. mset found = mset (filter (\<lambda>i. i \<in> set ids) (alias_ids T))"])
  show "sure (txn T0 T) (pg_findReferencedMeadowlarkIdsByMeadowlarkId pg ids)"
    by (simp add: pg_findReferencedMeadowlarkIdsByMeadowlarkId_def validateReferenceExistence_def sure_map
        sure_any [OF selectAliases_works])
  show "outcome (txn T0 T) (pg_findReferencedMeadowlarkIdsByMeadowlarkId pg ids)
    (\<lambda>found s. txn T0 T s \<and> mset found = mset (filter (\<lambda>i. i \<in> set ids) (alias_ids T))) (com T0)"
    by (rule found_outcome)
next
  fix found
  assume found: "mset found = mset (filter (\<lambda>i. i \<in> set ids) (alias_ids T))"
  then have len: "length found = length (filter (\<lambda>i. i \<in> set ids) (alias_ids T))" using mset_eq_length by blast
  have "set ids \<subseteq> set found \<longleftrightarrow> set ids \<subseteq> set (alias_ids T)" using mset_eq_setD [OF found] by auto
  then have "R_difference ids found = [] \<or> length ids = length found"
    using assms len by (auto simp: passes_def R_difference_Nil)
  then show "sure (txn T0 T) (lift (if length ids \<noteq> length found then pg_findMissingReferences found ids references else Inr []))"
    by (auto simp: pg_findMissingReferences_def)
qed

lemma invalid_sure:
  assumes "res_map (getMeadowlarkIdForDocumentReference (pg_shake256 pg)) (di_documentReferences (ur_documentInfo request)) = Inr refs"
    and "validated_in (pg_shake256 pg) T request"
  shows "sure (txn T0 T) (pg_invalid_references pg request refs i)"
proof (cases "ur_validateDocumentReferencesExist request")
  case True
  then have pass: "passing_references (pg_shake256 pg) T (ur_documentInfo request)" using assms(2) by (simp add: validated_in_def)
  then obtain descs where descs: "passes T refs" "passes T descs"
    "res_map (getMeadowlarkIdForDocumentReference (pg_shake256 pg)) (di_descriptorReferences (ur_documentInfo request)) = Inr descs"
    using assms(1) by (auto simp: passing_references_def)
  show ?thesis unfolding pg_invalid_references_def if_P [OF True]
  proof (rule sure_step [OF _ validate_outcome [OF assms(1)]])
    show "sure (txn T0 T) (pg_validateReferences pg (di_documentReferences (ur_documentInfo request))
        (di_descriptorReferences (ur_documentInfo request)) refs)"
      unfolding pg_validateReferences_def descs(3) lift_Inr bnd_ret
      by (rule sure_step [OF missing_sure [OF descs(1)] missingOf_outcome]) (rule sure_map, rule missing_sure [OF descs(2)])
  qed (use pass in simp)
qed (simp add: pg_invalid_references_def)

lemma conflict_sure:
  assumes "getMeadowlarkIdForSuperclassInfo (pg_shake256 pg) si = Inr a" "a \<notin> set (alias_ids T)"
  shows "sure (txn T0 T) (pg_subclass_conflict pg request si)"
  unfolding pg_subclass_conflict_def assms(1) lift_Inr bnd_ret
proof (rule sure_read_step [OF _ alias_in_use_read])
  show "sure (\<lambda>_. True) (findAliasMeadowlarkId pg a)"
    unfolding findAliasMeadowlarkId_def by (rule sure_map) (rule selectAliases_works)
qed (use assms(2) in \<open>auto simp: alias_ids_def\<close>)

lemma write_upsert_sure:
  assumes docs: "table_constraints (if isInsert then with_inserted request u T else with_updated request u T)"
    and "res_map (getMeadowlarkIdForDocumentReference (pg_shake256 pg)) (di_descriptorReferences (ur_documentInfo request)) = Inr descs"
    and "aliasMeadowlarkIdsFrom (pg_shake256 pg) (ur_meadowlarkId request) (di_superclassInfo (ur_documentInfo request)) = Inr ids"
  shows "sure (txn T0 T) (pg_write_upsert pg request isInsert u refs)"
proof -
  let ?rest = "bnd (writeAliases pg u (ur_meadowlarkId request) (ur_meadowlarkId request) (di_superclassInfo (ur_documentInfo request))) (\<lambda>_.
     bnd (writeOutboundReferences pg (ur_meadowlarkId request) (ur_meadowlarkId request) refs (di_descriptorReferences (ur_documentInfo request))) (\<lambda>_.
     bnd (commitTransaction pg) (\<lambda>_.
     ret (if isInsert then INSERT_SUCCESS None u else UpsertResult.UPDATE_SUCCESS None u))))"
  have rest: "sure (txn T0 T1) ?rest" if "table_constraints T1" for T1
  proof (rule sure_seq [OF aliases_sure [OF that assms(3)] aliases_outcome], intro sure_exists sure_fact)
    fix x ids
    let ?T = "replace_aliases (ur_meadowlarkId request) u (ur_meadowlarkId request) ids T1"
    show "sure (\<lambda>s. aliasMeadowlarkIdsFrom (pg_shake256 pg) (ur_meadowlarkId request) (di_superclassInfo (ur_documentInfo request)) = Inr ids \<and> txn T0 ?T s)
      (bnd (writeOutboundReferences pg (ur_meadowlarkId request) (ur_meadowlarkId request) refs (di_descriptorReferences (ur_documentInfo request))) (\<lambda>_.
       bnd (commitTransaction pg) (\<lambda>_. ret (if isInsert then INSERT_SUCCESS None u else UpsertResult.UPDATE_SUCCESS None u))))"
    proof (rule sure_weaken [where P = "txn T0 ?T"])
      have "table_constraints ?T" using that by simp
      from references_sure [OF this assms(2)]
      show "sure (txn T0 ?T) (bnd (writeOutboundReferences pg (ur_meadowlarkId request) (ur_meadowlarkId request) refs
          (di_descriptorReferences (ur_documentInfo request))) (\<lambda>_.
        bnd (commitTransaction pg) (\<lambda>_. ret (if isInsert then INSERT_SUCCESS None u else UpsertResult.UPDATE_SUCCESS None u))))"
        by (rule sure_seq [OF _ references_outcome]) (rule sure_map, rule commit_sure)
    qed simp
  qed
  show ?thesis
  proof (cases isInsert)
    case True
    have T1: "table_constraints (T\<lparr>t_documents := t_documents T @ [inserted_row request u]\<rparr>)"
      using docs True by (simp add: with_inserted_def)
    have "sure (txn T0 T) (insertDocument pg request u)" unfolding insertDocument_def
      by (rule sure_execute) (use T1 in \<open>simp add: sql_defs\<close>)
    then have "sure (txn T0 T) (bnd (insertDocument pg request u) (\<lambda>_. ?rest))"
      by (rule sure_write_step [OF _ insert_document_write]) (rule rest, simp)
    then show ?thesis using True by (simp add: pg_write_upsert_def)
  next
    case False
    have T1: "table_constraints (T\<lparr>t_documents := map (\<lambda>d. if pgd_document_uuid d = u then updated_row request d else d) (t_documents T)\<rparr>)"
      using docs False by (simp add: with_updated_def)
    have "sure (txn T0 T) (updateDocument pg request u)" unfolding updateDocument_def
      by (rule sure_execute) (use T1 in \<open>simp add: sql_defs\<close>)
    then have "sure (txn T0 T) (bnd (updateDocument pg request u) (\<lambda>_. ?rest))"
      by (rule sure_write_step [OF _ update_document_write]) (rule rest, simp)
    then show ?thesis using False by (simp add: pg_write_upsert_def)
  qed
qed


lemma uuid_generated:
  "outcome (txn T0 T) (pg_generateDocumentUuid pg)
    (\<lambda>u s. txn T0 T s \<and> (\<exists>s0 s1. visible s0 = T \<and> pg_generateDocumentUuid pg s0 = (Inr u, s1))) (com T0)"
proof (rule outcomeI)
  fix s q s'
  assume s: "txn T0 T s" and run: "pg_generateDocumentUuid pg s = (q, s')"
  have "visible s = T" using s by (simp add: in_txn_def)
  then show "case q of Inl e \<Rightarrow> com T0 s'
      | Inr u \<Rightarrow> txn T0 T s' \<and> (\<exists>s0 s1. visible s0 = T \<and> pg_generateDocumentUuid pg s0 = (Inr u, s1))"
    using outcomeD [OF uuid_outcome s run] run by (cases q) auto
qed

lemma find_sure: "sure P (findDocumentByMeadowlarkId pg i)" "sure P (findDocumentByDocumentUuid pg u)"
  unfolding findDocumentByMeadowlarkId_def findDocumentByDocumentUuid_def
  by (rule sure_map, rule sure_any, rule selectDocuments_works)+

end

text \<open>Rows that keep the unique indexes.\<close>

lemma inserted_constraints:
  assumes "table_constraints T" "\<forall>d \<in> set (t_documents T). pgd_meadowlark_id d \<noteq> ur_meadowlarkId request \<and> pgd_document_uuid d \<noteq> u"
  shows "table_constraints (with_inserted request u T)"
  using assms by (auto simp: table_constraints_def with_inserted_def inserted_row_def)

lemma updated_constraints:
  assumes "table_constraints T" "old \<in> set (t_documents T)" "pgd_meadowlark_id old = ur_meadowlarkId request"
    and "pgd_document_uuid old = u"
  shows "table_constraints (with_updated request u T)"
proof -
  let ?f = "\<lambda>d. if pgd_document_uuid d = u then updated_row request d else d"
  have "pgd_meadowlark_id (?f d) = pgd_meadowlark_id d" if "d \<in> set (t_documents T)" for d
    using documents_inj(2) [OF assms(1) that assms(2)] assms(3,4) by (auto simp: updated_row_def)
  then have "map pgd_meadowlark_id (map ?f (t_documents T)) = map pgd_meadowlark_id (t_documents T)" by simp
  moreover have "map pgd_document_uuid (map ?f (t_documents T)) = map pgd_document_uuid (t_documents T)"
    by (simp add: updated_row_def)
  ultimately show ?thesis using assms(1) unfolding table_constraints_def with_updated_def by (simp del: map_map)
qed

text \<open>A request is new or newer than the document that it replaces, and its ids can be computed.\<close>

definition fresh_request :: "'s pg_ops \<Rightarrow> ('s \<Rightarrow> tables) \<Rightarrow> tables \<Rightarrow> UpsertRequest \<Rightarrow> bool" where
  "fresh_request pg visible T request \<longleftrightarrow>
     (\<exists>old \<in> set (t_documents T). pgd_meadowlark_id old = ur_meadowlarkId request \<and>
        pgd_last_modified_at old < di_requestTimestamp (ur_documentInfo request)) \<or>
     (\<forall>d \<in> set (t_documents T). pgd_meadowlark_id d \<noteq> ur_meadowlarkId request) \<and>
     superclass_unused (pg_shake256 pg) T (ur_documentInfo request) \<and>
     (\<forall>s u s'. visible s = T \<longrightarrow> pg_generateDocumentUuid pg s = (Inr u, s') \<longrightarrow>
        (\<forall>d \<in> set (t_documents T). pgd_document_uuid d \<noteq> u))"

definition computable_ids :: "(nat \<Rightarrow> string \<Rightarrow> 8 word list) \<Rightarrow> 'b UpsertRequest_scheme \<Rightarrow> bool" where
  "computable_ids shake256 request \<longleftrightarrow>
     (\<exists>refs descs ids. res_map (getMeadowlarkIdForDocumentReference shake256) (di_documentReferences (ur_documentInfo request)) = Inr refs \<and>
        res_map (getMeadowlarkIdForDocumentReference shake256) (di_descriptorReferences (ur_documentInfo request)) = Inr descs \<and>
        aliasMeadowlarkIdsFrom shake256 (ur_meadowlarkId request) (di_superclassInfo (ur_documentInfo request)) = Inr ids)"

context pg_reliable
begin

lemma upsert_sure:
  assumes tc: "table_constraints T" and refs: "res_map (getMeadowlarkIdForDocumentReference (pg_shake256 pg)) (di_documentReferences (ur_documentInfo request)) = Inr refs"
    and ids: "computable_ids (pg_shake256 pg) request"
    and valid: "validated_in (pg_shake256 pg) T request" and fresh: "fresh_request pg visible T request"
  shows "sure (nothing_pending visible snap T) (pg_upsert_in_transaction pg request refs)"
  unfolding pg_upsert_in_transaction_def
proof (rule sure_seq [OF begin_sure begin_outcome], rule sure_step [OF find_sure(1) read_outcome [OF find_by_id_read]])
  fix old :: "pg_document option"
  let ?ts = "di_requestTimestamp (ur_documentInfo request)"
  let ?stale = "case old of None \<Rightarrow> False | Some d \<Rightarrow> ?ts \<le> pgd_last_modified_at d"
  let ?conflict = "case di_superclassInfo (ur_documentInfo request) of None \<Rightarrow> ret None
    | Some si \<Rightarrow> if old = None then pg_subclass_conflict pg request si else ret None"
  let ?fail = "\<lambda>failures info. bnd (rollbackTransaction pg) (\<lambda>_.
     ret (if old = None then INSERT_FAILURE_REFERENCE (pg_reference_failure failures) info
          else UpsertResult.UPDATE_FAILURE_REFERENCE (pg_reference_failure failures) info))"
  let ?K = "\<lambda>u. if ?stale then ret (UPSERT_FAILURE_WRITE_CONFLICT None)
     else bnd ?conflict (\<lambda>conflict. case conflict of
         Some failure \<Rightarrow> bnd (rollbackTransaction pg) (\<lambda>_. ret failure)
       | None \<Rightarrow> bnd (pg_invalid_references pg request refs (ur_meadowlarkId request)) (\<lambda>invalid. case invalid of
             Some (failures, info) \<Rightarrow> ?fail failures info
           | None \<Rightarrow> pg_write_upsert pg request (old = None) u refs))"
  assume old: "case old of None \<Rightarrow> \<forall>d \<in> set (t_documents T). pgd_meadowlark_id d \<noteq> ur_meadowlarkId request
            | Some d \<Rightarrow> d \<in> set (t_documents T) \<and> pgd_meadowlark_id d = ur_meadowlarkId request"
  obtain descs as where computed: "res_map (getMeadowlarkIdForDocumentReference (pg_shake256 pg)) (di_descriptorReferences (ur_documentInfo request)) = Inr descs"
    "aliasMeadowlarkIdsFrom (pg_shake256 pg) (ur_meadowlarkId request) (di_superclassInfo (ur_documentInfo request)) = Inr as"
    using ids by (auto simp: computable_ids_def)
  have conflict: "sure (txn T T) ?conflict \<and> outcome (txn T T) ?conflict (\<lambda>_. txn T T) (com T)"
  proof (cases "old = None")
    case True
    then have unused: "superclass_unused (pg_shake256 pg) T (ur_documentInfo request)"
      using old fresh by (auto simp: fresh_request_def)
    show ?thesis
    proof (cases "di_superclassInfo (ur_documentInfo request)")
      case (Some si)
      then obtain a where "getMeadowlarkIdForSuperclassInfo (pg_shake256 pg) si = Inr a" "a \<notin> set (alias_ids T)"
        using unused by (auto simp: superclass_unused_def)
      then show ?thesis using True Some by (simp add: conflict_sure outcome_post [OF conflict_outcome])
    qed (simp add: outcome_ret)
  next
    case False
    then show ?thesis by (cases "di_superclassInfo (ur_documentInfo request)") (simp_all add: outcome_ret del: not_None_eq)
  qed
  have K: "sure (txn T T) (?K u)"
    if u: "table_constraints (if old = None then with_inserted request u T else with_updated request u T)" for u
  proof (rule sure_if)
    show "sure (txn T T) (bnd ?conflict (\<lambda>conflict. case conflict of
         Some failure \<Rightarrow> bnd (rollbackTransaction pg) (\<lambda>_. ret failure)
       | None \<Rightarrow> bnd (pg_invalid_references pg request refs (ur_meadowlarkId request)) (\<lambda>invalid. case invalid of
             Some (failures, info) \<Rightarrow> ?fail failures info
           | None \<Rightarrow> pg_write_upsert pg request (old = None) u refs)))"
    proof (rule sure_seq [OF conjunct1 [OF conflict] conjunct2 [OF conflict]])
      fix x :: "UpsertResult option"
      have "sure (txn T T) (bnd (pg_invalid_references pg request refs (ur_meadowlarkId request)) (\<lambda>invalid. case invalid of
             Some (failures, info) \<Rightarrow> ?fail failures info
           | None \<Rightarrow> pg_write_upsert pg request (old = None) u refs))"
        by (rule sure_step [OF invalid_sure [OF refs valid] invalid_outcome [OF refs]])
          (auto intro: sure_map rollback_sure write_upsert_sure [OF u computed] split: option.split prod.split)
      then show "sure (txn T T) (case x of
         Some failure \<Rightarrow> bnd (rollbackTransaction pg) (\<lambda>_. ret failure)
       | None \<Rightarrow> bnd (pg_invalid_references pg request refs (ur_meadowlarkId request)) (\<lambda>invalid. case invalid of
             Some (failures, info) \<Rightarrow> ?fail failures info
           | None \<Rightarrow> pg_write_upsert pg request (old = None) u refs))"
        by (cases x) (auto intro: sure_map rollback_sure)
    qed
  qed simp
  show "sure (txn T T) (bnd (case old of None \<Rightarrow> pg_generateDocumentUuid pg | Some d \<Rightarrow> ret (pgd_document_uuid d)) ?K)"
  proof (cases old)
    case None
    have new: "\<forall>d \<in> set (t_documents T). pgd_meadowlark_id d \<noteq> ur_meadowlarkId request" using old None by simp
    show ?thesis
    proof (subst None, unfold option.case, rule sure_step [OF sure_any [OF uuid_works] uuid_generated], rule K)
      fix u assume "\<exists>s0 s1. visible s0 = T \<and> pg_generateDocumentUuid pg s0 = (Inr u, s1)"
      then have "\<forall>d \<in> set (t_documents T). pgd_document_uuid d \<noteq> u" using fresh new unfolding fresh_request_def by blast
      then show "table_constraints (if old = None then with_inserted request u T else with_updated request u T)"
        using inserted_constraints [OF tc, of request u] new None by simp
    qed
  next
    case (Some d)
    then have d: "d \<in> set (t_documents T)" "pgd_meadowlark_id d = ur_meadowlarkId request" using old by simp_all
    show ?thesis
      by (subst Some, unfold option.case bnd_ret, rule K) (use updated_constraints [OF tc d refl] Some in simp)
  qed
qed

lemma valid_upsert:
  assumes s: "nothing_pending visible snap T s" and tc: "table_constraints T" and ids: "computable_ids (pg_shake256 pg) request"
    and valid: "validated_in (pg_shake256 pg) T request" and fresh: "fresh_request pg visible T request"
  shows "\<exists>m u s'. pg_upsertDocument pg request s \<in> {(Inr (INSERT_SUCCESS m u), s'), (Inr (UpsertResult.UPDATE_SUCCESS m u), s')}"
proof -
  obtain refs where refs: "res_map (getMeadowlarkIdForDocumentReference (pg_shake256 pg)) (di_documentReferences (ur_documentInfo request)) = Inr refs"
    using ids by (auto simp: computable_ids_def)
  have "\<exists>r s'. pg_upsert_in_transaction pg request refs s = (Inr r, s') \<and> pg_upsertDocument pg request s = (Inr r, s')"
    unfolding pg_upsertDocument_def refs lift_Inr bnd_ret by (rule sure_try [OF upsert_sure [OF tc refs ids valid fresh] s])
  then obtain r s' where run: "pg_upsert_in_transaction pg request refs s = (Inr r, s')"
    and same: "pg_upsertDocument pg request s = (Inr r, s')" by (elim exE conjE)
  obtain T' where eff: "pg_upsert_effect (pg_shake256 pg) T request r T'" and "\<forall>m. r \<noteq> UpsertResult.UNKNOWN_FAILURE m"
    using outcomeD [OF upsert_in_transaction_outcome [OF refs] s run] by auto
  have stale: "di_requestTimestamp (ur_documentInfo request) > pgd_last_modified_at old"
    if old: "old \<in> set (t_documents T)" "pgd_meadowlark_id old = ur_meadowlarkId request" for old :: pg_document
  proof -
    obtain e where "e \<in> set (t_documents T)" "pgd_meadowlark_id e = ur_meadowlarkId request"
      "pgd_last_modified_at e < di_requestTimestamp (ur_documentInfo request)"
      using fresh old unfolding fresh_request_def by blast
    then show ?thesis using documents_inj(1) [OF tc old(1)] old(2) by metis
  qed
  have "(\<exists>m u. r = INSERT_SUCCESS m u) \<or> (\<exists>m u. r = UpsertResult.UPDATE_SUCCESS m u)"
  proof (cases r)
    case (UPSERT_FAILURE_WRITE_CONFLICT m)
    then show ?thesis using eff stale by (force simp: pg_upsert_effect_def)
  next
    case (INSERT_FAILURE_CONFLICT m info)
    then have "\<forall>d \<in> set (t_documents T). pgd_meadowlark_id d \<noteq> ur_meadowlarkId request"
      "superclass_used (pg_shake256 pg) T (ur_documentInfo request)" using eff by (simp_all add: pg_upsert_effect_def)
    moreover from this(1) have "superclass_unused (pg_shake256 pg) T (ur_documentInfo request)"
      using fresh unfolding fresh_request_def by blast
    ultimately show ?thesis by (auto simp: superclass_used_def superclass_unused_def)
  qed (use eff valid \<open>\<forall>m. r \<noteq> UpsertResult.UNKNOWN_FAILURE m\<close> in \<open>simp_all add: pg_upsert_effect_def\<close>)
  then show ?thesis using same by auto
qed


section \<open>Deletes\<close>

lemma delete_rows_constraints:
  "table_constraints T \<Longrightarrow> table_constraints (T\<lparr>t_documents := filter P (t_documents T)\<rparr>)"
  by (simp add: table_constraints_def distinct_map_filter)

lemma remove_sure:
  assumes "table_constraints T"
  shows "sure (txn T0 T)
    (bnd (deleteDocumentRowByDocumentUuid pg u) (\<lambda>deleteResult.
     bnd (deleteOutboundReferencesOfDocumentByMeadowlarkId pg i) (\<lambda>_.
     bnd (deleteAliasesForDocumentByMeadowlarkId pg i) (\<lambda>_.
     bnd (commitTransaction pg) (\<lambda>_. ret deleteResult)))))"
proof -
  let ?del = "pg_deleteReturningCount pg (\<lambda>d. pgd_document_uuid d = u)"
  have "works visible ?del (\<lambda>T. T\<lparr>t_documents := filter (\<lambda>d. pgd_document_uuid d \<noteq> u) (t_documents T)\<rparr>)"
    using deleteReturningCount_works [of "\<lambda>d. pgd_document_uuid d = u"] by (simp add: sql_defs)
  then have del: "sure (txn T0 T) ?del" by (rule sure_write) (rule delete_rows_constraints [OF assms])
  have "sure (txn T0 T) (deleteDocumentRowByDocumentUuid pg u)"
    unfolding deleteDocumentRowByDocumentUuid_def
    by (rule sure_seq [OF del, where R = "\<lambda>_ _. True" and E = "\<lambda>_. True"])
      (auto simp: outcome_def checkDeleteResult_def sure_map rollback_sure split: sum.split)
  then show ?thesis
    by (intro sure_write_step [OF _ delete_row_write] sure_write_step [OF beside_documents(4) delete_references_write]
        sure_write_step [OF beside_documents(3) delete_aliases_write] sure_map commit_sure) simp_all
qed

lemma blocking_sure: "sure (txn T0 T) (pg_blocking_references pg i as)"
proof -
  have info: "sure (txn T0 T) (findReferringDocumentInfoForErrorReporting pg is)" for "is"
    unfolding findReferringDocumentInfoForErrorReporting_def by (rule sure_map, rule sure_any, rule selectDocuments_works)
  have parents: "sure (\<lambda>_. True) (findReferencingMeadowlarkIds pg as)"
    unfolding findReferencingMeadowlarkIds_def by (rule sure_map) (rule selectReferences_works)
  show ?thesis unfolding pg_blocking_references_def Let_def
    by (intro sure_if sure_ret sure_read_step [OF parents referencing_read] sure_map info)
qed

lemma delete_sure:
  assumes "table_constraints T"
  shows "sure (nothing_pending visible snap T) (pg_delete_in_transaction pg request)"
  unfolding pg_delete_in_transaction_def
proof (rule sure_seq [OF begin_sure begin_outcome], rule sure_read_step [OF _ document_aliases_read])
  show "sure (\<lambda>_. True) (findAliasMeadowlarkIdsForDocumentByDocumentUuid pg (del_documentUuid request))"
    unfolding findAliasMeadowlarkIdsForDocumentByDocumentUuid_def by (rule sure_map) (rule selectAliases_works)
next
  fix rows :: "(MeadowlarkId \<times> MeadowlarkId) list"
  let ?i = "case rows of [] \<Rightarrow> '''' | row # _ \<Rightarrow> fst row"
  let ?guard = "if del_validateNoReferencesToDocument request then pg_blocking_references pg ?i (map snd rows) else ret None"
  assume rows: "set rows = {(pga_meadowlark_id a, pga_alias_meadowlark_id a) | a.
                            a \<in> set (t_aliases T) \<and> pga_document_uuid a = del_documentUuid request}"
  have guard: "sure (txn T T) ?guard" by (simp add: blocking_sure)
  have same: "outcome (txn T T) ?guard (\<lambda>_. txn T T) (com T)"
    by (auto intro: outcome_post [OF blocking_outcome [OF rows]] outcome_ret)
  show "sure (txn T T) (let meadowlarkId = ?i in
      bnd (if del_validateNoReferencesToDocument request
           then pg_blocking_references pg meadowlarkId (map snd rows) else ret None) (\<lambda>blocked.
      case blocked of
        Some failure \<Rightarrow> bnd (rollbackTransaction pg) (\<lambda>_. ret failure)
      | None \<Rightarrow>
          bnd (deleteDocumentRowByDocumentUuid pg (del_documentUuid request)) (\<lambda>deleteResult.
          bnd (deleteOutboundReferencesOfDocumentByMeadowlarkId pg meadowlarkId) (\<lambda>_.
          bnd (deleteAliasesForDocumentByMeadowlarkId pg meadowlarkId) (\<lambda>_.
          bnd (commitTransaction pg) (\<lambda>_. ret deleteResult))))))"
    unfolding Let_def
  proof (rule sure_seq [OF guard same])
    fix x :: "DeleteResult option"
    show "sure (txn T T) (case x of
        Some failure \<Rightarrow> bnd (rollbackTransaction pg) (\<lambda>_. ret failure)
      | None \<Rightarrow>
          bnd (deleteDocumentRowByDocumentUuid pg (del_documentUuid request)) (\<lambda>deleteResult.
          bnd (deleteOutboundReferencesOfDocumentByMeadowlarkId pg ?i) (\<lambda>_.
          bnd (deleteAliasesForDocumentByMeadowlarkId pg ?i) (\<lambda>_.
          bnd (commitTransaction pg) (\<lambda>_. ret deleteResult)))))"
      using remove_sure [OF assms] by (cases x) (auto intro: sure_map rollback_sure)
  qed
qed

lemma delete_succeeds:
  assumes s: "nothing_pending visible snap T s" and inv: "pg_integral alias T"
    and d: "d \<in> set (t_documents T)" "pgd_document_uuid d = del_documentUuid request" "pgd_meadowlark_id d \<noteq> ''''"
    and free: "\<forall>r \<in> set (t_references T). pgr_referenced_meadowlark_id r \<in> set (alias (pgd_meadowlark_id d)) \<longrightarrow>
       pgr_parent_meadowlark_id r = pgd_meadowlark_id d"
  shows "fst (pg_deleteDocumentByDocumentUuid pg request s) = Inr DELETE_SUCCESS"
proof -
  let ?u = "del_documentUuid request"
  have tc: "table_constraints T" and al: "pg_aliased alias T" using inv by (simp_all add: pg_integral_def)
  have "\<exists>r s'. pg_delete_in_transaction pg request s = (Inr r, s') \<and> pg_deleteDocumentByDocumentUuid pg request s = (Inr r, s')"
    unfolding pg_deleteDocumentByDocumentUuid_def by (rule sure_try [OF delete_sure [OF tc] s])
  then obtain r s' where run: "pg_delete_in_transaction pg request s = (Inr r, s')"
    and same: "pg_deleteDocumentByDocumentUuid pg request s = (Inr r, s')" by (elim exE conjE)
  obtain T' where eff: "pg_delete_effect T request r T'" and no: "r \<noteq> DeleteResult.UNKNOWN_FAILURE ''''"
    using outcomeD [OF delete_in_transaction_outcome s run] by auto
  have rows: "pga_meadowlark_id a = pgd_meadowlark_id d \<and> pga_alias_meadowlark_id a \<in> set (alias (pgd_meadowlark_id d))"
    if a: "a \<in> set (t_aliases T)" "pga_document_uuid a = ?u" for a
  proof -
    obtain e where "e \<in> set (t_documents T)" "pga_document_uuid a = pgd_document_uuid e"
      "pga_meadowlark_id a = pgd_meadowlark_id e" "pga_alias_meadowlark_id a \<in> set (alias (pgd_meadowlark_id e))"
      using pg_aliasedD(1) [OF al a(1)] by blast
    then show ?thesis using documents_inj(2) [OF tc _ d(1), of e] d(2) a(2) by simp
  qed
  let ?own = "\<lparr>pga_document_uuid = ?u, pga_meadowlark_id = pgd_meadowlark_id d, pga_alias_meadowlark_id = pgd_meadowlark_id d\<rparr>"
  have "?own \<in> alias_rows alias d" using d(2) pg_aliasedD(3) [OF al d(1)] by (simp add: alias_row)
  then have own: "?own \<in> set (t_aliases T)" using al d(1) by (auto simp: pg_aliased_def)
  have owner: "i = pgd_meadowlark_id d" if "alias_owner T ?u i" for i
    using that rows own unfolding alias_owner_def by (metis pg_alias.select_convs(1))
  have unreferenced: "unreferenced T ?u (pgd_meadowlark_id d)"
    using free rows unfolding unreferenced_def by metis
  have "\<not> pg_delete_refusal T request r"
  proof (cases r)
    case DELETE_FAILURE_NOT_EXISTS
    then show ?thesis using owner [of "''''"] d(3) by (auto simp: pg_delete_refusal_def)
  next
    case (DELETE_FAILURE_REFERENCE info)
    then show ?thesis using owner unreferenced by (auto simp: pg_delete_refusal_def)
  next
    case (UNKNOWN_FAILURE m)
    then show ?thesis using owner unreferenced no by (auto simp: pg_delete_refusal_def)
  qed (auto simp: pg_delete_refusal_def)
  then have "r = DELETE_SUCCESS" using eff d(1,2) unfolding pg_delete_effect_def by metis
  then show ?thesis using same by simp
qed

end


section \<open>Properties\<close>

text \<open>C25: Over a database that works, every valid upsert is carried out: when the ids can be computed, the references
  pass the validation, and the document is newer than the stored one or new with a superclass identity that is free,
  the answer is INSERT_SUCCESS or UPDATE_SUCCESS.\<close>

theorem pg_valid_upsert_succeeds:
  assumes "pg_reliable pg visible snap" "nothing_pending visible snap T s" "table_constraints T"
    and "computable_ids (pg_shake256 pg) request" "validated_in (pg_shake256 pg) T request"
    and "fresh_request pg visible T request"
  shows "\<exists>m u s'. pg_upsertDocument pg request s \<in>
    {(Inr (INSERT_SUCCESS m u), s'), (Inr (UpsertResult.UPDATE_SUCCESS m u), s')}"
  by (rule pg_reliable.valid_upsert [OF assms])

text \<open>A generator whose uuids are longer than every stored one.\<close>

definition example_fresh_pg :: "pg_mem pg_ops" where
  "example_fresh_pg = example_pg\<lparr>pg_generateDocumentUuid :=
     (\<lambda>s. (Inr (concat (map pgd_document_uuid (t_documents (pm_view s))) @ ''x''), s))\<rparr>"

lemma example_fresh_reliable: "pg_reliable example_fresh_pg pm_view pm_snap"
  by unfold_locales
    (auto simp: example_fresh_pg_def example_pg_def pg_mem_ops_def works_def sure_def Let_def pm_execute_def
      on_documents_def sql_delete_def pm_execute_law read_law_def connection_law_def unchanged_def committed_tables_def
      some_rows_filter some_rows_all pm_void_def act_simps write_law_def voided_def split: prod.splits if_splits)

lemma longer_uuid: "d \<in> set ds \<Longrightarrow> pgd_document_uuid d \<noteq> concat (map pgd_document_uuid ds) @ ''x''"
proof -
  assume "d \<in> set ds"
  then have "length (pgd_document_uuid d) \<le> length (concat (map pgd_document_uuid ds))"
    by (induction ds) auto
  then have "length (pgd_document_uuid d) < length (concat (map pgd_document_uuid ds) @ ''x'')" by simp
  then show ?thesis by (rule contrapos_pn) simp
qed

theorem pg_valid_upsert_succeeds_witness:
  "\<exists>m u s'. pg_upsertDocument example_fresh_pg (example_upsert ''c'' [''a''] 3) pg_two \<in>
    {(Inr (INSERT_SUCCESS m u), s'), (Inr (UpsertResult.UPDATE_SUCCESS m u), s')}"
proof (rule pg_valid_upsert_succeeds [OF example_fresh_reliable])
  let ?q = "example_upsert ''c'' [''a''] 3" and ?T = "pm_view pg_two"
  show "nothing_pending pm_view pm_snap ?T pg_two" by (simp add: nothing_pending_def pg_two_rows)
  show "table_constraints ?T" using pg_two_integral by (simp add: pg_integral_def)
  have refs: "res_map (getMeadowlarkIdForDocumentReference (pg_shake256 example_fresh_pg)) (di_documentReferences (ur_documentInfo ?q)) =
      Inr [example_key ''a'']"
    "res_map (getMeadowlarkIdForDocumentReference (pg_shake256 example_fresh_pg)) (di_descriptorReferences (ur_documentInfo ?q)) = Inr []"
    by code_simp+
  moreover have "di_superclassInfo (ur_documentInfo ?q) = None" by (simp add: example_upsert_def)
  ultimately show "computable_ids (pg_shake256 example_fresh_pg) ?q" by (simp add: computable_ids_def aliasMeadowlarkIdsFrom_def)
  have "example_key ''a'' \<in> set (alias_ids ?T)" using pg_two_rows(3) by (simp add: alias_ids_def)
  then show "validated_in (pg_shake256 example_fresh_pg) ?T ?q" using refs by (simp add: validated_in_def passing_references_def passes_def)
  have "list_all (\<lambda>d. pgd_meadowlark_id d \<noteq> ur_meadowlarkId ?q) (t_documents ?T)" by code_simp
  moreover have "superclass_unused (pg_shake256 example_fresh_pg) ?T (ur_documentInfo ?q)"
    by (simp add: superclass_unused_def example_upsert_def)
  ultimately show "fresh_request example_fresh_pg pm_view ?T ?q"
    by (auto simp: fresh_request_def list_all_iff example_fresh_pg_def dest: longer_uuid)
qed

text \<open>C26: Over a database that works, a stored document that no other document refers to can be deleted: the answer is
  DELETE_SUCCESS, whether the references are validated or not.\<close>

theorem pg_unreferenced_delete_succeeds:
  assumes "pg_reliable pg visible snap" "nothing_pending visible snap T s" "pg_integral alias T"
    and "d \<in> set (t_documents T)" "pgd_document_uuid d = del_documentUuid request" "pgd_meadowlark_id d \<noteq> ''''"
    and "\<forall>r \<in> set (t_references T). pgr_referenced_meadowlark_id r \<in> set (alias (pgd_meadowlark_id d)) \<longrightarrow>
       pgr_parent_meadowlark_id r = pgd_meadowlark_id d"
  shows "fst (pg_deleteDocumentByDocumentUuid pg request s) = Inr DELETE_SUCCESS"
  by (rule pg_reliable.delete_succeeds [OF assms])

theorem pg_unreferenced_delete_succeeds_witness:
  "fst (pg_deleteDocumentByDocumentUuid example_pg (example_delete (numbered_uuid 1)) pg_two) = Inr DELETE_SUCCESS"
proof (rule pg_unreferenced_delete_succeeds [of _ _ _ _ _ "\<lambda>i. [i]" "last (t_documents (pm_view pg_two))"])
  show "pg_reliable example_pg pm_view pm_snap" unfolding example_pg_def by (rule pg_mem_reliable.pg_reliable_axioms)
  show "nothing_pending pm_view pm_snap (pm_view pg_two) pg_two" by (simp add: nothing_pending_def pg_two_rows)
  show "last (t_documents (pm_view pg_two)) \<in> set (t_documents (pm_view pg_two))" using pg_two_rows(1) by auto
  show "pgd_document_uuid (last (t_documents (pm_view pg_two))) = del_documentUuid (example_delete (numbered_uuid 1))"
    "pgd_meadowlark_id (last (t_documents (pm_view pg_two))) \<noteq> ''''" by code_simp+
  have "example_key ''a'' \<noteq> pgd_meadowlark_id (last (t_documents (pm_view pg_two)))" by code_simp
  then show "\<forall>r \<in> set (t_references (pm_view pg_two)).
      pgr_referenced_meadowlark_id r \<in> set [pgd_meadowlark_id (last (t_documents (pm_view pg_two)))] \<longrightarrow>
      pgr_parent_meadowlark_id r = pgd_meadowlark_id (last (t_documents (pm_view pg_two)))"
    using pg_two_rows(2) by auto
qed (simp_all add: pg_two_integral)

end
