(* ===== verification/PgAnomalies.thy ===== *)
theory PgAnomalies
  imports PgLiveness
begin

text \<open>
  Where the PostgreSQL backend falls short of what it means to do, as runs on the tables in memory: a validation that
  counts rows, transactions that early answers leave open, errors after which an answer claims a success, a database
  that is never created.
\<close>

section \<open>The database that is never created\<close>

text \<open>When the database does not exist it is never created, although the code means to: the second client connects with the
  same settings as the first, so that it fails as well, the request is answered with an error and CREATE DATABASE is
  never sent.\<close>

theorem pg_missing_database_not_created:
  assumes "getDbConfiguration pg = Inr cfg"
    and "\<And>s. \<exists>e s'. pg_poolConnect pg cfg s = (Inl e, s') \<and> err_message e = missing_database_message cfg"
    and "\<And>s. \<exists>e s'. pg_clientConnect pg cfg s = (Inl e, s')"
  shows "(\<exists>e. fst (pg_getSharedClient pg (None, s)) = Inl e) \<and>
    pg_getSharedClient (pg\<lparr>pg_createDatabase := create\<rparr>) (None, s) = pg_getSharedClient pg (None, s)"
proof -
  have config: "getDbConfiguration (pg\<lparr>pg_createDatabase := create\<rparr>) = Inr cfg"
    using assms(1) by (simp add: getDbConfiguration_def)
  obtain e s1 where connect: "pg_poolConnect pg cfg s = (Inl e, s1)" "err_message e = missing_database_message cfg"
    using assms(2) by blast
  obtain q s2 where ended: "pg_poolEnd pg s1 = (q, s2)" by (cases "pg_poolEnd pg s1")
  obtain e' s3 where client: "pg_clientConnect pg cfg s2 = (Inl e', s3)" using assms(3) by blast
  obtain q' s4 where client_ended: "pg_clientEnd pg s3 = (q', s4)" by (cases "pg_clientEnd pg s3")
  show ?thesis
    using config assms(1) connect ended client client_ended
    by (cases q; cases q')
      (simp_all add: pg_getSharedClient_def createConnectionPoolAndReturnClient_def set_pool_def on_pool_def finally_do_def
        try_catch_def bnd_def ret_def throw_def)
qed

definition example_no_database :: "pg_mem pg_ops" where
  "example_no_database = example_pg\<lparr>
     pg_poolConnect := (\<lambda>cfg s. (Inl (mk_error ''error'' (missing_database_message cfg)), s)),
     pg_clientConnect := (\<lambda>cfg s. (Inl (mk_error ''error'' (missing_database_message cfg)), s))\<rparr>"

theorem pg_missing_database_not_created_witness:
  "\<exists>e. fst (pg_getSharedClient example_no_database (None, pg_mem_start)) = Inl e"
proof -
  let ?cfg = "\<lparr>dbc_host = CString ''localhost'', dbc_port = CNumber ''5432'', dbc_user = CString ''u'',
    dbc_password = CString ''p'', dbc_database = CString ''meadowlark''\<rparr>"
  have "getDbConfiguration example_no_database = Inr ?cfg" by code_simp
  then show ?thesis
    by (rule conjunct1 [OF pg_missing_database_not_created]) (simp_all add: example_no_database_def mk_error_def)
qed

text \<open>After a first connection that failed for another reason the pool is kept, so that the tables are never created.\<close>

definition example_late_database :: "pg_mem pg_ops" where
  "example_late_database = example_pg\<lparr>
     pg_poolConnect := (\<lambda>cfg s. if pm_next s = 0 then (Inl (mk_error ''error'' ''timeout''), s\<lparr>pm_next := 1\<rparr>) else (Inr (), s)),
     pg_define := (\<lambda>_ s. (Inr (), s\<lparr>pm_next := 100 + pm_next s\<rparr>))\<rparr>"

lemma tables_not_created_after_failure:
  "(let (r1, t1) = pg_getSharedClient example_late_database (None, pg_mem_start);
        (r2, t2) = pg_getSharedClient example_late_database t1
    in (isl r1, r2, pm_next (snd t2))) = (True, Inr (), 1)"
  by code_simp

section \<open>Validation by counting\<close>

text \<open>An update can give a document a superclass alias that another document has, since only inserts look for
  it.  Then two rows have that alias, and a reference to a document that does not exist passes the validation
  beside one to the alias, because only the numbers of rows and references are compared.\<close>

definition pg_twice_aliased :: pg_mem where
  "pg_twice_aliased = pg_after [UpsertOf (with_superclass (example_upsert ''a'' [] 1)), example_stored ''b'' [] 2,
     UpdateOf (with_superclass (example_update ''b'' [] 3 (numbered_uuid 1)))]"

lemma counted_validation_passes:
  "fst (pg_upsertDocument example_pg (example_upsert ''c'' [''s'', ''missing''] 4) pg_twice_aliased) =
     Inr (INSERT_SUCCESS None (numbered_uuid 2))"
  "example_key ''missing'' \<notin> set (alias_ids (pm_view pg_twice_aliased))"
  by code_simp+

text \<open>Without the second row the same request is refused, and a document with the superclass identity of another one
  is not inserted; the refusal names no document, because the alias is looked up among the ids of documents.\<close>

lemma counted_validation_refuses:
  "case fst (pg_upsertDocument example_pg (example_upsert ''c'' [''s'', ''missing''] 4)
      (pg_after [UpsertOf (with_superclass (example_upsert ''a'' [] 1))])) of
     Inr (INSERT_FAILURE_REFERENCE m info) \<Rightarrow> True | _ \<Rightarrow> False"
  by code_simp

lemma superclass_conflict_names_none:
  "case fst (pg_upsertDocument example_pg (with_superclass (example_upsert ''b'' [] 2))
      (pg_after [UpsertOf (with_superclass (example_upsert ''a'' [] 1))])) of
     Inr (INSERT_FAILURE_CONFLICT m info) \<Rightarrow> info = [] | _ \<Rightarrow> False"
  by code_simp

section \<open>Transactions left open\<close>

text \<open>A stale upsert is answered without the end of its transaction, so that a reset of a secret on the same connection
  is part of it: it is answered with RESET_SUCCESS, and the next failing request rolls it back.\<close>

definition example_secret :: "string \<Rightarrow> pg_authorization" where
  "example_secret h = \<lparr>pgc_client_id = ''c1'', pgc_client_secret_hashed = h, pgc_client_name = JStr ''n'',
     pgc_roles = JArr [JStr ''vendor''], pgc_is_bootstrap_admin = False, pgc_active = JBool True\<rparr>"

definition pg_with_client :: pg_mem where
  "pg_with_client = pg_two\<lparr>pm_view := (pm_view pg_two)\<lparr>t_authorizations := [example_secret ''old'']\<rparr>\<rparr>"

definition example_reset :: ResetAuthorizationClientSecretRequest where
  "example_reset = \<lparr>rar_clientId = Some ''c1'', rar_clientSecretHashed = ''new''\<rparr>"

lemma reset_lost:
  "(let (r1, s1) = pg_upsertDocument example_pg (example_upsert ''a'' [] 0) pg_with_client;
        (r2, s2) = pg_resetAuthorizationClientSecret example_pg example_reset s1;
        (r3, s3) = pg_upsertDocument example_pg (example_upsert ''c'' [''missing''] 5) s2
    in (r1, r2, map pgc_client_secret_hashed (t_authorizations (pm_view s3)))) =
   (Inr (UPSERT_FAILURE_WRITE_CONFLICT None), Inr RESET_SUCCESS, [''old''])"
  by code_simp

text \<open>On a connection without an open transaction the reset stays.\<close>

lemma reset_kept:
  "(let (r2, s2) = pg_resetAuthorizationClientSecret example_pg example_reset pg_with_client;
        (r3, s3) = pg_upsertDocument example_pg (example_upsert ''c'' [''missing''] 5) s2
    in (r2, map pgc_client_secret_hashed (t_authorizations (pm_view s3)))) = (Inr RESET_SUCCESS, [''new''])"
  by code_simp

section \<open>Clients\<close>

text \<open>A client whose transaction could not be committed is announced as created.\<close>

definition example_uncommitting :: "pg_mem pg_ops" where
  "example_uncommitting = example_pg\<lparr>pg_commit :=
     (\<lambda>s. (Inl (mk_error ''error'' ''could not serialize access''), (pm_void s)\<lparr>pm_snap := None\<rparr>))\<rparr>"

definition example_create :: "string \<Rightarrow> CreateAuthorizationClientRequest" where
  "example_create i = \<lparr>car_clientId = i, car_clientSecretHashed = ''h'', car_clientName = Some (JStr ''n''),
     car_active = JBool True, car_roles = Some (JArr [JStr ''admin''])\<rparr>"

lemma created_client_lost:
  "(let (r, s) = pg_createAuthorizationClientDocument example_uncommitting (example_create ''c'') pg_mem_start
    in (r, t_authorizations (pm_view s))) = (Inr CreateAuthorizationClientResult.CREATE_SUCCESS, [])"
  by code_simp

text \<open>The look for a bootstrap administrator and the insert of one are two statements: two requests that both look
  before either inserts leave two bootstrap administrators.\<close>

lemma two_bootstrap_admins:
  "(let (found1, s1) = checkBootstrapAdminExists example_pg pg_mem_start;
        (found2, s2) = checkBootstrapAdminExists example_pg s1;
        (r1, s3) = insertBootstrapAdmin example_pg (pg_bootstrapAdminDocumentFromCreate (example_create ''c1'')) s2;
        (r2, s4) = insertBootstrapAdmin example_pg (pg_bootstrapAdminDocumentFromCreate (example_create ''c2'')) s3
    in (found1, found2, r1, r2, map pgc_client_id (filter pgc_is_bootstrap_admin (t_authorizations (pm_view s4))))) =
   (Inr False, Inr False, Inr True, Inr True, [''c1'', ''c2''])"
  by code_simp

text \<open>An update makes its client the creator of the document.\<close>

lemma update_takes_over:
  "let q = example_update ''a'' [] 3 (numbered_uuid 0);
       other = q\<lparr>ur_security := \<lparr>sec_authorizationStrategy = UNDEFINED_STRATEGY, sec_clientId = ''other''\<rparr>\<rparr>;
       (r, s) = pg_updateDocumentByDocumentUuid example_pg other pg_two
   in r = Inr (UpdateResult.UPDATE_SUCCESS None) \<and> map pgd_created_by (t_documents (pm_view s)) = [''other'', ''UNKNOWN'']"
  by code_simp

end
