(* ===== verification/Handlers.thy ===== *)
theory Handlers
  imports PluginInterface Middleware Configuration
begin

text \<open>
  The request handlers (\<open>meadowlark-core/src/handler\<close>): \<open>Upsert\<close>, \<open>Update\<close>, \<open>Delete\<close>, \<open>GetById\<close> and
  \<open>Query\<close> with \<open>UriBuilder\<close> and \<open>UrlBuilder\<close>.  A handler builds the message, runs the listeners and
  the plugin operation, and maps the result to an HTTP response.  \<open>backend\<close> holds what the code
  reads from the loader: the document store, the query handler, the listeners, and the digest.
\<close>

record 's backend =
  bk_store :: "'s DocumentStorePlugin"
  bk_queryHandler :: "'s QueryHandlerPlugin"
  bk_emitter :: "'s emitter"
  bk_shake256 :: "nat \<Rightarrow> string \<Rightarrow> 8 word list"

section \<open>UriBuilder and UrlBuilder\<close>

definition versionAbbreviationFor :: "string \<Rightarrow> string" where
  "versionAbbreviationFor resourceVersion = ''3.3b''"

definition resourceUriFrom :: "PathComponents \<Rightarrow> string \<Rightarrow> string" where
  "resourceUriFrom pathComponents documentUuid =
     ''/'' @ pc_projectShortVersion pathComponents @ ''/'' @ pc_projectNamespace pathComponents @
     ''/'' @ pc_endpointName pathComponents @ ''/'' @ documentUuid"

definition blockingUri :: "FrontendRequest \<Rightarrow> ReferringDocumentInfo \<Rightarrow> string res" where
  "blockingUri frontendRequest document =
     (let apiSchema = mw_apiSchema (fr_middleware frontendRequest) in
      case map_of (as_projectNameMapping apiSchema) (rdi_projectName document) of
        None \<Rightarrow> Inl (InvariantError (''Project name '' @ quoted (rdi_projectName document) @
          '' on document resource '' @ rdi_resourceName document @ '' with documentUuid '' @
          rdi_documentUuid document @ '' does not match any known ProjectNamespace. Mismatch between database data and loaded ApiSchema?''))
      | Some projectNamespace \<Rightarrow>
          (case map_of (as_projectSchemas apiSchema) projectNamespace of
             None \<Rightarrow> Inl (TypeError ''Cannot read properties of undefined (reading resourceNameMapping)'')
           | Some projectSchema \<Rightarrow>
               (case map_of (ps_resourceNameMapping projectSchema) (rdi_resourceName document) of
                  None \<Rightarrow> Inl (InvariantError (''Resource name '' @ quoted (rdi_resourceName document) @
                    '' on document with documentUuid '' @ rdi_documentUuid document @
                    '' does not match any known EndpointName. Mismatch between database data and loaded ApiSchema?''))
                | Some endpointName \<Rightarrow>
                    (let uri = resourceUriFrom
                           \<lparr>pc_projectShortVersion = versionAbbreviationFor (rdi_resourceVersion document),
                            pc_projectNamespace = projectNamespace, pc_endpointName = endpointName,
                            pc_documentUuid = None\<rparr> (rdi_documentUuid document)
                     in Inr (if fr_stage frontendRequest \<noteq> '''' then ''/'' @ fr_stage frontendRequest @ uri else uri)))))"

definition blockingDocumentsToUris ::
  "FrontendRequest \<Rightarrow> ReferringDocumentInfo list \<Rightarrow> string list res" where
  "blockingDocumentsToUris frontendRequest referringDocumentInfo =
     res_map (blockingUri frontendRequest) referringDocumentInfo"

definition getHttpProtocol :: "string \<Rightarrow> string" where
  "getHttpProtocol stage = (if stage = ''local'' then ''http'' else ''https'')"

text \<open>A header that is empty or missing is falsy.\<close>

definition truthy_header :: "Headers \<Rightarrow> string \<Rightarrow> string option" where
  "truthy_header hs k = (case map_of hs k of None \<Rightarrow> None | Some v \<Rightarrow> if v = '''' then None else Some v)"

definition buildBaseUrlFromRequest :: "FrontendRequest \<Rightarrow> string" where
  "buildBaseUrlFromRequest frontendRequest =
     (let hs = fr_headers frontendRequest;
          host = (case (truthy_header hs ''x-forwarded-host'', truthy_header hs ''x-forwarded-port'') of
                    (Some h, Some p) \<Rightarrow> h @ '':'' @ p
                  | _ \<Rightarrow> opt_text (map_of hs ''host''))
      in getHttpProtocol (fr_stage frontendRequest) @ ''://'' @ host @ ''/'' @ fr_stage frontendRequest)"

section \<open>Responses\<close>

definition LOCATION_HEADER_NAME :: string where
  "LOCATION_HEADER_NAME = ''Location''"

definition spread_headers :: "Headers option \<Rightarrow> Headers" where
  "spread_headers h = (case h of None \<Rightarrow> [] | Some hs \<Rightarrow> hs)"

definition with_location :: "Headers option \<Rightarrow> string \<Rightarrow> Headers option" where
  "with_location h uri = Some (AList.update LOCATION_HEADER_NAME uri (spread_headers h))"

definition respond :: "int \<Rightarrow> Headers option \<Rightarrow> json option \<Rightarrow> FrontendResponse" where
  "respond status headers body = \<lparr>resp_statusCode = status, resp_headers = headers, resp_body = body\<rparr>"

text \<open>\<open>R.is(String, m) ? \{ error: m, blockingUris \} : m\<close>.\<close>

definition failure_body :: "json option \<Rightarrow> string list \<Rightarrow> json option" where
  "failure_body failureMessage blockingUris =
     (case failureMessage of
        Some (JStr m) \<Rightarrow> Some (JObj [(''error'', JStr m), (''blockingUris'', JArr (map JStr blockingUris))])
      | m \<Rightarrow> m)"

definition conflict_body :: "json option \<Rightarrow> json option" where
  "conflict_body failureMessage =
     (case failureMessage of Some (JStr m) \<Rightarrow> Some (JObj [(''error'', JStr m)]) | m \<Rightarrow> m)"

definition message_body :: "string \<Rightarrow> json" where
  "message_body m = JObj [(''error'', JObj [(''message'', JStr m)])]"

section \<open>Upsert\<close>

definition upsertResponse :: "FrontendRequest \<Rightarrow> UpsertResult \<Rightarrow> FrontendResponse res" where
  "upsertResponse frontendRequest result =
     (let headerMetadata = mw_headerMetadata (fr_middleware frontendRequest);
          pathComponents = mw_pathComponents (fr_middleware frontendRequest);
          blocked = (\<lambda>failureMessage info.
            res_bind (blockingDocumentsToUris frontendRequest info) (\<lambda>blockingUris.
              Inr (respond 409 headerMetadata (failure_body failureMessage blockingUris))))
      in case result of
           INSERT_SUCCESS _ u \<Rightarrow>
             Inr (respond 201 (with_location headerMetadata (resourceUriFrom pathComponents u)) None)
         | UpsertResult.UPDATE_SUCCESS _ u \<Rightarrow>
             Inr (respond 200 (with_location headerMetadata (resourceUriFrom pathComponents u)) None)
         | UpsertResult.UPDATE_FAILURE_REFERENCE failureMessage info \<Rightarrow> blocked failureMessage info
         | INSERT_FAILURE_REFERENCE failureMessage info \<Rightarrow> blocked failureMessage info
         | INSERT_FAILURE_CONFLICT failureMessage info \<Rightarrow> blocked failureMessage info
         | UPSERT_FAILURE_WRITE_CONFLICT failureMessage \<Rightarrow>
             Inr (respond 409 headerMetadata (conflict_body failureMessage))
         | UpsertResult.UNKNOWN_FAILURE _ \<Rightarrow> Inr (respond 500 headerMetadata None))"

definition upsertRequestFrom :: "FrontendRequest \<Rightarrow> MeadowlarkId \<Rightarrow> UpsertRequest" where
  "upsertRequestFrom frontendRequest meadowlarkId =
     (let m = fr_middleware frontendRequest in
      \<lparr>ur_meadowlarkId = meadowlarkId, ur_resourceInfo = mw_resourceInfo m,
       ur_documentInfo = mw_documentInfo m, ur_edfiDoc = mw_parsedBody m,
       ur_validateDocumentReferencesExist = mw_validateResources m,
       ur_security = securityOf (mw_security m), ur_traceId = fr_traceId frontendRequest\<rparr>)"

definition upsert :: "'s backend \<Rightarrow> FrontendRequest \<Rightarrow> (FrontendResponse, 's) act" where
  "upsert bk frontendRequest =
     try_catch
       (bnd (lift (meadowlarkIdForDocumentIdentity (bk_shake256 bk) (mw_resourceInfo (fr_middleware frontendRequest))
                     (di_documentIdentity (mw_documentInfo (fr_middleware frontendRequest))))) (\<lambda>meadowlarkId.
          (let request = upsertRequestFrom frontendRequest meadowlarkId in
           bnd (beforeUpsertDocument (bk_emitter bk) request) (\<lambda>_.
           bnd (dsp_upsertDocument (bk_store bk) request) (\<lambda>result.
           bnd (afterUpsertDocument (bk_emitter bk) request result) (\<lambda>_.
           lift (upsertResponse frontendRequest result)))))))
       (\<lambda>_. ret (status_only 500))"

section \<open>Update\<close>

definition cascade_message :: string where
  "cascade_message = ''This operation would change the identity of the document and require a cascading update of referencing documents. Not supported at this time.''"

definition updateResponse :: "FrontendRequest \<Rightarrow> UpdateResult \<Rightarrow> FrontendResponse res" where
  "updateResponse frontendRequest result =
     (let headerMetadata = mw_headerMetadata (fr_middleware frontendRequest) in
      case result of
        UpdateResult.UPDATE_SUCCESS _ \<Rightarrow> Inr (respond 204 headerMetadata None)
      | UPDATE_FAILURE_NOT_EXISTS _ \<Rightarrow> Inr (respond 404 headerMetadata None)
      | UpdateResult.UPDATE_FAILURE_REFERENCE failureMessage info \<Rightarrow>
          res_bind (blockingDocumentsToUris frontendRequest info) (\<lambda>blockingUris.
            Inr (respond 409 headerMetadata (failure_body failureMessage blockingUris)))
      | UPDATE_CASCADE_REQUIRED \<Rightarrow> Inr (respond 409 headerMetadata (Some (message_body cascade_message)))
      | UPDATE_FAILURE_IMMUTABLE_IDENTITY _ \<Rightarrow>
          Inr (respond 400 headerMetadata
            (Some (message_body ''The identity fields of the document cannot be modified'')))
      | UPDATE_FAILURE_CONFLICT failureMessage info \<Rightarrow>
          res_bind (blockingDocumentsToUris frontendRequest info) (\<lambda>blockingUris.
            Inr (respond 409 headerMetadata (Some (JObj [(''error'', JObj
              [(''message'', if is_nullish failureMessage then JStr '''' else the failureMessage),
               (''blockingUris'', JArr (map JStr blockingUris))])]))))
      | UPDATE_FAILURE_WRITE_CONFLICT failureMessage \<Rightarrow>
          Inr (respond 409 headerMetadata (conflict_body failureMessage))
      | UpdateResult.UNKNOWN_FAILURE _ \<Rightarrow> Inr (respond 500 headerMetadata None))"

definition updateRequestFrom ::
  "FrontendRequest \<Rightarrow> MeadowlarkId \<Rightarrow> DocumentUuid \<Rightarrow> UpdateRequest" where
  "updateRequestFrom frontendRequest meadowlarkId documentUuid =
     (let m = fr_middleware frontendRequest in
      \<lparr>ur_meadowlarkId = meadowlarkId, ur_resourceInfo = mw_resourceInfo m,
       ur_documentInfo = mw_documentInfo m, ur_edfiDoc = mw_parsedBody m,
       ur_validateDocumentReferencesExist = mw_validateResources m,
       ur_security = securityOf (mw_security m), ur_traceId = fr_traceId frontendRequest,
       upd_documentUuid = documentUuid\<rparr>)"

definition identity_mismatch_message :: string where
  "identity_mismatch_message = ''The identity of the resource does not match the identity in the updated document.''"

definition update :: "'s backend \<Rightarrow> FrontendRequest \<Rightarrow> (FrontendResponse, 's) act" where
  "update bk frontendRequest =
     try_catch
       (let m = fr_middleware frontendRequest in
        case pc_documentUuid (mw_pathComponents m) of
          None \<Rightarrow> ret (respond 400 (mw_headerMetadata m) None)
        | Some documentUuid \<Rightarrow>
            bnd (lift (js_prop (mw_parsedBody m) ''id'')) (\<lambda>documentUuidFromBody.
              if documentUuidFromBody \<noteq> Some (JStr documentUuid)
              then ret (respond 400 (mw_headerMetadata m) (Some (message_body identity_mismatch_message)))
              else
                bnd (lift (meadowlarkIdForDocumentIdentity (bk_shake256 bk) (mw_resourceInfo m)
                             (di_documentIdentity (mw_documentInfo m)))) (\<lambda>meadowlarkId.
                  (let request = updateRequestFrom frontendRequest meadowlarkId documentUuid in
                   bnd (beforeUpdateDocumentById (bk_emitter bk) request) (\<lambda>_.
                   bnd (dsp_updateDocumentById (bk_store bk) request) (\<lambda>result.
                   bnd (afterUpdateDocumentById (bk_emitter bk) request result) (\<lambda>_.
                   lift (updateResponse frontendRequest result))))))))
       (\<lambda>_. ret (status_only 500))"

section \<open>Delete\<close>

definition DELETE_FAILURE_REFERENCE_MESSAGE :: string where
  "DELETE_FAILURE_REFERENCE_MESSAGE = ''The resource cannot be deleted because it is a dependency of other documents''"

definition deleteResponse :: "FrontendRequest \<Rightarrow> DeleteResult \<Rightarrow> FrontendResponse res" where
  "deleteResponse frontendRequest result =
     (let headerMetadata = mw_headerMetadata (fr_middleware frontendRequest) in
      case result of
        DELETE_SUCCESS \<Rightarrow> Inr (respond 204 headerMetadata None)
      | DELETE_FAILURE_NOT_EXISTS \<Rightarrow> Inr (respond 404 headerMetadata None)
      | DELETE_FAILURE_REFERENCE info \<Rightarrow>
          res_bind (blockingDocumentsToUris frontendRequest info) (\<lambda>blockingUris.
            Inr (respond 409 headerMetadata (Some (JObj [(''error'', JObj
              [(''message'', JStr DELETE_FAILURE_REFERENCE_MESSAGE),
               (''blockingUris'', JArr (map JStr blockingUris))])]))))
      | DELETE_FAILURE_WRITE_CONFLICT failureMessage \<Rightarrow>
          Inr (respond 404 headerMetadata (Some (error_body failureMessage)))
      | DeleteResult.UNKNOWN_FAILURE _ \<Rightarrow> Inr (respond 500 headerMetadata None))"

definition deleteIt :: "'s backend \<Rightarrow> FrontendRequest \<Rightarrow> (FrontendResponse, 's) act" where
  "deleteIt bk frontendRequest =
     try_catch
       (let m = fr_middleware frontendRequest in
        case pc_documentUuid (mw_pathComponents m) of
          None \<Rightarrow> ret (status_only 404)
        | Some documentUuid \<Rightarrow>
            (let request = \<lparr>del_documentUuid = documentUuid, del_resourceInfo = mw_resourceInfo m,
                   del_validateNoReferencesToDocument = mw_validateResources m,
                   del_security = securityOf (mw_security m), del_traceId = fr_traceId frontendRequest\<rparr>
             in
             bnd (beforeDeleteDocumentById (bk_emitter bk) request) (\<lambda>_.
             bnd (dsp_deleteDocumentById (bk_store bk) request) (\<lambda>result.
             bnd (afterDeleteDocumentById (bk_emitter bk) request result) (\<lambda>_.
             lift (deleteResponse frontendRequest result))))))
       (\<lambda>_. ret (status_only 500))"

section \<open>GetById\<close>

text \<open>\<open>new Date(ms).toISOString()\<close>: the civil date of the days since 1970-01-01 and the time of day.\<close>

definition pad :: "nat \<Rightarrow> nat \<Rightarrow> string" where
  "pad width n = (let s = nat_to_string n in replicate (width - length s) (CHR ''0'') @ s)"

definition civil_from_days :: "int \<Rightarrow> int \<times> nat \<times> nat" where
  "civil_from_days days =
     (let z = days + 719468;
          era = z div 146097;
          doe = z mod 146097;
          yoe = (doe - doe div 1460 + doe div 36524 - doe div 146096) div 365;
          doy = doe - (365 * yoe + yoe div 4 - yoe div 100);
          mp = (5 * doy + 2) div 153;
          d = doy - (153 * mp + 2) div 5 + 1;
          m = (if mp < 10 then mp + 3 else mp - 9);
          y = yoe + era * 400 + (if m \<le> 2 then 1 else 0)
      in (y, nat m, nat d))"

definition year_text :: "int \<Rightarrow> string" where
  "year_text y =
     (if 0 \<le> y \<and> y \<le> 9999 then pad 4 (nat y)
      else if y < 0 then CHR ''-'' # pad 6 (nat (- y)) else CHR ''+'' # pad 6 (nat y))"

definition toISOString :: "int \<Rightarrow> string res" where
  "toISOString ms =
     (if 8640000000000000 < \<bar>ms\<bar> then Inl (mk_error ''RangeError'' ''Invalid time value'')
      else
        (let (y, m, d) = civil_from_days (ms div 86400000);
             t = nat (ms mod 86400000)
         in Inr (year_text y @ ''-'' @ pad 2 m @ ''-'' @ pad 2 d @ ''T'' @ pad 2 (t div 3600000) @ '':'' @
              pad 2 (t div 60000 mod 60) @ '':'' @ pad 2 (t div 1000 mod 60) @ ''.'' @ pad 3 (t mod 1000) @ ''Z'')))"

definition spread_json :: "json \<Rightarrow> js_object" where
  "spread_json v =
     (case v of
        JObj kvs \<Rightarrow> kvs
      | JArr xs \<Rightarrow> zip (map nat_to_string [0..<length xs]) xs
      | JStr s \<Rightarrow> zip (map nat_to_string [0..<length s]) (map (\<lambda>c. JStr [c]) s)
      | _ \<Rightarrow> [])"

definition getByIdResponse :: "FrontendRequest \<Rightarrow> GetResult \<Rightarrow> FrontendResponse res" where
  "getByIdResponse frontendRequest result =
     (let headerMetadata = mw_headerMetadata (fr_middleware frontendRequest) in
      if gr_response result = GetResponse.UNKNOWN_FAILURE then Inr (respond 500 headerMetadata None)
      else if gr_response result = GET_FAILURE_NOT_EXISTS then Inr (respond 404 headerMetadata None)
      else res_bind (toISOString (gr_lastModifiedDate result)) (\<lambda>date.
        Inr (respond 200 headerMetadata (Some (JObj (AList.update ''_lastModifiedDate'' (JStr date)
          (js_assign [(''id'', JStr (gr_documentUuid result))] (spread_json (gr_edfiDoc result)))))))))"

definition getById :: "'s backend \<Rightarrow> FrontendRequest \<Rightarrow> (FrontendResponse, 's) act" where
  "getById bk frontendRequest =
     (let m = fr_middleware frontendRequest in
      case pc_documentUuid (mw_pathComponents m) of
        None \<Rightarrow> ret (status_only 404)
      | Some documentUuid \<Rightarrow>
          (let request = \<lparr>get_documentUuid = documentUuid, get_resourceInfo = mw_resourceInfo m,
                 get_security = securityOf (mw_security m), get_traceId = fr_traceId frontendRequest\<rparr>
           in
           bnd (beforeGetDocumentById (bk_emitter bk) request) (\<lambda>_.
           bnd (dsp_getDocumentById (bk_store bk) request) (\<lambda>result.
           bnd (afterGetDocumentById (bk_emitter bk) request result) (\<lambda>_.
           lift (getByIdResponse frontendRequest result))))))"

section \<open>Query\<close>

definition TOTAL_COUNT_HEADER_NAME :: string where
  "TOTAL_COUNT_HEADER_NAME = ''total-count''"

definition removeDisallowedQueryParameters :: "js_object \<Rightarrow> js_object" where
  "removeDisallowedQueryParameters = omit_keys [''offset'', ''limit'', ''totalCount'']"

definition onlyPaginationParameters :: "js_object \<Rightarrow> js_object" where
  "onlyPaginationParameters = pick_keys [''offset'', ''limit'']"

definition total_count_text :: "json option \<Rightarrow> string" where
  "total_count_text c = (if is_nullish c then ''0'' else js_opt_to_string c)"

definition queryResponse :: "FrontendRequest \<Rightarrow> QueryResult \<Rightarrow> FrontendResponse" where
  "queryResponse frontendRequest result =
     (let headerMetadata = mw_headerMetadata (fr_middleware frontendRequest);
          counted = (\<lambda>text. Some (AList.update TOTAL_COUNT_HEADER_NAME text (spread_headers headerMetadata)))
      in if qr_response result = QueryResponse.UNKNOWN_FAILURE then respond 500 headerMetadata None
         else if qr_response result = QUERY_FAILURE_INVALID_QUERY
         then respond 500 (counted (total_count_text (qr_totalCount result))) None
         else if qr_response result = QUERY_FAILURE_CONNECTION_ERROR
         then respond 502 (counted (total_count_text (qr_totalCount result))) None
         else if qr_response result = QUERY_FAILURE_INDEX_NOT_FOUND
         then respond 200 (counted ''0'') (Some (JArr (qr_documents result)))
         else respond 200 (counted (total_count_text (qr_totalCount result))) (Some (JArr (qr_documents result))))"

definition query :: "'s backend \<Rightarrow> FrontendRequest \<Rightarrow> (FrontendResponse, 's) act" where
  "query bk frontendRequest =
     (let m = fr_middleware frontendRequest;
          request = \<lparr>qy_resourceInfo = mw_resourceInfo m,
            qy_queryParameters = removeDisallowedQueryParameters (fr_queryParameters frontendRequest),
            qy_paginationParameters = onlyPaginationParameters (fr_queryParameters frontendRequest),
            qy_traceId = fr_traceId frontendRequest, qy_security = securityOf (mw_security m)\<rparr>
      in
      bnd (beforeQueryDocuments (bk_emitter bk) request) (\<lambda>_.
      bnd (qhp_queryDocuments (bk_queryHandler bk) request) (\<lambda>result.
      bnd (afterQueryDocuments (bk_emitter bk) request result) (\<lambda>_.
      ret (queryResponse frontendRequest result)))))"

section \<open>Connection\<close>

definition closeConnection :: "'s backend \<Rightarrow> (unit, 's) act" where
  "closeConnection bk =
     try_catch (bnd (qhp_closeConnection (bk_queryHandler bk)) (\<lambda>_. dsp_closeConnection (bk_store bk)))
       (\<lambda>_. ret ())"

section \<open>Handlers over a document store\<close>

text \<open>Listeners that leave the stored documents alone; they may throw.  \<open>silent\<close> listeners never do.\<close>

definition harmless :: "('s \<Rightarrow> bool) \<Rightarrow> ('s \<Rightarrow> 'v) \<Rightarrow> ('a \<Rightarrow> (unit, 's) act) list \<Rightarrow> bool" where
  "harmless ok stored hooks \<longleftrightarrow>
     (\<forall>h \<in> set hooks. \<forall>x s. ok s \<longrightarrow> ok (snd (h x s)) \<and> stored (snd (h x s)) = stored s)"

definition silent :: "('s \<Rightarrow> bool) \<Rightarrow> ('a \<Rightarrow> (unit, 's) act) list \<Rightarrow> bool" where
  "silent ok hooks \<longleftrightarrow> (\<forall>h \<in> set hooks. \<forall>x s. ok s \<longrightarrow> fst (h x s) = Inr ())"

definition harmless_emitter :: "('s \<Rightarrow> bool) \<Rightarrow> ('s \<Rightarrow> 'v) \<Rightarrow> 's emitter \<Rightarrow> bool" where
  "harmless_emitter ok stored em \<longleftrightarrow>
     harmless ok stored (on_beforeUpsertDocument em) \<and> harmless ok stored (on_afterUpsertDocument em) \<and>
     harmless ok stored (on_beforeGetDocumentById em) \<and> harmless ok stored (on_afterGetDocumentById em) \<and>
     harmless ok stored (on_beforeUpdateDocumentById em) \<and> harmless ok stored (on_afterUpdateDocumentById em) \<and>
     harmless ok stored (on_beforeDeleteDocumentById em) \<and> harmless ok stored (on_afterDeleteDocumentById em)"

text \<open>A run of harmless listeners: the documents are as before, and an error is the error of one of them.\<close>

lemma emit_harmless:
  "harmless ok stored hooks \<Longrightarrow> ok s \<Longrightarrow>
   \<exists>q s'. emit hooks x s = (q, s') \<and> ok s' \<and> stored s' = stored s \<and> (silent ok hooks \<longrightarrow> q = Inr ())"
proof (induction hooks arbitrary: s)
  case Nil
  then show ?case by (simp add: act_simps)
next
  case (Cons h hooks)
  obtain q s1 where h: "h x s = (q, s1)" by fastforce
  have s1: "ok s1" "stored s1 = stored s" using Cons.prems h unfolding harmless_def by (metis list.set_intros(1) snd_conv)+
  have "harmless ok stored hooks" using Cons.prems(1) by (simp add: harmless_def)
  from Cons.IH [OF this s1(1)] obtain r s' where rest: "emit hooks x s1 = (r, s')" "ok s'" "stored s' = stored s1"
    "silent ok hooks \<longrightarrow> r = Inr ()" by blast
  have first: "silent ok (h # hooks) \<Longrightarrow> q = Inr () \<and> silent ok hooks"
    using h Cons.prems(2) unfolding silent_def by (metis fst_conv list.set_intros)
  show ?case using h s1 rest first by (cases q) auto
qed

lemma harmless_emptyEmitter: "harmless_emitter ok stored emptyEmitter"
  by (simp add: harmless_emitter_def harmless_def emptyEmitter_def)

locale document_service = document_store plugin ok stored
  for plugin :: "'s DocumentStorePlugin" and ok :: "'s \<Rightarrow> bool" and stored :: "'s \<Rightarrow> (DocumentUuid \<times> json) set" +
  fixes bk :: "'s backend"
  assumes store: "bk_store bk = plugin"
    and listeners: "harmless_emitter ok stored (bk_emitter bk)"
begin

lemma listener_runs:
  assumes "ok s"
  shows "\<exists>q s'. beforeUpsertDocument (bk_emitter bk) ur s = (q, s') \<and> ok s' \<and> stored s' = stored s \<and>
      (silent ok (on_beforeUpsertDocument (bk_emitter bk)) \<longrightarrow> q = Inr ())"
    and "\<exists>q s'. afterUpsertDocument (bk_emitter bk) ur us s = (q, s') \<and> ok s' \<and> stored s' = stored s \<and>
      (silent ok (on_afterUpsertDocument (bk_emitter bk)) \<longrightarrow> q = Inr ())"
    and "\<exists>q s'. beforeUpdateDocumentById (bk_emitter bk) pr s = (q, s') \<and> ok s' \<and> stored s' = stored s \<and>
      (silent ok (on_beforeUpdateDocumentById (bk_emitter bk)) \<longrightarrow> q = Inr ())"
    and "\<exists>q s'. afterUpdateDocumentById (bk_emitter bk) pr ps s = (q, s') \<and> ok s' \<and> stored s' = stored s \<and>
      (silent ok (on_afterUpdateDocumentById (bk_emitter bk)) \<longrightarrow> q = Inr ())"
    and "\<exists>q s'. beforeDeleteDocumentById (bk_emitter bk) dr s = (q, s') \<and> ok s' \<and> stored s' = stored s \<and>
      (silent ok (on_beforeDeleteDocumentById (bk_emitter bk)) \<longrightarrow> q = Inr ())"
    and "\<exists>q s'. afterDeleteDocumentById (bk_emitter bk) dr ds s = (q, s') \<and> ok s' \<and> stored s' = stored s \<and>
      (silent ok (on_afterDeleteDocumentById (bk_emitter bk)) \<longrightarrow> q = Inr ())"
    and "\<exists>q s'. beforeGetDocumentById (bk_emitter bk) gr s = (q, s') \<and> ok s' \<and> stored s' = stored s \<and>
      (silent ok (on_beforeGetDocumentById (bk_emitter bk)) \<longrightarrow> q = Inr ())"
    and "\<exists>q s'. afterGetDocumentById (bk_emitter bk) gr gs s = (q, s') \<and> ok s' \<and> stored s' = stored s \<and>
      (silent ok (on_afterGetDocumentById (bk_emitter bk)) \<longrightarrow> q = Inr ())"
  unfolding publish_defs
  by (rule emit_harmless, use listeners assms in \<open>simp_all add: harmless_emitter_def\<close>)+

lemma upsert_contract:
  assumes "ok s"
  shows "\<exists>resp s'. upsert bk r s = (Inr resp, s') \<and> ok s' \<and>
    (resp_statusCode resp = 201 \<and>
       (\<exists>u. stored s' = insert (u, mw_parsedBody (fr_middleware r)) (stored s) \<and>
            resp_headers resp = with_location (mw_headerMetadata (fr_middleware r))
              (resourceUriFrom (mw_pathComponents (fr_middleware r)) u)) \<or>
     resp_statusCode resp = 200 \<and>
       (\<exists>u. (u, mw_parsedBody (fr_middleware r)) \<in> stored s' \<and>
            resp_headers resp = with_location (mw_headerMetadata (fr_middleware r))
              (resourceUriFrom (mw_pathComponents (fr_middleware r)) u)) \<or>
     resp_statusCode resp \<in> {409, 500} \<and> stored s' = stored s \<or>
     resp = status_only 500 \<and> \<not> silent ok (on_afterUpsertDocument (bk_emitter bk)) \<and>
       (\<exists>u. (u, mw_parsedBody (fr_middleware r)) \<in> stored s'))"
proof (cases "meadowlarkIdForDocumentIdentity (bk_shake256 bk) (mw_resourceInfo (fr_middleware r))
                (di_documentIdentity (mw_documentInfo (fr_middleware r)))")
  case (Inl e)
  then show ?thesis using assms by (simp add: upsert_def Let_def act_simps status_only_def)
next
  case (Inr i)
  let ?req = "upsertRequestFrom r i"
  have doc: "ur_edfiDoc ?req = mw_parsedBody (fr_middleware r)"
    by (simp add: upsertRequestFrom_def Let_def)
  obtain q s1 where s1: "beforeUpsertDocument (bk_emitter bk) ?req s = (q, s1)" "ok s1" "stored s1 = stored s"
    using listener_runs(1) [OF assms] by blast
  obtain res s2 where s2: "dsp_upsertDocument plugin ?req s1 = (res, s2)" by (cases "dsp_upsertDocument plugin ?req s1")
  show ?thesis
  proof (cases q)
    case (Inl e)
    then show ?thesis using s1 Inr by (simp add: upsert_def Let_def act_simps store status_only_def)
  next
    case q: (Inr unit)
    show ?thesis
    proof (cases res)
      case (Inl e)
      then have "ok s2 \<and> stored s2 = stored s1" using upsert_failure [OF s1(2) s2] by simp
      then show ?thesis using s1 s2 q Inl Inr by (simp add: upsert_def Let_def act_simps store status_only_def)
    next
      case res: (Inr result)
      have kept: "ok s2 \<and> stored s2 = stored s"
        if "\<And>m u. result \<noteq> INSERT_SUCCESS m u" "\<And>m u. result \<noteq> UpsertResult.UPDATE_SUCCESS m u"
        using upsert_failure [OF s1(2) s2] that res s1(3) by simp
      have ok2: "ok s2"
        using kept upsert_insert [OF s1(2)] upsert_update [OF s1(2)] s2 res by (cases result) auto
      obtain p s' where s': "afterUpsertDocument (bk_emitter bk) ?req result s2 = (p, s')" "ok s'" "stored s' = stored s2"
        "silent ok (on_afterUpsertDocument (bk_emitter bk)) \<longrightarrow> p = Inr ()"
        using listener_runs(2) [OF ok2] by blast
      have run: "upsert bk r s = (case res_bind p (\<lambda>_. upsertResponse r result) of
          Inl e \<Rightarrow> (Inr (status_only 500), s') | Inr resp \<Rightarrow> (Inr resp, s'))"
        using s1(1) s2 q res s'(1) Inr by (cases p) (simp_all add: upsert_def Let_def act_simps store split: sum.split)
      consider (inserted) m u where "result = INSERT_SUCCESS m u" | (updated) m u where "result = UpsertResult.UPDATE_SUCCESS m u"
        | (failed) "\<And>m u. result \<noteq> INSERT_SUCCESS m u" "\<And>m u. result \<noteq> UpsertResult.UPDATE_SUCCESS m u"
        by (cases result) auto
      then show ?thesis
      proof cases
        case inserted
        then have "stored s2 = insert (u, ur_edfiDoc ?req) (stored s1)"
          using upsert_insert [OF s1(2)] s2 res by blast
        then show ?thesis using run s' s1 doc inserted
          by (cases p) (auto simp: upsertResponse_def Let_def respond_def)
      next
        case updated
        then have "(u, ur_edfiDoc ?req) \<in> stored s2"
          using upsert_update [OF s1(2)] s2 res by blast
        then show ?thesis using run s' s1 doc updated
          by (cases p) (auto simp: upsertResponse_def Let_def respond_def)
      next
        case failed
        have "resp_statusCode resp \<in> {409, 500}" if "upsertResponse r result = Inr resp" for resp
          using that failed by (auto simp: upsertResponse_def Let_def respond_def res_bind_def split: UpsertResult.splits sum.splits)
        then show ?thesis using run s' kept [OF failed]
          by (cases "res_bind p (\<lambda>_. upsertResponse r result)") (auto simp: res_bind_def status_only_def split: sum.splits)
      qed
    qed
  qed
qed

text \<open>A failure whose response lists blocking documents is answered with 409, or with 500 when one of
  these documents has no URI.\<close>

lemma update_contract:
  assumes "ok s"
  shows "\<exists>resp s'. update bk r s = (Inr resp, s') \<and> ok s' \<and>
    (if resp_statusCode resp = 204
     then \<exists>u. pc_documentUuid (mw_pathComponents (fr_middleware r)) = Some u \<and>
              js_prop (mw_parsedBody (fr_middleware r)) ''id'' = Inr (Some (JStr u)) \<and>
              (u, mw_parsedBody (fr_middleware r)) \<in> stored s'
     else resp_statusCode resp \<in> {400, 404, 409, 500} \<and> stored s' = stored s \<or>
          resp = status_only 500 \<and> \<not> silent ok (on_afterUpdateDocumentById (bk_emitter bk)) \<and>
          (\<exists>u. pc_documentUuid (mw_pathComponents (fr_middleware r)) = Some u \<and>
               (u, mw_parsedBody (fr_middleware r)) \<in> stored s'))"
proof (cases "pc_documentUuid (mw_pathComponents (fr_middleware r))")
  case None
  then show ?thesis using assms by (simp add: update_def Let_def act_simps respond_def)
next
  case uuid: (Some u)
  show ?thesis
  proof (cases "js_prop (mw_parsedBody (fr_middleware r)) ''id'' = Inr (Some (JStr u))")
    case False
    then show ?thesis using assms uuid
      by (cases "js_prop (mw_parsedBody (fr_middleware r)) ''id''")
        (simp_all add: update_def Let_def act_simps respond_def status_only_def)
  next
    case body: True
    show ?thesis
    proof (cases "meadowlarkIdForDocumentIdentity (bk_shake256 bk) (mw_resourceInfo (fr_middleware r))
                    (di_documentIdentity (mw_documentInfo (fr_middleware r)))")
      case (Inl e)
      then show ?thesis using assms uuid body by (simp add: update_def Let_def act_simps status_only_def)
    next
      case (Inr i)
      let ?req = "updateRequestFrom r i u"
      have req: "ur_edfiDoc ?req = mw_parsedBody (fr_middleware r)" "upd_documentUuid ?req = u"
        by (simp_all add: updateRequestFrom_def Let_def)
      obtain q s1 where s1: "beforeUpdateDocumentById (bk_emitter bk) ?req s = (q, s1)" "ok s1" "stored s1 = stored s"
        using listener_runs(3) [OF assms] by blast
      obtain res s2 where s2: "dsp_updateDocumentById plugin ?req s1 = (res, s2)"
        by (cases "dsp_updateDocumentById plugin ?req s1")
      show ?thesis
      proof (cases q)
        case (Inl e)
        then show ?thesis using s1 Inr uuid body by (simp add: update_def Let_def act_simps store status_only_def)
      next
        case q: (Inr unit)
        show ?thesis
        proof (cases res)
          case (Inl e)
          then have "ok s2 \<and> stored s2 = stored s1" using update_failure [OF s1(2) s2] by simp
          then show ?thesis using s1 s2 q Inl Inr uuid body
            by (simp add: update_def Let_def act_simps store status_only_def)
        next
          case res: (Inr result)
          have kept: "ok s2 \<and> stored s2 = stored s" if "\<And>m. result \<noteq> UpdateResult.UPDATE_SUCCESS m"
            using update_failure [OF s1(2) s2] that res s1(3) by simp
          have ok2: "ok s2" using kept update_success [OF s1(2)] s2 res by (cases result) auto
          obtain p s' where s': "afterUpdateDocumentById (bk_emitter bk) ?req result s2 = (p, s')" "ok s'"
            "stored s' = stored s2" "silent ok (on_afterUpdateDocumentById (bk_emitter bk)) \<longrightarrow> p = Inr ()"
            using listener_runs(4) [OF ok2] by blast
          have run: "update bk r s = (case res_bind p (\<lambda>_. updateResponse r result) of
              Inl e \<Rightarrow> (Inr (status_only 500), s') | Inr resp \<Rightarrow> (Inr resp, s'))"
            using s1(1) s2 q res s'(1) Inr uuid body
            by (cases p) (simp_all add: update_def Let_def act_simps store split: sum.split)
          show ?thesis
          proof (cases "\<exists>m. result = UpdateResult.UPDATE_SUCCESS m")
            case True
            then have "(u, mw_parsedBody (fr_middleware r)) \<in> stored s2"
              using update_success [OF s1(2)] s2 res req by metis
            then have there: "(u, mw_parsedBody (fr_middleware r)) \<in> stored s'" using s'(3) by simp
            show ?thesis
            proof (cases p)
              case (Inl e)
              then show ?thesis using run s' there uuid
                by (intro exI [of _ "status_only 500"] exI [of _ s']) (auto simp: status_only_def)
            next
              case (Inr unit)
              then show ?thesis using run s' True there uuid body
                by (intro exI [of _ "respond 204 (mw_headerMetadata (fr_middleware r)) None"] exI [of _ s'])
                  (auto simp: updateResponse_def respond_def)
            qed
          next
            case False
            then have "resp_statusCode resp \<in> {400, 404, 409, 500}" if "updateResponse r result = Inr resp" for resp
              using that by (auto simp: updateResponse_def Let_def respond_def res_bind_def split: UpdateResult.splits sum.splits)
            then show ?thesis using run s' kept False
              by (cases "res_bind p (\<lambda>_. updateResponse r result)") (fastforce simp: res_bind_def status_only_def split: sum.splits)+
          qed
        qed
      qed
    qed
  qed
qed

lemma delete_contract:
  assumes "ok s"
  shows "\<exists>resp s'. deleteIt bk r s = (Inr resp, s') \<and> ok s' \<and>
    (if resp_statusCode resp = 204
     then \<exists>u. pc_documentUuid (mw_pathComponents (fr_middleware r)) = Some u \<and>
              stored s' = {(v, d) \<in> stored s. v \<noteq> u}
     else resp_statusCode resp \<in> {404, 409, 500} \<and> stored s' = stored s \<or>
          resp = status_only 500 \<and> \<not> silent ok (on_afterDeleteDocumentById (bk_emitter bk)) \<and>
          (\<exists>u. pc_documentUuid (mw_pathComponents (fr_middleware r)) = Some u \<and>
               stored s' = {(v, d) \<in> stored s. v \<noteq> u}))"
proof (cases "pc_documentUuid (mw_pathComponents (fr_middleware r))")
  case None
  then show ?thesis using assms by (simp add: deleteIt_def Let_def act_simps status_only_def)
next
  case uuid: (Some u)
  define req where "req = \<lparr>del_documentUuid = u, del_resourceInfo = mw_resourceInfo (fr_middleware r),
    del_validateNoReferencesToDocument = mw_validateResources (fr_middleware r),
    del_security = securityOf (mw_security (fr_middleware r)), del_traceId = fr_traceId r\<rparr>"
  have req_u: "del_documentUuid req = u" by (simp add: req_def)
  obtain q s1 where s1: "beforeDeleteDocumentById (bk_emitter bk) req s = (q, s1)" "ok s1" "stored s1 = stored s"
    using listener_runs(5) [OF assms] by blast
  obtain res s2 where s2: "dsp_deleteDocumentById plugin req s1 = (res, s2)"
    by (cases "dsp_deleteDocumentById plugin req s1")
  have kept: "ok s2 \<and> stored s2 = stored s" if "res \<noteq> Inr DELETE_SUCCESS"
    using delete_failure [OF s1(2) s2 that] s1(3) by simp
  have gone: "ok s2 \<and> stored s2 = {(v, d) \<in> stored s. v \<noteq> u}" if "res = Inr DELETE_SUCCESS"
    using delete_success [OF s1(2), of req s2] s2 that by (simp add: s1(3) req_u)
  have ok2: "ok s2" using kept gone by blast
  show ?thesis
  proof (cases q)
    case (Inl e)
    then show ?thesis using s1 uuid by (simp add: deleteIt_def Let_def act_simps store status_only_def flip: req_def)
  next
    case q: (Inr unit)
    show ?thesis
    proof (cases res)
      case (Inl e)
      then show ?thesis using s1 s2 q kept uuid
        by (simp add: deleteIt_def Let_def act_simps store status_only_def flip: req_def)
    next
      case res: (Inr result)
      obtain p s' where s': "afterDeleteDocumentById (bk_emitter bk) req result s2 = (p, s')" "ok s'"
        "stored s' = stored s2" "silent ok (on_afterDeleteDocumentById (bk_emitter bk)) \<longrightarrow> p = Inr ()"
        using listener_runs(6) [OF ok2] by blast
      have run: "deleteIt bk r s = (case res_bind p (\<lambda>_. deleteResponse r result) of
          Inl e \<Rightarrow> (Inr (status_only 500), s') | Inr resp \<Rightarrow> (Inr resp, s'))"
        using s1(1) s2 q res s'(1) uuid
        by (cases p) (simp_all add: deleteIt_def Let_def act_simps store split: sum.split flip: req_def)
      show ?thesis
      proof (cases "result = DELETE_SUCCESS")
        case True
        then show ?thesis using run s' gone uuid res
          by (cases p) (simp_all add: deleteResponse_def respond_def status_only_def)
      next
        case False
        then have "resp_statusCode resp \<in> {404, 409, 500}" if "deleteResponse r result = Inr resp" for resp
          using that by (auto simp: deleteResponse_def Let_def respond_def res_bind_def split: DeleteResult.splits sum.splits)
        then show ?thesis using run s' kept False res
          by (cases "res_bind p (\<lambda>_. deleteResponse r result)") (fastforce simp: res_bind_def status_only_def split: sum.splits)+
      qed
    qed
  qed
qed

lemma get_contract:
  assumes "ok s" "getById bk r s = (res, s')"
  shows "ok s' \<and> stored s' = stored s"
proof (cases "pc_documentUuid (mw_pathComponents (fr_middleware r))")
  case None
  then show ?thesis using assms by (simp add: getById_def Let_def act_simps)
next
  case uuid: (Some u)
  define req where "req = \<lparr>get_documentUuid = u, get_resourceInfo = mw_resourceInfo (fr_middleware r),
    get_security = securityOf (mw_security (fr_middleware r)), get_traceId = fr_traceId r\<rparr>"
  obtain q s1 where s1: "beforeGetDocumentById (bk_emitter bk) req s = (q, s1)" "ok s1" "stored s1 = stored s"
    using listener_runs(7) [OF assms(1)] by blast
  obtain g s2 where s2: "dsp_getDocumentById plugin req s1 = (g, s2)"
    by (cases "dsp_getDocumentById plugin req s1")
  then have ok2: "ok s2 \<and> stored s2 = stored s" using get_frame [OF s1(2)] s1(3) by metis
  show ?thesis
  proof (cases q)
    case (Inl e)
    then show ?thesis using assms(2) s1 uuid
      by (auto simp: getById_def Let_def act_simps store simp flip: req_def)
  next
    case q: (Inr unit)
    show ?thesis
    proof (cases g)
      case (Inl e)
      then show ?thesis using assms(2) s1 s2 q ok2 uuid
        by (auto simp: getById_def Let_def act_simps store simp flip: req_def)
    next
      case (Inr result)
      obtain p s3 where "afterGetDocumentById (bk_emitter bk) req result s2 = (p, s3)" "ok s3" "stored s3 = stored s2"
        using listener_runs(8) ok2 by blast
      then show ?thesis using assms(2) s1 s2 q ok2 uuid Inr
        by (cases p) (auto simp: getById_def Let_def act_simps store simp flip: req_def)
    qed
  qed
qed

end

interpretation no_store_service: document_service NoDocumentStorePlugin "\<lambda>_. True" stored
  "\<lparr>bk_store = NoDocumentStorePlugin, bk_queryHandler = NoQueryHandlerPlugin, bk_emitter = emptyEmitter, bk_shake256 = shake\<rparr>"
  by unfold_locales (simp_all add: harmless_emptyEmitter)

section \<open>Properties\<close>

lemma match_segments_parts:
  "match_segments ss = Some pc \<Longrightarrow>
   \<exists>a b c. {a, b, c} \<subseteq> set ss \<and> a \<noteq> [] \<and> b \<noteq> [] \<and> c \<noteq> [] \<and> pc_projectShortVersion pc = a \<and>
     pc_projectNamespace pc = js_toLowerCase b \<and> pc_endpointName pc = decapitalize c"
proof (induction ss rule: match_segments.induct)
  case (1 a b c rest)
  show ?case
  proof (cases "a \<noteq> [] \<and> b \<noteq> [] \<and> c \<noteq> []")
    case True
    then show ?thesis using 1(2) by (intro exI [of _ a] exI [of _ b] exI [of _ c]) auto
  next
    case False
    then have "match_segments (b # c # rest) = Some pc" using 1(2) by (simp split: if_splits)
    then obtain x y z where "{x, y, z} \<subseteq> set (b # c # rest)" "x \<noteq> [] \<and> y \<noteq> [] \<and> z \<noteq> []"
      "pc_projectShortVersion pc = x \<and> pc_projectNamespace pc = js_toLowerCase y \<and> pc_endpointName pc = decapitalize z"
      using 1(1) [OF False] by blast
    then show ?thesis by (intro exI [of _ x] exI [of _ y] exI [of _ z]) auto
  qed
qed simp_all

lemma lower_char_slash: "lower_char c = CHR ''/'' \<Longrightarrow> c = CHR ''/''"
proof -
  assume "lower_char c = CHR ''/''"
  then have "(of_char (lower_char c) :: nat) = 47" by simp
  then have "(of_char c :: nat) = 47"
    by (auto simp: lower_char_def Let_def split: if_splits)
  then have "c = char_of (47 :: nat)" by (metis char_of_char)
  moreover have "char_of (47 :: nat) = CHR ''/''" by code_simp
  ultimately show "c = CHR ''/''" by simp
qed

lemma segment_lower: "segment s \<Longrightarrow> segment (js_toLowerCase s)"
proof -
  assume s: "segment s"
  have "CHR ''/'' \<notin> lower_char ` set s"
  proof
    assume "CHR ''/'' \<in> lower_char ` set s"
    then obtain c where "c \<in> set s" "lower_char c = CHR ''/''" by (metis imageE)
    then show False using s lower_char_slash [of c] by (simp add: segment_def)
  qed
  then show ?thesis using s by (simp add: segment_def js_toLowerCase_def)
qed

lemma segment_decapitalize: "segment s \<Longrightarrow> segment (decapitalize s)"
proof (cases s)
  case (Cons x xs)
  assume s: "segment s"
  have "lower_char x \<noteq> CHR ''/''"
    using s Cons lower_char_slash by (metis list.set_intros(1) segment_def)
  then show ?thesis
    using s Cons by (simp add: segment_def decapitalize_def js_toLowerCase_def)
qed (simp add: decapitalize_def)

text \<open>The Location that a response gives for a document leads back to it: for the components of any
  request path that was parsed and any well-formed uuid, parsing the URI gives these components with
  the uuid.\<close>

theorem location_leads_back:
  assumes "pathComponentsFrom path = Some pc" "isDocumentUuidWellFormed u"
  shows "pathComponentsFrom (resourceUriFrom pc u) = Some (pc\<lparr>pc_documentUuid := Some u\<rparr>)"
proof -
  obtain a b c where abc: "{a, b, c} \<subseteq> set (tl (split_on (CHR ''/'') path))" "a \<noteq> []" "b \<noteq> []" "c \<noteq> []"
    "pc_projectShortVersion pc = a" "pc_projectNamespace pc = js_toLowerCase b" "pc_endpointName pc = decapitalize c"
    using match_segments_parts [OF assms(1) [unfolded pathComponentsFrom_def]] by (elim exE conjE) blast
  have "segment x" if "x \<in> {a, b, c}" for x
  proof -
    have "x \<in> set (split_on (CHR ''/'') path)"
    proof -
      have "x \<in> set (tl (split_on (CHR ''/'') path))" using that abc(1) by blast
      then show ?thesis by (rule list.set_sel(2) [OF split_on_neq_Nil])
    qed
    then have "CHR ''/'' \<notin> set x" by (rule split_on_part_no_sep)
    then show ?thesis unfolding segment_def using that abc(2-4) by blast
  qed
  then have segs: "segment a" "segment (js_toLowerCase b)" "segment (decapitalize c)"
    by (simp_all add: segment_lower segment_decapitalize)
  have u: "segment u" by (rule uuid4_segment [OF assms(2)])
  have "pathComponentsFrom (resourceUriFrom pc u) = Some \<lparr>pc_projectShortVersion = a,
      pc_projectNamespace = js_toLowerCase (js_toLowerCase b), pc_endpointName = decapitalize (decapitalize c),
      pc_documentUuid = uuid_group (split_on (CHR ''/'') u)\<rparr>"
    unfolding resourceUriFrom_def abc(5-7) by (rule pathComponentsFrom_rest [OF segs])
  then show ?thesis
    using u abc(5-7) by (simp add: split_on_no_sep segment_def uuid_group_def)
qed

theorem location_leads_back_witness:
  "pathComponentsFrom (resourceUriFrom \<lparr>pc_projectShortVersion = ''v3.3b'', pc_projectNamespace = ''ed-fi'',
      pc_endpointName = ''schools'', pc_documentUuid = None\<rparr> ''6c5b3d2e-1f4a-4b7c-8d9e-0a1b2c3d4e5f'') =
   Some (\<lparr>pc_projectShortVersion = ''v3.3b'', pc_projectNamespace = ''ed-fi'', pc_endpointName = ''schools'',
      pc_documentUuid = None\<rparr>\<lparr>pc_documentUuid := Some ''6c5b3d2e-1f4a-4b7c-8d9e-0a1b2c3d4e5f''\<rparr>)"
  by (rule location_leads_back [of "''/v3.3b/Ed-Fi/Schools''"]) code_simp+

end
