(* ===== verification/SearchStore.thy ===== *)
theory SearchStore
  imports Handlers
begin

text \<open>
  What the query backends (\<open>meadowlark-elasticsearch-backend\<close>, \<open>meadowlark-opensearch-backend\<close>) use of the client
  library of a search engine.  \<open>search_ops\<close> are the calls of a client; an error that a call throws may carry the
  body of the response.  The locale \<open>search_engine\<close> states the documented behaviour of an engine over the sources it
  holds by index and id, with \<open>matches\<close> as its decision whether a clause of a query matches a source;
  \<open>memory_engine\<close> is an engine in memory that matches a clause when the field has the value, and keeps the laws.
\<close>

section \<open>The client\<close>

record search_error = js_error +
  err_body :: "json option"

type_synonym ('a, 's) search_act = "'s \<Rightarrow> (search_error + 'a) \<times> 's"

definition thrown_error :: "js_error \<Rightarrow> search_error" where
  "thrown_error e = \<lparr>err_name = err_name e, err_message = err_message e, err_codeName = err_codeName e, err_body = None\<rparr>"

record search_options =
  so_node :: ConfigValue
  so_username :: ConfigValue
  so_password :: ConfigValue
  so_requestTimeout :: ConfigValue

text \<open>\<open>se_toNumber\<close> is the text of \<open>Number(v)\<close>, \<open>se_debug\<close> the answer of \<open>isDebugEnabled\<close>.\<close>

record 's search_ops =
  se_newClient :: "search_options \<Rightarrow> (unit, 's) act"
  se_close :: "(unit, 's) act"
  se_index :: "string \<Rightarrow> string \<Rightarrow> json \<Rightarrow> (unit, 's) search_act"
  se_delete :: "string \<Rightarrow> string \<Rightarrow> (unit, 's) search_act"
  se_request :: "string \<Rightarrow> string \<Rightarrow> json \<Rightarrow> (json, 's) search_act"
  se_json_parse :: "string \<Rightarrow> json res"
  se_toNumber :: "json \<Rightarrow> string"
  se_config :: "(string \<times> ConfigValue) list"
  se_debug :: bool

text \<open>The module state is the shared client, known by the options it was made with.\<close>

type_synonym 's search_state = "search_options option \<times> 's"

definition on_search :: "('a, 's) act \<Rightarrow> ('a, 's search_state) act" where
  "on_search m = (\<lambda>(c, s). case m s of (r, s') \<Rightarrow> (r, (c, s')))"

text \<open>An awaited call in a \<open>try\<close> whose \<open>catch\<close> only reports the error.\<close>

definition log_failure :: "('a, 's) search_act \<Rightarrow> (unit, 's) act" where
  "log_failure m = (\<lambda>s. (Inr (), snd (m s)))"

section \<open>The language\<close>

definition js_includes :: "string \<Rightarrow> string \<Rightarrow> bool" where
  "js_includes s p = list_ex (\<lambda>t. js_startsWith t p) (suffixes s)"

text \<open>\<open>v > 0\<close> for a value that may be \<open>undefined\<close>.\<close>

definition js_positive :: "(json \<Rightarrow> string) \<Rightarrow> json option \<Rightarrow> bool" where
  "js_positive toNumber v =
     (case v of
        None \<Rightarrow> False
      | Some j \<Rightarrow>
          (let text = (case j of JNum n \<Rightarrow> n | _ \<Rightarrow> toNumber j) in
           text \<noteq> ''0'' \<and> text \<noteq> ''NaN'' \<and> \<not> js_startsWith text ''-''))"

text \<open>\<open>v?.k\<close>.\<close>

definition js_optional_prop :: "json option \<Rightarrow> string \<Rightarrow> json option" where
  "js_optional_prop v k = (case v of Some (JObj kvs) \<Rightarrow> js_get k kvs | _ \<Rightarrow> None)"

text \<open>An object literal as it is written to a request: properties that are \<open>undefined\<close> are left out.\<close>

definition defined_entries :: "(string \<times> json option) list \<Rightarrow> js_object" where
  "defined_entries kvs = List.map_filter (\<lambda>(k, v). map_option (Pair k) v) kvs"

definition failed_query :: "QueryResponse \<Rightarrow> json option \<Rightarrow> QueryResult" where
  "failed_query response message =
     \<lparr>qr_response = response, qr_documents = [], qr_failureMessage = message, qr_totalCount = None\<rparr>"

section \<open>What an engine promises\<close>

type_synonym sources = "string \<times> string \<Rightarrow> json option"

definition bool_query :: "json list \<Rightarrow> json" where
  "bool_query clauses = JObj [(''bool'', JObj [(''must'', JArr clauses)])]"

definition search_body :: "json option \<Rightarrow> json \<Rightarrow> json option \<Rightarrow> json" where
  "search_body from q limit =
     JObj (defined_entries [(''from'', from), (''query'', Some q), (''size'', limit),
       (''sort'', Some (JArr [JObj [(''_doc'', JObj [(''order'', JStr ''asc'')])]]))])"

definition search_path :: "string \<Rightarrow> string" where
  "search_path idx = ''/'' @ idx @ ''/_search''"

text \<open>The number that \<open>from\<close> or \<open>size\<close> stands for; without one it is 0 or 10.\<close>

definition window :: "nat \<Rightarrow> json option \<Rightarrow> nat" where
  "window d v = (case v of None \<Rightarrow> d | Some j \<Rightarrow> (case js_parseInt (js_to_string j) of None \<Rightarrow> d | Some i \<Rightarrow> nat i))"

definition matching_ids :: "(json \<Rightarrow> json \<Rightarrow> bool) \<Rightarrow> sources \<Rightarrow> string \<Rightarrow> json list \<Rightarrow> string set" where
  "matching_ids matches srcs idx clauses =
     {i. \<exists>src. srcs (idx, i) = Some src \<and> (\<forall>c \<in> set clauses. matches c src)}"

text \<open>The rows of a response are sources of different documents that match, in a window of \<open>size\<close>; a window that
  is large enough and starts at 0 has them all.\<close>

definition row_of :: "sources \<Rightarrow> string \<Rightarrow> json \<Rightarrow> string \<Rightarrow> bool" where
  "row_of srcs idx row i \<longleftrightarrow> (\<exists>src. srcs (idx, i) = Some src \<and> js_prop row ''_source'' = Inr (Some src))"

definition search_answer ::
  "(json \<Rightarrow> json \<Rightarrow> bool) \<Rightarrow> sources \<Rightarrow> string \<Rightarrow> json list \<Rightarrow> json option \<Rightarrow> json option \<Rightarrow> json \<Rightarrow> bool" where
  "search_answer matches srcs idx clauses from limit body \<longleftrightarrow>
     (\<exists>hits total rows ids n.
        js_prop body ''hits'' = Inr (Some hits) \<and> js_prop hits ''total'' = Inr (Some total) \<and>
        js_prop total ''value'' = Inr (Some (JNum (nat_to_string n))) \<and> js_prop hits ''hits'' = Inr (Some (JArr rows)) \<and>
        list_all2 (row_of srcs idx) rows ids \<and> distinct ids \<and> set ids \<subseteq> matching_ids matches srcs idx clauses \<and>
        length ids \<le> window 10 limit \<and> length ids \<le> n \<and>
        (window 0 from = 0 \<and> finite (matching_ids matches srcs idx clauses) \<and>
           card (matching_ids matches srcs idx clauses) \<le> window 10 limit \<longrightarrow>
         set ids = matching_ids matches srcs idx clauses))"

text \<open>A call that fails on the way back may have had its effect.\<close>

locale search_engine =
  fixes se :: "'s search_ops"
    and sources :: "'s \<Rightarrow> sources"
    and matches :: "json \<Rightarrow> json \<Rightarrow> bool"
  assumes index_law: "se_index se idx i src s = (ir, s') \<Longrightarrow>
      sources s' = (sources s)((idx, i) \<mapsto> src) \<or> (\<exists>e. ir = Inl e) \<and> sources s' = sources s"
    and delete_law: "se_delete se idx i s = (dr, s') \<Longrightarrow>
      sources s' = (sources s)((idx, i) := None) \<or> (\<exists>e. dr = Inl e) \<and> sources s' = sources s"
    and request_law: "se_request se ''POST'' (search_path idx) (search_body from (bool_query clauses) limit) s = (qr, s') \<Longrightarrow>
      sources s' = sources s \<and> (\<forall>body. qr = Inr body \<longrightarrow> search_answer matches (sources s) idx clauses from limit body)"
    and client_law: "se_newClient se opts s = (nr, s') \<Longrightarrow> sources s' = sources s"
    and close_law: "se_close se s = (cr, s') \<Longrightarrow> sources s' = sources s"

text \<open>An engine that is up: every write is acknowledged.\<close>

locale reliable_engine = search_engine +
  assumes index_acknowledged: "\<exists>s'. se_index se idx i src s = (Inr (), s')"
    and delete_acknowledged: "sources s (idx, i) \<noteq> None \<Longrightarrow> \<exists>s'. se_delete se idx i s = (Inr (), s')"
    and client_made: "\<exists>s'. se_newClient se opts s = (Inr (), s')"

section \<open>An engine in memory\<close>

type_synonym memory_index = "((string \<times> string) \<times> json) list"

fun field_matches :: "json \<Rightarrow> json \<Rightarrow> bool" where
  "field_matches (JObj [(kind, JObj [(field, v)])]) (JObj kvs) \<longleftrightarrow> js_get field kvs = Some v"
| "field_matches _ _ \<longleftrightarrow> False"

definition body_field :: "string \<Rightarrow> json \<Rightarrow> json option" where
  "body_field k body = js_optional_prop (Some body) k"

definition body_clauses :: "json \<Rightarrow> json list" where
  "body_clauses body =
     (case js_optional_prop (js_optional_prop (body_field ''query'' body) ''bool'') ''must'' of
        Some (JArr clauses) \<Rightarrow> clauses | _ \<Rightarrow> [])"

definition memory_ids :: "memory_index \<Rightarrow> string \<Rightarrow> json list \<Rightarrow> string list" where
  "memory_ids s idx clauses =
     filter (\<lambda>i. case map_of s (idx, i) of
         None \<Rightarrow> False | Some src \<Rightarrow> list_all (\<lambda>c. field_matches c src) clauses)
       (remdups (map (snd \<circ> fst) s))"

definition memory_response :: "memory_index \<Rightarrow> string \<Rightarrow> nat \<Rightarrow> string list \<Rightarrow> json" where
  "memory_response s idx n ids =
     JObj [(''hits'', JObj [(''total'', JObj [(''value'', JNum (nat_to_string n))]),
       (''hits'', JArr (map (\<lambda>i. JObj [(''_source'', case map_of s (idx, i) of None \<Rightarrow> JNull | Some src \<Rightarrow> src)]) ids))])]"

definition memory_search :: "string \<Rightarrow> string \<Rightarrow> json \<Rightarrow> (json, memory_index) search_act" where
  "memory_search verb path body s =
     (let idx = take (length path - 9) (drop 1 path) in
      if idx \<notin> (fst \<circ> fst) ` set s
      then (Inl \<lparr>err_name = ''ResponseError'', err_message = ''index_not_found_exception'', err_codeName = None, err_body = None\<rparr>, s)
      else
        (let ids = memory_ids s idx (body_clauses body) in
         (Inr (memory_response s idx (length ids)
            (take (window 10 (body_field ''size'' body)) (drop (window 0 (body_field ''from'' body)) ids))), s)))"

definition memory_engine ::
  "(string \<Rightarrow> json res) \<Rightarrow> (json \<Rightarrow> string) \<Rightarrow> (string \<times> ConfigValue) list \<Rightarrow> memory_index search_ops" where
  "memory_engine json_parse toNumber config = \<lparr>
     se_newClient = (\<lambda>_. ret ()), se_close = ret (),
     se_index = (\<lambda>idx i src s. (Inr (), AList.update (idx, i) src s)),
     se_delete = (\<lambda>idx i s. (Inr (), AList.delete (idx, i) s)),
     se_request = memory_search,
     se_json_parse = json_parse, se_toNumber = toNumber, se_config = config, se_debug = False\<rparr>"

text \<open>The parts of a request.\<close>

lemma search_path_parts: "take (length (search_path idx) - 9) (drop 1 (search_path idx)) = idx"
  by (simp add: search_path_def)

lemma search_body_parts:
  "body_field ''from'' (search_body from q limit) = from"
  "body_field ''query'' (search_body from q limit) = Some q"
  "body_field ''size'' (search_body from q limit) = limit"
  by (cases "from"; cases limit;
      simp add: search_body_def body_field_def js_optional_prop_def defined_entries_def map_filter_simps js_get_def)+

lemma search_clauses: "body_clauses (search_body from (bool_query clauses) limit) = clauses"
  by (simp add: body_clauses_def search_body_parts) (simp add: bool_query_def js_optional_prop_def js_get_def)

lemma memory_ids_set: "set (memory_ids s idx clauses) = matching_ids field_matches (map_of s) idx clauses"
proof -
  have "i \<in> snd ` fst ` set s" if "map_of s (idx, i) = Some src" for i src
    using map_of_SomeD [OF that] by force
  then show ?thesis
    by (auto simp: memory_ids_def matching_ids_def list_all_iff image_image split: option.splits)
qed

lemma memory_ids_distinct: "distinct (memory_ids s idx clauses)"
  by (simp add: memory_ids_def)

lemma memory_rows:
  "set ids \<subseteq> matching_ids m (map_of s) idx clauses \<Longrightarrow>
   list_all2 (row_of (map_of s) idx)
     (map (\<lambda>i. JObj [(''_source'', case map_of s (idx, i) of None \<Rightarrow> JNull | Some src \<Rightarrow> src)]) ids) ids"
  by (induction ids) (auto simp: row_of_def matching_ids_def js_prop_def js_get_def)

lemma memory_response_answer:
  assumes "distinct ids" "set ids \<subseteq> matching_ids m (map_of s) idx clauses" "length ids \<le> window 10 limit" "length ids \<le> n"
    and "window 0 from = 0 \<Longrightarrow> card (matching_ids m (map_of s) idx clauses) \<le> window 10 limit \<Longrightarrow>
      set ids = matching_ids m (map_of s) idx clauses"
  shows "search_answer m (map_of s) idx clauses from limit (memory_response s idx n ids)"
proof -
  let ?rows = "map (\<lambda>i. JObj [(''_source'', case map_of s (idx, i) of None \<Rightarrow> JNull | Some src \<Rightarrow> src)]) ids"
  have "list_all2 (row_of (map_of s) idx) ?rows ids" by (rule memory_rows [OF assms(2)])
  then show ?thesis unfolding search_answer_def memory_response_def
    by (intro exI [of _ "JObj [(''total'', JObj [(''value'', JNum (nat_to_string n))]), (''hits'', JArr ?rows)]"]
        exI [of _ "JObj [(''value'', JNum (nat_to_string n))]"] exI [of _ ?rows] exI [of _ ids] exI [of _ n])
      (simp add: assms js_prop_def js_get_def)
qed

lemma memory_search_answer:
  assumes "memory_search ''POST'' (search_path idx) (search_body from (bool_query clauses) limit) s = (Inr body, s')"
  shows "search_answer field_matches (map_of s) idx clauses from limit body"
proof -
  let ?all = "memory_ids s idx clauses"
  let ?ids = "take (window 10 limit) (drop (window 0 from) ?all)"
  let ?M = "matching_ids field_matches (map_of s) idx clauses"
  have body: "body = memory_response s idx (length ?all) ?ids"
    using assms unfolding memory_search_def search_path_parts search_clauses search_body_parts Let_def
    by (auto split: if_splits)
  have "set ?ids \<subseteq> ?M"
    unfolding memory_ids_set [symmetric] by (meson order_trans set_drop_subset set_take_subset)
  moreover have "set ?ids = ?M" if "window 0 from = 0" "card ?M \<le> window 10 limit"
    using that by (simp add: memory_ids_set [symmetric] distinct_card memory_ids_distinct)
  ultimately show ?thesis unfolding body
    by (intro memory_response_answer distinct_take distinct_drop memory_ids_distinct) simp_all
qed

interpretation memory: reliable_engine "memory_engine json_parse toNumber config" map_of field_matches
proof (unfold_locales, goal_cases)
  case (3 idx offset clauses limit s qr s')
  then have run: "memory_search ''POST'' (search_path idx) (search_body offset (bool_query clauses) limit) s = (qr, s')"
    by (simp add: memory_engine_def)
  then have "s' = s" by (auto simp: memory_search_def Let_def split: if_splits)
  then show ?case using memory_search_answer run by auto
qed (auto simp: memory_engine_def update_conv' delete_conv' act_simps)

end
