(* ===== verification/Elasticsearch.thy ===== *)
theory Elasticsearch
  imports SearchStore
begin

text \<open>
  The Elasticsearch backend (\<open>meadowlark-elasticsearch-backend/src\<close>): the shared client (\<open>repository/Db.ts\<close>), the
  translation of errors (\<open>repository/ElasticSearchException.ts\<close>), queries (\<open>repository/QueryElasticsearch.ts\<close>), the
  listeners that keep the index (\<open>repository/UpdateElasticsearch.ts\<close>), and the plugin (\<open>BackendFacade.ts\<close>,
  \<open>index.ts\<close>).  Log messages are left out.
\<close>

section \<open>ElasticSearchException\<close>

text \<open>What the client throws are \<open>Error\<close> objects, which have a name and a message.\<close>

definition connection_error_names :: "string list" where
  "connection_error_names = [''ConfigurationError'', ''ConnectionError'', ''RequestAbortedError'', ''TimeoutError'']"

definition handleElasticSearchError :: "search_error \<Rightarrow> QueryResult" where
  "handleElasticSearchError err =
     (let message = Some (JStr (err_message err)) in
      if err_name err \<in> set connection_error_names then failed_query QUERY_FAILURE_CONNECTION_ERROR message
      else if err_name err = ''ResponseError'' \<and> err_message err \<noteq> ''Response Error''
      then (if js_includes (err_message err) ''index_not_found_exception''
            then failed_query QUERY_FAILURE_INDEX_NOT_FOUND (Some (JStr ''IndexNotFoundException''))
            else failed_query QUERY_FAILURE_INVALID_QUERY message)
      else failed_query QueryResponse.UNKNOWN_FAILURE message)"

section \<open>QueryElasticsearch\<close>

definition dashed :: "string \<Rightarrow> string" where
  "dashed s = map (\<lambda>c. if c = CHR ''.'' then CHR ''-'' else c) s"

definition indexFromResourceInfo :: "ResourceInfo \<Rightarrow> string" where
  "indexFromResourceInfo resourceInfo =
     dashed (js_toLowerCase
       (bri_projectName resourceInfo @ ''$'' @ ri_resourceVersion resourceInfo @ ''$'' @ bri_resourceName resourceInfo))"

definition performDslQuery ::
  "'s search_ops \<Rightarrow> string \<Rightarrow> json \<Rightarrow> json option \<Rightarrow> json option \<Rightarrow> (json, 's) search_act" where
  "performDslQuery se path q limit offset = se_request se ''POST'' (''/'' @ path @ ''/_search'')
     (JObj (defined_entries [(''from'', offset), (''query'', Some q), (''size'', limit),
        (''sort'', Some (JArr [JObj [(''_doc'', JObj [(''order'', JStr ''asc'')])]]))]))"

text \<open>The filters of the client, and the owner unless the resource is a descriptor.\<close>

definition query_matches :: "QueryRequest \<Rightarrow> json list" where
  "query_matches request =
     map (\<lambda>(key, v). JObj [(''match_phrase'', JObj [(key, v)])]) (qy_queryParameters request) @
     (if sec_authorizationStrategy (qy_security request) = OWNERSHIP_BASED \<and> \<not> bri_isDescriptor (qy_resourceInfo request)
      then [JObj [(''match'', JObj [(''createdBy'', JStr (sec_clientId (qy_security request)))])]] else [])"

definition hit_document :: "'s search_ops \<Rightarrow> json \<Rightarrow> json res" where
  "hit_document se datarow =
     res_bind (js_prop datarow ''_source'') (\<lambda>source.
     res_bind (js_prop_opt source ''info'') (\<lambda>info. se_json_parse se (js_opt_to_string info)))"

definition hit_documents :: "'s search_ops \<Rightarrow> json option \<Rightarrow> json list res" where
  "hit_documents se hits =
     res_bind (js_prop_opt hits ''hits'') (\<lambda>rows.
       case rows of
         None \<Rightarrow> Inl (TypeError ''Cannot read properties of undefined (reading map)'')
       | Some (JArr datarows) \<Rightarrow> res_map (hit_document se) datarows
       | Some _ \<Rightarrow> Inl (TypeError ''body.hits.hits.map is not a function''))"

text \<open>What is read of a response; with debug messages on, also the ids of the documents.\<close>

definition es_query_result :: "'s search_ops \<Rightarrow> json \<Rightarrow> QueryResult res" where
  "es_query_result se body =
     res_bind (js_prop body ''hits'') (\<lambda>hits.
     res_bind (js_prop_opt hits ''total'') (\<lambda>total.
     res_bind (js_prop_opt total ''value'') (\<lambda>recordCount.
     res_bind (if js_positive (se_toNumber se) recordCount then hit_documents se hits else Inr []) (\<lambda>documents.
     res_bind (if se_debug se then res_map (\<lambda>document. js_prop document ''id'') documents else Inr []) (\<lambda>_.
     Inr \<lparr>qr_response = QUERY_SUCCESS, qr_documents = documents, qr_failureMessage = None, qr_totalCount = recordCount\<rparr>)))))"

definition es_queryDocuments :: "'s search_ops \<Rightarrow> QueryRequest \<Rightarrow> (QueryResult, 's) act" where
  "es_queryDocuments se request = (\<lambda>s.
     case performDslQuery se (indexFromResourceInfo (qy_resourceInfo request)) (bool_query (query_matches request))
            (js_get ''limit'' (qy_paginationParameters request)) (js_get ''offset'' (qy_paginationParameters request)) s of
       (Inl err, s') \<Rightarrow> (Inr (handleElasticSearchError err), s')
     | (Inr body, s') \<Rightarrow>
         (Inr (case es_query_result se body of
                 Inl e \<Rightarrow> handleElasticSearchError (thrown_error e)
               | Inr result \<Rightarrow> result), s'))"

section \<open>UpdateElasticsearch\<close>

text \<open>The body that is indexed: the document between the values of the service, of which the later ones win.\<close>

definition indexed_info :: "DocumentUuid \<Rightarrow> json \<Rightarrow> json" where
  "indexed_info documentUuid edfiDoc = JObj (js_assign [(''id'', JStr documentUuid)] (spread_json edfiDoc))"

definition indexed_source :: "UpsertRequest \<Rightarrow> DocumentUuid \<Rightarrow> json" where
  "indexed_source request documentUuid =
     JObj (js_assign
       (js_assign
         [(''id'', JStr documentUuid), (''info'', JStr (json_stringify (indexed_info documentUuid (ur_edfiDoc request))))]
         (spread_json (ur_edfiDoc request)))
       [(''createdBy'', JStr (sec_clientId (ur_security request))), (''meadowlarkId'', JStr (ur_meadowlarkId request)),
        (''documentUuid'', JStr documentUuid)])"

definition upsertToElasticsearch :: "'s search_ops \<Rightarrow> UpsertRequest \<Rightarrow> DocumentUuid \<Rightarrow> (unit, 's) act" where
  "upsertToElasticsearch se request documentUuid =
     log_failure (se_index se (indexFromResourceInfo (ur_resourceInfo request)) documentUuid (indexed_source request documentUuid))"

definition es_afterDeleteDocumentById :: "'s search_ops \<Rightarrow> DeleteRequest \<Rightarrow> DeleteResult \<Rightarrow> (unit, 's) act" where
  "es_afterDeleteDocumentById se request result =
     (if result \<noteq> DELETE_SUCCESS then ret ()
      else log_failure (se_delete se (indexFromResourceInfo (del_resourceInfo request)) (del_documentUuid request)))"

definition es_afterUpsertDocument :: "'s search_ops \<Rightarrow> UpsertRequest \<Rightarrow> UpsertResult \<Rightarrow> (unit, 's) act" where
  "es_afterUpsertDocument se request result =
     (case result of
        UpsertResult.UPDATE_SUCCESS _ existingDocumentUuid \<Rightarrow> upsertToElasticsearch se request existingDocumentUuid
      | INSERT_SUCCESS _ newDocumentUuid \<Rightarrow> upsertToElasticsearch se request newDocumentUuid
      | _ \<Rightarrow> ret ())"

text \<open>The listener of updates passes on the properties that the two requests share.\<close>

definition es_afterUpdateDocumentById :: "'s search_ops \<Rightarrow> UpdateRequest \<Rightarrow> UpdateResult \<Rightarrow> (unit, 's) act" where
  "es_afterUpdateDocumentById se request result =
     (case result of
        UpdateResult.UPDATE_SUCCESS _ \<Rightarrow>
          upsertToElasticsearch se
            \<lparr>ur_meadowlarkId = ur_meadowlarkId request, ur_resourceInfo = ur_resourceInfo request,
             ur_documentInfo = ur_documentInfo request, ur_edfiDoc = ur_edfiDoc request,
             ur_validateDocumentReferencesExist = ur_validateDocumentReferencesExist request,
             ur_security = ur_security request, ur_traceId = ur_traceId request\<rparr>
            (upd_documentUuid request)
      | _ \<Rightarrow> ret ())"

section \<open>Db\<close>

text \<open>An error of the constructor is logged without the password and thrown again.\<close>

definition getElasticSearchClient :: "'s search_ops \<Rightarrow> search_options \<Rightarrow> (search_options, 's) act" where
  "getElasticSearchClient se clientOpts = bnd (se_newClient se clientOpts) (\<lambda>_. ret clientOpts)"

definition es_getNewClient :: "'s search_ops \<Rightarrow> (search_options, 's) act" where
  "es_getNewClient se =
     bnd (lift (config_get (se_config se) ''ELASTICSEARCH_ENDPOINT'')) (\<lambda>node.
     bnd (lift (config_get (se_config se) ''ELASTICSEARCH_USERNAME'')) (\<lambda>username.
     bnd (lift (config_get (se_config se) ''ELASTICSEARCH_PASSWORD'')) (\<lambda>password.
     bnd (lift (config_get (se_config se) ''ELASTICSEARCH_REQUEST_TIMEOUT'')) (\<lambda>requestTimeout.
     getElasticSearchClient se
       \<lparr>so_node = node, so_username = username, so_password = password, so_requestTimeout = requestTimeout\<rparr>))))"

definition es_getSharedClient :: "'s search_ops \<Rightarrow> (unit, 's search_state) act" where
  "es_getSharedClient se = (\<lambda>(singletonClient, s).
     if singletonClient = None
     then (case es_getNewClient se s of (Inl e, s') \<Rightarrow> (Inl e, (None, s')) | (Inr opts, s') \<Rightarrow> (Inr (), (Some opts, s')))
     else (Inr (), (singletonClient, s)))"

definition es_closeSharedConnection :: "'s search_ops \<Rightarrow> (unit, 's search_state) act" where
  "es_closeSharedConnection se = (\<lambda>(singletonClient, s).
     if singletonClient \<noteq> None
     then (case se_close se s of (Inl e, s') \<Rightarrow> (Inl e, (singletonClient, s')) | (Inr _, s') \<Rightarrow> (Inr (), (None, s')))
     else (Inr (), (None, s)))"

section \<open>BackendFacade and the plugin\<close>

definition es_with_client :: "'s search_ops \<Rightarrow> ('a, 's) act \<Rightarrow> ('a, 's search_state) act" where
  "es_with_client se m = bnd (es_getSharedClient se) (\<lambda>_. on_search m)"

definition es_initializeQueryHandler :: "'s search_ops \<Rightarrow> 's search_state QueryHandlerPlugin" where
  "es_initializeQueryHandler se = \<lparr>
     qhp_queryDocuments = (\<lambda>request. es_with_client se (es_queryDocuments se request)),
     qhp_closeConnection = es_closeSharedConnection se\<rparr>"

definition es_initializeListener :: "'s search_ops \<Rightarrow> 's search_state emitter \<Rightarrow> 's search_state emitter" where
  "es_initializeListener se em =
     subscribe_afterUpdateDocumentById (\<lambda>request result. es_with_client se (es_afterUpdateDocumentById se request result))
       (subscribe_afterUpsertDocument (\<lambda>request result. es_with_client se (es_afterUpsertDocument se request result))
         (subscribe_afterDeleteDocumentById (\<lambda>request result. es_with_client se (es_afterDeleteDocumentById se request result)) em))"

end
