(* ===== verification/Opensearch.thy ===== *)
theory Opensearch
  imports Elasticsearch
begin

text \<open>
  The OpenSearch backend (\<open>meadowlark-opensearch-backend/src\<close>), a sibling of the Elasticsearch backend: the client
  gives a response with the answer of the engine as its \<open>body\<close>, and an error with the message \<open>Response Error\<close> is
  told apart by the body it carries.
\<close>

section \<open>OpenSearchException\<close>

text \<open>\<open>JSON.parse(body?.toString())\<close>: a \<open>null\<close> gives the text \<open>undefined\<close>.\<close>

definition body_text :: "json \<Rightarrow> string" where
  "body_text body = (if body = JNull then ''undefined'' else js_to_string body)"

text \<open>A response error by its body; an error of \<open>JSON.parse\<close> is caught.\<close>

definition os_body_failure :: "(string \<Rightarrow> json res) \<Rightarrow> json \<Rightarrow> QueryResult res" where
  "os_body_failure json_parse body =
     res_bind (json_parse (body_text body)) (\<lambda>responseBody.
       let error = js_optional_prop (Some responseBody) ''error'' in
       case js_optional_prop error ''type'' of
         None \<Rightarrow> res_bind (json_parse (json_stringify body)) (\<lambda>copy.
                 Inr (failed_query QueryResponse.UNKNOWN_FAILURE (Some copy)))
       | Some type \<Rightarrow>
           Inr (if type = JStr ''IndexNotFoundException''
                then failed_query QUERY_FAILURE_INDEX_NOT_FOUND (Some (JStr ''IndexNotFoundException''))
                else if type = JStr ''SemanticAnalysisException''
                then failed_query QUERY_FAILURE_INVALID_QUERY (js_optional_prop error ''details'')
                else failed_query QueryResponse.UNKNOWN_FAILURE (Some responseBody)))"

definition handleOpenSearchError :: "(string \<Rightarrow> json res) \<Rightarrow> search_error \<Rightarrow> QueryResult" where
  "handleOpenSearchError json_parse err =
     (let message = Some (JStr (err_message err));
          unknown = failed_query QueryResponse.UNKNOWN_FAILURE message
      in
      if err_name err \<in> set connection_error_names then failed_query QUERY_FAILURE_CONNECTION_ERROR message
      else if err_name err = ''ResponseError''
      then (if err_message err \<noteq> ''Response Error''
            then (if js_includes (err_message err) ''index_not_found_exception''
                  then failed_query QUERY_FAILURE_INDEX_NOT_FOUND (Some (JStr ''IndexNotFoundException''))
                  else failed_query QUERY_FAILURE_INVALID_QUERY message)
            else (case err_body err of
                    None \<Rightarrow> unknown
                  | Some body \<Rightarrow> (case os_body_failure json_parse body of Inl _ \<Rightarrow> unknown | Inr result \<Rightarrow> result)))
      else unknown)"

section \<open>QueryOpensearch\<close>

definition os_indexFromResourceInfo :: "ResourceInfo \<Rightarrow> string" where
  "os_indexFromResourceInfo resourceInfo =
     dashed (js_toLowerCase
       (bri_projectName resourceInfo @ ''$'' @ ri_resourceVersion resourceInfo @ ''$'' @ bri_resourceName resourceInfo))"

definition os_performDslQuery ::
  "'s search_ops \<Rightarrow> string \<Rightarrow> json \<Rightarrow> json option \<Rightarrow> json option \<Rightarrow> (json, 's) search_act" where
  "os_performDslQuery se path q limit offset = se_request se ''POST'' (''/'' @ path @ ''/_search'')
     (JObj (defined_entries [(''from'', offset), (''query'', Some q), (''size'', limit),
        (''sort'', Some (JArr [JObj [(''_doc'', JObj [(''order'', JStr ''asc'')])]]))]))"

definition os_query_matches :: "QueryRequest \<Rightarrow> json list" where
  "os_query_matches request =
     map (\<lambda>(key, v). JObj [(''match_phrase'', JObj [(key, v)])]) (qy_queryParameters request) @
     (if sec_authorizationStrategy (qy_security request) = OWNERSHIP_BASED \<and> \<not> bri_isDescriptor (qy_resourceInfo request)
      then [JObj [(''match'', JObj [(''createdBy'', JStr (sec_clientId (qy_security request)))])]] else [])"

definition os_query_result :: "'s search_ops \<Rightarrow> json \<Rightarrow> QueryResult res" where
  "os_query_result se result =
     res_bind (js_prop result ''body'') (\<lambda>body.
     res_bind (js_prop_opt body ''hits'') (\<lambda>hits.
     res_bind (js_prop_opt hits ''total'') (\<lambda>total.
     res_bind (js_prop_opt total ''value'') (\<lambda>recordCount.
     res_bind (if js_positive (se_toNumber se) recordCount then hit_documents se hits else Inr []) (\<lambda>documents.
     res_bind (if se_debug se then res_map (\<lambda>document. js_prop document ''id'') documents else Inr []) (\<lambda>_.
     Inr \<lparr>qr_response = QUERY_SUCCESS, qr_documents = documents, qr_failureMessage = None, qr_totalCount = recordCount\<rparr>))))))"

definition os_queryDocuments :: "'s search_ops \<Rightarrow> QueryRequest \<Rightarrow> (QueryResult, 's) act" where
  "os_queryDocuments se request = (\<lambda>s.
     case os_performDslQuery se (os_indexFromResourceInfo (qy_resourceInfo request)) (bool_query (os_query_matches request))
            (js_get ''limit'' (qy_paginationParameters request)) (js_get ''offset'' (qy_paginationParameters request)) s of
       (Inl err, s') \<Rightarrow> (Inr (handleOpenSearchError (se_json_parse se) err), s')
     | (Inr result, s') \<Rightarrow>
         (Inr (case os_query_result se result of
                 Inl e \<Rightarrow> handleOpenSearchError (se_json_parse se) (thrown_error e)
               | Inr answer \<Rightarrow> answer), s'))"

section \<open>UpdateOpensearch\<close>

definition os_indexed_source :: "UpsertRequest \<Rightarrow> DocumentUuid \<Rightarrow> json" where
  "os_indexed_source request documentUuid =
     JObj (js_assign
       (js_assign
         [(''id'', JStr documentUuid),
          (''info'', JStr (json_stringify (JObj (js_assign [(''id'', JStr documentUuid)] (spread_json (ur_edfiDoc request))))))]
         (spread_json (ur_edfiDoc request)))
       [(''createdBy'', JStr (sec_clientId (ur_security request))), (''meadowlarkId'', JStr (ur_meadowlarkId request)),
        (''documentUuid'', JStr documentUuid)])"

definition upsertToOpensearch :: "'s search_ops \<Rightarrow> UpsertRequest \<Rightarrow> DocumentUuid \<Rightarrow> (unit, 's) act" where
  "upsertToOpensearch se request documentUuid =
     log_failure (se_index se (os_indexFromResourceInfo (ur_resourceInfo request)) documentUuid
       (os_indexed_source request documentUuid))"

definition os_afterDeleteDocumentById :: "'s search_ops \<Rightarrow> DeleteRequest \<Rightarrow> DeleteResult \<Rightarrow> (unit, 's) act" where
  "os_afterDeleteDocumentById se request result =
     (if result \<noteq> DELETE_SUCCESS then ret ()
      else log_failure (se_delete se (os_indexFromResourceInfo (del_resourceInfo request)) (del_documentUuid request)))"

definition os_afterUpsertDocument :: "'s search_ops \<Rightarrow> UpsertRequest \<Rightarrow> UpsertResult \<Rightarrow> (unit, 's) act" where
  "os_afterUpsertDocument se request result =
     (case result of
        UpsertResult.UPDATE_SUCCESS _ existingDocumentUuid \<Rightarrow> upsertToOpensearch se request existingDocumentUuid
      | INSERT_SUCCESS _ newDocumentUuid \<Rightarrow> upsertToOpensearch se request newDocumentUuid
      | _ \<Rightarrow> ret ())"

definition os_afterUpdateDocumentById :: "'s search_ops \<Rightarrow> UpdateRequest \<Rightarrow> UpdateResult \<Rightarrow> (unit, 's) act" where
  "os_afterUpdateDocumentById se request result =
     (case result of
        UpdateResult.UPDATE_SUCCESS _ \<Rightarrow>
          upsertToOpensearch se
            \<lparr>ur_meadowlarkId = ur_meadowlarkId request, ur_resourceInfo = ur_resourceInfo request,
             ur_documentInfo = ur_documentInfo request, ur_edfiDoc = ur_edfiDoc request,
             ur_validateDocumentReferencesExist = ur_validateDocumentReferencesExist request,
             ur_security = ur_security request, ur_traceId = ur_traceId request\<rparr>
            (upd_documentUuid request)
      | _ \<Rightarrow> ret ())"

section \<open>Db\<close>

definition getOpenSearchClient :: "'s search_ops \<Rightarrow> search_options \<Rightarrow> (search_options, 's) act" where
  "getOpenSearchClient se clientOpts = bnd (se_newClient se clientOpts) (\<lambda>_. ret clientOpts)"

definition os_getNewClient :: "'s search_ops \<Rightarrow> (search_options, 's) act" where
  "os_getNewClient se =
     bnd (lift (config_get (se_config se) ''OPENSEARCH_ENDPOINT'')) (\<lambda>node.
     bnd (lift (config_get (se_config se) ''OPENSEARCH_USERNAME'')) (\<lambda>username.
     bnd (lift (config_get (se_config se) ''OPENSEARCH_PASSWORD'')) (\<lambda>password.
     bnd (lift (config_get (se_config se) ''OPENSEARCH_REQUEST_TIMEOUT'')) (\<lambda>requestTimeout.
     getOpenSearchClient se
       \<lparr>so_node = node, so_username = username, so_password = password, so_requestTimeout = requestTimeout\<rparr>))))"

definition os_getSharedClient :: "'s search_ops \<Rightarrow> (unit, 's search_state) act" where
  "os_getSharedClient se = (\<lambda>(singletonClient, s).
     if singletonClient = None
     then (case os_getNewClient se s of (Inl e, s') \<Rightarrow> (Inl e, (None, s')) | (Inr opts, s') \<Rightarrow> (Inr (), (Some opts, s')))
     else (Inr (), (singletonClient, s)))"

definition os_closeSharedConnection :: "'s search_ops \<Rightarrow> (unit, 's search_state) act" where
  "os_closeSharedConnection se = (\<lambda>(singletonClient, s).
     if singletonClient \<noteq> None
     then (case se_close se s of (Inl e, s') \<Rightarrow> (Inl e, (singletonClient, s')) | (Inr _, s') \<Rightarrow> (Inr (), (None, s')))
     else (Inr (), (None, s)))"

section \<open>BackendFacade and the plugin\<close>

definition os_with_client :: "'s search_ops \<Rightarrow> ('a, 's) act \<Rightarrow> ('a, 's search_state) act" where
  "os_with_client se m = bnd (os_getSharedClient se) (\<lambda>_. on_search m)"

definition os_initializeQueryHandler :: "'s search_ops \<Rightarrow> 's search_state QueryHandlerPlugin" where
  "os_initializeQueryHandler se = \<lparr>
     qhp_queryDocuments = (\<lambda>request. os_with_client se (os_queryDocuments se request)),
     qhp_closeConnection = os_closeSharedConnection se\<rparr>"

definition os_initializeListener :: "'s search_ops \<Rightarrow> 's search_state emitter \<Rightarrow> 's search_state emitter" where
  "os_initializeListener se em =
     subscribe_afterUpdateDocumentById (\<lambda>request result. os_with_client se (os_afterUpdateDocumentById se request result))
       (subscribe_afterUpsertDocument (\<lambda>request result. os_with_client se (os_afterUpsertDocument se request result))
         (subscribe_afterDeleteDocumentById (\<lambda>request result. os_with_client se (os_afterDeleteDocumentById se request result)) em))"

end
