(* ===== verification/SearchProperties.thy ===== *)
theory SearchProperties
  imports Opensearch
begin

text \<open>
  What the query backends show: the answer to a query in terms of the sources of the index (\<open>query_outcome\<close>), the
  index as a function of the successful writes (\<open>index_after\<close>) and its refinement by the listeners, and OpenSearch as
  Elasticsearch over responses without their envelope (\<open>unwrapped\<close>).
\<close>

section \<open>Numbers as text\<close>

lemma nat_to_string_digits: "nat_to_string n \<noteq> [] \<and> set (nat_to_string n) \<subseteq> (\<lambda>d. char_of (48 + d :: nat)) ` {..<10}"
proof (induction n rule: nat_to_string.induct)
  case (1 n)
  show ?case by (subst (1 2) nat_to_string.simps) (use 1 in auto)
qed

lemma of_char_0: "(of_char (CHR ''0'') :: nat) = 48"
  by code_simp

lemma digit_chars: "(\<lambda>d. char_of (48 + d :: nat)) ` {..<10} = (set ''0123456789'' :: char set)"
proof -
  have "map (\<lambda>d. char_of (48 + d :: nat)) [0..<10] = ''0123456789''" by code_simp
  then show ?thesis by (metis atLeast_upt set_map)
qed

lemma nat_to_string_not_0: "0 < n \<Longrightarrow> nat_to_string n \<noteq> ''0''"
proof (induction n rule: nat_to_string.induct)
  case (1 n)
  show ?case
  proof (cases "n < 10")
    case True
    have "nat_to_string n = [char_of (48 + n)]" using True by (subst nat_to_string.simps) simp
    moreover have "(of_char (char_of (48 + n) :: char) :: nat) = 48 + n" using True by (simp add: of_char_of)
    then have "(char_of (48 + n) :: char) \<noteq> CHR ''0''" using "1.prems" by (metis add_cancel_left_right less_irrefl of_char_0)
    ultimately show ?thesis by simp
  next
    case False
    then show ?thesis using nat_to_string_digits [of "n div 10"] by (subst nat_to_string.simps) auto
  qed
qed

lemma js_positive_nat: "js_positive f (Some (JNum (nat_to_string n))) \<longleftrightarrow> 0 < n"
proof -
  have digits: "nat_to_string n \<noteq> []" "set (nat_to_string n) \<subseteq> set ''0123456789''"
    using nat_to_string_digits [of n] digit_chars by auto
  then have "hd (nat_to_string n) \<in> set ''0123456789''" by (meson hd_in_set subsetD)
  then have "hd (nat_to_string n) \<noteq> CHR ''-''" "hd (nat_to_string n) \<noteq> CHR ''N''" by auto
  then have "\<not> js_startsWith (nat_to_string n) ''-''" "nat_to_string n \<noteq> ''NaN''"
    using digits(1) by (cases "nat_to_string n"; auto simp: js_startsWith_def)+
  moreover have "nat_to_string 0 = ''0''" by code_simp
  ultimately show ?thesis using nat_to_string_not_0 [of n] by (cases "n = 0") (auto simp: js_positive_def)
qed

section \<open>Queries\<close>

lemma performDslQuery_request:
  "performDslQuery se idx q limit offset = se_request se ''POST'' (search_path idx) (search_body offset q limit)"
  by (simp add: performDslQuery_def search_path_def search_body_def)

definition source_document :: "'s search_ops \<Rightarrow> json \<Rightarrow> json res" where
  "source_document se src = res_bind (js_prop src ''info'') (\<lambda>info. se_json_parse se (js_opt_to_string info))"

text \<open>The documents of a successful answer are those of the sources under \<open>ids\<close>.\<close>

definition query_outcome ::
  "'s search_ops \<Rightarrow> (json \<Rightarrow> json \<Rightarrow> bool) \<Rightarrow> sources \<Rightarrow> QueryRequest \<Rightarrow> QueryResult \<Rightarrow> string list \<Rightarrow> bool" where
  "query_outcome se matches srcs request result ids \<longleftrightarrow>
     (let M = matching_ids matches srcs (indexFromResourceInfo (qy_resourceInfo request)) (query_matches request);
          limit = window 10 (js_get ''limit'' (qy_paginationParameters request)) in
      list_all2 (\<lambda>d i. \<exists>src. srcs (indexFromResourceInfo (qy_resourceInfo request), i) = Some src \<and> source_document se src = Inr d)
        (qr_documents result) ids \<and>
      distinct ids \<and> set ids \<subseteq> M \<and> length ids \<le> limit \<and>
      (\<exists>n. qr_totalCount result = Some (JNum (nat_to_string n)) \<and> length ids \<le> n) \<and>
      (window 0 (js_get ''offset'' (qy_paginationParameters request)) = 0 \<and> finite M \<and> card M \<le> limit \<longrightarrow> set ids = M))"

lemma failed_query_simps [simp]:
  "qr_response (failed_query r m) = r" "qr_documents (failed_query r m) = []"
  "qr_failureMessage (failed_query r m) = m" "qr_totalCount (failed_query r m) = None"
  by (simp_all add: failed_query_def)

lemma error_no_success [simp]: "qr_response (handleElasticSearchError e) \<noteq> QUERY_SUCCESS"
  by (simp add: handleElasticSearchError_def Let_def)

lemma error_no_documents [simp]: "qr_documents (handleElasticSearchError e) = []"
  by (simp add: handleElasticSearchError_def Let_def)

lemma os_body_no_success: "os_body_failure p b = Inr r \<Longrightarrow> qr_response r \<noteq> QUERY_SUCCESS"
proof -
  assume "os_body_failure p b = Inr r"
  then obtain v where v: "(let error = js_optional_prop (Some v) ''error'' in
       case js_optional_prop error ''type'' of
         None \<Rightarrow> res_bind (p (json_stringify b)) (\<lambda>copy. Inr (failed_query QueryResponse.UNKNOWN_FAILURE (Some copy)))
       | Some type \<Rightarrow>
           Inr (if type = JStr ''IndexNotFoundException''
                then failed_query QUERY_FAILURE_INDEX_NOT_FOUND (Some (JStr ''IndexNotFoundException''))
                else if type = JStr ''SemanticAnalysisException''
                then failed_query QUERY_FAILURE_INVALID_QUERY (js_optional_prop error ''details'')
                else failed_query QueryResponse.UNKNOWN_FAILURE (Some v))) = Inr r"
    unfolding os_body_failure_def by (simp only: res_bind_eq_Inr) blast
  show ?thesis
    by (cases "js_optional_prop (js_optional_prop (Some v) ''error'') ''type''") (use v in \<open>auto simp: Let_def split: if_splits\<close>)
qed

lemma os_error_no_success [simp]: "qr_response (handleOpenSearchError p e) \<noteq> QUERY_SUCCESS"
proof (cases "err_body e")
  case (Some b)
  then show ?thesis
    by (cases "os_body_failure p b") (simp_all add: handleOpenSearchError_def Let_def os_body_no_success)
qed (simp add: handleOpenSearchError_def Let_def)

lemma hit_document_row: "row_of srcs idx row i \<Longrightarrow> srcs (idx, i) = Some src \<Longrightarrow> hit_document se row = source_document se src"
  by (auto simp: row_of_def hit_document_def source_document_def js_prop_opt_def)

lemma hit_rows:
  "list_all2 (row_of srcs idx) rows ids \<Longrightarrow> res_map (hit_document se) rows = Inr docs \<Longrightarrow>
   list_all2 (\<lambda>d i. \<exists>src. srcs (idx, i) = Some src \<and> source_document se src = Inr d) docs ids"
proof (induction rows ids arbitrary: docs rule: list_all2_induct)
  case (Cons row rows i ids)
  then obtain src where src: "srcs (idx, i) = Some src" by (auto simp: row_of_def)
  then show ?case using Cons hit_document_row [OF Cons.hyps(1) src, where se = se] by auto
qed simp

lemma hit_rows_total:
  "list_all2 (row_of srcs idx) rows ids \<Longrightarrow>
   (\<And>i src. i \<in> set ids \<Longrightarrow> srcs (idx, i) = Some src \<Longrightarrow> \<exists>d. source_document se src = Inr d) \<Longrightarrow>
   \<exists>docs. res_map (hit_document se) rows = Inr docs"
proof (induction rows ids rule: list_all2_induct)
  case (Cons row rows i ids)
  obtain src where src: "srcs (idx, i) = Some src" using Cons.hyps(1) by (auto simp: row_of_def)
  obtain d where "hit_document se row = Inr d"
    using hit_document_row [OF Cons.hyps(1) src, where se = se] Cons.prems [OF _ src] by auto
  moreover obtain docs where "res_map (hit_document se) rows = Inr docs" using Cons.IH Cons.prems by auto
  ultimately show ?case by simp
qed simp

text \<open>The answer that is made of a response.\<close>

lemma query_result_outcome:
  assumes "search_answer matches srcs (indexFromResourceInfo (qy_resourceInfo request)) (query_matches request)
      (js_get ''offset'' (qy_paginationParameters request)) (js_get ''limit'' (qy_paginationParameters request)) body"
    and "es_query_result se body = Inr result"
  shows "\<exists>ids. query_outcome se matches srcs request result ids"
proof -
  let ?idx = "indexFromResourceInfo (qy_resourceInfo request)"
  obtain hits total rows ids n where body: "js_prop body ''hits'' = Inr (Some hits)" "js_prop hits ''total'' = Inr (Some total)"
      "js_prop total ''value'' = Inr (Some (JNum (nat_to_string n)))" "js_prop hits ''hits'' = Inr (Some (JArr rows))"
    and rows: "list_all2 (row_of srcs ?idx) rows ids" "length ids \<le> n"
    and ids: "distinct ids" "set ids \<subseteq> matching_ids matches srcs ?idx (query_matches request)"
      "length ids \<le> window 10 (js_get ''limit'' (qy_paginationParameters request))"
      "window 0 (js_get ''offset'' (qy_paginationParameters request)) = 0 \<and>
         finite (matching_ids matches srcs ?idx (query_matches request)) \<and>
         card (matching_ids matches srcs ?idx (query_matches request)) \<le> window 10 (js_get ''limit'' (qy_paginationParameters request)) \<longrightarrow>
       set ids = matching_ids matches srcs ?idx (query_matches request)"
    using assms(1) unfolding search_answer_def by blast
  have run: "es_query_result se body =
     res_bind (if 0 < n then res_map (hit_document se) rows else Inr []) (\<lambda>documents.
     res_bind (if se_debug se then res_map (\<lambda>document. js_prop document ''id'') documents else Inr []) (\<lambda>_.
     Inr \<lparr>qr_response = QUERY_SUCCESS, qr_documents = documents, qr_failureMessage = None,
          qr_totalCount = Some (JNum (nat_to_string n))\<rparr>))"
    by (simp add: es_query_result_def body js_prop_opt_def js_positive_nat hit_documents_def)
  obtain docs where docs: "(if 0 < n then res_map (hit_document se) rows else Inr []) = Inr docs"
    "qr_documents result = docs" "qr_totalCount result = Some (JNum (nat_to_string n))"
    using assms(2) unfolding run by (auto split: if_splits)
  have "list_all2 (\<lambda>d i. \<exists>src. srcs (?idx, i) = Some src \<and> source_document se src = Inr d) docs ids"
  proof (cases "0 < n")
    case True
    then show ?thesis using hit_rows [OF rows(1), of se docs] docs(1) by simp
  next
    case False
    then show ?thesis using docs(1) rows(2) by simp
  qed
  then show ?thesis unfolding query_outcome_def Let_def using docs(2,3) ids rows(2) by blast
qed

lemma query_result_success: "es_query_result se body = Inr result \<Longrightarrow> qr_response result = QUERY_SUCCESS"
  by (auto simp: es_query_result_def)

text \<open>When the sources that match hold objects as their documents, a response gives an answer.\<close>

lemma object_props_total: "(\<And>d. d \<in> set docs \<Longrightarrow> \<exists>kvs. d = JObj kvs) \<Longrightarrow> \<exists>ids. res_map (\<lambda>d. js_prop d k) docs = Inr ids"
proof (induction docs)
  case (Cons d docs)
  obtain kvs where "d = JObj kvs" using Cons.prems [of d] by auto
  moreover obtain ids where "res_map (\<lambda>d. js_prop d k) docs = Inr ids" using Cons.IH Cons.prems by auto
  ultimately show ?case by (simp add: js_prop_def)
qed simp

lemma query_result_total:
  assumes "search_answer matches srcs idx clauses offset limit body"
    and "\<And>i src. i \<in> matching_ids matches srcs idx clauses \<Longrightarrow> srcs (idx, i) = Some src \<Longrightarrow>
      \<exists>kvs. source_document se src = Inr (JObj kvs)"
  shows "\<exists>result. es_query_result se body = Inr result"
proof -
  obtain hits total rows ids n where body: "js_prop body ''hits'' = Inr (Some hits)" "js_prop hits ''total'' = Inr (Some total)"
      "js_prop total ''value'' = Inr (Some (JNum (nat_to_string n)))" "js_prop hits ''hits'' = Inr (Some (JArr rows))"
    and rows: "list_all2 (row_of srcs idx) rows ids" "set ids \<subseteq> matching_ids matches srcs idx clauses"
    using assms(1) unfolding search_answer_def by blast
  have "\<exists>docs. res_map (hit_document se) rows = Inr docs"
    by (rule hit_rows_total [OF rows(1)]) (use assms(2) rows(2) in blast)
  then obtain docs where docs: "res_map (hit_document se) rows = Inr docs" ..
  have "\<exists>kvs. d = JObj kvs" if d: "d \<in> set docs" for d
  proof -
    obtain k where k: "k < length docs" "docs ! k = d" using d by (auto simp: in_set_conv_nth)
    note all = hit_rows [OF rows(1) docs]
    then have "ids ! k \<in> set ids" using k(1) by (auto dest: list_all2_lengthD)
    moreover obtain src where "srcs (idx, ids ! k) = Some src" "source_document se src = Inr d"
      using list_all2_nthD [OF all k(1)] k(2) by auto
    ultimately show ?thesis using assms(2) [of "ids ! k" src] rows(2) by auto
  qed
  then obtain props where "res_map (\<lambda>d. js_prop d ''id'') docs = Inr props" using object_props_total [of docs] by blast
  then show ?thesis
    using docs by (auto simp: es_query_result_def body js_prop_opt_def hit_documents_def)
qed

context search_engine
begin

lemma query_run:
  assumes "es_queryDocuments se request s = (r, s')"
  shows "sources s' = sources s \<and> (\<exists>result. r = Inr result \<and>
    (qr_response result = QUERY_SUCCESS \<longrightarrow> (\<exists>ids. query_outcome se matches (sources s) request result ids)))"
proof -
  let ?offset = "js_get ''offset'' (qy_paginationParameters request)" and ?limit = "js_get ''limit'' (qy_paginationParameters request)"
  obtain q t where q: "se_request se ''POST'' (search_path (indexFromResourceInfo (qy_resourceInfo request)))
      (search_body ?offset (bool_query (query_matches request)) ?limit) s = (q, t)" by fastforce
  note law = request_law [OF q]
  show ?thesis
  proof (cases q)
    case (Inl e)
    then show ?thesis using assms q law by (auto simp: es_queryDocuments_def performDslQuery_request)
  next
    case (Inr body)
    then have r: "r = Inr (case es_query_result se body of Inl e \<Rightarrow> handleElasticSearchError (thrown_error e) | Inr result \<Rightarrow> result)"
      "s' = t" using assms q by (auto simp: es_queryDocuments_def performDslQuery_request)
    show ?thesis
    proof (cases "es_query_result se body")
      case (Inl e)
      then show ?thesis using r law by simp
    next
      case (Inr result)
      then show ?thesis using r law query_result_outcome [of matches "sources s" request body se result] \<open>q = Inr body\<close>
        by simp
    qed
  qed
qed

end

section \<open>The listeners\<close>

datatype write_event =
    Upserted UpsertRequest UpsertResult
  | Updated UpdateRequest UpdateResult
  | Deleted DeleteRequest DeleteResult

fun es_listen :: "'s search_ops \<Rightarrow> write_event \<Rightarrow> (unit, 's) act" where
  "es_listen se (Upserted request result) = es_afterUpsertDocument se request result"
| "es_listen se (Updated request result) = es_afterUpdateDocumentById se request result"
| "es_listen se (Deleted request result) = es_afterDeleteDocumentById se request result"

fun es_listen_all :: "'s search_ops \<Rightarrow> write_event list \<Rightarrow> (unit, 's) act" where
  "es_listen_all se [] = ret ()"
| "es_listen_all se (e # es) = bnd (es_listen se e) (\<lambda>_. es_listen_all se es)"

text \<open>What a successful write is to the index: a document to store, or one to remove.\<close>

fun stored_by :: "write_event \<Rightarrow> (UpsertRequest \<times> DocumentUuid) option" where
  "stored_by (Upserted request (INSERT_SUCCESS m u)) = Some (request, u)"
| "stored_by (Upserted request (UpsertResult.UPDATE_SUCCESS m u)) = Some (request, u)"
| "stored_by (Updated request (UpdateResult.UPDATE_SUCCESS m)) = Some (UpsertRequest.truncate request, upd_documentUuid request)"
| "stored_by _ = None"

fun removed_by :: "write_event \<Rightarrow> (string \<times> DocumentUuid) option" where
  "removed_by (Deleted request DELETE_SUCCESS) =
     Some (indexFromResourceInfo (del_resourceInfo request), del_documentUuid request)"
| "removed_by _ = None"

lemma es_listen_cases:
  "es_listen se e =
     (case stored_by e of
        Some (request, u) \<Rightarrow> upsertToElasticsearch se request u
      | None \<Rightarrow> (case removed_by e of Some (idx, u) \<Rightarrow> log_failure (se_delete se idx u) | None \<Rightarrow> ret ()))"
proof (cases e)
  case (Upserted request result)
  then show ?thesis by (cases result) (simp_all add: es_afterUpsertDocument_def)
next
  case (Updated request result)
  then show ?thesis by (cases result) (simp_all add: es_afterUpdateDocumentById_def UpsertRequest.truncate_def)
next
  case (Deleted request result)
  then show ?thesis by (cases result) (simp_all add: es_afterDeleteDocumentById_def)
qed

lemma reported_run: "log_failure m s = (Inr (), snd (m s))"
  by (simp add: log_failure_def)

lemma es_listen_run: "\<exists>s'. es_listen se e s = (Inr (), s')"
  by (simp add: es_listen_cases upsertToElasticsearch_def reported_run act_simps split: option.split prod.split)

lemma es_listen_all_run: "\<exists>s'. es_listen_all se events s = (Inr (), s')"
proof (induction events arbitrary: s)
  case (Cons e events)
  obtain t where "es_listen se e s = (Inr (), t)" using es_listen_run [of se e s] by blast
  then show ?case using Cons by (simp add: act_simps)
qed (simp add: act_simps)

text \<open>The abstract index: the last write of each uuid in each index.\<close>

type_synonym abstract_index = "string \<times> DocumentUuid \<Rightarrow> UpsertRequest option"

definition index_write :: "write_event \<Rightarrow> abstract_index \<Rightarrow> abstract_index" where
  "index_write e A =
     (case stored_by e of
        Some (request, u) \<Rightarrow> A((indexFromResourceInfo (ur_resourceInfo request), u) \<mapsto> request)
      | None \<Rightarrow> (case removed_by e of Some k \<Rightarrow> A(k := None) | None \<Rightarrow> A))"

definition index_after :: "write_event list \<Rightarrow> abstract_index" where
  "index_after events = fold index_write events Map.empty"

definition concrete_index :: "abstract_index \<Rightarrow> sources" where
  "concrete_index A = (\<lambda>(idx, u). map_option (\<lambda>request. indexed_source request u) (A (idx, u)))"

lemma concrete_index_upd:
  "concrete_index (A((idx, u) \<mapsto> request)) = (concrete_index A)((idx, u) \<mapsto> indexed_source request u)"
  "concrete_index (A(k := None)) = (concrete_index A)(k := None)"
  by (auto simp: concrete_index_def fun_eq_iff)

lemma indexed_by_write:
  "fold index_write events A (idx, u) = Some request \<Longrightarrow>
   A (idx, u) = Some request \<or> (\<exists>e \<in> set events. stored_by e = Some (request, u) \<and> idx = indexFromResourceInfo (ur_resourceInfo request))"
proof (induction events arbitrary: A)
  case (Cons e events)
  from Cons.IH [of "index_write e A"] Cons.prems show ?case
    by (auto simp: index_write_def split: option.splits if_splits prod.splits)
qed simp

text \<open>What an engine may hold after a run of the listeners: what it held, or what one of the writes stored.\<close>

definition written_by :: "write_event list \<Rightarrow> string \<times> string \<Rightarrow> json \<Rightarrow> bool" where
  "written_by events k src \<longleftrightarrow>
     (\<exists>e \<in> set events. \<exists>request u. stored_by e = Some (request, u) \<and>
        k = (indexFromResourceInfo (ur_resourceInfo request), u) \<and> src = indexed_source request u)"

context search_engine
begin

lemma listen_sources:
  assumes "es_listen se e s = (Inr (), s')" "sources s' k = Some src"
  shows "sources s k = Some src \<or> written_by [e] k src"
proof (cases "stored_by e")
  case None
  show ?thesis
  proof (cases "removed_by e")
    case (Some iu)
    then obtain idx u r where "se_delete se idx u s = (r, s')"
      using assms(1) None by (cases iu) (auto simp: es_listen_cases log_failure_def intro: prod.collapse [symmetric])
    from delete_law [OF this] show ?thesis using assms(2) by (auto split: if_splits)
  qed (use assms None in \<open>simp add: es_listen_cases act_simps\<close>)
next
  case (Some qu)
  obtain request u where qu: "qu = (request, u)" by fastforce
  obtain r where "se_index se (indexFromResourceInfo (ur_resourceInfo request)) u (indexed_source request u) s = (r, s')"
    using assms(1) Some qu by (auto simp: es_listen_cases upsertToElasticsearch_def log_failure_def intro: prod.collapse [symmetric])
  from index_law [OF this] show ?thesis using assms(2) Some qu by (auto simp: written_by_def split: if_splits)
qed

lemma listen_all_sources:
  "es_listen_all se events s = (Inr (), s') \<Longrightarrow> sources s' k = Some src \<Longrightarrow>
   sources s k = Some src \<or> written_by events k src"
proof (induction events arbitrary: s)
  case (Cons e events)
  obtain t where t: "es_listen se e s = (Inr (), t)" using es_listen_run [of se e s] by blast
  then have "es_listen_all se events t = (Inr (), s')" using Cons.prems(1) by (simp add: act_simps)
  then have "sources t k = Some src \<or> written_by events k src" using Cons.IH Cons.prems(2) by blast
  then show ?case using listen_sources [OF t, of k src] by (auto simp: written_by_def)
qed (simp add: act_simps)

end

context reliable_engine
begin

lemma listen_refines:
  assumes "sources s = concrete_index A"
  shows "\<exists>s'. es_listen se e s = (Inr (), s') \<and> sources s' = concrete_index (index_write e A)"
proof (cases "stored_by e")
  case None
  show ?thesis
  proof (cases "removed_by e")
    case (Some k)
    obtain idx u where k: "k = (idx, u)" by fastforce
    obtain r s' where s': "se_delete se idx u s = (r, s')" by fastforce
    have "sources s' = (sources s)((idx, u) := None)"
    proof (cases "sources s (idx, u)")
      case None
      then have "(sources s)((idx, u) := None) = sources s" by (rule fun_upd_idem)
      then show ?thesis using delete_law [OF s'] by auto
    next
      case (Some src)
      then obtain s'' where "se_delete se idx u s = (Inr (), s'')" using delete_acknowledged by blast
      then show ?thesis using delete_law [OF s'] s' by simp
    qed
    then show ?thesis using s' None Some k assms
      by (simp add: es_listen_cases log_failure_def index_write_def concrete_index_upd)
  qed (use assms None in \<open>simp add: es_listen_cases index_write_def act_simps\<close>)
next
  case (Some qu)
  obtain request u where qu: "qu = (request, u)" by fastforce
  obtain s' where s': "se_index se (indexFromResourceInfo (ur_resourceInfo request)) u (indexed_source request u) s = (Inr (), s')"
    using index_acknowledged by blast
  have "sources s' = (sources s)((indexFromResourceInfo (ur_resourceInfo request), u) \<mapsto> indexed_source request u)"
    using index_law [OF s'] by simp
  then show ?thesis using s' Some qu assms
    by (simp add: es_listen_cases upsertToElasticsearch_def log_failure_def index_write_def concrete_index_upd)
qed

end

context reliable_engine
begin

lemma listen_all_refines:
  "sources s = concrete_index A \<Longrightarrow>
   \<exists>s'. es_listen_all se events s = (Inr (), s') \<and> sources s' = concrete_index (fold index_write events A)"
proof (induction events arbitrary: s A)
  case (Cons e events)
  obtain t where "es_listen se e s = (Inr (), t)" "sources t = concrete_index (index_write e A)"
    using listen_refines [OF Cons.prems] by blast
  then show ?case using Cons.IH [of t "index_write e A"] by (simp add: act_simps)
qed (simp add: act_simps)

end

section \<open>OpenSearch as Elasticsearch\<close>

text \<open>The operations with the envelope of a response taken off.\<close>

definition unwrapped :: "'s search_ops \<Rightarrow> 's search_ops" where
  "unwrapped se = se\<lparr>se_request := (\<lambda>verb path body s.
     case se_request se verb path body s of
       (Inl e, s') \<Rightarrow> (Inl e, s')
     | (Inr response, s') \<Rightarrow>
         ((case js_prop response ''body'' of
             Inl e \<Rightarrow> Inl (thrown_error e)
           | Inr None \<Rightarrow> Inl (thrown_error (TypeError ''Cannot read properties of undefined (reading hits)''))
           | Inr (Some content) \<Rightarrow> Inr content), s'))\<rparr>"

text \<open>The errors that the two backends tell apart.\<close>

definition told_by_body :: "search_error \<Rightarrow> bool" where
  "told_by_body e \<longleftrightarrow> err_name e = ''ResponseError'' \<and> err_message e = ''Response Error'' \<and> err_body e \<noteq> None"

lemma same_errors: "\<not> told_by_body e \<Longrightarrow> handleOpenSearchError p e = handleElasticSearchError e"
  by (auto simp: handleOpenSearchError_def handleElasticSearchError_def told_by_body_def Let_def connection_error_names_def)

lemma thrown_not_told [simp]: "\<not> told_by_body (thrown_error e)"
  by (simp add: told_by_body_def thrown_error_def)

lemma same_index: "os_indexFromResourceInfo = indexFromResourceInfo"
  by (rule ext) (simp add: os_indexFromResourceInfo_def indexFromResourceInfo_def)

lemma same_source: "os_indexed_source = indexed_source"
  by (intro ext) (simp add: os_indexed_source_def indexed_source_def indexed_info_def)

lemma os_listeners:
  "os_afterUpsertDocument se = es_afterUpsertDocument (unwrapped se)"
  "os_afterUpdateDocumentById se = es_afterUpdateDocumentById (unwrapped se)"
  "os_afterDeleteDocumentById se = es_afterDeleteDocumentById (unwrapped se)"
  by (intro ext, simp add: os_afterUpsertDocument_def es_afterUpsertDocument_def os_afterUpdateDocumentById_def
      es_afterUpdateDocumentById_def os_afterDeleteDocumentById_def es_afterDeleteDocumentById_def
      upsertToOpensearch_def upsertToElasticsearch_def same_index same_source unwrapped_def
      split: UpsertResult.split UpdateResult.split)+

lemma js_prop_opt_Some: "js_prop_opt (Some v) k = js_prop v k"
  by (simp add: js_prop_opt_def)

lemma unwrapped_fields:
  "se_toNumber (unwrapped se) = se_toNumber se" "se_debug (unwrapped se) = se_debug se"
  "se_json_parse (unwrapped se) = se_json_parse se" "se_config (unwrapped se) = se_config se"
  "se_newClient (unwrapped se) = se_newClient se" "se_index (unwrapped se) = se_index se"
  by (simp_all add: unwrapped_def)

lemma unwrapped_documents: "hit_documents (unwrapped se) = hit_documents se"
proof -
  have "hit_document (unwrapped se) = hit_document se" by (rule ext) (simp add: hit_document_def unwrapped_fields)
  then show ?thesis unfolding hit_documents_def by (simp only:)
qed

lemma unwrapped_result:
  "js_prop response ''body'' = Inr (Some content) \<Longrightarrow> os_query_result se response = es_query_result (unwrapped se) content"
  unfolding os_query_result_def es_query_result_def unwrapped_fields unwrapped_documents
  by (simp add: js_prop_opt_Some)

lemma os_query_error:
  "js_prop response ''body'' = Inl e \<Longrightarrow> os_query_result se response = Inl e"
  "js_prop response ''body'' = Inr None \<Longrightarrow>
   os_query_result se response = Inl (TypeError ''Cannot read properties of undefined (reading hits)'')"
  by (simp_all add: os_query_result_def js_prop_opt_def)

lemma os_query_is_es_query:
  assumes "\<And>verb path body e s'. se_request se verb path body s = (Inl e, s') \<Longrightarrow> \<not> told_by_body e"
  shows "os_queryDocuments se request s = es_queryDocuments (unwrapped se) request s"
proof -
  let ?idx = "indexFromResourceInfo (qy_resourceInfo request)" and ?q = "bool_query (query_matches request)"
  let ?limit = "js_get ''limit'' (qy_paginationParameters request)" and ?offset = "js_get ''offset'' (qy_paginationParameters request)"
  have matches: "os_query_matches request = query_matches request" by (simp add: os_query_matches_def query_matches_def)
  have dsl: "os_performDslQuery se = performDslQuery se" by (intro ext) (simp add: os_performDslQuery_def performDslQuery_def)
  have same: "handleOpenSearchError (se_json_parse se) (thrown_error e) = handleElasticSearchError (thrown_error e)" for e
    by (rule same_errors) simp
  obtain q s' where q: "se_request se ''POST'' (search_path ?idx) (search_body ?offset ?q ?limit) s = (q, s')" by fastforce
  show ?thesis
  proof (cases q)
    case (Inl e)
    then have "handleOpenSearchError (se_json_parse se) e = handleElasticSearchError e" using assms q same_errors by blast
    then show ?thesis using q Inl
      by (simp add: os_queryDocuments_def es_queryDocuments_def matches dsl performDslQuery_request same_index unwrapped_def)
  next
    case (Inr response)
    then have run: "os_queryDocuments se request s =
        (Inr (case os_query_result se response of Inl e \<Rightarrow> handleElasticSearchError (thrown_error e) | Inr answer \<Rightarrow> answer), s')"
      using q by (simp add: os_queryDocuments_def matches dsl performDslQuery_request same_index same split: sum.split)
    show ?thesis
    proof (cases "js_prop response ''body''")
      case (Inl e)
      then show ?thesis unfolding run using q \<open>q = Inr response\<close>
        by (simp add: es_queryDocuments_def performDslQuery_request unwrapped_def os_query_error)
    next
      case body: (Inr content)
      show ?thesis
      proof (cases content)
        case None
        then show ?thesis unfolding run using q \<open>q = Inr response\<close> body
          by (simp add: es_queryDocuments_def performDslQuery_request unwrapped_def os_query_error)
      next
        case (Some c)
        then have "os_query_result se response = es_query_result (unwrapped se) c" using body unwrapped_result by simp
        then show ?thesis unfolding run using q \<open>q = Inr response\<close> body Some
          by (simp add: es_queryDocuments_def performDslQuery_request) (simp add: unwrapped_def)
      qed
    qed
  qed
qed

text \<open>An OpenSearch engine in memory.\<close>

definition wrapped :: "'s search_ops \<Rightarrow> 's search_ops" where
  "wrapped se = se\<lparr>se_request := (\<lambda>verb path body s.
     case se_request se verb path body s of
       (Inl e, s') \<Rightarrow> (Inl e, s')
     | (Inr content, s') \<Rightarrow> (Inr (JObj [(''body'', content)]), s'))\<rparr>"

lemma unwrapped_wrapped: "unwrapped (wrapped se) = se"
  by (cases se) (simp add: unwrapped_def wrapped_def js_prop_def js_get_def fun_eq_iff split: prod.split sum.split)

interpretation memory_os: reliable_engine "unwrapped (wrapped (memory_engine json_parse toNumber config))" map_of field_matches
  unfolding unwrapped_wrapped by (rule memory.reliable_engine_axioms)

section \<open>Particular cases\<close>

text \<open>The body of a response error is an object when the engine answers with JSON.  Its text is \<open>[object Object]\<close>,
  which is no JSON, so that the types of errors are not seen.\<close>

lemma os_object_body_unknown:
  assumes "json_parse ''[object Object]'' = Inl e" "err_name err = ''ResponseError''" "err_message err = ''Response Error''"
    and "err_body err = Some (JObj kvs)"
  shows "handleOpenSearchError json_parse err = failed_query QueryResponse.UNKNOWN_FAILURE (Some (JStr ''Response Error''))"
  using assms by (simp add: handleOpenSearchError_def connection_error_names_def os_body_failure_def body_text_def)

text \<open>A property \<open>info\<close> of a document takes the place of the text from which the document is read back.\<close>

lemma info_property_wins:
  assumes "ur_edfiDoc q = JObj [(''info'', v)]"
  shows "js_prop (indexed_source q u) ''info'' = Inr (Some v)"
  using assms by (simp add: indexed_source_def spread_json_def js_prop_def js_get_def map_of_js_assign)

text \<open>Versions that differ in a dot and a dash share an index.\<close>

lemma index_collision:
  "indexFromResourceInfo (r\<lparr>ri_resourceVersion := ''3.1''\<rparr>) = indexFromResourceInfo (r\<lparr>ri_resourceVersion := ''3-1''\<rparr>)"
proof -
  have "dashed (js_toLowerCase ''3.1'') = ''3-1''" "dashed (js_toLowerCase ''3-1'') = ''3-1''" by code_simp+
  moreover have "dashed (js_toLowerCase (a @ b @ c)) = dashed (js_toLowerCase a) @ dashed (js_toLowerCase b) @ dashed (js_toLowerCase c)"
    for a b c by (simp add: dashed_def js_toLowerCase_def)
  ultimately show ?thesis by (simp add: indexFromResourceInfo_def dashed_def js_toLowerCase_def)
qed

end
