(* ===== verification/SearchComposition.thy ===== *)
theory SearchComposition
  imports SearchProperties
begin

text \<open>
  The service with a search backend: the request handlers over a document store, with the listeners of the search
  backend and its query handler, on a state that pairs the state of the store with that of the search client.
\<close>

section \<open>The composed state\<close>

definition on_left :: "('a, 'd) act \<Rightarrow> ('a, 'd \<times> 't) act" where
  "on_left m = (\<lambda>(d, t). case m d of (r, d') \<Rightarrow> (r, (d', t)))"

definition on_right :: "('a, 't) act \<Rightarrow> ('a, 'd \<times> 't) act" where
  "on_right m = (\<lambda>(d, t). case m t of (r, t') \<Rightarrow> (r, (d, t')))"

definition left_store :: "'d DocumentStorePlugin \<Rightarrow> ('d \<times> 't) DocumentStorePlugin" where
  "left_store plugin = \<lparr>
     dsp_upsertDocument = (\<lambda>request. on_left (dsp_upsertDocument plugin request)),
     dsp_getDocumentById = (\<lambda>request. on_left (dsp_getDocumentById plugin request)),
     dsp_updateDocumentById = (\<lambda>request. on_left (dsp_updateDocumentById plugin request)),
     dsp_deleteDocumentById = (\<lambda>request. on_left (dsp_deleteDocumentById plugin request)),
     dsp_securityMiddleware = (\<lambda>model. on_left (dsp_securityMiddleware plugin model)),
     dsp_closeConnection = on_left (dsp_closeConnection plugin)\<rparr>"

definition right_query :: "'t QueryHandlerPlugin \<Rightarrow> ('d \<times> 't) QueryHandlerPlugin" where
  "right_query plugin = \<lparr>
     qhp_queryDocuments = (\<lambda>request. on_right (qhp_queryDocuments plugin request)),
     qhp_closeConnection = on_right (qhp_closeConnection plugin)\<rparr>"

definition right_hooks :: "('a \<Rightarrow> (unit, 't) act) list \<Rightarrow> ('a \<Rightarrow> (unit, 'd \<times> 't) act) list" where
  "right_hooks = map (\<lambda>hook x. on_right (hook x))"

definition right_emitter :: "'t emitter \<Rightarrow> ('d \<times> 't) emitter" where
  "right_emitter em = \<lparr>
     on_beforeUpsertDocument = right_hooks (on_beforeUpsertDocument em),
     on_afterUpsertDocument = right_hooks (on_afterUpsertDocument em),
     on_beforeGetDocumentById = right_hooks (on_beforeGetDocumentById em),
     on_afterGetDocumentById = right_hooks (on_afterGetDocumentById em),
     on_beforeUpdateDocumentById = right_hooks (on_beforeUpdateDocumentById em),
     on_afterUpdateDocumentById = right_hooks (on_afterUpdateDocumentById em),
     on_beforeDeleteDocumentById = right_hooks (on_beforeDeleteDocumentById em),
     on_afterDeleteDocumentById = right_hooks (on_afterDeleteDocumentById em),
     on_beforeQueryDocuments = right_hooks (on_beforeQueryDocuments em),
     on_afterQueryDocuments = right_hooks (on_afterQueryDocuments em)\<rparr>"

text \<open>A backend with Elasticsearch as its query handler and its listener.\<close>

definition search_backed :: "'s search_ops \<Rightarrow> 'd backend \<Rightarrow> ('d \<times> 's search_state) backend" where
  "search_backed se bk = \<lparr>bk_store = left_store (bk_store bk),
     bk_queryHandler = right_query (es_initializeQueryHandler se),
     bk_emitter = right_emitter (es_initializeListener se emptyEmitter), bk_shake256 = bk_shake256 bk\<rparr>"

lemma on_left_run: "on_left m (d, t) = (fst (m d), (snd (m d), t))"
  by (simp add: on_left_def split: prod.split)

lemma on_right_run: "on_right m (d, t) = (fst (m t), (d, snd (m t)))"
  by (simp add: on_right_def split: prod.split)

text \<open>A store keeps its contract beside another state.\<close>

lemma left_store_contract:
  assumes "document_store plugin ok stored"
  shows "document_store (left_store plugin) (\<lambda>(d, t). ok d \<and> J t) (\<lambda>(d, t). stored d)"
proof (unfold_locales, unfold left_store_def DocumentStorePlugin.simps, goal_cases)
  case (1 s req m u s')
  then show ?case using document_store.upsert_insert [OF assms] by (cases s) (auto simp: on_left_def split: prod.splits)
next
  case (2 s req m u s')
  then show ?case using document_store.upsert_update [OF assms] by (cases s) (auto simp: on_left_def split: prod.splits)
next
  case (3 s req r s')
  then show ?case using document_store.upsert_failure [OF assms, of "fst s" req r "fst s'"]
    by (cases s) (auto simp: on_left_def split: prod.splits)
next
  case (4 s req m s')
  then show ?case using document_store.update_success [OF assms] by (cases s) (auto simp: on_left_def split: prod.splits)
next
  case (5 s req r s')
  then show ?case using document_store.update_failure [OF assms, of "fst s" req r "fst s'"]
    by (cases s) (auto simp: on_left_def split: prod.splits)
next
  case (6 s req s')
  then show ?case using document_store.delete_success [OF assms] by (cases s) (fastforce simp: on_left_def split: prod.splits)
next
  case (7 s req r s')
  then show ?case using document_store.delete_failure [OF assms, of "fst s" req r "fst s'"]
    by (cases s) (auto simp: on_left_def split: prod.splits)
next
  case (8 s req r s')
  then show ?case using document_store.get_frame [OF assms] by (cases s) (auto simp: on_left_def split: prod.splits)
next
  case (9 s req g s')
  then show ?case using document_store.get_success [OF assms] by (cases s) (auto simp: on_left_def split: prod.splits)
next
  case (10 s model r s')
  then show ?case using document_store.security_frame [OF assms, of "fst s" model r "fst s'"] by (cases s) (auto simp: on_left_def split: prod.splits)
qed

text \<open>A search backend has no access to the documents, whatever its listeners do.\<close>

lemma right_hooks_harmless: "harmless (\<lambda>w. ok (fst w)) (\<lambda>w. stored (fst w)) (right_hooks hooks)"
  by (auto simp: harmless_def right_hooks_def on_right_def split: prod.split)

lemma right_emitter_harmless: "harmless_emitter (\<lambda>w. ok (fst w)) (\<lambda>w. stored (fst w)) (right_emitter em)"
  by (simp add: harmless_emitter_def right_emitter_def right_hooks_harmless)

section \<open>The listeners behind the handlers\<close>

text \<open>With a client, a listener of the search backend ends without an error and leaves the store alone.\<close>

lemma es_with_client_connected: "es_with_client se m (Some c, s) = (fst (m s), (Some c, snd (m s)))"
  by (simp add: es_with_client_def es_getSharedClient_def on_search_def act_simps split: prod.split)

lemma no_listeners:
  "beforeUpsertDocument (right_emitter (es_initializeListener se emptyEmitter)) uq w = (Inr (), w)"
  "beforeUpdateDocumentById (right_emitter (es_initializeListener se emptyEmitter)) pq w = (Inr (), w)"
  "beforeDeleteDocumentById (right_emitter (es_initializeListener se emptyEmitter)) dq w = (Inr (), w)"
  "beforeQueryDocuments (right_emitter (es_initializeListener se emptyEmitter)) qq w = (Inr (), w)"
  "afterQueryDocuments (right_emitter (es_initializeListener se emptyEmitter)) qq qr w = (Inr (), w)"
  by (simp_all add: publish_defs right_emitter_def right_hooks_def es_initializeListener_def emptyEmitter_def act_simps
      subscribe_afterUpdateDocumentById_def subscribe_afterUpsertDocument_def subscribe_afterDeleteDocumentById_def)

lemma listeners:
  "afterUpsertDocument (right_emitter (es_initializeListener se emptyEmitter)) uq ur =
     on_right (es_with_client se (es_listen se (Upserted uq ur)))"
  "afterUpdateDocumentById (right_emitter (es_initializeListener se emptyEmitter)) pq pr =
     on_right (es_with_client se (es_listen se (Updated pq pr)))"
  "afterDeleteDocumentById (right_emitter (es_initializeListener se emptyEmitter)) dq dr =
     on_right (es_with_client se (es_listen se (Deleted dq dr)))"
  by (auto simp add: publish_defs right_emitter_def right_hooks_def es_initializeListener_def emptyEmitter_def act_simps
      subscribe_afterUpdateDocumentById_def subscribe_afterUpsertDocument_def subscribe_afterDeleteDocumentById_def
      fun_eq_iff split: prod.split sum.split)

lemma listener_connected:
  "on_right (es_with_client se (es_listen se e)) (d, (Some c, s)) = (Inr (), (d, (Some c, snd (es_listen se e s))))"
proof -
  obtain s' where "es_listen se e s = (Inr (), s')" using es_listen_run [of se e s] by blast
  then show ?thesis by (simp add: on_right_run es_with_client_connected)
qed

section \<open>Requests that write\<close>

datatype write_request = Post FrontendRequest | Put FrontendRequest | Remove FrontendRequest

fun answer_write :: "'s backend \<Rightarrow> write_request \<Rightarrow> (FrontendResponse, 's) act" where
  "answer_write bk (Post r) = Handlers.upsert bk r"
| "answer_write bk (Put r) = update bk r"
| "answer_write bk (Remove r) = deleteIt bk r"

text \<open>The events of a request, which are published when the store has answered.\<close>

definition delete_request :: "FrontendRequest \<Rightarrow> DocumentUuid \<Rightarrow> DeleteRequest" where
  "delete_request r u = \<lparr>del_documentUuid = u, del_resourceInfo = mw_resourceInfo (fr_middleware r),
     del_validateNoReferencesToDocument = mw_validateResources (fr_middleware r),
     del_security = securityOf (mw_security (fr_middleware r)), del_traceId = fr_traceId r\<rparr>"

definition answered :: "('a \<Rightarrow> write_event) \<Rightarrow> 'a res \<Rightarrow> write_event list" where
  "answered event q = (case q of Inl _ \<Rightarrow> [] | Inr result \<Rightarrow> [event result])"

definition identity_of :: "'s backend \<Rightarrow> FrontendRequest \<Rightarrow> MeadowlarkId res" where
  "identity_of bk r = meadowlarkIdForDocumentIdentity (bk_shake256 bk) (mw_resourceInfo (fr_middleware r))
     (di_documentIdentity (mw_documentInfo (fr_middleware r)))"

fun write_events :: "'s backend \<Rightarrow> write_request \<Rightarrow> 's \<Rightarrow> write_event list" where
  "write_events bk (Post r) d =
     (case identity_of bk r of
        Inl _ \<Rightarrow> []
      | Inr i \<Rightarrow> answered (Upserted (upsertRequestFrom r i)) (fst (dsp_upsertDocument (bk_store bk) (upsertRequestFrom r i) d)))"
| "write_events bk (Put r) d =
     (case pc_documentUuid (mw_pathComponents (fr_middleware r)) of
        None \<Rightarrow> []
      | Some u \<Rightarrow>
          if js_prop (mw_parsedBody (fr_middleware r)) ''id'' \<noteq> Inr (Some (JStr u)) then []
          else (case identity_of bk r of
                  Inl _ \<Rightarrow> []
                | Inr i \<Rightarrow> answered (Updated (updateRequestFrom r i u))
                    (fst (dsp_updateDocumentById (bk_store bk) (updateRequestFrom r i u) d))))"
| "write_events bk (Remove r) d =
     (case pc_documentUuid (mw_pathComponents (fr_middleware r)) of
        None \<Rightarrow> []
      | Some u \<Rightarrow> answered (Deleted (delete_request r u))
          (fst (dsp_deleteDocumentById (bk_store bk) (delete_request r u) d)))"

lemma search_backed_simps:
  "bk_store (search_backed se bk) = left_store (bk_store bk)" "bk_shake256 (search_backed se bk) = bk_shake256 bk"
  "bk_emitter (search_backed se bk) = right_emitter (es_initializeListener se emptyEmitter)"
  by (simp_all add: search_backed_def)

lemma left_store_simps:
  "dsp_upsertDocument (left_store p) uq = on_left (dsp_upsertDocument p uq)"
  "dsp_updateDocumentById (left_store p) pq = on_left (dsp_updateDocumentById p pq)"
  "dsp_deleteDocumentById (left_store p) dq = on_left (dsp_deleteDocumentById p dq)"
  by (simp_all add: left_store_def)

lemma no_hooks:
  "beforeUpsertDocument emptyEmitter uq = ret ()" "afterUpsertDocument emptyEmitter uq ur = ret ()"
  "beforeUpdateDocumentById emptyEmitter pq = ret ()" "afterUpdateDocumentById emptyEmitter pq pr = ret ()"
  "beforeDeleteDocumentById emptyEmitter dq = ret ()" "afterDeleteDocumentById emptyEmitter dq dr = ret ()"
  by (simp_all add: publish_defs emptyEmitter_def)

text \<open>What a handler does once its message is made: the store, the listeners, the response.\<close>

lemma listen_answered:
  "snd (es_listen_all se (answered event (Inr x)) s) = snd (es_listen se (event x) s)"
  "snd (es_listen_all se (answered event (Inl e)) s) = s"
proof -
  obtain s' where "es_listen se (event x) s = (Inr (), s')" using es_listen_run [of se "event x" s] by blast
  then show "snd (es_listen_all se (answered event (Inr x)) s) = snd (es_listen se (event x) s)"
    by (simp add: answered_def act_simps)
qed (simp add: answered_def act_simps)

lemma published:
  fixes m :: "('a, 'd) act"
  assumes "\<And>w. before w = (Inr (), w)" "\<And>x. after x = on_right (es_with_client se (es_listen se (event x)))"
  shows "try_catch (bnd before (\<lambda>_. bnd (on_left m) (\<lambda>x. bnd (after x) (\<lambda>_. lift (response x))))) (\<lambda>_. ret failure) (d, (Some c, s)) =
    (fst (try_catch (bnd m (\<lambda>x. lift (response x))) (\<lambda>_. ret failure) d),
     (snd (m d), (Some c, snd (es_listen_all se (answered event (fst (m d))) s))))"
proof (cases "m d")
  case (Pair q d')
  then show ?thesis
    by (cases q; cases "response (projr q)")
      (simp_all add: act_simps assms on_left_run listener_connected listen_answered)
qed

lemma answered_state: "snd (try_catch (bnd m (\<lambda>x. lift (response x))) (\<lambda>_. ret failure) d) = snd (m d)"
  by (simp add: act_simps split: prod.split sum.split)

lemma upsert_search_backed:
  assumes "bk_emitter bk = emptyEmitter"
  shows "Handlers.upsert (search_backed se bk) r (d, (Some c, s)) =
    (fst (Handlers.upsert bk r d),
     (snd (Handlers.upsert bk r d), (Some c, snd (es_listen_all se (write_events bk (Post r) d) s))))"
proof (cases "identity_of bk r")
  case (Inl e)
  then show ?thesis
    by (simp add: upsert_def identity_of_def search_backed_simps act_simps)
next
  case (Inr i)
  then have i: "meadowlarkIdForDocumentIdentity (bk_shake256 bk) (mw_resourceInfo (fr_middleware r))
     (di_documentIdentity (mw_documentInfo (fr_middleware r))) = Inr i" by (simp add: identity_of_def)
  have plain: "Handlers.upsert bk r =
     try_catch (bnd (dsp_upsertDocument (bk_store bk) (upsertRequestFrom r i)) (\<lambda>x. lift (upsertResponse r x))) (\<lambda>_. ret (status_only 500))"
    by (simp add: upsert_def i assms no_hooks Let_def)
  show ?thesis unfolding plain answered_state
    by (simp add: upsert_def search_backed_simps i Inr left_store_simps Let_def)
      (rule published [where event = "Upserted (upsertRequestFrom r i)" and before = "beforeUpsertDocument _ _",
        unfolded answered_state], simp_all add: no_listeners listeners)
qed

lemma update_search_backed:
  assumes "bk_emitter bk = emptyEmitter"
  shows "update (search_backed se bk) r (d, (Some c, s)) =
    (fst (update bk r d), (snd (update bk r d), (Some c, snd (es_listen_all se (write_events bk (Put r) d) s))))"
proof (cases "pc_documentUuid (mw_pathComponents (fr_middleware r))")
  case None
  then show ?thesis by (simp add: update_def Let_def act_simps)
next
  case (Some u)
  show ?thesis
  proof (cases "js_prop (mw_parsedBody (fr_middleware r)) ''id''")
    case (Inl e)
    then show ?thesis using Some by (simp add: update_def Let_def act_simps)
  next
    case (Inr body_id)
    show ?thesis
    proof (cases "body_id = Some (JStr u)")
      case False
      then show ?thesis using Some Inr by (simp add: update_def Let_def act_simps)
    next
      case True
      show ?thesis
      proof (cases "identity_of bk r")
        case (Inl e)
        then show ?thesis using Some \<open>js_prop _ _ = _\<close> True
          by (simp add: update_def Let_def identity_of_def search_backed_simps act_simps)
      next
        case i: (Inr i)
        then have m: "meadowlarkIdForDocumentIdentity (bk_shake256 bk) (mw_resourceInfo (fr_middleware r))
           (di_documentIdentity (mw_documentInfo (fr_middleware r))) = Inr i" by (simp add: identity_of_def)
        have plain: "update bk r =
           try_catch (bnd (dsp_updateDocumentById (bk_store bk) (updateRequestFrom r i u)) (\<lambda>x. lift (updateResponse r x)))
             (\<lambda>_. ret (status_only 500))"
          using Some Inr True by (simp add: update_def m assms no_hooks Let_def)
        show ?thesis unfolding plain answered_state using Some Inr True
          by (simp add: update_def search_backed_simps m i left_store_simps Let_def)
            (rule published [where event = "Updated (updateRequestFrom r i u)" and before = "beforeUpdateDocumentById _ _",
              unfolded answered_state], simp_all add: no_listeners listeners)
      qed
    qed
  qed
qed

lemma delete_search_backed:
  assumes "bk_emitter bk = emptyEmitter"
  shows "deleteIt (search_backed se bk) r (d, (Some c, s)) =
    (fst (deleteIt bk r d), (snd (deleteIt bk r d), (Some c, snd (es_listen_all se (write_events bk (Remove r) d) s))))"
proof (cases "pc_documentUuid (mw_pathComponents (fr_middleware r))")
  case None
  then show ?thesis by (simp add: deleteIt_def Let_def act_simps)
next
  case (Some u)
  have plain: "deleteIt bk r =
     try_catch (bnd (dsp_deleteDocumentById (bk_store bk) (delete_request r u)) (\<lambda>x. lift (deleteResponse r x))) (\<lambda>_. ret (status_only 500))"
    using Some by (simp add: deleteIt_def delete_request_def assms no_hooks Let_def)
  show ?thesis unfolding plain answered_state using Some
    by (simp add: deleteIt_def delete_request_def [symmetric] search_backed_simps left_store_simps Let_def)
      (rule published [where event = "Deleted (delete_request r u)" and before = "beforeDeleteDocumentById _ _",
        unfolded answered_state], simp_all add: no_listeners listeners)
qed

lemma write_search_backed:
  assumes "bk_emitter bk = emptyEmitter"
  shows "answer_write (search_backed se bk) q (d, (Some c, s)) =
    (fst (answer_write bk q d), (snd (answer_write bk q d), (Some c, snd (es_listen_all se (write_events bk q d) s))))"
  by (cases q) (simp_all add: upsert_search_backed [OF assms] update_search_backed [OF assms] delete_search_backed [OF assms])

lemma answer_write_answers: "\<exists>resp d'. answer_write bk q d = (Inr resp, d')"
  by (cases q) (auto simp: upsert_def update_def deleteIt_def Let_def act_simps split: prod.split sum.split)

fun all_events :: "'s backend \<Rightarrow> write_request list \<Rightarrow> 's \<Rightarrow> write_event list" where
  "all_events bk [] d = []"
| "all_events bk (q # qs) d = write_events bk q d @ all_events bk qs (snd (answer_write bk q d))"

lemma es_listen_append:
  "snd (es_listen_all se (es @ fs) s) = snd (es_listen_all se fs (snd (es_listen_all se es s)))"
proof (induction es arbitrary: s)
  case (Cons e es)
  obtain t where "es_listen se e s = (Inr (), t)" using es_listen_run [of se e s] by blast
  then show ?case using Cons by (simp add: act_simps)
qed (simp add: act_simps)

text \<open>A run of requests: the answers and the store are those of the service without the listeners, and the index is
  what the listeners make of the events.\<close>

lemma writes_search_backed:
  assumes "bk_emitter bk = emptyEmitter"
  shows "mapM (answer_write (search_backed se bk)) qs (d, (Some c, s)) =
    (fst (mapM (answer_write bk) qs d), (snd (mapM (answer_write bk) qs d), (Some c, snd (es_listen_all se (all_events bk qs d) s))))"
proof (induction qs arbitrary: d s)
  case (Cons q qs)
  obtain resp d' where q: "answer_write bk q d = (Inr resp, d')" using answer_write_answers [of bk q d] by blast
  let ?s = "snd (es_listen_all se (write_events bk q d) s)"
  note IH = Cons [of d' ?s]
  show ?case
    by (cases "fst (mapM (answer_write bk) qs d')"; cases "mapM (answer_write bk) qs d'")
      (simp_all add: act_simps write_search_backed [OF assms] q IH es_listen_append)
qed (simp add: act_simps)

section \<open>What is read back\<close>

lemma list_all2_left: "list_all2 P xs ys \<Longrightarrow> x \<in> set xs \<Longrightarrow> \<exists>y \<in> set ys. P x y"
  by (induction xs ys rule: list_all2_induct) auto

lemma map_of_js_assign_other: "k \<notin> fst ` set src \<Longrightarrow> map_of (js_assign t src) k = map_of t k"
proof (induction src arbitrary: t)
  case (Cons kv src)
  then show ?case by (cases kv) (auto simp: js_assign_def update_conv')
qed simp

text \<open>The owner in the index is the client of the write, whatever the document says.\<close>

lemma indexed_owner: "js_prop (indexed_source q u) ''createdBy'' = Inr (Some (JStr (sec_clientId (ur_security q))))"
  by (simp add: indexed_source_def js_prop_def js_get_def map_of_js_assign)

text \<open>A document that can be read back: it has no property \<open>info\<close>, and its text is parsed to what it was.\<close>

definition readable :: "'s search_ops \<Rightarrow> UpsertRequest \<times> DocumentUuid \<Rightarrow> bool" where
  "readable se = (\<lambda>(q, u). ''info'' \<notin> fst ` set (spread_json (ur_edfiDoc q)) \<and>
     se_json_parse se (json_stringify (indexed_info u (ur_edfiDoc q))) = Inr (indexed_info u (ur_edfiDoc q)))"

lemma indexed_document:
  assumes "readable se (q, u)"
  shows "source_document se (indexed_source q u) = Inr (indexed_info u (ur_edfiDoc q))"
proof -
  have "js_prop (indexed_source q u) ''info'' = Inr (Some (JStr (json_stringify (indexed_info u (ur_edfiDoc q)))))"
    using assms by (simp add: readable_def indexed_source_def js_prop_def js_get_def map_of_js_assign_other)
  then show ?thesis using assms by (simp add: source_document_def readable_def js_opt_to_string_def)
qed

lemma finite_index: "finite (dom A) \<Longrightarrow> finite (dom (fold index_write events A))"
proof (induction events arbitrary: A)
  case (Cons e events)
  have "finite (dom (index_write e A))" using Cons.prems by (auto simp: index_write_def split: option.splits)
  then show ?case using Cons.IH by simp
qed simp

lemma indexed_matches:
  "matching_ids m (concrete_index A) idx clauses =
   fst ` {(u, q). A (idx, u) = Some q \<and> (\<forall>c \<in> set clauses. m c (indexed_source q u))}"
  by (force simp: matching_ids_def concrete_index_def)

lemma indexed_matches_finite:
  assumes "finite (dom A)"
  shows "finite {(u, q). A (idx, u) = Some q \<and> P u q}"
proof -
  have "{(u, q). A (idx, u) = Some q \<and> P u q} \<subseteq> (\<lambda>k. (snd k, the (A k))) ` dom A" by force
  then show ?thesis using assms finite_subset by blast
qed

section \<open>Properties\<close>



text \<open>What a page holds: a successful query gives at most as many documents as the limit of the request, or 10 without
  one, and as the count it reports.\<close>

theorem search_page_bounds:
  assumes "search_engine se sources matches" "es_queryDocuments se request s = (Inr result, s')"
    and "qr_response result = QUERY_SUCCESS"
  shows "length (qr_documents result) \<le> window 10 (js_get ''limit'' (qy_paginationParameters request)) \<and>
    (\<exists>n. qr_totalCount result = Some (JNum (nat_to_string n)) \<and> length (qr_documents result) \<le> n)"
proof -
  obtain ids where "query_outcome se matches (sources s) request result ids"
    using search_engine.query_run [OF assms(1,2)] assms(3) by auto
  then show ?thesis by (auto simp: query_outcome_def Let_def dest!: list_all2_lengthD)
qed

text \<open>C31: The OpenSearch backend does to its engine what the Elasticsearch backend does: its listeners make the same calls,
  and a query gives the answer of the Elasticsearch backend over the bodies of the responses, unless the engine answers
  with a response error without a type, which only OpenSearch looks into.\<close>

theorem opensearch_answers_as_elasticsearch:
  assumes "\<forall>verb path body e s'. se_request se verb path body s = (Inl e, s') \<longrightarrow> \<not> told_by_body e"
  shows "os_queryDocuments se request s = es_queryDocuments (unwrapped se) request s \<and>
    os_afterUpsertDocument se = es_afterUpsertDocument (unwrapped se) \<and>
    os_afterUpdateDocumentById se = es_afterUpdateDocumentById (unwrapped se) \<and>
    os_afterDeleteDocumentById se = es_afterDeleteDocumentById (unwrapped se)"
  using os_query_is_es_query [of se s request] assms os_listeners by blast

section \<open>Queries of the service\<close>

definition query_request :: "FrontendRequest \<Rightarrow> QueryRequest" where
  "query_request r = \<lparr>qy_resourceInfo = mw_resourceInfo (fr_middleware r),
     qy_queryParameters = removeDisallowedQueryParameters (fr_queryParameters r),
     qy_paginationParameters = onlyPaginationParameters (fr_queryParameters r),
     qy_traceId = fr_traceId r, qy_security = securityOf (mw_security (fr_middleware r))\<rparr>"

lemma right_query_documents:
  "qhp_queryDocuments (bk_queryHandler (search_backed se bk)) request = on_right (es_with_client se (es_queryDocuments se request))"
  by (simp add: search_backed_def right_query_def es_initializeQueryHandler_def)

lemma es_query_answers: "\<exists>result s'. es_queryDocuments se request s = (Inr result, s')"
  by (auto simp: es_queryDocuments_def split: prod.split sum.split)

lemma query_search_backed:
  assumes "es_queryDocuments se (query_request r) s = (Inr result, s')"
  shows "Handlers.query (search_backed se bk) r (d, (Some c, s)) = (Inr (queryResponse r result), (d, (Some c, s')))"
  using assms unfolding query_request_def
  by (simp add: Handlers.query_def Let_def act_simps search_backed_simps no_listeners right_query_documents
      on_right_run es_with_client_connected)

text \<open>C32: What a client sees when the engine fails: 502 when it cannot be reached, 200 with no documents when there is no
  index for the resource, and 500 without a body otherwise.  The handler always answers.\<close>

theorem search_failure_status:
  assumes "\<forall>path body. se_request se ''POST'' path body s = (Inl e, s')"
  shows "\<exists>resp. Handlers.query (search_backed se bk) r (d, (Some c, s)) = (Inr resp, (d, (Some c, s'))) \<and>
    (if err_name e \<in> {''ConfigurationError'', ''ConnectionError'', ''RequestAbortedError'', ''TimeoutError''}
     then resp_statusCode resp = 502 \<and> resp_body resp = None
     else if err_name e = ''ResponseError'' \<and> js_includes (err_message e) ''index_not_found_exception''
     then resp_statusCode resp = 200 \<and> resp_body resp = Some (JArr [])
     else resp_statusCode resp = 500 \<and> resp_body resp = None)"
proof -
  have run: "es_queryDocuments se (query_request r) s = (Inr (handleElasticSearchError e), s')"
    using assms by (simp add: es_queryDocuments_def performDslQuery_request)
  have plain: "js_includes ''Response Error'' ''index_not_found_exception'' = False" by code_simp
  show ?thesis unfolding query_search_backed [OF run]
    by (intro exI conjI, rule refl)
      (auto simp: queryResponse_def handleElasticSearchError_def connection_error_names_def respond_def Let_def plain)
qed

end
