(* ===== verification/SearchService.thy ===== *)
theory SearchService
  imports SearchComposition MongoProperties
begin

text \<open>
  The properties of the service with a search backend, over any document store, with a MongoDB plugin over the
  collection in memory and the engine in memory as the example.
\<close>

section \<open>Examples\<close>

text \<open>The example document of \<open>example_request\<close> under the first uuid, and a parser that knows its text.\<close>

definition indexed_example :: "string \<Rightarrow> json" where
  "indexed_example k = indexed_info (numbered_uuid 0) (JObj [(''k'', JStr k)])"

definition example_parser :: "string \<Rightarrow> json res" where
  "example_parser text =
     (if text = json_stringify (indexed_example ''a'') then Inr (indexed_example ''a'')
      else Inl (mk_error ''SyntaxError'' ''Unexpected token''))"

definition example_search :: "memory_index search_ops" where
  "example_search = memory_engine example_parser (\<lambda>_. ''NaN'')
     [(''ELASTICSEARCH_ENDPOINT'', CString ''http://localhost:9200''), (''ELASTICSEARCH_USERNAME'', CString ''x''),
      (''ELASTICSEARCH_PASSWORD'', CString ''y''), (''ELASTICSEARCH_REQUEST_TIMEOUT'', CNumber ''30000'')]"

definition example_event :: write_event where
  "example_event = Upserted (example_upsert ''a'' [] 1) (INSERT_SUCCESS None (numbered_uuid 0))"

definition example_query :: "AuthorizationStrategy \<Rightarrow> QueryRequest" where
  "example_query strategy = \<lparr>qy_resourceInfo = ur_resourceInfo (example_upsert ''a'' [] 1), qy_queryParameters = [],
     qy_paginationParameters = [(''limit'', JStr ''5'')], qy_traceId = '''',
     qy_security = \<lparr>sec_authorizationStrategy = strategy, sec_clientId = ''UNKNOWN''\<rparr>\<rparr>"

definition example_index :: memory_index where
  "example_index = snd (es_listen_all example_search [example_event] [])"

lemma example_engine: "reliable_engine example_search map_of field_matches"
  unfolding example_search_def by (rule memory.reliable_engine_axioms)

lemma example_readable: "readable example_search (example_upsert ''a'' [] 1, numbered_uuid 0)"
  by (simp add: readable_def example_search_def memory_engine_def example_parser_def indexed_example_def example_upsert_def
      spread_json_def)

lemma exact_owner:
  "field_matches (JObj [(''match'', JObj [(''createdBy'', JStr c)])]) src \<Longrightarrow> js_prop src ''createdBy'' = Inr (Some (JStr c))"
  by (cases src) (simp_all add: js_prop_def)

lemma example_index_run: "es_listen_all example_search [example_event] [] = (Inr (), example_index)"
  using es_listen_all_run [of example_search "[example_event]" "[]"] by (auto simp: example_index_def)


text \<open>A document with a property \<open>info\<close> of its own is still returned to its client alone, and is what that text says.\<close>

definition info_event :: write_event where
  "info_event = Upserted ((example_upsert ''a'' [] 1)\<lparr>ur_edfiDoc := JObj [(''info'', JStr (json_stringify (indexed_example ''a'')))]\<rparr>)
     (INSERT_SUCCESS None (numbered_uuid 0))"

lemma info_document_returned:
  "case es_queryDocuments example_search (example_query OWNERSHIP_BASED) (snd (es_listen_all example_search [info_event] [])) of
     (Inr result, s) \<Rightarrow> qr_documents result = [indexed_example ''a''] | _ \<Rightarrow> False"
  by code_simp


theorem search_page_bounds_witness:
  "\<exists>result. es_queryDocuments example_search (example_query FULL_ACCESS) example_index = (Inr result, example_index) \<and>
     qr_response result = QUERY_SUCCESS \<and> length (qr_documents result) \<le> 5"
proof -
  let ?run = "es_queryDocuments example_search (example_query FULL_ACCESS) example_index"
  have "case ?run of (Inl e, s) \<Rightarrow> False | (Inr result, s) \<Rightarrow> s = example_index \<and> qr_response result = QUERY_SUCCESS"
    by code_simp
  then obtain result where run: "?run = (Inr result, example_index)" "qr_response result = QUERY_SUCCESS"
    by (auto split: prod.splits sum.splits)
  have engine: "search_engine example_search map_of field_matches" using example_engine by (simp add: reliable_engine_def)
  have "window 10 (js_get ''limit'' (qy_paginationParameters (example_query FULL_ACCESS))) = 5" by code_simp
  then show ?thesis using search_page_bounds [OF engine run] run by simp
qed

lemma memory_errors: "memory_search verb path body s = (Inl e, s') \<Longrightarrow> \<not> told_by_body e"
  by (auto simp: memory_search_def told_by_body_def Let_def split: if_splits)

theorem opensearch_answers_as_elasticsearch_witness:
  "os_queryDocuments (wrapped example_search) (example_query FULL_ACCESS) example_index =
   es_queryDocuments example_search (example_query FULL_ACCESS) example_index"
proof -
  have "\<forall>verb path body e s'. se_request (wrapped example_search) verb path body example_index = (Inl e, s') \<longrightarrow> \<not> told_by_body e"
    by (auto simp: wrapped_def example_search_def memory_engine_def dest: memory_errors split: prod.splits sum.splits)
  from opensearch_answers_as_elasticsearch [OF this, of "example_query FULL_ACCESS"] show ?thesis
    by (simp add: unwrapped_wrapped)
qed

section \<open>The example service\<close>

definition example_store_backend :: "mem client_state backend" where
  "example_store_backend = \<lparr>bk_store = initializeDocumentStore example_mongo, bk_queryHandler = NoQueryHandlerPlugin,
     bk_emitter = emptyEmitter, bk_shake256 = prefix_digest\<rparr>"

text \<open>An engine that does not answer.\<close>

definition unreachable :: "memory_index search_ops" where
  "unreachable = example_search\<lparr>se_request := (\<lambda>_ _ _ s.
     (Inl \<lparr>err_name = ''ConnectionError'', err_message = ''connect ECONNREFUSED'', err_codeName = None, err_body = None\<rparr>, s)),
     se_config := []\<rparr>"

definition example_options :: search_options where
  "example_options = \<lparr>so_node = CString ''http://localhost:9200'', so_username = CString ''x'', so_password = CString ''y'',
     so_requestTimeout = CNumber ''30000''\<rparr>"

theorem search_failure_status_witness:
  "\<exists>resp. Handlers.query (search_backed unreachable example_store_backend) newFrontendRequest
      ((False, mem_start), (Some example_options, [])) = (Inr resp, ((False, mem_start), (Some example_options, []))) \<and>
     resp_statusCode resp = 502"
proof -
  have "\<forall>path body. se_request unreachable ''POST'' path body [] =
    (Inl \<lparr>err_name = ''ConnectionError'', err_message = ''connect ECONNREFUSED'', err_codeName = None, err_body = None\<rparr>, [])"
    by (simp add: unreachable_def)
  from search_failure_status [OF this, of example_store_backend newFrontendRequest "(False, mem_start)" example_options]
  show ?thesis by auto
qed

section \<open>Writes through the service\<close>


text \<open>C33: A client that cannot be made turns a stored document into an error: the first request after the start is
  answered with 500 although the store has inserted the document, because the listener runs after the store and before
  the response.\<close>

theorem stored_but_answered_500:
  assumes "identity_of bk r = Inr i"
    and "dsp_upsertDocument (bk_store bk) (upsertRequestFrom r i) d = (Inr (INSERT_SUCCESS m u), d')"
    and "es_getNewClient se s = (Inl e, s')"
  shows "Handlers.upsert (search_backed se bk) r (d, (None, s)) = (Inr (status_only 500), (d', (None, s')))"
  using assms unfolding identity_of_def
  by (simp add: upsert_def search_backed_simps left_store_simps Let_def act_simps no_listeners listeners on_left_run
      on_right_run es_with_client_def es_getSharedClient_def)

text \<open>A document that is deleted through the path of another resource stays in the index: the store finds it by
  its uuid alone, the listener looks in the index of the resource of the path.\<close>

theorem deleted_elsewhere_stays_indexed:
  assumes "document_store (bk_store bk) ok stored" "ok d" "bk_emitter bk = emptyEmitter" "search_engine se sources hit"
    and "pc_documentUuid (mw_pathComponents (fr_middleware r)) = Some u"
    and "sources s (idx, u) = Some src" "idx \<noteq> indexFromResourceInfo (mw_resourceInfo (fr_middleware r))"
    and "dsp_deleteDocumentById (bk_store bk) (delete_request r u) d = (Inr DELETE_SUCCESS, d')"
  shows "\<exists>resp s'. deleteIt (search_backed se bk) r (d, (Some c, s)) = (Inr resp, (d', (Some c, s'))) \<and>
    resp_statusCode resp = 204 \<and> (\<forall>document. (u, document) \<notin> stored d') \<and> sources s' (idx, u) = Some src"
proof -
  have gone: "(u, document) \<notin> stored d'" for document
    using document_store.delete_success [OF assms(1,2,8)] by (simp add: delete_request_def)
  have events: "write_events bk (Remove r) d = [Deleted (delete_request r u) DELETE_SUCCESS]"
    using assms(5,8) by (simp add: answered_def)
  obtain q s' where q: "se_delete se (indexFromResourceInfo (mw_resourceInfo (fr_middleware r))) u s = (q, s')" by fastforce
  have run: "snd (es_listen_all se (write_events bk (Remove r) d) s) = s'"
    unfolding events using q by (simp add: act_simps es_afterDeleteDocumentById_def log_failure_def delete_request_def)
  have "sources s' (idx, u) = Some src" using search_engine.delete_law [OF assms(4) q] assms(6,7) by auto
  moreover have "\<exists>resp. deleteIt bk r d = (Inr resp, d') \<and> resp_statusCode resp = 204"
    using assms(3,5,8) by (simp add: deleteIt_def delete_request_def no_hooks act_simps Let_def deleteResponse_def respond_def)
  ultimately show ?thesis unfolding delete_search_backed [OF assms(3)] run using gone by auto
qed

section \<open>Runs of the example service\<close>

text \<open>The request whose message is \<open>example_upsert\<close>.\<close>

definition search_post :: FrontendRequest where
  "search_post = newFrontendRequest\<lparr>fr_middleware := newFrontendRequestMiddleware\<lparr>
     mw_security := Some newSecurity, mw_resourceInfo := ur_resourceInfo (example_upsert ''a'' [] 1),
     mw_documentInfo := ur_documentInfo (example_upsert ''a'' [] 1), mw_parsedBody := JObj [(''k'', JStr ''a'')]\<rparr>\<rparr>"

definition search_stored :: "mem client_state" where
  "search_stored = snd (Handlers.upsert example_store_backend search_post (False, mem_start))"


theorem stored_but_answered_500_witness:
  "\<exists>d'. Handlers.upsert (search_backed unreachable example_store_backend) search_post ((False, mem_start), (None, [])) =
      (Inr (status_only 500), (d', (None, []))) \<and> length (contents (mem_docs (snd d'))) = 1"
proof -
  let ?i = "identity_of example_store_backend search_post"
  let ?run = "\<lambda>i. dsp_upsertDocument (bk_store example_store_backend) (upsertRequestFrom search_post i) (False, mem_start)"
  have "case ?i of Inl e \<Rightarrow> False | Inr i \<Rightarrow> fst (?run i) = Inr (INSERT_SUCCESS None (numbered_uuid 0)) \<and>
      length (contents (mem_docs (snd (snd (?run i))))) = 1" by code_simp
  then obtain i where i: "?i = Inr i" "fst (?run i) = Inr (INSERT_SUCCESS None (numbered_uuid 0))"
      "length (contents (mem_docs (snd (snd (?run i))))) = 1" by (auto split: sum.splits)
  obtain d' where run: "?run i = (Inr (INSERT_SUCCESS None (numbered_uuid 0)), d')" using i(2) by (cases "?run i") simp
  have one: "length (contents (mem_docs (snd d'))) = 1" using i(3) unfolding run by simp
  have "\<exists>e. es_getNewClient unreachable [] = (Inl e, [])"
    by (simp add: es_getNewClient_def unreachable_def config_get_def act_simps)
  then obtain e where client: "es_getNewClient unreachable [] = (Inl e, [])" by blast
  show ?thesis using stored_but_answered_500 [OF i(1) run client] one by blast
qed

theorem deleted_elsewhere_stays_indexed_witness:
  "\<exists>resp d' s'. deleteIt (search_backed example_search example_store_backend)
       (example_request deleteById (Some (numbered_uuid 0)) ''c'') (search_stored, (Some example_options, example_index)) =
     (Inr resp, (d', (Some example_options, s'))) \<and> resp_statusCode resp = 204 \<and>
     (\<forall>document. (numbered_uuid 0, document) \<notin> mongo_stored mem_map d') \<and>
     map_of s' (indexFromResourceInfo (ur_resourceInfo (example_upsert ''a'' [] 1)), numbered_uuid 0) =
       Some (indexed_source (example_upsert ''a'' [] 1) (numbered_uuid 0))"
proof -
  let ?r = "example_request deleteById (Some (numbered_uuid 0)) ''c''"
  have engine: "search_engine example_search map_of field_matches" using example_engine by (simp add: reliable_engine_def)
  have store: "document_store (bk_store example_store_backend) (mongo_ok mem_map mem_snap_map) (mongo_stored mem_map)"
    unfolding example_store_backend_def backend.simps by (rule mongo_store.store_contract [OF example_store])
  have none: "mem_snap_map (snd search_stored) = None" unfolding mem_snap_map_def map_option_is_None by code_simp
  have unique: "unique_uuids (mem_map (snd search_stored))" by (rule example_unique_uuids) code_simp
  have ok: "mongo_ok mem_map mem_snap_map search_stored" using none unique by (simp add: mongo_ok_def)
  have indexed: "map_of example_index (indexFromResourceInfo (ur_resourceInfo (example_upsert ''a'' [] 1)), numbered_uuid 0) =
       Some (indexed_source (example_upsert ''a'' [] 1) (numbered_uuid 0))"
    by (simp add: example_index_def example_event_def es_afterUpsertDocument_def upsertToElasticsearch_def log_failure_def
        example_search_def memory_engine_def act_simps)
  have elsewhere: "indexFromResourceInfo (ur_resourceInfo (example_upsert ''a'' [] 1)) \<noteq>
     indexFromResourceInfo (mw_resourceInfo (fr_middleware ?r))" by code_simp
  have "case dsp_deleteDocumentById (bk_store example_store_backend) (delete_request ?r (numbered_uuid 0)) search_stored of
      (Inr DELETE_SUCCESS, d') \<Rightarrow> True | _ \<Rightarrow> False" by code_simp
  then obtain d' where deleted: "dsp_deleteDocumentById (bk_store example_store_backend) (delete_request ?r (numbered_uuid 0)) search_stored =
      (Inr DELETE_SUCCESS, d')" by (auto split: sum.splits prod.splits DeleteResult.splits)
  have path: "pc_documentUuid (mw_pathComponents (fr_middleware ?r)) = Some (numbered_uuid 0)"
    by (simp add: example_request_def)
  have bk: "bk_emitter example_store_backend = emptyEmitter" by (simp add: example_store_backend_def)
  show ?thesis
    using deleted_elsewhere_stays_indexed [OF store ok bk engine path indexed elsewhere deleted] by blast
qed

end
