(* ===== verification/Logging.thy ===== *)
theory Logging
  imports Configuration
begin

text \<open>
  The logger of \<open>meadowlark-utilities/src/Logger.ts\<close>: what initialization reads from the
  configuration, and what is written for a message: connection strings lose their credentials.  The
  module state is the flag \<open>isInitialized\<close>; pino is a parameter.
\<close>

section \<open>Initialization\<close>

datatype log_target = PinoPretty (lt_destination: "string option") | PinoFile (lt_destination: "string option")

record pino_options =
  po_level :: string
  po_targets :: "log_target list"

definition config_truthy :: "ConfigValue \<Rightarrow> bool" where
  "config_truthy v = (case v of CString s \<Rightarrow> s \<noteq> '''' | CBool b \<Rightarrow> b | CNumber n \<Rightarrow> n \<noteq> ''0'' \<and> n \<noteq> ''NaN'' | CBuffer _ \<Rightarrow> True)"

definition config_text :: "ConfigValue \<Rightarrow> string" where
  "config_text v = (case v of CString s \<Rightarrow> s | CBool b \<Rightarrow> if b then ''true'' else ''false'' | CNumber n \<Rightarrow> n | CBuffer b \<Rightarrow> b)"

definition log_file :: "(string \<times> ConfigValue) list \<Rightarrow> string res" where
  "log_file config = res_bind (config_get config ''LOG_FILE_LOCATION'') (\<lambda>v. Inr (config_text v @ ''/meadowlark.log''))"

definition log_targets :: "(string \<times> ConfigValue) list \<Rightarrow> log_target list res" where
  "log_targets config =
     res_bind (config_get config ''LOG_TO_FILE'') (\<lambda>toFile.
     res_bind (config_get config ''LOG_PRETTY_PRINT'') (\<lambda>pretty.
     if config_truthy toFile
     then res_bind (log_file config) (\<lambda>file.
            Inr [if config_truthy pretty then PinoPretty (Some file) else PinoFile (Some file)])
     else Inr [if config_truthy pretty then PinoPretty None else PinoFile None]))"

definition log_level :: "(string \<times> ConfigValue) list \<Rightarrow> string res" where
  "log_level config =
     res_bind (config_get config ''LOG_LEVEL'') (\<lambda>v.
       case v of CString s \<Rightarrow> Inr (js_toLowerCase s) | _ \<Rightarrow> Inl (TypeError ''toLocaleLowerCase is not a function''))"

text \<open>The flag is set before the configuration is read: an initialization that fails is not repeated.\<close>

definition initializeLogging ::
  "(string \<times> ConfigValue) list \<Rightarrow> (pino_options \<Rightarrow> unit res) \<Rightarrow> (unit, bool) act" where
  "initializeLogging config pino = (\<lambda>isInitialized.
     if isInitialized then (Inr (), True)
     else (res_bind (log_targets config) (\<lambda>targets.
           res_bind (log_level config) (\<lambda>level.
           pino \<lparr>po_level = level, po_targets = targets\<rparr>)), True))"

section \<open>Redaction\<close>

text \<open>The character class of the pattern that finds credentials in a connection string.\<close>

definition credential_char :: "char \<Rightarrow> bool" where
  "credential_char c \<longleftrightarrow> c \<in> set ''ABCDEFGHIJKLMNOPQRSTUVWXYZabcdefghijklmnopqrstuvwxyz0123456789_!@#$%^&*)(+=.-''"

text \<open>A match at the start of a text, and what follows it.  The user is the longest run of credential
  characters, which must end at a colon; the password and the \<open>@\<close> end at the last \<open>@\<close> of the next run.\<close>

definition credentials_match :: "string \<Rightarrow> string option" where
  "credentials_match s =
     (if \<not> js_startsWith (js_toLowerCase s) ''mongodb://'' then None
      else
        (let rest = drop 10 s; user = takeWhile credential_char rest in
         case dropWhile credential_char rest of
           [] \<Rightarrow> None
         | c # r \<Rightarrow>
             (let run = takeWhile credential_char r;
                  before = dropWhile (\<lambda>x. x \<noteq> CHR ''@'') (rev run)
              in if user \<noteq> [] \<and> c = CHR '':'' \<and> 1 < length before
                 then Some (drop (length before) r) else None)))"

lemma credentials_match_shorter: "credentials_match s = Some r \<Longrightarrow> length r < length s"
proof -
  assume m: "credentials_match s = Some r"
  let ?rest = "drop 10 s"
  obtain c t where t: "dropWhile credential_char ?rest = c # t" "\<exists>n. r = drop n t"
    using m by (auto simp: credentials_match_def Let_def split: if_splits list.splits)
  have "length (c # t) \<le> length ?rest" unfolding t(1) [symmetric] by (rule length_dropWhile_le)
  then show ?thesis using t(2) by auto
qed

definition safeReplacementText :: string where
  "safeReplacementText = ''mongodb://*****:*****@''"

function removeSensitiveDataFromMongoDbConnection :: "string \<Rightarrow> string" where
  "removeSensitiveDataFromMongoDbConnection s =
     (case credentials_match s of
        Some r \<Rightarrow> safeReplacementText @ removeSensitiveDataFromMongoDbConnection r
      | None \<Rightarrow> (case s of [] \<Rightarrow> [] | c # cs \<Rightarrow> c # removeSensitiveDataFromMongoDbConnection cs))"
  by pat_completeness auto
termination
  by (relation "measure length") (auto dest: credentials_match_shorter)

declare removeSensitiveDataFromMongoDbConnection.simps [simp del]

definition removeSensitiveData :: "json option \<Rightarrow> string option res" where
  "removeSensitiveData message =
     (case message of
        None \<Rightarrow> Inr None
      | Some (JStr s) \<Rightarrow> Inr (Some (removeSensitiveDataFromMongoDbConnection s))
      | Some (JNum n) \<Rightarrow> Inl (TypeError ''message.replace is not a function'')
      | Some (JBool b) \<Rightarrow> Inl (TypeError ''message.replace is not a function'')
      | Some j \<Rightarrow> Inr (Some (removeSensitiveDataFromMongoDbConnection (json_stringify j))))"

section \<open>Lemmas\<close>

lemma takeWhile_append_stop: "\<forall>x \<in> set xs. P x \<Longrightarrow> \<not> P y \<Longrightarrow> takeWhile P (xs @ y # ys) = xs"
  by (simp add: takeWhile_append2)

lemma credentials_match_uri:
  assumes "user \<noteq> []" "\<forall>c \<in> set user. credential_char c" "password \<noteq> []" "\<forall>c \<in> set password. credential_char c"
    and "CHR ''@'' \<notin> set (takeWhile credential_char host)"
  shows "credentials_match (''mongodb://'' @ user @ '':'' @ password @ ''@'' @ host) = Some host"
proof -
  have colon: "\<not> credential_char (CHR '':'')" and at: "credential_char (CHR ''@'')" by code_simp+
  let ?host = "takeWhile credential_char host"
  have rest: "drop 10 (''mongodb://'' @ user @ '':'' @ password @ ''@'' @ host) = user @ CHR '':'' # (password @ ''@'' @ host)"
    by simp
  have user: "takeWhile credential_char (user @ CHR '':'' # r) = user"
    "dropWhile credential_char (user @ CHR '':'' # r) = CHR '':'' # r" for r
    using assms(2) colon by (simp_all add: takeWhile_append2 dropWhile_append2)
  have run: "takeWhile credential_char (password @ ''@'' @ host) = password @ ''@'' @ ?host"
    using assms(4) at by (simp add: takeWhile_append2)
  have "dropWhile (\<lambda>x. x \<noteq> CHR ''@'') (rev ?host @ CHR ''@'' # rev password) = CHR ''@'' # rev password"
    using assms(5) by (subst dropWhile_append2) auto
  then have before: "dropWhile (\<lambda>x. x \<noteq> CHR ''@'') (rev (password @ ''@'' @ ?host)) = CHR ''@'' # rev password"
    by simp
  have lower: "js_startsWith (js_toLowerCase (''mongodb://'' @ t)) ''mongodb://''" for t
  proof -
    have "js_toLowerCase ''mongodb://'' = ''mongodb://''" by code_simp
    then have "js_toLowerCase (''mongodb://'' @ t) = ''mongodb://'' @ js_toLowerCase t"
      unfolding js_toLowerCase_def map_append by simp
    then show ?thesis by (simp add: js_startsWith_def)
  qed
  show ?thesis
    unfolding credentials_match_def rest Let_def user list.case run before
    using lower assms(1,3) by simp
qed

lemma redact_other:
  "c \<noteq> CHR ''m'' \<Longrightarrow> c \<noteq> CHR ''M'' \<Longrightarrow>
   removeSensitiveDataFromMongoDbConnection (c # cs) = c # removeSensitiveDataFromMongoDbConnection cs"
proof -
  assume c: "c \<noteq> CHR ''m''" "c \<noteq> CHR ''M''"
  have "lower_char c \<noteq> CHR ''m''"
  proof
    assume "lower_char c = CHR ''m''"
    then have "(of_char (lower_char c) :: nat) = 109" by simp
    then have "(of_char c :: nat) = 109 \<or> (of_char c :: nat) = 77"
      by (auto simp: lower_char_def Let_def split: if_splits)
    then have "c = char_of (109 :: nat) \<or> c = char_of (77 :: nat)" by (metis char_of_char)
    moreover have "char_of (109 :: nat) = CHR ''m''" "char_of (77 :: nat) = CHR ''M''" by code_simp+
    ultimately show False using c by simp
  qed
  then have "credentials_match (c # cs) = None"
    by (simp add: credentials_match_def js_startsWith_def js_toLowerCase_def)
  then show ?thesis by (subst removeSensitiveDataFromMongoDbConnection.simps) simp
qed

lemma redact_prefix:
  "CHR ''m'' \<notin> set pre \<Longrightarrow> CHR ''M'' \<notin> set pre \<Longrightarrow>
   removeSensitiveDataFromMongoDbConnection (pre @ s) = pre @ removeSensitiveDataFromMongoDbConnection s"
  by (induction pre) (simp_all add: redact_other not_sym)

lemma redact_connection:
  assumes "user \<noteq> []" "\<forall>c \<in> set user. credential_char c" "password \<noteq> []" "\<forall>c \<in> set password. credential_char c"
    and "CHR ''@'' \<notin> set (takeWhile credential_char host)" "CHR ''m'' \<notin> set pre" "CHR ''M'' \<notin> set pre"
  shows "removeSensitiveDataFromMongoDbConnection (pre @ ''mongodb://'' @ user @ '':'' @ password @ ''@'' @ host) =
    pre @ safeReplacementText @ removeSensitiveDataFromMongoDbConnection host"
  unfolding redact_prefix [OF assms(6,7)]
  by (subst (1) removeSensitiveDataFromMongoDbConnection.simps) (simp only: credentials_match_uri [OF assms(1-5)] option.case)

end
