(* ===== verification/FrontendFacade.thy ===== *)
theory FrontendFacade
  imports Handlers Authorization Logging
begin

text \<open>
  The entry points of the service (\<open>handler/FrontendFacade.ts\<close>) and the loading of descriptors
  (\<open>handler/DescriptorLoader.ts\<close>).  An entry point sets the action, loads the plugins, runs a stack of
  middlewares and, when none of them posted a response, the handler; whatever throws becomes a 500.
  \<open>facade_state\<close> is all module state: that of meadowlark-core, the flag of the logger, the loader with
  the plugins and listeners, and the state \<open>fs_world\<close> on which these work.
\<close>

section \<open>State and environment\<close>

record 's facade_state = core_state +
  fs_logging :: bool
  fs_loader :: "'s loader_state"
  fs_world :: 's

record 's facade_env =
  fe_core :: core_env
  fe_oauth :: "'s facade_state oauth_env"
  fe_importer :: "'s importer"
  fe_json_parse :: "string \<Rightarrow> json res"
  fe_date_now :: "'s facade_state \<Rightarrow> int"
  fe_schema_file :: "ApiSchema res"
  fe_shake256 :: "nat \<Rightarrow> string \<Rightarrow> 8 word list"
  fe_config :: "(string \<times> ConfigValue) list"
  fe_pino :: "pino_options \<Rightarrow> unit res"
  fe_xml_files :: "string list res"
  fe_xml_parse :: "string \<Rightarrow> json res"

definition on_logging :: "('a, bool) act \<Rightarrow> ('a, 's facade_state) act" where
  "on_logging m = (\<lambda>s. case m (fs_logging s) of (r, b) \<Rightarrow> (r, s\<lparr>fs_logging := b\<rparr>))"

definition on_loader :: "('a, 's loader_state) act \<Rightarrow> ('a, 's facade_state) act" where
  "on_loader m = (\<lambda>s. case m (fs_loader s) of (r, l) \<Rightarrow> (r, s\<lparr>fs_loader := l\<rparr>))"

definition on_world :: "('a, 's) act \<Rightarrow> ('a, 's facade_state) act" where
  "on_world m = (\<lambda>s. case m (fs_world s) of (r, w) \<Rightarrow> (r, s\<lparr>fs_world := w\<rparr>))"

text \<open>What the handlers read of the loader.\<close>

definition backend_of :: "'s facade_env \<Rightarrow> 's loader_state \<Rightarrow> 's backend" where
  "backend_of env l = \<lparr>bk_store = getDocumentStore l, bk_queryHandler = getQueryHandler l,
     bk_emitter = loader_emitter l, bk_shake256 = fe_shake256 env\<rparr>"

definition handle :: "'s facade_env \<Rightarrow> ('s backend \<Rightarrow> ('a, 's) act) \<Rightarrow> ('a, 's facade_state) act" where
  "handle env h = (\<lambda>s. on_world (h (backend_of env (fs_loader s))) s)"

section \<open>The middleware stacks\<close>

text \<open>\<open>R.pipe\<close> with \<open>R.andThen\<close>.\<close>

fun run_stack :: "'s middleware list \<Rightarrow> 's middleware" where
  "run_stack [] model = ret model"
| "run_stack (m # ms) model = bnd (m model) (run_stack ms)"

text \<open>The security middleware is looked up when the stack is built, after the plugins are loaded.\<close>

definition securityMiddlewareOf :: "'s loader_state \<Rightarrow> 's facade_state middleware" where
  "securityMiddlewareOf l = (\<lambda>model. on_world (dsp_securityMiddleware (getDocumentStore l) model))"

definition postStack :: "'s facade_env \<Rightarrow> 's loader_state \<Rightarrow> 's facade_state middleware" where
  "postStack env l = run_stack
     [timestampRequest (fe_date_now env), loadApiSchema (fe_schema_file env), authorize (fe_oauth env), parsePath,
      parseBody (fe_json_parse env), logRequestBody, endpointValidation (fe_core env), documentValidation (fe_core env),
      equalityConstraintValidation (fe_core env), documentInfoExtraction (fe_core env), securityMiddlewareOf l,
      logTheResponse]"

definition putStack :: "'s facade_env \<Rightarrow> 's loader_state \<Rightarrow> 's facade_state middleware" where
  "putStack env l = run_stack
     [timestampRequest (fe_date_now env), loadApiSchema (fe_schema_file env), authorize (fe_oauth env), parsePath,
      parseBody (fe_json_parse env), logRequestBody, endpointValidation (fe_core env), documentValidation (fe_core env),
      equalityConstraintValidation (fe_core env), documentInfoExtraction (fe_core env), securityMiddlewareOf l,
      logTheResponse]"

definition deleteStack :: "'s facade_env \<Rightarrow> 's loader_state \<Rightarrow> 's facade_state middleware" where
  "deleteStack env l = run_stack
     [loadApiSchema (fe_schema_file env), authorize (fe_oauth env), parsePath, endpointValidation (fe_core env),
      securityMiddlewareOf l, logTheResponse]"

definition getByIdStack :: "'s facade_env \<Rightarrow> 's loader_state \<Rightarrow> 's facade_state middleware" where
  "getByIdStack env l = run_stack
     [loadApiSchema (fe_schema_file env), authorize (fe_oauth env), endpointValidation (fe_core env),
      securityMiddlewareOf l, logTheResponse]"

definition queryStack :: "'s facade_env \<Rightarrow> 's loader_state \<Rightarrow> 's facade_state middleware" where
  "queryStack env l = run_stack
     [loadApiSchema (fe_schema_file env), authorize (fe_oauth env), endpointValidation (fe_core env),
      queryValidation (fe_core env), logTheResponse]"

section \<open>Entry points\<close>

definition initialize :: "'s facade_env \<Rightarrow> (unit, 's facade_state) act" where
  "initialize env =
     bnd (on_logging (initializeLogging (fe_config env) (fe_pino env))) (\<lambda>_. on_loader (ensurePluginsLoaded (fe_importer env)))"

text \<open>What the five actions share: after the initialization the stack, and the handler unless a response is
  posted.\<close>

definition serve ::
  "'s facade_env \<Rightarrow> ('s loader_state \<Rightarrow> 's facade_state middleware) \<Rightarrow>
   ('s backend \<Rightarrow> FrontendRequest \<Rightarrow> (FrontendResponse, 's) act) \<Rightarrow>
   FrontendRequest \<Rightarrow> (FrontendResponse, 's facade_state) act" where
  "serve env stack handler frontendRequest =
     try_catch
       (bnd (initialize env) (\<lambda>_ s.
         bnd (stack (fs_loader s) (frontendRequest, None)) (\<lambda>(request, response).
           (case response of
              Some posted \<Rightarrow> ret posted
            | None \<Rightarrow> bnd (handle env (\<lambda>bk. handler bk request)) (\<lambda>answer.
                      bnd (logTheResponse (frontendRequest, Some answer)) (\<lambda>_. ret answer)))) s))
       (\<lambda>_. ret (status_only 500))"

definition facade_query :: "'s facade_env \<Rightarrow> FrontendRequest \<Rightarrow> (FrontendResponse, 's facade_state) act" where
  "facade_query env frontendRequest = serve env (queryStack env) Handlers.query (frontendRequest\<lparr>fr_action := Action.query\<rparr>)"

definition facade_getById :: "'s facade_env \<Rightarrow> FrontendRequest \<Rightarrow> (FrontendResponse, 's facade_state) act" where
  "facade_getById env frontendRequest =
     serve env (getByIdStack env) Handlers.getById (frontendRequest\<lparr>fr_action := Action.getById\<rparr>)"

text \<open>A response that \<open>parsePath\<close> posts is not looked at.\<close>

definition facade_get :: "'s facade_env \<Rightarrow> FrontendRequest \<Rightarrow> (FrontendResponse, 's facade_state) act" where
  "facade_get env frontendRequest =
     try_catch
       (bnd (parsePath (frontendRequest, None)) (\<lambda>(request, _).
          (case pc_documentUuid (mw_pathComponents (fr_middleware request)) of
             None \<Rightarrow> facade_query env request
           | Some _ \<Rightarrow> bnd (facade_getById env request) (\<lambda>getResponse.
                       bnd (logTheResponse (request, Some getResponse)) (\<lambda>_. ret getResponse)))))
       (\<lambda>_. ret (status_only 500))"

definition facade_update :: "'s facade_env \<Rightarrow> FrontendRequest \<Rightarrow> (FrontendResponse, 's facade_state) act" where
  "facade_update env frontendRequest =
     serve env (putStack env) Handlers.update (frontendRequest\<lparr>fr_action := updateById\<rparr>)"

definition facade_upsert :: "'s facade_env \<Rightarrow> FrontendRequest \<Rightarrow> (FrontendResponse, 's facade_state) act" where
  "facade_upsert env frontendRequest =
     serve env (postStack env) Handlers.upsert (frontendRequest\<lparr>fr_action := Action.upsert\<rparr>)"

definition facade_deleteIt :: "'s facade_env \<Rightarrow> FrontendRequest \<Rightarrow> (FrontendResponse, 's facade_state) act" where
  "facade_deleteIt env frontendRequest =
     serve env (deleteStack env) Handlers.deleteIt (frontendRequest\<lparr>fr_action := deleteById\<rparr>)"

definition facade_closeConnection :: "'s facade_env \<Rightarrow> (unit, 's facade_state) act" where
  "facade_closeConnection env =
     try_catch (bnd (initialize env) (\<lambda>_. handle env closeConnection)) (\<lambda>_. ret ())"


section \<open>Lemmas: what the stacks leave alone\<close>

text \<open>What the plugins own.\<close>

definition plugin_part :: "'s facade_state \<Rightarrow> 's loader_state \<times> 's" where
  "plugin_part s = (fs_loader s, fs_world s)"

text \<open>The HTTP client and the token cache have their own state.\<close>

definition http_frame :: "'s facade_state oauth_env \<Rightarrow> bool" where
  "http_frame env \<longleftrightarrow>
     (\<forall>u b h v. preserves plugin_part (oe_axios_post env u b h v)) \<and>
     (\<forall>t. preserves plugin_part (oe_cache_get env t)) \<and>
     (\<forall>t i. preserves plugin_part (oe_cache_set env t i))"

named_theorems stack_frame \<open>middlewares that leave the part of the plugins alone\<close>

lemma preserves_sum [frame_intros]:
  "(\<And>y. x = Inl y \<Longrightarrow> preserves v (f y)) \<Longrightarrow> (\<And>y. x = Inr y \<Longrightarrow> preserves v (g y)) \<Longrightarrow>
   preserves v (case x of Inl y \<Rightarrow> f y | Inr y \<Rightarrow> g y)"
  by (simp split: sum.split)

lemma preserves_state: "(\<And>t. preserves v (f t)) \<Longrightarrow> preserves v (\<lambda>s. f s s)"
  by (simp add: preserves_def)

lemma preserves_on_logging: "preserves plugin_part (on_logging m)"
  by (rule preservesI) (simp add: on_logging_def plugin_part_def split: prod.split)

lemma preserves_loadApiSchema: "preserves plugin_part (loadApiSchema file model)"
  by (rule preservesI)
    (auto simp: loadApiSchema_def findApiSchema_def loadApiSchemaFromFile_def plugin_part_def act_simps
      split: prod.splits option.splits sum.splits if_splits)

lemma preserves_timestampRequest: "preserves plugin_part (timestampRequest now model)"
  by (rule preservesI) (auto simp: timestampRequest_def act_simps split: prod.splits)

lemma preserves_parsePath: "preserves v (parsePath model)"
  by (rule preservesI) (auto simp: parsePath_def act_simps split: prod.splits option.splits)

lemma preserves_parseBody: "preserves v (parseBody json_parse model)"
  by (rule preservesI) (auto simp: parseBody_def act_simps split: prod.splits option.splits sum.splits)

lemma preserves_endpointValidation: "preserves v (endpointValidation env model)"
  by (rule preservesI) (auto simp: endpointValidation_def act_simps split: prod.splits option.splits sum.splits)

lemma preserves_getSchemaValidatorsFor: "preserves plugin_part (getSchemaValidatorsFor env rs q)"
  by (rule preservesI) (auto simp: getSchemaValidatorsFor_def plugin_part_def act_simps split: option.splits sum.splits)

lemma preserves_documentValidation: "preserves plugin_part (documentValidation env model)"
  by (cases model)
    (auto simp: documentValidation_def validateDocument_def Let_def
      intro!: frame_intros preserves_getSchemaValidatorsFor split: prod.split option.split)

lemma preserves_queryValidation: "preserves plugin_part (queryValidation env model)"
  by (cases model)
    (auto simp: queryValidation_def validateQueryString_def validateQueryParameters_def Let_def
      intro!: frame_intros preserves_getSchemaValidatorsFor split: prod.split option.split)

lemma preserves_equalityConstraintValidation: "preserves v (equalityConstraintValidation env model)"
  by (rule preservesI) (auto simp: equalityConstraintValidation_def act_simps split: prod.splits sum.splits)

lemma preserves_documentInfoExtraction: "preserves v (documentInfoExtraction env model)"
  by (rule preservesI) (auto simp: documentInfoExtraction_def act_simps split: prod.splits sum.splits)

lemma preserves_logging: "preserves v (logRequestBody model)" "preserves v (logTheResponse model)"
  by (auto simp: preserves_def logRequestBody_def logTheResponse_def act_simps split: prod.splits)

lemma preserves_set_own: "preserves plugin_part (set_own_token token)"
  by (rule preservesI) (simp add: set_own_token_def plugin_part_def)


lemma preserves_axios: "http_frame env \<Longrightarrow> preserves plugin_part (oe_axios_post env u b h v)"
  unfolding http_frame_def by blast

lemma preserves_cache:
  "http_frame env \<Longrightarrow> preserves plugin_part (oe_cache_get env t)"
  "http_frame env \<Longrightarrow> preserves plugin_part (oe_cache_set env t i)"
  unfolding http_frame_def by blast+

lemma preserves_requestOwn: "http_frame env \<Longrightarrow> preserves plugin_part (requestOwnAccessToken env)"
  unfolding requestOwnAccessToken_def fetchOwnAccessToken_def by (intro frame_intros preserves_axios)

lemma preserves_fetchVerification: "http_frame env \<Longrightarrow> preserves plugin_part (fetchClientTokenVerification env t own)"
  unfolding fetchClientTokenVerification_def by (intro frame_intros preserves_axios)

lemma preserves_accept: "http_frame env \<Longrightarrow> preserves plugin_part (acceptVerification env r t response)"
  unfolding acceptVerification_def by (intro frame_intros preserves_cache)

lemma preserves_verifyClientToken: "http_frame env \<Longrightarrow> preserves plugin_part (verifyClientToken env r t)"
  unfolding verifyClientToken_def
  by (rule preserves_try_catch, rule preserves_state)
    (intro preserves_ret preserves_bnd preserves_fetchVerification preserves_if preserves_requestOwn preserves_sum
      preserves_set_own preserves_accept; assumption)+

lemma preserves_state_if:
  "preserves v m \<Longrightarrow> preserves v n \<Longrightarrow> preserves v (\<lambda>s. if P s then m s else n s)"
  by (simp add: preserves_def)

lemma preserves_authorize: "http_frame env \<Longrightarrow> preserves plugin_part (authorize env model)"
  by (cases model)
    (auto simp: authorize_def
      intro!: preserves_ret preserves_if preserves_option preserves_bnd preserves_cache preserves_state_if
        preserves_requestOwn preserves_sum preserves_set_own preserves_verifyClientToken)

lemmas stack_frames = preserves_loadApiSchema preserves_timestampRequest preserves_authorize preserves_parsePath
  preserves_parseBody preserves_endpointValidation preserves_documentValidation preserves_queryValidation
  preserves_equalityConstraintValidation preserves_documentInfoExtraction preserves_logging

section \<open>Serving over a document store\<close>

text \<open>The loader is done, the plugin is a document store that lets a posted response through or throws,
  and the listeners leave the documents alone.\<close>

locale facade_service = document_service plugin ok stored "backend_of env l"
  for plugin :: "'s DocumentStorePlugin" and ok :: "'s \<Rightarrow> bool" and stored :: "'s \<Rightarrow> (DocumentUuid \<times> json) set"
    and env :: "'s facade_env" and l :: "'s loader_state" +
  assumes loaded: "pluginsLoaded l"
    and http: "http_frame (fe_oauth env)"
    and posted: "ok w \<Longrightarrow> dsp_securityMiddleware plugin (r, Some resp) w = (Inr model, w') \<Longrightarrow> model = (r, Some resp)"
begin

text \<open>The states in which the loader is done and the documents are \<open>S\<close>.\<close>

definition serving :: "(DocumentUuid \<times> json) set \<Rightarrow> 's facade_state \<Rightarrow> bool" where
  "serving S s \<longleftrightarrow> fs_loader s = l \<and> ok (fs_world s) \<and> stored (fs_world s) = S"

lemma plugin_of: "getDocumentStore l = plugin"
  using store by (simp add: backend_of_def)

lemma listening: "bk_emitter (backend_of env l) = loader_emitter l"
  by (simp add: backend_of_def)

lemma serving_frame: "preserves plugin_part m \<Longrightarrow> triple (serving S) m (\<lambda>_. True)"
  by (rule tripleI) (metis fst_conv plugin_part_def preserves_run prod.sel(2) serving_def)

lemma serving_security: "triple (serving S) (securityMiddlewareOf l model) (\<lambda>_. True)"
proof (rule tripleI)
  fix s r s'
  assume s: "serving S s" and run: "securityMiddlewareOf l model s = (r, s')"
  obtain w where w: "dsp_securityMiddleware plugin model (fs_world s) = (r, w)" "s' = s\<lparr>fs_world := w\<rparr>"
    using run by (auto simp: securityMiddlewareOf_def on_world_def plugin_of split: prod.splits)
  then show "serving S s' \<and> (\<forall>x. r = Inr x \<longrightarrow> True)"
    using s security_frame [OF _ w(1)] by (simp add: serving_def)
qed

lemma serving_stack:
  "(\<And>m x. m \<in> set ms \<Longrightarrow> triple (serving S) (m x) (\<lambda>_. True)) \<Longrightarrow> triple (serving S) (run_stack ms model) (\<lambda>_. True)"
proof (induction ms arbitrary: model)
  case Nil
  then show ?case by (simp add: triple_ret)
next
  case (Cons m ms)
  then show ?case using triple_bnd [OF Cons.prems [of m model] Cons.IH] by simp
qed

lemma serving_stacks:
  "triple (serving S) (postStack env l model) (\<lambda>_. True)"
  "triple (serving S) (putStack env l model) (\<lambda>_. True)"
  "triple (serving S) (deleteStack env l model) (\<lambda>_. True)"
  "triple (serving S) (getByIdStack env l model) (\<lambda>_. True)"
  "triple (serving S) (queryStack env l model) (\<lambda>_. True)"
  unfolding postStack_def putStack_def deleteStack_def getByIdStack_def queryStack_def
  by (rule serving_stack; auto simp: serving_frame stack_frames http serving_security)+

lemma serving_initialize: "serving S s \<Longrightarrow> initialize env s = (r, s') \<Longrightarrow> serving S s'"
  using loaded preserves_on_logging [of "initializeLogging (fe_config env) (fe_pino env)"]
  by (auto simp: initialize_def on_loader_def ensurePluginsLoaded_once act_simps serving_def on_logging_def
      split: prod.splits sum.splits)


text \<open>A served request is answered.  Either the documents are as they were, or the handler has answered.\<close>

lemma serve_contract:
  assumes s: "serving S s"
    and stack: "triple (serving S) (stack l (r, None)) (\<lambda>_. True)"
    and same: "\<And>resp. R resp S S"
    and handler: "\<And>q w res w'. ok w \<Longrightarrow> handler (backend_of env l) q w = (res, w') \<Longrightarrow>
      ok w' \<and> (case res of Inl e \<Rightarrow> stored w' = stored w | Inr resp \<Rightarrow> R resp (stored w) (stored w'))"
  shows "\<exists>resp s'. serve env stack handler r s = (Inr resp, s') \<and> fs_loader s' = l \<and> ok (fs_world s') \<and>
    R resp S (stored (fs_world s'))"
proof -
  obtain i s1 where i: "initialize env s = (i, s1)" by (cases "initialize env s")
  have s1: "serving S s1" by (rule serving_initialize [OF s i])
  have l1: "fs_loader s1 = l" using s1 by (simp add: serving_def)
  obtain m s2 where m: "stack l (r, None) s1 = (m, s2)" by (cases "stack l (r, None) s1")
  have s2: "serving S s2" using tripleD [OF stack s1 m] by simp
  show ?thesis
  proof (cases i)
    case (Inl e)
    then show ?thesis using i s1 same by (simp add: serve_def act_simps serving_def)
  next
    case (Inr u)
    show ?thesis
    proof (cases m)
      case Inl2: (Inl e)
      then show ?thesis using Inr i m s2 same by (simp add: serve_def act_simps l1 serving_def)
    next
      case model: (Inr qr)
      obtain q resp where qr: "qr = (q, resp)" by (cases qr)
      show ?thesis
      proof (cases resp)
        case (Some posted)
        then show ?thesis using Inr i m model qr s2 same by (simp add: serve_def act_simps l1 serving_def)
      next
        case None
        obtain h w where h: "handler (backend_of env l) q (fs_world s2) = (h, w)"
          by (cases "handler (backend_of env l) q (fs_world s2)")
        have "ok (fs_world s2)" "fs_loader s2 = l" "stored (fs_world s2) = S" using s2 by (simp_all add: serving_def)
        then show ?thesis using Inr i m model qr None h handler [OF _ h] same
          by (cases h) (simp_all add: serve_def act_simps l1 handle_def on_world_def logTheResponse_def)
      qed
    qed
  qed
qed


text \<open>What an action may do to the documents, and the answers that go with it.\<close>

lemma upsert_effect_on_documents:
  assumes "serving S s"
  shows "\<exists>resp s'. facade_upsert env r s = (Inr resp, s') \<and> fs_loader s' = l \<and> ok (fs_world s') \<and>
    (stored (fs_world s') = S \<or>
     resp_statusCode resp = 201 \<and> (\<exists>u d. stored (fs_world s') = insert (u, d) S) \<or>
     resp_statusCode resp = 200 \<and> (\<exists>u d. (u, d) \<in> stored (fs_world s')) \<or>
     resp = status_only 500 \<and> \<not> silent ok (on_afterUpsertDocument (loader_emitter l)) \<and> (\<exists>u d. (u, d) \<in> stored (fs_world s')))"
  unfolding facade_upsert_def
proof (rule serve_contract [OF assms, of "postStack env", OF serving_stacks(1), where R = "\<lambda>resp S T. T = S \<or>
     resp_statusCode resp = 201 \<and> (\<exists>u d. T = insert (u, d) S) \<or>
     resp_statusCode resp = 200 \<and> (\<exists>u d. (u, d) \<in> T) \<or>
     resp = status_only 500 \<and> \<not> silent ok (on_afterUpsertDocument (loader_emitter l)) \<and> (\<exists>u d. (u, d) \<in> T)"])
  fix q w res w'
  assume ok: "ok w" and run: "Handlers.upsert (backend_of env l) q w = (res, w')"
  show "ok w' \<and> (case res of Inl e \<Rightarrow> stored w' = stored w | Inr resp \<Rightarrow> stored w' = stored w \<or>
     resp_statusCode resp = 201 \<and> (\<exists>u d. stored w' = insert (u, d) (stored w)) \<or>
     resp_statusCode resp = 200 \<and> (\<exists>u d. (u, d) \<in> stored w') \<or>
     resp = status_only 500 \<and> \<not> silent ok (on_afterUpsertDocument (loader_emitter l)) \<and> (\<exists>u d. (u, d) \<in> stored w'))"
    using upsert_contract [OF ok, of q] unfolding run prod.inject listening
    by (elim exE conjE disjE; hypsubst; simp only: sum.case; blast)
qed simp

lemma update_effect_on_documents:
  assumes "serving S s"
  shows "\<exists>resp s'. facade_update env r s = (Inr resp, s') \<and> fs_loader s' = l \<and> ok (fs_world s') \<and>
    (stored (fs_world s') = S \<or>
     resp_statusCode resp = 204 \<and> (\<exists>u d. (u, d) \<in> stored (fs_world s')) \<or>
     resp = status_only 500 \<and> \<not> silent ok (on_afterUpdateDocumentById (loader_emitter l)) \<and> (\<exists>u d. (u, d) \<in> stored (fs_world s')))"
  unfolding facade_update_def
proof (rule serve_contract [OF assms, of "putStack env", OF serving_stacks(2), where R = "\<lambda>resp S T. T = S \<or>
     resp_statusCode resp = 204 \<and> (\<exists>u d. (u, d) \<in> T) \<or>
     resp = status_only 500 \<and> \<not> silent ok (on_afterUpdateDocumentById (loader_emitter l)) \<and> (\<exists>u d. (u, d) \<in> T)"])
  fix q w res w'
  assume ok: "ok w" and run: "Handlers.update (backend_of env l) q w = (res, w')"
  show "ok w' \<and> (case res of Inl e \<Rightarrow> stored w' = stored w | Inr resp \<Rightarrow> stored w' = stored w \<or>
     resp_statusCode resp = 204 \<and> (\<exists>u d. (u, d) \<in> stored w') \<or>
     resp = status_only 500 \<and> \<not> silent ok (on_afterUpdateDocumentById (loader_emitter l)) \<and> (\<exists>u d. (u, d) \<in> stored w'))"
    using update_contract [OF ok, of q] unfolding run prod.inject listening
    by (elim exE conjE disjE; hypsubst; simp only: sum.case; auto split: if_splits)
qed simp

lemma delete_effect_on_documents:
  assumes "serving S s"
  shows "\<exists>resp s'. facade_deleteIt env r s = (Inr resp, s') \<and> fs_loader s' = l \<and> ok (fs_world s') \<and>
    (stored (fs_world s') = S \<or>
     (resp_statusCode resp = 204 \<or> resp = status_only 500 \<and> \<not> silent ok (on_afterDeleteDocumentById (loader_emitter l))) \<and>
     (\<exists>u. stored (fs_world s') = {(v, d) \<in> S. v \<noteq> u}))"
  unfolding facade_deleteIt_def
proof (rule serve_contract [OF assms, of "deleteStack env", OF serving_stacks(3), where R = "\<lambda>resp S T. T = S \<or>
     (resp_statusCode resp = 204 \<or> resp = status_only 500 \<and> \<not> silent ok (on_afterDeleteDocumentById (loader_emitter l))) \<and>
     (\<exists>u. T = {(v, d) \<in> S. v \<noteq> u})"])
  fix q w res w'
  assume ok: "ok w" and run: "Handlers.deleteIt (backend_of env l) q w = (res, w')"
  show "ok w' \<and> (case res of Inl e \<Rightarrow> stored w' = stored w | Inr resp \<Rightarrow> stored w' = stored w \<or>
     (resp_statusCode resp = 204 \<or> resp = status_only 500 \<and> \<not> silent ok (on_afterDeleteDocumentById (loader_emitter l))) \<and>
     (\<exists>u. stored w' = {(v, d) \<in> stored w. v \<noteq> u}))"
    using delete_contract [OF ok, of q] unfolding run prod.inject listening
    by (elim exE conjE disjE; hypsubst; simp only: sum.case; auto split: if_splits)
qed simp

lemma get_effect_on_documents:
  assumes "serving S s"
  shows "\<exists>resp s'. facade_getById env r s = (Inr resp, s') \<and> fs_loader s' = l \<and> ok (fs_world s') \<and>
    stored (fs_world s') = S"
  unfolding facade_getById_def
proof (rule serve_contract [OF assms, of "getByIdStack env", OF serving_stacks(4), where R = "\<lambda>resp S T. T = S"])
  fix q w res w'
  assume "ok w" "Handlers.getById (backend_of env l) q w = (res, w')"
  then show "ok w' \<and> (case res of Inl e \<Rightarrow> stored w' = stored w | Inr resp \<Rightarrow> stored w' = stored w)"
    using get_contract [of w q] by (auto split: sum.split)
qed simp


end

definition missing_token_response :: "FrontendRequest \<Rightarrow> FrontendResponse" where
  "missing_token_response r = \<lparr>resp_statusCode = 400, resp_headers = mw_headerMetadata (fr_middleware r),
     resp_body = Some (error_body ''Invalid authorization header'')\<rparr>"

text \<open>A request that keeps what authorization looks at of \<open>r\<close>, which has no token.\<close>

definition without_token :: "FrontendRequest \<Rightarrow> FrontendRequest \<Rightarrow> bool" where
  "without_token r q \<longleftrightarrow> fr_headers q = fr_headers r \<and> mw_security (fr_middleware q) = None \<and>
     mw_headerMetadata (fr_middleware q) = mw_headerMetadata (fr_middleware r) \<and>
     extractClientBearerTokenFrom q = None"

lemma extractClientBearerTokenFrom_upd:
  "extractClientBearerTokenFrom (upd_middleware f q) = extractClientBearerTokenFrom q"
  unfolding extractClientBearerTokenFrom_def upd_middleware_def by (simp cong: option.case_cong)

lemma parsePath_run:
  obtains p resp where "parsePath (q, None) s = (Inr (p, resp), s)"
    "p = q \<or> (\<exists>pc. p = upd_middleware (\<lambda>m. m\<lparr>mw_pathComponents := pc\<rparr>) q)"
proof (cases "pathComponentsFrom (fr_path q)")
  case None
  then show ?thesis using that by (simp add: parsePath_def act_simps)
next
  case (Some pc)
  then show ?thesis
    using that by (cases "pc_documentUuid pc"; cases "isDocumentUuidWellFormed (the (pc_documentUuid pc))")
      (auto simp: parsePath_def act_simps)
qed

lemma without_token_upd:
  "without_token r q \<Longrightarrow> mw_security (f (fr_middleware q)) = mw_security (fr_middleware q) \<Longrightarrow>
   mw_headerMetadata (f (fr_middleware q)) = mw_headerMetadata (fr_middleware q) \<Longrightarrow>
   without_token r (upd_middleware f q)"
  using extractClientBearerTokenFrom_upd [of f q] by (simp add: without_token_def upd_middleware_def)

context facade_service
begin

text \<open>Before authorization the request stays without a token, authorization posts its response, and what
  follows lets it through.\<close>

definition before_denial :: "(DocumentUuid \<times> json) set \<Rightarrow> FrontendRequest \<Rightarrow> 's facade_state middleware \<Rightarrow> bool" where
  "before_denial S r m \<longleftrightarrow> (\<forall>q. without_token r q \<longrightarrow>
     triple (serving S) (m (q, None)) (\<lambda>x. \<exists>q'. x = (q', None) \<and> without_token r q'))"

definition lets_through :: "(DocumentUuid \<times> json) set \<Rightarrow> 's facade_state middleware \<Rightarrow> bool" where
  "lets_through S m \<longleftrightarrow> (\<forall>q resp. triple (serving S) (m (q, Some resp)) (\<lambda>x. x = (q, Some resp)))"

lemma denied_stack:
  assumes "\<forall>m \<in> set pre. before_denial S r m" "\<forall>m \<in> set post. lets_through S m" "without_token r q"
  shows "triple (serving S) (run_stack (pre @ authorize (fe_oauth env) # post) (q, None))
    (\<lambda>x. snd x = Some (missing_token_response r))"
  using assms(1,3)
proof (induction pre arbitrary: q)
  case Nil
  have through: "triple (serving S) (run_stack post (p, Some resp)) (\<lambda>x. x = (p, Some resp))" for p resp
    using assms(2)
  proof (induction post)
    case Nil
    then show ?case by (simp add: triple_ret)
  next
    case (Cons m post)
    have "triple (serving S) (m (p, Some resp)) (\<lambda>x. x = (p, Some resp))"
      using Cons.prems by (simp add: lets_through_def)
    moreover have "triple (serving S) (run_stack post x) (\<lambda>y. y = (p, Some resp))" if "x = (p, Some resp)" for x
      using Cons that by simp
    ultimately show ?case by (simp add: triple_bnd)
  qed
  have "authorize (fe_oauth env) (q, None) = ret (q, Some (missing_token_response r))"
    using Nil.prems(2) by (simp add: authorize_def without_token_def missing_token_response_def)
  then show ?case
    using triple_conseq [OF through [of q "missing_token_response r"]] by simp
next
  case (Cons m pre)
  have "triple (serving S) (m (q, None)) (\<lambda>x. \<exists>q'. x = (q', None) \<and> without_token r q')"
    using Cons.prems by (simp add: before_denial_def)
  moreover have "triple (serving S) (run_stack (pre @ authorize (fe_oauth env) # post) x)
      (\<lambda>y. snd y = Some (missing_token_response r))" if "\<exists>q'. x = (q', None) \<and> without_token r q'" for x
    using that Cons.IH Cons.prems(1) by auto
  ultimately show ?case by (simp add: triple_bnd)
qed

lemma before_loadApiSchema: "before_denial S r (loadApiSchema (fe_schema_file env))"
  unfolding before_denial_def
proof (intro allI impI tripleI)
  fix q s x s'
  assume q: "without_token r q" and s: "serving S s" and run: "loadApiSchema (fe_schema_file env) (q, None) s = (x, s')"
  have "serving S s'" using tripleD [OF serving_frame [OF preserves_loadApiSchema] s run] by simp
  moreover have "\<exists>q'. y = (q', None) \<and> without_token r q'" if y: "x = Inr y" for y
    using run y by (auto simp: loadApiSchema_def act_simps split: prod.splits sum.splits intro!: without_token_upd [OF q])
  ultimately show "serving S s' \<and> (\<forall>y. x = Inr y \<longrightarrow> (\<exists>q'. y = (q', None) \<and> without_token r q'))" by blast
qed

lemma before_timestampRequest: "before_denial S r (timestampRequest now)"
  unfolding before_denial_def
  by (intro allI impI tripleI) (auto simp: timestampRequest_def act_simps intro!: without_token_upd)

lemma through_core:
  "lets_through S parsePath" "lets_through S (parseBody json_parse)" "lets_through S logRequestBody"
  "lets_through S (endpointValidation ce)" "lets_through S (documentValidation ce)"
  "lets_through S (equalityConstraintValidation ce)" "lets_through S (documentInfoExtraction ce)"
  "lets_through S (queryValidation ce)" "lets_through S logTheResponse"
  unfolding lets_through_def
  by (simp_all add: parsePath_def parseBody_def logRequestBody_def endpointValidation_def documentValidation_def
      equalityConstraintValidation_def documentInfoExtraction_def queryValidation_def logTheResponse_def triple_ret)

lemma through_security: "lets_through S (securityMiddlewareOf l)"
  unfolding lets_through_def
proof (intro allI tripleI)
  fix q resp s x s'
  assume s: "serving S s" and run: "securityMiddlewareOf l (q, Some resp) s = (x, s')"
  obtain w where w: "dsp_securityMiddleware plugin (q, Some resp) (fs_world s) = (x, w)"
    using run by (auto simp: securityMiddlewareOf_def on_world_def plugin_of split: prod.splits)
  have "ok (fs_world s)" using s by (simp add: serving_def)
  then have "\<forall>y. x = Inr y \<longrightarrow> y = (q, Some resp)" using posted [of "fs_world s" q resp _ w] w by blast
  then show "serving S s' \<and> (\<forall>y. x = Inr y \<longrightarrow> y = (q, Some resp))"
    using tripleD [OF serving_security s run] by simp
qed


definition denies ::
  "(DocumentUuid \<times> json) set \<Rightarrow> FrontendRequest \<Rightarrow> (FrontendRequest \<Rightarrow> (FrontendResponse, 's facade_state) act) \<Rightarrow> bool" where
  "denies S r f \<longleftrightarrow> (\<forall>q s. without_token r q \<longrightarrow> serving S s \<longrightarrow>
     (\<exists>resp s'. f q s = (Inr resp, s') \<and> resp \<in> {missing_token_response r, status_only 500} \<and> serving S s'))"

lemma without_token_action: "without_token r q \<Longrightarrow> without_token r (q\<lparr>fr_action := a\<rparr>)"
  by (auto simp: without_token_def extractClientBearerTokenFrom_def cong: option.case_cong)

lemma denied_serve:
  assumes stack: "\<And>q. without_token r q \<Longrightarrow>
      triple (serving S) (stack l (q, None)) (\<lambda>x. snd x = Some (missing_token_response r))"
  shows "denies S r (\<lambda>q. serve env stack handler (q\<lparr>fr_action := a\<rparr>))"
  unfolding denies_def
proof (intro allI impI)
  fix q s
  assume q: "without_token r q" and s: "serving S s"
  let ?q = "q\<lparr>fr_action := a\<rparr>"
  obtain i s1 where i: "initialize env s = (i, s1)" by (cases "initialize env s")
  have s1: "serving S s1" by (rule serving_initialize [OF s i])
  then have l1: "fs_loader s1 = l" by (simp add: serving_def)
  obtain m s2 where m: "stack l (?q, None) s1 = (m, s2)" by (cases "stack l (?q, None) s1")
  have s2: "serving S s2" "\<And>x. m = Inr x \<Longrightarrow> snd x = Some (missing_token_response r)"
    using tripleD [OF stack [OF without_token_action [OF q]] s1 m] by simp_all
  show "\<exists>resp s'. serve env stack handler ?q s = (Inr resp, s') \<and>
      resp \<in> {missing_token_response r, status_only 500} \<and> serving S s'"
  proof (cases i)
    case (Inl e)
    then show ?thesis using i s1 by (simp add: serve_def act_simps)
  next
    case (Inr u)
    then show ?thesis using i m s2 by (cases m) (auto simp: serve_def act_simps l1)
  qed
qed

lemma denied_stacks:
  assumes "without_token r q"
  shows "triple (serving S) (postStack env l (q, None)) (\<lambda>x. snd x = Some (missing_token_response r))"
    and "triple (serving S) (putStack env l (q, None)) (\<lambda>x. snd x = Some (missing_token_response r))"
    and "triple (serving S) (deleteStack env l (q, None)) (\<lambda>x. snd x = Some (missing_token_response r))"
    and "triple (serving S) (getByIdStack env l (q, None)) (\<lambda>x. snd x = Some (missing_token_response r))"
    and "triple (serving S) (queryStack env l (q, None)) (\<lambda>x. snd x = Some (missing_token_response r))"
proof -
  have two: "triple (serving S) (run_stack (timestampRequest (fe_date_now env) # loadApiSchema (fe_schema_file env) #
      authorize (fe_oauth env) # post) (q, None)) (\<lambda>x. snd x = Some (missing_token_response r))"
    if "\<forall>m \<in> set post. lets_through S m" for post
    using denied_stack [of "[timestampRequest (fe_date_now env), loadApiSchema (fe_schema_file env)]", OF _ that assms]
    by (simp add: before_timestampRequest before_loadApiSchema del: run_stack.simps)
  have one: "triple (serving S) (run_stack (loadApiSchema (fe_schema_file env) # authorize (fe_oauth env) # post) (q, None))
      (\<lambda>x. snd x = Some (missing_token_response r))"
    if "\<forall>m \<in> set post. lets_through S m" for post
    using denied_stack [of "[loadApiSchema (fe_schema_file env)]", OF _ that assms]
    by (simp add: before_loadApiSchema del: run_stack.simps)
  note facts = through_core through_security
  show "triple (serving S) (postStack env l (q, None)) (\<lambda>x. snd x = Some (missing_token_response r))"
    unfolding postStack_def by (rule two) (simp add: facts)
  show "triple (serving S) (putStack env l (q, None)) (\<lambda>x. snd x = Some (missing_token_response r))"
    unfolding putStack_def by (rule two) (simp add: facts)
  show "triple (serving S) (deleteStack env l (q, None)) (\<lambda>x. snd x = Some (missing_token_response r))"
    unfolding deleteStack_def by (rule one) (simp add: facts)
  show "triple (serving S) (getByIdStack env l (q, None)) (\<lambda>x. snd x = Some (missing_token_response r))"
    unfolding getByIdStack_def by (rule one) (simp add: facts)
  show "triple (serving S) (queryStack env l (q, None)) (\<lambda>x. snd x = Some (missing_token_response r))"
    unfolding queryStack_def by (rule one) (simp add: facts)
qed

lemma denied_actions:
  "denies S r (facade_upsert env)" "denies S r (facade_update env)" "denies S r (facade_deleteIt env)"
  "denies S r (facade_getById env)" "denies S r (facade_query env)"
  unfolding facade_upsert_def facade_update_def facade_deleteIt_def facade_getById_def facade_query_def
  by (rule denied_serve, erule denied_stacks)+

lemma denied_get: "denies S r (facade_get env)"
  unfolding denies_def
proof (intro allI impI)
  fix q s
  assume q: "without_token r q" and s: "serving S s"
  obtain p resp where p: "parsePath (q, None) s = (Inr (p, resp), s)" "without_token r p"
  proof (rule parsePath_run [of q s])
    fix p resp
    assume run: "parsePath (q, None) s = (Inr (p, resp), s)"
      and p: "p = q \<or> (\<exists>pc. p = upd_middleware (\<lambda>m. m\<lparr>mw_pathComponents := pc\<rparr>) q)"
    have "without_token r p" using p q by (auto intro: without_token_upd)
    then show ?thesis by (rule that [OF run])
  qed
  show "\<exists>resp s'. facade_get env q s = (Inr resp, s') \<and> resp \<in> {missing_token_response r, status_only 500} \<and> serving S s'"
  proof (cases "pc_documentUuid (mw_pathComponents (fr_middleware p))")
    case None
    then show ?thesis using p denied_actions(5) [of S r, unfolded denies_def] s
      by (fastforce simp: facade_get_def act_simps)
  next
    case (Some u)
    then show ?thesis using p denied_actions(4) [of S r, unfolded denies_def] s
      by (fastforce simp: facade_get_def act_simps logTheResponse_def)
  qed
qed

end


section \<open>A path that is no path\<close>

text \<open>\<open>get\<close> does not look at the 404 that \<open>parsePath\<close> posts; the query that follows meets a project that is not there.\<close>

lemma unknown_project_throws:
  assumes "map_of (as_projectSchemas (mw_apiSchema (fr_middleware q))) (pc_projectNamespace (mw_pathComponents (fr_middleware q))) = None"
  shows "\<exists>e. endpointValidation env (q, None) s = (Inl e, s)"
proof -
  obtain m where "validateEndpoint env (mw_apiSchema (fr_middleware q)) (mw_pathComponents (fr_middleware q)) = Inl (TypeError m)"
    using assms by (simp add: validateEndpoint_def matchResourceSchema_def findResourceSchema_unknown_project
        validEndpointNamesFor_def)
  then show ?thesis by (simp add: endpointValidation_def act_simps)
qed

end
