(* ===== verification/DescriptorLoader.thy ===== *)
theory DescriptorLoader
  imports FrontendFacade
begin

text \<open>
  The loading of descriptors from XML files (\<open>handler/DescriptorLoader.ts\<close>) and its entry point of the
  facade.  The list of files and the parsed file (\<open>fs\<close>, \<open>xml2js\<close>) are parameters: \<open>fe_xml_files\<close> and
  \<open>fe_xml_parse\<close>.
\<close>

section \<open>Reading\<close>

definition decapitalizeKeys :: "json \<Rightarrow> json" where
  "decapitalizeKeys obj = JObj (js_assign [] (map (\<lambda>(key, value). (decapitalize key, value)) (spread_json obj)))"

definition arrayify :: "json \<Rightarrow> json" where
  "arrayify v = (case v of JArr xs \<Rightarrow> JArr xs | _ \<Rightarrow> JArr [v])"

text \<open>Assigning to an index of a string throws in strict mode.\<close>

definition arrayifyScalarObjectValues :: "json \<Rightarrow> json res" where
  "arrayifyScalarObjectValues obj =
     (case obj of
        JObj kvs \<Rightarrow> Inr (JObj (map (\<lambda>(key, value). (key, arrayify value)) kvs))
      | JArr xs \<Rightarrow> Inr (JArr (map arrayify xs))
      | JStr s \<Rightarrow> if s = '''' then Inr obj else Inl (TypeError ''Cannot assign to read only property of string'')
      | JNull \<Rightarrow> Inl (TypeError ''Cannot convert undefined or null to object'')
      | _ \<Rightarrow> Inr obj)"

definition hasOwnProperty :: "json \<Rightarrow> string \<Rightarrow> bool res" where
  "hasOwnProperty obj key =
     (case obj of JNull \<Rightarrow> Inl (TypeError ''Cannot convert undefined or null to object'')
      | _ \<Rightarrow> Inr (map_of (spread_json obj) key \<noteq> None))"

definition without_metadata :: "json \<Rightarrow> json" where
  "without_metadata element = (case element of JObj kvs \<Rightarrow> JObj (omit_keys [[CHR 0x24]] kvs) | _ \<Rightarrow> element)"

fun readFiles :: "(string \<Rightarrow> json res) \<Rightarrow> string list \<Rightarrow> js_object \<Rightarrow> js_object res" where
  "readFiles xml_parse [] result = Inr result"
| "readFiles xml_parse (filename # filenames) result =
     res_bind (xml_parse filename) (\<lambda>parsedContents.
     res_bind (hasOwnProperty parsedContents ''InterchangeDescriptors'') (\<lambda>present.
     if \<not> present then readFiles xml_parse filenames result
     else
       (let interchangeDescriptorsElement = (case map_of (spread_json parsedContents) ''InterchangeDescriptors'' of
              None \<Rightarrow> JNull | Some e \<Rightarrow> e)
        in res_bind (hasOwnProperty interchangeDescriptorsElement [CHR 0x24]) (\<lambda>_.
           res_bind (arrayifyScalarObjectValues (without_metadata interchangeDescriptorsElement)) (\<lambda>element.
           readFiles xml_parse filenames (js_assign result (spread_json element)))))))"

definition readDescriptors :: "string list res \<Rightarrow> (string \<Rightarrow> json res) \<Rightarrow> js_object res" where
  "readDescriptors files xml_parse =
     res_bind files (\<lambda>filenames. readFiles xml_parse (filter (\<lambda>f. js_endsWith f ''.xml'') filenames) [])"

section \<open>Loading\<close>

definition descriptorRequest ::
  "(nat \<Rightarrow> string \<Rightarrow> 8 word list) \<Rightarrow> string \<Rightarrow> json \<Rightarrow> UpsertRequest res" where
  "descriptorRequest shake256 descriptorName descriptorReference =
     (let resourceInfo = newResourceInfo\<lparr>bri_resourceName := descriptorName, bri_projectName := ''Ed-Fi'',
            ri_resourceVersion := ''3.3.1-b'', bri_isDescriptor := True\<rparr>;
          descriptorDocument = decapitalizeKeys descriptorReference
      in res_bind (descriptorDocumentInfoFrom descriptorDocument) (\<lambda>documentInfo.
         res_bind (meadowlarkIdForDocumentIdentity shake256 resourceInfo (di_documentIdentity documentInfo)) (\<lambda>meadowlarkId.
         Inr \<lparr>ur_meadowlarkId = meadowlarkId, ur_resourceInfo = resourceInfo, ur_documentInfo = documentInfo,
              ur_edfiDoc = descriptorDocument, ur_validateDocumentReferencesExist = True,
              ur_security = newSecurity\<lparr>sec_authorizationStrategy := FULL_ACCESS\<rparr>, ur_traceId = ''-''\<rparr>)))"

text \<open>One value of a descriptor; the result says whether it counts as loaded.\<close>

definition descriptor_complete :: "json \<Rightarrow> bool res" where
  "descriptor_complete descriptorReference =
     res_bind (res_map (hasOwnProperty descriptorReference) [''Namespace'', ''CodeValue'', ''ShortDescription'', ''Description''])
       (\<lambda>present. Inr (list_all id present))"

definition descriptor_loaded :: "UpsertResult \<Rightarrow> bool" where
  "descriptor_loaded upsertResult =
     (case upsertResult of INSERT_SUCCESS _ _ \<Rightarrow> True | UpsertResult.UPDATE_SUCCESS _ _ \<Rightarrow> True | _ \<Rightarrow> False)"

definition loadDescriptor :: "'s backend \<Rightarrow> string \<Rightarrow> json \<Rightarrow> (bool, 's) act" where
  "loadDescriptor bk descriptorName descriptorReference =
     bnd (lift (descriptor_complete descriptorReference)) (\<lambda>complete.
     if \<not> complete then ret False
     else
       bnd (lift (descriptorRequest (bk_shake256 bk) descriptorName descriptorReference)) (\<lambda>upsertRequest.
       bnd (beforeUpsertDocument (bk_emitter bk) upsertRequest) (\<lambda>_.
       bnd (dsp_upsertDocument (bk_store bk) upsertRequest) (\<lambda>upsertResult.
       bnd (afterUpsertDocument (bk_emitter bk) upsertRequest upsertResult) (\<lambda>_.
       ret (descriptor_loaded upsertResult))))))"

text \<open>Names that do not end in \<open>Descriptor\<close> are skipped.  The result is \<open>loadCount\<close>, which is logged.\<close>

definition loadEntry :: "'s backend \<Rightarrow> string \<times> json \<Rightarrow> (nat, 's) act" where
  "loadEntry bk = (\<lambda>(descriptorName, descriptorReferences).
     if \<not> js_endsWith descriptorName ''Descriptor'' then ret 0
     else
       (case descriptorReferences of
          JArr refs \<Rightarrow> bnd (mapM (loadDescriptor bk descriptorName) refs) (\<lambda>counted. ret (length (filter id counted)))
        | JStr s \<Rightarrow> ret 0
        | _ \<Rightarrow> throw (TypeError ''descriptorReferences is not iterable'')))"

definition loadParsedDescriptors :: "'s facade_env \<Rightarrow> js_object \<Rightarrow> (nat, 's facade_state) act" where
  "loadParsedDescriptors env descriptorData =
     bnd (on_loader (ensurePluginsLoaded (fe_importer env))) (\<lambda>_.
     bnd (handle env (\<lambda>bk. mapM (loadEntry bk) descriptorData)) (\<lambda>counts. ret (sum_list counts)))"

definition loadDescriptorsFromFile :: "'s facade_env \<Rightarrow> (nat, 's facade_state) act" where
  "loadDescriptorsFromFile env =
     bnd (on_loader (loadDocumentStore (fe_importer env))) (\<lambda>_.
     bnd (lift (readDescriptors (fe_xml_files env) (fe_xml_parse env))) (loadParsedDescriptors env))"

definition facade_loadDescriptors :: "'s facade_env \<Rightarrow> FrontendRequest \<Rightarrow> (FrontendResponse, 's facade_state) act" where
  "facade_loadDescriptors env frontendRequest =
     try_catch
       (bnd (initialize env) (\<lambda>_.
        bnd (authorize (fe_oauth env) (frontendRequest, None)) (\<lambda>(_, authorizeResponse).
        case authorizeResponse of
          Some response \<Rightarrow> ret response
        | None \<Rightarrow> bnd (loadDescriptorsFromFile env) (\<lambda>_. ret (status_only 202)))))
       (\<lambda>_. ret (status_only 500))"

end
