(* ===== verification/MetadataHandler.thy ===== *)
theory MetadataHandler
  imports Handlers
begin

text \<open>
  The metadata endpoints (\<open>handler/MetadataHandler.ts\<close>, \<open>handler/MetadataResources.ts\<close>): version
  information, the OpenAPI list, XSD and the files that are fetched from a blob storage and cached by
  their ETag.  The cache is the state \<open>resourceCache\<close>; \<open>axios.get\<close> is a parameter that is given the ETag
  and may keep a state of its own.
\<close>

section \<open>Resources\<close>

definition config_value :: "ConfigValue \<Rightarrow> json" where
  "config_value v = (case v of CString s \<Rightarrow> JStr s | CBool b \<Rightarrow> JBool b | CNumber n \<Rightarrow> JNum n | CBuffer b \<Rightarrow> JStr b)"

definition createApiVersionObject :: "(string \<times> ConfigValue) list \<Rightarrow> string \<Rightarrow> json res" where
  "createApiVersionObject config serverBaseUrl =
     res_bind (config_get config ''OAUTH_SERVER_ENDPOINT_FOR_OWN_TOKEN_REQUEST'') (\<lambda>oauth.
     Inr (JObj [(''version'', JStr ''1.0.0''), (''apiMode'', JStr ''SharedInstance''),
       (''dataModels'', JArr [JObj [(''name'', JStr ''Ed-Fi''), (''version'', JStr ''3.3.1-b'')]]),
       (''urls'', JObj [(''dependencies'', JStr (serverBaseUrl @ ''/metadata/data/v3/dependencies'')),
          (''openApiMetadata'', JStr (serverBaseUrl @ ''/metadata/'')),
          (''oauth'', config_value oauth),
          (''dataManagementApi'', JStr (serverBaseUrl @ ''/v3.3b/'')),
          (''xsdMetadata'', JStr (serverBaseUrl @ ''/metadata/xsd''))])]))"

definition openApiListTemplate :: "string \<Rightarrow> json" where
  "openApiListTemplate serverBaseUrl = JArr
     [JObj [(''name'', JStr ''Descriptors''),
            (''endpointUri'', JStr (serverBaseUrl @ ''/metadata/descriptors/swagger.json'')), (''prefix'', JStr '''')],
      JObj [(''name'', JStr ''Resources''),
            (''endpointUri'', JStr (serverBaseUrl @ ''/metadata/resources/swagger.json'')), (''prefix'', JStr '''')]]"

definition XsdTemplate :: json where
  "XsdTemplate = JArr [JObj [(''description'', JStr ''Core schema (Ed-Fi) files for the data model''),
     (''name'', JStr ''ed-fi''), (''version'', JStr ''3.3.1-b''),
     (''files'', JStr ''https://api.ed-fi.org/v5.3/api/metadata/xsd/ed-fi/files'')]]"

section \<open>Templates\<close>

text \<open>\<open>data.replace(/token/g, value)\<close> for a token without special characters.  In the replacement text \<open>$$\<close>
  stands for \<open>$\<close> and \<open>$&\<close> for the match; the other patterns with \<open>$\<close> do not occur here and are kept.\<close>

fun expand_replacement :: "string \<Rightarrow> string \<Rightarrow> string" where
  "expand_replacement matched (c # d # cs) =
     (if c = CHR 0x24 \<and> d = CHR 0x24 then CHR 0x24 # expand_replacement matched cs
      else if c = CHR 0x24 \<and> d = CHR ''&'' then matched @ expand_replacement matched cs
      else c # expand_replacement matched (d # cs))"
| "expand_replacement matched s = s"

function replace_token :: "string \<Rightarrow> string \<Rightarrow> string \<Rightarrow> string" where
  "replace_token token value s =
     (case s of
        [] \<Rightarrow> []
      | c # cs \<Rightarrow>
          if token \<noteq> [] \<and> js_startsWith s token
          then expand_replacement token value @ replace_token token value (drop (length token) s)
          else c # replace_token token value cs)"
  by pat_completeness auto
termination
  by (relation "measure (\<lambda>(_, _, s). length s)") (auto split: if_splits)

declare replace_token.simps [simp del]

definition useTemplate :: "(string \<times> ConfigValue) list \<Rightarrow> string \<Rightarrow> string \<Rightarrow> string \<Rightarrow> string res" where
  "useTemplate config data host stage =
     res_bind (config_get config ''OAUTH_SERVER_ENDPOINT_FOR_OWN_TOKEN_REQUEST'') (\<lambda>tokenUrl.
     (let basePath = ''/'' @ stage @ ''/v3.3b/'';
          schemes = (if stage = ''local'' then [CHR 0x22] @ ''http'' @ [CHR 0x22] else [CHR 0x22] @ ''https'' @ [CHR 0x22])
      in Inr (replace_token ''{{{ schemes }}}'' schemes
               (replace_token ''{{ host }}'' host
                 (replace_token ''{{ tokenUrl }}'' (js_to_string (config_value tokenUrl))
                   (replace_token ''{{ basePath }}'' basePath data))))))"

section \<open>Blob storage\<close>

record ExternalResource =
  er_body :: json
  er_etag :: "string option"

record BlobResponse =
  blob_status :: int
  blob_etag :: "string option"
  blob_data :: json

record 's metadata_env =
  me_config :: "(string \<times> ConfigValue) list"
  me_axios_get :: "string \<Rightarrow> string option \<Rightarrow> (BlobResponse, 's) act"

type_synonym resourceCache = "(string \<times> ExternalResource) list"

type_synonym 's metadata_state = "resourceCache \<times> 's"

definition cors_header :: "Headers option" where
  "cors_header = Some [(''Access-Control-Allow-Origin'', ''*'')]"

text \<open>\<open>axios.get\<close> accepts 200 and 304 and throws for any other status.  A resource that is cached is the object
  in the cache, so its fields change there before \<open>transformer\<close> can throw.\<close>

definition store_resource :: "string \<Rightarrow> ExternalResource \<Rightarrow> (unit, 's metadata_state) act" where
  "store_resource url resource = (\<lambda>(cache, s). (Inr (), (AList.update url resource cache, s)))"

definition getFileFromBlobStorage ::
  "'s metadata_env \<Rightarrow> string \<Rightarrow> (json \<Rightarrow> json res) \<Rightarrow> (FrontendResponse, 's metadata_state) act" where
  "getFileFromBlobStorage env url transformer = (\<lambda>(cache, s0).
     let cached = map_of cache url;
         resource = (case cached of Some r \<Rightarrow> r | None \<Rightarrow> \<lparr>er_body = JStr '''', er_etag = Some ''''\<rparr>)
     in try_catch
          (\<lambda>(cache, s).
            case me_axios_get env url (er_etag resource) s of
              (Inl e, s') \<Rightarrow> (Inl e, (cache, s'))
            | (Inr response, s') \<Rightarrow>
                (if blob_status response \<notin> {200, 304} then (Inl (mk_error ''AxiosError'' ''status''), (cache, s'))
                 else if blob_status response = 200
                 then
                   bnd (if cached \<noteq> None then store_resource url (resource\<lparr>er_etag := blob_etag response\<rparr>) else ret ()) (\<lambda>_.
                   bnd (lift (transformer (blob_data response))) (\<lambda>body.
                   bnd (store_resource url (resource\<lparr>er_etag := blob_etag response, er_body := body\<rparr>)) (\<lambda>_.
                   ret (respond 200 cors_header (Some body))))) (cache, s')
                 else (Inr (respond 200 cors_header (Some (er_body resource))), (cache, s'))))
          (\<lambda>_. ret (respond 404 None (Some (JStr '''')))) (cache, s0))"

definition swagger_host :: "FrontendRequest \<Rightarrow> string" where
  "swagger_host frontendRequest =
     (let hs = fr_headers frontendRequest in
      case (truthy_header hs ''x-forwarded-host'', truthy_header hs ''x-forwarded-port'') of
        (Some h, Some p) \<Rightarrow> h @ '':'' @ p
      | _ \<Rightarrow> (case map_of hs ''Host'' of None \<Rightarrow> '''' | Some h \<Rightarrow> h))"

definition getSwaggerSpecification ::
  "'s metadata_env \<Rightarrow> string \<Rightarrow> FrontendRequest \<Rightarrow> (FrontendResponse, 's metadata_state) act" where
  "getSwaggerSpecification env url frontendRequest =
     getFileFromBlobStorage env url (\<lambda>data.
       case data of
         JStr text \<Rightarrow> res_bind (useTemplate (me_config env) text (swagger_host frontendRequest) (fr_stage frontendRequest))
                       (\<lambda>t. Inr (JStr t))
       | _ \<Rightarrow> Inl (TypeError ''data.replace is not a function''))"

section \<open>Endpoints\<close>

definition swaggerResourceUrl :: string where
  "swaggerResourceUrl = ''https://edfidata.s3.us-west-2.amazonaws.com/Meadowlark/3.3.0-b-resource.json''"

definition swaggerDescriptorUrl :: string where
  "swaggerDescriptorUrl = ''https://edfidata.s3.us-west-2.amazonaws.com/Meadowlark/3.3.0-b-descriptor.json''"

definition dependenciesUrl :: string where
  "dependenciesUrl = ''https://edfidata.s3.us-west-2.amazonaws.com/Meadowlark/v3.3.0-b.dependencies.json''"

definition apiVersion :: "'s metadata_env \<Rightarrow> FrontendRequest \<Rightarrow> FrontendResponse res" where
  "apiVersion env frontendRequest =
     res_bind (createApiVersionObject (me_config env) (buildBaseUrlFromRequest frontendRequest)) (\<lambda>body.
       Inr (respond 200 cors_header (Some body)))"

definition swaggerForResourcesAPI where
  "swaggerForResourcesAPI env frontendRequest = getSwaggerSpecification env swaggerResourceUrl frontendRequest"

definition openApiUrlList :: "FrontendRequest \<Rightarrow> FrontendResponse" where
  "openApiUrlList frontendRequest =
     respond 200 None (Some (openApiListTemplate (buildBaseUrlFromRequest frontendRequest)))"

definition swaggerForDescriptorsAPI where
  "swaggerForDescriptorsAPI env frontendRequest = getSwaggerSpecification env swaggerDescriptorUrl frontendRequest"

definition dependencies :: "'s metadata_env \<Rightarrow> (FrontendResponse, 's metadata_state) act" where
  "dependencies env = getFileFromBlobStorage env dependenciesUrl (\<lambda>data. Inr data)"

definition xsdMetadata :: FrontendResponse where
  "xsdMetadata = respond 200 None (Some XsdTemplate)"


section \<open>Lemmas\<close>

lemma blob_fresh:
  assumes "map_of cache url = None" "me_axios_get env url (Some '''') s = (Inr response, s')"
    and "blob_status response = 200" "transformer (blob_data response) = Inr body"
  shows "getFileFromBlobStorage env url transformer (cache, s) =
    (Inr (respond 200 cors_header (Some body)),
     (AList.update url \<lparr>er_body = body, er_etag = blob_etag response\<rparr> cache, s'))"
  using assms by (simp add: getFileFromBlobStorage_def Let_def act_simps store_resource_def)

lemma blob_unchanged:
  assumes "map_of cache url = Some resource" "me_axios_get env url (er_etag resource) s = (Inr response, s')"
    and "blob_status response = 304"
  shows "getFileFromBlobStorage env url transformer (cache, s) =
    (Inr (respond 200 cors_header (Some (er_body resource))), (cache, s'))"
  using assms by (simp add: getFileFromBlobStorage_def Let_def act_simps)

lemma blob_never_throws: "\<exists>resp st'. getFileFromBlobStorage env url transformer st = (Inr resp, st')"
  by (cases st) (simp add: getFileFromBlobStorage_def Let_def act_simps split: prod.split sum.split)

section \<open>Properties\<close>

text \<open>The cached API description is the one rendered for the first request: as long as the storage answers 304, a
  request from any host and stage gets the host, the paths and the schemes of the request that filled the
  cache.\<close>

theorem swagger_cache_serves_first_host:
  assumes "map_of cache url = None"
    and "me_axios_get env url (Some '''') s = (Inr \<lparr>blob_status = 200, blob_etag = tag, blob_data = JStr template\<rparr>, s1)"
    and "useTemplate (me_config env) template (swagger_host first) (fr_stage first) = Inr rendered"
    and "me_axios_get env url tag s1 = (Inr response, s2)" "blob_status response = 304"
  shows "\<exists>st. getSwaggerSpecification env url first (cache, s) = (Inr (respond 200 cors_header (Some (JStr rendered))), st) \<and>
    fst (getSwaggerSpecification env url second st) = Inr (respond 200 cors_header (Some (JStr rendered)))"
proof -
  let ?cache = "AList.update url \<lparr>er_body = JStr rendered, er_etag = tag\<rparr> cache"
  have "getSwaggerSpecification env url first (cache, s) =
      (Inr (respond 200 cors_header (Some (JStr rendered))), (?cache, s1))"
    unfolding getSwaggerSpecification_def using assms(3) by (subst blob_fresh [OF assms(1,2)]) simp_all
  moreover have "getSwaggerSpecification env url second (?cache, s1) =
      (Inr (respond 200 cors_header (Some (JStr rendered))), (?cache, s2))"
    unfolding getSwaggerSpecification_def
    using blob_unchanged [of ?cache url "\<lparr>er_body = JStr rendered, er_etag = tag\<rparr>" env s1 response s2] assms(4,5)
    by (simp add: update_conv')
  ultimately show ?thesis by simp
qed

definition example_metadata_env :: "nat metadata_env" where
  "example_metadata_env = \<lparr>me_config = [(''OAUTH_SERVER_ENDPOINT_FOR_OWN_TOKEN_REQUEST'', CString ''http://t'')],
     me_axios_get = (\<lambda>_ tag n. (Inr (if tag = Some ''1'' then \<lparr>blob_status = 304, blob_etag = None, blob_data = JNull\<rparr>
       else \<lparr>blob_status = 200, blob_etag = Some ''1'', blob_data = JStr ''https://{{ host }}{{ basePath }}''\<rparr>), n + 1))\<rparr>"

theorem swagger_cache_serves_first_host_witness:
  "\<exists>st. getSwaggerSpecification example_metadata_env ''u'' (newFrontendRequest\<lparr>fr_headers := [(''Host'', ''first'')]\<rparr>) ([], 0) =
      (Inr (respond 200 cors_header (Some (JStr ''https://first//v3.3b/''))), st) \<and>
    fst (getSwaggerSpecification example_metadata_env ''u'' (newFrontendRequest\<lparr>fr_headers := [(''Host'', ''second'')]\<rparr>) st) =
      Inr (respond 200 cors_header (Some (JStr ''https://first//v3.3b/'')))"
proof (rule swagger_cache_serves_first_host)
  show "useTemplate (me_config example_metadata_env) ''https://{{ host }}{{ basePath }}''
      (swagger_host (newFrontendRequest\<lparr>fr_headers := [(''Host'', ''first'')]\<rparr>))
      (fr_stage (newFrontendRequest\<lparr>fr_headers := [(''Host'', ''first'')]\<rparr>)) = Inr ''https://first//v3.3b/''" by code_simp
  show "me_axios_get example_metadata_env ''u'' (Some '''') 0 =
      (Inr \<lparr>blob_status = 200, blob_etag = Some ''1'', blob_data = JStr ''https://{{ host }}{{ basePath }}''\<rparr>, 1)"
    by (simp add: example_metadata_env_def)
  show "me_axios_get example_metadata_env ''u'' (Some ''1'') 1 =
      (Inr \<lparr>blob_status = 304, blob_etag = None, blob_data = JNull\<rparr>, 2)" by (simp add: example_metadata_env_def)
qed simp_all

end
