(* ===== verification/Fastify.thy ===== *)
theory Fastify
  imports DescriptorLoader MetadataHandler AuthzServer
begin

text \<open>
  The Fastify service (\<open>services/meadowlark-fastify/src\<close>): the conversion of requests and responses, the route table
  with the handler of each route, and the start and end of the process with its workers.  Fastify itself, its router
  and \<open>node:url\<close> are fields of \<open>service_env\<close>; the locale \<open>http_router\<close> states how find-my-way chooses a route.
  Log messages are left out.
\<close>

section \<open>Requests and replies\<close>

record FastifyRequest =
  fq_method :: string
  fq_headers :: "Headers option"
  fq_hostname :: string
  fq_rawUrl :: "string option"
  fq_id :: "string option"
  fq_body :: "string option"
  fq_query :: "js_object option"

record FastifyReply =
  rp_code :: int
  rp_headers :: Headers
  rp_body :: "json option"

section \<open>FastifyUtility\<close>

text \<open>The name \<open>Host\<close> is added before the names are lowercased, and the last of two values under one name stays.\<close>

definition getHeaders :: "FastifyRequest \<Rightarrow> Headers" where
  "getHeaders fastifyRequest =
     (let headers = AList.update ''Host'' (fq_hostname fastifyRequest) (case fq_headers fastifyRequest of None \<Rightarrow> [] | Some h \<Rightarrow> h)
      in js_assign [] (map (\<lambda>(k, v). (js_toLowerCase k, v)) headers))"

definition extractPath :: "(string \<Rightarrow> string option) \<Rightarrow> FastifyRequest \<Rightarrow> string \<Rightarrow> string" where
  "extractPath url_pathname fastifyRequest stage =
     (let url = (case url_pathname (case fq_rawUrl fastifyRequest of None \<Rightarrow> '''' | Some u \<Rightarrow> u) of None \<Rightarrow> '''' | Some p \<Rightarrow> p)
      in drop (length stage + 1) url)"

section \<open>MeadowlarkConverter and AuthorizationConverter\<close>

text \<open>The stage, which the configuration reads as a string.\<close>

definition stage_of :: "(string \<times> ConfigValue) list \<Rightarrow> string res" where
  "stage_of config = res_bind (config_get config ''MEADOWLARK_STAGE'') (\<lambda>v. Inr (config_text v))"

definition fromRequest ::
  "(string \<times> ConfigValue) list \<Rightarrow> (string \<Rightarrow> string option) \<Rightarrow> FastifyRequest \<Rightarrow> FrontendRequest res" where
  "fromRequest config url_pathname fastifyRequest =
     res_bind (stage_of config) (\<lambda>stage.
       Inr (newFrontendRequest\<lparr>
         fr_path := extractPath url_pathname fastifyRequest stage,
         fr_traceId := (case fq_id fastifyRequest of None \<Rightarrow> '''' | Some i \<Rightarrow> i),
         fr_body := fq_body fastifyRequest, fr_headers := getHeaders fastifyRequest,
         fr_queryParameters := (case fq_query fastifyRequest of None \<Rightarrow> [] | Some q \<Rightarrow> q),
         fr_stage := stage\<rparr>))"

text \<open>The stage goes in front of a location.\<close>

definition staged_headers :: "(string \<times> ConfigValue) list \<Rightarrow> Headers option \<Rightarrow> Headers res" where
  "staged_headers config headers =
     (case headers of
        None \<Rightarrow> Inr []
      | Some hs \<Rightarrow>
          (case map_of hs LOCATION_HEADER_NAME of
             None \<Rightarrow> Inr hs
           | Some locationHeader \<Rightarrow>
               res_bind (stage_of config) (\<lambda>stage.
                 Inr (AList.update LOCATION_HEADER_NAME (''/'' @ stage @ locationHeader) hs))))"

definition respondWith :: "(string \<times> ConfigValue) list \<Rightarrow> FrontendResponse \<Rightarrow> FastifyReply res" where
  "respondWith config frontendResponse =
     res_bind (staged_headers config (resp_headers frontendResponse)) (\<lambda>headers.
       Inr \<lparr>rp_code = resp_statusCode frontendResponse, rp_headers = headers, rp_body = resp_body frontendResponse\<rparr>)"

definition authz_fromRequest ::
  "(string \<times> ConfigValue) list \<Rightarrow> (string \<Rightarrow> string option) \<Rightarrow> FastifyRequest \<Rightarrow> AuthorizationRequest res" where
  "authz_fromRequest config url_pathname fastifyRequest =
     res_bind (stage_of config) (\<lambda>stage.
       Inr (newAuthorizationRequest\<lparr>
         rq_path := extractPath url_pathname fastifyRequest stage,
         rq_traceId := (case fq_id fastifyRequest of None \<Rightarrow> '''' | Some i \<Rightarrow> i),
         rq_body := fq_body fastifyRequest, rq_headers := getHeaders fastifyRequest,
         rq_queryParameters := (case fq_query fastifyRequest of None \<Rightarrow> [] | Some q \<Rightarrow> q),
         rq_stage := stage\<rparr>))"

definition authz_respondWith :: "(string \<times> ConfigValue) list \<Rightarrow> AuthorizationResponse \<Rightarrow> FastifyReply res" where
  "authz_respondWith config authorizationResponse =
     res_bind (staged_headers config (ar_headers authorizationResponse)) (\<lambda>headers.
       Inr \<lparr>rp_code = ar_statusCode authorizationResponse, rp_headers = headers, rp_body = ar_body authorizationResponse\<rparr>)"

section \<open>State and environment\<close>

record ('s, 'z, 'm) service_state =
  sv_facade :: "'s facade_state"
  sv_authz :: "'z authz_state"
  sv_metadata :: "'m metadata_state"

text \<open>\<open>sve_stage_variable\<close> is \<open>process.env.MEADOWLARK_STAGE\<close>.\<close>

record ('s, 'z, 'm) service_env =
  sve_facade :: "'s facade_env"
  sve_authz :: "'z authz_env"
  sve_metadata :: "'m metadata_env"
  sve_config :: "(string \<times> ConfigValue) list"
  sve_url_pathname :: "string \<Rightarrow> string option"
  sve_stage_variable :: "string option"

definition on_facade :: "('a, 's facade_state) act \<Rightarrow> ('a, ('s, 'z, 'm) service_state) act" where
  "on_facade m = (\<lambda>s. case m (sv_facade s) of (r, f) \<Rightarrow> (r, s\<lparr>sv_facade := f\<rparr>))"

definition on_authz :: "('a, 'z authz_state) act \<Rightarrow> ('a, ('s, 'z, 'm) service_state) act" where
  "on_authz m = (\<lambda>s. case m (sv_authz s) of (r, a) \<Rightarrow> (r, s\<lparr>sv_authz := a\<rparr>))"

definition on_metadata :: "('a, 'm metadata_state) act \<Rightarrow> ('a, ('s, 'z, 'm) service_state) act" where
  "on_metadata m = (\<lambda>s. case m (sv_metadata s) of (r, a) \<Rightarrow> (r, s\<lparr>sv_metadata := a\<rparr>))"

section \<open>The handlers of the routes\<close>

text \<open>\<open>respondWith(await f(fromRequest(request)), reply)\<close>.\<close>

definition converted ::
  "('s, 'z, 'm) service_env \<Rightarrow> (FrontendRequest \<Rightarrow> (FrontendResponse, ('s, 'z, 'm) service_state) act) \<Rightarrow>
   FastifyRequest \<Rightarrow> (FastifyReply, ('s, 'z, 'm) service_state) act" where
  "converted env f request =
     bnd (lift (fromRequest (sve_config env) (sve_url_pathname env) request)) (\<lambda>frontendRequest.
     bnd (f frontendRequest) (\<lambda>response. lift (respondWith (sve_config env) response)))"

definition authz_converted ::
  "('s, 'z, 'm) service_env \<Rightarrow> (AuthorizationRequest \<Rightarrow> (AuthorizationResponse, ('s, 'z, 'm) service_state) act) \<Rightarrow>
   FastifyRequest \<Rightarrow> (FastifyReply, ('s, 'z, 'm) service_state) act" where
  "authz_converted env f request =
     bnd (lift (authz_fromRequest (sve_config env) (sve_url_pathname env) request)) (\<lambda>authorizationRequest.
     bnd (f authorizationRequest) (\<lambda>response. lift (authz_respondWith (sve_config env) response)))"

definition crud_upsert where "crud_upsert env = converted env (\<lambda>r. on_facade (facade_upsert (sve_facade env) r))"
definition crud_get where "crud_get env = converted env (\<lambda>r. on_facade (facade_get (sve_facade env) r))"
definition crud_update where "crud_update env = converted env (\<lambda>r. on_facade (facade_update (sve_facade env) r))"
definition crud_deleteIt where "crud_deleteIt env = converted env (\<lambda>r. on_facade (facade_deleteIt (sve_facade env) r))"

definition route_apiVersion where
  "route_apiVersion env = converted env (\<lambda>r. lift (apiVersion (sve_metadata env) r))"
definition route_swaggerForResourcesAPI where
  "route_swaggerForResourcesAPI env = converted env (\<lambda>r. on_metadata (swaggerForResourcesAPI (sve_metadata env) r))"
definition route_openApiUrlList where
  "route_openApiUrlList env = converted env (\<lambda>r. ret (openApiUrlList r))"
definition route_swaggerForDescriptorsAPI where
  "route_swaggerForDescriptorsAPI env = converted env (\<lambda>r. on_metadata (swaggerForDescriptorsAPI (sve_metadata env) r))"
definition route_dependencies where
  "route_dependencies env = converted env (\<lambda>r. on_metadata (dependencies (sve_metadata env)))"
definition route_xsdMetadata where
  "route_xsdMetadata env = converted env (\<lambda>r. ret xsdMetadata)"

definition route_loadDescriptors ::
  "('s, 'z, 'm) service_env \<Rightarrow> FastifyRequest \<Rightarrow> (FastifyReply, ('s, 'z, 'm) service_state) act" where
  "route_loadDescriptors env request =
     (if sve_stage_variable env \<noteq> Some ''local''
      then ret \<lparr>rp_code = 404, rp_headers = [], rp_body = Some (JStr '''')\<rparr>
      else converted env (\<lambda>r. on_facade (facade_loadDescriptors (sve_facade env) r)) request)"

definition createAuthorizationClientHandler where
  "createAuthorizationClientHandler env = authz_converted env (\<lambda>r. on_authz (createClient (sve_authz env) r))"
definition updateAuthorizationClientHandler where
  "updateAuthorizationClientHandler env = authz_converted env (\<lambda>r. on_authz (updateClient (sve_authz env) r))"
definition requestTokenAuthorizationHandler where
  "requestTokenAuthorizationHandler env = authz_converted env (\<lambda>r. on_authz (requestToken (sve_authz env) r))"
definition verifyTokenAuthorizationHandler where
  "verifyTokenAuthorizationHandler env = authz_converted env (\<lambda>r. on_authz (verifyToken (sve_authz env) r))"
definition resetAuthorizationClientSecretHandler where
  "resetAuthorizationClientSecretHandler env =
     authz_converted env (\<lambda>r. on_authz (resetAuthorizationClientSecret (sve_authz env) r))"
definition getClientByIdHandler where
  "getClientByIdHandler env = authz_converted env (\<lambda>r. on_authz (getClientById (sve_authz env) r))"
definition getClientsHandler where
  "getClientsHandler env = authz_converted env (\<lambda>r. on_authz (getClients (sve_authz env) r))"

section \<open>The route table\<close>

datatype route_handler =
    CrudGet | CrudUpsert | CrudUpdate | CrudDelete
  | ApiVersion | OpenApiUrlList | SwaggerResources | SwaggerDescriptors | Dependencies | XsdMetadata | LoadDescriptors
  | GetClients | GetClientById | ResetClientSecret | CreateClient | UpdateClient | RequestToken | VerifyToken

type_synonym route = "string \<times> string \<times> route_handler"

definition configureRouting :: "string \<Rightarrow> route list" where
  "configureRouting stage = (let under = (\<lambda>p. ''/'' @ stage @ p) in [
     (''GET'', under ''/*'', CrudGet), (''POST'', under ''/*'', CrudUpsert),
     (''PUT'', under ''/*'', CrudUpdate), (''DELETE'', under ''/*'', CrudDelete),
     (''GET'', under '''', ApiVersion), (''GET'', under ''/'', ApiVersion),
     (''GET'', under ''/metadata'', OpenApiUrlList), (''GET'', under ''/metadata/'', OpenApiUrlList),
     (''GET'', under ''/metadata/resources/swagger.json'', SwaggerResources),
     (''GET'', under ''/metadata/descriptors/swagger.json'', SwaggerDescriptors),
     (''GET'', under ''/metadata/data/v3/dependencies'', Dependencies), (''GET'', under ''/metadata/xsd'', XsdMetadata),
     (''GET'', under ''/loadDescriptors'', LoadDescriptors),
     (''GET'', under ''/oauth/clients'', GetClients), (''GET'', under ''/oauth/clients/:clientId'', GetClientById),
     (''POST'', under ''/oauth/clients/:clientId/reset'', ResetClientSecret),
     (''POST'', under ''/oauth/clients'', CreateClient), (''PUT'', under ''/oauth/clients/*'', UpdateClient),
     (''POST'', under ''/oauth/token'', RequestToken), (''POST'', under ''/oauth/token/'', RequestToken),
     (''POST'', under ''/oauth/verify'', VerifyToken), (''POST'', under ''/oauth/verify/'', VerifyToken)])"

fun run_route ::
  "('s, 'z, 'm) service_env \<Rightarrow> route_handler \<Rightarrow> FastifyRequest \<Rightarrow> (FastifyReply, ('s, 'z, 'm) service_state) act" where
  "run_route env CrudGet = crud_get env"
| "run_route env CrudUpsert = crud_upsert env"
| "run_route env CrudUpdate = crud_update env"
| "run_route env CrudDelete = crud_deleteIt env"
| "run_route env ApiVersion = route_apiVersion env"
| "run_route env OpenApiUrlList = route_openApiUrlList env"
| "run_route env SwaggerResources = route_swaggerForResourcesAPI env"
| "run_route env SwaggerDescriptors = route_swaggerForDescriptorsAPI env"
| "run_route env Dependencies = route_dependencies env"
| "run_route env XsdMetadata = route_xsdMetadata env"
| "run_route env LoadDescriptors = route_loadDescriptors env"
| "run_route env GetClients = getClientsHandler env"
| "run_route env GetClientById = getClientByIdHandler env"
| "run_route env ResetClientSecret = resetAuthorizationClientSecretHandler env"
| "run_route env CreateClient = createAuthorizationClientHandler env"
| "run_route env UpdateClient = updateAuthorizationClientHandler env"
| "run_route env RequestToken = requestTokenAuthorizationHandler env"
| "run_route env VerifyToken = verifyTokenAuthorizationHandler env"

text \<open>The service that is built: its routes, whether requests are limited, and the content types whose bodies are read
  as text.\<close>

record service_settings =
  ss_routes :: "route list"
  ss_rateLimited :: bool
  ss_contentTypes :: "string list"
  ss_caseSensitive :: bool

definition setupRateLimiting :: "(string \<times> ConfigValue) list \<Rightarrow> bool res" where
  "setupRateLimiting config = res_bind (config_get config ''FASTIFY_RATE_LIMIT'') (\<lambda>v.
     Inr (case config_number v of None \<Rightarrow> False | Some n \<Rightarrow> 0 < n))"

definition buildService :: "(string \<times> ConfigValue) list \<Rightarrow> service_settings res" where
  "buildService config =
     res_bind (setupRateLimiting config) (\<lambda>limited.
     res_bind (stage_of config) (\<lambda>stage.
     Inr \<lparr>ss_routes = configureRouting stage, ss_rateLimited = limited,
          ss_contentTypes = [''application/json'', ''application/x-www-form-urlencoded''], ss_caseSensitive = False\<rparr>))"

text \<open>The hook \<open>onSend\<close>.\<close>

definition alwaysRespondAsJson :: "FastifyReply \<Rightarrow> FastifyReply" where
  "alwaysRespondAsJson reply = reply\<lparr>rp_headers := AList.update ''content-type'' ''application/json'' (rp_headers reply)\<rparr>"

text \<open>A request to the service: the router finds the route, the handler makes the reply, the hook completes it.
  \<open>None\<close> is a path without a route, which Fastify answers.\<close>

definition serve_request ::
  "(route list \<Rightarrow> string \<Rightarrow> string \<Rightarrow> route_handler option) \<Rightarrow> ('s, 'z, 'm) service_env \<Rightarrow> service_settings \<Rightarrow>
   FastifyRequest \<Rightarrow> (FastifyReply option, ('s, 'z, 'm) service_state) act" where
  "serve_request router env service request =
     (case router (ss_routes service) (fq_method request)
             (case sve_url_pathname env (case fq_rawUrl request of None \<Rightarrow> '''' | Some u \<Rightarrow> u) of None \<Rightarrow> '''' | Some p \<Rightarrow> p) of
        None \<Rightarrow> ret None
      | Some h \<Rightarrow> bnd (run_route env h request) (\<lambda>reply. ret (Some (alwaysRespondAsJson reply))))"

section \<open>How a router chooses\<close>

text \<open>A pattern matches a path segment by segment, whatever the case of the letters; a parameter stands for a segment that
  is not empty, a final star for all that is left.\<close>

fun segments_match :: "string list \<Rightarrow> string list \<Rightarrow> bool" where
  "segments_match [] xs \<longleftrightarrow> xs = []"
| "segments_match (p # ps) [] \<longleftrightarrow> False"
| "segments_match (p # ps) (x # xs) \<longleftrightarrow>
     (if p = ''*'' \<and> ps = [] then True
      else if js_startsWith p '':'' then x \<noteq> [] \<and> segments_match ps xs
      else js_toLowerCase p = js_toLowerCase x \<and> segments_match ps xs)"

definition pattern_matches :: "string \<Rightarrow> string \<Rightarrow> bool" where
  "pattern_matches p path \<longleftrightarrow> segments_match (split_on (CHR ''/'') p) (split_on (CHR ''/'') path)"

text \<open>Text before parameters before the star, from left to right.\<close>

definition segment_rank :: "string \<Rightarrow> nat" where
  "segment_rank p = (if p = ''*'' then 0 else if js_startsWith p '':'' then 1 else 2)"

fun at_least :: "nat list \<Rightarrow> nat list \<Rightarrow> bool" where
  "at_least (a # as) (b # bs) \<longleftrightarrow> b < a \<or> a = b \<and> at_least as bs"
| "at_least as [] \<longleftrightarrow> True"
| "at_least [] (b # bs) \<longleftrightarrow> False"

definition pattern_rank :: "string \<Rightarrow> nat list" where
  "pattern_rank p = map segment_rank (split_on (CHR ''/'') p)"

definition candidates :: "route list \<Rightarrow> string \<Rightarrow> string \<Rightarrow> route list" where
  "candidates routes verb path = filter (\<lambda>(m, p, h). m = verb \<and> pattern_matches p path) routes"

text \<open>The paths are those of requests without percent-encoded characters and with parameters that are not longer than
  the router allows.\<close>

locale http_router =
  fixes router :: "route list \<Rightarrow> string \<Rightarrow> string \<Rightarrow> route_handler option"
  assumes no_route: "router routes verb path = None \<longleftrightarrow> candidates routes verb path = []"
    and chosen_route: "router routes verb path = Some h \<Longrightarrow>
      \<exists>p. (verb, p, h) \<in> set (candidates routes verb path) \<and>
        (\<forall>(m, q, g) \<in> set (candidates routes verb path). at_least (pattern_rank p) (pattern_rank q))"

text \<open>A router that compares all candidates.\<close>

fun best_route :: "route \<Rightarrow> route list \<Rightarrow> route" where
  "best_route r [] = r"
| "best_route r (q # qs) =
     best_route (if at_least (pattern_rank (fst (snd r))) (pattern_rank (fst (snd q))) then r else q) qs"

definition compare_routes :: "route list \<Rightarrow> string \<Rightarrow> string \<Rightarrow> route_handler option" where
  "compare_routes routes verb path =
     (case candidates routes verb path of [] \<Rightarrow> None | r # rs \<Rightarrow> Some (snd (snd (best_route r rs))))"

lemma at_least_refl: "at_least as as"
  by (induction as) auto

lemma at_least_trans: "at_least as bs \<Longrightarrow> at_least bs cs \<Longrightarrow> at_least as cs"
proof (induction as bs arbitrary: cs rule: at_least.induct)
  case (1 a as b bs)
  then show ?case by (cases cs) auto
next
  case (2 as)
  then show ?case by (cases cs) (auto elim: at_least.elims)
qed simp

lemma at_least_total: "at_least as bs \<or> at_least bs as"
  by (induction as bs rule: at_least.induct) auto

lemma best_route_in: "best_route r rs \<in> set (r # rs)"
proof (induction rs arbitrary: r)
  case (Cons q qs)
  have "best_route r (q # qs) = best_route r qs \<or> best_route r (q # qs) = best_route q qs" by simp
  then show ?case
  proof
    assume "best_route r (q # qs) = best_route r qs"
    then show ?thesis using Cons [of r] by (simp only: set_simps) blast
  next
    assume "best_route r (q # qs) = best_route q qs"
    then show ?thesis using Cons [of q] by (simp only: set_simps) blast
  qed
qed simp

lemma best_route_max:
  "q \<in> set (r # rs) \<Longrightarrow> at_least (pattern_rank (fst (snd (best_route r rs)))) (pattern_rank (fst (snd q)))"
proof (induction rs arbitrary: r q)
  case Nil
  then show ?case by (simp add: at_least_refl)
next
  case (Cons p rs)
  let ?r = "if at_least (pattern_rank (fst (snd r))) (pattern_rank (fst (snd p))) then r else p"
  have best: "at_least (pattern_rank (fst (snd (best_route ?r rs)))) (pattern_rank (fst (snd x)))" if "x \<in> set (?r # rs)" for x
    using Cons.IH [of x ?r] that by blast
  have two: "at_least (pattern_rank (fst (snd ?r))) (pattern_rank (fst (snd r)))"
    "at_least (pattern_rank (fst (snd ?r))) (pattern_rank (fst (snd p)))"
    using at_least_total [of "pattern_rank (fst (snd r))" "pattern_rank (fst (snd p))"]
    by (cases "at_least (pattern_rank (fst (snd r))) (pattern_rank (fst (snd p)))", simp_all add: at_least_refl)
  have first: "at_least (pattern_rank (fst (snd (best_route ?r rs)))) (pattern_rank (fst (snd ?r)))"
    by (rule best) (rule list.set_intros(1))
  have run: "best_route r (p # rs) = best_route ?r rs" by simp
  consider "q = r" | "q = p" | "q \<in> set rs" using Cons.prems by (simp only: set_simps) blast
  then have "at_least (pattern_rank (fst (snd (best_route ?r rs)))) (pattern_rank (fst (snd q)))"
  proof cases
    case 3
    then show ?thesis by (intro best) (rule list.set_intros(2))
  next
    case 1
    show ?thesis unfolding 1 by (rule at_least_trans [OF first two(1)])
  next
    case 2
    show ?thesis unfolding 2 by (rule at_least_trans [OF first two(2)])
  qed
  then show ?case unfolding run .
qed

interpretation comparing: http_router compare_routes
proof (unfold_locales, goal_cases)
  case (1 routes verb path)
  then show ?case by (simp add: compare_routes_def split: list.split)
next
  case (2 routes verb path h)
  then obtain r rs where rs: "candidates routes verb path = r # rs" "h = snd (snd (best_route r rs))"
    by (auto simp: compare_routes_def split: list.splits)
  obtain m p g where best: "best_route r rs = (m, p, g)" by (cases "best_route r rs")
  have "(m, p, g) \<in> set (candidates routes verb path)" using best_route_in [of r rs] rs(1) best by simp
  moreover from this have "m = verb" by (auto simp: candidates_def)
  moreover have "at_least (pattern_rank p) (pattern_rank (fst (snd x)))" if "x \<in> set (candidates routes verb path)" for x
    using best_route_max [of x r rs] that rs(1) best by simp
  ultimately show ?case using rs(2) best by fastforce
qed

section \<open>The process\<close>

text \<open>The primary process forks workers and sends each its number.  \<open>Math.min\<close> is NaN when the setting is, and a loop up
  to NaN does nothing.\<close>

function fork_workers :: "int \<Rightarrow> int \<Rightarrow> int list" where
  "fork_workers i numberOfWorkers = (if i < numberOfWorkers then i # fork_workers (i + 1) numberOfWorkers else [])"
  by pat_completeness auto
termination
  by (relation "measure (\<lambda>(i, n). nat (n - i))") auto

declare fork_workers.simps [simp del]

definition primary :: "(string \<times> ConfigValue) list \<Rightarrow> int \<Rightarrow> int list res" where
  "primary config CPUS =
     res_bind (config_get config ''FASTIFY_NUM_THREADS'') (\<lambda>v.
       Inr (case config_number v of None \<Rightarrow> [] | Some n \<Rightarrow> fork_workers 0 (min n CPUS)))"

text \<open>A worker starts the service for the first message and stops listening; the result are the starts.\<close>

fun worker_messages :: "bool \<Rightarrow> int list \<Rightarrow> int list" where
  "worker_messages listening [] = []"
| "worker_messages listening (index # messages) =
     (if listening then index # worker_messages False messages else worker_messages listening messages)"

datatype start_action = StartService int | ForkWorkers "int list" | AwaitMessage

definition cluster_run :: "(string \<times> ConfigValue) list \<Rightarrow> int \<Rightarrow> bool \<Rightarrow> start_action res" where
  "cluster_run config CPUS isPrimary =
     (if isPrimary then res_bind (primary config CPUS) (\<lambda>ws. Inr (ForkWorkers ws)) else Inr AwaitMessage)"

definition start ::
  "(string \<Rightarrow> string option) \<Rightarrow> int \<Rightarrow> bool \<Rightarrow> (pino_options \<Rightarrow> unit res) \<Rightarrow> (start_action, config_state \<times> bool) act" where
  "start process_env CPUS isPrimary pino = (\<lambda>(c, logging).
     case initializeConfig process_env CPUS c of
       (Inl e, c') \<Rightarrow> (Inl e, (c', logging))
     | (Inr _, c') \<Rightarrow>
         (case initializeLogging (cfg_collection c') pino logging of
            (Inl e, logging') \<Rightarrow> (Inl e, (c', logging'))
          | (Inr _, logging') \<Rightarrow>
              (res_bind (config_get (cfg_collection c') ''FASTIFY_NUM_THREADS'') (\<lambda>v.
                 if v = CNumber ''1'' then Inr (StartService 0)
                 else cluster_run (cfg_collection c') CPUS isPrimary), (c', logging'))))"

datatype startup = Listening string | Exited int

text \<open>\<open>listen\<close> is the port to the address or an error; what is thrown inside ends the process.\<close>

definition serviceFactory :: "(string \<times> ConfigValue) list \<Rightarrow> (ConfigValue \<Rightarrow> string res) \<Rightarrow> startup res" where
  "serviceFactory config listen =
     res_bind (buildService config) (\<lambda>service.
       Inr (case res_bind (config_get config ''FASTIFY_PORT'') listen of
              Inl err \<Rightarrow> Exited 1
            | Inr address \<Rightarrow>
                (case stage_of config of Inl err \<Rightarrow> Exited 1 | Inr stage \<Rightarrow> Listening (address @ ''/'' @ stage))))"

definition closeMeadowlarkConnection :: "('s, 'z, 'm) service_env \<Rightarrow> (unit, ('s, 'z, 'm) service_state) act" where
  "closeMeadowlarkConnection env = on_facade (facade_closeConnection (sve_facade env))"

text \<open>A signal closes the connection, then the service, whose hook \<open>onClose\<close> closes the connection again, and then
  sends the signal to the process; the result is that signal.  The hook does not wait: an error of the second close is
  a rejection that nobody handles, which ends the process as well.\<close>

definition closeGracefully ::
  "('s, 'z, 'm) service_env \<Rightarrow> unit res \<Rightarrow> string \<Rightarrow> (string, ('s, 'z, 'm) service_state) act" where
  "closeGracefully env service_close signal =
     bnd (closeMeadowlarkConnection env) (\<lambda>_.
     bnd (closeMeadowlarkConnection env) (\<lambda>_.
     bnd (lift service_close) (\<lambda>_. ret signal)))"

end
