(* ===== verification/FastifyProperties.thy ===== *)
theory FastifyProperties
  imports Fastify
begin

text \<open>
  What the Fastify service shows: the headers and the path that reach the facade, which handler a path reaches, that
  every request for a document is answered as JSON, and what the start of the process forks.
\<close>

section \<open>Requests\<close>

lemma stage_of_string: "config_get config ''MEADOWLARK_STAGE'' = Inr (CString stage) \<Longrightarrow> stage_of config = Inr stage"
  by (simp add: stage_of_def config_text_def)

lemma assigned_keys: "fst ` set (js_assign t src) = fst ` set t \<union> fst ` set src"
proof (induction src arbitrary: t)
  case (Cons kv src)
  obtain k v where kv: "kv = (k, v)" by fastforce
  have "js_assign t (kv # src) = js_assign (AList.update k v t) src" by (simp add: js_assign_def kv)
  then show ?case using Cons [of "AList.update k v t"] by (simp add: kv dom_update [unfolded dom_map_of_conv_image_fst]) 
qed simp

lemma assigned_distinct: "distinct (map fst t) \<Longrightarrow> distinct (map fst (js_assign t src))"
proof (induction src arbitrary: t)
  case (Cons kv src)
  then show ?case by (cases kv) (simp add: js_assign_def distinct_update)
qed simp

lemma assigned_last: "map_of (js_assign t (src @ [(k, v)])) k = Some v"
  by (simp add: js_assign_def update_conv')

lemma update_new: "k \<notin> fst ` set hs \<Longrightarrow> AList.update k v hs = hs @ [(k, v)]"
  by (induction hs) auto

lemma lower_host: "js_toLowerCase ''Host'' = ''host''"
  by code_simp

text \<open>C39: The headers that reach the handlers: every name is in lower case and there once, and \<open>host\<close> is the host name
  that Fastify gives, provided that the headers of the request, which Node gives in lower case, do not have \<open>Host\<close>.\<close>

theorem request_headers_lowercase:
  assumes "fq_headers request = Some headers" "''Host'' \<notin> fst ` set headers"
  shows "list_all (\<lambda>(k, v). js_toLowerCase k = k) (getHeaders request) \<and> distinct (map fst (getHeaders request)) \<and>
    map_of (getHeaders request) ''host'' = Some (fq_hostname request)"
proof -
  have hs: "getHeaders request = js_assign [] (map (\<lambda>(k, v). (js_toLowerCase k, v)) headers @ [(''host'', fq_hostname request)])"
    using assms by (simp add: getHeaders_def update_new lower_host)
  have host: "js_toLowerCase ''host'' = ''host''" by code_simp
  have lower: "js_toLowerCase k = k" if "(k, v) \<in> set (getHeaders request)" for k v
  proof -
    have "k \<in> fst ` set (getHeaders request)" using that by force
    then have "k = ''host'' \<or> (\<exists>x \<in> set headers. k = js_toLowerCase (fst x))" unfolding hs assigned_keys by force
    then show ?thesis using host by (elim disjE bexE) (simp_all only: js_toLowerCase_idem)
  qed
  show ?thesis
  proof (intro conjI)
    show "list_all (\<lambda>(k, v). js_toLowerCase k = k) (getHeaders request)" using lower by (auto simp: list_all_iff)
    show "distinct (map fst (getHeaders request))" unfolding hs by (rule assigned_distinct) simp
    show "map_of (getHeaders request) ''host'' = Some (fq_hostname request)" unfolding hs by (rule assigned_last)
  qed
qed

theorem request_headers_lowercase_witness:
  "map_of (getHeaders \<lparr>fq_method = ''GET'', fq_headers = Some [(''Accept'', ''x''), (''accept'', ''y'')], fq_hostname = ''h:80'',
     fq_rawUrl = None, fq_id = None, fq_body = None, fq_query = None\<rparr>) ''host'' = Some ''h:80''"
  using request_headers_lowercase [of "\<lparr>fq_method = ''GET'', fq_headers = Some [(''Accept'', ''x''), (''accept'', ''y'')],
     fq_hostname = ''h:80'', fq_rawUrl = None, fq_id = None, fq_body = None, fq_query = None\<rparr>"] by simp

lemma getHeaders_lower: "map_of (getHeaders request) k = Some v \<Longrightarrow> js_toLowerCase k = k"
proof -
  assume "map_of (getHeaders request) k = Some v"
  then have "k \<in> fst ` set (getHeaders request)" by (force dest: map_of_SomeD)
  then have "k \<in> fst ` set (map (\<lambda>(k, v). (js_toLowerCase k, v))
      (AList.update ''Host'' (fq_hostname request) (case fq_headers request of None \<Rightarrow> [] | Some h \<Rightarrow> h)))"
    unfolding getHeaders_def Let_def assigned_keys by simp
  then show ?thesis by auto
qed

text \<open>Behind Fastify the Swagger documents have no host of their own: they are asked for under \<open>Host\<close>, a name that no
  request has any more, so that the host is what the forwarding headers say, or empty.\<close>

theorem swagger_host_is_lost:
  assumes "fromRequest config url_pathname request = Inr r"
  shows "swagger_host r = (case (truthy_header (getHeaders request) ''x-forwarded-host'', truthy_header (getHeaders request) ''x-forwarded-port'') of
      (Some h, Some p) \<Rightarrow> h @ '':'' @ p | _ \<Rightarrow> '''')"
proof -
  have "js_toLowerCase ''Host'' \<noteq> ''Host''" by code_simp
  then have none: "map_of (getHeaders request) ''Host'' = None" using getHeaders_lower [of request "''Host''"] by fastforce
  have "fr_headers r = getHeaders request" using assms by (auto simp: fromRequest_def)
  then show ?thesis by (simp add: swagger_host_def none split: option.split)
qed

theorem swagger_host_is_lost_witness:
  "\<exists>r. fromRequest [(''MEADOWLARK_STAGE'', CString ''local'')] Some \<lparr>fq_method = ''GET'', fq_headers = None,
      fq_hostname = ''api.org'', fq_rawUrl = Some ''/local/metadata'', fq_id = None, fq_body = None, fq_query = None\<rparr> = Inr r \<and>
    swagger_host r = ''''"
proof -
  let ?request = "\<lparr>fq_method = ''GET'', fq_headers = None, fq_hostname = ''api.org'', fq_rawUrl = Some ''/local/metadata'',
    fq_id = None, fq_body = None, fq_query = None\<rparr>"
  obtain r where r: "fromRequest [(''MEADOWLARK_STAGE'', CString ''local'')] Some ?request = Inr r"
    by (simp add: fromRequest_def stage_of_def config_get_def)
  have "truthy_header (getHeaders ?request) ''x-forwarded-host'' = None" by code_simp
  then show ?thesis using swagger_host_is_lost [OF r] r by simp
qed

section \<open>The location of a document\<close>

lemma drop_stage: "drop (length stage + 1) (''/'' @ stage @ path) = path"
  by simp

text \<open>C30: The Location with which the service answers an insert leads back to the document: a request for it, whose URL has
  no query, reaches the facade with a path whose parts are those of the insert and the uuid of the document.\<close>

theorem service_location_leads_back:
  assumes "config_get config ''MEADOWLARK_STAGE'' = Inr (CString stage)"
    and "pathComponentsFrom path = Some pc" "isDocumentUuidWellFormed u"
    and "resp_headers response = with_location h (resourceUriFrom pc u)" "respondWith config response = Inr reply"
    and "fq_rawUrl request = map_of (rp_headers reply) LOCATION_HEADER_NAME"
    and "\<forall>url. fq_rawUrl request = Some url \<longrightarrow> url_pathname url = Some url"
  shows "\<exists>r. fromRequest config url_pathname request = Inr r \<and>
    pathComponentsFrom (fr_path r) = Some (pc\<lparr>pc_documentUuid := Some u\<rparr>)"
proof -
  have "map_of (rp_headers reply) LOCATION_HEADER_NAME = Some (''/'' @ stage @ resourceUriFrom pc u)"
    using assms(5) by (auto simp: respondWith_def staged_headers_def assms(4) with_location_def update_conv' stage_of_string [OF assms(1)])
  then have url: "fq_rawUrl request = Some (''/'' @ stage @ resourceUriFrom pc u)" using assms(6) by simp
  then have "extractPath url_pathname request stage = resourceUriFrom pc u"
    using assms(7) unfolding extractPath_def by simp
  then show ?thesis using location_leads_back [OF assms(2,3)]
    by (simp add: fromRequest_def stage_of_string [OF assms(1)])
qed

theorem service_location_leads_back_witness:
  "\<exists>r. fromRequest [(''MEADOWLARK_STAGE'', CString ''local'')] Some \<lparr>fq_method = ''GET'', fq_headers = None, fq_hostname = ''h'',
      fq_rawUrl = Some ''/local/v3.3b/ed-fi/schools/6c5b3d2e-1f4a-4b7c-8d9e-0a1b2c3d4e5f'', fq_id = None, fq_body = None,
      fq_query = None\<rparr> = Inr r \<and>
    pathComponentsFrom (fr_path r) = Some \<lparr>pc_projectShortVersion = ''v3.3b'', pc_projectNamespace = ''ed-fi'',
      pc_endpointName = ''schools'', pc_documentUuid = Some ''6c5b3d2e-1f4a-4b7c-8d9e-0a1b2c3d4e5f''\<rparr>"
proof -
  let ?config = "[(''MEADOWLARK_STAGE'', CString ''local'')]" and ?u = "''6c5b3d2e-1f4a-4b7c-8d9e-0a1b2c3d4e5f''"
  let ?pc = "\<lparr>pc_projectShortVersion = ''v3.3b'', pc_projectNamespace = ''ed-fi'', pc_endpointName = ''schools'', pc_documentUuid = None\<rparr>"
  let ?request = "\<lparr>fq_method = ''GET'', fq_headers = None, fq_hostname = ''h'',
    fq_rawUrl = Some ''/local/v3.3b/ed-fi/schools/6c5b3d2e-1f4a-4b7c-8d9e-0a1b2c3d4e5f'', fq_id = None, fq_body = None, fq_query = None\<rparr>"
  let ?response = "\<lparr>resp_statusCode = 201, resp_headers = with_location None (resourceUriFrom ?pc ?u), resp_body = None\<rparr>"
  have path: "pathComponentsFrom ''/v3.3b/Ed-Fi/Schools'' = Some ?pc" by code_simp
  have uuid: "isDocumentUuidWellFormed ?u" by code_simp
  have uri: "resourceUriFrom ?pc ?u = ''/v3.3b/ed-fi/schools/6c5b3d2e-1f4a-4b7c-8d9e-0a1b2c3d4e5f''" by code_simp
  have stage: "config_get ?config ''MEADOWLARK_STAGE'' = Inr (CString ''local'')" by (simp add: config_get_def)
  obtain reply where reply: "respondWith ?config ?response = Inr reply"
    by (simp add: respondWith_def staged_headers_def stage_of_string [OF stage] with_location_def update_conv')
  then have "map_of (rp_headers reply) LOCATION_HEADER_NAME = fq_rawUrl ?request"
    by (auto simp: respondWith_def staged_headers_def stage_of_string [OF stage] with_location_def update_conv' uri)
  then show ?thesis
    using service_location_leads_back [OF stage path uuid _ reply, of None ?request Some] by simp
qed

section \<open>Routes\<close>

definition crud_handlers :: "route_handler set" where
  "crud_handlers = {CrudGet, CrudUpsert, CrudUpdate, CrudDelete}"

lemma under_segments: "CHR ''/'' \<notin> set stage \<Longrightarrow> split_on (CHR ''/'') (''/'' @ stage @ ''/'' @ p) = [] # stage # split_on (CHR ''/'') p"
  by (simp add: split_on_append_sep)

lemma crud_rank:
  "CHR ''/'' \<notin> set stage \<Longrightarrow> pattern_rank (''/'' @ stage @ ''/*'') = [2, segment_rank stage, 0]"
  using under_segments [of stage "''*''"] by (simp add: pattern_rank_def segment_rank_def js_startsWith_def)

lemma crud_pattern: "(m, p, h) \<in> set (configureRouting stage) \<Longrightarrow> h \<in> crud_handlers \<Longrightarrow> p = ''/'' @ stage @ ''/*''"
  by (auto simp: configureRouting_def crud_handlers_def Let_def)

lemma other_pattern:
  assumes "(m, p, h) \<in> set (configureRouting stage)" "h \<notin> crud_handlers" "CHR ''/'' \<notin> set stage"
  shows "p = ''/'' @ stage \<or> take 3 (pattern_rank p) = [2, segment_rank stage, 2]"
  using assms unfolding configureRouting_def Let_def crud_handlers_def pattern_rank_def
  by (auto simp: split_on_append_sep js_startsWith_def segment_rank_def)

lemma at_least_crud: "\<not> at_least [2, k, 0] (2 # k # 2 # rs)"
  by simp

text \<open>C29: The document handlers take what no other route wants: whatever router chooses the most specific route, a request
  reaches one of them exactly when a route matches and every route that matches is one of theirs; in particular no
  request for an endpoint of the OAuth server reaches them.\<close>

theorem crud_routes_come_last:
  assumes "http_router router" "CHR ''/'' \<notin> set stage" "stage \<noteq> ''*''"
  shows "router (configureRouting stage) verb path \<in> Some ` crud_handlers \<longleftrightarrow>
    candidates (configureRouting stage) verb path \<noteq> [] \<and>
    list_all (\<lambda>(m, p, h). h \<in> crud_handlers) (candidates (configureRouting stage) verb path)"
proof
  let ?routes = "configureRouting stage"
  assume "router ?routes verb path \<in> Some ` crud_handlers"
  then obtain h where h: "router ?routes verb path = Some h" "h \<in> crud_handlers" by blast
  obtain p where p: "(verb, p, h) \<in> set (candidates ?routes verb path)"
    and best: "\<forall>(m, q, g) \<in> set (candidates ?routes verb path). at_least (pattern_rank p) (pattern_rank q)"
    using http_router.chosen_route [OF assms(1) h(1)] by blast
  have "(verb, p, h) \<in> set (configureRouting stage)" using p by (simp add: candidates_def)
  then have star: "p = ''/'' @ stage @ ''/*''" using h(2) by (rule crud_pattern)
  have "g \<in> crud_handlers" if c: "(m, q, g) \<in> set (candidates ?routes verb path)" for m q g
  proof (rule ccontr)
    assume g: "g \<notin> crud_handlers"
    have "q = ''/'' @ stage \<or> take 3 (pattern_rank q) = [2, segment_rank stage, 2]"
      using c other_pattern [OF _ g assms(2)] by (auto simp: candidates_def)
    then show False
    proof
      assume "q = ''/'' @ stage"
      then have two: "segments_match [[], stage] (split_on (CHR ''/'') path)"
        using c assms(2) by (auto simp: candidates_def pattern_matches_def split_on_no_sep)
      have stage: "stage \<noteq> ''*''" by (rule assms(3))
      have "segments_match [[], stage, ''*''] (split_on (CHR ''/'') path)"
        using p star under_segments [OF assms(2), of "''*''"] by (auto simp: candidates_def pattern_matches_def)
      then show False using two stage
        by (cases "split_on (CHR ''/'') path"; cases "tl (split_on (CHR ''/'') path)") (auto split: if_splits)
    next
      assume t: "take 3 (pattern_rank q) = [2, segment_rank stage, 2]"
      have "pattern_rank q = take 3 (pattern_rank q) @ drop 3 (pattern_rank q)" by (rule append_take_drop_id [symmetric])
      then have "pattern_rank q = 2 # segment_rank stage # 2 # drop 3 (pattern_rank q)" by (simp only: t append.simps)
      moreover have "at_least (pattern_rank p) (pattern_rank q)" using best c by blast
      ultimately show False using at_least_crud crud_rank [OF assms(2)] star by metis
    qed
  qed
  then show "candidates ?routes verb path \<noteq> [] \<and> list_all (\<lambda>(m, p, h). h \<in> crud_handlers) (candidates ?routes verb path)"
    using p by (auto simp: list_all_iff)
next
  let ?routes = "configureRouting stage"
  assume c: "candidates ?routes verb path \<noteq> [] \<and> list_all (\<lambda>(m, p, h). h \<in> crud_handlers) (candidates ?routes verb path)"
  then obtain h where h: "router ?routes verb path = Some h" using http_router.no_route [OF assms(1)] by blast
  then have "h \<in> crud_handlers" using c http_router.chosen_route [OF assms(1) h] by (force simp: list_all_iff)
  then show "router ?routes verb path \<in> Some ` crud_handlers" using h by simp
qed

theorem crud_routes_come_last_witness:
  "compare_routes (configureRouting ''local'') ''GET'' ''/local/v3.3b/ed-fi/schools'' \<in> Some ` crud_handlers \<and>
   compare_routes (configureRouting ''local'') ''GET'' ''/local/oauth/clients/1'' \<notin> Some ` crud_handlers"
proof -
  have "candidates (configureRouting ''local'') ''GET'' ''/local/v3.3b/ed-fi/schools'' = [(''GET'', ''/local/*'', CrudGet)]"
    "candidates (configureRouting ''local'') ''GET'' ''/local/oauth/clients/1'' =
      [(''GET'', ''/local/*'', CrudGet), (''GET'', ''/local/oauth/clients/:clientId'', GetClientById)]" by code_simp+
  then show ?thesis
    using crud_routes_come_last [OF comparing.http_router_axioms, of "''local''" "''GET''" "''/local/v3.3b/ed-fi/schools''"]
      crud_routes_come_last [OF comparing.http_router_axioms, of "''local''" "''GET''" "''/local/oauth/clients/1''"]
    by (simp add: crud_handlers_def)
qed

section \<open>Replies\<close>

lemma facade_answers:
  "\<exists>resp s'. facade_upsert env r s = (Inr resp, s')" "\<exists>resp s'. facade_update env r s = (Inr resp, s')"
  "\<exists>resp s'. facade_deleteIt env r s = (Inr resp, s')" "\<exists>resp s'. facade_get env r s = (Inr resp, s')"
proof -
  have serve: "\<exists>resp s'. serve env stack handler r s = (Inr resp, s')" for stack handler and r s
    by (simp add: serve_def act_simps split: prod.split sum.split)
  show "\<exists>resp s'. facade_upsert env r s = (Inr resp, s')" "\<exists>resp s'. facade_update env r s = (Inr resp, s')"
    "\<exists>resp s'. facade_deleteIt env r s = (Inr resp, s')"
    by (simp_all add: facade_upsert_def facade_update_def facade_deleteIt_def serve)
  show "\<exists>resp s'. facade_get env r s = (Inr resp, s')" by (simp add: facade_get_def act_simps split: prod.split sum.split)
qed

lemma converted_answers:
  assumes "config_get (sve_config env) ''MEADOWLARK_STAGE'' = Inr (CString stage)" "\<And>r s. \<exists>resp s'. f r s = (Inr resp, s')"
  shows "\<exists>reply s'. converted env f request s = (Inr reply, s')"
proof -
  obtain r where r: "fromRequest (sve_config env) (sve_url_pathname env) request = Inr r"
    by (simp add: fromRequest_def stage_of_string [OF assms(1)])
  obtain resp s' where f: "f r s = (Inr resp, s')" using assms(2) by blast
  have "\<exists>reply. respondWith (sve_config env) resp = Inr reply"
    by (simp add: respondWith_def staged_headers_def stage_of_string [OF assms(1)] split: option.split)
  then show ?thesis using r f by (auto simp: converted_def act_simps)
qed

lemma crud_answers:
  assumes "config_get (sve_config env) ''MEADOWLARK_STAGE'' = Inr (CString stage)" "h \<in> crud_handlers"
  shows "\<exists>reply s'. run_route env h request s = (Inr reply, s')"
proof -
  have c: "\<exists>reply s'. converted env (\<lambda>r. on_facade (g r)) request s = (Inr reply, s')"
    if g: "\<And>r s. \<exists>resp s'. g r s = (Inr resp, s')" for g
  proof (rule converted_answers [OF assms(1)])
    fix r s
    show "\<exists>resp s'. on_facade (g r) s = (Inr resp, s')" using g [of r "sv_facade s"] by (auto simp: on_facade_def)
  qed
  from assms(2) consider "h = CrudGet" | "h = CrudUpsert" | "h = CrudUpdate" | "h = CrudDelete"
    by (auto simp: crud_handlers_def)
  then show ?thesis
  proof cases
    case 1
    show ?thesis unfolding 1 run_route.simps crud_get_def by (rule c) (rule facade_answers)
  next
    case 2
    show ?thesis unfolding 2 run_route.simps crud_upsert_def by (rule c) (rule facade_answers)
  next
    case 3
    show ?thesis unfolding 3 run_route.simps crud_update_def by (rule c) (rule facade_answers)
  next
    case 4
    show ?thesis unfolding 4 run_route.simps crud_deleteIt_def by (rule c) (rule facade_answers)
  qed
qed

text \<open>C16: A request that only routes for documents match is always replied to, and the reply says that it is JSON: no error
  of the store, the plugins or the middlewares gets through to Fastify.\<close>

theorem service_always_replies:
  assumes "http_router router" "config_get (sve_config env) ''MEADOWLARK_STAGE'' = Inr (CString stage)" "CHR ''/'' \<notin> set stage"
    and "buildService (sve_config env) = Inr service"
    and "path = (case sve_url_pathname env (case fq_rawUrl request of None \<Rightarrow> '''' | Some u \<Rightarrow> u) of None \<Rightarrow> '''' | Some p \<Rightarrow> p)"
    and "candidates (configureRouting stage) (fq_method request) path \<noteq> []"
    and "list_all (\<lambda>(m, p, h). h \<in> crud_handlers) (candidates (configureRouting stage) (fq_method request) path)"
  shows "\<exists>reply s'. serve_request router env service request s = (Inr (Some reply), s') \<and>
    map_of (rp_headers reply) ''content-type'' = Some ''application/json''"
proof -
  have routes: "ss_routes service = configureRouting stage"
    using assms(4) by (auto simp: buildService_def stage_of_string [OF assms(2)])
  obtain h where h: "router (configureRouting stage) (fq_method request) path = Some h" using assms(6) http_router.no_route [OF assms(1)] by blast
  then have crud: "h \<in> crud_handlers" using assms(7) http_router.chosen_route [OF assms(1) h] by (force simp: list_all_iff)
  obtain reply s' where "run_route env h request s = (Inr reply, s')" using crud_answers [OF assms(2) crud] by blast
  then show ?thesis using h by (simp add: serve_request_def routes assms(5) act_simps alwaysRespondAsJson_def update_conv')
qed

section \<open>The process\<close>

lemma fork_workers_upto: "fork_workers i n = [i..n - 1]"
proof (induction i n rule: fork_workers.induct)
  case (1 i n)
  then show ?case by (subst fork_workers.simps) (auto simp: upto.simps)
qed

text \<open>C40: The primary process ends its loop having forked as many workers as the setting says, but not more than there are
  processors, numbered from 0; a setting that is no number, or not positive, forks none, so that nothing listens.\<close>

theorem primary_forks_workers:
  assumes "config_get config ''FASTIFY_NUM_THREADS'' = Inr v"
  shows "primary config CPUS = Inr (map int [0..<(case config_number v of None \<Rightarrow> 0 | Some n \<Rightarrow> nat (min n CPUS))])"
proof -
  have "[0..n - 1] = map int [0..<nat n]" for n :: int
    by (cases "n \<le> 0") (auto intro!: nth_equalityI)
  then show ?thesis using assms by (simp add: primary_def fork_workers_upto split: option.split)
qed

theorem primary_forks_workers_witness:
  "primary [(''FASTIFY_NUM_THREADS'', CNumber ''8'')] 4 = Inr [0, 1, 2, 3] \<and>
   primary [(''FASTIFY_NUM_THREADS'', CNumber ''NaN'')] 4 = Inr []"
proof -
  have "config_number (CNumber ''8'') = Some 8" "config_number (CNumber ''NaN'') = None" by code_simp+
  then show ?thesis
    using primary_forks_workers [of "[(''FASTIFY_NUM_THREADS'', CNumber ''8'')]" "CNumber ''8''" 4]
      primary_forks_workers [of "[(''FASTIFY_NUM_THREADS'', CNumber ''NaN'')]" "CNumber ''NaN''" 4]
    by (simp add: config_get_def upt_rec)
qed

text \<open>A worker starts the service once, with the first number that it gets.\<close>

lemma worker_starts_once: "worker_messages True messages = take 1 messages"
proof -
  have "worker_messages False ms = []" for ms by (induction ms) auto
  then show ?thesis by (cases messages) simp_all
qed

text \<open>The descriptors are only loaded where the stage variable says so.\<close>

lemma loadDescriptors_only_local:
  "sve_stage_variable env \<noteq> Some ''local'' \<Longrightarrow>
   run_route env LoadDescriptors request s = (Inr \<lparr>rp_code = 404, rp_headers = [], rp_body = Some (JStr '''')\<rparr>, s)"
  by (simp add: route_loadDescriptors_def act_simps)

end
