(* ===== verification/Spec2Isabelle.thy ===== *)
theory Spec2Isabelle
  imports OAuthProperties PgAnomalies SearchService FastifyProperties
begin

text \<open>
  Meadowlark is an implementation of the Ed-Fi API: a service that stores the documents of educational
  organizations, checks them against the API schema, keeps the references between them intact, and answers
  REST requests of clients that hold tokens of its OAuth server.  This library models the TypeScript program
  under \<open>src/Meadowlark-js\<close> as functions of Isabelle/HOL and proves what makes its parts correct.

  \<^bold>\<open>Conventions.\<close>  An operation that reads and writes state is a function of type \<open>('a, 's) act\<close>, from a state
  to a result and a state; a result is \<open>Inr\<close> a value or \<open>Inl\<close> the error that was thrown, and an error keeps
  the state reached so far, as in the code.  \<open>bnd\<close>, \<open>ret\<close>, \<open>lift\<close> and \<open>try_catch\<close> compose them.  Objects of
  JSON are association lists in their order, numbers of JSON are the texts of their literals, \<open>undefined\<close> is
  \<open>None\<close>.  Packages outside of the repository (Ajv, JSONPath, nJwt, the HTTP client, the LRU cache, the digest,
  the MongoDB driver, node-postgres) are fields of environment records, and what proofs need of the drivers is in
  the laws of the locales \<open>mongo_store\<close>, \<open>mongo_authorizations\<close> and \<open>pg_store\<close>, interpreted on collections and
  tables in memory.

  \<^bold>\<open>Theories, in the order in which the program uses them.\<close>

  \<^item> \<open>Prelude\<close>: results, effects with rules for frames (\<open>preserves\<close>), invariants (\<open>triple\<close>) and partial
    correctness (\<open>hoare\<close>), JSON values and texts.
  \<^item> \<open>Identity\<close> (\<open>meadowlark-core/src/model\<close>): resources, identities and Meadowlark ids; which identities share an id.
  \<^item> \<open>Schema\<close> (\<open>model/api-schema\<close>, \<open>api-schema\<close>): the API schema and its lookup.
  \<^item> \<open>DocumentExtraction\<close> (\<open>extraction\<close>): identity, references, descriptors and superclass information of a document.
  \<^item> \<open>Validation\<close> (\<open>validation\<close>): endpoint, query, body and equality validation and the validator cache.
  \<^item> \<open>Requests\<close> and \<open>Middleware\<close> (\<open>handler/FrontendRequest.ts\<close>, \<open>middleware\<close>): the middleware model and the steps
    that parse, log and validate a request.
  \<^item> \<open>Configuration\<close> and \<open>Logging\<close> (\<open>meadowlark-utilities/src\<close>): settings, their cache, redaction of credentials.
  \<^item> \<open>Authorization\<close> (\<open>middleware/AuthorizationMiddleware.ts\<close>): the service's own token, the token cache, the
    strategy by roles.
  \<^item> \<open>PluginInterface\<close> (\<open>plugin\<close>, \<open>message\<close>): the interfaces of document stores and query handlers, loading, events.
  \<^item> \<open>Handlers\<close> (\<open>handler\<close>): upsert, update, delete, get and query over any store with the contract \<open>document_service\<close>.
  \<^item> \<open>MongoStore\<close>, \<open>MongoRepository\<close> (\<open>meadowlark-mongodb-backend/src\<close>): the driver's operations and laws, and the
    repository as it is written; \<open>MongoTransactions\<close> specifies each operation by its effect on the documents,
    \<open>MongoPlugin\<close> gives the plugin with its connection and the refinement, \<open>MongoIntegrity\<close> the invariant that
    references lead to stored documents, \<open>MongoProperties\<close> the properties and their examples.
  \<^item> \<open>FrontendFacade\<close>, \<open>DescriptorLoader\<close>, \<open>MetadataHandler\<close>: the stacks and the entry points of the service.
  \<^item> \<open>AuthzServer\<close>, \<open>AuthzProperties\<close>, \<open>OAuthProperties\<close> (\<open>meadowlark-authz-server/src\<close>): the OAuth server, invariants
    of its registered clients over the contract \<open>authorization_store\<close>, and its properties;
    \<open>MongoAuthorization\<close> is the store of MongoDB, which keeps that contract.
  \<^item> \<open>PgStore\<close>, \<open>PgSql\<close>, \<open>PgRepository\<close>, \<open>PgAuthorization\<close> (\<open>meadowlark-postgresql-backend/src\<close>): tables, the
    statements of a connection and their laws, every function of \<open>SqlHelper.ts\<close>, the repository, the pool and the
    plugin, the store of clients.  \<open>PgTransactions\<close> and \<open>PgOperations\<close> specify each operation by its effect on the
    tables (\<open>outcome\<close>), \<open>PgPlugin\<close> shows the refinement, \<open>PgIntegrity\<close> the invariant of references,
    \<open>PgProperties\<close> the properties; \<open>PgLiveness\<close> says what is carried out when the database works
    (\<open>pg_reliable\<close>), \<open>PgAnomalies\<close> where the code falls short.
  \<^item> \<open>SearchStore\<close>, \<open>Elasticsearch\<close>, \<open>Opensearch\<close> (\<open>meadowlark-elasticsearch-backend/src\<close>,
    \<open>meadowlark-opensearch-backend/src\<close>): the client of a search engine with its laws (\<open>search_engine\<close>,
    \<open>reliable_engine\<close>, interpreted on an engine in memory), the query handlers and the listeners that keep the index.
    \<open>SearchProperties\<close> says what listeners and queries do to and find in the index and relates the two backends,
    \<open>SearchComposition\<close> puts a search backend beside any document store (\<open>search_backed\<close>), \<open>SearchService\<close> has
    what follows for the requests of the service, and the examples.
  \<^item> \<open>Fastify\<close>, \<open>FastifyProperties\<close> (\<open>services/meadowlark-fastify/src\<close>): the conversion of HTTP requests and replies,
    the route table with its handlers, the start with one process or several, and the end; how a router chooses a
    route is the locale \<open>http_router\<close>.
  \<^item> This theory joins the handlers, the facade, the descriptor loader and the service over HTTP with the MongoDB plugin,
    beside the state of a search backend, whose listeners and query handler the examples run.

  \<^bold>\<open>What is shown.\<close>  Ids: when they exist and when they agree.  Extraction and validation: what exactly comes
  out.  MongoDB: for every operation each outcome with the documents it leaves, the refinement of an abstract
  store of uuids and documents, and referential integrity over all runs.  PostgreSQL: the same over tables, with
  referential integrity as long as identities do not change, the contract of the store of clients, at most five
  documents in a report, valid upserts and deletes carried out when no statement fails.  Referential integrity is that of
  requests with validation in which the aliases of a document, its own id and perhaps the id of its superclass, depend on
  its id alone and no document has the superclass id of another as its own.  Handlers and facade: every request is
  answered, documents never change without a token, and otherwise only behind an answer that says so, or behind a 500
  when a listener that runs after the write throws; listeners may fail but have no access to the documents
  (\<open>harmless_emitter\<close>), as those of the search backends have none.  OAuth: tokens
  and their lookup only for those who may have them, client management only for administrators, one bootstrap
  administrator.  Search: the index of a resource follows the successful writes through that resource, queries answer
  with what the index has of them and, with the ownership strategy, only with documents of the client, OpenSearch answers as
  Elasticsearch does, and a search backend changes nothing for clients that write while its client can be made.  A document
  is read back from the index as it was written unless it has a property \<open>info\<close> of its own (\<open>readable\<close>).  HTTP: which route gets a request, that
  requests for documents are replied to, that a Location leads back to its document, and that no request without a
  token changes a document.  Some properties state a behaviour the code does not mean to have; they are listed as findings.

  \<^bold>\<open>Bounds and termination.\<close>  All functions are total.  Recursion is structural or over the finite lists of a
  document or schema; retries of transactions in the collection in memory are counted by the setting
  \<open>MONGODB_MAX_NUMBER_OF_RETRIES\<close>, and the laws leave their number open.  The loop that forks workers is recursive in
  the workers that are left.

  \<^bold>\<open>Not modelled.\<close>  Requests are served one after the other: a transaction is seen as one step, so write
  conflicts appear as errors the driver may give, and two requests in flight do not interleave outside of
  transactions.  The connections of the PostgreSQL pool are one connection, whose statements are those of one
  request after the other; the keys that the database numbers and the normal form of its JSON columns are left
  out, and an error of COMMIT, or of a transaction of MongoDB, means that nothing was committed.  PostgreSQL compares uuids
  without regard to case, the model compares their texts.  The name of the MongoDB database, which
  \<open>getDocumentCollection\<close> reads from the settings, is left out: there is one collection of documents.  What is written to logs is left out except for
  its redaction; so the hooks of the service that log requests, and the events of workers that are only logged, are
  left out too.  Whether one clause of a query matches one document is decided by the engine, whose analysis of texts
  is a parameter (\<open>matches\<close>), and a listener that runs after a write is one step with it.  Fastify with its rate
  limiter, the parser of URLs and the listening socket are parameters, and the law of the router is that of paths
  without percent-encoded characters and with parameters of the allowed length; a worker that dies is not replaced, in the code
  as in the model.  Test helpers of the backends, tests, deployment files and the C# port are not part of the model.
\<close>

section \<open>The handlers over the MongoDB backend\<close>

text \<open>A backend with the MongoDB plugin as its document store, beside any other state, such as that of a search client,
  and with listeners that leave the documents alone.  A listener may fail, and the handler then fails with it.\<close>

locale mongo_service = mongo_store mg docs snap
  for mg :: "'s mongo_ops" and docs :: "'s \<Rightarrow> doc_map" and snap :: "'s \<Rightarrow> doc_map option" +
  fixes bk :: "('s client_state \<times> 't) backend"
  assumes backend_store: "bk_store bk = left_store (initializeDocumentStore mg)"
    and backend_listeners: "harmless_emitter (\<lambda>w. mongo_ok docs snap (fst w)) (\<lambda>w. mongo_stored docs (fst w)) (bk_emitter bk)"

lemma store_beside:
  assumes "mongo_store mg docs snap"
  shows "document_store (left_store (initializeDocumentStore mg)) (\<lambda>w. mongo_ok docs snap (fst w)) (\<lambda>w. mongo_stored docs (fst w))"
  using left_store_contract [OF mongo_store.store_contract [OF assms], of "\<lambda>_. True"] by (simp add: case_prod_unfold)

sublocale mongo_service < service: document_service "left_store (initializeDocumentStore mg)"
    "\<lambda>w. mongo_ok docs snap (fst w)" "\<lambda>w. mongo_stored docs (fst w)" bk
  by (intro document_service.intro document_service_axioms.intro store_beside mongo_store_axioms)
    (fact backend_store backend_listeners)+

definition mongo_backend :: "'s mongo_ops \<Rightarrow> 's client_state emitter \<Rightarrow> 's client_state backend" where
  "mongo_backend mg em = \<lparr>bk_store = initializeDocumentStore mg, bk_queryHandler = NoQueryHandlerPlugin,
     bk_emitter = em, bk_shake256 = mg_shake256 mg\<rparr>"

text \<open>The MongoDB plugin with the Elasticsearch listener and query handler.\<close>

lemma mongo_search_service: "mongo_service example_mongo mem_map mem_snap_map (search_backed se example_store_backend)"
  unfolding mongo_service_def mongo_service_axioms_def
  using example_store by (simp add: search_backed_simps example_store_backend_def right_emitter_harmless)

interpretation example_service: mongo_service example_mongo mem_map mem_snap_map "search_backed example_search example_store_backend"
  by (rule mongo_search_service)

context mongo_service
begin

lemmas upsert_answer = service.upsert_contract
lemmas update_answer = service.update_contract
lemmas delete_answer = service.delete_contract
lemmas get_answer = service.get_contract

end




text \<open>Runs of the handlers on the collection in memory: the body of \<open>search_post\<close> is stored, replaced and removed.\<close>

lemma mongo_stored_mem:
  "mongo_stored mem_map t = (\<lambda>d. (md_documentUuid d, md_edfiDoc d)) ` set (contents (mem_docs (snd t)))"
  unfolding mongo_stored_def mem_map_def set_contents by auto

lemma example_ok: "mongo_ok mem_map mem_snap_map (False, mem_start)"
  by (simp add: mongo_ok_def mem_start_def mem_snap_map_def unique_uuids_def mem_map_def lookup_def)

lemma search_stored_ok: "mongo_ok mem_map mem_snap_map search_stored"
proof -
  have "mem_snap_map (snd search_stored) = None" unfolding mem_snap_map_def map_option_is_None by code_simp
  moreover have "unique_uuids (mem_map (snd search_stored))" by (rule example_unique_uuids) code_simp
  ultimately show ?thesis by (simp add: mongo_ok_def)
qed

lemma search_stored_documents: "mongo_stored mem_map search_stored = {(numbered_uuid 0, JObj [(''k'', JStr ''a'')])}"
proof -
  have "map (\<lambda>d. (md_documentUuid d, md_edfiDoc d)) (contents (mem_docs (snd search_stored))) =
      [(numbered_uuid 0, JObj [(''k'', JStr ''a'')])]" by code_simp
  then show ?thesis unfolding mongo_stored_mem set_map [symmetric] by simp
qed

definition search_put :: FrontendRequest where
  "search_put = upd_middleware (\<lambda>m. m\<lparr>mw_documentInfo := ur_documentInfo (example_upsert ''a'' [] 3),
     mw_parsedBody := JObj [(''id'', JStr (numbered_uuid 0)), (''k'', JStr ''a'')],
     mw_pathComponents := \<lparr>pc_projectShortVersion = ''v3.3b'', pc_projectNamespace = ''ed-fi'',
       pc_endpointName = ''schools'', pc_documentUuid = Some (numbered_uuid 0)\<rparr>\<rparr>) search_post"

definition handler_status :: "FrontendResponse res \<times> 's \<Rightarrow> int" where
  "handler_status x = (case fst x of Inl _ \<Rightarrow> - 1 | Inr resp \<Rightarrow> resp_statusCode resp)"

lemma handler_statusE:
  assumes "handler_status x = n" "n \<noteq> - 1"
  obtains resp t' where "x = (Inr resp, t')" "resp_statusCode resp = n"
  using assms by (cases x) (auto simp: handler_status_def split: sum.splits)

lemma example_upsert_run:
  "handler_status (upsert (search_backed example_search example_store_backend) search_post ((False, mem_start), (None, []))) = 201"
  by code_simp

lemma example_update_run:
  "handler_status (update (search_backed example_search example_store_backend) search_put (search_stored, (None, []))) = 204"
  by code_simp

lemma example_delete_run:
  "handler_status (deleteIt (search_backed unreachable example_store_backend) search_put (search_stored, (None, []))) = 500"
  by code_simp



text \<open>The client cannot be made, so that the listener throws: 500, and the document is gone.\<close>

lemma deleted_but_answered_500:
  "contents (mem_docs (snd (fst (snd (deleteIt (search_backed unreachable example_store_backend) search_put
     (search_stored, (None, []))))))) = []"
  by code_simp


section \<open>The service over the MongoDB backend\<close>

text \<open>All of the service: the facade with the loader state \<open>l\<close>, in which the MongoDB plugin is the document
  store.\<close>

locale mongo_facade = mongo_service mg docs snap "backend_of env l"
  for mg :: "'s mongo_ops" and docs :: "'s \<Rightarrow> doc_map" and snap :: "'s \<Rightarrow> doc_map option"
    and env :: "('s client_state \<times> 't) facade_env" and l :: "('s client_state \<times> 't) loader_state" +
  assumes plugins_loaded: "pluginsLoaded l" and http_client: "http_frame (fe_oauth env)"

lemma with_client_Inr:
  assumes "with_client mg m t = (Inr x, t')"
  obtains s s' where "m s = (Inr x, s')"
  using assms by (auto simp: with_client_def on_client_def act_simps split: prod.splits sum.splits)

lemma posted_response:
  assumes "dsp_securityMiddleware (left_store (initializeDocumentStore mg)) (r, Some resp) w = (Inr model, w')"
  shows "model = (r, Some resp)"
proof -
  obtain t x where "w = (t, x)" by (cases w)
  then obtain t' where "with_client mg (securityMiddleware mg (r, Some resp)) t = (Inr model, t')"
    using assms by (auto simp: left_store_def on_left_def initializeDocumentStore_def split: prod.splits)
  then obtain s s' where "securityMiddleware mg (r, Some resp) s = (Inr model, s')" by (rule with_client_Inr)
  then show ?thesis by (simp add: securityMiddleware_def act_simps)
qed

sublocale mongo_facade < facade: facade_service "left_store (initializeDocumentStore mg)"
    "\<lambda>w. mongo_ok docs snap (fst w)" "\<lambda>w. mongo_stored docs (fst w)" env l
proof unfold_locales
  show "pluginsLoaded l" by (rule plugins_loaded)
  show "http_frame (fe_oauth env)" by (rule http_client)
qed (rule posted_response)

text \<open>The example loads the MongoDB plugin with the Elasticsearch listener and query handler.\<close>

type_synonym example_world = "mem client_state \<times> memory_index search_state"

definition example_facade_env :: "example_world facade_env" where
  "example_facade_env = \<lparr>fe_core = example_env\<lparr>ce_jsonPath := property_jsonpath\<rparr>,
     fe_oauth = \<lparr>oe_config = example_config, oe_axios_post = (\<lambda>_ _ _ _. ret active_answer),
       oe_cache_get = (\<lambda>_. ret None), oe_cache_set = (\<lambda>_ _. ret ())\<rparr>,
     fe_importer = \<lparr>import_documentStore = (\<lambda>_. Inr (left_store (initializeDocumentStore example_mongo))),
       import_queryHandler = (\<lambda>_. Inr (right_query (es_initializeQueryHandler example_search))),
       import_listener = (\<lambda>_. Inr (\<lambda>_. right_emitter (es_initializeListener example_search emptyEmitter))),
       cfg_DOCUMENT_STORE_PLUGIN = ''@edfi/meadowlark-mongodb-backend'',
       cfg_QUERY_HANDLER_PLUGIN = ''@edfi/meadowlark-elasticsearch-backend'',
       cfg_LISTENER1_PLUGIN = ''@edfi/meadowlark-elasticsearch-backend'', cfg_LISTENER2_PLUGIN = ''''\<rparr>,
     fe_json_parse = (\<lambda>text. Inr (JObj [(''schoolId'', JStr text)])), fe_date_now = (\<lambda>_. 86400000),
     fe_schema_file = Inr example_api_schema, fe_shake256 = prefix_digest,
     fe_config = [(''LOG_TO_FILE'', CBool False), (''LOG_PRETTY_PRINT'', CBool False), (''LOG_LEVEL'', CString ''info'')],
     fe_pino = (\<lambda>_. Inr ()), fe_xml_files = Inr [], fe_xml_parse = (\<lambda>_. Inr JNull)\<rparr>"

definition fresh_loader :: "example_world loader_state" where
  "fresh_loader = \<lparr>loadedDocumentStore = None, loadedQueryHandler = None, listenersLoadAttempted = False,
     loader_emitter = emptyEmitter, pluginsLoaded = False\<rparr>"

definition loaded_loader :: "example_world loader_state" where
  "loaded_loader = \<lparr>loadedDocumentStore = Some (left_store (initializeDocumentStore example_mongo)),
     loadedQueryHandler = Some (right_query (es_initializeQueryHandler example_search)), listenersLoadAttempted = True,
     loader_emitter = right_emitter (es_initializeListener example_search emptyEmitter), pluginsLoaded = True\<rparr>"

definition example_facade_state :: "example_world loader_state \<Rightarrow> mem client_state \<Rightarrow> example_world facade_state" where
  "example_facade_state l t = \<lparr>cs_apiSchemaCache = None, cs_validatorCache = [], cs_queryValidatorCache = [],
     cs_cachedOwnAccessTokenForClientAuth = None, fs_logging = False, fs_loader = l,
     fs_world = (t, (None, []))\<rparr>"

lemma loaded_backend: "backend_of example_facade_env loaded_loader = search_backed example_search example_store_backend"
  by (simp add: backend_of_def loaded_loader_def getDocumentStore_def getQueryHandler_def search_backed_def
      example_store_backend_def example_facade_env_def)

definition example_post :: "string \<Rightarrow> FrontendRequest" where
  "example_post body = bearer_request\<lparr>fr_path := ''/v3.3b/ed-fi/schools'', fr_body := Some body\<rparr>"

interpretation example_facade: mongo_facade example_mongo mem_map mem_snap_map example_facade_env loaded_loader
proof (intro mongo_facade.intro mongo_facade_axioms.intro, goal_cases)
  case 1
  show ?case unfolding loaded_backend by (rule mongo_search_service)
next
  case 2
  show ?case by (simp add: loaded_loader_def)
next
  case 3
  show ?case by (simp add: http_frame_def example_facade_env_def preserves_ret)
qed

context mongo_facade
begin

lemmas documents_upsert = facade.upsert_effect_on_documents [unfolded facade.serving_def]
lemmas documents_update = facade.update_effect_on_documents [unfolded facade.serving_def]
lemmas documents_delete = facade.delete_effect_on_documents [unfolded facade.serving_def]
lemmas documents_get = facade.get_effect_on_documents [unfolded facade.serving_def]

lemma documents_denied:
  assumes "fs_loader s = l" "mongo_ok docs snap (fst (fs_world s))"
    and "mw_security (fr_middleware r) = None" "extractClientBearerTokenFrom r = None"
    and "f \<in> {facade_upsert env, facade_update env, facade_deleteIt env, facade_get env}"
  shows "\<exists>resp s'. f r s = (Inr resp, s') \<and> resp \<in> {missing_token_response r, status_only 500} \<and>
    mongo_stored docs (fst (fs_world s')) = mongo_stored docs (fst (fs_world s))"
proof -
  let ?S = "mongo_stored docs (fst (fs_world s))"
  have s: "facade.serving ?S s" using assms(1,2) by (simp add: facade.serving_def)
  have r: "without_token r r" using assms(3,4) by (simp add: without_token_def)
  have "facade.denies ?S r f"
    using assms(5) facade.denied_actions [of ?S r] facade.denied_get [of ?S r] by blast
  then show ?thesis using s r unfolding facade.denies_def facade.serving_def by blast
qed

end



lemma example_post_runs:
  "handler_status (facade_upsert example_facade_env (example_post ''1'') (example_facade_state loaded_loader (False, mem_start))) = 201"
  by code_simp


text \<open>No entry point serves a request without a bearer token: over MongoDB it is answered with 400, or with 500
  when the service is not up, and no document changes, whatever the path, the body and the state of the caches.\<close>

theorem facade_denies_without_token:
  assumes "mongo_facade mg docs snap env l" "fs_loader s = l" "mongo_ok docs snap (fst (fs_world s))"
    and "mw_security (fr_middleware r) = None" "extractClientBearerTokenFrom r = None"
    and "f \<in> {facade_upsert env, facade_update env, facade_deleteIt env, facade_get env}"
  shows "\<exists>resp s'. f r s = (Inr resp, s') \<and> resp \<in> {missing_token_response r, status_only 500} \<and>
    mongo_stored docs (fst (fs_world s')) = mongo_stored docs (fst (fs_world s))"
  by (rule mongo_facade.documents_denied [OF assms])

theorem facade_denies_without_token_witness:
  "\<exists>resp s'. facade_deleteIt example_facade_env newFrontendRequest (example_facade_state loaded_loader (False, mem_start)) = (Inr resp, s') \<and>
     resp \<in> {missing_token_response newFrontendRequest, status_only 500} \<and>
     mongo_stored mem_map (fst (fs_world s')) =
       mongo_stored mem_map (fst (fs_world (example_facade_state loaded_loader (False, mem_start))))"
proof (rule facade_denies_without_token [OF example_facade.mongo_facade_axioms])
  show "extractClientBearerTokenFrom newFrontendRequest = None" by code_simp
qed (simp_all add: example_facade_state_def example_ok newFrontendRequest_def newFrontendRequestMiddleware_def)

text \<open>A GET with a path that is no resource path is answered with 500: the 404 that \<open>parsePath\<close> posts is dropped
  and the query that follows looks for a project without a name.\<close>

theorem facade_get_unparsed_path:
  assumes "fs_logging s" "pluginsLoaded (fs_loader s)" "pathComponentsFrom (fr_path r) = None"
    and "mw_pathComponents (fr_middleware r) = NoPathComponents" "mw_security (fr_middleware r) = Some sec"
    and "cs_apiSchemaCache s = Some a" "map_of (as_projectSchemas a) '''' = None"
  shows "fst (facade_get env r s) = Inr (status_only 500)"
proof -
  let ?q = "upd_middleware (\<lambda>m. m\<lparr>mw_apiSchema := a\<rparr>) (r\<lparr>fr_action := Action.query\<rparr>)"
  have parse: "parsePath (r, None) s = (Inr (r, Some (status_only 404)), s)"
    using assms(3) by (simp add: parsePath_def act_simps)
  have uuid: "pc_documentUuid (mw_pathComponents (fr_middleware r)) = None"
    using assms(4) by (simp add: NoPathComponents_def newPathComponents_def)
  obtain u s1 where init: "initialize env s = (Inr u, s1)" "cs_apiSchemaCache s1 = Some a"
    using assms(1,2,6) by (simp add: initialize_def on_logging_def on_loader_def initializeLogging_def
        ensurePluginsLoaded_once act_simps)
  have schema: "findApiSchema sf s1 = (Inr a, s1)" for sf
    using init(2) by (simp add: findApiSchema_def act_simps)
  obtain e where "endpointValidation (fe_core env) (?q, None) s1 = (Inl e, s1)"
    using unknown_project_throws [of ?q "fe_core env" s1] assms(4,7)
    by (auto simp: upd_middleware_def NoPathComponents_def newPathComponents_def)
  then have "queryStack env (fs_loader s1) (r\<lparr>fr_action := Action.query\<rparr>, None) s1 = (Inl e, s1)"
    using assms(5) by (simp add: queryStack_def loadApiSchema_def authorize_def schema act_simps upd_middleware_def)
  then have "facade_query env r s = (Inr (status_only 500), s1)"
    by (simp add: facade_query_def serve_def init(1) act_simps)
  then show ?thesis using parse uuid by (simp add: facade_get_def act_simps)
qed

theorem facade_get_unparsed_path_witness:
  "fst (facade_get example_facade_env (newFrontendRequest\<lparr>fr_path := ''/nothing'',
       fr_middleware := newFrontendRequestMiddleware\<lparr>mw_security := Some newSecurity\<rparr>\<rparr>)
     ((example_facade_state loaded_loader (False, mem_start))\<lparr>fs_logging := True, cs_apiSchemaCache := Some example_api_schema\<rparr>)) =
   Inr (status_only 500)"
proof (rule facade_get_unparsed_path [where a = example_api_schema and sec = newSecurity])
  show "map_of (as_projectSchemas example_api_schema) '''' = None" by code_simp
next
  show "pathComponentsFrom (fr_path (newFrontendRequest\<lparr>fr_path := ''/nothing'',
       fr_middleware := newFrontendRequestMiddleware\<lparr>mw_security := Some newSecurity\<rparr>\<rparr>)) = None" by code_simp
qed (simp_all add: example_facade_state_def loaded_loader_def newFrontendRequestMiddleware_def)


section \<open>Descriptors over the MongoDB backend\<close>

text \<open>A descriptor that is stored is never loaded again: its request has the time 0, so whatever the file says now,
  loading it counts as a failure and leaves the documents as they are.\<close>

theorem descriptor_reload_ignored:
  assumes "mongo_store mg docs snap" "mongo_ok docs snap t"
    and "descriptorRequest (mg_shake256 mg) name value = Inr request"
    and "docs (snd t) (ur_meadowlarkId request) = Some d" "0 \<le> md_lastModifiedAt d"
    and "loadDescriptor (mongo_backend mg emptyEmitter) name value t = (r, t')"
  shows "r \<noteq> Inr True \<and> mongo_stored docs t' = mongo_stored docs t"
proof (cases "descriptor_complete value = Inr True")
  case False
  then show ?thesis using assms(6) by (cases "descriptor_complete value") (auto simp: loadDescriptor_def act_simps)
next
  case True
  obtain x t1 where x: "with_client mg (upsertDocument mg request) t = (x, t1)"
    by (cases "with_client mg (upsertDocument mg request) t")
  have run: "r = (case x of Inl e \<Rightarrow> Inl e | Inr y \<Rightarrow> Inr (descriptor_loaded y)) \<and> t' = t1"
    using assms(6) True x assms(3)
    by (cases x) (simp_all add: loadDescriptor_def act_simps mongo_backend_def publish_defs emptyEmitter_def
        initializeDocumentStore_simps)
  have time: "di_requestTimestamp (ur_documentInfo request) = 0"
    using assms(3) by (auto simp: descriptorRequest_def descriptorDocumentInfoFrom_def newDocumentInfo_def Let_def)
  have stale: "\<not> upsert_succeeded y" if y: "x = Inr y" for y
  proof
    assume up: "upsert_succeeded y"
    obtain s where s: "snap s = None" "docs s = docs (snd t)" "upsertDocument mg request s = (Inr y, snd t1)"
      "unique_uuids (docs s)" by (rule mongo_store.store_success [OF assms(1,2) x [unfolded y]])
    have "upsert_effect mg (docs s) (docs s) request None y (docs (snd t1))"
      using mongo_store.upsertDocument_spec [OF assms(1) s(1,3)] up by simp
    then show False using up assms(4,5) time s(2)
      by (cases y) (auto simp: upsert_effect_def upsert_succeeded_def Let_def)
  qed
  have fail: "x \<noteq> Inr (INSERT_SUCCESS m u)" "x \<noteq> Inr (UpsertResult.UPDATE_SUCCESS m u)" for m u
    using stale [of "INSERT_SUCCESS m u"] stale [of "UpsertResult.UPDATE_SUCCESS m u"] by (auto simp: upsert_succeeded_def)
  have "mongo_stored docs t1 = mongo_stored docs t"
    using mongo_store.plugin_upsert_failure [OF assms(1,2) x fail] by simp
  moreover have "descriptor_loaded y = upsert_succeeded y" for y
    by (simp add: descriptor_loaded_def upsert_succeeded_def)
  ultimately show ?thesis using run stale by (cases x) simp_all
qed

definition example_descriptor :: "string \<Rightarrow> json" where
  "example_descriptor text = JObj [(''Namespace'', JStr ''uri''), (''CodeValue'', JStr ''Ninth''),
     (''ShortDescription'', JStr text), (''Description'', JStr text)]"

definition after_descriptor :: "mem client_state" where
  "after_descriptor = snd (loadDescriptor (mongo_backend example_mongo emptyEmitter) ''GradeDescriptor''
     (example_descriptor ''old'') (False, mem_start))"

theorem descriptor_reload_ignored_witness:
  "fst (loadDescriptor (mongo_backend example_mongo emptyEmitter) ''GradeDescriptor'' (example_descriptor ''new'') after_descriptor) \<noteq> Inr True \<and>
   map md_lastModifiedAt (contents (mem_docs (snd after_descriptor))) = [0]"
proof -
  let ?q = "descriptorRequest (mg_shake256 example_mongo) ''GradeDescriptor'' (example_descriptor ''new'')"
  have "case ?q of Inl e \<Rightarrow> False
    | Inr request \<Rightarrow> (case mem_map (snd after_descriptor) (ur_meadowlarkId request) of
        None \<Rightarrow> False | Some d \<Rightarrow> 0 \<le> md_lastModifiedAt d)" by code_simp
  then obtain request d where q: "?q = Inr request"
    and d: "mem_map (snd after_descriptor) (ur_meadowlarkId request) = Some d" "0 \<le> md_lastModifiedAt d"
    by (auto split: sum.splits option.splits)
  have "mem_snap_map (snd after_descriptor) = None" unfolding mem_snap_map_def map_option_is_None by code_simp
  moreover have "unique_uuids (mem_map (snd after_descriptor))" by (rule example_unique_uuids) code_simp
  ultimately have ok: "mongo_ok mem_map mem_snap_map after_descriptor" by (simp add: mongo_ok_def)
  have times: "map md_lastModifiedAt (contents (mem_docs (snd after_descriptor))) = [0]" by code_simp
  obtain r t' where run: "loadDescriptor (mongo_backend example_mongo emptyEmitter) ''GradeDescriptor''
      (example_descriptor ''new'') after_descriptor = (r, t')" by (rule prod.exhaust)
  show ?thesis using descriptor_reload_ignored [OF example_store ok q d run] times run by simp
qed


section \<open>The service over HTTP\<close>

text \<open>Any property of the state that the handler behind a conversion keeps is kept by the conversion.\<close>

lemma converted_keeps:
  assumes "Q s" "\<And>r. fromRequest (sve_config env) (sve_url_pathname env) request = Inr r \<Longrightarrow> Q (snd (f r s))"
  shows "Q (snd (converted env f request s))"
proof (cases "fromRequest (sve_config env) (sve_url_pathname env) request")
  case (Inl e)
  then show ?thesis using assms(1) by (simp add: converted_def act_simps)
next
  case (Inr r)
  obtain x s' where run: "f r s = (x, s')" by fastforce
  show ?thesis using assms(2) [OF Inr] by (cases x) (simp_all add: converted_def act_simps Inr run)
qed

lemma authz_converted_keeps:
  assumes "\<And>r s. sv_facade (snd (f r s)) = sv_facade s"
  shows "sv_facade (snd (authz_converted env f request s)) = sv_facade s"
proof (cases "authz_fromRequest (sve_config env) (sve_url_pathname env) request")
  case (Inl e)
  then show ?thesis by (simp add: authz_converted_def act_simps)
next
  case (Inr r)
  obtain x s' where run: "f r s = (x, s')" by fastforce
  show ?thesis using assms [of r s] by (cases x) (simp_all add: authz_converted_def act_simps Inr run)
qed

lemma other_state_keeps:
  "sv_facade (snd (on_authz m s)) = sv_facade s" "sv_facade (snd (on_metadata n s)) = sv_facade s"
  "sv_facade (snd (lift x s)) = sv_facade s" "sv_facade (snd (ret y s)) = sv_facade s"
  by (simp_all add: on_authz_def on_metadata_def lift_def ret_def split: prod.split)

lemma converted_frame:
  assumes "\<And>r s. sv_facade (snd (f r s)) = sv_facade s"
  shows "sv_facade (snd (converted env f request s)) = sv_facade s"
  by (rule converted_keeps [where Q = "\<lambda>t. sv_facade t = sv_facade s"]) (simp_all add: assms)

lemmas route_defs = route_apiVersion_def route_swaggerForResourcesAPI_def route_openApiUrlList_def
  route_swaggerForDescriptorsAPI_def route_dependencies_def route_xsdMetadata_def getClientsHandler_def
  getClientByIdHandler_def resetAuthorizationClientSecretHandler_def createAuthorizationClientHandler_def
  updateAuthorizationClientHandler_def requestTokenAuthorizationHandler_def verifyTokenAuthorizationHandler_def

text \<open>The handlers of metadata and of the OAuth server have no access to the documents.\<close>

lemma other_routes_keep:
  assumes "h \<notin> crud_handlers" "h \<noteq> LoadDescriptors"
  shows "sv_facade (snd (run_route env h request s)) = sv_facade s"
  using assms
  by (cases h) (simp_all add: crud_handlers_def route_defs converted_frame authz_converted_keeps other_state_keeps)

text \<open>A request without a bearer token: it has no authorization header, or one of another scheme.\<close>

definition bears_token :: "FastifyRequest \<Rightarrow> bool" where
  "bears_token request \<longleftrightarrow>
     (case map_of (getHeaders request) ''authorization'' of
        None \<Rightarrow> False | Some h \<Rightarrow> take 7 (js_toLowerCase h) = ''bearer '')"

lemma no_token_in_request:
  assumes "fromRequest config url_pathname request = Inr r" "\<not> bears_token request"
  shows "mw_security (fr_middleware r) = None" "extractClientBearerTokenFrom r = None"
proof -
  have "js_toLowerCase ''Authorization'' \<noteq> ''Authorization''" by code_simp
  then have capital: "map_of (getHeaders request) ''Authorization'' = None"
    using getHeaders_lower [of request "''Authorization''"] by fastforce
  show "mw_security (fr_middleware r) = None"
    using assms(1) by (auto simp: fromRequest_def newFrontendRequest_def newFrontendRequestMiddleware_def)
  have "fr_headers r = getHeaders request" using assms(1) by (auto simp: fromRequest_def)
  then show "extractClientBearerTokenFrom r = None"
    using assms(2) capital
    by (cases "map_of (getHeaders request) ''authorization''")
      (simp_all add: extractClientBearerTokenFrom_def bears_token_def js_startsWith_def numeral_eq_Suc)
qed


text \<open>C12: No request without a bearer token changes a document, end to end: whatever the method, the path and the route that
  the router chooses, and whatever fails, the documents after the request are those before it, as long as the service
  does not run at the stage \<open>local\<close>, where descriptors are loaded for anyone.  A request has no bearer token when it has
  no authorization header, or one that does not begin with \<open>bearer\<close> and a space in whatever case.\<close>

theorem service_changes_nothing_without_token:
  assumes "mongo_facade mg docs snap (sve_facade env) l" "fs_loader (sv_facade s) = l"
    and "mongo_ok docs snap (fst (fs_world (sv_facade s)))"
    and "\<not> bears_token request" "sve_stage_variable env \<noteq> Some ''local''"
  shows "mongo_stored docs (fst (fs_world (sv_facade (snd (serve_request router env service request s))))) =
    mongo_stored docs (fst (fs_world (sv_facade s)))"
proof -
  let ?S = "mongo_stored docs (fst (fs_world (sv_facade s)))"
  let ?Q = "\<lambda>t. mongo_stored docs (fst (fs_world (sv_facade t))) = ?S"
  have crud: "?Q (snd (converted env (\<lambda>r. on_facade (f r)) request s))"
    if f: "f \<in> {facade_upsert (sve_facade env), facade_update (sve_facade env), facade_deleteIt (sve_facade env),
      facade_get (sve_facade env)}" for f
  proof (rule converted_keeps [where Q = ?Q])
    fix r assume "fromRequest (sve_config env) (sve_url_pathname env) request = Inr r"
    then have "mw_security (fr_middleware r) = None" "extractClientBearerTokenFrom r = None"
      using no_token_in_request [OF _ assms(4)] by blast+
    from mongo_facade.documents_denied [OF assms(1-3) this f] obtain resp t
      where "f r (sv_facade s) = (Inr resp, t)" "mongo_stored docs (fst (fs_world t)) = ?S" by blast
    then show "?Q (snd (on_facade (f r) s))" by (simp add: on_facade_def)
  qed (rule refl)
  have run: "?Q (snd (run_route env h request s))" for h
  proof (cases "h \<in> crud_handlers \<or> h = LoadDescriptors")
    case False
    then show ?thesis by (simp add: other_routes_keep)
  next
    case True
    then consider "h = LoadDescriptors" | "h = CrudGet" | "h = CrudUpsert" | "h = CrudUpdate" | "h = CrudDelete"
      by (auto simp: crud_handlers_def)
    then show ?thesis
      using assms(5) crud
      by cases (simp_all add: route_loadDescriptors_def other_state_keeps crud_get_def crud_upsert_def crud_update_def crud_deleteIt_def)
  qed
  show ?thesis
  proof (cases "router (ss_routes service) (fq_method request)
      (case sve_url_pathname env (case fq_rawUrl request of None \<Rightarrow> '''' | Some u \<Rightarrow> u) of None \<Rightarrow> '''' | Some p \<Rightarrow> p)")
    case (Some h)
    obtain x t where "run_route env h request s = (x, t)" by (cases "run_route env h request s")
    then show ?thesis using run [of h] Some by (cases x) (simp_all add: serve_request_def act_simps)
  qed (simp add: serve_request_def act_simps)
qed

section \<open>An example of the service\<close>

definition example_service_env :: "(example_world, both_mem client_state, nat) service_env" where
  "example_service_env = \<lparr>sve_facade = example_facade_env, sve_authz = example_authz_env, sve_metadata = example_metadata_env,
     sve_config = [(''MEADOWLARK_STAGE'', CString ''api''), (''FASTIFY_RATE_LIMIT'', CNumber ''100'')],
     sve_url_pathname = Some, sve_stage_variable = Some ''api''\<rparr>"

text \<open>The document of \<open>search_post\<close> is stored.\<close>

definition example_service_state :: "(example_world, both_mem client_state, nat) service_state" where
  "example_service_state = \<lparr>sv_facade = example_facade_state loaded_loader search_stored,
     sv_authz = example_authz_state [example_client], sv_metadata = ([], 0)\<rparr>"

definition example_http :: "string \<Rightarrow> string \<Rightarrow> FastifyRequest" where
  "example_http verb url = \<lparr>fq_method = verb, fq_headers = Some [(''accept'', ''application/json'')], fq_hostname = ''h:80'',
     fq_rawUrl = Some url, fq_id = Some ''1'', fq_body = None, fq_query = None\<rparr>"

definition example_service :: service_settings where
  "example_service = \<lparr>ss_routes = configureRouting ''api'', ss_rateLimited = True,
     ss_contentTypes = [''application/json'', ''application/x-www-form-urlencoded''], ss_caseSensitive = False\<rparr>"

lemma example_service_built: "buildService (sve_config example_service_env) = Inr example_service"
  by (simp add: example_service_def) code_simp

definition example_basic :: FastifyRequest where
  "example_basic = (example_http ''DELETE'' (''/api/v3.3b/ed-fi/schools/'' @ numbered_uuid 0))
     \<lparr>fq_headers := Some [(''accept'', ''application/json''), (''Authorization'', ''Basic YTpi'')]\<rparr>"

theorem service_changes_nothing_without_token_witness:
  "mongo_stored mem_map (fst (fs_world (sv_facade (snd (serve_request compare_routes example_service_env example_service
      example_basic example_service_state))))) = {(numbered_uuid 0, JObj [(''k'', JStr ''a'')])}"
proof -
  have basic: "\<not> bears_token example_basic" by code_simp
  have facade: "mongo_facade example_mongo mem_map mem_snap_map (sve_facade example_service_env) loaded_loader"
    using example_facade.mongo_facade_axioms by (simp add: example_service_env_def)
  have state: "fs_loader (sv_facade example_service_state) = loaded_loader"
    "fst (fs_world (sv_facade example_service_state)) = search_stored"
    "sve_stage_variable example_service_env \<noteq> Some ''local''"
    by (simp_all add: example_service_state_def example_facade_state_def example_service_env_def)
  have ok: "mongo_ok mem_map mem_snap_map (fst (fs_world (sv_facade example_service_state)))"
    unfolding state by (rule search_stored_ok)
  from service_changes_nothing_without_token [OF facade state(1) ok basic state(3), of compare_routes example_service]
  show ?thesis unfolding state(2) search_stored_documents .
qed

theorem service_always_replies_witness:
  "\<exists>reply s'. serve_request compare_routes example_service_env example_service
      (example_http ''DELETE'' ''/api/v3.3b/ed-fi/schools/1'') example_service_state = (Inr (Some reply), s') \<and>
     map_of (rp_headers reply) ''content-type'' = Some ''application/json''"
proof (rule service_always_replies [OF comparing.http_router_axioms _ _ example_service_built refl])
  let ?path = "case sve_url_pathname example_service_env (case fq_rawUrl (example_http ''DELETE'' ''/api/v3.3b/ed-fi/schools/1'') of
      None \<Rightarrow> '''' | Some u \<Rightarrow> u) of None \<Rightarrow> '''' | Some p \<Rightarrow> p"
  show "config_get (sve_config example_service_env) ''MEADOWLARK_STAGE'' = Inr (CString ''api'')"
    by (simp add: example_service_env_def config_get_def)
  have path: "?path = ''/api/v3.3b/ed-fi/schools/1''" by (simp add: example_service_env_def example_http_def)
  have "candidates (configureRouting ''api'') (fq_method (example_http ''DELETE'' ''/api/v3.3b/ed-fi/schools/1''))
      ''/api/v3.3b/ed-fi/schools/1'' = [(''DELETE'', ''/api/*'', CrudDelete)]" by code_simp
  then show "candidates (configureRouting ''api'') (fq_method (example_http ''DELETE'' ''/api/v3.3b/ed-fi/schools/1'')) ?path \<noteq> []"
    "list_all (\<lambda>(m, p, h). h \<in> crud_handlers)
      (candidates (configureRouting ''api'') (fq_method (example_http ''DELETE'' ''/api/v3.3b/ed-fi/schools/1'')) ?path)"
    unfolding path by (simp_all add: crud_handlers_def)
qed simp

end
